(* ===== verification/Prelude.thy ===== *)
theory Prelude
  imports Main "HOL-Library.List_Lexorder" "HOL-Library.Char_ord"
begin

text \<open>
  Shared vocabulary of the development: Python exceptions as values, the error monad the
  components are written in, loops over lists that may raise, association lists for
  Python dictionaries, and the collections of lemmas the component proofs draw on.

  An operation that may raise has type \<open>'a result\<close>, that is \<open>exn + 'a\<close>: \<open>Inl e\<close> is the
  raised exception and \<open>Inr x\<close> the returned value.  Interpolated parts of messages are
  left out; the exception class and the fixed words of the message are kept.
\<close>

datatype exn =
    ValueError string
  | TypeError string
  | KeyError string
  | IndexError string
  | RuntimeError string

type_synonym 'a result = "exn + 'a"

named_theorems result_simps \<open>equations of the error monad\<close>
named_theorems frame_simps \<open>fields an operation leaves unchanged\<close>
named_theorems inv_intros \<open>introduction rules for component invariants\<close>

section \<open>The error monad\<close>

definition bindr :: "'a result \<Rightarrow> ('a \<Rightarrow> 'b result) \<Rightarrow> 'b result" where
  "bindr r f = (case r of Inl e \<Rightarrow> Inl e | Inr x \<Rightarrow> f x)"

definition require :: "bool \<Rightarrow> exn \<Rightarrow> unit result" where
  "require c e = (if c then Inr () else Inl e)"

lemma bindr_simps [simp, result_simps]:
  "bindr (Inl e) f = Inl e"
  "bindr (Inr x) f = f x"
  by (simp_all add: bindr_def)

lemma bindr_eq_Inr [result_simps]:
  "bindr r f = Inr y \<longleftrightarrow> (\<exists>x. r = Inr x \<and> f x = Inr y)"
  by (cases r) auto

lemma bindr_eq_Inl [result_simps]:
  "bindr r f = Inl e \<longleftrightarrow> r = Inl e \<or> (\<exists>x. r = Inr x \<and> f x = Inl e)"
  by (cases r) auto

lemma require_eq_Inr [simp, result_simps]: "require c e = Inr u \<longleftrightarrow> c"
  by (simp add: require_def)

lemma require_eq_Inl [result_simps]: "require c e = Inl e' \<longleftrightarrow> \<not> c \<and> e' = e"
  by (auto simp: require_def)

lemma require_True [simp]: "require True e = Inr ()"
  by (simp add: require_def)

lemma require_False [simp]: "require False e = Inl e"
  by (simp add: require_def)

lemma bindr_assoc: "bindr (bindr r f) g = bindr r (\<lambda>x. bindr (f x) g)"
  by (cases r) auto

lemma bindr_cong [fundef_cong]:
  "r = s \<Longrightarrow> (\<And>x. s = Inr x \<Longrightarrow> f x = g x) \<Longrightarrow> bindr r f = bindr s g"
  by (cases s) auto

section \<open>Loops that may raise\<close>

primrec mapr :: "('a \<Rightarrow> 'b result) \<Rightarrow> 'a list \<Rightarrow> 'b list result" where
  "mapr f [] = Inr []"
| "mapr f (x # xs) = bindr (f x) (\<lambda>y. bindr (mapr f xs) (\<lambda>ys. Inr (y # ys)))"

primrec foldr_res :: "('s \<Rightarrow> 'a \<Rightarrow> 's result) \<Rightarrow> 's \<Rightarrow> 'a list \<Rightarrow> 's result" where
  "foldr_res f s [] = Inr s"
| "foldr_res f s (x # xs) = bindr (f s x) (\<lambda>s'. foldr_res f s' xs)"

lemma mapr_length: "mapr f xs = Inr ys \<Longrightarrow> length ys = length xs"
  by (induction xs arbitrary: ys) (auto simp: result_simps)

lemma mapr_nth: "mapr f xs = Inr ys \<Longrightarrow> i < length xs \<Longrightarrow> f (xs ! i) = Inr (ys ! i)"
  by (induction xs arbitrary: ys i) (auto simp: result_simps nth_Cons split: nat.splits)

lemma mapr_iff_list_all2: "mapr f xs = Inr ys \<longleftrightarrow> list_all2 (\<lambda>x y. f x = Inr y) xs ys"
  by (induction xs arbitrary: ys) (auto simp: result_simps list_all2_Cons1)

lemma mapr_cong [fundef_cong]:
  "xs = ys \<Longrightarrow> (\<And>x. x \<in> set ys \<Longrightarrow> f x = g x) \<Longrightarrow> mapr f xs = mapr g ys"
  by (induction ys arbitrary: xs) auto

lemma mapr_Inr_map: "(\<And>x. x \<in> set xs \<Longrightarrow> f x = Inr (g x)) \<Longrightarrow> mapr f xs = Inr (map g xs)"
  by (induction xs) auto

lemma mapr_ident:
  "mapr f xs = Inr ys \<Longrightarrow> (\<And>x y. x \<in> set xs \<Longrightarrow> f x = Inr y \<Longrightarrow> y = x) \<Longrightarrow> ys = xs"
  by (induction xs arbitrary: ys) (auto simp: result_simps)

lemma foldr_res_append:
  "foldr_res f s (xs @ ys) = bindr (foldr_res f s xs) (\<lambda>s'. foldr_res f s' ys)"
  by (induction xs arbitrary: s) (auto simp: bindr_assoc)

lemma foldr_res_cong [fundef_cong]:
  "s = t \<Longrightarrow> xs = ys \<Longrightarrow> (\<And>u x. x \<in> set ys \<Longrightarrow> f u x = g u x) \<Longrightarrow>
   foldr_res f s xs = foldr_res g t ys"
  by (induction ys arbitrary: s t xs) (auto intro!: bindr_cong)

text \<open>The loop rule: what every iteration keeps, the whole loop keeps.\<close>

lemma foldr_res_invariant:
  assumes "foldr_res f s xs = Inr t" and "P s"
    and "\<And>u x v. x \<in> set xs \<Longrightarrow> P u \<Longrightarrow> f u x = Inr v \<Longrightarrow> P v"
  shows "P t"
  using assms
proof (induction xs arbitrary: s)
  case Nil
  then show ?case by simp
next
  case (Cons x xs)
  from Cons.prems(1) obtain s' where "f s x = Inr s'" and "foldr_res f s' xs = Inr t"
    by (auto simp: result_simps)
  with Cons show ?case by (metis list.set_intros)
qed

text \<open>A loop whose every iteration returns, and keeps what the next one needs, returns.\<close>

lemma foldr_res_lockstep:
  assumes "foldr_res f s xs = Inr s'" "foldr_res g t xs = Inr t'" "R s t"
    and "\<And>s t x s1 t1. x \<in> set xs \<Longrightarrow> R s t \<Longrightarrow> f s x = Inr s1 \<Longrightarrow> g t x = Inr t1 \<Longrightarrow> R s1 t1"
  shows "R s' t'"
  using assms
proof (induction xs arbitrary: s t)
  case (Cons x xs)
  from Cons.prems(1,2) obtain s1 t1 where "f s x = Inr s1" "foldr_res f s1 xs = Inr s'"
    "g t x = Inr t1" "foldr_res g t1 xs = Inr t'"
    by (auto simp: result_simps)
  with Cons.prems(3,4) show ?case by (intro Cons.IH [of s1 t1]) (auto intro: Cons.prems(4))
qed simp

lemma foldr_res_total:
  assumes "P s" and "\<And>u x. x \<in> set xs \<Longrightarrow> P u \<Longrightarrow> \<exists>v. f u x = Inr v \<and> P v"
  shows "\<exists>t. foldr_res f s xs = Inr t \<and> P t"
  using assms
proof (induction xs arbitrary: s)
  case Nil
  then show ?case by simp
next
  case (Cons x xs)
  from Cons.prems obtain v where "f s x = Inr v" "P v" by (meson list.set_intros(1))
  with Cons.IH [of v] Cons.prems(2) show ?case by simp
qed

lemma mapr_total:
  "(\<And>x. x \<in> set xs \<Longrightarrow> \<exists>y. f x = Inr y \<and> P y) \<Longrightarrow> \<exists>ys. mapr f xs = Inr ys \<and> list_all P ys"
proof (induction xs)
  case (Cons x xs)
  then obtain y ys where "f x = Inr y \<and> P y" "mapr f xs = Inr ys \<and> list_all P ys"
    by (meson list.set_intros)
  then show ?case by simp
qed simp

section \<open>Dictionaries as association lists\<close>

text \<open>
  A Python dictionary keeps insertion order, so it is an association list whose keys are
  distinct.  \<open>dict_set\<close> is \<open>d[k] = v\<close>: it overwrites in place or appends.
\<close>

primrec dict_set :: "'k \<Rightarrow> 'v \<Rightarrow> ('k \<times> 'v) list \<Rightarrow> ('k \<times> 'v) list" where
  "dict_set k v [] = [(k, v)]"
| "dict_set k v (p # ps) = (if fst p = k then (k, v) # ps else p # dict_set k v ps)"

lemma map_of_dict_set [simp]: "map_of (dict_set k v d) = (map_of d)(k \<mapsto> v)"
  by (induction d) auto

lemma keys_dict_set: "fst ` set (dict_set k v d) = insert k (fst ` set d)"
  by (induction d) auto

lemma dict_set_key: "(i, r) \<in> set (dict_set k v d) \<Longrightarrow> i = k \<or> (\<exists>r'. (i, r') \<in> set d)"
  by (induction d) (auto split: if_splits)

lemma dict_set_member: "x \<in> set (dict_set k v d) \<Longrightarrow> x = (k, v) \<or> x \<in> set d"
  by (induction d) (auto split: if_splits)

lemma distinct_dict_set: "distinct (map fst d) \<Longrightarrow> distinct (map fst (dict_set k v d))"
proof (induction d)
  case Nil
  then show ?case by simp
next
  case (Cons p d)
  then show ?case by (cases "fst p = k") (simp_all add: keys_dict_set)
qed

section \<open>Python lists, ranges and membership\<close>

text \<open>\<open>range(a, b)\<close> over the integers, and indexing of a sequence (negative indices count
  from the end, an index out of range raises IndexError).\<close>

definition py_range :: "int \<Rightarrow> int \<Rightarrow> int list" where
  "py_range a b = [a..b - 1]"

definition py_index :: "'a list \<Rightarrow> int \<Rightarrow> 'a result" where
  "py_index xs i =
     (let pos = (if 0 \<le> i then i else int (length xs) + i)
      in if pos < 0 \<or> int (length xs) \<le> pos then Inl (IndexError ''list index out of range'')
         else Inr (xs ! nat pos))"

lemma set_py_range [simp]: "set (py_range a b) = {a..<b}"
  by (auto simp: py_range_def)

lemma length_py_range [simp]: "length (py_range a b) = nat (b - a)"
  by (simp add: py_range_def)

lemma py_range_Nil [simp]: "py_range a b = [] \<longleftrightarrow> b \<le> a"
  by (auto simp: py_range_def)

lemma distinct_py_range [simp]: "distinct (py_range a b)"
  by (simp add: py_range_def)

lemma upto_nth: "i < nat (b - a + 1) \<Longrightarrow> [a..b] ! i = a + int i"
proof (induction i arbitrary: a)
  case 0
  then show ?case by (simp add: upto.simps)
next
  case (Suc i)
  then show ?case by (subst upto.simps) auto
qed

lemma py_range_nth: "i < nat (b - a) \<Longrightarrow> py_range a b ! i = a + int i"
  by (simp add: py_range_def upto_nth)

lemma py_index_nonneg:
  "0 \<le> i \<Longrightarrow> i < int (length xs) \<Longrightarrow> py_index xs i = Inr (xs ! nat i)"
  by (simp add: py_index_def)

text \<open>\<open>dict.fromkeys(xs)\<close>: the first occurrence of every element, in order.\<close>

fun dedup :: "'a list \<Rightarrow> 'a list" where
  "dedup [] = []"
| "dedup (x # xs) = x # filter (\<lambda>y. y \<noteq> x) (dedup xs)"

lemma set_dedup [simp]: "set (dedup xs) = set xs"
  by (induction xs) auto

lemma distinct_dedup [simp]: "distinct (dedup xs)"
  by (induction xs) auto

lemma dedup_distinct: "distinct xs \<Longrightarrow> dedup xs = xs"
  by (induction xs) (auto simp: filter_id_conv)

lemma dedup_eq_Nil [simp]: "dedup xs = [] \<longleftrightarrow> xs = []"
  by (cases xs) auto

text \<open>Unpacking a pair, \<open>a, b = xs\<close>.\<close>

lemma two_elements:
  "(case xs of [a, b] \<Rightarrow> f a b | _ \<Rightarrow> Inl e) = Inr r \<longleftrightarrow> (\<exists>a b. xs = [a, b] \<and> f a b = Inr r)"
  by (cases xs; cases "tl xs"; cases "tl (tl xs)") auto

text \<open>Looking an element up by key: the first match, as a \<open>for\<close> loop with an early return.\<close>

lemma find_map_update_other:
  assumes "\<And>x. x \<in> set xs \<Longrightarrow> key (g x) = key x" and "\<And>x. x \<in> set xs \<Longrightarrow> key x = k \<Longrightarrow> g x = x"
  shows "find (\<lambda>x. key x = k) (map g xs) = find (\<lambda>x. key x = k) xs"
  using assms by (induction xs) auto

lemma find_map_replace:
  "find (\<lambda>x. key x = k) (map (\<lambda>x. if key x = key y then y else x) xs) =
   (if key y = k then (if k \<in> key ` set xs then Some y else None)
    else find (\<lambda>x. key x = k) xs)"
  by (induction xs) auto

lemma find_in_keys: "(\<exists>y. find (\<lambda>x. key x = k) xs = Some y) \<longleftrightarrow> k \<in> key ` set xs"
  by (induction xs) auto

lemma find_Some_key: "find (\<lambda>x. key x = k) xs = Some y \<Longrightarrow> key y = k \<and> y \<in> set xs"
  by (induction xs) (auto split: if_splits)

end
