(* ===== verification/PyFloat.thy ===== *)
theory PyFloat
  imports Prelude Complex_Main "HOL-Library.Log_Nat"
begin

text \<open>
  Python floats.  A finite double is the exact rational it denotes; every arithmetic
  operation of the language is the exact operation followed by \<open>fl64\<close>, rounding to
  nearest with ties to even, precision 53 and least quantum \<open>2 powi -1074\<close> (so subnormal
  results are rounded as IEEE 754 does).  Overflow to infinity is outside the model: no
  modelled computation leaves the range below \<open>2 ^ 1024\<close>.  \<open>py_round\<close> and
  \<open>py_round_digits\<close> are the built-in \<open>round\<close>.
\<close>

section \<open>Rounding a rational to an integer\<close>

definition py_round :: "rat \<Rightarrow> int" where
  "py_round x =
     (let f = \<lfloor>x\<rfloor>; d = x - of_int f
      in if d < 1/2 then f else if 1/2 < d then f + 1 else if even f then f else f + 1)"

lemma py_round_of_int [simp]: "py_round (of_int n) = n"
  by (simp add: py_round_def)

lemma py_round_error: "\<bar>of_int (py_round x) - x\<bar> \<le> 1/2"
proof -
  have "of_int \<lfloor>x\<rfloor> \<le> x" and "x < of_int \<lfloor>x\<rfloor> + 1"
    by linarith+
  then show ?thesis by (auto simp: py_round_def Let_def)
qed

lemma py_round_mono: "x \<le> y \<Longrightarrow> py_round x \<le> py_round y"
proof -
  assume le: "x \<le> y"
  then have fl: "\<lfloor>x\<rfloor> \<le> \<lfloor>y\<rfloor>" by (rule floor_mono)
  show ?thesis
  proof (cases "\<lfloor>x\<rfloor> = \<lfloor>y\<rfloor>")
    case True
    with le show ?thesis by (auto simp: py_round_def Let_def)
  next
    case False
    with fl have "\<lfloor>x\<rfloor> + 1 \<le> \<lfloor>y\<rfloor>" by linarith
    then show ?thesis by (auto simp: py_round_def Let_def)
  qed
qed

lemma py_round_uminus: "py_round (- x) = - py_round x"
proof (cases "x = of_int \<lfloor>x\<rfloor>")
  case True
  have "py_round (- of_int \<lfloor>x\<rfloor>) = - py_round (of_int \<lfloor>x\<rfloor>)"
    using py_round_of_int [of "- \<lfloor>x\<rfloor>"] by (simp del: py_round_of_int) simp
  with True show ?thesis by simp
next
  case False
  then have "\<lfloor>- x\<rfloor> = - \<lfloor>x\<rfloor> - 1"
    by (metis ceiling_altdef ceiling_def minus_diff_eq minus_equation_iff add.commute
        diff_minus_eq_add uminus_add_conv_diff)
  then show ?thesis by (auto simp: py_round_def Let_def)
qed

lemma py_round_int_bounds:
  "of_int a \<le> x \<Longrightarrow> a \<le> py_round x" "x \<le> of_int b \<Longrightarrow> py_round x \<le> b"
  using py_round_mono [of "of_int a" x] py_round_mono [of x "of_int b"] by simp_all

section \<open>Rounding to a binary format\<close>

text \<open>
  \<open>binade q\<close> is the exponent \<open>e\<close> with \<open>2 powi e \<le> q < 2 powi (e + 1)\<close> of a positive
  rational, read off the bit lengths of numerator and denominator.
\<close>

definition pow2 :: "int \<Rightarrow> rat" where
  "pow2 k = (if 0 \<le> k then of_int (2 ^ nat k) else 1 / of_int (2 ^ nat (- k)))"

definition binade :: "rat \<Rightarrow> int" where
  "binade q =
     (let (a, b) = quotient_of q; k = bitlen a - bitlen b
      in if pow2 k \<le> q then k else k - 1)"

definition quantum :: "nat \<Rightarrow> int \<Rightarrow> rat \<Rightarrow> int" where
  "quantum p emin q = max (binade q - (int p - 1)) emin"

definition fl :: "nat \<Rightarrow> int \<Rightarrow> rat \<Rightarrow> rat" where
  "fl p emin x =
     (if x = 0 then 0
      else let u = pow2 (quantum p emin \<bar>x\<bar>) in of_int (py_round (x / u)) * u)"

definition fl64 :: "rat \<Rightarrow> rat" where "fl64 = fl 53 (-1074)"

definition fl32 :: "rat \<Rightarrow> rat" where "fl32 = fl 24 (-149)"

definition fadd :: "rat \<Rightarrow> rat \<Rightarrow> rat" where "fadd x y = fl64 (x + y)"
definition fsub :: "rat \<Rightarrow> rat \<Rightarrow> rat" where "fsub x y = fl64 (x - y)"
definition fmul :: "rat \<Rightarrow> rat \<Rightarrow> rat" where "fmul x y = fl64 (x * y)"
definition fdiv :: "rat \<Rightarrow> rat \<Rightarrow> rat" where "fdiv x y = fl64 (x / y)"

text \<open>\<open>round(x, n)\<close> is correctly rounded: the exact value is rounded to \<open>n\<close> decimals
  (ties to even) and the decimal is read back as a double.\<close>

definition py_round_digits :: "rat \<Rightarrow> nat \<Rightarrow> rat" where
  "py_round_digits x n = fl64 (of_int (py_round (x * 10 ^ n)) / 10 ^ n)"

lemma pow2_powi: "pow2 k = 2 powi k"
  by (simp add: pow2_def power_int_def field_simps)

lemma bitlen_powi_bounds:
  "0 < n \<Longrightarrow> 2 powi (bitlen n - 1) \<le> (of_int n :: rat) \<and> (of_int n :: rat) < 2 powi bitlen n"
proof -
  assume n: "0 < n"
  let ?l = "floorlog 2 (nat n)"
  have b: "2 ^ (?l - 1) \<le> nat n" "nat n < 2 ^ ?l"
    using floorlog_bounds [of "nat n" 2] n by auto
  have pos: "0 < ?l" using b(2) n by (cases ?l) auto
  have "(2::rat) powi (int ?l - 1) = of_nat (2 ^ (?l - 1))"
    using pos by (simp add: power_int_def nat_diff_distrib')
  moreover have "(2::rat) powi int ?l = of_nat (2 ^ ?l)"
    by (simp add: power_int_def)
  moreover have "(of_int n :: rat) = of_nat (nat n)" using n by simp
  ultimately show ?thesis using b by (simp only: of_nat_le_iff of_nat_less_iff bitlen_def)
qed

lemma powi_add_one: "(2::rat) powi (k + 1) = 2 * 2 powi k"
  by (simp add: power_int_add_1')

lemma powi_pos [simp]: "(0::rat) < 2 powi k"
  by (simp add: zero_less_power_int)

lemma powi_sub: "(2::rat) powi (a - b) = 2 powi a / 2 powi b"
  by (simp add: power_int_diff)

lemma binade_bounds:
  assumes "0 < q"
  shows "2 powi binade q \<le> q \<and> q < 2 powi (binade q + 1)"
proof -
  obtain a b where ab: "quotient_of q = (a, b)" by fastforce
  have q: "q = of_int a / of_int b" using quotient_of_div [OF ab] .
  have b: "0 < b" using quotient_of_denom_pos [OF ab] .
  with assms q have a: "0 < a" by (simp add: zero_less_divide_iff)
  let ?la = "bitlen a" and ?lb = "bitlen b"
  let ?k = "?la - ?lb"
  have la: "2 powi (?la - 1) \<le> (of_int a::rat)" "of_int a < (2::rat) powi ?la"
    and lb: "2 powi (?lb - 1) \<le> (of_int b::rat)" "of_int b < (2::rat) powi ?lb"
    using bitlen_powi_bounds [OF a] bitlen_powi_bounds [OF b] by auto
  have bp: "(0::rat) < of_int b" using b by simp
  have "?k - 1 = (?la - 1) - ?lb" by simp
  then have "(2::rat) powi (?k - 1) = 2 powi (?la - 1) / 2 powi ?lb"
    by (simp only: powi_sub)
  also have "\<dots> \<le> of_int a / of_int b"
    using la(1) lb(2) bp a by (intro frac_le) auto
  finally have low: "2 powi (?k - 1) \<le> q" using q by simp
  have "of_int a / (of_int b::rat) < 2 powi ?la / 2 powi (?lb - 1)"
    using la(2) lb(1) bp a by (intro frac_less) auto
  also have "\<dots> = 2 powi (?la - (?lb - 1))" by (rule powi_sub [symmetric])
  also have "?la - (?lb - 1) = ?k + 1" by simp
  finally have high: "q < 2 powi (?k + 1)" using q by simp
  show ?thesis
  proof (cases "2 powi ?k \<le> q")
    case True
    then have "binade q = ?k" by (simp add: binade_def ab pow2_powi)
    with True high show ?thesis by simp
  next
    case False
    then have "binade q = ?k - 1" by (simp add: binade_def ab pow2_powi)
    with False low show ?thesis by simp
  qed
qed

section \<open>Rounding is monotone, odd and idempotent\<close>

lemma powi_le_iff [simp]: "(2::rat) powi a \<le> 2 powi b \<longleftrightarrow> a \<le> b"
  by (meson linorder_not_le one_less_numeral_iff power_int_increasing power_int_strict_increasing
      not_le order_less_imp_le semiring_norm(76))

lemma powi_less_iff [simp]: "(2::rat) powi a < 2 powi b \<longleftrightarrow> a < b"
  by (simp add: not_le [symmetric])

lemma binade_unique:
  assumes "2 powi e \<le> q" "q < 2 powi (e + 1)"
  shows "binade q = e"
proof -
  have q: "0 < q" using assms(1) powi_pos [of e] by linarith
  have "2 powi binade q < (2::rat) powi (e + 1)" "2 powi e < (2::rat) powi (binade q + 1)"
    using binade_bounds [OF q] assms by linarith+
  then show ?thesis by simp
qed

lemma binade_mono:
  assumes "0 < x" "x \<le> y"
  shows "binade x \<le> binade y"
proof -
  have "2 powi binade x < (2::rat) powi (binade y + 1)"
    using binade_bounds [of x] binade_bounds [of y] assms by linarith
  then show ?thesis by simp
qed

lemma fl_0 [simp]: "fl p emin 0 = 0"
  by (simp add: fl_def)

lemma fl_uminus: "fl p emin (- x) = - fl p emin x"
  by (simp add: fl_def Let_def py_round_uminus flip: minus_divide_left)

text \<open>Integer multiples of a quantum that is at least the number's own are represented.\<close>

lemma powi_multiple: "q \<le> r \<Longrightarrow> \<exists>m. (2::rat) powi r = of_int m * 2 powi q"
proof -
  assume "q \<le> r"
  then have "(2::rat) powi r = 2 powi int (nat (r - q)) * 2 powi q"
    by (simp flip: power_int_add)
  also have "(2::rat) powi int (nat (r - q)) = of_int (2 ^ nat (r - q))"
    by (simp add: power_int_def)
  finally show ?thesis by blast
qed

lemma fl_exact:
  assumes "x = of_int m * 2 powi r" and "quantum p emin \<bar>x\<bar> \<le> r"
  shows "fl p emin x = x"
proof (cases "x = 0")
  case True
  then show ?thesis by simp
next
  case False
  let ?q = "quantum p emin \<bar>x\<bar>"
  from powi_multiple [OF assms(2)] obtain k where "(2::rat) powi r = of_int k * 2 powi ?q" by blast
  with assms(1) have "x = of_int (m * k) * 2 powi ?q"
    by (metis (no_types) mult.assoc of_int_mult)
  then have "x / 2 powi ?q = of_int (m * k)"
    by (metis (no_types) nonzero_mult_div_cancel_right powi_pos less_irrefl)
  then have "of_int (py_round (x / 2 powi ?q)) = x / 2 powi ?q"
    by (metis py_round_of_int)
  with False show ?thesis by (simp add: fl_def pow2_powi)
qed

lemma fl_nonneg: "0 \<le> x \<Longrightarrow> 0 \<le> fl p emin x"
proof -
  assume "0 \<le> x"
  then have "0 \<le> py_round (x / 2 powi quantum p emin \<bar>x\<bar>)"
    using py_round_int_bounds(1) [of 0 "x / 2 powi quantum p emin \<bar>x\<bar>"] by simp
  then show ?thesis by (simp add: fl_def Let_def pow2_powi)
qed

lemma fl_mono_pos:
  assumes "0 < x" "x \<le> y" and p: "0 < p"
  shows "fl p emin x \<le> fl p emin y"
proof -
  let ?qx = "quantum p emin x" and ?qy = "quantum p emin y"
  have y: "0 < y" using assms by linarith
  have be: "binade x \<le> binade y" using binade_mono assms by blast
  have le: "fl p emin x = of_int (py_round (x / 2 powi ?qx)) * 2 powi ?qx"
    "fl p emin y = of_int (py_round (y / 2 powi ?qy)) * 2 powi ?qy"
    using assms y by (simp_all add: fl_def Let_def pow2_powi)
  show ?thesis
  proof (cases "?qx = ?qy")
    case True
    have "py_round (x / 2 powi ?qy) \<le> py_round (y / 2 powi ?qy)"
      using assms(2) by (intro py_round_mono divide_right_mono) auto
    with True le show ?thesis by (simp add: mult_right_mono)
  next
    case False
    with be have lt: "?qx < ?qy" by (auto simp: quantum_def)
    then have qy: "?qy \<le> binade y" "?qx \<le> binade y" and bl: "binade x < binade y"
      using p be by (auto simp: quantum_def)
    obtain m where m: "(2::rat) powi binade y = of_int m * 2 powi ?qx"
      using powi_multiple [OF qy(2)] by blast
    obtain n where n: "(2::rat) powi binade y = of_int n * 2 powi ?qy"
      using powi_multiple [OF qy(1)] by blast
    have "x < 2 powi (binade x + 1)" using binade_bounds [of x] assms(1) by simp
    also have "\<dots> \<le> 2 powi binade y" using bl by simp
    finally have "x / 2 powi ?qx \<le> of_int m" using m by (simp add: divide_le_eq)
    then have "py_round (x / 2 powi ?qx) \<le> m" by (rule py_round_int_bounds(2))
    then have "fl p emin x \<le> 2 powi binade y" using le(1) m by (simp add: mult_right_mono)
    also have "of_int n \<le> y / 2 powi ?qy"
      using binade_bounds [OF y] n by (simp add: le_divide_eq)
    then have "n \<le> py_round (y / 2 powi ?qy)" by (rule py_round_int_bounds(1))
    then have "2 powi binade y \<le> fl p emin y" using le(2) n by (simp add: mult_right_mono)
    finally show ?thesis .
  qed
qed

lemma fl_mono:
  assumes "x \<le> y" "0 < p"
  shows "fl p emin x \<le> fl p emin y"
proof -
  consider "0 < x" | "x \<le> 0" "0 \<le> y" | "y < 0" using assms(1) by linarith
  then show ?thesis
  proof cases
    case 1
    then show ?thesis using fl_mono_pos assms by blast
  next
    case 2
    have "0 \<le> fl p emin (- x)" using 2 fl_nonneg by simp
    then have "fl p emin x \<le> 0" by (simp add: fl_uminus)
    then show ?thesis using fl_nonneg [OF 2(2), of p emin] by linarith
  next
    case 3
    then have "fl p emin (- y) \<le> fl p emin (- x)" using fl_mono_pos assms by simp
    then show ?thesis by (simp add: fl_uminus)
  qed
qed

text \<open>A number with a significand of at most \<open>p\<close> bits over a quantum of the format is
  its own rounding; so every rounded number is.\<close>

lemma fl_representable:
  assumes "x = of_int m * 2 powi r" "\<bar>m\<bar> < 2 ^ p" "emin \<le> r"
  shows "fl p emin x = x"
proof (cases "x = 0")
  case True
  then show ?thesis by simp
next
  case False
  have "\<bar>x\<bar> = of_int \<bar>m\<bar> * 2 powi r" using assms(1) by (simp add: abs_mult)
  also have "\<dots> < 2 ^ p * 2 powi r"
    using assms(2) by (metis mult_strict_right_mono of_int_less_iff of_int_numeral of_int_power powi_pos)
  also have "\<dots> = 2 powi (r + int p)" by (simp add: power_int_add)
  finally have "\<bar>x\<bar> < 2 powi (r + int p)" .
  moreover have "2 powi binade \<bar>x\<bar> \<le> \<bar>x\<bar>"
    using binade_bounds [of "\<bar>x\<bar>"] False by simp
  ultimately have "2 powi binade \<bar>x\<bar> < (2::rat) powi (r + int p)" by (rule le_less_trans [rotated])
  then have "quantum p emin \<bar>x\<bar> \<le> r" using assms(3) by (simp add: quantum_def)
  with assms(1) show ?thesis by (rule fl_exact)
qed

lemma fl_pow2: "emin \<le> r \<Longrightarrow> 0 < p \<Longrightarrow> fl p emin (2 powi r) = 2 powi r"
  using fl_representable [of "2 powi r" 1 r p emin] by (simp add: one_less_power)

end
