(* ===== verification/PyValue.thy ===== *)
theory PyValue
  imports PyFloat
begin

text \<open>
  Dynamic Python values as the JSON-facing code sees them, numpy arrays as data, and the
  canonical form every content address is computed from (\<open>contracts.py\<close>).

  A \<open>pyval\<close> is a value of the deterministic JSON domain, with \<open>PNonFinite\<close> for the
  floats the code rejects (nan and the infinities) and \<open>POther\<close> for any object outside the
  domain.  Lists and tuples are both \<open>PList\<close>: freezing makes tuples of lists and thawing
  lists of tuples, and the modelled code compares thawed values only.

  SHA-256 over the canonical JSON text, and over dtype, shape and bytes of an array, are the
  two functions of a \<open>hasher\<close>; nothing is assumed of them except where a theorem says so.
\<close>

section \<open>Values\<close>

datatype pyval =
    PNone
  | PBool bool
  | PInt int
  | PFloat rat
  | PNonFinite
  | PStr string
  | PList "pyval list"
  | PDict "(string \<times> pyval) list"
  | POther

primrec sequence :: "'a result list \<Rightarrow> 'a list result" where
  "sequence [] = Inr []"
| "sequence (r # rs) = bindr r (\<lambda>x. bindr (sequence rs) (\<lambda>xs. Inr (x # xs)))"

fun pair_result :: "'k \<times> 'a result \<Rightarrow> ('k \<times> 'a) result" where
  "pair_result (k, r) = bindr r (\<lambda>x. Inr (k, x))"

lemma sequence_map: "sequence (map f xs) = mapr f xs"
  by (induction xs) auto

lemma sequence_map_Inr: "(\<And>x. x \<in> set xs \<Longrightarrow> f x = Inr (g x)) \<Longrightarrow> sequence (map f xs) = Inr (map g xs)"
  by (simp add: sequence_map mapr_Inr_map)

text \<open>\<open>freeze_value\<close>: reject non-finite floats and foreign objects, keep the rest.\<close>

primrec freeze_value :: "pyval \<Rightarrow> pyval result" where
  "freeze_value PNone = Inr PNone"
| "freeze_value (PBool b) = Inr (PBool b)"
| "freeze_value (PInt i) = Inr (PInt i)"
| "freeze_value (PFloat x) = Inr (PFloat x)"
| "freeze_value PNonFinite = Inl (ValueError ''parameters floats must be finite'')"
| "freeze_value (PStr s) = Inr (PStr s)"
| "freeze_value (PList xs) = bindr (sequence (map freeze_value xs)) (\<lambda>ys. Inr (PList ys))"
| "freeze_value (PDict kvs) =
     bindr (sequence (map pair_result (map (map_prod id freeze_value) kvs)))
       (\<lambda>ys. Inr (PDict ys))"
| "freeze_value POther =
     Inl (TypeError ''parameters values must be JSON scalars, lists, tuples, or mappings'')"

text \<open>\<open>thaw_value\<close> turns tuples into lists and read-only mappings into dictionaries, which the
  representation does not tell apart, and keeps JSON scalars.\<close>

definition thaw_value :: "pyval \<Rightarrow> pyval" where
  "thaw_value v = v"

text \<open>\<open>_canonical_value\<close>: mapping keys sorted, non-finite floats rejected.\<close>

primrec canonical_value :: "pyval \<Rightarrow> pyval result" where
  "canonical_value PNone = Inr PNone"
| "canonical_value (PBool b) = Inr (PBool b)"
| "canonical_value (PInt i) = Inr (PInt i)"
| "canonical_value (PFloat x) = Inr (PFloat x)"
| "canonical_value PNonFinite = Inl (ValueError ''canonical values must contain finite floats'')"
| "canonical_value (PStr s) = Inr (PStr s)"
| "canonical_value (PList xs) = bindr (sequence (map canonical_value xs)) (\<lambda>ys. Inr (PList ys))"
| "canonical_value (PDict kvs) =
     bindr (sequence (map pair_result (sort_key fst (map (map_prod id canonical_value) kvs))))
       (\<lambda>ys. Inr (PDict ys))"
| "canonical_value POther =
     Inl (TypeError ''canonical values must use the deterministic JSON domain'')"

text \<open>The canonical form as a total function, and the values on which \<open>canonical_value\<close>
  returns it instead of raising.\<close>

primrec canon :: "pyval \<Rightarrow> pyval" where
  "canon PNone = PNone"
| "canon (PBool b) = PBool b"
| "canon (PInt i) = PInt i"
| "canon (PFloat x) = PFloat x"
| "canon PNonFinite = PNonFinite"
| "canon (PStr s) = PStr s"
| "canon (PList xs) = PList (map canon xs)"
| "canon (PDict kvs) = PDict (sort_key fst (map (map_prod id canon) kvs))"
| "canon POther = POther"

primrec json_domain :: "pyval \<Rightarrow> bool" where
  "json_domain PNone = True"
| "json_domain (PBool b) = True"
| "json_domain (PInt i) = True"
| "json_domain (PFloat x) = True"
| "json_domain PNonFinite = False"
| "json_domain (PStr s) = True"
| "json_domain (PList xs) = list_all id (map json_domain xs)"
| "json_domain (PDict kvs) = list_all snd (map (map_prod id json_domain) kvs)"
| "json_domain POther = False"

lemma map_prod_insort_fst:
  "insort_key fst (map_prod id f x) (map (map_prod id f) xs) =
   map (map_prod id f) (insort_key fst x xs)"
  by (induction xs) auto

lemma map_prod_sort_fst:
  "sort_key fst (map (map_prod id f) kvs) = map (map_prod id f) (sort_key fst kvs)"
  by (induction kvs) (simp_all add: map_prod_insort_fst [unfolded id_def] id_def)

lemma canonical_value_canon: "json_domain v \<Longrightarrow> canonical_value v = Inr (canon v)"
proof (induction v)
  case (PList xs)
  then show ?case
    by (auto simp: list_all_iff sequence_map_Inr [of xs canonical_value canon])
next
  case (PDict kvs)
  have "sequence (map (pair_result \<circ> map_prod id canonical_value) (sort_key fst kvs)) =
        Inr (map (map_prod id canon) (sort_key fst kvs))"
    using PDict by (intro sequence_map_Inr) (force simp: list_all_iff)
  then show ?case by (simp add: map_prod_sort_fst)
qed auto

lemma freeze_value_id: "freeze_value v = Inr w \<Longrightarrow> w = v"
proof (induction v arbitrary: w)
  case (PList xs)
  then obtain ys where ys: "mapr freeze_value xs = Inr ys" "w = PList ys"
    by (auto simp: result_simps sequence_map)
  have "ys = xs" using ys(1) PList.IH by (rule mapr_ident)
  with ys show ?case by simp
next
  case (PDict kvs)
  have "map pair_result (map (map_prod id freeze_value) kvs) =
        map (\<lambda>p. pair_result (map_prod id freeze_value p)) kvs" by simp
  with PDict.prems obtain ys
    where ys: "mapr (\<lambda>p. pair_result (map_prod id freeze_value p)) kvs = Inr ys" "w = PDict ys"
    by (auto simp: result_simps sequence_map simp del: map_map)
  have "q = p" if "p \<in> set kvs" "pair_result (map_prod id freeze_value p) = Inr q" for p q
  proof -
    obtain k v where p: "p = (k, v)" by (cases p)
    with that(2) obtain v' where "freeze_value v = Inr v'" "q = (k, v')"
      by (auto simp: result_simps)
    moreover have "freeze_value v = Inr v' \<Longrightarrow> v' = v"
      using PDict.IH [of "(k, v)" v v'] that(1) p by simp
    ultimately show ?thesis using p by simp
  qed
  with ys(1) have "ys = kvs" by (rule mapr_ident)
  with ys show ?case by simp
qed auto

text \<open>Python's \<open>==\<close> on JSON values: numbers compare by value across bool, int and float,
  dictionaries without regard to order.\<close>

primrec py_norm :: "pyval \<Rightarrow> pyval" where
  "py_norm PNone = PNone"
| "py_norm (PBool b) = PFloat (if b then 1 else 0)"
| "py_norm (PInt i) = PFloat (of_int i)"
| "py_norm (PFloat x) = PFloat x"
| "py_norm PNonFinite = PNonFinite"
| "py_norm (PStr s) = PStr s"
| "py_norm (PList xs) = PList (map py_norm xs)"
| "py_norm (PDict kvs) = PDict (sort_key fst (map (map_prod id py_norm) kvs))"
| "py_norm POther = POther"

definition py_eq :: "pyval \<Rightarrow> pyval \<Rightarrow> bool" where
  "py_eq v w \<longleftrightarrow> py_norm v = py_norm w"

lemma py_eq_refl [simp]: "py_eq v v"
  by (simp add: py_eq_def)

section \<open>Arrays\<close>

text \<open>An array is its dtype name, shape and elements in C order; \<open>None\<close> is a non-finite
  element.  Copying, freezing and \<open>ascontiguousarray\<close> keep this value.\<close>

record ndarray =
  nd_dtype :: string
  nd_shape :: "nat list"
  nd_data :: "rat option list"

definition all_finite :: "ndarray \<Rightarrow> bool" where
  "all_finite a \<longleftrightarrow> list_all (\<lambda>x. x \<noteq> None) (nd_data a)"

section \<open>Content addresses\<close>

record hasher =
  sha_json :: "pyval \<Rightarrow> string"
  sha_arr :: "ndarray \<Rightarrow> string"

definition array_sha256 :: "hasher \<Rightarrow> ndarray option \<Rightarrow> string option" where
  "array_sha256 h v = map_option (sha_arr h) v"

definition array_value :: "hasher \<Rightarrow> ndarray \<Rightarrow> pyval" where
  "array_value h a =
     PDict [(''__ndarray__'', PStr (sha_arr h a)), (''dtype'', PStr (nd_dtype a)),
            (''shape'', PList (map (\<lambda>n. PInt (int n)) (nd_shape a)))]"

definition canonical_hash :: "hasher \<Rightarrow> pyval \<Rightarrow> string" where
  "canonical_hash h v = sha_json h (canon v)"

text \<open>A lowercase SHA-256, as \<open>re.fullmatch("[0-9a-f]{64}", s)\<close> decides it.\<close>

definition hex_char :: "char \<Rightarrow> bool" where
  "hex_char c \<longleftrightarrow> c \<in> set ''0123456789abcdef''"

definition is_sha256 :: "string \<Rightarrow> bool" where
  "is_sha256 s \<longleftrightarrow> length s = 64 \<and> list_all hex_char s"

definition opt_value :: "('a \<Rightarrow> pyval) \<Rightarrow> 'a option \<Rightarrow> pyval" where
  "opt_value f x = (case x of None \<Rightarrow> PNone | Some y \<Rightarrow> f y)"

lemma json_domain_opt_value [simp]: "(\<And>y. json_domain (f y)) \<Longrightarrow> json_domain (opt_value f x)"
  by (cases x) (auto simp: opt_value_def)

lemma json_domain_array_value [simp]: "json_domain (array_value h a)"
  by (auto simp: array_value_def list_all_iff)

text \<open>The canonical form does not see the order of the keys of a dictionary.\<close>

lemma sort_key_perm:
  assumes "set xs = set ys" "distinct (map fst xs)" "distinct (map fst ys)"
  shows "sort_key fst xs = sort_key (fst :: 'a::linorder \<times> 'b \<Rightarrow> 'a) ys"
  by (rule map_sorted_distinct_set_unique [of fst])
     (use assms in \<open>auto simp: distinct_map\<close>)

lemma canon_dict_perm:
  assumes "set d = set d'" "distinct (map fst d)" "distinct (map fst d')"
  shows "canon (PDict d) = canon (PDict d')"
proof -
  have keys: "map fst (map (map_prod id canon) e) = map fst e" for e :: "(string \<times> pyval) list"
    by simp
  have "sort_key fst (map (map_prod id canon) d) = sort_key fst (map (map_prod id canon) d')"
    using assms by (intro sort_key_perm) (simp_all only: keys set_map)
  then show ?thesis by simp
qed

end
