(* ===== verification/Registry.thy ===== *)
theory Registry
  imports PyValue
begin

text \<open>
  The fourteen core operators: their identifiers (\<open>constants.py\<close>), the static specification
  each operator class carries, the fail-closed registry the classes are entered in
  (\<open>operators/registry.py\<close>, \<open>operators/__init__.py\<close>) and the registered severity paths
  (\<open>severity.py\<close>).
\<close>

section \<open>Identifiers\<close>

datatype operator_id =
    A1_stream_absence | A2_frame_erasure
  | F1_global_response_drift | F2_spatial_sensitivity_loss | F3_persistent_surface_artifact
  | F4_local_nonresponsive_patch | F5_contact_shape_distortion | F6_history_residual_imprint
  | F7_high_load_saturation
  | T1_fixed_source_delay | T2_held_last_freeze | T3_inter_sensor_skew
  | C1_sensor_identity_misrouting | C2_frame_misregistration

definition CORE_OPERATOR_IDS :: "operator_id list" where
  "CORE_OPERATOR_IDS =
     [A1_stream_absence, A2_frame_erasure, F1_global_response_drift,
      F2_spatial_sensitivity_loss, F3_persistent_surface_artifact,
      F4_local_nonresponsive_patch, F5_contact_shape_distortion,
      F6_history_residual_imprint, F7_high_load_saturation, T1_fixed_source_delay,
      T2_held_last_freeze, T3_inter_sensor_skew, C1_sensor_identity_misrouting,
      C2_frame_misregistration]"

definition REST_REFERENCE_OPERATOR_IDS :: "operator_id list" where
  "REST_REFERENCE_OPERATOR_IDS =
     [F1_global_response_drift, F2_spatial_sensitivity_loss, F3_persistent_surface_artifact,
      F4_local_nonresponsive_patch, F6_history_residual_imprint, C2_frame_misregistration]"

fun operator_name :: "operator_id \<Rightarrow> string" where
  "operator_name A1_stream_absence = ''A1_stream_absence''"
| "operator_name A2_frame_erasure = ''A2_frame_erasure''"
| "operator_name F1_global_response_drift = ''F1_global_response_drift''"
| "operator_name F2_spatial_sensitivity_loss = ''F2_spatial_sensitivity_loss''"
| "operator_name F3_persistent_surface_artifact = ''F3_persistent_surface_artifact''"
| "operator_name F4_local_nonresponsive_patch = ''F4_local_nonresponsive_patch''"
| "operator_name F5_contact_shape_distortion = ''F5_contact_shape_distortion''"
| "operator_name F6_history_residual_imprint = ''F6_history_residual_imprint''"
| "operator_name F7_high_load_saturation = ''F7_high_load_saturation''"
| "operator_name T1_fixed_source_delay = ''T1_fixed_source_delay''"
| "operator_name T2_held_last_freeze = ''T2_held_last_freeze''"
| "operator_name T3_inter_sensor_skew = ''T3_inter_sensor_skew''"
| "operator_name C1_sensor_identity_misrouting = ''C1_sensor_identity_misrouting''"
| "operator_name C2_frame_misregistration = ''C2_frame_misregistration''"

definition operator_of_name :: "string \<Rightarrow> operator_id option" where
  "operator_of_name s = find (\<lambda>op. operator_name op = s) CORE_OPERATOR_IDS"

definition name_starts :: "char \<Rightarrow> operator_id \<Rightarrow> bool" where
  "name_starts c op \<longleftrightarrow> hd (operator_name op) = c"

lemma operator_of_name_name [simp]: "operator_of_name (operator_name op) = Some op"
  by (cases op) (simp_all add: operator_of_name_def CORE_OPERATOR_IDS_def)

lemma operator_of_name_Some: "operator_of_name s = Some op \<Longrightarrow> operator_name op = s"
  by (auto simp: operator_of_name_def find_Some_iff)

lemma operator_name_inj [simp]: "operator_name a = operator_name b \<longleftrightarrow> a = b"
  by (metis operator_of_name_name option.inject)

lemma core_operators_all: "set CORE_OPERATOR_IDS = UNIV"
  by (auto simp: CORE_OPERATOR_IDS_def) (metis operator_id.exhaust)

section \<open>Operator specifications\<close>

datatype family = Availability | Fidelity | Temporal | Context

record operator_spec =
  spec_operator_id :: operator_id
  spec_family :: family
  spec_native_unit :: string
  spec_stateful :: bool
  spec_evidence_tier :: string

fun spec_of :: "operator_id \<Rightarrow> operator_spec" where
  "spec_of A1_stream_absence =
     operator_spec.make A1_stream_absence Availability ''affected_window_fraction'' False
       ''engineering_proxy''"
| "spec_of A2_frame_erasure =
     operator_spec.make A2_frame_erasure Availability ''erased_frame_fraction'' False
       ''engineering_proxy''"
| "spec_of F1_global_response_drift =
     operator_spec.make F1_global_response_drift Fidelity ''retained_global_gain'' False
       ''direct_observation''"
| "spec_of F2_spatial_sensitivity_loss =
     operator_spec.make F2_spatial_sensitivity_loss Fidelity ''retained_regional_gain'' False
       ''direct_observation''"
| "spec_of F3_persistent_surface_artifact =
     operator_spec.make F3_persistent_surface_artifact Fidelity ''scar_dose'' False
       ''mechanism_proxy''"
| "spec_of F4_local_nonresponsive_patch =
     operator_spec.make F4_local_nonresponsive_patch Fidelity ''failed_area_dose'' False
       ''direct_observation''"
| "spec_of F5_contact_shape_distortion =
     operator_spec.make F5_contact_shape_distortion Fidelity ''peak_warp_displacement_pixels''
       False ''mechanism_proxy''"
| "spec_of F6_history_residual_imprint =
     operator_spec.make F6_history_residual_imprint Fidelity ''history_mix'' True
       ''direct_observation''"
| "spec_of F7_high_load_saturation =
     operator_spec.make F7_high_load_saturation Fidelity ''response_knee_dose'' False
       ''mechanism_proxy''"
| "spec_of T1_fixed_source_delay =
     operator_spec.make T1_fixed_source_delay Temporal ''lag_frames'' False ''engineering_proxy''"
| "spec_of T2_held_last_freeze =
     operator_spec.make T2_held_last_freeze Temporal ''held_duration_frames'' True
       ''engineering_proxy''"
| "spec_of T3_inter_sensor_skew =
     operator_spec.make T3_inter_sensor_skew Temporal ''source_index_gap'' True
       ''direct_observation''"
| "spec_of C1_sensor_identity_misrouting =
     operator_spec.make C1_sensor_identity_misrouting Context ''misrouted_window_fraction'' False
       ''engineering_proxy''"
| "spec_of C2_frame_misregistration =
     operator_spec.make C2_frame_misregistration Context ''reprojection_displacement_pixels''
       False ''mechanism_proxy''"

lemma spec_make_select [simp]:
  "spec_operator_id (operator_spec.make a b c d e) = a"
  "spec_family (operator_spec.make a b c d e) = b"
  by (simp_all add: operator_spec.make_def)

section \<open>The registry\<close>

type_synonym registry = "(string \<times> operator_spec) list"

definition register :: "registry \<Rightarrow> string \<Rightarrow> operator_spec \<Rightarrow> registry result" where
  "register classes name cls =
     (if name \<in> set (map fst classes) then Inl (ValueError ''operator already registered'')
      else Inr (dict_set name cls classes))"

definition create :: "registry \<Rightarrow> string \<Rightarrow> operator_spec result" where
  "create classes name =
     (case map_of classes name of
        None \<Rightarrow> Inl (KeyError ''unknown operator'')
      | Some cls \<Rightarrow> Inr cls)"

definition names :: "registry \<Rightarrow> string list" where
  "names classes = sort (map fst classes)"

definition verify_core :: "registry \<Rightarrow> unit result" where
  "verify_core classes =
     (if set (map fst classes) \<noteq> set (map operator_name CORE_OPERATOR_IDS)
      then Inl (RuntimeError ''core operator registry mismatch'') else Inr ())"

text \<open>Importing the package registers the four operator modules in this order.\<close>

definition import_order :: "operator_id list" where
  "import_order =
     [A1_stream_absence, A2_frame_erasure, C1_sensor_identity_misrouting,
      C2_frame_misregistration, F1_global_response_drift, F2_spatial_sensitivity_loss,
      F3_persistent_surface_artifact, F4_local_nonresponsive_patch,
      F5_contact_shape_distortion, F6_history_residual_imprint, F7_high_load_saturation,
      T1_fixed_source_delay, T2_held_last_freeze, T3_inter_sensor_skew]"

definition load_registry :: "registry result" where
  "load_registry =
     bindr (foldr_res (\<lambda>reg op. register reg (operator_name op) (spec_of op)) [] import_order)
       (\<lambda>reg. bindr (verify_core reg) (\<lambda>_. Inr reg))"

lemma register_fresh:
  "register reg n c = Inr reg' \<Longrightarrow> create reg' n = Inr c \<and> (\<forall>m. m \<noteq> n \<longrightarrow> create reg' m = create reg m)"
  by (auto simp: register_def create_def split: if_splits)

lemma register_all:
  assumes "distinct (map fst reg @ map operator_name ops)"
  shows "foldr_res (\<lambda>reg op. register reg (operator_name op) (spec_of op)) reg ops =
    Inr (reg @ map (\<lambda>op. (operator_name op, spec_of op)) ops)"
  using assms
proof (induction ops arbitrary: reg)
  case Nil
  then show ?case by simp
next
  case (Cons op ops)
  have snoc: "k \<notin> fst ` set d \<Longrightarrow> dict_set k v d = d @ [(k, v)]" for k v and d :: registry
    by (induction d) auto
  from Cons.prems have "register reg (operator_name op) (spec_of op) =
      Inr (reg @ [(operator_name op, spec_of op)])"
    by (auto simp: register_def snoc)
  with Cons.prems Cons.IH [of "reg @ [(operator_name op, spec_of op)]"] show ?case by simp
qed

section \<open>Severity paths\<close>

definition lit :: "rat \<Rightarrow> pyval" where
  "lit q = PFloat (fl64 q)"

fun severity_path :: "operator_id \<Rightarrow> pyval list" where
  "severity_path A1_stream_absence = map lit [5/100, 10/100, 20/100, 40/100, 80/100]"
| "severity_path A2_frame_erasure = map lit [5/100, 10/100, 20/100, 40/100, 80/100]"
| "severity_path F1_global_response_drift = map lit [95/100, 88/100, 78/100, 65/100, 50/100]"
| "severity_path F2_spatial_sensitivity_loss = map lit [90/100, 75/100, 55/100, 35/100, 15/100]"
| "severity_path F3_persistent_surface_artifact = map PInt [1, 2, 3, 4, 5]"
| "severity_path F4_local_nonresponsive_patch = map PInt [1, 2, 3, 4, 5]"
| "severity_path F5_contact_shape_distortion = map PInt [1, 2, 3, 4, 5]"
| "severity_path F6_history_residual_imprint = map lit [12/100, 22/100, 35/100, 50/100, 68/100]"
| "severity_path F7_high_load_saturation = map lit [90/100, 72/100, 55/100, 40/100, 28/100]"
| "severity_path T1_fixed_source_delay = map PInt [1, 2, 4, 8, 16]"
| "severity_path T2_held_last_freeze = map PInt [2, 4, 8, 16, 32]"
| "severity_path T3_inter_sensor_skew = map PInt [1, 2, 3, 4, 5]"
| "severity_path C1_sensor_identity_misrouting = map lit [5/100, 10/100, 20/100, 40/100, 80/100]"
| "severity_path C2_frame_misregistration = map PInt [1, 2, 3, 4, 5]"

definition severity_value :: "operator_id \<Rightarrow> int \<Rightarrow> pyval result" where
  "severity_value op level =
     (let path = severity_path op in
      if 1 \<le> level \<and> level \<le> int (length path) then py_index path (level - 1)
      else Inl (ValueError ''severity level must be in [1, 5]''))"

text \<open>The conversions \<open>float(x)\<close> and \<open>int(x)\<close> of a dose or a parameter.\<close>

fun py_float :: "pyval \<Rightarrow> rat result" where
  "py_float (PInt i) = Inr (fl64 (of_int i))"
| "py_float (PBool b) = Inr (if b then 1 else 0)"
| "py_float (PFloat x) = Inr x"
| "py_float v = Inl (TypeError ''float() argument must be a number'')"

fun py_int :: "pyval \<Rightarrow> int result" where
  "py_int (PInt i) = Inr i"
| "py_int (PBool b) = Inr (if b then 1 else 0)"
| "py_int (PFloat x) = Inr (if 0 \<le> x then \<lfloor>x\<rfloor> else - \<lfloor>- x\<rfloor>)"
| "py_int v = Inl (TypeError ''int() argument must be a number'')"

lemma severity_path_length [simp]: "length (severity_path op) = 5"
  by (cases op) simp_all

lemma severity_value_Inr:
  "1 \<le> level \<Longrightarrow> level \<le> 5 \<Longrightarrow> severity_value op level = Inr (severity_path op ! nat (level - 1))"
  by (simp add: severity_value_def Let_def py_index_nonneg)

lemma severity_value_range: "severity_value op level = Inr d \<Longrightarrow> 1 \<le> level \<and> level \<le> 5"
  by (auto simp: severity_value_def Let_def split: if_splits)

lemma level_cases:
  assumes "1 \<le> (level::int)" "level \<le> 5"
  obtains "level = 1" | "level = 2" | "level = 3" | "level = 4" | "level = 5"
  using assms by linarith

end
