(* ===== verification/Parameters.thy ===== *)
theory Parameters
  imports Registry
begin

text \<open>
  The versioned parameters of an operator instance (\<open>operator_parameters.py\<close>): every schedule,
  source map and template is materialised from the operator, its severity, its seed and its
  window, and whatever the caller supplied must agree with it.
\<close>

type_synonym params = "(string \<times> pyval) list"

definition dget :: "params \<Rightarrow> string \<Rightarrow> pyval" where
  "dget d k = (case map_of d k of None \<Rightarrow> PNone | Some v \<Rightarrow> v)"

definition ditem :: "params \<Rightarrow> string \<Rightarrow> pyval result" where
  "ditem d k = (case map_of d k of None \<Rightarrow> Inl (KeyError k) | Some v \<Rightarrow> Inr v)"

lemma ditem_dget: "ditem d k = Inr v \<Longrightarrow> dget d k = v"
  by (simp add: ditem_def dget_def split: option.splits)

definition PARAMETERIZATION_VERSION :: string where
  "PARAMETERIZATION_VERSION = ''canonical_operator_instance_v2''"

section \<open>Seeded template offsets\<close>

definition hex_digit :: "char \<Rightarrow> int result" where
  "hex_digit c =
     (case List.find (\<lambda>p. fst p = c) (zip ''0123456789abcdef'' [0..15]) of
        None \<Rightarrow> Inl (ValueError ''invalid literal for int() with base 16'')
      | Some p \<Rightarrow> Inr (snd p))"

text \<open>\<open>int(s, 16)\<close> on a string of lowercase hexadecimal digits.\<close>

definition hex_int :: "string \<Rightarrow> int result" where
  "hex_int s =
     (if s = [] then Inl (ValueError ''invalid literal for int() with base 16'')
      else foldr_res (\<lambda>acc c. bindr (hex_digit c) (\<lambda>d. Inr (16 * acc + d))) 0 s)"

definition seed_offset :: "hasher \<Rightarrow> operator_id \<Rightarrow> int \<Rightarrow> string \<Rightarrow> rat result" where
  "seed_offset h op seed axis =
     (let digest = canonical_hash h
            (PDict [(''operator_id'', PStr (operator_name op)), (''operator_seed'', PInt seed),
                    (''axis'', PStr axis)])
      in bindr (hex_int (take 8 digest)) (\<lambda>n.
         let unit = fdiv (of_int n) (of_int 4294967295) in
         Inr (py_round_digits (fmul (fsub unit (1/2)) (fl64 (6/100))) 8)))"

section \<open>Window schedules\<close>

text \<open>\<open>max(1, min(window, int(round(window * float(dose)))))\<close>\<close>

definition dose_count :: "int \<Rightarrow> rat \<Rightarrow> int" where
  "dose_count window dose = max 1 (min window (py_round (fmul (fl64 (of_int window)) dose)))"

fun as_plain_int :: "pyval \<Rightarrow> int option" where
  "as_plain_int (PInt i) = Some i"
| "as_plain_int v = None"

fun as_plain_ints :: "pyval \<Rightarrow> int list option" where
  "as_plain_ints (PList vs) =
     (if list_all (\<lambda>v. as_plain_int v \<noteq> None) vs then Some (map (the \<circ> as_plain_int) vs) else None)"
| "as_plain_ints v = None"

definition a2_offsets :: "params \<Rightarrow> int \<Rightarrow> int \<Rightarrow> int list result" where
  "a2_offsets existing window expected_count =
     (case dget existing ''erased_offsets'' of
        PNone \<Rightarrow>
          (if expected_count = 1 then Inr [0]
           else Inr (map (\<lambda>pos. py_round (fdiv (of_int (pos * (window - 1)))
                                          (of_int (expected_count - 1))))
                     (py_range 0 expected_count)))
      | raw \<Rightarrow>
          (case as_plain_ints raw of
             None \<Rightarrow> Inl (ValueError ''A2 erased_offsets must be an integer sequence'')
           | Some offsets \<Rightarrow>
               if int (length offsets) \<noteq> expected_count
               then Inl (ValueError ''A2 erased_offsets count must match its severity dose'')
               else if sort (remdups offsets) \<noteq> offsets
               then Inl (ValueError ''A2 erased_offsets must be sorted and unique'')
               else if list_ex (\<lambda>o1. o1 < 0 \<or> window \<le> o1) offsets
               then Inl (ValueError ''A2 erased_offsets must lie inside the fault window'')
               else Inr offsets))"

definition ints :: "int list \<Rightarrow> pyval" where
  "ints xs = PList (map PInt xs)"

definition contact_phases :: pyval where
  "contact_phases = PList [PStr ''contact_onset'', PStr ''sustained_contact'']"

text \<open>\<open>round(0.5 + offset, 8)\<close> for both axes.\<close>

definition seeded_center :: "hasher \<Rightarrow> operator_id \<Rightarrow> int \<Rightarrow> pyval result" where
  "seeded_center h op seed =
     bindr (seed_offset h op seed ''x'') (\<lambda>dx.
     bindr (seed_offset h op seed ''y'') (\<lambda>dy.
     Inr (PList [PFloat (py_round_digits (fadd (1/2) dx) 8),
                 PFloat (py_round_digits (fadd (1/2) dy) 8)])))"

definition t2_source_map :: "int \<Rightarrow> int \<Rightarrow> int \<Rightarrow> int list" where
  "t2_source_map start stop dose =
     (let duration = min (stop - start) dose; held = max 0 (start - 1)
      in replicate (nat duration) held @ py_range (start + duration) stop)"

definition t3_slot_map :: "int \<Rightarrow> int \<Rightarrow> int \<Rightarrow> bool \<Rightarrow> int list" where
  "t3_slot_map start stop skew delayed =
     map (\<lambda>i. if delayed then max 0 (i - skew) else i) (py_range start stop)"

section \<open>The operator-specific part\<close>

definition operator_parameters ::
    "hasher \<Rightarrow> operator_id \<Rightarrow> pyval \<Rightarrow> int \<Rightarrow> int \<Rightarrow> int \<Rightarrow> string list \<Rightarrow> params \<Rightarrow> params result" where
  "operator_parameters h op dose seed start stop slots existing =
     (let window = stop - start in
      case op of
        A1_stream_absence \<Rightarrow> bindr (py_float dose) (\<lambda>d.
          Inr [(''affected_offsets'', ints (py_range 0 (dose_count window d)))])
      | A2_frame_erasure \<Rightarrow> bindr (py_float dose) (\<lambda>d.
          bindr (a2_offsets existing window (dose_count window d)) (\<lambda>offs.
          Inr [(''erased_offsets'', ints offs)]))
      | F1_global_response_drift \<Rightarrow> bindr (py_float dose) (\<lambda>d.
          Inr [(''target_gain'', PFloat d), (''temporal_path'', PStr ''linear_ramp'')])
      | F2_spatial_sensitivity_loss \<Rightarrow> bindr (py_float dose) (\<lambda>d.
          bindr (seeded_center h op seed) (\<lambda>c.
          Inr [(''retained_gain'', PFloat d), (''center_xy'', c),
               (''sigma_fraction'', lit (22/100)), (''minimum_sigma_px'', PFloat 2)]))
      | F3_persistent_surface_artifact \<Rightarrow> bindr (py_int dose) (\<lambda>k.
          bindr (seed_offset h op seed ''intercept'') (\<lambda>off.
          Inr [(''scar_slope'', lit (45/100)),
               (''scar_intercept_fraction'', PFloat (py_round_digits (fadd (fl64 (18/100)) off) 8)),
               (''scar_half_width_px'', PFloat (max 1 (fmul (of_int k) (fl64 (6/10))))),
               (''rgb_delta'', PList [PFloat (fmul (fl64 (35/1000)) (of_int k)),
                                      PFloat (fmul (- fl64 (18/1000)) (of_int k)),
                                      PFloat (fmul (fl64 (10/1000)) (of_int k))])]))
      | F4_local_nonresponsive_patch \<Rightarrow> bindr (py_int dose) (\<lambda>k.
          bindr (seeded_center h op seed) (\<lambda>c.
          Inr [(''center_xy'', c),
               (''radius_fraction'',
                PFloat (fadd (fl64 (10/100)) (fmul (of_int k) (fl64 (25/1000))))),
               (''minimum_radius_px'', PInt 2), (''fill_mode'', PStr ''rest_reference'')]))
      | F5_contact_shape_distortion \<Rightarrow> bindr (seeded_center h op seed) (\<lambda>c.
          bindr (py_int dose) (\<lambda>k.
          Inr [(''warp_domain'', PStr ''current_rgb''),
               (''field'', PStr ''compact_quartic_horizontal''), (''center_xy'', c),
               (''support_radius_fraction'', lit (30/100)), (''displacement_px'', PInt k),
               (''axis'', PStr ''horizontal''), (''direction'', PStr ''positive''),
               (''interpolation'', PStr ''bilinear_float64''), (''boundary'', PStr ''identity''),
               (''activation_phases'', contact_phases)]))
      | F6_history_residual_imprint \<Rightarrow> bindr (py_float dose) (\<lambda>d.
          Inr [(''history_mix'', PFloat d), (''memory_beta'', lit (72/100))])
      | F7_high_load_saturation \<Rightarrow> bindr (py_float dose) (\<lambda>d.
          Inr [(''synthesis_domain'', PStr ''current_rgb_same_frame''),
               (''anchor_filter'', PStr ''uniform_box''),
               (''anchor_radius_fraction'', lit (6/100)), (''minimum_anchor_radius_px'', PInt 2),
               (''padding'', PStr ''reflect_no_edge_repeat''), (''accumulation'', PStr ''float64''),
               (''response_norm'', PStr ''l2_rgb_detail''),
               (''response_knee'', PFloat (fmul d (fl64 (35/100)))),
               (''plateau_width_ratio'', lit (35/100)),
               (''transfer'', PStr ''identity_then_rational_plateau''),
               (''activation_phases'', contact_phases)])
      | T1_fixed_source_delay \<Rightarrow> bindr (py_int dose) (\<lambda>lag.
          let source_map = map (\<lambda>i. i - lag) (py_range start stop) in
          if source_map = [] then Inl (ValueError ''min() arg is an empty sequence'')
          else if Min (set source_map) < 0
          then Inl (ValueError ''T1 fault window must start after delay warm-up'')
          else Inr [(''lag_frames'', PInt lag), (''source_index_map'', ints source_map)])
      | T2_held_last_freeze \<Rightarrow> bindr (py_int dose) (\<lambda>k.
          Inr [(''hold_duration_frames'', PInt (min window k)),
               (''held_source_index'', PInt (max 0 (start - 1))),
               (''source_index_map'', ints (t2_source_map start stop k))])
      | T3_inter_sensor_skew \<Rightarrow>
          if slots = [] then Inl (IndexError ''tuple index out of range'')
          else bindr (py_int dose) (\<lambda>skew.
          Inr [(''delayed_slot'', PStr (last slots)), (''skew_frames'', PInt skew),
               (''source_index_map'',
                PDict (map (\<lambda>s. (s, ints (t3_slot_map start stop skew (s = last slots)))) slots))])
      | C1_sensor_identity_misrouting \<Rightarrow> bindr (py_float dose) (\<lambda>d.
          Inr [(''affected_offsets'', ints (py_range 0 (dose_count window d))),
               (''route_map'', PDict [(''left'', PStr ''right''), (''right'', PStr ''left'')])])
      | C2_frame_misregistration \<Rightarrow>
          if \<not> py_eq (dget existing ''realization'') (PStr ''registered_pixels'')
          then Inl (ValueError ''C2 realization must be registered_pixels'')
          else bindr (py_int dose) (\<lambda>shift.
          Inr [(''realization'', PStr ''registered_pixels''),
               (''translation_xy_px'', ints [shift, 0]),
               (''interpolation'', PStr ''integer_copy''), (''fill_mode'', PStr ''rest_reference'')]))"

definition rest_parameters :: "operator_id \<Rightarrow> params \<Rightarrow> params result" where
  "rest_parameters op existing =
     (if op \<in> set REST_REFERENCE_OPERATOR_IDS
      then (case dget existing ''rest_reference_sha256'' of
              PStr s \<Rightarrow>
                if length s \<noteq> 64 \<or> \<not> list_all hex_char s
                then Inl (ValueError ''rest_reference_sha256 must be a lowercase SHA256'')
                else Inr [(''rest_reference_sha256'', PStr s)]
            | _ \<Rightarrow> Inl (ValueError ''rest_reference_sha256 must be a lowercase SHA256''))
      else Inr [])"

definition base_parameters ::
    "hasher \<Rightarrow> operator_id \<Rightarrow> int \<Rightarrow> int \<Rightarrow> int \<Rightarrow> int \<Rightarrow> string list \<Rightarrow> params \<Rightarrow> params result" where
  "base_parameters h op severity seed start stop slots existing =
     bindr (severity_value op severity) (\<lambda>dose.
     bindr (rest_parameters op existing) (\<lambda>rest.
     bindr (operator_parameters h op dose seed start stop slots existing) (\<lambda>own.
     Inr ([(''parameterization_version'', PStr PARAMETERIZATION_VERSION),
           (''template_seed'', PInt seed)] @ rest @ own))))"

section \<open>Materialisation\<close>

definition materialize_operator_parameters ::
    "hasher \<Rightarrow> operator_id \<Rightarrow> int \<Rightarrow> int \<Rightarrow> int \<Rightarrow> int \<Rightarrow> string list \<Rightarrow> params \<Rightarrow> params result" where
  "materialize_operator_parameters h op severity seed start stop slots supplied =
     bindr (freeze_value (PDict supplied)) (\<lambda>_.
     bindr (base_parameters h op severity seed start stop slots supplied) (\<lambda>base.
       let descriptor = base @ [(''operator_id'', PStr (operator_name op))];
           expected = base @ [(''instance_descriptor_sha256'',
                               PStr (canonical_hash h (PDict descriptor)))]
       in if \<not> set (map fst supplied) \<subseteq> set (map fst expected)
          then Inl (ValueError ''parameters contain unregistered fields'')
          else if list_ex (\<lambda>(k, v). k \<noteq> ''erased_offsets'' \<and> \<not> py_eq v (dget expected k)) supplied
          then Inl (ValueError ''parameter does not match the severity/seed contract'')
          else Inr expected))"

definition schedule_keys :: "string list" where
  "schedule_keys = [''affected_offsets'', ''erased_offsets'', ''source_index_map'']"

definition static_parameter_view :: "params \<Rightarrow> params" where
  "static_parameter_view ps =
     filter (\<lambda>(k, v). k \<notin> set schedule_keys \<and> k \<noteq> ''instance_descriptor_sha256'') ps"

definition rematerialization_inputs :: "operator_id \<Rightarrow> params \<Rightarrow> bool \<Rightarrow> params result" where
  "rematerialization_inputs op ps preserve_erasure_schedule =
     bindr (if op \<in> set REST_REFERENCE_OPERATOR_IDS
            then bindr (ditem ps ''rest_reference_sha256'')
                   (\<lambda>v. Inr [(''rest_reference_sha256'', v)])
            else Inr []) (\<lambda>rest.
     bindr (if op = C2_frame_misregistration
            then bindr (ditem ps ''realization'') (\<lambda>v. Inr [(''realization'', v)])
            else Inr []) (\<lambda>real.
     bindr (if op = A2_frame_erasure \<and> preserve_erasure_schedule
            then bindr (ditem ps ''erased_offsets'') (\<lambda>v. Inr [(''erased_offsets'', v)])
            else Inr []) (\<lambda>offs.
     Inr (rest @ real @ offs))))"

section \<open>Seeded offsets stay within three hundredths\<close>

lemma hex_digit_range: "hex_digit c = Inr d \<Longrightarrow> 0 \<le> d \<and> d \<le> 15"
  unfolding hex_digit_def
  by (cases "List.find (\<lambda>p. fst p = c) (zip ''0123456789abcdef'' [0..15])")
     (auto simp del: zip_Cons dest!: find_Some_key [where key = fst] set_zip_rightD)

lemma hex_int_range:
  assumes "hex_int s = Inr n"
  shows "0 \<le> n \<and> n < 16 ^ length s"
proof -
  have "0 \<le> acc \<Longrightarrow> foldr_res (\<lambda>acc c. bindr (hex_digit c) (\<lambda>d. Inr (16 * acc + d))) acc s = Inr n \<Longrightarrow>
      0 \<le> n \<and> n < (acc + 1) * 16 ^ length s" for acc
  proof (induction s arbitrary: acc)
    case (Cons c s)
    then obtain d where d: "hex_digit c = Inr d"
      "foldr_res (\<lambda>acc c. bindr (hex_digit c) (\<lambda>d. Inr (16 * acc + d))) (16 * acc + d) s = Inr n"
      by (auto simp: result_simps)
    note r = hex_digit_range [OF d(1)]
    have "0 \<le> n \<and> n < (16 * acc + d + 1) * 16 ^ length s"
      using Cons.IH [OF _ d(2)] Cons.prems(1) r by simp
    moreover have "(16 * acc + d + 1) * 16 ^ length s \<le> (16 * (acc + 1)) * (16::int) ^ length s"
      using r by (intro mult_right_mono) auto
    moreover have "(acc + 1) * (16::int) ^ length (c # s) = (16 * (acc + 1)) * 16 ^ length s" by simp
    ultimately show ?case by linarith
  qed simp
  from this [of 0] assms show ?thesis by (auto simp: hex_int_def split: if_splits)
qed

lemma seed_offset_range:
  assumes "seed_offset h op seed axis = Inr d"
  shows "- fl64 (3/100) \<le> d \<and> d \<le> fl64 (3/100)"
proof -
  obtain n s where n: "hex_int s = Inr n" "length s \<le> 8"
    and d: "d = py_round_digits (fmul (fsub (fdiv (of_int n) (of_int 4294967295)) (1/2)) (fl64 (6/100))) 8"
    using assms by (force simp: seed_offset_def Let_def result_simps)
  have "n < 16 ^ 8"
    using hex_int_range [OF n(1)] power_increasing [OF n(2), of "16::int"] by simp
  then have q: "0 \<le> (of_int n / of_int 4294967295 :: rat)" "(of_int n / of_int 4294967295 :: rat) \<le> 1"
    using hex_int_range [OF n(1)] by simp_all
  let ?u = "fdiv (of_int n) (of_int 4294967295)"
  have mono: "fl64 a \<le> fl64 b" if "a \<le> b" for a b using that unfolding fl64_def by (intro fl_mono) auto
  have "fl64 1 = 1" and half: "fl64 (-1/2) = -1/2" and "fl64 (1/2) = 1/2" by code_simp+
  have u: "0 \<le> ?u" "?u \<le> 1" using mono [OF q(1)] mono [OF q(2)] \<open>fl64 1 = 1\<close>
    by (simp_all add: fdiv_def fl64_def)
  let ?v = "fsub ?u (1/2)"
  have v: "-1/2 \<le> ?v" "?v \<le> 1/2"
    using mono [of "-1/2" "?u - 1/2"] mono [of "?u - 1/2" "1/2"] u
    by (simp_all only: fsub_def half \<open>fl64 (1/2) = 1/2\<close>)
  let ?h = "fl64 (6/100)"
  have h: "0 \<le> ?h" by (simp add: fl64_def fl_nonneg)
  let ?w = "fmul ?v ?h"
  have w: "fl64 (-1/2 * ?h) \<le> ?w" "?w \<le> fl64 (1/2 * ?h)"
    unfolding fmul_def by (rule mono, rule mult_right_mono [OF v(1) h])
      (rule mono, rule mult_right_mono [OF v(2) h])
  have pm: "py_round_digits a 8 \<le> py_round_digits b 8" if "a \<le> b" for a b
    unfolding py_round_digits_def
    by (intro mono divide_right_mono) (auto intro: py_round_mono simp: that)
  have "py_round_digits (fl64 (-1/2 * ?h)) 8 = - fl64 (3/100)"
    "py_round_digits (fl64 (1/2 * ?h)) 8 = fl64 (3/100)" by code_simp+
  with pm [OF w(1)] pm [OF w(2)] show ?thesis by (simp add: d)
qed

end
