(* ===== verification/Contracts.thy ===== *)
theory Contracts
  imports PyValue
begin

text \<open>
  The observation contracts of \<open>contracts.py\<close>: a tactile delivery (\<open>SensorObservation\<close>), the
  policy-visible record (\<open>ObservationRecord\<close>), the evaluator-only provenance
  (\<open>SensorProvenance\<close>) and their pairing (\<open>EvaluationRecord\<close>).  Each dataclass is a record
  and its \<open>__post_init__\<close> a function that returns the frozen object or the exception it
  raises; \<open>dataclasses.replace\<close> is a record update followed by \<open>__post_init__\<close>.  Field types
  take the place of the \<open>isinstance\<close> checks, which typed values pass.
\<close>

definition SENSOR_SLOTS :: "string list" where
  "SENSOR_SLOTS = [''left'', ''right'']"

datatype contact_phase = FREE | ONSET | SUSTAINED | RELEASE

fun phase_value :: "contact_phase \<Rightarrow> string" where
  "phase_value FREE = ''free''"
| "phase_value ONSET = ''contact_onset''"
| "phase_value SUSTAINED = ''sustained_contact''"
| "phase_value RELEASE = ''release''"

definition require_minimum :: "int \<Rightarrow> int \<Rightarrow> int result" where
  "require_minimum value minimum =
     (if value < minimum then Inl (ValueError ''must be at least the minimum'') else Inr value)"

definition require_real_minimum :: "rat \<Rightarrow> rat \<Rightarrow> rat result" where
  "require_real_minimum value minimum =
     (if value < minimum then Inl (ValueError ''must be at least the minimum'') else Inr value)"

lemma require_minimum_Inr [simp, result_simps]:
  "require_minimum v m = Inr w \<longleftrightarrow> m \<le> v \<and> w = v"
  by (auto simp: require_minimum_def)

lemma require_real_minimum_Inr [simp, result_simps]:
  "require_real_minimum v m = Inr w \<longleftrightarrow> m \<le> v \<and> w = v"
  by (auto simp: require_real_minimum_def)

text \<open>The tolerance \<open>1e-12\<close> of the causality checks.\<close>

definition time_tolerance :: rat where
  "time_tolerance = fl64 (1 / 10 ^ 12)"

section \<open>SensorObservation\<close>

record sensor =
  so_slot_id :: string
  so_payload :: "ndarray option"
  so_payload_present :: bool
  so_declared_validity :: "bool option"
  so_delivery_index :: int
  so_delivery_time_s :: rat
  so_visible_source_time_s :: "rat option"
  so_frame_id :: string
  so_calibration_id :: string

definition check_payload :: "ndarray \<Rightarrow> unit result" where
  "check_payload p =
     (if length (nd_shape p) \<noteq> 3 \<or> last (nd_shape p) \<noteq> 3
      then Inl (ValueError ''tactile payload must be HWC with three channels'')
      else if \<not> all_finite p then Inl (ValueError ''tactile payload must be finite'')
      else if nd_dtype p \<noteq> ''uint8''
      then Inl (TypeError ''tactile payload must use canonical uint8 RGB encoding'')
      else Inr ())"

definition sensor_post_init :: "sensor \<Rightarrow> sensor result" where
  "sensor_post_init s =
     (if so_slot_id s \<notin> set SENSOR_SLOTS then Inl (ValueError ''unknown tactile slot'')
      else if so_payload_present s \<noteq> (so_payload s \<noteq> None)
      then Inl (ValueError ''payload_present must equal whether payload is present'')
      else bindr (require_minimum (so_delivery_index s) 0) (\<lambda>_.
        bindr (require_real_minimum (so_delivery_time_s s) 0) (\<lambda>_.
        bindr (case so_visible_source_time_s s of None \<Rightarrow> Inr ()
               | Some t \<Rightarrow>
                   bindr (require_real_minimum t 0) (\<lambda>_.
                     if fadd (so_delivery_time_s s) time_tolerance < t
                     then Inl (ValueError ''visible source time cannot be in the future'')
                     else Inr ())) (\<lambda>_.
        bindr (case so_payload s of None \<Rightarrow> Inr () | Some p \<Rightarrow> check_payload p) (\<lambda>_.
        Inr s)))))"

definition without_payload :: "sensor \<Rightarrow> bool \<Rightarrow> sensor result" where
  "without_payload s declared =
     sensor_post_init
       (s\<lparr>so_payload := None, so_payload_present := False,
          so_declared_validity := (if declared then Some False else None),
          so_visible_source_time_s := None\<rparr>)"

definition sensor_ok :: "sensor \<Rightarrow> bool" where
  "sensor_ok s \<longleftrightarrow> sensor_post_init s = Inr s"

lemma sensor_post_init_id: "sensor_post_init s = Inr t \<Longrightarrow> t = s"
  by (auto simp: sensor_post_init_def result_simps split: if_splits)

lemma sensor_post_init_ok [inv_intros]: "sensor_post_init s = Inr t \<Longrightarrow> sensor_ok t"
  using sensor_post_init_id by (force simp: sensor_ok_def)

lemma without_payload_ok: "sensor_ok s \<Longrightarrow> without_payload s d =
    Inr (s\<lparr>so_payload := None, so_payload_present := False,
           so_declared_validity := (if d then Some False else None),
           so_visible_source_time_s := None\<rparr>)"
  by (auto simp: sensor_ok_def without_payload_def sensor_post_init_def result_simps
      split: if_splits)

lemma sensor_ok_present: "sensor_ok s \<Longrightarrow> so_payload_present s \<longleftrightarrow> so_payload s \<noteq> None"
  by (auto simp: sensor_ok_def sensor_post_init_def split: if_splits)

section \<open>ObservationRecord\<close>

record observation =
  ob_episode_id :: string
  ob_task :: string
  ob_seed :: int
  ob_step_index :: int
  ob_tactile :: "sensor list"
  ob_vision :: "(string \<times> ndarray) list"
  ob_proprio :: ndarray

abbreviation tactile_slots :: "observation \<Rightarrow> string list" where
  "tactile_slots ob \<equiv> map so_slot_id (ob_tactile ob)"

definition observation_post_init :: "observation \<Rightarrow> observation result" where
  "observation_post_init ob =
     bindr (require_minimum (ob_seed ob) 0) (\<lambda>_.
     bindr (require_minimum (ob_step_index ob) 0) (\<lambda>_.
       if \<not> distinct (tactile_slots ob) \<or> set (tactile_slots ob) \<noteq> set SENSOR_SLOTS
       then Inl (ValueError ''tactile slots must exactly cover left and right'')
       else if \<not> list_all (\<lambda>kv. all_finite (snd kv)) (ob_vision ob)
       then Inl (ValueError ''vision arrays must be finite'')
       else if \<not> all_finite (ob_proprio ob)
       then Inl (ValueError ''proprioception must be finite'')
       else Inr ob))"

definition ob_sensor :: "observation \<Rightarrow> string \<Rightarrow> sensor result" where
  "ob_sensor ob slot =
     (case find (\<lambda>s. so_slot_id s = slot) (ob_tactile ob) of
        Some s \<Rightarrow> Inr s
      | None \<Rightarrow> Inl (KeyError ''unknown tactile slot''))"

definition replace_sensor :: "observation \<Rightarrow> sensor \<Rightarrow> observation result" where
  "replace_sensor ob r =
     (if so_slot_id r \<notin> set (tactile_slots ob) then Inl (KeyError ''unknown tactile slot'')
      else observation_post_init
        (ob\<lparr>ob_tactile :=
              map (\<lambda>s. if so_slot_id s = so_slot_id r then r else s) (ob_tactile ob)\<rparr>))"

definition observation_ok :: "observation \<Rightarrow> bool" where
  "observation_ok ob \<longleftrightarrow> observation_post_init ob = Inr ob"

lemma observation_post_init_id: "observation_post_init ob = Inr ob' \<Longrightarrow> ob' = ob"
  by (auto simp: observation_post_init_def result_simps split: if_splits)

lemma observation_post_init_ok [inv_intros]: "observation_post_init ob = Inr ob' \<Longrightarrow> observation_ok ob'"
  using observation_post_init_id by (force simp: observation_ok_def)

lemma map_slot_replace:
  "map so_slot_id (map (\<lambda>s. if so_slot_id s = so_slot_id r then r else s) xs) = map so_slot_id xs"
  by (induction xs) auto

lemma replace_sensor_Inr:
  "replace_sensor ob r = Inr ob' \<Longrightarrow>
   so_slot_id r \<in> set (tactile_slots ob) \<and>
   ob' = ob\<lparr>ob_tactile := map (\<lambda>s. if so_slot_id s = so_slot_id r then r else s) (ob_tactile ob)\<rparr> \<and>
   observation_ok ob'"
  by (auto simp: replace_sensor_def observation_ok_def dest: observation_post_init_id split: if_splits)

lemma replace_sensor_total:
  assumes "observation_ok ob" "so_slot_id r \<in> set (tactile_slots ob)"
  shows "replace_sensor ob r =
    Inr (ob\<lparr>ob_tactile := map (\<lambda>s. if so_slot_id s = so_slot_id r then r else s) (ob_tactile ob)\<rparr>)"
  using assms
  by (auto simp: replace_sensor_def observation_ok_def observation_post_init_def result_simps
      map_slot_replace simp del: map_map split: if_splits)

lemma ob_sensor_slot: "ob_sensor ob slot = Inr s \<Longrightarrow> so_slot_id s = slot \<and> s \<in> set (ob_tactile ob)"
  by (auto simp: ob_sensor_def split: option.splits dest: find_Some_key)

lemma ob_sensor_total:
  assumes "slot \<in> set (tactile_slots ob)"
  obtains s where "ob_sensor ob slot = Inr s"
  using assms find_in_keys [of so_slot_id slot "ob_tactile ob"]
  by (auto simp: ob_sensor_def)

lemma observation_ok_slots: "observation_ok ob \<Longrightarrow> set (tactile_slots ob) = set SENSOR_SLOTS"
  by (auto simp: observation_ok_def observation_post_init_def result_simps split: if_splits)

lemma ob_sensor_replace:
  "replace_sensor ob r = Inr ob' \<Longrightarrow>
   ob_sensor ob' slot = (if slot = so_slot_id r then Inr r else ob_sensor ob slot)"
  using find_map_replace [of so_slot_id slot r "ob_tactile ob"]
  by (auto simp: ob_sensor_def dest!: replace_sensor_Inr)

section \<open>SensorProvenance\<close>

record provenance =
  pv_slot_id :: string
  pv_physical_source_id :: string
  pv_source_index :: "int option"
  pv_source_time_s :: "rat option"
  pv_payload_sha256 :: "string option"
  pv_calibration_sha256 :: string
  pv_phase :: contact_phase
  pv_active_fault_ids :: "string list"

definition provenance_post_init :: "provenance \<Rightarrow> provenance result" where
  "provenance_post_init pv =
     (if pv_slot_id pv \<notin> set SENSOR_SLOTS then Inl (ValueError ''unknown provenance slot'')
      else if pv_physical_source_id pv = []
      then Inl (ValueError ''physical source ID must be non-empty'')
      else bindr (case pv_source_index pv of None \<Rightarrow> Inr 0 | Some i \<Rightarrow> require_minimum i 0) (\<lambda>_.
        bindr (case pv_source_time_s pv of None \<Rightarrow> Inr 0 | Some t \<Rightarrow> require_real_minimum t 0) (\<lambda>_.
        Inr pv)))"

definition provenance_ok :: "provenance \<Rightarrow> bool" where
  "provenance_ok pv \<longleftrightarrow> provenance_post_init pv = Inr pv"

lemma provenance_post_init_id: "provenance_post_init pv = Inr pv' \<Longrightarrow> pv' = pv"
  by (auto simp: provenance_post_init_def result_simps split: if_splits)

lemma provenance_post_init_ok [inv_intros]: "provenance_post_init pv = Inr pv' \<Longrightarrow> provenance_ok pv'"
  using provenance_post_init_id by (force simp: provenance_ok_def)

section \<open>EvaluationRecord\<close>

record evaluation =
  ev_observation :: observation
  ev_provenance :: "provenance list"
  ev_clean_record_sha256 :: string
  ev_delivered_record_sha256 :: string

abbreviation provenance_slots :: "evaluation \<Rightarrow> string list" where
  "provenance_slots r \<equiv> map pv_slot_id (ev_provenance r)"

abbreviation step_of :: "evaluation \<Rightarrow> int" where
  "step_of r \<equiv> ob_step_index (ev_observation r)"

definition find_provenance :: "provenance list \<Rightarrow> string \<Rightarrow> provenance result" where
  "find_provenance pvs slot =
     (case find (\<lambda>p. pv_slot_id p = slot) pvs of
        Some p \<Rightarrow> Inr p
      | None \<Rightarrow> Inl (KeyError ''unknown provenance slot''))"

definition provenance_for :: "evaluation \<Rightarrow> string \<Rightarrow> provenance result" where
  "provenance_for r slot = find_provenance (ev_provenance r) slot"

subsection \<open>The content of a record, as the value that is hashed\<close>

definition sensor_value :: "hasher \<Rightarrow> sensor \<Rightarrow> pyval" where
  "sensor_value h s =
     PDict [(''slot_id'', PStr (so_slot_id s)),
            (''payload'', opt_value (array_value h) (so_payload s)),
            (''payload_present'', PBool (so_payload_present s)),
            (''declared_validity'', opt_value PBool (so_declared_validity s)),
            (''delivery_index'', PInt (so_delivery_index s)),
            (''delivery_time_s'', PFloat (so_delivery_time_s s)),
            (''visible_source_time_s'', opt_value PFloat (so_visible_source_time_s s)),
            (''frame_id'', PStr (so_frame_id s)),
            (''calibration_id'', PStr (so_calibration_id s))]"

definition observation_value :: "hasher \<Rightarrow> observation \<Rightarrow> pyval" where
  "observation_value h ob =
     PDict [(''episode_id'', PStr (ob_episode_id ob)),
            (''task'', PStr (ob_task ob)),
            (''seed'', PInt (ob_seed ob)),
            (''step_index'', PInt (ob_step_index ob)),
            (''tactile'', PList (map (sensor_value h) (ob_tactile ob))),
            (''vision'', PDict (map (\<lambda>(k, v). (k, array_value h v)) (ob_vision ob))),
            (''proprio'', array_value h (ob_proprio ob))]"

definition provenance_value :: "provenance \<Rightarrow> pyval" where
  "provenance_value pv =
     PDict [(''slot_id'', PStr (pv_slot_id pv)),
            (''physical_source_id'', PStr (pv_physical_source_id pv)),
            (''source_index'', opt_value PInt (pv_source_index pv)),
            (''source_time_s'', opt_value PFloat (pv_source_time_s pv)),
            (''payload_sha256'', opt_value PStr (pv_payload_sha256 pv)),
            (''calibration_sha256'', PStr (pv_calibration_sha256 pv)),
            (''phase'', PStr (phase_value (pv_phase pv))),
            (''active_fault_ids'', PList (map PStr (pv_active_fault_ids pv)))]"

definition delivered_hash :: "hasher \<Rightarrow> observation \<Rightarrow> provenance list \<Rightarrow> string" where
  "delivered_hash h ob pvs =
     canonical_hash h
       (PDict [(''observation'', observation_value h ob),
               (''provenance'', PList (map provenance_value pvs))])"

lemma json_domain_record_value:
  "json_domain (PDict [(''observation'', observation_value h ob),
                       (''provenance'', PList (map provenance_value pvs))])"
  by (auto simp: observation_value_def sensor_value_def provenance_value_def list_all_iff)

subsection \<open>Construction\<close>

definition causal :: "observation \<Rightarrow> provenance \<Rightarrow> bool" where
  "causal ob pv \<longleftrightarrow>
     (case ob_sensor ob (pv_slot_id pv) of
        Inl _ \<Rightarrow> False
      | Inr s \<Rightarrow>
          (case pv_source_index pv of None \<Rightarrow> True | Some i \<Rightarrow> i \<le> so_delivery_index s) \<and>
          (case pv_source_time_s pv of None \<Rightarrow> True
           | Some t \<Rightarrow> t \<le> fadd (so_delivery_time_s s) time_tolerance))"

definition check_causal :: "observation \<Rightarrow> provenance \<Rightarrow> unit result" where
  "check_causal ob pv =
     bindr (ob_sensor ob (pv_slot_id pv)) (\<lambda>delivery.
       if (case pv_source_index pv of None \<Rightarrow> False | Some i \<Rightarrow> so_delivery_index delivery < i)
       then Inl (ValueError ''future source index is not causal'')
       else if (case pv_source_time_s pv of None \<Rightarrow> False
                | Some t \<Rightarrow> fadd (so_delivery_time_s delivery) time_tolerance < t)
       then Inl (ValueError ''future source time is not causal'')
       else Inr ())"

definition build_evaluation_record ::
    "hasher \<Rightarrow> observation \<Rightarrow> provenance list \<Rightarrow> string option \<Rightarrow> evaluation result" where
  "build_evaluation_record h ob pvs clean =
     (let slots = map pv_slot_id pvs in
      if \<not> distinct slots \<or> set slots \<noteq> set SENSOR_SLOTS \<or> set slots \<noteq> set (tactile_slots ob)
      then Inl (ValueError ''observation and provenance slots must match'')
      else bindr (mapr (check_causal ob) pvs) (\<lambda>_.
        let current = delivered_hash h ob pvs in
        Inr \<lparr>ev_observation = ob, ev_provenance = pvs,
             ev_clean_record_sha256 =
               (case clean of None \<Rightarrow> current | Some c \<Rightarrow> if c = [] then current else c),
             ev_delivered_record_sha256 = current\<rparr>))"

definition with_observation :: "hasher \<Rightarrow> evaluation \<Rightarrow> observation \<Rightarrow> evaluation result" where
  "with_observation h r ob =
     bindr (mapr (\<lambda>pv. bindr (ob_sensor ob (pv_slot_id pv)) (\<lambda>s.
              provenance_post_init (pv\<lparr>pv_payload_sha256 := array_sha256 h (so_payload s)\<rparr>)))
            (ev_provenance r)) (\<lambda>pvs.
     build_evaluation_record h ob pvs (Some (ev_clean_record_sha256 r)))"

lemma check_causal_iff: "check_causal ob pv = Inr () \<longleftrightarrow> causal ob pv"
  by (cases "ob_sensor ob (pv_slot_id pv)")
     (auto simp: check_causal_def causal_def split: option.splits)

text \<open>What \<open>build_evaluation_record\<close> promises of every record it returns: matching slots,
  no source from the future, and a delivered hash that is the hash of the content.\<close>

definition evaluation_ok :: "hasher \<Rightarrow> evaluation \<Rightarrow> bool" where
  "evaluation_ok h r \<longleftrightarrow>
     distinct (provenance_slots r) \<and> set (provenance_slots r) = set SENSOR_SLOTS \<and>
     set (tactile_slots (ev_observation r)) = set SENSOR_SLOTS \<and>
     (\<forall>pv\<in>set (ev_provenance r). causal (ev_observation r) pv) \<and>
     ev_delivered_record_sha256 r = delivered_hash h (ev_observation r) (ev_provenance r)"

lemma mapr_unit: "mapr f xs = Inr us \<Longrightarrow> x \<in> set xs \<Longrightarrow> f x = Inr ()"
  by (induction xs arbitrary: us) (auto simp: result_simps)

lemma build_evaluation_record_Inr:
  assumes "build_evaluation_record h ob pvs clean = Inr r"
  shows "evaluation_ok h r" "ev_observation r = ob" "ev_provenance r = pvs"
    "clean = Some c \<Longrightarrow> c \<noteq> [] \<Longrightarrow> ev_clean_record_sha256 r = c"
    "clean = None \<Longrightarrow> ev_clean_record_sha256 r = ev_delivered_record_sha256 r"
proof -
  from assms obtain us where us: "mapr (check_causal ob) pvs = Inr us"
    and slots: "distinct (map pv_slot_id pvs)" "set (map pv_slot_id pvs) = set SENSOR_SLOTS"
      "set (map pv_slot_id pvs) = set (tactile_slots ob)"
    and r: "r = \<lparr>ev_observation = ob, ev_provenance = pvs,
             ev_clean_record_sha256 = (case clean of None \<Rightarrow> delivered_hash h ob pvs
                 | Some c \<Rightarrow> if c = [] then delivered_hash h ob pvs else c),
             ev_delivered_record_sha256 = delivered_hash h ob pvs\<rparr>"
    by (auto simp: build_evaluation_record_def Let_def result_simps split: if_splits)
  have "\<forall>pv\<in>set pvs. causal ob pv"
    using mapr_unit [OF us] by (auto simp: check_causal_iff)
  with slots r show "evaluation_ok h r" by (simp add: evaluation_ok_def)
qed (use assms in \<open>auto simp: build_evaluation_record_def Let_def result_simps split: if_splits\<close>)

lemma build_evaluation_record_total:
  assumes "distinct (map pv_slot_id pvs)" "set (map pv_slot_id pvs) = set SENSOR_SLOTS"
    "set (tactile_slots ob) = set SENSOR_SLOTS" "\<And>pv. pv \<in> set pvs \<Longrightarrow> causal ob pv"
  obtains r where "build_evaluation_record h ob pvs clean = Inr r"
proof -
  have "mapr (check_causal ob) pvs = Inr (map (\<lambda>_. ()) pvs)"
    using assms(4) by (intro mapr_Inr_map) (simp add: check_causal_iff)
  with assms(1-3) show ?thesis
    by (intro that) (simp add: build_evaluation_record_def Let_def)
qed

lemma provenance_for_slot: "provenance_for r slot = Inr p \<Longrightarrow> pv_slot_id p = slot \<and> p \<in> set (ev_provenance r)"
  by (auto simp: provenance_for_def find_provenance_def split: option.splits dest: find_Some_key)

lemma provenance_for_total:
  assumes "slot \<in> set (provenance_slots r)"
  obtains p where "provenance_for r slot = Inr p"
  using assms find_in_keys [of pv_slot_id slot "ev_provenance r"]
  by (auto simp: provenance_for_def find_provenance_def)

end
