(* ===== verification/Manifests.thy ===== *)
theory Manifests
  imports Parameters Contracts
begin

text \<open>
  The fault manifest (\<open>manifests.py\<close>): one atomic operator instance scheduled on one episode,
  with its parameters fully materialised.  \<open>manifest_init\<close> is the constructor with its checks
  in the order of the code; \<open>to_dict\<close>/\<open>from_dict\<close> are the JSON form.
\<close>

datatype observability = BLIND | DECLARED

fun observability_value :: "observability \<Rightarrow> string" where
  "observability_value BLIND = ''blind''"
| "observability_value DECLARED = ''declared''"

definition observability_of :: "string \<Rightarrow> observability result" where
  "observability_of s =
     (if s = ''blind'' then Inr BLIND else if s = ''declared'' then Inr DECLARED
      else Inl (ValueError ''is not a valid Observability''))"

lemma observability_of_value [simp]: "observability_of (observability_value ob) = Inr ob"
  by (cases ob) (simp_all add: observability_of_def)

definition FAULT_MANIFEST_SEMANTIC_VERSION :: string where
  "FAULT_MANIFEST_SEMANTIC_VERSION = ''2.0''"

definition OPERATOR_IMPLEMENTATION_VERSION :: string where
  "OPERATOR_IMPLEMENTATION_VERSION = ''0.4.0''"

definition SEVERITY_REGISTRY_ID :: string where
  "SEVERITY_REGISTRY_ID = ''provisional_engineering_v2''"

record fault_manifest =
  fm_operator_id :: operator_id
  fm_severity_level :: int
  fm_operator_seed :: int
  fm_start_index :: int
  fm_stop_index :: int
  fm_sensor_slots :: "string list"
  fm_observability :: observability
  fm_parameters :: params
  fm_semantic_version :: string
  fm_implementation_version :: string
  fm_severity_registry :: string

definition manifest_init ::
    "hasher \<Rightarrow> string \<Rightarrow> int \<Rightarrow> int \<Rightarrow> int \<Rightarrow> int \<Rightarrow> string list \<Rightarrow> observability \<Rightarrow> params \<Rightarrow>
     string \<Rightarrow> string \<Rightarrow> string \<Rightarrow> fault_manifest result" where
  "manifest_init h name severity seed start stop slots obs parameters semver implver registry =
     (case operator_of_name name of
        None \<Rightarrow> Inl (ValueError ''unknown core operator'')
      | Some op \<Rightarrow>
          if semver \<noteq> FAULT_MANIFEST_SEMANTIC_VERSION
          then Inl (ValueError ''unsupported fault-manifest semantic version'')
          else if implver \<noteq> OPERATOR_IMPLEMENTATION_VERSION
          then Inl (ValueError ''unsupported operator implementation version'')
          else if registry \<noteq> SEVERITY_REGISTRY_ID
          then Inl (ValueError ''unsupported severity registry'')
          else if \<not> (1 \<le> severity \<and> severity \<le> 5)
          then Inl (ValueError ''severity level must be in [1, 5]'')
          else if seed < 0 then Inl (ValueError ''operator seed must be non-negative'')
          else if start < 0 \<or> stop \<le> start
          then Inl (ValueError ''fault window must satisfy 0 <= start < stop'')
          else if slots = [] \<or> \<not> distinct slots
          then Inl (ValueError ''sensor scope must be non-empty and unique'')
          else if \<not> set slots \<subseteq> set SENSOR_SLOTS then Inl (ValueError ''unknown sensor slot'')
          else if op = C1_sensor_identity_misrouting \<and> set slots \<noteq> set SENSOR_SLOTS
          then Inl (ValueError ''C1 requires both left and right sensor slots'')
          else bindr (materialize_operator_parameters h op severity seed start stop slots parameters)
            (\<lambda>materialized.
            Inr \<lparr>fm_operator_id = op, fm_severity_level = severity, fm_operator_seed = seed,
                 fm_start_index = start, fm_stop_index = stop, fm_sensor_slots = slots,
                 fm_observability = obs, fm_parameters = materialized,
                 fm_semantic_version = semver, fm_implementation_version = implver,
                 fm_severity_registry = registry\<rparr>))"

definition manifest_active :: "fault_manifest \<Rightarrow> int \<Rightarrow> bool" where
  "manifest_active m index \<longleftrightarrow> fm_start_index m \<le> index \<and> index < fm_stop_index m"

definition manifest_to_dict :: "fault_manifest \<Rightarrow> params" where
  "manifest_to_dict m =
     [(''operator_id'', PStr (operator_name (fm_operator_id m))),
      (''severity_level'', PInt (fm_severity_level m)),
      (''operator_seed'', PInt (fm_operator_seed m)),
      (''start_index'', PInt (fm_start_index m)),
      (''stop_index'', PInt (fm_stop_index m)),
      (''sensor_slots'', PList (map PStr (fm_sensor_slots m))),
      (''observability'', PStr (observability_value (fm_observability m))),
      (''parameters'', thaw_value (PDict (fm_parameters m))),
      (''semantic_version'', PStr (fm_semantic_version m)),
      (''implementation_version'', PStr (fm_implementation_version m)),
      (''severity_registry'', PStr (fm_severity_registry m))]"

definition manifest_sha256 :: "hasher \<Rightarrow> fault_manifest \<Rightarrow> string" where
  "manifest_sha256 h m = canonical_hash h (PDict (manifest_to_dict m))"

definition MANIFEST_FIELDS :: "string list" where
  "MANIFEST_FIELDS =
     [''operator_id'', ''severity_level'', ''operator_seed'', ''start_index'', ''stop_index'',
      ''sensor_slots'', ''observability'', ''parameters'', ''semantic_version'',
      ''implementation_version'', ''severity_registry'']"

fun strict_integer :: "pyval \<Rightarrow> int result" where
  "strict_integer (PInt i) = Inr i"
| "strict_integer v = Inl (TypeError ''must be an integer'')"

fun strict_string :: "pyval \<Rightarrow> string result" where
  "strict_string (PStr s) = Inr s"
| "strict_string v = Inl (TypeError ''must be a string'')"

fun strict_strings :: "pyval \<Rightarrow> string list result" where
  "strict_strings (PList vs) =
     bindr (mapr strict_string vs) (\<lambda>ss. Inr ss)"
| "strict_strings v = Inl (TypeError ''sensor_slots must be a string sequence'')"

fun strict_mapping :: "pyval \<Rightarrow> params result" where
  "strict_mapping (PDict kvs) = Inr kvs"
| "strict_mapping v = Inl (TypeError ''parameters must be a mapping'')"

definition manifest_from_dict :: "hasher \<Rightarrow> params \<Rightarrow> fault_manifest result" where
  "manifest_from_dict h d =
     (if set (map fst d) \<noteq> set MANIFEST_FIELDS
      then Inl (ValueError ''fault manifest fields mismatch'')
      else bindr (strict_strings (dget d ''sensor_slots'')) (\<lambda>slots.
        bindr (strict_mapping (dget d ''parameters'')) (\<lambda>ps.
        bindr (strict_string (dget d ''operator_id'')) (\<lambda>name.
        bindr (strict_integer (dget d ''severity_level'')) (\<lambda>severity.
        bindr (strict_integer (dget d ''operator_seed'')) (\<lambda>seed.
        bindr (strict_integer (dget d ''start_index'')) (\<lambda>start.
        bindr (strict_integer (dget d ''stop_index'')) (\<lambda>stop.
        bindr (bindr (strict_string (dget d ''observability'')) observability_of) (\<lambda>obs.
        bindr (strict_string (dget d ''semantic_version'')) (\<lambda>semver.
        bindr (strict_string (dget d ''implementation_version'')) (\<lambda>implver.
        bindr (strict_string (dget d ''severity_registry'')) (\<lambda>registry.
        manifest_init h name severity seed start stop slots obs ps semver implver registry))))))))))))"

definition reparameterized ::
    "hasher \<Rightarrow> fault_manifest \<Rightarrow> int option \<Rightarrow> int option \<Rightarrow> fault_manifest result" where
  "reparameterized h m severity_level stop_index =
     (let target_severity = (case severity_level of None \<Rightarrow> fm_severity_level m | Some s \<Rightarrow> s);
          target_stop = (case stop_index of None \<Rightarrow> fm_stop_index m | Some s \<Rightarrow> s);
          preserve = (fm_operator_id m = A2_frame_erasure \<and> severity_level = None \<and>
                      target_stop = fm_stop_index m)
      in bindr (rematerialization_inputs (fm_operator_id m) (fm_parameters m) preserve) (\<lambda>ps.
         manifest_init h (operator_name (fm_operator_id m)) target_severity (fm_operator_seed m)
           (fm_start_index m) target_stop (fm_sensor_slots m) (fm_observability m) ps
           (fm_semantic_version m) (fm_implementation_version m) (fm_severity_registry m)))"

section \<open>Valid manifests\<close>

text \<open>A manifest object exists only as the result of its constructor.\<close>

definition manifest_ok :: "hasher \<Rightarrow> fault_manifest \<Rightarrow> bool" where
  "manifest_ok h m \<longleftrightarrow>
     (\<exists>ps. manifest_init h (operator_name (fm_operator_id m)) (fm_severity_level m)
            (fm_operator_seed m) (fm_start_index m) (fm_stop_index m) (fm_sensor_slots m)
            (fm_observability m) ps (fm_semantic_version m) (fm_implementation_version m)
            (fm_severity_registry m) = Inr m)"

lemma manifest_init_Inr:
  assumes "manifest_init h name severity seed start stop slots obs ps semver implver registry = Inr m"
  shows "operator_name (fm_operator_id m) = name" "fm_severity_level m = severity"
    "fm_operator_seed m = seed" "fm_start_index m = start" "fm_stop_index m = stop"
    "fm_sensor_slots m = slots" "fm_observability m = obs" "fm_semantic_version m = semver"
    "fm_implementation_version m = implver" "fm_severity_registry m = registry"
    "materialize_operator_parameters h (fm_operator_id m) severity seed start stop slots ps =
       Inr (fm_parameters m)"
    "1 \<le> severity" "severity \<le> 5" "0 \<le> seed" "0 \<le> start" "start < stop"
    "slots \<noteq> []" "distinct slots" "set slots \<subseteq> set SENSOR_SLOTS"
    "fm_operator_id m = C1_sensor_identity_misrouting \<Longrightarrow> set slots = set SENSOR_SLOTS"
  using assms
  by (auto simp: manifest_init_def result_simps operator_of_name_Some
      split: option.splits if_splits)

lemma manifest_init_ok [inv_intros]:
  assumes "manifest_init h name severity seed start stop slots obs ps semver implver registry = Inr m"
  shows "manifest_ok h m"
  unfolding manifest_ok_def
  using assms manifest_init_Inr [OF assms] by (intro exI [of _ ps]) simp

lemma manifest_ok_window:
  assumes "manifest_ok h m"
  shows "0 \<le> fm_start_index m" "fm_start_index m < fm_stop_index m"
    "1 \<le> fm_severity_level m" "fm_severity_level m \<le> 5" "fm_sensor_slots m \<noteq> []"
    "distinct (fm_sensor_slots m)" "set (fm_sensor_slots m) \<subseteq> set SENSOR_SLOTS"
    "fm_operator_id m = C1_sensor_identity_misrouting \<Longrightarrow> set (fm_sensor_slots m) = set SENSOR_SLOTS"
proof -
  obtain ps where init: "manifest_init h (operator_name (fm_operator_id m)) (fm_severity_level m)
      (fm_operator_seed m) (fm_start_index m) (fm_stop_index m) (fm_sensor_slots m)
      (fm_observability m) ps (fm_semantic_version m) (fm_implementation_version m)
      (fm_severity_registry m) = Inr m"
    using assms unfolding manifest_ok_def by blast
  note facts = manifest_init_Inr [OF init]
  show "0 \<le> fm_start_index m" "fm_start_index m < fm_stop_index m"
    "1 \<le> fm_severity_level m" "fm_severity_level m \<le> 5" "fm_sensor_slots m \<noteq> []"
    "distinct (fm_sensor_slots m)" "set (fm_sensor_slots m) \<subseteq> set SENSOR_SLOTS"
    "fm_operator_id m = C1_sensor_identity_misrouting \<Longrightarrow> set (fm_sensor_slots m) = set SENSOR_SLOTS"
    using facts by simp_all
qed

lemma manifest_ok_materialized:
  assumes "manifest_ok h m"
  obtains ps where
    "materialize_operator_parameters h (fm_operator_id m) (fm_severity_level m) (fm_operator_seed m)
       (fm_start_index m) (fm_stop_index m) (fm_sensor_slots m) ps = Inr (fm_parameters m)"
  using assms manifest_init_Inr(11) unfolding manifest_ok_def by blast

section \<open>Reading parameters\<close>

text \<open>\<open>[int(v) for v in parameters[key]]\<close> and its relatives.\<close>

fun value_ints :: "pyval \<Rightarrow> int list result" where
  "value_ints (PList vs) = mapr py_int vs"
| "value_ints v = Inl (TypeError ''object is not iterable'')"

fun value_floats :: "pyval \<Rightarrow> rat list result" where
  "value_floats (PList vs) = mapr py_float vs"
| "value_floats v = Inl (TypeError ''object is not iterable'')"

definition param_ints :: "fault_manifest \<Rightarrow> string \<Rightarrow> int list result" where
  "param_ints m k = bindr (ditem (fm_parameters m) k) value_ints"

definition param_float :: "fault_manifest \<Rightarrow> string \<Rightarrow> rat result" where
  "param_float m k = bindr (ditem (fm_parameters m) k) py_float"

definition param_floats :: "fault_manifest \<Rightarrow> string \<Rightarrow> rat list result" where
  "param_floats m k = bindr (ditem (fm_parameters m) k) value_floats"

definition param_int :: "fault_manifest \<Rightarrow> string \<Rightarrow> int result" where
  "param_int m k = bindr (ditem (fm_parameters m) k) py_int"

text \<open>\<open>parameters[key][slot]\<close> for a mapping-valued parameter.\<close>

definition param_item :: "fault_manifest \<Rightarrow> string \<Rightarrow> string \<Rightarrow> pyval result" where
  "param_item m k slot =
     bindr (ditem (fm_parameters m) k) (\<lambda>v.
       case v of PDict kvs \<Rightarrow> ditem kvs slot
       | _ \<Rightarrow> Inl (TypeError ''object is not subscriptable''))"

lemma mapr_py_int [simp]: "mapr py_int (map PInt xs) = Inr xs"
  by (induction xs) auto

lemma value_ints_ints [simp]: "value_ints (ints xs) = Inr xs"
  by (simp add: ints_def)

text \<open>What materialisation leaves under each schedule key.\<close>

lemma materialize_Inr:
  assumes "materialize_operator_parameters h op severity seed start stop slots supplied = Inr ps"
  obtains dose rest own where
    "severity_value op severity = Inr dose" "rest_parameters op supplied = Inr rest"
    "operator_parameters h op dose seed start stop slots supplied = Inr own"
    "ps = [(''parameterization_version'', PStr PARAMETERIZATION_VERSION),
           (''template_seed'', PInt seed)] @ rest @ own @
          [(''instance_descriptor_sha256'', PStr (canonical_hash h (PDict
             ([(''parameterization_version'', PStr PARAMETERIZATION_VERSION),
               (''template_seed'', PInt seed)] @ rest @ own @
              [(''operator_id'', PStr (operator_name op))]))))]"
  using assms
  by (auto simp: materialize_operator_parameters_def base_parameters_def Let_def result_simps
      split: if_splits)

lemma rest_parameters_keys: "rest_parameters op ex = Inr rest \<Longrightarrow>
    rest = [] \<or> (\<exists>s. rest = [(''rest_reference_sha256'', PStr s)] \<and> is_sha256 s \<and>
                 op \<in> set REST_REFERENCE_OPERATOR_IDS)"
  by (auto simp: rest_parameters_def is_sha256_def split: if_splits pyval.splits)

lemma dose_count_bounds: "1 \<le> window \<Longrightarrow> 1 \<le> dose_count window d \<and> dose_count window d \<le> window"
  by (simp add: dose_count_def)

lemma int_path_range:
  "op \<in> {T1_fixed_source_delay, T2_held_last_freeze, T3_inter_sensor_skew,
          C2_frame_misregistration, F3_persistent_surface_artifact,
          F4_local_nonresponsive_patch, F5_contact_shape_distortion} \<Longrightarrow>
   v \<in> set (severity_path op) \<Longrightarrow> \<exists>k. v = PInt k \<and> 1 \<le> k \<and> k \<le> 32"
  by auto

lemma int_dose:
  assumes "severity_value op level = Inr dose"
    "op \<in> {T1_fixed_source_delay, T2_held_last_freeze, T3_inter_sensor_skew,
           C2_frame_misregistration, F3_persistent_surface_artifact,
           F4_local_nonresponsive_patch, F5_contact_shape_distortion}"
  obtains k where "dose = PInt k" "1 \<le> k" "k \<le> 32"
proof -
  have lev: "1 \<le> level" "level \<le> 5" using severity_value_range [OF assms(1)] by auto
  then have "dose = severity_path op ! nat (level - 1)"
    using assms(1) by (simp add: severity_value_Inr)
  with lev have "dose \<in> set (severity_path op)" by simp
  with int_path_range [OF assms(2)] that show thesis by blast
qed

end
