(* ===== verification/References.thy ===== *)
theory References
  imports Manifests
begin

text \<open>
  Measured no-contact reference payloads (\<open>rest_references.py\<close>): the byte-backed frozen payload
  and the bundle that names the split, predicate and calibration artifacts it came from.
\<close>

section \<open>Frozen payloads\<close>

record frozen_payload =
  fp_dtype :: string
  fp_shape :: "nat list"
  fp_data_hex :: string

definition hex_digits :: string where
  "hex_digits = ''0123456789abcdef''"

definition byte_hex :: "nat \<Rightarrow> string" where
  "byte_hex b = [hex_digits ! (b div 16 mod 16), hex_digits ! (b mod 16)]"

definition hex_value :: "char \<Rightarrow> nat" where
  "hex_value c = length (takeWhile (\<lambda>d. d \<noteq> c) hex_digits)"

fun bytes_of_hex :: "string \<Rightarrow> nat list" where
  "bytes_of_hex (a # b # rest) = (16 * hex_value a + hex_value b) # bytes_of_hex rest"
| "bytes_of_hex _ = []"

text \<open>The byte behind an element of a uint8 array.\<close>

definition byte_of :: "rat option \<Rightarrow> nat" where
  "byte_of x = (case x of None \<Rightarrow> 0 | Some q \<Rightarrow> nat \<lfloor>q\<rfloor> mod 256)"

definition frozen_from_array :: "ndarray \<Rightarrow> frozen_payload result" where
  "frozen_from_array a =
     (if length (nd_shape a) \<noteq> 3 \<or> last (nd_shape a) \<noteq> 3
      then Inl (ValueError ''rest reference payloads must be HWC RGB'')
      else if nd_dtype a \<noteq> ''uint8''
      then Inl (ValueError ''rest reference payloads must be canonical uint8'')
      else Inr \<lparr>fp_dtype = nd_dtype a, fp_shape = nd_shape a,
                fp_data_hex = concat (map (\<lambda>x. byte_hex (byte_of x)) (nd_data a))\<rparr>)"

definition frozen_to_array :: "frozen_payload \<Rightarrow> ndarray" where
  "frozen_to_array p =
     \<lparr>nd_dtype = fp_dtype p, nd_shape = fp_shape p,
      nd_data = map (\<lambda>b. Some (of_nat b)) (bytes_of_hex (fp_data_hex p))\<rparr>"

definition uint8_array :: "ndarray \<Rightarrow> bool" where
  "uint8_array a \<longleftrightarrow>
     nd_dtype a = ''uint8'' \<and> list_all (\<lambda>x. \<exists>b. x = Some (rat_of_nat b) \<and> b < 256) (nd_data a)"

lemma hex_value_digit: "i < 16 \<Longrightarrow> hex_value (hex_digits ! i) = i"
proof -
  assume i: "i < 16"
  have "\<forall>i\<in>set [0..<16]. hex_value (hex_digits ! i) = i"
    by (simp add: hex_value_def hex_digits_def upt_rec)
  with i show ?thesis by simp
qed

lemma bytes_of_hex_byte: "b < 256 \<Longrightarrow> bytes_of_hex (byte_hex b @ s) = b # bytes_of_hex s"
  by (simp add: byte_hex_def hex_value_digit)

lemma frozen_roundtrip_data:
  "list_all (\<lambda>x. \<exists>b. x = Some (rat_of_nat b) \<and> b < 256) xs \<Longrightarrow>
   map (\<lambda>b. Some (rat_of_nat b)) (bytes_of_hex (concat (map (\<lambda>x. byte_hex (byte_of x)) xs))) = xs"
  by (induction xs) (auto simp: bytes_of_hex_byte byte_of_def)

section \<open>The bundle\<close>

datatype reference_split = DEVELOPMENT | VALIDATION | CALIBRATION | SYNTHETIC_DEVELOPMENT

fun split_value :: "reference_split \<Rightarrow> string" where
  "split_value DEVELOPMENT = ''development''"
| "split_value VALIDATION = ''validation''"
| "split_value CALIBRATION = ''calibration''"
| "split_value SYNTHETIC_DEVELOPMENT = ''synthetic-development''"

record reference_bundle =
  rb_reference_id :: string
  rb_dataset_split :: reference_split
  rb_split_manifest_sha256 :: string
  rb_source_artifact_sha256 :: string
  rb_no_contact_predicate_id :: string
  rb_no_contact_validation_sha256 :: string
  rb_no_contact_verified :: bool
  rb_qualified_record_ids :: "(string \<times> string) list"
  rb_calibration_sha256 :: "(string \<times> string) list"
  rb_payloads :: "(string \<times> frozen_payload) list"

datatype payload_arg = FrozenArg frozen_payload | ArrayArg ndarray

fun freeze_payload :: "payload_arg \<Rightarrow> frozen_payload result" where
  "freeze_payload (FrozenArg p) = Inr p"
| "freeze_payload (ArrayArg a) = frozen_from_array a"

definition check_sha :: "string \<Rightarrow> unit result" where
  "check_sha s = require (is_sha256 s) (ValueError ''must be a lowercase SHA256'')"

text \<open>The constructor: \<open>b\<close> holds every field but the payloads, which may still be arrays.\<close>

definition bundle_init ::
    "reference_bundle \<Rightarrow> (string \<times> payload_arg) list \<Rightarrow> reference_bundle result" where
  "bundle_init b payloads =
     (if rb_reference_id b = [] then Inl (ValueError ''rest reference ID must be non-empty'')
      else bindr (check_sha (rb_split_manifest_sha256 b)) (\<lambda>_.
        bindr (check_sha (rb_source_artifact_sha256 b)) (\<lambda>_.
        bindr (check_sha (rb_no_contact_validation_sha256 b)) (\<lambda>_.
        if rb_no_contact_predicate_id b = []
        then Inl (ValueError ''no-contact predicate ID must be non-empty'')
        else if \<not> rb_no_contact_verified b
        then Inl (ValueError ''rest reference must pass the no-contact predicate'')
        else if set (map fst (rb_qualified_record_ids b)) \<noteq> set SENSOR_SLOTS
             \<or> list_ex (\<lambda>kv. snd kv = []) (rb_qualified_record_ids b)
        then Inl (ValueError ''qualified record IDs must cover left and right'')
        else if set (map fst (rb_calibration_sha256 b)) \<noteq> set SENSOR_SLOTS
        then Inl (ValueError ''rest calibration hashes must cover left and right'')
        else bindr (mapr (\<lambda>kv. check_sha (snd kv)) (rb_calibration_sha256 b)) (\<lambda>_.
        if set (map fst payloads) \<noteq> set SENSOR_SLOTS
        then Inl (ValueError ''rest reference payloads must cover left and right'')
        else if rb_reference_id b \<in> set (map snd (rb_qualified_record_ids b))
        then Inl (ValueError ''reference ID cannot masquerade as a qualified record ID'')
        else bindr (mapr (\<lambda>(k, p). bindr (freeze_payload p) (\<lambda>f. Inr (k, f))) payloads) (\<lambda>frozen.
        if length (remdups (map (\<lambda>kv. fp_shape (snd kv)) frozen)) \<noteq> 1
        then Inl (ValueError ''rest reference payloads must share one shape'')
        else Inr (b\<lparr>rb_payloads := frozen\<rparr>)))))))"

definition str_map_value :: "(string \<times> string) list \<Rightarrow> pyval" where
  "str_map_value kvs = PDict (map (\<lambda>(k, v). (k, PStr v)) kvs)"

definition bundle_value :: "reference_bundle \<Rightarrow> pyval" where
  "bundle_value b =
     PDict [(''reference_id'', PStr (rb_reference_id b)),
            (''dataset_split'', PStr (split_value (rb_dataset_split b))),
            (''split_manifest_sha256'', PStr (rb_split_manifest_sha256 b)),
            (''source_artifact_sha256'', PStr (rb_source_artifact_sha256 b)),
            (''no_contact_predicate_id'', PStr (rb_no_contact_predicate_id b)),
            (''no_contact_validation_sha256'', PStr (rb_no_contact_validation_sha256 b)),
            (''no_contact_verified'', PBool (rb_no_contact_verified b)),
            (''qualified_record_ids'', str_map_value (rb_qualified_record_ids b)),
            (''calibration_sha256'', str_map_value (rb_calibration_sha256 b)),
            (''payloads'', PDict (map (\<lambda>(k, p). (k, PDict
               [(''dtype'', PStr (fp_dtype p)),
                (''shape'', PList (map (\<lambda>n. PInt (int n)) (fp_shape p))),
                (''data_hex'', PStr (fp_data_hex p))])) (rb_payloads b)))]"

definition bundle_sha256 :: "hasher \<Rightarrow> reference_bundle \<Rightarrow> string" where
  "bundle_sha256 h b = canonical_hash h (bundle_value b)"

definition payload_for :: "reference_bundle \<Rightarrow> string \<Rightarrow> ndarray result" where
  "payload_for b slot =
     (case map_of (rb_payloads b) slot of
        None \<Rightarrow> Inl (KeyError ''unknown rest reference slot'')
      | Some p \<Rightarrow> Inr (frozen_to_array p))"

definition calibration_of :: "reference_bundle \<Rightarrow> string \<Rightarrow> string result" where
  "calibration_of b slot =
     (case map_of (rb_calibration_sha256 b) slot of
        None \<Rightarrow> Inl (KeyError slot)
      | Some c \<Rightarrow> Inr c)"

text \<open>A bundle object exists only as the result of its constructor.\<close>

definition bundle_ok :: "reference_bundle \<Rightarrow> bool" where
  "bundle_ok b \<longleftrightarrow> (\<exists>b0 payloads. bundle_init b0 payloads = Inr b)"

lemma freeze_payloads_keys:
  "mapr (\<lambda>(k, p). bindr (freeze_payload p) (\<lambda>f. Inr (k, f))) ps = Inr fr \<Longrightarrow>
   map fst fr = map fst ps"
  by (induction ps arbitrary: fr) (auto simp: result_simps)

lemma bundle_init_covers:
  assumes "bundle_init b payloads = Inr b'" "slot \<in> set SENSOR_SLOTS"
  shows "\<exists>a. payload_for b' slot = Inr a" "\<exists>c. calibration_of b' slot = Inr c \<and> is_sha256 c"
proof -
  from assms(1) obtain frozen us where
    fr: "mapr (\<lambda>(k, p). bindr (freeze_payload p) (\<lambda>f. Inr (k, f))) payloads = Inr frozen"
    and cov: "set (map fst payloads) = set SENSOR_SLOTS"
      "set (map fst (rb_calibration_sha256 b)) = set SENSOR_SLOTS"
    and cal: "mapr (\<lambda>kv. check_sha (snd kv)) (rb_calibration_sha256 b) = Inr us"
    and b': "b' = b\<lparr>rb_payloads := frozen\<rparr>"
    unfolding bundle_init_def result_simps by (auto simp: result_simps split: if_splits)
  have "map fst frozen = map fst payloads" by (rule freeze_payloads_keys [OF fr])
  then have "slot \<in> set (map fst frozen)" using cov assms(2) by simp
  then obtain p where "map_of frozen slot = Some p"
    by (metis domD dom_map_of_conv_image_fst image_set list.set_map)
  then show "\<exists>a. payload_for b' slot = Inr a" using b' by (simp add: payload_for_def)
  obtain c where c: "map_of (rb_calibration_sha256 b) slot = Some c"
    using cov(2) assms(2) by (metis domD dom_map_of_conv_image_fst image_set list.set_map)
  with mapr_unit [OF cal map_of_SomeD [OF c]]
  show "\<exists>c. calibration_of b' slot = Inr c \<and> is_sha256 c"
    using b' by (simp add: calibration_of_def check_sha_def)
qed

lemma frozen_roundtrip:
  assumes "uint8_array a" "length (nd_shape a) = 3" "last (nd_shape a) = 3"
  shows "\<exists>p. frozen_from_array a = Inr p \<and> frozen_to_array p = a"
  using assms frozen_roundtrip_data [of "nd_data a"]
  by (auto simp: frozen_from_array_def frozen_to_array_def uint8_array_def comp_def)

end
