(* ===== verification/Operators.thy ===== *)
theory Operators
  imports References
begin

text \<open>
  The batch operators of \<open>operators/base.py\<close>, \<open>operators/availability.py\<close>,
  \<open>operators/temporal.py\<close> and \<open>operators/context.py\<close>.  A batch operator copies the clean
  records and rewrites the affected ones one sensor slot at a time; every rewrite goes through
  \<open>replace_delivery\<close>.  The locale \<open>slot_writer\<close> states what such a rewrite may touch, and
  the loop lemmas turn the index loops of the code into per-record functions.
\<close>

section \<open>Shared steps\<close>

definition replace_delivery ::
    "hasher \<Rightarrow> evaluation \<Rightarrow> sensor \<Rightarrow> provenance \<Rightarrow> evaluation result" where
  "replace_delivery h r sensor pv =
     bindr (replace_sensor (ev_observation r) sensor) (\<lambda>ob.
       let items = map (\<lambda>item. if pv_slot_id item = pv_slot_id pv then pv else item)
                     (ev_provenance r)
       in build_evaluation_record h ob items (Some (ev_clean_record_sha256 r)))"

definition mark_provenance ::
    "hasher \<Rightarrow> provenance \<Rightarrow> fault_manifest \<Rightarrow> ndarray option \<Rightarrow> provenance result" where
  "mark_provenance h pv m payload =
     provenance_post_init
       (pv\<lparr>pv_active_fault_ids :=
             sort (remdups (pv_active_fault_ids pv @ [operator_name (fm_operator_id m)])),
           pv_payload_sha256 :=
             (case payload of Some a \<Rightarrow> array_sha256 h (Some a) | None \<Rightarrow> pv_payload_sha256 pv)\<rparr>)"

definition fault_declared_validity :: "sensor \<Rightarrow> fault_manifest \<Rightarrow> bool option" where
  "fault_declared_validity s m =
     (if fm_observability m = DECLARED then Some False else so_declared_validity s)"

definition baseline_for ::
    "hasher \<Rightarrow> string \<Rightarrow> fault_manifest \<Rightarrow> reference_bundle option \<Rightarrow> ndarray result" where
  "baseline_for h slot m rest =
     (case rest of
        None \<Rightarrow> Inl (ValueError ''this operator requires a frozen rest-reference bundle'')
      | Some b \<Rightarrow>
          bindr (ditem (fm_parameters m) ''rest_reference_sha256'') (\<lambda>v.
            if \<not> py_eq v (PStr (bundle_sha256 h b))
            then Inl (ValueError ''rest-reference bundle does not match the fault manifest'')
            else payload_for b slot))"

section \<open>Index loops\<close>

text \<open>\<open>output = list(clean_records)\<close>, then for every index in turn the record is rebuilt from
  the clean record and the current output record.\<close>

definition each_record ::
    "(int \<Rightarrow> evaluation \<Rightarrow> evaluation \<Rightarrow> evaluation result) \<Rightarrow> evaluation list \<Rightarrow>
     evaluation list result" where
  "each_record body clean =
     foldr_res (\<lambda>out i. bindr (body (int i) (clean ! i) (out ! i)) (\<lambda>r. Inr (out[i := r])))
       clean [0..<length clean]"

text \<open>The same loop with a state carried from record to record.\<close>

definition each_record_acc ::
    "('s \<Rightarrow> int \<Rightarrow> evaluation \<Rightarrow> evaluation \<Rightarrow> ('s \<times> evaluation) result) \<Rightarrow> 's \<Rightarrow> evaluation list \<Rightarrow>
     evaluation list result" where
  "each_record_acc body st clean =
     bindr (foldr_res (\<lambda>(s, out) i. bindr (body s (int i) (clean ! i) (out ! i)) (\<lambda>(s', r).
              Inr (s', out[i := r]))) (st, clean) [0..<length clean])
       (\<lambda>(s, out). Inr out)"

text \<open>\<open>for offset, index in enumerate(range(start, min(stop, len(clean_records))))\<close>.\<close>

definition window_records ::
    "(int \<Rightarrow> int \<Rightarrow> evaluation \<Rightarrow> evaluation result) \<Rightarrow> int \<Rightarrow> int \<Rightarrow> evaluation list \<Rightarrow>
     evaluation list result" where
  "window_records body start stop clean =
     foldr_res (\<lambda>out (offset, index).
         bindr (body (int offset) index (out ! nat index)) (\<lambda>r. Inr (out[nat index := r])))
       clean (enumerate 0 (py_range start (min stop (int (length clean)))))"

text \<open>A map that carries a state, which is what each of these loops computes.\<close>

primrec map_acc :: "('s \<Rightarrow> 'a \<Rightarrow> ('s \<times> 'b) result) \<Rightarrow> 's \<Rightarrow> 'a list \<Rightarrow> 'b list result" where
  "map_acc f s [] = Inr []"
| "map_acc f s (x # xs) =
     bindr (f s x) (\<lambda>(s', y). bindr (map_acc f s' xs) (\<lambda>ys. Inr (y # ys)))"

definition res_rel :: "('a \<Rightarrow> 'b \<Rightarrow> bool) \<Rightarrow> 'a result \<Rightarrow> 'b result \<Rightarrow> bool" where
  "res_rel R a b = (case (a, b) of (Inl e, Inl f) \<Rightarrow> e = f | (Inr x, Inr y) \<Rightarrow> R x y | _ \<Rightarrow> False)"

lemma res_rel_simps [simp]:
  "res_rel R (Inl e) b \<longleftrightarrow> b = Inl e"
  "res_rel R (Inr x) b \<longleftrightarrow> (\<exists>y. b = Inr y \<and> R x y)"
  by (cases b; auto simp: res_rel_def)+

text \<open>Two loops that stay related compute the same list, or raise the same exception.\<close>

lemma map_acc_sim:
  assumes "length xs = length ys" and "R 0 s t"
    and "\<And>k s t. k < length xs \<Longrightarrow> R k s t \<Longrightarrow>
      res_rel (\<lambda>(s', y) (t', z). y = z \<and> R (Suc k) s' t') (f s (xs ! k)) (g t (ys ! k))"
  shows "map_acc f s xs = map_acc g t ys"
  using assms
proof (induction xs ys arbitrary: s t R rule: list_induct2)
  case Nil
  then show ?case by simp
next
  case (Cons x xs y ys)
  have step: "res_rel (\<lambda>(s', y) (t', z). y = z \<and> R (Suc 0) s' t') (f s x) (g t y)"
    using Cons.prems(2) [of 0 s t] Cons.prems(1) by simp
  show ?case
  proof (cases "f s x")
    case (Inl e)
    with step show ?thesis by simp
  next
    case (Inr p)
    obtain s' a where p: "p = (s', a)" by (cases p)
    with Inr step obtain t' where g: "g t y = Inr (t', a)" and R: "R (Suc 0) s' t'" by auto
    have "map_acc f s' xs = map_acc g t' ys"
      by (rule Cons.IH [of "\<lambda>k. R (Suc k)"], rule R)
         (use Cons.prems(2) [of "Suc k" for k] in \<open>auto\<close>)
    with Inr p g show ?thesis by simp
  qed
qed

lemma map_acc_unit: "map_acc (\<lambda>u x. bindr (f x) (\<lambda>y. Inr ((), y))) () xs = mapr f xs"
  by (induction xs) (auto intro!: bindr_cong simp: bindr_assoc)

lemma each_record_acc_aux:
  assumes "j \<le> length clean" "length out = length clean" "\<forall>i. j \<le> i \<and> i < length clean \<longrightarrow> out ! i = clean ! i"
  shows "bindr (foldr_res (\<lambda>(s, out) i. bindr (body s (int i) (clean ! i) (out ! i)) (\<lambda>(s', r).
              Inr (s', out[i := r]))) (st, out) [j..<length clean]) (\<lambda>(s, out). Inr out) =
         bindr (map_acc (\<lambda>s i. body s (int i) (clean ! i) (clean ! i)) st [j..<length clean])
           (\<lambda>ys. Inr (take j out @ ys))"
  using assms
proof (induction "length clean - j" arbitrary: j out st)
  case 0
  then show ?case by simp
next
  case (Suc k)
  then have j: "j < length clean" by simp
  have cur: "out ! j = clean ! j" using Suc.prems j by simp
  have hd: "[j..<length clean] = j # [Suc j..<length clean]" using j by (rule upt_conv_Cons)
  show ?case
  proof (cases "body st (int j) (clean ! j) (clean ! j)")
    case (Inl e)
    then show ?thesis by (simp add: hd cur)
  next
    case (Inr p)
    obtain s' r where p: "p = (s', r)" by (cases p)
    have len: "j < length out" using j Suc.prems(2) by simp
    have IH: "bindr (foldr_res (\<lambda>(s, out) i. bindr (body s (int i) (clean ! i) (out ! i)) (\<lambda>(s', r).
              Inr (s', out[i := r]))) (s', out[j := r]) [Suc j..<length clean]) (\<lambda>(s, out). Inr out) =
         bindr (map_acc (\<lambda>s i. body s (int i) (clean ! i) (clean ! i)) s' [Suc j..<length clean])
           (\<lambda>ys. Inr (take (Suc j) (out[j := r]) @ ys))"
      using Suc.hyps(2) Suc.prems j by (intro Suc.hyps(1)) (auto simp: nth_list_update)
    have tk: "take (Suc j) (out[j := r]) = take j out @ [r]"
      using len by (simp add: take_Suc_conv_app_nth)
    show ?thesis
      using IH by (simp add: hd cur Inr p tk bindr_assoc)
  qed
qed

lemma each_record_acc_map:
  "each_record_acc body st clean =
   map_acc (\<lambda>s i. body s (int i) (clean ! i) (clean ! i)) st [0..<length clean]"
  using each_record_acc_aux [of 0 clean clean body st]
  by (simp add: each_record_acc_def)
     (cases "map_acc (\<lambda>s i. body s (int i) (clean ! i) (clean ! i)) st [0..<length clean]"; simp)

lemma foldr_res_unit_state:
  "bindr (foldr_res (\<lambda>(s, out) i. bindr (bindr (b out i) (\<lambda>r. Inr ((), r))) (\<lambda>(s', r).
      Inr (s', upd out i r))) (u, out) is) (\<lambda>(s, out). Inr out) =
   foldr_res (\<lambda>out i. bindr (b out i) (\<lambda>r. Inr (upd out i r))) out is"
proof (induction "is" arbitrary: u out)
  case Nil
  then show ?case by simp
next
  case (Cons i "is")
  then show ?case by (cases "b out i") simp_all
qed

lemma each_record_map:
  "each_record body clean =
   mapr (\<lambda>i. body (int i) (clean ! i) (clean ! i)) [0..<length clean]"
proof -
  have "each_record body clean =
        each_record_acc (\<lambda>s i c out. bindr (body i c out) (\<lambda>r. Inr ((), r))) () clean"
    unfolding each_record_def each_record_acc_def
    by (rule foldr_res_unit_state [symmetric, of _ "\<lambda>out i r. out[i := r]"])
  then show ?thesis by (simp add: each_record_acc_map map_acc_unit)
qed

lemma each_record_total:
  assumes "\<And>i. i < length clean \<Longrightarrow> \<exists>r. body (int i) (clean ! i) (clean ! i) = Inr r \<and> P r"
  shows "\<exists>out. each_record body clean = Inr out \<and> list_all P out"
  unfolding each_record_map by (rule mapr_total) (use assms in auto)

lemma foldr_res_map: "foldr_res f s (map g xs) = foldr_res (\<lambda>s x. f s (g x)) s xs"
  by (induction xs arbitrary: s) (auto intro!: bindr_cong)

lemma foldr_res_filter:
  assumes "\<And>s x. x \<in> set xs \<Longrightarrow> \<not> P x \<Longrightarrow> f s x = Inr s"
  shows "foldr_res f s xs = foldr_res f s (filter P xs)"
  using assms by (induction xs arbitrary: s) (auto intro!: bindr_cong)

lemma py_range_nat: "0 \<le> a \<Longrightarrow> py_range a b = map int [nat a..<nat b]"
  by (rule nth_equalityI) (auto simp: py_range_nth nat_diff_distrib')

lemma filter_window: "filter (\<lambda>i. a \<le> i \<and> i < b) [0..<n] = [a..<min b n]"
proof (induction n)
  case (Suc n)
  have "[a..<Suc n] = [a..<min b (Suc n)]" if "\<not> Suc n < b" "n < b"
  proof -
    from that have "b = Suc n" by simp
    then show ?thesis by simp
  qed
  with Suc show ?case by (auto simp: min_def)
qed simp

lemma enumerate_map: "enumerate 0 (map f xs) = map (\<lambda>i. (i, f (xs ! i))) [0..<length xs]"
  by (rule nth_equalityI) (auto simp: nth_enumerate_eq)

lemma upt_nth_diff: "i < b - a \<Longrightarrow> [a..<b] ! i = a + i"
  by (rule nth_upt) simp

text \<open>The window loop is the loop over all records that leaves the others alone.\<close>

lemma window_records_each:
  assumes "0 \<le> start"
  shows "window_records body start stop clean =
    each_record (\<lambda>i c out. if start \<le> i \<and> i < stop then body (i - start) i out else Inr out) clean"
    (is "_ = each_record ?b clean")
proof -
  let ?n = "length clean"
  let ?f = "\<lambda>out i. bindr (?b (int i) (clean ! i) (out ! i)) (\<lambda>r. Inr (out[i := r]))"
  let ?g = "\<lambda>out i. bindr (body (int i - start) (int i) (out ! i)) (\<lambda>r. Inr (out[i := r]))"
  let ?P = "\<lambda>i. nat start \<le> i \<and> i < nat stop"
  have "each_record ?b clean = foldr_res ?f clean (filter ?P [0..<?n])"
    unfolding each_record_def using assms by (intro foldr_res_filter) auto
  also have "\<dots> = foldr_res ?g clean (filter ?P [0..<?n])"
    using assms by (intro foldr_res_cong) auto
  also have "filter ?P [0..<?n] = [nat start..<min (nat stop) ?n]" by (rule filter_window)
  also have "foldr_res ?g clean [nat start..<min (nat stop) ?n] =
      window_records body start stop clean"
  proof -
    have "nat (min stop (int ?n)) = min (nat stop) ?n" by (auto simp: min_def nat_le_iff)
    then have "py_range start (min stop (int ?n)) = map int [nat start..<min (nat stop) ?n]"
      using assms by (simp add: py_range_nat)
    then have idx: "enumerate 0 (py_range start (min stop (int ?n))) =
        map (\<lambda>i. (i - nat start, int i)) [nat start..<min (nat stop) ?n]"
      by (auto simp: enumerate_map upt_nth_diff intro!: nth_equalityI)
    show ?thesis unfolding window_records_def idx foldr_res_map
      using assms by (intro foldr_res_cong) (auto simp: of_nat_diff)
  qed
  finally show ?thesis by simp
qed

section \<open>Availability operators\<close>

text \<open>The body of the inner loop of \<open>_absence\<close> for one slot: the sensor and the provenance
  come from \<open>source\<close>, which is the clean record in the batch operators.\<close>

definition absence_slot ::
    "hasher \<Rightarrow> fault_manifest \<Rightarrow> evaluation \<Rightarrow> evaluation \<Rightarrow> string \<Rightarrow> evaluation result" where
  "absence_slot h m source out slot =
     bindr (ob_sensor (ev_observation source) slot) (\<lambda>s.
     bindr (without_payload s (fm_observability m = DECLARED)) (\<lambda>sensor.
     bindr (provenance_for source slot) (\<lambda>p.
     bindr (provenance_post_init
              (p\<lparr>pv_source_index := None, pv_source_time_s := None, pv_payload_sha256 := None,
                 pv_active_fault_ids := [operator_name (fm_operator_id m)]\<rparr>)) (\<lambda>pv.
     replace_delivery h out sensor pv))))"

definition absence ::
    "hasher \<Rightarrow> evaluation list \<Rightarrow> fault_manifest \<Rightarrow> int list \<Rightarrow> evaluation list result" where
  "absence h clean m erased_indices =
     each_record (\<lambda>index record out.
       if index \<notin> set erased_indices then Inr out
       else foldr_res (absence_slot h m record) out (fm_sensor_slots m)) clean"

definition A1_apply :: "hasher \<Rightarrow> evaluation list \<Rightarrow> fault_manifest \<Rightarrow> evaluation list result" where
  "A1_apply h clean m =
     bindr (param_ints m ''affected_offsets'') (\<lambda>offsets.
       absence h clean m (map (\<lambda>offset. fm_start_index m + offset) offsets))"

definition A2_apply :: "hasher \<Rightarrow> evaluation list \<Rightarrow> fault_manifest \<Rightarrow> evaluation list result" where
  "A2_apply h clean m =
     bindr (param_ints m ''erased_offsets'') (\<lambda>offsets.
       absence h clean m (map (\<lambda>offset. fm_start_index m + offset) offsets))"

section \<open>Temporal operators\<close>

definition route_source ::
    "hasher \<Rightarrow> fault_manifest \<Rightarrow> evaluation \<Rightarrow> evaluation \<Rightarrow> string \<Rightarrow> evaluation result" where
  "route_source h m source out slot =
     bindr (ob_sensor (ev_observation out) slot) (\<lambda>current.
     bindr (ob_sensor (ev_observation source) slot) (\<lambda>s.
     bindr (provenance_for source slot) (\<lambda>p.
     bindr (sensor_post_init
              (s\<lparr>so_slot_id := slot,
                 so_delivery_index := so_delivery_index current,
                 so_delivery_time_s := so_delivery_time_s current,
                 so_declared_validity := fault_declared_validity current m\<rparr>)) (\<lambda>sensor.
     bindr (provenance_post_init
              (p\<lparr>pv_slot_id := slot,
                 pv_active_fault_ids := [operator_name (fm_operator_id m)]\<rparr>)) (\<lambda>pv.
     replace_delivery h out sensor pv)))))"

definition T1_apply :: "hasher \<Rightarrow> evaluation list \<Rightarrow> fault_manifest \<Rightarrow> evaluation list result" where
  "T1_apply h clean m =
     bindr (param_ints m ''source_index_map'') (\<lambda>source_map.
       window_records (\<lambda>offset index out.
           bindr (py_index source_map offset) (\<lambda>source_index.
           foldr_res (\<lambda>acc slot. bindr (py_index clean source_index) (\<lambda>source.
                        route_source h m source acc slot))
             out (fm_sensor_slots m)))
         (fm_start_index m) (fm_stop_index m) clean)"

definition T2_apply :: "hasher \<Rightarrow> evaluation list \<Rightarrow> fault_manifest \<Rightarrow> evaluation list result" where
  "T2_apply h clean m =
     bindr (param_ints m ''source_index_map'') (\<lambda>source_map.
       window_records (\<lambda>offset index out.
           bindr (py_index source_map offset) (\<lambda>source_index.
           if source_index = index then Inr out
           else foldr_res (\<lambda>acc slot. bindr (py_index clean source_index) (\<lambda>source.
                             route_source h m source acc slot))
                  out (fm_sensor_slots m)))
         (fm_start_index m) (fm_stop_index m) clean)"

text \<open>\<open>int(source_map[slot_id][offset])\<close> for the per-slot map of T3.\<close>

definition t3_source_index :: "fault_manifest \<Rightarrow> string \<Rightarrow> int \<Rightarrow> int result" where
  "t3_source_index m slot offset =
     bindr (param_item m ''source_index_map'' slot) (\<lambda>v.
       case v of
         PList vs \<Rightarrow> bindr (py_index vs offset) py_int
       | _ \<Rightarrow> Inl (TypeError ''object is not subscriptable''))"

definition T3_apply :: "hasher \<Rightarrow> evaluation list \<Rightarrow> fault_manifest \<Rightarrow> evaluation list result" where
  "T3_apply h clean m =
     bindr (ditem (fm_parameters m) ''source_index_map'') (\<lambda>_.
       window_records (\<lambda>offset index out.
           foldr_res (\<lambda>acc slot. bindr (t3_source_index m slot offset) (\<lambda>source_index.
                        bindr (py_index clean source_index) (\<lambda>source.
                        route_source h m source acc slot)))
             out (fm_sensor_slots m))
         (fm_start_index m) (fm_stop_index m) clean)"

section \<open>Context operators\<close>

text \<open>\<open>str(route_map[slot])\<close>: the materialised route map holds strings, and the text of any
  other value is not the name of a slot.\<close>

fun route_target :: "pyval \<Rightarrow> string result" where
  "route_target (PStr s) = Inr s"
| "route_target _ = Inl (KeyError ''unknown tactile slot'')"

definition c1_slot ::
    "hasher \<Rightarrow> fault_manifest \<Rightarrow> evaluation \<Rightarrow> evaluation \<Rightarrow> string \<Rightarrow> evaluation result" where
  "c1_slot h m clean current target_slot =
     bindr (bindr (param_item m ''route_map'' target_slot) route_target) (\<lambda>source_slot.
     bindr (ob_sensor (ev_observation current) target_slot) (\<lambda>target.
     bindr (ob_sensor (ev_observation clean) source_slot) (\<lambda>source.
     bindr (provenance_for clean source_slot) (\<lambda>p.
     bindr (sensor_post_init
              (source\<lparr>so_slot_id := target_slot,
                 so_delivery_index := so_delivery_index target,
                 so_delivery_time_s := so_delivery_time_s target,
                 so_declared_validity := fault_declared_validity target m,
                 so_frame_id := so_frame_id target,
                 so_calibration_id := so_calibration_id target\<rparr>)) (\<lambda>routed.
     bindr (provenance_post_init
              (p\<lparr>pv_slot_id := target_slot,
                 pv_payload_sha256 := array_sha256 h (so_payload routed),
                 pv_active_fault_ids := [operator_name (fm_operator_id m)]\<rparr>)) (\<lambda>pv.
     replace_delivery h current routed pv))))))"

definition C1_apply :: "hasher \<Rightarrow> evaluation list \<Rightarrow> fault_manifest \<Rightarrow> evaluation list result" where
  "C1_apply h clean m =
     (if set (fm_sensor_slots m) \<noteq> set SENSOR_SLOTS
      then Inl (ValueError ''C1 requires both left and right sensor slots'')
      else bindr (param_ints m ''affected_offsets'') (\<lambda>offsets.
        let affected = map (\<lambda>offset. fm_start_index m + offset) offsets in
        bindr (ditem (fm_parameters m) ''route_map'') (\<lambda>_.
        each_record (\<lambda>index record out.
          if index \<notin> set affected then Inr out
          else foldr_res (c1_slot h m record) out SENSOR_SLOTS) clean)))"

text \<open>The decimal text of an integer, as an f-string renders it.\<close>

fun nat_text :: "nat \<Rightarrow> string" where
  "nat_text n =
     (if n < 10 then [''0123456789'' ! n] else nat_text (n div 10) @ [''0123456789'' ! (n mod 10)])"

declare nat_text.simps [simp del]

definition int_text :: "int \<Rightarrow> string" where
  "int_text i = (if i < 0 then ''-'' @ nat_text (nat (- i)) else nat_text (nat i))"

text \<open>
  \<open>output[sy:, sx:, :] = payload[:H - sy, :W - sx, :]\<close> on a copy of the baseline.  With the
  baseline of the shape \<open>H x W x 3\<close> of the payload the two regions have the same shape; when
  the baseline has another shape, a dimension of the payload region has to equal that of the
  target region or be 1, as numpy broadcasting has it.
\<close>

definition dim3 :: "ndarray \<Rightarrow> nat \<times> nat" where
  "dim3 a = (nd_shape a ! 0, nd_shape a ! 1)"

definition at3 :: "ndarray \<Rightarrow> nat \<Rightarrow> nat \<Rightarrow> nat \<Rightarrow> rat option" where
  "at3 a y x c = nd_data a ! ((y * (nd_shape a ! 1) + x) * 3 + c)"

definition overlay :: "ndarray \<Rightarrow> ndarray \<Rightarrow> int \<Rightarrow> int \<Rightarrow> ndarray result" where
  "overlay payload baseline shift_x shift_y =
     (let (height, width) = dim3 payload; (bh, bw) = dim3 baseline;
          sx = nat shift_x; sy = nat shift_y;
          th = bh - sy; tw = bw - sx; ph = height - sy; pw = width - sx
      in if (ph = th \<or> ph = 1) \<and> (pw = tw \<or> pw = 1) then
           Inr (baseline\<lparr>nd_data :=
             [(if sy \<le> y \<and> sx \<le> x
               then at3 payload (if ph = 1 then 0 else y - sy)
                      (if pw = 1 then 0 else x - sx) c
               else at3 baseline y x c).
              y \<leftarrow> [0..<bh], x \<leftarrow> [0..<bw], c \<leftarrow> [0..<3]]\<rparr>)
         else Inl (ValueError ''could not broadcast input array''))"

definition baseline_fill_shift :: "ndarray \<Rightarrow> ndarray \<Rightarrow> int \<Rightarrow> int \<Rightarrow> ndarray result" where
  "baseline_fill_shift payload baseline shift_x shift_y =
     (let (height, width) = dim3 payload
      in if int width \<le> shift_x \<or> int height \<le> shift_y then Inr baseline
         else overlay payload baseline shift_x shift_y)"

text \<open>\<open>shift_x, shift_y = (int(value) for value in parameters["translation_xy_px"])\<close>.\<close>

definition c2_shift :: "fault_manifest \<Rightarrow> (int \<times> int) result" where
  "c2_shift m =
     (if \<not> py_eq (dget (fm_parameters m) ''realization'') (PStr ''registered_pixels'')
      then Inl (ValueError ''C2 requires registered_pixels'')
      else bindr (param_ints m ''translation_xy_px'') (\<lambda>xs.
        case xs of
          [shift_x, shift_y] \<Rightarrow>
            if shift_x < 0 \<or> shift_y < 0 \<or> (shift_x = 0 \<and> shift_y = 0)
            then Inl (ValueError ''reference C2 requires one non-zero positive integer shift'')
            else Inr (shift_x, shift_y)
        | _ \<Rightarrow> Inl (ValueError ''wrong number of values to unpack'')))"

definition c2_calibration_id :: "string \<Rightarrow> int \<Rightarrow> int \<Rightarrow> string" where
  "c2_calibration_id calibration shift_x shift_y =
     calibration @ '':misregistered:'' @ int_text shift_x @ '','' @ int_text shift_y @ ''px''"

definition c2_slot ::
    "hasher \<Rightarrow> fault_manifest \<Rightarrow> reference_bundle option \<Rightarrow> int \<Rightarrow> int \<Rightarrow> evaluation \<Rightarrow> string \<Rightarrow>
     evaluation result" where
  "c2_slot h m rest shift_x shift_y out slot =
     bindr (ob_sensor (ev_observation out) slot) (\<lambda>sensor.
     case so_payload sensor of
       None \<Rightarrow> Inl (ValueError ''C2 requires a present payload'')
     | Some current \<Rightarrow>
         bindr (baseline_for h slot m rest) (\<lambda>baseline.
         bindr (baseline_fill_shift current baseline shift_x shift_y) (\<lambda>payload.
         let calibration_id = c2_calibration_id (so_calibration_id sensor) shift_x shift_y in
         bindr (sensor_post_init
                  (sensor\<lparr>so_payload := Some payload,
                     so_declared_validity := fault_declared_validity sensor m,
                     so_calibration_id := calibration_id\<rparr>)) (\<lambda>routed.
         bindr (provenance_for out slot) (\<lambda>p.
         bindr (provenance_post_init
                  (p\<lparr>pv_payload_sha256 := array_sha256 h (Some payload),
                     pv_calibration_sha256 := canonical_hash h (PStr calibration_id),
                     pv_active_fault_ids := [operator_name (fm_operator_id m)]\<rparr>)) (\<lambda>pv.
         replace_delivery h out routed pv))))))"

definition C2_apply ::
    "hasher \<Rightarrow> evaluation list \<Rightarrow> fault_manifest \<Rightarrow> reference_bundle option \<Rightarrow>
     evaluation list result" where
  "C2_apply h clean m rest =
     bindr (c2_shift m) (\<lambda>(shift_x, shift_y).
       each_record (\<lambda>index record out.
         if \<not> manifest_active m index then Inr out
         else foldr_res (c2_slot h m rest shift_x shift_y) out (fm_sensor_slots m)) clean)"

end
