(* ===== verification/Numpy.thy ===== *)
theory Numpy
  imports Operators
begin

text \<open>
  The array kernels of numpy that the fidelity operators call, as the fields of one record,
  and the pixel transforms of \<open>operators/base.py\<close> and \<open>operators/fidelity_transforms.py\<close>
  written over them.  numpy is not part of the repository, so its floating-point kernels are
  arguments: an operation on arrays of two shapes may raise (broadcasting), one with a Python
  scalar may not.  Index arithmetic and shapes are computed here.
\<close>

record numpy =
  np_is_integer :: "string \<Rightarrow> bool"
  np_astype :: "ndarray \<Rightarrow> string \<Rightarrow> ndarray"
  np_asarray :: "rat list \<Rightarrow> string \<Rightarrow> ndarray"
  np_max0 :: "ndarray \<Rightarrow> rat"
  np_min :: "ndarray \<Rightarrow> rat"
  np_any :: "ndarray \<Rightarrow> bool"
  np_clip :: "ndarray \<Rightarrow> rat \<Rightarrow> rat \<Rightarrow> ndarray"
  np_rint :: "ndarray \<Rightarrow> ndarray"
  np_floor :: "ndarray \<Rightarrow> ndarray"
  np_exp :: "ndarray \<Rightarrow> ndarray"
  np_abs :: "ndarray \<Rightarrow> ndarray"
  np_neg :: "ndarray \<Rightarrow> ndarray"
  np_square :: "ndarray \<Rightarrow> ndarray"
  np_add_s :: "ndarray \<Rightarrow> rat \<Rightarrow> ndarray"
  np_sub_s :: "ndarray \<Rightarrow> rat \<Rightarrow> ndarray"
  np_rsub_s :: "rat \<Rightarrow> ndarray \<Rightarrow> ndarray"
  np_mul_s :: "ndarray \<Rightarrow> rat \<Rightarrow> ndarray"
  np_div_s :: "ndarray \<Rightarrow> rat \<Rightarrow> ndarray"
  np_minimum_s :: "ndarray \<Rightarrow> rat \<Rightarrow> ndarray"
  np_maximum_s :: "ndarray \<Rightarrow> rat \<Rightarrow> ndarray"
  np_lt_s :: "ndarray \<Rightarrow> rat \<Rightarrow> ndarray"
  np_le_s :: "ndarray \<Rightarrow> rat \<Rightarrow> ndarray"
  np_gt_s :: "ndarray \<Rightarrow> rat \<Rightarrow> ndarray"
  np_add :: "ndarray \<Rightarrow> ndarray \<Rightarrow> ndarray result"
  np_sub :: "ndarray \<Rightarrow> ndarray \<Rightarrow> ndarray result"
  np_mul :: "ndarray \<Rightarrow> ndarray \<Rightarrow> ndarray result"
  np_div :: "ndarray \<Rightarrow> ndarray \<Rightarrow> ndarray result"
  np_newaxis :: "ndarray \<Rightarrow> ndarray"
  np_column :: "ndarray \<Rightarrow> ndarray"
  np_mgrid :: "nat \<Rightarrow> nat \<Rightarrow> ndarray \<times> ndarray"
  np_arange :: "nat \<Rightarrow> ndarray"
  np_zeros :: "nat \<Rightarrow> nat \<Rightarrow> string \<Rightarrow> ndarray"
  np_zeros_like :: "ndarray \<Rightarrow> ndarray"
  np_ones_like :: "ndarray \<Rightarrow> ndarray"
  np_diff1 :: "ndarray \<Rightarrow> ndarray"
  np_get :: "ndarray \<Rightarrow> ndarray \<Rightarrow> ndarray result"
  np_put :: "ndarray \<Rightarrow> ndarray \<Rightarrow> ndarray \<Rightarrow> ndarray result"
  np_at2 :: "ndarray \<Rightarrow> ndarray \<Rightarrow> ndarray \<Rightarrow> ndarray result"
  np_take :: "ndarray \<Rightarrow> int list \<Rightarrow> nat \<Rightarrow> ndarray result"
  np_norm_last :: "ndarray \<Rightarrow> ndarray"
  np_where :: "ndarray \<Rightarrow> ndarray \<Rightarrow> ndarray \<Rightarrow> ndarray result"
  np_div_where :: "ndarray \<Rightarrow> ndarray \<Rightarrow> ndarray \<Rightarrow> ndarray \<Rightarrow> ndarray result"
  np_sum :: "ndarray \<Rightarrow> rat"
  np_mean :: "ndarray \<Rightarrow> rat"
  np_count :: "ndarray \<Rightarrow> int"
  np_crop :: "ndarray \<Rightarrow> nat \<Rightarrow> nat \<Rightarrow> nat \<Rightarrow> nat \<Rightarrow> ndarray"
  np_ne :: "ndarray \<Rightarrow> ndarray \<Rightarrow> ndarray result"
  np_eq :: "ndarray \<Rightarrow> ndarray \<Rightarrow> ndarray result"
  np_and :: "ndarray \<Rightarrow> ndarray \<Rightarrow> ndarray result"
  np_any_last :: "ndarray \<Rightarrow> ndarray"
  np_all_last :: "ndarray \<Rightarrow> ndarray"
  np_min_init :: "ndarray \<Rightarrow> rat \<Rightarrow> rat"
  np_sum_list :: "rat list \<Rightarrow> rat"
  np_mean_list :: "rat list \<Rightarrow> rat"
  np_hypot :: "rat \<Rightarrow> rat \<Rightarrow> rat"

section \<open>Intensity range\<close>

definition np_normalize_as :: "numpy \<Rightarrow> string \<Rightarrow> ndarray \<Rightarrow> ndarray" where
  "np_normalize_as np dtype payload =
     (let arr = np_astype np payload dtype;
          arr = (if np_is_integer np (nd_dtype payload) \<or> 3 / 2 < np_max0 np arr
                 then np_div_s np arr 255 else arr)
      in np_clip np arr 0 1)"

definition normalize :: "numpy \<Rightarrow> ndarray \<Rightarrow> ndarray" where
  "normalize np payload = np_normalize_as np ''float32'' payload"

definition clip_like :: "numpy \<Rightarrow> ndarray \<Rightarrow> ndarray \<Rightarrow> ndarray" where
  "clip_like np reference normalized =
     (let bounded = np_clip np normalized 0 1 in
      if np_is_integer np (nd_dtype reference)
      then np_astype np (np_rint np (np_mul_s np bounded 255)) (nd_dtype reference)
      else np_astype np bounded (nd_dtype reference))"

definition normalize_float64 :: "numpy \<Rightarrow> ndarray \<Rightarrow> ndarray" where
  "normalize_float64 np payload = np_normalize_as np ''float64'' payload"

definition restore_like :: "numpy \<Rightarrow> ndarray \<Rightarrow> ndarray \<Rightarrow> ndarray" where
  "restore_like np reference normalized =
     (let bounded = np_clip np normalized 0 1 in
      if np_is_integer np (nd_dtype reference)
      then np_astype np (np_rint np (np_mul_s np bounded 255)) (nd_dtype reference)
      else np_astype np bounded (nd_dtype reference))"

definition grid :: "numpy \<Rightarrow> nat \<Rightarrow> nat \<Rightarrow> ndarray \<times> ndarray" where
  "grid np height width =
     (let (yy, xx) = np_mgrid np height width
      in (np_astype np yy ''float32'', np_astype np xx ''float32''))"

section \<open>F5: compact horizontal warp\<close>

text \<open>\<open>((xx - cx) / r) ** 2 + ((yy - cy) / r) ** 2\<close>.\<close>

definition warp_radius_squared ::
    "numpy \<Rightarrow> ndarray \<Rightarrow> ndarray \<Rightarrow> rat \<Rightarrow> rat \<Rightarrow> rat \<Rightarrow> ndarray result" where
  "warp_radius_squared np xx yy center_x center_y radius =
     np_add np (np_square np (np_div_s np (np_sub_s np xx center_x) radius))
               (np_square np (np_div_s np (np_sub_s np yy center_y) radius))"

text \<open>The sampled image: bilinear interpolation along the rows at \<open>source_x\<close>.\<close>

definition warp_sample :: "numpy \<Rightarrow> ndarray \<Rightarrow> nat \<Rightarrow> nat \<Rightarrow> ndarray \<Rightarrow> ndarray result" where
  "warp_sample np payload height width source_x =
     (let left = np_astype np (np_floor np source_x) ''int64'';
          right = np_minimum_s np (np_add_s np left 1) (of_nat width - 1);
          rows = np_column np (np_arange np height);
          normalized = normalize_float64 np payload
      in bindr (np_sub np source_x left) (\<lambda>d.
         let fraction = np_newaxis np d in
         bindr (np_at2 np normalized rows left) (\<lambda>nl.
         bindr (np_at2 np normalized rows right) (\<lambda>nr.
         bindr (np_mul np (np_rsub_s np 1 fraction) nl) (\<lambda>a.
         bindr (np_mul np fraction nr) (\<lambda>b.
         bindr (np_add np a b) (\<lambda>sampled.
         Inr (restore_like np payload sampled))))))))"

definition compact_horizontal_warp ::
    "numpy \<Rightarrow> ndarray \<Rightarrow> rat \<times> rat \<Rightarrow> rat \<Rightarrow> rat \<Rightarrow> ndarray result" where
  "compact_horizontal_warp np payload center_xy support_radius_fraction displacement_px =
     (let (height, width) = dim3 payload;
          radius = fmul (of_nat (min height width)) support_radius_fraction
      in if radius \<le> 0 then Inl (ValueError ''warp support radius must be positive'')
      else let center_x = fmul (fst center_xy) (of_nat width - 1);
               center_y = fmul (snd center_xy) (of_nat height - 1);
               (yy, xx) = map_prod (\<lambda>a. np_astype np a ''float64'') (\<lambda>a. np_astype np a ''float64'')
                            (np_mgrid np height width)
           in bindr (warp_radius_squared np xx yy center_x center_y radius) (\<lambda>radius_squared.
              let support = np_lt_s np radius_squared 1 in
              bindr (np_get np radius_squared support) (\<lambda>inside.
              bindr (np_put np (np_zeros np height width ''float64'') support
                       (np_square np (np_rsub_s np 1 inside))) (\<lambda>weight.
              bindr (np_sub np xx (np_mul_s np weight displacement_px)) (\<lambda>source_x.
              bindr (np_get np source_x support) (\<lambda>sources.
              if np_any np (np_lt_s np sources 0)
                 \<or> np_any np (np_gt_s np sources (of_nat width - 1))
              then Inl (ValueError ''F5 source map leaves the current RGB frame'')
              else let source_step = np_diff1 np source_x in
                   if nd_data source_step \<noteq> [] \<and> np_min np source_step \<le> 0
                   then Inl (ValueError ''F5 source map folds at this image size and dose'')
                   else if \<not> np_any np support then Inr payload
                   else bindr (warp_sample np payload height width source_x) (\<lambda>restored.
                        bindr (np_get np restored support) (\<lambda>values.
                        np_put np payload support values))))))))"

section \<open>F7: reflected box anchor and response compression\<close>

text \<open>\<open>np.mod\<close> of an integer by zero is zero; the caller's radius bound excludes that case.\<close>

definition reflect_index :: "nat \<Rightarrow> int \<Rightarrow> int" where
  "reflect_index len i =
     (let period = 2 * (int len - 1);
          raw = (if period = 0 then 0 else i mod period)
      in if raw < int len then raw else period - raw)"

definition reflected_indices :: "nat \<Rightarrow> int \<Rightarrow> int list list" where
  "reflected_indices len radius =
     map (\<lambda>offset. map (\<lambda>i. reflect_index len (int i + offset)) [0..<len])
       (py_range (- radius) (radius + 1))"

text \<open>\<open>for idx in indices: acc += np.take(a, idx, axis)\<close>, then the mean.\<close>

definition box_mean :: "numpy \<Rightarrow> ndarray \<Rightarrow> int list list \<Rightarrow> nat \<Rightarrow> ndarray result" where
  "box_mean np a indices axis =
     bindr (foldr_res (\<lambda>acc idx. bindr (np_take np a idx axis) (np_add np acc))
              (np_zeros_like np a) indices) (\<lambda>total.
     Inr (np_div_s np total (of_nat (length indices))))"

definition anchor_radius :: "nat \<Rightarrow> nat \<Rightarrow> rat \<Rightarrow> int \<Rightarrow> int" where
  "anchor_radius height width radius_fraction minimum_radius_px =
     (let side = min height width;
          maximum_radius = (int side - 1) div 2;
          requested = max minimum_radius_px
            \<lfloor>fadd (fmul radius_fraction (of_nat side)) (1 / 2)\<rfloor>
      in min maximum_radius requested)"

definition reflected_box_anchor :: "numpy \<Rightarrow> ndarray \<Rightarrow> rat \<Rightarrow> int \<Rightarrow> ndarray result" where
  "reflected_box_anchor np payload radius_fraction minimum_radius_px =
     (let normalized = normalize_float64 np payload;
          (height, width) = dim3 payload;
          radius = anchor_radius height width radius_fraction minimum_radius_px
      in if radius < 1
         then Inl (ValueError ''F7 input is too small for a reflected box anchor'')
         else bindr (box_mean np normalized (reflected_indices height radius) 0) (\<lambda>vertical.
              box_mean np vertical (reflected_indices width radius) 1))"

definition same_frame_response_compression ::
    "numpy \<Rightarrow> ndarray \<Rightarrow> rat \<Rightarrow> rat \<Rightarrow> rat \<Rightarrow> int \<Rightarrow> ndarray result" where
  "same_frame_response_compression np payload knee plateau_width_ratio anchor_radius_fraction
       minimum_anchor_radius_px =
     (if knee \<le> 0 \<or> plateau_width_ratio \<le> 0
      then Inl (ValueError ''F7 response parameters must be positive'')
      else let current = normalize_float64 np payload in
        bindr (reflected_box_anchor np payload anchor_radius_fraction minimum_anchor_radius_px)
          (\<lambda>anchor.
        bindr (np_sub np current anchor) (\<lambda>detail.
        let magnitude = np_norm_last np detail;
            plateau = fmul knee plateau_width_ratio;
            excess = np_maximum_s np (np_sub_s np magnitude knee) 0
        in bindr (np_div np (np_mul_s np excess plateau) (np_add_s np excess plateau)) (\<lambda>q.
           bindr (np_where np (np_le_s np magnitude knee) magnitude (np_add_s np q knee))
             (\<lambda>compressed.
           bindr (np_div_where np compressed magnitude (np_ones_like np compressed)
                    (np_gt_s np magnitude (fl64 (1 / 10 ^ 12)))) (\<lambda>scale.
           bindr (np_mul np scale detail) (\<lambda>scaled.
           bindr (np_add np anchor scaled) (\<lambda>restored.
           Inr (restore_like np payload restored)))))))))"

section \<open>The reflected indices\<close>

lemma reflect_index_range:
  assumes "2 \<le> len"
  shows "0 \<le> reflect_index len i \<and> reflect_index len i < int len"
proof -
  define p where "p = 2 * (int len - 1)"
  have p: "0 < p" "p = 2 * int len - 2" using assms by (simp_all add: p_def)
  have "0 \<le> i mod p" "i mod p < p" using p(1) by simp_all
  with p assms show ?thesis unfolding reflect_index_def Let_def p_def [symmetric] by auto
qed

text \<open>Inside one reflection of the border the index is the mirrored one, and the border pixel
  is not repeated.\<close>

lemma reflect_index_mirror:
  assumes "2 \<le> len" "- int len < i" "i < 2 * int len - 1"
  shows "reflect_index len i = (if i < 0 then - i else if i < int len then i
                                else 2 * (int len - 1) - i)"
proof -
  let ?p = "2 * (int len - 1)"
  consider "i < 0" | "0 \<le> i" "i < ?p" | "i = ?p"
    using assms(3) by atomize_elim auto
  then show ?thesis
  proof cases
    case 1
    have "i mod ?p = i + ?p"
      using 1 assms mod_pos_pos_trivial [of "i + ?p" ?p] by simp
    with 1 assms show ?thesis by (auto simp: reflect_index_def Let_def)
  next
    case 2
    with assms show ?thesis by (auto simp: reflect_index_def Let_def)
  next
    case 3
    with assms show ?thesis by (auto simp: reflect_index_def Let_def)
  qed
qed

lemma reflected_indices_range:
  "2 \<le> len \<Longrightarrow> idx \<in> set (reflected_indices len radius) \<Longrightarrow>
   length idx = len \<and> (\<forall>i\<in>set idx. 0 \<le> i \<and> i < int len)"
  using reflect_index_range by (auto simp: reflected_indices_def)

lemma anchor_radius_range:
  assumes "1 \<le> anchor_radius height width f m"
  shows "3 \<le> min height width \<and> 2 * anchor_radius height width f m < int (min height width)"
proof -
  let ?s = "min height width"
  have "anchor_radius height width f m \<le> (int ?s - 1) div 2"
    by (simp add: anchor_radius_def Let_def)
  with assms show ?thesis by auto
qed

end
