(* ===== verification/Slot_Frames.thy ===== *)
theory Slot_Frames
  imports Operators
begin

text \<open>
  What an operator may touch.  Every operator rewrites records slot by slot through
  \<open>replace_delivery\<close>; the locale \<open>slot_writer\<close> states that contract and proves its consequences
  once: the identity, vision, proprioception and clean hash of a record are kept, the other
  slots keep their delivery and provenance, and the record stays well formed.  It is
  interpreted on the slot steps of the availability, temporal and context operators.
\<close>

section \<open>Views and frames\<close>

definition slot_view :: "evaluation \<Rightarrow> string \<Rightarrow> sensor result \<times> provenance result" where
  "slot_view r slot = (ob_sensor (ev_observation r) slot, provenance_for r slot)"

definition record_frame :: "evaluation \<Rightarrow> evaluation \<Rightarrow> bool" where
  "record_frame r r' \<longleftrightarrow>
     ob_episode_id (ev_observation r') = ob_episode_id (ev_observation r) \<and>
     ob_task (ev_observation r') = ob_task (ev_observation r) \<and>
     ob_seed (ev_observation r') = ob_seed (ev_observation r) \<and>
     step_of r' = step_of r \<and>
     ob_vision (ev_observation r') = ob_vision (ev_observation r) \<and>
     ob_proprio (ev_observation r') = ob_proprio (ev_observation r) \<and>
     tactile_slots (ev_observation r') = tactile_slots (ev_observation r) \<and>
     provenance_slots r' = provenance_slots r \<and>
     (ev_clean_record_sha256 r \<noteq> [] \<longrightarrow>
        ev_clean_record_sha256 r' = ev_clean_record_sha256 r)"

lemma record_frame_refl [simp]: "record_frame r r"
  by (simp add: record_frame_def)

lemma record_frame_trans: "record_frame r s \<Longrightarrow> record_frame s t \<Longrightarrow> record_frame r t"
  by (auto simp: record_frame_def)

definition slot_write :: "hasher \<Rightarrow> string \<Rightarrow> evaluation \<Rightarrow> evaluation \<Rightarrow> bool" where
  "slot_write h slot r r' \<longleftrightarrow>
     (\<exists>s pv. so_slot_id s = slot \<and> pv_slot_id pv = slot \<and> replace_delivery h r s pv = Inr r')"

lemma replace_delivery_Inr:
  assumes "replace_delivery h r s pv = Inr r'"
  shows "replace_sensor (ev_observation r) s = Inr (ev_observation r')"
    "ev_provenance r' =
       map (\<lambda>item. if pv_slot_id item = pv_slot_id pv then pv else item) (ev_provenance r)"
    "evaluation_ok h r'" "observation_ok (ev_observation r')"
    "ev_clean_record_sha256 r \<noteq> [] \<Longrightarrow> ev_clean_record_sha256 r' = ev_clean_record_sha256 r"
proof -
  from assms obtain ob where ob: "replace_sensor (ev_observation r) s = Inr ob"
    and b: "build_evaluation_record h ob
       (map (\<lambda>item. if pv_slot_id item = pv_slot_id pv then pv else item) (ev_provenance r))
       (Some (ev_clean_record_sha256 r)) = Inr r'"
    by (auto simp: replace_delivery_def result_simps Let_def)
  note facts = build_evaluation_record_Inr [OF b]
  show "replace_sensor (ev_observation r) s = Inr (ev_observation r')"
    using ob facts(2) by simp
  then show "observation_ok (ev_observation r')" using replace_sensor_Inr by blast
  show "ev_provenance r' =
      map (\<lambda>item. if pv_slot_id item = pv_slot_id pv then pv else item) (ev_provenance r)"
    using facts(3) by simp
  show "evaluation_ok h r'" by (rule facts(1))
  show "ev_clean_record_sha256 r \<noteq> [] \<Longrightarrow> ev_clean_record_sha256 r' = ev_clean_record_sha256 r"
    using facts(4) by simp
qed

lemma slot_view_replace:
  assumes "replace_delivery h r s pv = Inr r'" "pv_slot_id pv = so_slot_id s"
    "so_slot_id s \<in> set (provenance_slots r)"
  shows "slot_view r' slot = (if slot = so_slot_id s then (Inr s, Inr pv) else slot_view r slot)"
proof -
  note facts = replace_delivery_Inr [OF assms(1)]
  have "provenance_for r' slot = (if slot = so_slot_id s then Inr pv else provenance_for r slot)"
    using find_map_replace [of pv_slot_id slot pv "ev_provenance r"] facts(2) assms(2,3)
    by (auto simp: provenance_for_def find_provenance_def)
  with ob_sensor_replace [OF facts(1)] show ?thesis by (simp add: slot_view_def)
qed

lemma slot_view_replace_other:
  assumes "replace_delivery h r s pv = Inr r'" "slot \<noteq> so_slot_id s" "slot \<noteq> pv_slot_id pv"
  shows "slot_view r' slot = slot_view r slot"
  using ob_sensor_replace [OF replace_delivery_Inr(1) [OF assms(1)], of slot]
    find_map_replace [of pv_slot_id slot pv "ev_provenance r"] replace_delivery_Inr(2) [OF assms(1)]
    assms(2,3)
  by (auto simp: slot_view_def provenance_for_def find_provenance_def)

lemma map_provenance_slot:
  "map pv_slot_id (map (\<lambda>i. if pv_slot_id i = pv_slot_id pv then pv else i) xs) = map pv_slot_id xs"
  by (induction xs) auto

lemma slot_writeI:
  "replace_delivery h r s pv = Inr r' \<Longrightarrow> so_slot_id s = slot \<Longrightarrow> pv_slot_id pv = slot \<Longrightarrow>
   slot_write h slot r r'"
  by (auto simp: slot_write_def)

lemma replace_delivery_frame:
  assumes "replace_delivery h r s pv = Inr r'"
  shows "record_frame r r'"
proof -
  note facts = replace_delivery_Inr [OF assms]
  have "provenance_slots r' = provenance_slots r"
    unfolding facts(2) by (rule map_provenance_slot)
  with replace_sensor_Inr [OF facts(1)] facts(5) show ?thesis
    by (simp add: record_frame_def map_slot_replace del: map_map)
qed

lemma slot_write_frame: "slot_write h slot r r' \<Longrightarrow> record_frame r r'"
  by (auto simp: slot_write_def dest: replace_delivery_frame)

lemma slot_write_ok: "slot_write h slot r r' \<Longrightarrow> evaluation_ok h r' \<and> observation_ok (ev_observation r')"
  by (auto simp: slot_write_def dest: replace_delivery_Inr(3,4))

lemma slot_write_other: "slot_write h slot r r' \<Longrightarrow> t \<noteq> slot \<Longrightarrow> slot_view r' t = slot_view r t"
  by (auto simp: slot_write_def intro: slot_view_replace_other)

section \<open>The contract of a slot step\<close>

locale slot_writer =
  fixes h :: hasher
    and body :: "evaluation \<Rightarrow> string \<Rightarrow> evaluation result"
  assumes writes: "body r slot = Inr r' \<Longrightarrow> r' = r \<or> slot_write h slot r r'"
begin

lemma fold_frame: "foldr_res body r slots = Inr r' \<Longrightarrow> record_frame r r'"
  by (rule foldr_res_invariant [of body r slots r' "record_frame r"])
     (auto dest!: writes intro: record_frame_trans slot_write_frame)

lemma fold_ok:
  "foldr_res body r slots = Inr r' \<Longrightarrow> evaluation_ok h r \<Longrightarrow> evaluation_ok h r'"
  by (rule foldr_res_invariant [of body r slots r'])
     (auto dest!: writes dest: slot_write_ok)

lemma fold_observation_ok:
  "foldr_res body r slots = Inr r' \<Longrightarrow> observation_ok (ev_observation r) \<Longrightarrow>
   observation_ok (ev_observation r')"
  by (rule foldr_res_invariant [of body r slots r' "\<lambda>r. observation_ok (ev_observation r)"])
     (auto dest!: writes dest: slot_write_ok)

lemma fold_other:
  assumes "foldr_res body r slots = Inr r'" "t \<notin> set slots"
  shows "slot_view r' t = slot_view r t"
proof (rule foldr_res_invariant [OF assms(1), of "\<lambda>u. slot_view u t = slot_view r t"])
  fix u slot v
  assume a: "slot \<in> set slots" "slot_view u t = slot_view r t" "body u slot = Inr v"
  have "t \<noteq> slot" using a(1) assms(2) by auto
  with writes [OF a(3)] a(2) show "slot_view v t = slot_view r t"
    by (auto dest: slot_write_other)
qed simp

text \<open>The delivered slot is what its own step made of it, starting from the slot as it was.\<close>

lemma fold_at:
  assumes "foldr_res body r slots = Inr r'" "distinct slots" "t \<in> set slots"
  obtains u v where "body u t = Inr v" "record_frame r u" "slot_view u t = slot_view r t"
    "slot_view r' t = slot_view v t"
proof -
  obtain pre post where split: "slots = pre @ t # post" using assms(3) by (meson split_list)
  with assms(2) have notin: "t \<notin> set pre" "t \<notin> set post" by auto
  from assms(1) obtain u v where u: "foldr_res body r pre = Inr u" and v: "body u t = Inr v"
    and r': "foldr_res body v post = Inr r'"
    by (auto simp: split foldr_res_append result_simps)
  show thesis
    by (rule that [OF v fold_frame [OF u] fold_other [OF u notin(1)] fold_other [OF r' notin(2)]])
qed

text \<open>Where the step reads its slot is irrelevant: from the record the loop started with, or
  from the record it has built so far.\<close>

lemma fold_view_cong:
  assumes "distinct slots"
    and "\<And>u slot. slot \<in> set slots \<Longrightarrow> slot_view u slot = slot_view r slot \<Longrightarrow>
      body' u slot = body u slot"
  shows "foldr_res body' r slots = foldr_res body r slots"
proof -
  have "foldr_res body' u slots = foldr_res body u slots"
    if "\<And>slot. slot \<in> set slots \<Longrightarrow> slot_view u slot = slot_view r slot" for u
    using assms that
  proof (induction slots arbitrary: u)
    case Nil
    then show ?case by simp
  next
    case (Cons slot slots)
    have eq: "body' u slot = body u slot" using Cons.prems by simp
    show ?case
    proof (cases "body u slot")
      case (Inl e)
      with eq show ?thesis by simp
    next
      case (Inr v)
      have "slot_view v t = slot_view r t" if "t \<in> set slots" for t
      proof -
        have "t \<noteq> slot" using that Cons.prems(1) by auto
        with writes [OF Inr] have "slot_view v t = slot_view u t" by (auto dest: slot_write_other)
        then show ?thesis using that Cons.prems(3) by simp
      qed
      then have "foldr_res body' v slots = foldr_res body v slots"
        using Cons.prems by (intro Cons.IH) auto
      with Inr eq show ?thesis by simp
    qed
  qed
  then show ?thesis by simp
qed

end

section \<open>The slot steps of the operators\<close>

lemma without_payload_slot: "without_payload s d = Inr s' \<Longrightarrow> so_slot_id s' = so_slot_id s"
  by (auto simp: without_payload_def dest!: sensor_post_init_id)

interpretation absence: slot_writer h "absence_slot h m source" for h m source
  by unfold_locales
     (rule disjI2, auto simp: absence_slot_def result_simps dest!: provenance_post_init_id
       without_payload_slot ob_sensor_slot provenance_for_slot elim!: slot_writeI)

interpretation route: slot_writer h
    "\<lambda>acc slot. bindr (src slot) (\<lambda>source. route_source h m source acc slot)" for h m src
  by unfold_locales
     (rule disjI2, auto simp: route_source_def result_simps dest!: provenance_post_init_id
       sensor_post_init_id elim!: slot_writeI)

interpretation c1: slot_writer h "c1_slot h m clean" for h m clean
  by unfold_locales
     (rule disjI2, auto simp: c1_slot_def result_simps dest!: provenance_post_init_id
       sensor_post_init_id elim!: slot_writeI)

interpretation c2: slot_writer h "c2_slot h m rest sx sy" for h m rest sx sy
  by unfold_locales
     (rule disjI2, auto simp: c2_slot_def result_simps Let_def split: option.splits
       dest!: provenance_post_init_id sensor_post_init_id ob_sensor_slot provenance_for_slot
       elim!: slot_writeI)

end
