(* ===== verification/Fidelity.thy ===== *)
theory Fidelity
  imports Numpy Slot_Frames
begin

text \<open>
  The seven tactile-fidelity operators of \<open>operators/fidelity.py\<close>.  Each builds a transform
  of one payload from its materialised parameters; \<open>active_records\<close> applies it to the active
  window, and F6 carries a residual history per slot from record to record.
\<close>

type_synonym transform = "int \<Rightarrow> string \<Rightarrow> ndarray \<Rightarrow> ndarray result"

section \<open>The shared loop\<close>

text \<open>\<open>ContactPhase(value)\<close> for every value of \<open>activation_phases\<close>.\<close>

definition phase_of_value :: "pyval \<Rightarrow> contact_phase result" where
  "phase_of_value v =
     (case v of
        PStr s \<Rightarrow>
          (case find (\<lambda>p. phase_value p = s) [FREE, ONSET, SUSTAINED, RELEASE] of
             Some p \<Rightarrow> Inr p
           | None \<Rightarrow> Inl (ValueError ''is not a valid ContactPhase''))
      | _ \<Rightarrow> Inl (ValueError ''is not a valid ContactPhase''))"

definition activation_phases :: "fault_manifest \<Rightarrow> contact_phase list result" where
  "activation_phases m =
     bindr (ditem (fm_parameters m) ''activation_phases'') (\<lambda>v.
       case v of PList vs \<Rightarrow> mapr phase_of_value vs
       | _ \<Rightarrow> Inl (TypeError ''object is not iterable''))"

definition phase_active :: "contact_phase list \<Rightarrow> string \<Rightarrow> evaluation \<Rightarrow> bool result" where
  "phase_active phases slot r =
     bindr (provenance_for r slot) (\<lambda>p. Inr (pv_phase p \<in> set phases))"

text \<open>The payload of a slot is replaced by the transformed one and the provenance marked.\<close>

definition deliver_payload ::
    "hasher \<Rightarrow> fault_manifest \<Rightarrow> evaluation \<Rightarrow> sensor \<Rightarrow> provenance \<Rightarrow> ndarray \<Rightarrow> evaluation result" where
  "deliver_payload h m out sensor p transformed =
     bindr (sensor_post_init
              (sensor\<lparr>so_payload := Some transformed, so_payload_present := True,
                 so_declared_validity := fault_declared_validity sensor m\<rparr>)) (\<lambda>replacement.
     bindr (mark_provenance h p m (Some transformed)) (\<lambda>pv.
     replace_delivery h out replacement pv))"

definition fidelity_slot ::
    "hasher \<Rightarrow> fault_manifest \<Rightarrow> transform \<Rightarrow> (string \<Rightarrow> evaluation \<Rightarrow> bool result) \<Rightarrow> int \<Rightarrow>
     evaluation \<Rightarrow> string \<Rightarrow> evaluation result" where
  "fidelity_slot h m transform active_predicate index out slot =
     bindr (active_predicate slot out) (\<lambda>active.
     if \<not> active then Inr out
     else bindr (ob_sensor (ev_observation out) slot) (\<lambda>sensor.
       case so_payload sensor of
         None \<Rightarrow> Inl (ValueError ''fidelity operator requires a present payload'')
       | Some payload \<Rightarrow>
           bindr (transform index slot payload) (\<lambda>transformed.
           bindr (provenance_for out slot) (\<lambda>p.
           deliver_payload h m out sensor p transformed))))"

definition active_records ::
    "hasher \<Rightarrow> evaluation list \<Rightarrow> fault_manifest \<Rightarrow> transform \<Rightarrow>
     (string \<Rightarrow> evaluation \<Rightarrow> bool result) \<Rightarrow> evaluation list result" where
  "active_records h clean m transform active_predicate =
     each_record (\<lambda>index record out.
       if \<not> manifest_active m index then Inr out
       else foldr_res (fidelity_slot h m transform active_predicate index) out
              (fm_sensor_slots m)) clean"

definition always_active :: "string \<Rightarrow> evaluation \<Rightarrow> bool result" where
  "always_active slot r = Inr True"

section \<open>The payload transforms\<close>

definition F1_gain :: "rat \<Rightarrow> int \<Rightarrow> int \<Rightarrow> int \<Rightarrow> rat" where
  "F1_gain target_gain start stop index =
     (let span = max 1 (stop - start - 1);
          progress = fdiv (of_int (index - start)) (of_int span)
      in fsub 1 (fmul (fsub 1 target_gain) progress))"

definition F1_transform :: "numpy \<Rightarrow> fault_manifest \<Rightarrow> rat \<Rightarrow> transform" where
  "F1_transform np m target_gain index slot payload =
     Inr (clip_like np payload
       (np_mul_s np (normalize np payload)
         (F1_gain target_gain (fm_start_index m) (fm_stop_index m) index)))"

definition F2_transform ::
    "hasher \<Rightarrow> numpy \<Rightarrow> fault_manifest \<Rightarrow> reference_bundle option \<Rightarrow> rat \<Rightarrow> rat \<Rightarrow> rat \<Rightarrow> rat \<Rightarrow> rat \<Rightarrow>
     transform" where
  "F2_transform h np m rest retained center_x center_y sigma_fraction minimum_sigma index slot
       payload =
     bindr (baseline_for h slot m rest) (\<lambda>raw.
     let baseline = normalize np raw;
         current = normalize np payload;
         (height, width) = dim3 payload;
         (yy, xx) = grid np height width;
         sigma = max minimum_sigma (fmul (of_nat (min height width)) sigma_fraction)
     in bindr (np_add np (np_square np (np_sub_s np xx (fmul (of_nat width) center_x)))
                         (np_square np (np_sub_s np yy (fmul (of_nat height) center_y))))
          (\<lambda>distance.
        let heat = np_exp np (np_div_s np (np_neg np distance) (fmul 2 (fmul sigma sigma)));
            gain = np_rsub_s np 1 (np_mul_s np (np_newaxis np heat) (fsub 1 retained))
        in bindr (np_sub np current baseline) (\<lambda>residual.
           bindr (np_mul np gain residual) (\<lambda>scaled.
           bindr (np_add np baseline scaled) (\<lambda>restored.
           Inr (clip_like np payload restored))))))"

definition F3_transform :: "numpy \<Rightarrow> rat \<Rightarrow> rat \<Rightarrow> rat \<Rightarrow> ndarray \<Rightarrow> transform" where
  "F3_transform np slope intercept half_width rgb_delta index slot payload =
     (let current = normalize np payload;
          (height, width) = dim3 payload;
          (yy, xx) = grid np height width;
          line = np_add_s np (np_mul_s np xx slope) (fmul (of_nat height) intercept)
      in bindr (np_sub np yy line) (\<lambda>d.
         let mask = np_le_s np (np_abs np d) half_width in
         bindr (np_mul np (np_newaxis np mask) rgb_delta) (\<lambda>scar.
         bindr (np_add np current scar) (\<lambda>restored.
         Inr (clip_like np payload restored)))))"

definition F4_radius :: "nat \<Rightarrow> nat \<Rightarrow> rat \<Rightarrow> int \<Rightarrow> int" where
  "F4_radius height width radius_fraction minimum_radius =
     max minimum_radius (py_round (fmul (of_nat (min height width)) radius_fraction))"

definition F4_transform ::
    "hasher \<Rightarrow> numpy \<Rightarrow> fault_manifest \<Rightarrow> reference_bundle option \<Rightarrow> rat \<Rightarrow> rat \<Rightarrow> rat \<Rightarrow> int \<Rightarrow>
     transform" where
  "F4_transform h np m rest center_x center_y radius_fraction minimum_radius index slot payload =
     bindr (baseline_for h slot m rest) (\<lambda>baseline.
     let (height, width) = dim3 payload;
         radius = F4_radius height width radius_fraction minimum_radius;
         (yy, xx) = grid np height width
     in bindr (np_add np (np_square np (np_sub_s np xx (fmul (of_nat width) center_x)))
                         (np_square np (np_sub_s np yy (fmul (of_nat height) center_y))))
          (\<lambda>distance.
        let mask = np_le_s np distance (of_int (radius * radius)) in
        bindr (np_get np baseline mask) (\<lambda>values. np_put np payload mask values)))"

definition F5_transform :: "numpy \<Rightarrow> rat list \<Rightarrow> rat \<Rightarrow> rat \<Rightarrow> transform" where
  "F5_transform np center_xy radius_fraction displacement index slot payload =
     bindr (py_index center_xy 0) (\<lambda>cx. bindr (py_index center_xy 1) (\<lambda>cy.
       compact_horizontal_warp np payload (cx, cy) radius_fraction displacement))"

definition F7_transform :: "numpy \<Rightarrow> rat \<Rightarrow> rat \<Rightarrow> rat \<Rightarrow> int \<Rightarrow> transform" where
  "F7_transform np knee plateau_width_ratio anchor_radius_fraction minimum_anchor_radius
       index slot payload =
     same_frame_response_compression np payload knee plateau_width_ratio anchor_radius_fraction
       minimum_anchor_radius"

section \<open>The batch operators\<close>

text \<open>\<open>center_x, center_y = (float(value) for value in parameters["center_xy"])\<close>.\<close>

definition param_center :: "fault_manifest \<Rightarrow> (rat \<times> rat) result" where
  "param_center m =
     bindr (param_floats m ''center_xy'') (\<lambda>cs.
       case cs of [cx, cy] \<Rightarrow> Inr (cx, cy)
       | _ \<Rightarrow> Inl (ValueError ''wrong number of values to unpack''))"

definition F1_apply ::
    "hasher \<Rightarrow> numpy \<Rightarrow> evaluation list \<Rightarrow> fault_manifest \<Rightarrow> evaluation list result" where
  "F1_apply h np clean m =
     bindr (param_float m ''target_gain'') (\<lambda>target_gain.
     active_records h clean m (F1_transform np m target_gain) always_active)"

definition F2_apply ::
    "hasher \<Rightarrow> numpy \<Rightarrow> evaluation list \<Rightarrow> fault_manifest \<Rightarrow> reference_bundle option \<Rightarrow>
     evaluation list result" where
  "F2_apply h np clean m rest =
     bindr (param_float m ''retained_gain'') (\<lambda>retained.
     bindr (param_center m) (\<lambda>(cx, cy).
     bindr (param_float m ''sigma_fraction'') (\<lambda>sigma_fraction.
     bindr (param_float m ''minimum_sigma_px'') (\<lambda>minimum_sigma.
     active_records h clean m
       (F2_transform h np m rest retained cx cy sigma_fraction minimum_sigma) always_active))))"

definition F3_apply ::
    "hasher \<Rightarrow> numpy \<Rightarrow> evaluation list \<Rightarrow> fault_manifest \<Rightarrow> evaluation list result" where
  "F3_apply h np clean m =
     bindr (param_float m ''scar_slope'') (\<lambda>slope.
     bindr (param_float m ''scar_intercept_fraction'') (\<lambda>intercept.
     bindr (param_float m ''scar_half_width_px'') (\<lambda>half_width.
     bindr (param_floats m ''rgb_delta'') (\<lambda>delta.
     active_records h clean m
       (F3_transform np slope intercept half_width (np_asarray np delta ''float32''))
       always_active))))"

definition F4_apply ::
    "hasher \<Rightarrow> numpy \<Rightarrow> evaluation list \<Rightarrow> fault_manifest \<Rightarrow> reference_bundle option \<Rightarrow>
     evaluation list result" where
  "F4_apply h np clean m rest =
     bindr (param_center m) (\<lambda>(cx, cy).
     bindr (param_float m ''radius_fraction'') (\<lambda>radius_fraction.
     bindr (param_int m ''minimum_radius_px'') (\<lambda>minimum_radius.
     active_records h clean m
       (F4_transform h np m rest cx cy radius_fraction minimum_radius) always_active)))"

definition F5_apply ::
    "hasher \<Rightarrow> numpy \<Rightarrow> evaluation list \<Rightarrow> fault_manifest \<Rightarrow> evaluation list result" where
  "F5_apply h np clean m =
     bindr (param_float m ''displacement_px'') (\<lambda>displacement.
     bindr (param_floats m ''center_xy'') (\<lambda>center_xy.
     bindr (param_float m ''support_radius_fraction'') (\<lambda>radius_fraction.
     bindr (activation_phases m) (\<lambda>phases.
     active_records h clean m (F5_transform np center_xy radius_fraction displacement)
       (phase_active phases)))))"

definition F7_apply ::
    "hasher \<Rightarrow> numpy \<Rightarrow> evaluation list \<Rightarrow> fault_manifest \<Rightarrow> evaluation list result" where
  "F7_apply h np clean m =
     bindr (param_float m ''response_knee'') (\<lambda>knee.
     bindr (param_float m ''plateau_width_ratio'') (\<lambda>ratio.
     bindr (param_float m ''anchor_radius_fraction'') (\<lambda>fraction.
     bindr (param_int m ''minimum_anchor_radius_px'') (\<lambda>minimum.
     bindr (activation_phases m) (\<lambda>phases.
     active_records h clean m (F7_transform np knee ratio fraction minimum)
       (phase_active phases))))))"

section \<open>F6: history residual\<close>

type_synonym histories = "(string \<times> ndarray) list"

text \<open>One exponential-memory update and the payload mixed from it.\<close>

definition f6_history :: "numpy \<Rightarrow> rat \<Rightarrow> ndarray \<Rightarrow> ndarray \<Rightarrow> ndarray result" where
  "f6_history np beta previous residual =
     np_add np (np_mul_s np previous beta) (np_mul_s np residual (fsub 1 beta))"

definition f6_payload ::
    "numpy \<Rightarrow> rat \<Rightarrow> ndarray \<Rightarrow> ndarray \<Rightarrow> ndarray \<Rightarrow> ndarray \<Rightarrow> ndarray result" where
  "f6_payload np mix payload baseline residual history =
     bindr (np_add np baseline (np_mul_s np residual (fsub 1 mix))) (\<lambda>a.
     bindr (np_add np a (np_mul_s np history mix)) (\<lambda>b.
     Inr (clip_like np payload b)))"

definition f6_slot ::
    "hasher \<Rightarrow> numpy \<Rightarrow> fault_manifest \<Rightarrow> reference_bundle option \<Rightarrow> rat \<Rightarrow> rat \<Rightarrow> int \<Rightarrow> evaluation \<Rightarrow>
     histories \<times> evaluation \<Rightarrow> string \<Rightarrow> (histories \<times> evaluation) result" where
  "f6_slot h np m rest mix beta index record st slot =
     (case st of (histories, out) \<Rightarrow>
     bindr (ob_sensor (ev_observation record) slot) (\<lambda>sensor.
     case so_payload sensor of
       None \<Rightarrow> Inl (ValueError ''history operator requires present clean payload'')
     | Some payload \<Rightarrow>
         bindr (baseline_for h slot m rest) (\<lambda>raw.
         let baseline = normalize np raw in
         bindr (np_sub np (normalize np payload) baseline) (\<lambda>residual.
         bindr (case map_of histories slot of None \<Rightarrow> Inl (KeyError slot) | Some a \<Rightarrow> Inr a)
           (\<lambda>previous.
         bindr (f6_history np beta previous residual) (\<lambda>history.
         let histories' = dict_set slot history histories in
         if \<not> manifest_active m index then Inr (histories', out)
         else bindr (f6_payload np mix payload baseline residual history) (\<lambda>transformed.
           bindr (provenance_for record slot) (\<lambda>p.
           bindr (deliver_payload h m out sensor p transformed) (\<lambda>out'.
           Inr (histories', out'))))))))))"

definition f6_initial ::
    "hasher \<Rightarrow> numpy \<Rightarrow> fault_manifest \<Rightarrow> reference_bundle option \<Rightarrow> histories result" where
  "f6_initial h np m rest =
     foldr_res (\<lambda>hs slot. bindr (baseline_for h slot m rest) (\<lambda>raw.
         Inr (dict_set slot (np_zeros_like np (normalize np raw)) hs)))
       [] (fm_sensor_slots m)"

definition F6_apply ::
    "hasher \<Rightarrow> numpy \<Rightarrow> evaluation list \<Rightarrow> fault_manifest \<Rightarrow> reference_bundle option \<Rightarrow>
     evaluation list result" where
  "F6_apply h np clean m rest =
     bindr (param_float m ''history_mix'') (\<lambda>mix.
     bindr (param_float m ''memory_beta'') (\<lambda>beta.
     bindr (f6_initial h np m rest) (\<lambda>histories.
     each_record_acc (\<lambda>hs index record out.
         foldr_res (f6_slot h np m rest mix beta index record) (hs, out) (fm_sensor_slots m))
       histories clean)))"

section \<open>All operators\<close>

text \<open>\<open>get_operator(manifest.operator_id).apply(clean_records, manifest, rest_references)\<close>.\<close>

fun apply_operator ::
    "hasher \<Rightarrow> numpy \<Rightarrow> operator_id \<Rightarrow> evaluation list \<Rightarrow> fault_manifest \<Rightarrow> reference_bundle option \<Rightarrow>
     evaluation list result" where
  "apply_operator h np A1_stream_absence clean m rest = A1_apply h clean m"
| "apply_operator h np A2_frame_erasure clean m rest = A2_apply h clean m"
| "apply_operator h np F1_global_response_drift clean m rest = F1_apply h np clean m"
| "apply_operator h np F2_spatial_sensitivity_loss clean m rest = F2_apply h np clean m rest"
| "apply_operator h np F3_persistent_surface_artifact clean m rest = F3_apply h np clean m"
| "apply_operator h np F4_local_nonresponsive_patch clean m rest = F4_apply h np clean m rest"
| "apply_operator h np F5_contact_shape_distortion clean m rest = F5_apply h np clean m"
| "apply_operator h np F6_history_residual_imprint clean m rest = F6_apply h np clean m rest"
| "apply_operator h np F7_high_load_saturation clean m rest = F7_apply h np clean m"
| "apply_operator h np T1_fixed_source_delay clean m rest = T1_apply h clean m"
| "apply_operator h np T2_held_last_freeze clean m rest = T2_apply h clean m"
| "apply_operator h np T3_inter_sensor_skew clean m rest = T3_apply h clean m"
| "apply_operator h np C1_sensor_identity_misrouting clean m rest = C1_apply h clean m"
| "apply_operator h np C2_frame_misregistration clean m rest = C2_apply h clean m rest"

section \<open>Slot steps of the fidelity operators\<close>

lemma deliver_payload_writes:
  assumes "deliver_payload h m out s p a = Inr r'" "so_slot_id s = slot" "pv_slot_id p = slot"
  shows "slot_write h slot out r'"
  using assms
  by (auto simp: deliver_payload_def mark_provenance_def result_simps
      dest!: provenance_post_init_id sensor_post_init_id elim!: slot_writeI)

lemma fidelity_slot_writes:
  "fidelity_slot h m tr pred index r slot = Inr r' \<Longrightarrow> r' = r \<or> slot_write h slot r r'"
  by (auto simp: fidelity_slot_def result_simps split: if_splits option.splits
      dest!: ob_sensor_slot provenance_for_slot intro: deliver_payload_writes)

interpretation fidelity: slot_writer h "fidelity_slot h m tr pred index" for h m tr pred index
  by unfold_locales (rule fidelity_slot_writes)

text \<open>The step of F6 on the records, for fixed histories.\<close>

lemma f6_slot_writes:
  "f6_slot h np m rest mix beta index record (hs, r) slot = Inr (hs', r') \<Longrightarrow>
   r' = r \<or> slot_write h slot r r'"
  by (auto simp: f6_slot_def result_simps Let_def split: if_splits option.splits
      dest!: ob_sensor_slot provenance_for_slot intro: deliver_payload_writes)

lemma f6_fold_frame:
  assumes "foldr_res (f6_slot h np m rest mix beta index record) (hs, r) slots = Inr (hs', r')"
  shows "record_frame r r'"
  by (rule foldr_res_invariant [OF assms, of "\<lambda>(_, u). record_frame r u", simplified])
     (auto dest!: f6_slot_writes intro: record_frame_trans slot_write_frame)

lemma f6_fold_other:
  assumes "foldr_res (f6_slot h np m rest mix beta index record) (hs, r) slots = Inr (hs', r')"
    and "t \<notin> set slots"
  shows "slot_view r' t = slot_view r t"
  by (rule foldr_res_invariant [OF assms(1), of "\<lambda>(_, u). slot_view u t = slot_view r t", simplified])
     (use assms(2) in \<open>auto dest!: f6_slot_writes, metis slot_write_other\<close>)

lemma f6_fold_ok:
  assumes "foldr_res (f6_slot h np m rest mix beta index record) (hs, r) slots = Inr (hs', r')"
    and "evaluation_ok h r"
  shows "evaluation_ok h r'"
  by (rule foldr_res_invariant [OF assms(1), of "\<lambda>(_, u). evaluation_ok h u", simplified])
     (use assms(2) in \<open>auto dest!: f6_slot_writes dest: slot_write_ok\<close>)

lemma f6_fold_inactive:
  assumes "foldr_res (f6_slot h np m rest mix beta index record) (hs, r) slots = Inr (hs', r')"
    and "\<not> manifest_active m index"
  shows "r' = r"
  by (rule foldr_res_invariant [OF assms(1), of "\<lambda>(_, u). u = r", simplified])
     (use assms(2) in \<open>auto simp: f6_slot_def result_simps Let_def split: option.splits\<close>)

end
