(* ===== verification/Reference_Signatures.thy ===== *)
theory Reference_Signatures
  imports Fidelity
begin

text \<open>
  The independent reference realization of the pixel operators (\<open>reference_signatures.py\<close>),
  which the delivery validator compares an injected episode with.  It is a second
  implementation: it reads its parameters from the manifest for every payload, has guards of
  its own and does not call the operators.
\<close>

section \<open>Intensity range and grid\<close>

definition ref_normalize :: "numpy \<Rightarrow> ndarray \<Rightarrow> ndarray" where
  "ref_normalize np payload =
     (let arr = np_astype np payload ''float32'';
          arr = (if np_is_integer np (nd_dtype payload) \<or> 3 / 2 < np_max0 np arr
                 then np_div_s np arr 255 else arr)
      in np_clip np arr 0 1)"

definition ref_restore :: "numpy \<Rightarrow> ndarray \<Rightarrow> ndarray \<Rightarrow> ndarray" where
  "ref_restore np reference value =
     (let bounded = np_clip np value 0 1 in
      if np_is_integer np (nd_dtype reference)
      then np_astype np (np_rint np (np_mul_s np bounded 255)) (nd_dtype reference)
      else np_astype np bounded (nd_dtype reference))"

definition ref_grid :: "numpy \<Rightarrow> ndarray \<Rightarrow> ndarray \<times> ndarray" where
  "ref_grid np payload =
     (let (yy, xx) = np_mgrid np (nd_shape payload ! 0) (nd_shape payload ! 1)
      in (np_astype np yy ''float32'', np_astype np xx ''float32''))"

text \<open>The float64 scaling of F5 and F7, which does not clip.\<close>

definition ref_scale64 :: "numpy \<Rightarrow> ndarray \<Rightarrow> ndarray" where
  "ref_scale64 np payload =
     (let current = np_astype np payload ''float64'' in
      if np_is_integer np (nd_dtype payload) \<or> 3 / 2 < np_max0 np current
      then np_div_s np current 255 else current)"

definition ref_baseline ::
    "hasher \<Rightarrow> string \<Rightarrow> fault_manifest \<Rightarrow> reference_bundle \<Rightarrow> ndarray result" where
  "ref_baseline h slot m references =
     bindr (ditem (fm_parameters m) ''rest_reference_sha256'') (\<lambda>v.
       if \<not> py_eq v (PStr (bundle_sha256 h references))
       then Inl (ValueError ''rest-reference bundle does not match the fault manifest'')
       else payload_for references slot)"

section \<open>The reference transforms\<close>

definition ref_f1 :: "numpy \<Rightarrow> ndarray \<Rightarrow> fault_manifest \<Rightarrow> int \<Rightarrow> ndarray result" where
  "ref_f1 np payload m index =
     (let span = max 1 (fm_stop_index m - fm_start_index m - 1);
          progress = fdiv (of_int (index - fm_start_index m)) (of_int span)
      in bindr (param_float m ''target_gain'') (\<lambda>target.
         let gain = fsub 1 (fmul (fsub 1 target) progress)
         in Inr (ref_restore np payload (np_mul_s np (ref_normalize np payload) gain))))"

definition ref_f2 :: "numpy \<Rightarrow> ndarray \<Rightarrow> ndarray \<Rightarrow> fault_manifest \<Rightarrow> ndarray result" where
  "ref_f2 np payload baseline m =
     (let current = ref_normalize np payload;
          rest = ref_normalize np baseline;
          (yy, xx) = ref_grid np payload;
          (height, width) = dim3 payload
      in bindr (param_center m) (\<lambda>(center_x, center_y).
         bindr (param_float m ''minimum_sigma_px'') (\<lambda>minimum_sigma.
         bindr (param_float m ''sigma_fraction'') (\<lambda>sigma_fraction.
         let sigma = max minimum_sigma (fmul (of_nat (min height width)) sigma_fraction)
         in bindr (np_add np (np_square np (np_sub_s np xx (fmul (of_nat width) center_x)))
                             (np_square np (np_sub_s np yy (fmul (of_nat height) center_y))))
              (\<lambda>distance.
            let heat = np_exp np (np_div_s np (np_neg np distance) (fmul 2 (fmul sigma sigma)))
            in bindr (param_float m ''retained_gain'') (\<lambda>retained.
               let gain = np_rsub_s np 1 (np_mul_s np (np_newaxis np heat) (fsub 1 retained))
               in bindr (np_sub np current rest) (\<lambda>residual.
                  bindr (np_mul np gain residual) (\<lambda>scaled.
                  bindr (np_add np rest scaled) (\<lambda>value.
                  Inr (ref_restore np payload value))))))))))"

definition ref_f3 :: "numpy \<Rightarrow> ndarray \<Rightarrow> fault_manifest \<Rightarrow> ndarray result" where
  "ref_f3 np payload m =
     (let current = ref_normalize np payload;
          (yy, xx) = ref_grid np payload;
          height = nd_shape payload ! 0
      in bindr (param_float m ''scar_slope'') (\<lambda>slope.
         bindr (param_float m ''scar_intercept_fraction'') (\<lambda>intercept.
         bindr (np_sub np yy (np_add_s np (np_mul_s np xx slope) (fmul (of_nat height) intercept)))
           (\<lambda>d.
         bindr (param_float m ''scar_half_width_px'') (\<lambda>half_width.
         let mask = np_le_s np (np_abs np d) half_width
         in bindr (param_floats m ''rgb_delta'') (\<lambda>deltas.
            bindr (np_mul np (np_newaxis np mask) (np_asarray np deltas ''float32'')) (\<lambda>scar.
            bindr (np_add np current scar) (\<lambda>value.
            Inr (ref_restore np payload value)))))))))"

definition ref_f4 :: "numpy \<Rightarrow> ndarray \<Rightarrow> ndarray \<Rightarrow> fault_manifest \<Rightarrow> ndarray result" where
  "ref_f4 np payload baseline m =
     (let (yy, xx) = ref_grid np payload; (height, width) = dim3 payload
      in bindr (param_center m) (\<lambda>(center_x, center_y).
         bindr (param_int m ''minimum_radius_px'') (\<lambda>minimum_radius.
         bindr (param_float m ''radius_fraction'') (\<lambda>radius_fraction.
         let radius = max minimum_radius
                        (py_round (fmul (of_nat (min height width)) radius_fraction))
         in bindr (np_add np (np_square np (np_sub_s np xx (fmul (of_nat width) center_x)))
                             (np_square np (np_sub_s np yy (fmul (of_nat height) center_y))))
              (\<lambda>distance.
            let mask = np_le_s np distance (of_int (radius * radius))
            in bindr (np_get np baseline mask) (\<lambda>values. np_put np payload mask values))))))"

text \<open>F5 resamples the current frame over the compact support; there is no early return for an
  empty support.\<close>

definition ref_f5_warp :: "numpy \<Rightarrow> ndarray \<Rightarrow> rat \<Rightarrow> rat \<Rightarrow> rat \<Rightarrow> rat \<Rightarrow> ndarray result" where
  "ref_f5_warp np payload cx cy radius_fraction displacement =
     (let (height, width) = dim3 payload;
          center_x = fmul cx (of_nat width - 1);
          center_y = fmul cy (of_nat height - 1);
          radius = fmul (of_nat (min height width)) radius_fraction;
          (yy, xx) = map_prod (\<lambda>a. np_astype np a ''float64'') (\<lambda>a. np_astype np a ''float64'')
                       (np_mgrid np height width)
      in bindr (np_add np (np_square np (np_div_s np (np_sub_s np xx center_x) radius))
                          (np_square np (np_div_s np (np_sub_s np yy center_y) radius)))
           (\<lambda>radius_squared.
         let support = np_lt_s np radius_squared 1 in
         bindr (np_get np radius_squared support) (\<lambda>inside.
         bindr (np_put np (np_zeros np height width ''float64'') support
                  (np_square np (np_rsub_s np 1 inside))) (\<lambda>weight.
         bindr (np_sub np xx (np_mul_s np weight displacement)) (\<lambda>source_x.
         bindr (np_get np source_x support) (\<lambda>sources.
         if np_any np (np_lt_s np sources 0) \<or> np_any np (np_gt_s np sources (of_nat width - 1))
         then Inl (ValueError ''F5 reference source map leaves the RGB frame'')
         else if nd_data (np_diff1 np source_x) \<noteq> [] \<and> np_min np (np_diff1 np source_x) \<le> 0
         then Inl (ValueError ''F5 reference source map folds'')
         else let left = np_astype np (np_floor np source_x) ''int64'';
                  right = np_minimum_s np (np_add_s np left 1) (of_nat width - 1)
              in bindr (np_sub np source_x left) (\<lambda>d.
                 let fraction = np_newaxis np d;
                     rows = np_column np (np_arange np height);
                     current = ref_scale64 np payload
                 in bindr (np_at2 np current rows left) (\<lambda>nl.
                    bindr (np_at2 np current rows right) (\<lambda>nr.
                    bindr (np_mul np (np_rsub_s np 1 fraction) nl) (\<lambda>a.
                    bindr (np_mul np fraction nr) (\<lambda>b.
                    bindr (np_add np a b) (\<lambda>sampled.
                    bindr (np_get np (ref_restore np payload sampled) support) (\<lambda>values.
                    np_put np payload support values)))))))))))))"

definition ref_f5 ::
    "numpy \<Rightarrow> ndarray \<Rightarrow> contact_phase \<Rightarrow> fault_manifest \<Rightarrow> ndarray result" where
  "ref_f5 np payload phase m =
     bindr (activation_phases m) (\<lambda>active_phases.
     if phase \<notin> set active_phases then Inr payload
     else bindr (param_center m) (\<lambda>(cx, cy).
       bindr (param_float m ''support_radius_fraction'') (\<lambda>radius_fraction.
       bindr (param_float m ''displacement_px'') (\<lambda>displacement.
       ref_f5_warp np payload cx cy radius_fraction displacement))))"

definition ref_reflect_indices :: "nat \<Rightarrow> int \<Rightarrow> int list list" where
  "ref_reflect_indices len radius =
     (let period = 2 * (int len - 1) in
      map (\<lambda>offset. map (\<lambda>i. let raw = (if period = 0 then 0 else (int i + offset) mod period)
                             in if raw < int len then raw else period - raw) [0..<len])
        (py_range (- radius) (radius + 1)))"

definition ref_f7_compress ::
    "numpy \<Rightarrow> ndarray \<Rightarrow> int \<Rightarrow> rat \<Rightarrow> rat \<Rightarrow> rat \<Rightarrow> ndarray result" where
  "ref_f7_compress np payload minimum_radius radius_fraction knee ratio =
     (let current = ref_scale64 np payload;
          (height, width) = dim3 payload;
          requested = max minimum_radius
            \<lfloor>fadd (fmul radius_fraction (of_nat (min height width))) (1 / 2)\<rfloor>;
          radius = min ((int (min height width) - 1) div 2) requested
      in bindr (box_mean np current (ref_reflect_indices height radius) 0) (\<lambda>vertical.
         bindr (box_mean np vertical (ref_reflect_indices width radius) 1) (\<lambda>anchor.
         bindr (np_sub np current anchor) (\<lambda>detail.
         let magnitude = np_norm_last np detail;
             plateau = fmul knee ratio;
             excess = np_maximum_s np (np_sub_s np magnitude knee) 0
         in bindr (np_div np (np_mul_s np excess plateau) (np_add_s np excess plateau)) (\<lambda>q.
            bindr (np_where np (np_le_s np magnitude knee) magnitude (np_add_s np q knee))
              (\<lambda>compressed_magnitude.
            bindr (np_div_where np compressed_magnitude magnitude
                     (np_ones_like np compressed_magnitude)
                     (np_gt_s np magnitude (fl64 (1 / 10 ^ 12)))) (\<lambda>scale.
            bindr (np_mul np scale detail) (\<lambda>scaled.
            bindr (np_add np anchor scaled) (\<lambda>value.
            Inr (ref_restore np payload value))))))))))"

definition ref_f7 ::
    "numpy \<Rightarrow> ndarray \<Rightarrow> contact_phase \<Rightarrow> fault_manifest \<Rightarrow> ndarray result" where
  "ref_f7 np payload phase m =
     bindr (activation_phases m) (\<lambda>active_phases.
     if phase \<notin> set active_phases then Inr payload
     else bindr (param_int m ''minimum_anchor_radius_px'') (\<lambda>minimum_radius.
       bindr (param_float m ''anchor_radius_fraction'') (\<lambda>radius_fraction.
       bindr (param_float m ''response_knee'') (\<lambda>knee.
       bindr (param_float m ''plateau_width_ratio'') (\<lambda>ratio.
       ref_f7_compress np payload minimum_radius radius_fraction knee ratio)))))"

definition ref_c2 :: "ndarray \<Rightarrow> ndarray \<Rightarrow> fault_manifest \<Rightarrow> ndarray result" where
  "ref_c2 payload baseline m =
     bindr (param_ints m ''translation_xy_px'') (\<lambda>xs.
       case xs of
         [shift_x, shift_y] \<Rightarrow>
           let (height, width) = dim3 payload
           in if shift_x < int width \<and> shift_y < int height
              then overlay payload baseline shift_x shift_y else Inr baseline
       | _ \<Rightarrow> Inl (ValueError ''wrong number of values to unpack''))"

section \<open>The expected payloads\<close>

type_synonym expected = "((int \<times> string) \<times> ndarray) list"

definition NEEDS_BASELINE :: "operator_id list" where
  "NEEDS_BASELINE =
     [F2_spatial_sensitivity_loss, F4_local_nonresponsive_patch, F6_history_residual_imprint,
      C2_frame_misregistration]"

text \<open>The payload every operator but F6 is expected to deliver at an active slot.\<close>

definition expected_payload ::
    "numpy \<Rightarrow> fault_manifest \<Rightarrow> int \<Rightarrow> evaluation \<Rightarrow> string \<Rightarrow> ndarray \<Rightarrow> ndarray \<Rightarrow> ndarray result" where
  "expected_payload np m index record slot payload baseline =
     (case fm_operator_id m of
        F1_global_response_drift \<Rightarrow> ref_f1 np payload m index
      | F2_spatial_sensitivity_loss \<Rightarrow> ref_f2 np payload baseline m
      | F3_persistent_surface_artifact \<Rightarrow> ref_f3 np payload m
      | F4_local_nonresponsive_patch \<Rightarrow> ref_f4 np payload baseline m
      | F5_contact_shape_distortion \<Rightarrow>
          bindr (provenance_for record slot) (\<lambda>p. ref_f5 np payload (pv_phase p) m)
      | F7_high_load_saturation \<Rightarrow>
          bindr (provenance_for record slot) (\<lambda>p. ref_f7 np payload (pv_phase p) m)
      | C2_frame_misregistration \<Rightarrow> ref_c2 payload baseline m
      | _ \<Rightarrow> Inl (ValueError ''operator has no pixel reference''))"

definition expected_baseline ::
    "hasher \<Rightarrow> fault_manifest \<Rightarrow> reference_bundle option \<Rightarrow> string \<Rightarrow> ndarray \<Rightarrow> ndarray result" where
  "expected_baseline h m references slot payload =
     (if fm_operator_id m \<in> set NEEDS_BASELINE
      then case references of
             None \<Rightarrow> Inl (ValueError ''reference requires a rest bundle'')
           | Some b \<Rightarrow> ref_baseline h slot m b
      else Inr payload)"

definition expected_slot ::
    "hasher \<Rightarrow> numpy \<Rightarrow> fault_manifest \<Rightarrow> reference_bundle option \<Rightarrow> int \<Rightarrow> evaluation \<Rightarrow>
     histories \<times> expected \<Rightarrow> string \<Rightarrow> (histories \<times> expected) result" where
  "expected_slot h np m references index record st slot =
     (case st of (histories, output) \<Rightarrow>
     bindr (ob_sensor (ev_observation record) slot) (\<lambda>sensor.
     case so_payload sensor of
       None \<Rightarrow> Inl (ValueError ''pixel-signature reference requires present payloads'')
     | Some payload \<Rightarrow>
         bindr (expected_baseline h m references slot payload) (\<lambda>baseline.
         if fm_operator_id m = F6_history_residual_imprint then
           let rest = ref_normalize np baseline in
           bindr (np_sub np (ref_normalize np payload) rest) (\<lambda>residual.
           bindr (param_float m ''memory_beta'') (\<lambda>beta.
           bindr (case map_of histories slot of None \<Rightarrow> Inl (KeyError slot) | Some a \<Rightarrow> Inr a)
             (\<lambda>previous.
           bindr (np_add np (np_mul_s np previous beta) (np_mul_s np residual (fsub 1 beta)))
             (\<lambda>history.
           let histories' = dict_set slot history histories in
           if \<not> manifest_active m index then Inr (histories', output)
           else bindr (param_float m ''history_mix'') (\<lambda>mix.
             bindr (np_add np rest (np_mul_s np residual (fsub 1 mix))) (\<lambda>a.
             bindr (np_add np a (np_mul_s np history mix)) (\<lambda>value.
             Inr (histories', dict_set (index, slot) (ref_restore np payload value) output))))))))
         else if \<not> manifest_active m index then Inr (histories, output)
         else bindr (expected_payload np m index record slot payload baseline) (\<lambda>expected.
           Inr (histories, dict_set (index, slot) expected output)))))"

definition expected_initial ::
    "hasher \<Rightarrow> numpy \<Rightarrow> fault_manifest \<Rightarrow> reference_bundle option \<Rightarrow> histories result" where
  "expected_initial h np m references =
     (if fm_operator_id m \<noteq> F6_history_residual_imprint then Inr []
      else case references of
        None \<Rightarrow> Inl (ValueError ''F6 reference requires a rest bundle'')
      | Some b \<Rightarrow>
          foldr_res (\<lambda>hs slot. bindr (ref_baseline h slot m b) (\<lambda>raw.
            Inr (dict_set slot (np_zeros_like np (ref_normalize np raw)) hs)))
            [] (fm_sensor_slots m))"

definition expected_pixel_payloads ::
    "hasher \<Rightarrow> numpy \<Rightarrow> evaluation list \<Rightarrow> fault_manifest \<Rightarrow> reference_bundle option \<Rightarrow>
     expected result" where
  "expected_pixel_payloads h np clean m references =
     bindr (expected_initial h np m references) (\<lambda>histories.
     bindr (foldr_res (\<lambda>st (index, record).
              foldr_res (expected_slot h np m references (int index) record) st (fm_sensor_slots m))
              (histories, []) (enumerate 0 clean)) (\<lambda>(hs, output). Inr output))"

end
