(* ===== verification/Signature_Validators.thy ===== *)
theory Signature_Validators
  imports Reference_Signatures
begin

text \<open>
  The pixel-signature measurements of \<open>signature_validators.py\<close>: whether every delivered payload
  equals the reference payload, and the native observable of each operator.
\<close>

record signature_measurement =
  sm_matched :: bool
  sm_achieved_dose :: rat
  sm_unit :: string
  sm_diagnostics :: "(string \<times> rat) list"
  sm_failure_codes :: "string list"

text \<open>\<open>np.array_equal\<close> on arrays of finite values.\<close>

definition array_equal :: "ndarray \<Rightarrow> ndarray \<Rightarrow> bool" where
  "array_equal a b \<longleftrightarrow> nd_shape a = nd_shape b \<and> nd_data a = nd_data b"

type_synonym payload_pairs = "(ndarray \<times> ndarray \<times> ndarray) list"

section \<open>Clean, delivered and rest payloads\<close>

definition payload_pair ::
    "numpy \<Rightarrow> evaluation list \<Rightarrow> evaluation list \<Rightarrow> reference_bundle option \<Rightarrow>
     contact_phase list \<Rightarrow> int \<Rightarrow> string \<Rightarrow> payload_pairs result" where
  "payload_pair np clean delivered rest phases index slot =
     bindr (py_index clean index) (\<lambda>c.
     bindr (if phases = [] then Inr True
            else bindr (provenance_for c slot) (\<lambda>p. Inr (pv_phase p \<in> set phases))) (\<lambda>wanted.
     if \<not> wanted then Inr []
     else bindr (ob_sensor (ev_observation c) slot) (\<lambda>cs.
       bindr (py_index delivered index) (\<lambda>d.
       bindr (ob_sensor (ev_observation d) slot) (\<lambda>ds.
       bindr (case rest of
                Some b \<Rightarrow> bindr (payload_for b slot) (\<lambda>a. Inr (Some a))
              | None \<Rightarrow> Inr (so_payload cs)) (\<lambda>baseline.
       case (so_payload cs, so_payload ds, baseline) of
         (Some cp, Some dp, Some bp) \<Rightarrow>
           Inr [(np_astype np cp ''float32'', np_astype np dp ''float32'', np_astype np bp ''float32'')]
       | _ \<Rightarrow> Inr []))))))"

definition payload_pairs ::
    "numpy \<Rightarrow> evaluation list \<Rightarrow> evaluation list \<Rightarrow> fault_manifest \<Rightarrow> reference_bundle option \<Rightarrow>
     contact_phase list \<Rightarrow> payload_pairs result" where
  "payload_pairs np clean delivered m rest phases =
     bindr (mapr (\<lambda>(index, slot). payload_pair np clean delivered rest phases index slot)
              (List.product
                (py_range (fm_start_index m) (min (fm_stop_index m) (int (length delivered))))
                (fm_sensor_slots m))) (\<lambda>pairs. Inr (concat pairs))"

section \<open>Native observables\<close>

definition tiny :: rat where
  "tiny = fl64 (1 / 10 ^ 12)"

definition mean_ratio :: "numpy \<Rightarrow> rat list \<Rightarrow> rat list \<Rightarrow> rat" where
  "mean_ratio np numerators denominators =
     fdiv (np_sum_list np numerators) (max (np_sum_list np denominators) tiny)"

definition sig_f1 :: "numpy \<Rightarrow> payload_pairs \<Rightarrow> rat" where
  "sig_f1 np pairs =
     (let ratios = map (\<lambda>(clean, delivered, _). fdiv (np_mean np delivered) (max (np_mean np clean) tiny)) pairs
      in if ratios = [] then 0 else Min (set ratios))"

text \<open>\<open>float(np.abs(a - b).sum())\<close>.\<close>

definition abs_difference :: "numpy \<Rightarrow> ndarray \<Rightarrow> ndarray \<Rightarrow> rat result" where
  "abs_difference np a b = bindr (np_sub np a b) (\<lambda>d. Inr (np_sum np (np_abs np d)))"

definition sig_f2 :: "numpy \<Rightarrow> payload_pairs \<Rightarrow> rat result" where
  "sig_f2 np pairs =
     bindr (mapr (\<lambda>(clean, delivered, baseline).
         let (height, width) = dim3 clean;
             central = (\<lambda>a. np_crop np a (height div 4) (height - height div 4)
                              (width div 4) (width - width div 4))
         in bindr (abs_difference np (central delivered) (central baseline)) (\<lambda>numerator.
            bindr (abs_difference np (central clean) (central baseline)) (\<lambda>denominator.
            Inr (numerator, denominator)))) pairs) (\<lambda>ratios.
     Inr (max 0 (fsub 1 (mean_ratio np (map fst ratios) (map snd ratios)))))"

text \<open>\<open>int(np.any(clean != delivered, axis=-1).sum())\<close>.\<close>

definition changed_pixels :: "numpy \<Rightarrow> ndarray \<Rightarrow> ndarray \<Rightarrow> int result" where
  "changed_pixels np clean delivered =
     bindr (np_ne np clean delivered) (\<lambda>d. Inr (np_count np (np_any_last np d)))"

definition fraction_of :: "int \<Rightarrow> int \<Rightarrow> rat" where
  "fraction_of part whole = fdiv (fl64 (of_int part)) (of_int (max whole 1))"

definition sig_f3 :: "numpy \<Rightarrow> payload_pairs \<Rightarrow> rat result" where
  "sig_f3 np pairs =
     bindr (mapr (\<lambda>(clean, delivered, _). changed_pixels np clean delivered) pairs) (\<lambda>changed.
     let total = sum_list (map (\<lambda>(clean, _). int (fst (dim3 clean) * snd (dim3 clean))) pairs)
     in Inr (fraction_of (sum_list changed) total))"

definition sig_f4 :: "numpy \<Rightarrow> payload_pairs \<Rightarrow> rat result" where
  "sig_f4 np pairs =
     bindr (mapr (\<lambda>(clean, delivered, baseline).
         bindr (np_ne np clean baseline) (\<lambda>d.
         let clean_active = np_any_last np d in
         bindr (np_eq np delivered baseline) (\<lambda>e.
         bindr (np_and np clean_active (np_all_last np e)) (\<lambda>both.
         Inr (np_count np both, np_count np clean_active))))) pairs) (\<lambda>counts.
     Inr (fraction_of (sum_list (map fst counts)) (sum_list (map snd counts))))"

definition mean_rgb_delta :: "numpy \<Rightarrow> payload_pairs \<Rightarrow> rat result" where
  "mean_rgb_delta np pairs =
     (if pairs = [] then Inr 0
      else bindr (mapr (\<lambda>(clean, delivered, _).
               bindr (np_sub np clean delivered) (\<lambda>d. Inr (np_mean np (np_abs np d)))) pairs) (\<lambda>deltas.
           Inr (np_mean_list np deltas)))"

text \<open>The geometry of F5 for one pair: peak displacement, smallest step of the source map, changed
  pixels, pixels, and whether the map stays in the frame.\<close>

definition sig_f5_pair ::
    "numpy \<Rightarrow> rat \<Rightarrow> rat \<Rightarrow> rat \<Rightarrow> rat \<Rightarrow> ndarray \<Rightarrow> ndarray \<Rightarrow>
     (rat \<times> rat \<times> int \<times> int \<times> bool) result" where
  "sig_f5_pair np cx cy displacement radius_fraction clean delivered =
     (let (height, width) = dim3 clean;
          (yy, xx) = map_prod (\<lambda>a. np_astype np a ''float64'') (\<lambda>a. np_astype np a ''float64'')
                       (np_mgrid np height width);
          center_x = fmul cx (of_nat width - 1);
          center_y = fmul cy (of_nat height - 1);
          radius = fmul (of_nat (min height width)) radius_fraction
      in bindr (np_add np (np_square np (np_div_s np (np_sub_s np xx center_x) radius))
                          (np_square np (np_div_s np (np_sub_s np yy center_y) radius)))
           (\<lambda>radius_squared.
         let support = np_lt_s np radius_squared 1 in
         bindr (np_get np radius_squared support) (\<lambda>inside.
         bindr (np_put np (np_zeros np height width ''float64'') support
                  (np_square np (np_rsub_s np 1 inside))) (\<lambda>weight.
         bindr (np_sub np xx (np_mul_s np weight displacement)) (\<lambda>source_x.
         bindr (np_get np source_x support) (\<lambda>sources.
         bindr (changed_pixels np clean delivered) (\<lambda>changed.
         Inr (np_max0 np (np_mul_s np weight displacement),
              np_min_init np (np_diff1 np source_x) 1, changed, int (height * width),
              \<not> np_any np (np_lt_s np sources 0) \<and>
              \<not> np_any np (np_gt_s np sources (of_nat width - 1))))))))))"

definition sig_f5_geometry ::
    "numpy \<Rightarrow> payload_pairs \<Rightarrow> fault_manifest \<Rightarrow> (rat \<times> rat \<times> rat \<times> bool) result" where
  "sig_f5_geometry np pairs m =
     bindr (param_center m) (\<lambda>(cx, cy).
     bindr (param_float m ''displacement_px'') (\<lambda>displacement.
     bindr (param_float m ''support_radius_fraction'') (\<lambda>radius_fraction.
     bindr (mapr (\<lambda>(clean, delivered, _).
              sig_f5_pair np cx cy displacement radius_fraction clean delivered) pairs) (\<lambda>rows.
     let peaks = map (\<lambda>(p, _). p) rows; steps = map (\<lambda>(_, s, _). s) rows in
     Inr (if peaks = [] then 0 else Max (set peaks),
          if steps = [] then 0 else Min (set steps),
          fraction_of (sum_list (map (\<lambda>(_, _, c, _). c) rows)) (sum_list (map (\<lambda>(_, _, _, n, _). n) rows)),
          list_all (\<lambda>(_, _, _, _, ok). ok) rows)))))"

definition sig_f6 :: "numpy \<Rightarrow> payload_pairs \<Rightarrow> rat result" where
  "sig_f6 np pairs =
     bindr (mapr (\<lambda>(clean, delivered, baseline).
         bindr (abs_difference np clean baseline) (\<lambda>clean_residual.
         bindr (abs_difference np delivered baseline) (\<lambda>delivered_residual.
         Inr (fdiv (max 0 (fsub delivered_residual clean_residual)) (max clean_residual 1))))) pairs)
       (\<lambda>ratios. Inr (if ratios = [] then 0 else np_mean_list np ratios))"

definition sig_box_anchor :: "numpy \<Rightarrow> ndarray \<Rightarrow> fault_manifest \<Rightarrow> ndarray result" where
  "sig_box_anchor np payload m =
     (let current = np_div_s np (np_astype np payload ''float64'') 255;
          (height, width) = dim3 payload
      in bindr (param_int m ''minimum_anchor_radius_px'') (\<lambda>minimum_radius.
         bindr (param_float m ''anchor_radius_fraction'') (\<lambda>radius_fraction.
         let requested = max minimum_radius
               \<lfloor>fadd (fmul radius_fraction (of_nat (min height width))) (1 / 2)\<rfloor>;
             radius = min ((int (min height width) - 1) div 2) requested
         in bindr (box_mean np current (ref_reflect_indices height radius) 0) (\<lambda>vertical.
            box_mean np vertical (ref_reflect_indices width radius) 1))))"

definition sig_f7 :: "numpy \<Rightarrow> payload_pairs \<Rightarrow> fault_manifest \<Rightarrow> (rat \<times> bool) result" where
  "sig_f7 np pairs m =
     bindr (param_float m ''response_knee'') (\<lambda>knee.
     bindr (mapr (\<lambda>(clean, delivered, _).
         bindr (sig_box_anchor np clean m) (\<lambda>anchor.
         bindr (np_sub np (np_div_s np (np_astype np clean ''float64'') 255) anchor) (\<lambda>c.
         bindr (np_sub np (np_div_s np (np_astype np delivered ''float64'') 255) anchor) (\<lambda>d.
         let clean_magnitude = np_norm_last np c; delivered_magnitude = np_norm_last np d
         in Inr (np_sum np clean_magnitude, np_sum np delivered_magnitude,
                 np_any np (np_gt_s np clean_magnitude knee)))))) pairs) (\<lambda>rows.
     let input_detail = map (\<lambda>(i, _). i) rows; output_detail = map (\<lambda>(_, d, _). d) rows;
         has_above_knee_sample = list_ex (\<lambda>(_, _, a). a) rows
     in if input_detail = [] \<or> np_sum_list np input_detail \<le> tiny then Inr (0, False)
        else let retained = fdiv (np_sum_list np output_detail) (max (np_sum_list np input_detail) tiny)
             in Inr (max 0 (fsub 1 retained), has_above_knee_sample)))"

section \<open>The measurement\<close>

definition all_matched :: "evaluation list \<Rightarrow> expected \<Rightarrow> bool result" where
  "all_matched delivered expected =
     foldr_res (\<lambda>matched ((index, slot), payload).
         if \<not> matched then Inr False
         else bindr (py_index delivered index) (\<lambda>d.
              bindr (ob_sensor (ev_observation d) slot) (\<lambda>sensor.
              Inr (case so_payload sensor of None \<Rightarrow> False | Some a \<Rightarrow> array_equal a payload))))
       True expected"

text \<open>Achieved dose, unit, failure codes and the extra diagnostics of F5.\<close>

definition signature_observable ::
    "numpy \<Rightarrow> evaluation list \<Rightarrow> evaluation list \<Rightarrow> fault_manifest \<Rightarrow> reference_bundle option \<Rightarrow>
     payload_pairs \<Rightarrow> payload_pairs \<Rightarrow> (rat \<times> string \<times> string list \<times> (string \<times> rat) list) result" where
  "signature_observable np clean delivered m rest all_pairs contact_pairs =
     (case fm_operator_id m of
        F1_global_response_drift \<Rightarrow> Inr (sig_f1 np all_pairs, ''retained_global_gain'', [], [])
      | F2_spatial_sensitivity_loss \<Rightarrow>
          bindr (sig_f2 np contact_pairs) (\<lambda>dose. Inr (dose, ''central_residual_attenuation'', [], []))
      | F3_persistent_surface_artifact \<Rightarrow>
          bindr (sig_f3 np all_pairs) (\<lambda>dose. Inr (dose, ''changed_pixel_fraction'', [], []))
      | F4_local_nonresponsive_patch \<Rightarrow>
          bindr (sig_f4 np contact_pairs) (\<lambda>dose. Inr (dose, ''baseline_replaced_fraction'', [], []))
      | F5_contact_shape_distortion \<Rightarrow>
          bindr (sig_f5_geometry np contact_pairs m) (\<lambda>(dose, minimum_step, changed_fraction, in_bounds).
          Inr (dose, ''peak_warp_displacement_pixels'',
               (if contact_pairs = [] then [''NO_CONTACT_SAMPLE''] else []) @
               (if \<not> in_bounds then [''F5_SOURCE_MAP_OUT_OF_BOUNDS''] else []) @
               (if minimum_step \<le> 0 then [''F5_SOURCE_MAP_FOLD''] else []) @
               (if changed_fraction \<le> 0 then [''F5_NO_VISIBLE_WARP_EFFECT''] else []),
               [(''minimum_source_x_step'', minimum_step), (''changed_pixel_fraction'', changed_fraction)]))
      | F6_history_residual_imprint \<Rightarrow>
          bindr (payload_pairs np clean delivered m rest [RELEASE]) (\<lambda>release_pairs.
          bindr (sig_f6 np release_pairs) (\<lambda>dose.
          Inr (dose, ''post_release_residual_ratio'',
               (if release_pairs = [] then [''NO_RELEASE_SAMPLE''] else []), [])))
      | F7_high_load_saturation \<Rightarrow>
          bindr (sig_f7 np contact_pairs m) (\<lambda>(dose, has_detail).
          Inr (dose, ''same_frame_detail_compression'',
               (if contact_pairs = [] then [''NO_CONTACT_SAMPLE''] else []) @
               (if \<not> has_detail then [''F7_NO_DETAIL_SAMPLE''] else []), []))
      | C2_frame_misregistration \<Rightarrow>
          bindr (param_floats m ''translation_xy_px'') (\<lambda>xs.
            case xs of [shift_x, shift_y] \<Rightarrow>
              Inr (np_hypot np shift_x shift_y, ''reprojection_displacement_pixels'', [], [])
            | _ \<Rightarrow> Inl (ValueError ''wrong number of values to unpack''))
      | _ \<Rightarrow> Inl (ValueError ''operator has no pixel-signature validator''))"

definition measure_signature ::
    "hasher \<Rightarrow> numpy \<Rightarrow> evaluation list \<Rightarrow> evaluation list \<Rightarrow> fault_manifest \<Rightarrow>
     reference_bundle option \<Rightarrow> signature_measurement result" where
  "measure_signature h np clean delivered m rest =
     (if fm_operator_id m \<in> set REST_REFERENCE_OPERATOR_IDS \<and> rest = None
      then Inl (ValueError ''this pixel signature requires rest references'')
      else bindr (expected_pixel_payloads h np clean m rest) (\<lambda>expected.
        bindr (all_matched delivered expected) (\<lambda>matched.
        bindr (payload_pairs np clean delivered m rest []) (\<lambda>all_pairs.
        bindr (payload_pairs np clean delivered m rest [ONSET, SUSTAINED]) (\<lambda>contact_pairs.
        bindr (signature_observable np clean delivered m rest all_pairs contact_pairs)
          (\<lambda>(dose, unit, failures, extra).
        bindr (mean_rgb_delta np all_pairs) (\<lambda>delta.
        Inr \<lparr>sm_matched = matched, sm_achieved_dose = dose, sm_unit = unit,
             sm_diagnostics = (''mean_absolute_rgb_delta'', delta) # extra,
             sm_failure_codes = failures @
               (if \<not> matched \<and> delta \<le> 0 then [''SIGNATURE_NOT_DELIVERED''] else [])\<rparr>)))))))"

end
