(* ===== verification/Validators.thy ===== *)
theory Validators
  imports Signature_Validators
begin

text \<open>
  The delivery gate: \<open>validators.py\<close> (window, hashes, write set, absence) and
  \<open>operator_validators.py\<close> (the predicate of each operator).  The accumulators the code passes
  around (codes, failures, metrics) are one state.
\<close>

record validation_state =
  vs_codes :: "string list"
  vs_failures :: "string list"
  vs_affected :: int
  vs_metrics :: params

record validation_report =
  vr_passed :: bool
  vr_failure_codes :: "string list"
  vr_failures :: "string list"
  vr_metrics :: params

section \<open>Failures and slot hashes\<close>

definition failure :: "string \<Rightarrow> string \<Rightarrow> validation_state \<Rightarrow> validation_state" where
  "failure code message st =
     (if code \<in> set (vs_codes st) then st
      else st\<lparr>vs_codes := vs_codes st @ [code], vs_failures := vs_failures st @ [message]\<rparr>)"

definition fail_when :: "bool \<Rightarrow> string \<Rightarrow> string \<Rightarrow> validation_state \<Rightarrow> validation_state" where
  "fail_when c code message st = (if c then failure code message st else st)"

definition availability_indices :: "fault_manifest \<Rightarrow> int list result" where
  "availability_indices m =
     bindr (param_ints m (if fm_operator_id m = A2_frame_erasure then ''erased_offsets''
                          else ''affected_offsets'')) (\<lambda>offsets.
     Inr (map (\<lambda>offset. fm_start_index m + offset) offsets))"

definition slot_delivery_hash :: "hasher \<Rightarrow> evaluation \<Rightarrow> string \<Rightarrow> string result" where
  "slot_delivery_hash h r slot =
     bindr (ob_sensor (ev_observation r) slot) (\<lambda>s.
     bindr (provenance_for r slot) (\<lambda>p.
     Inr (canonical_hash h (PDict [(''sensor'', sensor_value h s), (''provenance'', provenance_value p)]))))"

definition slot_matches_clean :: "hasher \<Rightarrow> evaluation \<Rightarrow> evaluation \<Rightarrow> string \<Rightarrow> bool result" where
  "slot_matches_clean h clean delivered slot =
     bindr (slot_delivery_hash h clean slot) (\<lambda>a.
     bindr (slot_delivery_hash h delivered slot) (\<lambda>b. Inr (a = b)))"

definition non_tactile_hash :: "hasher \<Rightarrow> evaluation \<Rightarrow> string" where
  "non_tactile_hash h r =
     (let ob = ev_observation r in
      canonical_hash h
        (PDict [(''episode_id'', PStr (ob_episode_id ob)),
                (''task'', PStr (ob_task ob)),
                (''seed'', PInt (ob_seed ob)),
                (''step_index'', PInt (ob_step_index ob)),
                (''vision'', PDict (map (\<lambda>(k, v). (k, array_value h v)) (ob_vision ob))),
                (''proprio'', array_value h (ob_proprio ob))]))"

section \<open>Routed sources\<close>

definition validate_routed_source ::
    "evaluation list \<Rightarrow> evaluation \<Rightarrow> string \<Rightarrow> int \<Rightarrow> string \<Rightarrow> validation_state \<Rightarrow>
     validation_state result" where
  "validate_routed_source clean delivered target_slot source_index source_slot st =
     bindr (provenance_for delivered target_slot) (\<lambda>p.
     bindr (bindr (py_index clean source_index) (\<lambda>c. provenance_for c source_slot)) (\<lambda>expected.
     Inr (fail_when (pv_physical_source_id p \<noteq> pv_physical_source_id expected)
            ''SOURCE_IDENTITY_MISMATCH''
            ''routed physical source identity does not match the clean source record''
         (fail_when (pv_payload_sha256 p \<noteq> pv_payload_sha256 expected) ''SOURCE_PAYLOAD_MISMATCH''
            ''routed payload hash does not match the clean source record''
         (fail_when (pv_source_time_s p \<noteq> pv_source_time_s expected) ''SOURCE_TIME_MISMATCH''
            ''routed source time does not match the clean source record''
         (fail_when (pv_source_index p \<noteq> Some source_index) ''SOURCE_INDEX_MISMATCH''
            ''routed source index does not match the operator contract'' st))))))"

text \<open>\<open>range(start, min(stop, len(delivered)))\<close>.\<close>

definition window_range :: "fault_manifest \<Rightarrow> evaluation list \<Rightarrow> int list" where
  "window_range m delivered =
     py_range (fm_start_index m) (min (fm_stop_index m) (int (length delivered)))"

definition validate_fixed_delay ::
    "evaluation list \<Rightarrow> evaluation list \<Rightarrow> fault_manifest \<Rightarrow> validation_state \<Rightarrow>
     validation_state result" where
  "validate_fixed_delay clean delivered m st =
     bindr (param_ints m ''source_index_map'') (\<lambda>source_map.
     foldr_res (\<lambda>st (offset, index).
       foldr_res (\<lambda>st slot.
         bindr (py_index delivered index) (\<lambda>d.
         bindr (provenance_for d slot) (\<lambda>p.
         bindr (py_index source_map (int offset)) (\<lambda>source.
         if pv_source_index p \<noteq> Some source
         then Inr (failure ''SOURCE_PAYLOAD_MISMATCH''
                ''T1 source index does not match the registered payload lag'' st)
         else validate_routed_source clean d slot source slot st))))
         st (fm_sensor_slots m))
       st (enumerate 0 (window_range m delivered)))"

definition validate_held_last ::
    "hasher \<Rightarrow> evaluation list \<Rightarrow> evaluation list \<Rightarrow> fault_manifest \<Rightarrow> validation_state \<Rightarrow>
     validation_state result" where
  "validate_held_last h clean delivered m st =
     bindr (param_int m ''hold_duration_frames'') (\<lambda>configured_duration.
     let n = int (length delivered);
         freeze_stop = min (fm_stop_index m) (fm_start_index m + configured_duration)
     in bindr (param_int m ''held_source_index'') (\<lambda>held_index.
        foldr_res (\<lambda>st slot.
          let held = py_range (fm_start_index m) (min freeze_stop n) in
          bindr (mapr (\<lambda>index. bindr (py_index delivered index) (\<lambda>d.
                   bindr (provenance_for d slot) (\<lambda>p. Inr (pv_source_index p)))) held) (\<lambda>indices.
          bindr (foldr_res (\<lambda>st index. bindr (py_index delivered index) (\<lambda>d.
                   validate_routed_source clean d slot held_index slot st))
                 (fail_when (length (remdups indices) \<noteq> 1) ''FREEZE_NOT_HELD''
                    ''T2 source index advanced during freeze'' st) held) (\<lambda>st.
          foldr_res (\<lambda>st index.
            bindr (py_index clean index) (\<lambda>c. bindr (py_index delivered index) (\<lambda>d.
            bindr (slot_matches_clean h c d slot) (\<lambda>same.
            Inr (fail_when (\<not> same) ''NATIVE_FOOTPRINT_VIOLATION''
                   ''T2 continued holding after its registered duration'' st)))))
            st (py_range freeze_stop (min (fm_stop_index m) n)))))
          st (fm_sensor_slots m)))"

definition set_metric :: "string \<Rightarrow> pyval \<Rightarrow> validation_state \<Rightarrow> validation_state" where
  "set_metric k v st = st\<lparr>vs_metrics := dict_set k v (vs_metrics st)\<rparr>"

definition validate_inter_sensor_skew ::
    "evaluation list \<Rightarrow> evaluation list \<Rightarrow> fault_manifest \<Rightarrow> validation_state \<Rightarrow>
     validation_state result" where
  "validate_inter_sensor_skew clean delivered m st =
     bindr (ditem (fm_parameters m) ''source_index_map'') (\<lambda>_.
     bindr (foldr_res (\<lambda>(st, gaps) index.
         bindr (py_index delivered index) (\<lambda>d.
         bindr (mapr (\<lambda>slot. bindr (provenance_for d slot) (\<lambda>p. Inr (pv_source_index p)))
                  (fm_sensor_slots m)) (\<lambda>source_indices.
         if None \<in> set source_indices
         then Inr (failure ''SOURCE_INDEX_MISMATCH''
                ''T3 requires a concrete source index on every routed stream'' st, gaps)
         else let concrete = map the source_indices in
           bindr (foldr_res (\<lambda>st slot.
               bindr (t3_source_index m slot (index - fm_start_index m)) (\<lambda>source.
               validate_routed_source clean d slot source slot st))
             st (fm_sensor_slots m)) (\<lambda>st.
           Inr (st, gaps @ [Max (set concrete) - Min (set concrete)])))))
       (st, []) (window_range m delivered)) (\<lambda>(st, gaps).
     let skew = (if gaps = [] then 0 else Max (set gaps)) in
     Inr (fail_when (gaps = [] \<or> skew \<le> 0) ''NO_INTER_SENSOR_SKEW'' ''T3 produced no source skew''
           (set_metric ''max_source_index_skew'' (PInt skew) st))))"

definition validate_identity_misrouting ::
    "hasher \<Rightarrow> evaluation list \<Rightarrow> evaluation list \<Rightarrow> fault_manifest \<Rightarrow> validation_state \<Rightarrow>
     validation_state result" where
  "validate_identity_misrouting h clean delivered m st =
     bindr (param_ints m ''affected_offsets'') (\<lambda>offsets.
     let affected = map (\<lambda>offset. fm_start_index m + offset) offsets; n = int (length delivered) in
     bindr (ditem (fm_parameters m) ''route_map'') (\<lambda>_.
     bindr (foldr_res (\<lambda>(st, mismatches) index.
         if n \<le> index then Inr (st, mismatches)
         else foldr_res (\<lambda>(st, mismatches) slot.
           bindr (bindr (param_item m ''route_map'' slot) route_target) (\<lambda>source_slot.
           bindr (py_index delivered index) (\<lambda>d.
           bindr (provenance_for d slot) (\<lambda>p.
           bindr (validate_routed_source clean d slot index source_slot st) (\<lambda>st.
           Inr (st, mismatches + (if pv_physical_source_id p \<noteq> slot then 1 else 0 :: int)))))))
           (st, mismatches) (fm_sensor_slots m))
       (st, 0) (sort (remdups affected))) (\<lambda>(st, mismatches).
     bindr (foldr_res (\<lambda>st index.
         if index \<in> set affected then Inr st
         else foldr_res (\<lambda>st slot.
           bindr (py_index clean index) (\<lambda>c. bindr (py_index delivered index) (\<lambda>d.
           bindr (slot_matches_clean h c d slot) (\<lambda>same.
           Inr (fail_when (\<not> same) ''NATIVE_FOOTPRINT_VIOLATION''
                  ''C1 continued misrouting after its registered exposure'' st)))))
           st (fm_sensor_slots m))
       st (window_range m delivered)) (\<lambda>st.
     Inr (fail_when (mismatches = 0) ''NO_IDENTITY_MISROUTING'' ''C1 preserved every identity''
           (set_metric ''identity_mismatches'' (PInt mismatches) st))))))"

section \<open>Pixel signatures\<close>

definition calibration_changed ::
    "evaluation list \<Rightarrow> evaluation list \<Rightarrow> fault_manifest \<Rightarrow> bool result" where
  "calibration_changed clean delivered m =
     foldr_res (\<lambda>changed (index, slot).
         if changed then Inr True
         else bindr (bindr (py_index delivered index) (\<lambda>d. provenance_for d slot)) (\<lambda>p.
              bindr (bindr (py_index clean index) (\<lambda>c. provenance_for c slot)) (\<lambda>q.
              Inr (pv_calibration_sha256 p \<noteq> pv_calibration_sha256 q))))
       False (List.product (window_range m delivered) (fm_sensor_slots m))"

definition validate_pixel_signature ::
    "hasher \<Rightarrow> numpy \<Rightarrow> evaluation list \<Rightarrow> evaluation list \<Rightarrow> fault_manifest \<Rightarrow>
     reference_bundle option \<Rightarrow> validation_state \<Rightarrow> validation_state result" where
  "validate_pixel_signature h np clean delivered m rest st =
     bindr (measure_signature h np clean delivered m rest) (\<lambda>measurement.
     let st = set_metric ''achieved_dose'' (PFloat (sm_achieved_dose measurement)) st;
         st = set_metric ''achieved_dose_unit'' (PStr (sm_unit measurement)) st;
         st = fold (\<lambda>(k, v). set_metric k (PFloat v)) (sm_diagnostics measurement) st;
         st = fail_when (sm_achieved_dose measurement \<le> 0) ''SIGNATURE_NOT_DELIVERED''
                ''operator changed metadata but delivered no observable tactile signature'' st;
         st = fail_when (\<not> sm_matched measurement) ''OPERATOR_SIGNATURE_MISMATCH''
                ''delivered signature does not match the registered operator and severity'' st;
         st = fold (\<lambda>code. failure code
                (if code = ''SIGNATURE_NOT_DELIVERED''
                 then ''operator delivered no observable tactile signature''
                 else ''required diagnostic frames are absent for the operator validator''))
                (sm_failure_codes measurement) st
     in if fm_operator_id m \<noteq> C2_frame_misregistration then Inr st
        else bindr (calibration_changed clean delivered m) (\<lambda>changed.
          Inr (fail_when (\<not> changed) ''CALIBRATION_PROVENANCE_UNCHANGED''
                 ''C2 changed pixels without recording calibration provenance'' st)))"

definition validate_operator_semantics ::
    "hasher \<Rightarrow> numpy \<Rightarrow> evaluation list \<Rightarrow> evaluation list \<Rightarrow> fault_manifest \<Rightarrow>
     reference_bundle option \<Rightarrow> validation_state \<Rightarrow> validation_state result" where
  "validate_operator_semantics h np clean delivered m rest st =
     bindr (if name_starts (CHR ''F'') (fm_operator_id m) \<or> fm_operator_id m = C2_frame_misregistration
            then validate_pixel_signature h np clean delivered m rest st else Inr st) (\<lambda>st.
     if fm_operator_id m = T1_fixed_source_delay then validate_fixed_delay clean delivered m st
     else if fm_operator_id m = T2_held_last_freeze then validate_held_last h clean delivered m st
     else if fm_operator_id m = T3_inter_sensor_skew
     then validate_inter_sensor_skew clean delivered m st
     else if fm_operator_id m = C1_sensor_identity_misrouting
     then validate_identity_misrouting h clean delivered m st
     else Inr st)"

section \<open>The gate\<close>

text \<open>The checks of one target slot of one active record.\<close>

definition validate_slot ::
    "hasher \<Rightarrow> fault_manifest \<Rightarrow> int list \<Rightarrow> int \<Rightarrow> evaluation \<Rightarrow> evaluation \<Rightarrow> validation_state \<Rightarrow> string \<Rightarrow>
     validation_state result" where
  "validate_slot h m availability index clean delivered st slot =
     bindr (ob_sensor (ev_observation delivered) slot) (\<lambda>sensor.
     bindr (provenance_for delivered slot) (\<lambda>p.
     bindr (slot_matches_clean h clean delivered slot) (\<lambda>same.
     let fault_is_active = operator_name (fm_operator_id m) \<in> set (pv_active_fault_ids p);
         declared = (fm_observability m = DECLARED);
         is_availability = name_starts (CHR ''A'') (fm_operator_id m);
         st = fail_when (\<not> same \<and> \<not> fault_is_active) ''MISSING_FAULT_PROVENANCE''
                ''changed tactile delivery omits the active operator identifier'' st
     in bindr (if fault_is_active
               then bindr (ob_sensor (ev_observation clean) slot) (\<lambda>c.
                 let expected = (if declared then Some False
                                 else if so_payload_present sensor then so_declared_validity c else None)
                 in Inr (fail_when (so_declared_validity sensor \<noteq> expected) ''OBSERVABILITY_MISMATCH''
                           ''validity metadata disagrees with the fault observability mode'' st))
               else Inr st) (\<lambda>st.
        let st = fail_when (case pv_source_index p of None \<Rightarrow> False | Some i \<Rightarrow> index < i)
                   ''FUTURE_SOURCE'' ''future source index delivered'' st;
            st = fail_when (so_payload sensor \<noteq> None \<and>
                     array_sha256 h (so_payload sensor) \<noteq> pv_payload_sha256 p)
                   ''SOURCE_PAYLOAD_MISMATCH'' ''payload hash disagrees with source provenance'' st
        in Inr (if index \<in> set availability then
             fail_when (so_declared_validity sensor \<noteq> (if declared then Some False else None))
               ''OBSERVABILITY_MISMATCH''
               ''Availability validity metadata disagrees with observability mode''
             (fail_when (pv_source_index p \<noteq> None \<or> pv_source_time_s p \<noteq> None \<or>
                 pv_payload_sha256 p \<noteq> None) ''ABSENCE_SOURCE_NOT_NULL''
               ''structurally absent payload retains source provenance''
             (fail_when (so_payload_present sensor \<or> so_payload sensor \<noteq> None) ''ABSENCE_NOT_STRUCTURAL''
               ''Availability delivery used pixels instead of structural absence'' st))
           else if is_availability
           then fail_when (\<not> same) ''NATIVE_FOOTPRINT_VIOLATION''
                  ''Availability operator changed a slot outside its native footprint'' st
           else fail_when (\<not> so_payload_present sensor) ''NON_AVAILABILITY_REMOVED_PAYLOAD''
                  ''Fidelity/Temporal/Context operator removed a payload'' st)))))"

definition validate_record ::
    "hasher \<Rightarrow> fault_manifest \<Rightarrow> int list \<Rightarrow> validation_state \<Rightarrow> nat \<times> evaluation \<times> evaluation \<Rightarrow>
     validation_state result" where
  "validate_record h m availability st item =
     (case item of (i, clean, delivered) \<Rightarrow>
      let index = int i;
          clean_hash = delivered_hash h (ev_observation clean) (ev_provenance clean);
          recomputed = delivered_hash h (ev_observation delivered) (ev_provenance delivered);
          st = fail_when (ev_clean_record_sha256 delivered \<noteq> clean_hash) ''CLEAN_REFERENCE_MISMATCH''
                 (''record '' @ int_text index @ '' does not reference its paired clean record'') st;
          st = fail_when (recomputed \<noteq> ev_delivered_record_sha256 delivered) ''STALE_DELIVERED_HASH''
                 (''record '' @ int_text index @ '' has a cached hash that disagrees with its content'') st
      in if \<not> manifest_active m index
         then Inr (fail_when (recomputed \<noteq> clean_hash) ''OUTSIDE_WINDOW_CHANGED''
                 (''record '' @ int_text index @ '' changed outside the registered window'') st)
         else let st = (if recomputed \<noteq> clean_hash then st\<lparr>vs_affected := vs_affected st + 1\<rparr> else st);
                  st = fail_when (non_tactile_hash h delivered \<noteq> non_tactile_hash h clean)
                         ''WRITE_SET_VIOLATION''
                         ''tactile operator changed vision, proprioception, or episode metadata'' st
              in bindr (foldr_res (\<lambda>st slot.
                   bindr (slot_matches_clean h clean delivered slot) (\<lambda>same.
                   Inr (fail_when (\<not> same) ''WRITE_SET_VIOLATION''
                          ''operator changed an undeclared tactile slot'' st)))
                   st (filter (\<lambda>slot. slot \<notin> set (fm_sensor_slots m))
                         (remdups (tactile_slots (ev_observation clean))))) (\<lambda>st.
                 foldr_res (validate_slot h m availability index clean delivered) st (fm_sensor_slots m)))"

definition report_of :: "pyval \<Rightarrow> fault_manifest \<Rightarrow> bool \<Rightarrow> validation_state \<Rightarrow> validation_report" where
  "report_of dose m passed st =
     \<lparr>vr_passed = passed, vr_failure_codes = vs_codes st, vr_failures = vs_failures st,
      vr_metrics = [(''operator_id'', PStr (operator_name (fm_operator_id m))),
                    (''native_dose'', dose),
                    (''affected_records'', PInt (vs_affected st))] @ vs_metrics st\<rparr>"

definition validate_delivery ::
    "hasher \<Rightarrow> numpy \<Rightarrow> evaluation list \<Rightarrow> evaluation list \<Rightarrow> fault_manifest \<Rightarrow>
     reference_bundle option \<Rightarrow> validation_report result" where
  "validate_delivery h np clean delivered m rest =
     bindr (severity_value (fm_operator_id m) (fm_severity_level m)) (\<lambda>dose.
     let st = \<lparr>vs_codes = [], vs_failures = [], vs_affected = 0, vs_metrics = []\<rparr> in
     if length clean \<noteq> length delivered
     then Inr (report_of dose m False
            (failure ''LENGTH_MISMATCH'' ''clean and delivered lengths differ'' st))
     else bindr (if fm_operator_id m \<in> {A1_stream_absence, A2_frame_erasure}
                 then availability_indices m else Inr []) (\<lambda>availability.
       bindr (foldr_res (validate_record h m availability) st (enumerate 0 (zip clean delivered))) (\<lambda>st.
       let st = fail_when (vs_affected st = 0) ''INACTIVE_OPERATOR''
                  ''operator changed no registered record'' st
       in bindr (validate_operator_semantics h np clean delivered m rest st) (\<lambda>st.
          Inr (report_of dose m (vs_codes st = []) st)))))"

end
