(* ===== verification/Schedules.thy ===== *)
theory Schedules
  imports Fidelity
begin

text \<open>
  What a valid manifest holds under the keys its operator reads: the materialised schedules,
  source maps and scalar parameters, operator by operator.  These facts replace, for the
  proofs, the reading of \<open>fm_parameters\<close>.
\<close>

section \<open>Reading a materialised parameter\<close>

definition shared_keys :: "string list" where
  "shared_keys = [''parameterization_version'', ''template_seed'', ''rest_reference_sha256'']"

definition own_parameters ::
    "hasher \<Rightarrow> fault_manifest \<Rightarrow> pyval \<Rightarrow> params \<Rightarrow> params \<Rightarrow> bool" where
  "own_parameters h m dose supplied own \<longleftrightarrow>
     severity_value (fm_operator_id m) (fm_severity_level m) = Inr dose \<and>
     operator_parameters h (fm_operator_id m) dose (fm_operator_seed m) (fm_start_index m)
       (fm_stop_index m) (fm_sensor_slots m) supplied = Inr own \<and>
     (\<forall>k v. map_of own k = Some v \<longrightarrow> k \<notin> set shared_keys \<longrightarrow> ditem (fm_parameters m) k = Inr v)"

lemma own_parametersD:
  assumes "own_parameters h m dose supplied own"
  shows "severity_value (fm_operator_id m) (fm_severity_level m) = Inr dose"
    "operator_parameters h (fm_operator_id m) dose (fm_operator_seed m) (fm_start_index m)
       (fm_stop_index m) (fm_sensor_slots m) supplied = Inr own"
    "\<And>k v. map_of own k = Some v \<Longrightarrow> k \<notin> set shared_keys \<Longrightarrow> ditem (fm_parameters m) k = Inr v"
  using assms by (simp_all add: own_parameters_def)

lemma manifest_own:
  assumes "manifest_ok h m"
  obtains dose supplied own where "own_parameters h m dose supplied own"
proof -
  obtain supplied where mat:
    "materialize_operator_parameters h (fm_operator_id m) (fm_severity_level m) (fm_operator_seed m)
       (fm_start_index m) (fm_stop_index m) (fm_sensor_slots m) supplied = Inr (fm_parameters m)"
    using manifest_ok_materialized [OF assms] by blast
  show thesis
  proof (rule materialize_Inr [OF mat])
    fix dose rest own
    assume a: "severity_value (fm_operator_id m) (fm_severity_level m) = Inr dose"
      "rest_parameters (fm_operator_id m) supplied = Inr rest"
      "operator_parameters h (fm_operator_id m) dose (fm_operator_seed m) (fm_start_index m)
         (fm_stop_index m) (fm_sensor_slots m) supplied = Inr own"
      "fm_parameters m = [(''parameterization_version'', PStr PARAMETERIZATION_VERSION),
           (''template_seed'', PInt (fm_operator_seed m))] @ rest @ own @
          [(''instance_descriptor_sha256'', PStr (canonical_hash h (PDict
             ([(''parameterization_version'', PStr PARAMETERIZATION_VERSION),
               (''template_seed'', PInt (fm_operator_seed m))] @ rest @ own @
              [(''operator_id'', PStr (operator_name (fm_operator_id m)))]))))]"
    have "ditem (fm_parameters m) k = Inr v" if k: "map_of own k = Some v" "k \<notin> set shared_keys"
      for k v
    proof -
      from k have "map_of rest k = None"
        using rest_parameters_keys [OF a(2)] by (auto simp: shared_keys_def)
      with k show ?thesis by (simp add: a(4) ditem_def shared_keys_def map_add_def)
    qed
    with a(1,3) show thesis
      by (intro that [of dose supplied own]) (simp add: own_parameters_def)
  qed
qed

lemma py_float_dose:
  assumes "severity_value op level = Inr dose"
  obtains d where "py_float dose = Inr d"
proof -
  have lev: "1 \<le> level" "level \<le> 5" using severity_value_range [OF assms] by auto
  then have "dose = severity_path op ! nat (level - 1)"
    using assms by (simp add: severity_value_Inr)
  with lev have "dose \<in> set (severity_path op)" by simp
  then have "\<exists>d. py_float dose = Inr d" by (cases op) (auto simp: lit_def)
  with that show thesis by blast
qed

section \<open>Schedules of the availability and context operators\<close>

lemma A1_offsets:
  assumes "manifest_ok h m" "fm_operator_id m = A1_stream_absence"
  obtains n where "param_ints m ''affected_offsets'' = Inr (py_range 0 n)"
    "1 \<le> n" "n \<le> fm_stop_index m - fm_start_index m"
proof -
  obtain dose supplied own where parts: "own_parameters h m dose supplied own"
    using manifest_own [OF assms(1)] .
  note own = own_parametersD [OF parts]
  from own obtain d where "own = [(''affected_offsets'',
      ints (py_range 0 (dose_count (fm_stop_index m - fm_start_index m) d)))]"
    using assms(2) by (auto simp: operator_parameters_def Let_def result_simps)
  with own(3) [of "''affected_offsets''"] that
    dose_count_bounds [of "fm_stop_index m - fm_start_index m" d] manifest_ok_window(2) [OF assms(1)]
  show thesis by (simp add: shared_keys_def param_ints_def)
qed

lemma C1_offsets:
  assumes "manifest_ok h m" "fm_operator_id m = C1_sensor_identity_misrouting"
  obtains n where "param_ints m ''affected_offsets'' = Inr (py_range 0 n)"
    "1 \<le> n" "n \<le> fm_stop_index m - fm_start_index m"
    "ditem (fm_parameters m) ''route_map'' =
       Inr (PDict [(''left'', PStr ''right''), (''right'', PStr ''left'')])"
proof -
  obtain dose supplied own where parts: "own_parameters h m dose supplied own"
    using manifest_own [OF assms(1)] .
  note own = own_parametersD [OF parts]
  from own obtain d where "own = [(''affected_offsets'',
      ints (py_range 0 (dose_count (fm_stop_index m - fm_start_index m) d))),
      (''route_map'', PDict [(''left'', PStr ''right''), (''right'', PStr ''left'')])]"
    using assms(2) by (auto simp: operator_parameters_def Let_def result_simps)
  with own(3) [of "''affected_offsets''"] own(3) [of "''route_map''"] that
    dose_count_bounds [of "fm_stop_index m - fm_start_index m" d] manifest_ok_window(2) [OF assms(1)]
  show thesis by (simp add: shared_keys_def param_ints_def)
qed

lemma A2_offsets:
  assumes "manifest_ok h m" "fm_operator_id m = A2_frame_erasure"
  obtains offs count supplied where "param_ints m ''erased_offsets'' = Inr offs"
    "a2_offsets supplied (fm_stop_index m - fm_start_index m) count = Inr offs"
    "1 \<le> count" "count \<le> fm_stop_index m - fm_start_index m"
proof -
  obtain dose supplied own where parts: "own_parameters h m dose supplied own"
    using manifest_own [OF assms(1)] .
  note own = own_parametersD [OF parts]
  from own obtain d offs where "own = [(''erased_offsets'', ints offs)]"
    "a2_offsets supplied (fm_stop_index m - fm_start_index m)
      (dose_count (fm_stop_index m - fm_start_index m) d) = Inr offs"
    using assms(2) by (auto simp: operator_parameters_def Let_def result_simps)
  with own(3) [of "''erased_offsets''"] that
    dose_count_bounds [of "fm_stop_index m - fm_start_index m" d] manifest_ok_window(2) [OF assms(1)]
  show thesis by (simp add: shared_keys_def param_ints_def)
qed

lemma C2_shift:
  assumes "manifest_ok h m" "fm_operator_id m = C2_frame_misregistration"
  obtains k where "c2_shift m = Inr (k, 0)" "1 \<le> k" "k \<le> 32"
proof -
  obtain dose supplied own where parts: "own_parameters h m dose supplied own"
    using manifest_own [OF assms(1)] .
  note own = own_parametersD [OF parts]
  obtain k where k: "dose = PInt k" "1 \<le> k" "k \<le> 32"
    using int_dose [OF own(1)] assms(2) by auto
  from own(2) have "map_of own ''realization'' = Some (PStr ''registered_pixels'')"
    "map_of own ''translation_xy_px'' = Some (ints [k, 0])"
    using assms(2) k by (auto simp: operator_parameters_def Let_def result_simps split: if_splits)
  with own(3) have "ditem (fm_parameters m) ''realization'' = Inr (PStr ''registered_pixels'')"
    "ditem (fm_parameters m) ''translation_xy_px'' = Inr (ints [k, 0])"
    by (simp_all add: shared_keys_def)
  then have "c2_shift m = Inr (k, 0)"
    using k by (auto simp: c2_shift_def dget_def ditem_def param_ints_def split: option.splits)
  with k that show thesis by blast
qed

section \<open>Source maps of the temporal operators\<close>

lemma T1_map:
  assumes "manifest_ok h m" "fm_operator_id m = T1_fixed_source_delay"
  obtains lag where
    "param_ints m ''source_index_map'' =
       Inr (map (\<lambda>i. i - lag) (py_range (fm_start_index m) (fm_stop_index m)))"
    "1 \<le> lag" "lag \<le> fm_start_index m" "severity_value T1_fixed_source_delay (fm_severity_level m) = Inr (PInt lag)"
proof -
  obtain dose supplied own where parts: "own_parameters h m dose supplied own"
    using manifest_own [OF assms(1)] .
  note own = own_parametersD [OF parts]
  let ?r = "py_range (fm_start_index m) (fm_stop_index m)"
  obtain k where k: "dose = PInt k" "1 \<le> k" "k \<le> 32"
    using int_dose [OF own(1)] assms(2) by auto
  from own(2) have o: "own = [(''lag_frames'', PInt k), (''source_index_map'', ints (map (\<lambda>i. i - k) ?r))]"
    "\<not> Min (set (map (\<lambda>i. i - k) ?r)) < 0"
    using assms(2) k by (auto simp: operator_parameters_def Let_def result_simps split: if_splits)
  have "fm_start_index m - k \<in> set (map (\<lambda>i. i - k) ?r)"
    using manifest_ok_window(2) [OF assms(1)] by auto
  then have "Min (set (map (\<lambda>i. i - k) ?r)) \<le> fm_start_index m - k"
    by (intro Min_le) auto
  then have "k \<le> fm_start_index m" using o(2) by linarith
  with own(1) own(3) [of "''source_index_map''"] o(1) k that assms(2) show thesis
    by (simp add: shared_keys_def param_ints_def)
qed

lemma T2_map:
  assumes "manifest_ok h m" "fm_operator_id m = T2_held_last_freeze"
  obtains k where
    "param_ints m ''source_index_map'' =
       Inr (t2_source_map (fm_start_index m) (fm_stop_index m) k)"
    "1 \<le> k" "severity_value T2_held_last_freeze (fm_severity_level m) = Inr (PInt k)"
proof -
  obtain dose supplied own where parts: "own_parameters h m dose supplied own"
    using manifest_own [OF assms(1)] .
  note own = own_parametersD [OF parts]
  obtain k where k: "dose = PInt k" "1 \<le> k" "k \<le> 32"
    using int_dose [OF own(1)] assms(2) by auto
  from own(2) have "map_of own ''source_index_map'' =
      Some (ints (t2_source_map (fm_start_index m) (fm_stop_index m) k))"
    using assms(2) k by (auto simp: operator_parameters_def Let_def result_simps)
  with own(1) own(3) [of "''source_index_map''"] k that assms(2) show thesis
    by (simp add: shared_keys_def param_ints_def)
qed

lemma T3_map:
  assumes "manifest_ok h m" "fm_operator_id m = T3_inter_sensor_skew"
  obtains k v where "ditem (fm_parameters m) ''source_index_map'' = Inr v"
    "\<And>slot. slot \<in> set (fm_sensor_slots m) \<Longrightarrow>
      param_item m ''source_index_map'' slot =
        Inr (ints (t3_slot_map (fm_start_index m) (fm_stop_index m) k
                     (slot = last (fm_sensor_slots m))))"
    "1 \<le> k" "severity_value T3_inter_sensor_skew (fm_severity_level m) = Inr (PInt k)"
proof -
  obtain dose supplied own where parts: "own_parameters h m dose supplied own"
    using manifest_own [OF assms(1)] .
  note own = own_parametersD [OF parts]
  obtain k where k: "dose = PInt k" "1 \<le> k" "k \<le> 32"
    using int_dose [OF own(1)] assms(2) by auto
  let ?v = "PDict (map (\<lambda>s. (s, ints (t3_slot_map (fm_start_index m) (fm_stop_index m) k
                (s = last (fm_sensor_slots m))))) (fm_sensor_slots m))"
  from own(2) have "map_of own ''source_index_map'' = Some ?v"
    using assms(2) k manifest_ok_window(5) [OF assms(1)]
    by (auto simp: operator_parameters_def Let_def result_simps)
  with own(3) [of "''source_index_map''"] have it: "ditem (fm_parameters m) ''source_index_map'' = Inr ?v"
    by (simp add: shared_keys_def)
  have at: "map_of (map (\<lambda>s. (s, g s)) xs) slot = Some (g slot)" if "slot \<in> set xs"
    for slot and g :: "string \<Rightarrow> pyval" and xs
    using that by (induction xs) auto
  show thesis
    by (rule that [OF it _ k(2)])
       (use it own(1) k assms(2) in \<open>auto simp: param_item_def ditem_def at\<close>)
qed

section \<open>Scalar parameters of the fidelity operators\<close>

lemma seeded_center_Inr:
  "seeded_center h op seed = Inr c \<Longrightarrow> \<exists>x y. c = PList [PFloat x, PFloat y]"
  by (auto simp: seeded_center_def result_simps)

lemma phases_contact: "mapr phase_of_value [PStr ''contact_onset'', PStr ''sustained_contact''] =
    Inr [ONSET, SUSTAINED]"
  by (simp add: phase_of_value_def)

text \<open>Every parameter a fidelity operator reads is present and of the right type.\<close>

lemma F1_params:
  assumes "manifest_ok h m" "fm_operator_id m = F1_global_response_drift"
  obtains d where "param_float m ''target_gain'' = Inr d"
    "bindr (severity_value F1_global_response_drift (fm_severity_level m)) py_float = Inr d"
proof -
  obtain dose supplied own where parts: "own_parameters h m dose supplied own"
    using manifest_own [OF assms(1)] .
  note own = own_parametersD [OF parts]
  from own obtain d where "py_float dose = Inr d" "map_of own ''target_gain'' = Some (PFloat d)"
    using assms(2) by (auto simp: operator_parameters_def Let_def result_simps)
  with own(1) own(3) [of "''target_gain''"] that assms(2) show thesis
    by (simp add: shared_keys_def param_float_def)
qed

lemma F2_params:
  assumes "manifest_ok h m" "fm_operator_id m = F2_spatial_sensitivity_loss"
  obtains a c sf ms where "param_float m ''retained_gain'' = Inr a" "param_center m = Inr c"
    "param_float m ''sigma_fraction'' = Inr sf" "param_float m ''minimum_sigma_px'' = Inr ms"
proof -
  obtain dose supplied own where parts: "own_parameters h m dose supplied own"
    using manifest_own [OF assms(1)] .
  note own = own_parametersD [OF parts]
  from own obtain d x y where o: "own = [(''retained_gain'', PFloat d),
      (''center_xy'', PList [PFloat x, PFloat y]),
      (''sigma_fraction'', lit (22/100)), (''minimum_sigma_px'', PFloat 2)]"
    using assms(2)
    by (fastforce simp: operator_parameters_def Let_def result_simps dest: seeded_center_Inr)
  show thesis
    by (rule that [of d "(x, y)"])
       (use own(3) o in \<open>simp_all add: shared_keys_def param_float_def param_center_def
          param_floats_def lit_def\<close>)
qed

lemma F3_params:
  assumes "manifest_ok h m" "fm_operator_id m = F3_persistent_surface_artifact"
  obtains a b c ds where "param_float m ''scar_slope'' = Inr a"
    "param_float m ''scar_intercept_fraction'' = Inr b"
    "param_float m ''scar_half_width_px'' = Inr c" "param_floats m ''rgb_delta'' = Inr ds"
proof -
  obtain dose supplied own where parts: "own_parameters h m dose supplied own"
    using manifest_own [OF assms(1)] .
  note own = own_parametersD [OF parts]
  from own obtain b c x y z where o: "own = [(''scar_slope'', lit (45/100)),
      (''scar_intercept_fraction'', PFloat b), (''scar_half_width_px'', PFloat c),
      (''rgb_delta'', PList [PFloat x, PFloat y, PFloat z])]"
    using assms(2) by (auto simp: operator_parameters_def Let_def result_simps)
  show thesis
    by (rule that [of "fl64 (45/100)" b c "[x, y, z]"])
       (use own(3) o in \<open>simp_all add: shared_keys_def param_float_def param_floats_def lit_def\<close>)
qed

lemma F4_params:
  assumes "manifest_ok h m" "fm_operator_id m = F4_local_nonresponsive_patch"
  obtains c a b where "param_center m = Inr c" "param_float m ''radius_fraction'' = Inr a"
    "param_int m ''minimum_radius_px'' = Inr b"
proof -
  obtain dose supplied own where parts: "own_parameters h m dose supplied own"
    using manifest_own [OF assms(1)] .
  note own = own_parametersD [OF parts]
  from own obtain x y d where o: "own = [(''center_xy'', PList [PFloat x, PFloat y]),
      (''radius_fraction'', PFloat d), (''minimum_radius_px'', PInt 2),
      (''fill_mode'', PStr ''rest_reference'')]"
    using assms(2)
    by (fastforce simp: operator_parameters_def Let_def result_simps dest: seeded_center_Inr)
  show thesis
    by (rule that [of "(x, y)" d 2])
       (use own(3) o in \<open>simp_all add: shared_keys_def param_float_def param_int_def
          param_center_def param_floats_def\<close>)
qed

lemma F5_params:
  assumes "manifest_ok h m" "fm_operator_id m = F5_contact_shape_distortion"
  obtains a x y b where "param_float m ''displacement_px'' = Inr a"
    "param_floats m ''center_xy'' = Inr [x, y]" "param_float m ''support_radius_fraction'' = Inr b"
    "activation_phases m = Inr [ONSET, SUSTAINED]"
proof -
  obtain dose supplied own where parts: "own_parameters h m dose supplied own"
    using manifest_own [OF assms(1)] .
  note own = own_parametersD [OF parts]
  obtain k where k: "dose = PInt k" using int_dose [OF own(1)] assms(2) by auto
  with own(2) obtain x y where o: "map_of own ''center_xy'' = Some (PList [PFloat x, PFloat y])"
    "map_of own ''displacement_px'' = Some (PInt k)"
    "map_of own ''support_radius_fraction'' = Some (lit (30/100))"
    "map_of own ''activation_phases'' = Some contact_phases"
    using assms(2)
    by (fastforce simp: operator_parameters_def Let_def result_simps dest: seeded_center_Inr)
  show thesis
    by (rule that [of "fl64 (of_int k)" x y "fl64 (30/100)"])
       (use own(3) o phases_contact in \<open>simp_all add: shared_keys_def param_float_def
          param_floats_def lit_def activation_phases_def contact_phases_def\<close>)
qed

lemma F6_params:
  assumes "manifest_ok h m" "fm_operator_id m = F6_history_residual_imprint"
  obtains a b where "param_float m ''history_mix'' = Inr a" "param_float m ''memory_beta'' = Inr b"
proof -
  obtain dose supplied own where parts: "own_parameters h m dose supplied own"
    using manifest_own [OF assms(1)] .
  note own = own_parametersD [OF parts]
  from own obtain d where o: "own = [(''history_mix'', PFloat d), (''memory_beta'', lit (72/100))]"
    using assms(2) by (auto simp: operator_parameters_def Let_def result_simps)
  show thesis
    by (rule that [of d "fl64 (72/100)"])
       (use own(3) o in \<open>simp_all add: shared_keys_def param_float_def lit_def\<close>)
qed

lemma F7_params:
  assumes "manifest_ok h m" "fm_operator_id m = F7_high_load_saturation"
  obtains a b c k where "param_float m ''response_knee'' = Inr a"
    "param_float m ''plateau_width_ratio'' = Inr b"
    "param_float m ''anchor_radius_fraction'' = Inr c"
    "param_int m ''minimum_anchor_radius_px'' = Inr k"
    "activation_phases m = Inr [ONSET, SUSTAINED]"
proof -
  obtain dose supplied own where parts: "own_parameters h m dose supplied own"
    using manifest_own [OF assms(1)] .
  note own = own_parametersD [OF parts]
  from own obtain d where o: "map_of own ''response_knee'' = Some (PFloat d)"
    "map_of own ''plateau_width_ratio'' = Some (lit (35/100))"
    "map_of own ''anchor_radius_fraction'' = Some (lit (6/100))"
    "map_of own ''minimum_anchor_radius_px'' = Some (PInt 2)"
    "map_of own ''activation_phases'' = Some contact_phases"
    using assms(2) by (auto simp: operator_parameters_def Let_def result_simps)
  show thesis
    by (rule that [of d "fl64 (35/100)" "fl64 (6/100)" 2])
       (use own(3) o phases_contact in \<open>simp_all add: shared_keys_def param_float_def param_int_def
          lit_def activation_phases_def contact_phases_def\<close>)
qed

end
