(* ===== verification/Operator_Frames.thy ===== *)
theory Operator_Frames
  imports Schedules
begin

text \<open>
  What a batch operator leaves alone: the number and identity of the records, everything
  outside its window, the slots outside its scope, vision and proprioception, and the hash of
  the clean record each delivery refers to.  One statement covers the fourteen operators.
\<close>

section \<open>The effect on one record\<close>

definition confined ::
    "hasher \<Rightarrow> fault_manifest \<Rightarrow> int \<Rightarrow> evaluation \<Rightarrow> evaluation \<Rightarrow> bool" where
  "confined h m index clean out \<longleftrightarrow>
     record_frame clean out \<and>
     (\<not> manifest_active m index \<longrightarrow> out = clean) \<and>
     (\<forall>slot. slot \<notin> set (fm_sensor_slots m) \<longrightarrow> slot_view out slot = slot_view clean slot) \<and>
     (evaluation_ok h clean \<longrightarrow> evaluation_ok h out)"

lemma confined_refl [simp]: "confined h m i c c"
  by (simp add: confined_def)

context slot_writer
begin

lemma fold_confined:
  "foldr_res body c (fm_sensor_slots m) = Inr r \<Longrightarrow> manifest_active m i \<Longrightarrow> confined h m i c r"
  by (auto simp: confined_def intro: fold_frame fold_ok fold_other)

end

definition all_confined ::
    "hasher \<Rightarrow> fault_manifest \<Rightarrow> evaluation list \<Rightarrow> evaluation list \<Rightarrow> bool" where
  "all_confined h m clean out \<longleftrightarrow>
     length out = length clean \<and>
     (\<forall>i < length clean. confined h m (int i) (clean ! i) (out ! i))"

lemma each_record_confined:
  assumes "each_record body clean = Inr out"
    and "\<And>i r. i < length clean \<Longrightarrow> body (int i) (clean ! i) (clean ! i) = Inr r \<Longrightarrow>
      confined h m (int i) (clean ! i) r"
  shows "all_confined h m clean out"
proof -
  from assms(1) have run: "mapr (\<lambda>i. body (int i) (clean ! i) (clean ! i)) [0..<length clean] = Inr out"
    by (simp add: each_record_map)
  have "confined h m (int i) (clean ! i) (out ! i)" if "i < length clean" for i
    using mapr_nth [OF run, of i] that assms(2) [OF that] by simp
  with mapr_length [OF run] show ?thesis by (simp add: all_confined_def)
qed

lemma each_record_acc_confined:
  assumes "each_record_acc body st clean = Inr out"
    and "\<And>s s' i r. i < length clean \<Longrightarrow> body s (int i) (clean ! i) (clean ! i) = Inr (s', r) \<Longrightarrow>
      confined h m (int i) (clean ! i) r"
  shows "all_confined h m clean out"
proof -
  have "length out = length xs \<and> (\<forall>k < length xs. confined h m (int (xs ! k)) (clean ! (xs ! k)) (out ! k))"
    if "map_acc (\<lambda>s i. body s (int i) (clean ! i) (clean ! i)) s xs = Inr out"
      "set xs \<subseteq> {..<length clean}" for s xs out
    using that
  proof (induction xs arbitrary: s out)
    case (Cons x xs)
    then obtain s' y ys where "body s (int x) (clean ! x) (clean ! x) = Inr (s', y)"
      "map_acc (\<lambda>s i. body s (int i) (clean ! i) (clean ! i)) s' xs = Inr ys" "out = y # ys"
      by (auto simp: result_simps)
    with Cons.IH [of s' ys] Cons.prems(2) assms(2) [of x s s' y] show ?case
      by (auto simp: nth_Cons split: nat.splits)
  qed simp
  from this [of st "[0..<length clean]" out] assms(1) show ?thesis
    by (force simp: each_record_acc_map all_confined_def)
qed

section \<open>Schedules stay inside the window\<close>

lemma schedule_active:
  "fm_start_index m \<le> i \<Longrightarrow> i < n + fm_start_index m \<Longrightarrow> n \<le> fm_stop_index m - fm_start_index m \<Longrightarrow>
   manifest_active m i"
  by (auto simp: manifest_active_def)

lemma fl64_of_int: "\<bar>k\<bar> < 2 ^ 53 \<Longrightarrow> fl64 (of_int k) = of_int k"
  by (simp add: fl64_def fl_representable [of _ k 0])

lemma a2_offsets_window:
  assumes "a2_offsets supplied window count = Inr offs" "offset \<in> set offs"
    "1 \<le> count" "1 \<le> window" "window \<le> 2 ^ 53"
  shows "0 \<le> offset \<and> offset < window"
proof (cases "dget supplied ''erased_offsets'' = PNone")
  case False
  then show ?thesis
    using assms(1,2)
    by (auto simp: a2_offsets_def list_ex_iff not_less split: pyval.splits option.splits if_splits)
next
  case True
  show ?thesis
  proof (cases "count = 1")
    case True': True
    with True assms(1,2,4) show ?thesis by (auto simp: a2_offsets_def)
  next
    case False
    let ?f = "\<lambda>pos. fdiv (of_int (pos * (window - 1))) (of_int (count - 1))"
    have "offs = map (\<lambda>pos. py_round (?f pos)) (py_range 0 count)"
      using True False assms(1) by (simp add: a2_offsets_def)
    with assms(2) obtain pos where pos: "0 \<le> pos" "pos < count" "offset = py_round (?f pos)"
      by auto
    have nn: "0 \<le> of_int (pos * (window - 1)) / (of_int (count - 1) :: rat)"
      using pos(1) assms(3,4) by simp
    have "of_int (pos * (window - 1)) / (of_int (count - 1) :: rat) \<le> of_int (window - 1)"
    proof -
      have "pos * (window - 1) \<le> (count - 1) * (window - 1)"
        using pos assms(4) by (intro mult_right_mono) auto
      then have "(of_int (pos * (window - 1)) :: rat) \<le> of_int ((count - 1) * (window - 1))"
        by (simp only: of_int_le_iff)
      with False assms(3) show ?thesis by (simp add: divide_le_eq mult.commute)
    qed
    then have "?f pos \<le> fl64 (of_int (window - 1))"
      unfolding fdiv_def fl64_def by (intro fl_mono) auto
    also have "fl64 (of_int (window - 1)) = of_int (window - 1)"
      using assms(4,5) by (intro fl64_of_int) auto
    finally have "py_round (?f pos) \<le> window - 1" by (intro py_round_int_bounds)
    moreover have "0 \<le> py_round (?f pos)"
      using nn by (intro py_round_int_bounds) (simp add: fdiv_def fl64_def fl_nonneg)
    ultimately show ?thesis using pos(3) by simp
  qed
qed

section \<open>Every operator is confined\<close>

lemma absence_confined:
  assumes "absence h clean m affected = Inr out" "\<And>i. i \<in> set affected \<Longrightarrow> manifest_active m i"
  shows "all_confined h m clean out"
  using assms(1) unfolding absence_def
  by (rule each_record_confined) (auto split: if_splits intro: absence.fold_confined assms(2))

lemma window_confined:
  assumes "window_records body start stop clean = Inr out" "0 \<le> start"
    "start = fm_start_index m" "stop = fm_stop_index m"
    and "\<And>i r. i < length clean \<Longrightarrow> manifest_active m (int i) \<Longrightarrow>
      body (int i - start) (int i) (clean ! i) = Inr r \<Longrightarrow> confined h m (int i) (clean ! i) r"
  shows "all_confined h m clean out"
  using assms(1) unfolding window_records_each [OF assms(2)]
  by (rule each_record_confined) (use assms(3-5) in \<open>auto simp: manifest_active_def split: if_splits\<close>)

lemma fold_bind_confined:
  "foldr_res (\<lambda>acc slot. bindr (src slot) (\<lambda>source. route_source h m source acc slot)) c
     (fm_sensor_slots m) = Inr r \<Longrightarrow> manifest_active m i \<Longrightarrow> confined h m i c r"
  by (rule route.fold_confined)

lemma active_records_confined:
  "active_records h clean m tr pred = Inr out \<Longrightarrow> all_confined h m clean out"
  unfolding active_records_def
  by (erule each_record_confined) (auto split: if_splits intro: fidelity.fold_confined)

lemma T1_confined:
  assumes "T1_apply h clean m = Inr out" "manifest_ok h m"
  shows "all_confined h m clean out"
proof -
  obtain sm where "window_records (\<lambda>offset index out.
       bindr (py_index sm offset) (\<lambda>source_index.
       foldr_res (\<lambda>acc slot. bindr (py_index clean source_index) (\<lambda>source.
                    route_source h m source acc slot)) out (fm_sensor_slots m)))
       (fm_start_index m) (fm_stop_index m) clean = Inr out"
    using assms(1) by (auto simp: T1_apply_def result_simps)
  then show ?thesis
    by (rule window_confined [OF _ manifest_ok_window(1) [OF assms(2)] refl refl])
       (auto simp: bindr_eq_Inr intro: fold_bind_confined)
qed

lemma T2_confined:
  assumes "T2_apply h clean m = Inr out" "manifest_ok h m"
  shows "all_confined h m clean out"
proof -
  obtain sm where "window_records (\<lambda>offset index out.
       bindr (py_index sm offset) (\<lambda>source_index.
       if source_index = index then Inr out
       else foldr_res (\<lambda>acc slot. bindr (py_index clean source_index) (\<lambda>source.
                    route_source h m source acc slot)) out (fm_sensor_slots m)))
       (fm_start_index m) (fm_stop_index m) clean = Inr out"
    using assms(1) by (auto simp: T2_apply_def result_simps)
  then show ?thesis
    by (rule window_confined [OF _ manifest_ok_window(1) [OF assms(2)] refl refl])
       (auto simp: bindr_eq_Inr split: if_splits intro: fold_bind_confined)
qed

lemma T3_confined:
  assumes "T3_apply h clean m = Inr out" "manifest_ok h m"
  shows "all_confined h m clean out"
proof -
  have "window_records (\<lambda>offset index out.
       foldr_res (\<lambda>acc slot. bindr (bindr (t3_source_index m slot offset) (py_index clean))
           (\<lambda>source. route_source h m source acc slot)) out (fm_sensor_slots m))
       (fm_start_index m) (fm_stop_index m) clean = Inr out"
    using assms(1) by (auto simp: T3_apply_def result_simps bindr_assoc)
  then show ?thesis
    by (rule window_confined [OF _ manifest_ok_window(1) [OF assms(2)] refl refl])
       (rule fold_bind_confined)
qed

lemma C1_confined:
  assumes "C1_apply h clean m = Inr out" "manifest_ok h m" "fm_operator_id m = C1_sensor_identity_misrouting"
  shows "all_confined h m clean out"
proof -
  obtain n where n: "param_ints m ''affected_offsets'' = Inr (py_range 0 n)"
    "n \<le> fm_stop_index m - fm_start_index m"
    using C1_offsets [OF assms(2,3)] by metis
  let ?aff = "map (\<lambda>offset. fm_start_index m + offset) (py_range 0 n)"
  have slots: "set (fm_sensor_slots m) = set SENSOR_SLOTS"
    by (rule manifest_ok_window(8) [OF assms(2,3)])
  from assms(1) n(1) have run: "each_record (\<lambda>index record out.
          if index \<notin> set ?aff then Inr out
          else foldr_res (c1_slot h m record) out SENSOR_SLOTS) clean = Inr out"
    by (auto simp: C1_apply_def Let_def result_simps split: if_splits)
  have "confined h m i c r"
    if "foldr_res (c1_slot h m c) c SENSOR_SLOTS = Inr r" "manifest_active m i" for i c r
    using that slots c1.fold_frame [OF that(1)] c1.fold_ok [OF that(1)] c1.fold_other [OF that(1)]
    by (auto simp: confined_def)
  then show ?thesis
    by (intro each_record_confined [OF run])
       (use schedule_active [OF _ _ n(2)] in \<open>auto split: if_splits\<close>)
qed

lemma C2_confined:
  "C2_apply h clean m rest = Inr out \<Longrightarrow> all_confined h m clean out"
  by (auto simp: C2_apply_def bindr_eq_Inr split: if_splits prod.splits
      elim!: each_record_confined intro: c2.fold_confined)

lemma F6_confined:
  assumes "F6_apply h np clean m rest = Inr out"
  shows "all_confined h m clean out"
proof -
  obtain mix beta hs where "each_record_acc (\<lambda>hs index record out.
       foldr_res (f6_slot h np m rest mix beta index record) (hs, out) (fm_sensor_slots m))
       hs clean = Inr out"
    using assms by (auto simp: F6_apply_def result_simps)
  then show ?thesis
    by (rule each_record_acc_confined)
       (auto simp: confined_def intro: f6_fold_frame f6_fold_inactive f6_fold_other f6_fold_ok)
qed

lemma apply_operator_confined:
  assumes "apply_operator h np (fm_operator_id m) clean m rest = Inr out" "manifest_ok h m"
    and "fm_operator_id m = A2_frame_erasure \<Longrightarrow> fm_stop_index m - fm_start_index m \<le> 2 ^ 53"
  shows "all_confined h m clean out"
proof (cases "fm_operator_id m")
  case A1_stream_absence
  obtain n where n: "param_ints m ''affected_offsets'' = Inr (py_range 0 n)"
    "n \<le> fm_stop_index m - fm_start_index m"
    using A1_offsets [OF assms(2) A1_stream_absence] by metis
  with assms(1) A1_stream_absence show ?thesis
    using schedule_active [OF _ _ n(2)] by (auto simp: A1_apply_def elim!: absence_confined)
next
  case A2_frame_erasure
  obtain offs count supplied where o: "param_ints m ''erased_offsets'' = Inr offs"
    "a2_offsets supplied (fm_stop_index m - fm_start_index m) count = Inr offs" "1 \<le> count"
    "count \<le> fm_stop_index m - fm_start_index m"
    using A2_offsets [OF assms(2) A2_frame_erasure] by metis
  have "manifest_active m (fm_start_index m + x)" if "x \<in> set offs" for x
    using a2_offsets_window [OF o(2) that o(3)] o(3,4) assms(3) [OF A2_frame_erasure]
    by (auto simp: manifest_active_def)
  with assms(1) A2_frame_erasure o(1) show ?thesis
    by (auto simp: A2_apply_def elim!: absence_confined)
qed (use assms(1,2) in \<open>auto simp: F1_apply_def F2_apply_def F3_apply_def F4_apply_def F5_apply_def
      F7_apply_def bindr_eq_Inr split: prod.splits
      intro: active_records_confined T1_confined T2_confined T3_confined C1_confined C2_confined
        F6_confined\<close>)

end
