(* ===== verification/Streaming.thy ===== *)
theory Streaming
  imports Fidelity
begin

text \<open>
  The causal streaming engine (\<open>streaming/\<close>): one delivered record per clean record, from the
  current record and a bounded state.  A delivery returns the exception or the delivered record
  together with the session as it is afterwards, also after an exception.
\<close>

section \<open>Availability and context\<close>

text \<open>\<open>streaming/availability_context.py\<close>: sensor and provenance are read from the record built
  so far.\<close>

definition apply_availability ::
    "hasher \<Rightarrow> evaluation \<Rightarrow> fault_manifest \<Rightarrow> int list \<Rightarrow> evaluation result" where
  "apply_availability h clean m affected =
     (if step_of clean \<notin> set affected then Inr clean
      else foldr_res (\<lambda>out slot. absence_slot h m out out slot) clean (fm_sensor_slots m))"

definition stream_c1 ::
    "hasher \<Rightarrow> evaluation \<Rightarrow> fault_manifest \<Rightarrow> int list \<Rightarrow> evaluation result" where
  "stream_c1 h clean m affected =
     (if step_of clean \<notin> set affected then Inr clean
      else if set (fm_sensor_slots m) \<noteq> set SENSOR_SLOTS
      then Inl (ValueError ''C1 requires both left and right sensor slots'')
      else bindr (ditem (fm_parameters m) ''route_map'') (\<lambda>_.
           foldr_res (c1_slot h m clean) clean SENSOR_SLOTS))"

definition stream_c2 ::
    "hasher \<Rightarrow> evaluation \<Rightarrow> fault_manifest \<Rightarrow> reference_bundle option \<Rightarrow> evaluation result" where
  "stream_c2 h clean m rest =
     (if \<not> manifest_active m (step_of clean) then Inr clean
      else bindr (c2_shift m) (\<lambda>(shift_x, shift_y).
           foldr_res (c2_slot h m rest shift_x shift_y) clean (fm_sensor_slots m)))"

definition apply_context ::
    "hasher \<Rightarrow> evaluation \<Rightarrow> fault_manifest \<Rightarrow> reference_bundle option \<Rightarrow> int list \<Rightarrow>
     evaluation result" where
  "apply_context h clean m rest affected =
     (if fm_operator_id m = C1_sensor_identity_misrouting then stream_c1 h clean m affected
      else if fm_operator_id m = C2_frame_misregistration then stream_c2 h clean m rest
      else Inl (KeyError ''unknown streaming context operator''))"

section \<open>Temporal routing\<close>

text \<open>\<open>streaming/temporal.py\<close>; \<open>lookup\<close> is the session's bounded source cache.\<close>

definition apply_temporal ::
    "hasher \<Rightarrow> evaluation \<Rightarrow> fault_manifest \<Rightarrow> (int \<Rightarrow> evaluation result) \<Rightarrow> evaluation result" where
  "apply_temporal h clean m lookup =
     (let index = step_of clean; offset = index - fm_start_index m in
      if \<not> manifest_active m index then Inr clean
      else if fm_operator_id m \<in> {T1_fixed_source_delay, T2_held_last_freeze}
      then bindr (param_ints m ''source_index_map'') (\<lambda>source_map.
           bindr (py_index source_map offset) (\<lambda>source_index.
           if fm_operator_id m = T2_held_last_freeze \<and> source_index = index then Inr clean
           else bindr (lookup source_index) (\<lambda>source.
                foldr_res (\<lambda>out slot. route_source h m source out slot) clean
                  (fm_sensor_slots m))))
      else if fm_operator_id m = T3_inter_sensor_skew
      then bindr (ditem (fm_parameters m) ''source_index_map'') (\<lambda>_.
           foldr_res (\<lambda>out slot. bindr (t3_source_index m slot offset) (\<lambda>source_index.
                        bindr (lookup source_index) (\<lambda>source.
                        route_source h m source out slot)))
             clean (fm_sensor_slots m))
      else Inl (KeyError ''unknown streaming temporal operator''))"

definition validate_source_ages :: "int list \<Rightarrow> int list \<Rightarrow> int result" where
  "validate_source_ages delivery sources =
     (if length delivery \<noteq> length sources
      then Inl (ValueError ''temporal source map length disagrees with fault window'')
      else let ages = map (\<lambda>(d, s). d - s) (zip delivery sources) in
        if list_ex (\<lambda>s. s < 0) sources \<or> list_ex (\<lambda>a. a < 0) ages
        then Inl (ValueError ''temporal source map must be causal and non-negative'')
        else Inr (if ages = [] then 0 else Max (set ages)))"

definition maximum_source_age :: "fault_manifest \<Rightarrow> int result" where
  "maximum_source_age m =
     (let delivery = py_range (fm_start_index m) (fm_stop_index m) in
      if fm_operator_id m \<in> {T1_fixed_source_delay, T2_held_last_freeze}
      then bindr (param_ints m ''source_index_map'') (\<lambda>source_map.
           validate_source_ages delivery source_map)
      else if fm_operator_id m = T3_inter_sensor_skew
      then foldr_res (\<lambda>maximum slot.
             bindr (bindr (param_item m ''source_index_map'' slot) value_ints) (\<lambda>sources.
             bindr (validate_source_ages delivery sources) (\<lambda>age. Inr (max maximum age))))
             0 (fm_sensor_slots m)
      else Inr 0)"

section \<open>Fidelity\<close>

text \<open>\<open>streaming/fidelity.py\<close>: the parameters are read for every record.\<close>

definition transform_current ::
    "hasher \<Rightarrow> numpy \<Rightarrow> fault_manifest \<Rightarrow> reference_bundle option \<Rightarrow> transform" where
  "transform_current h np m rest index slot payload =
     (case fm_operator_id m of
        F1_global_response_drift \<Rightarrow>
          bindr (param_float m ''target_gain'') (\<lambda>target_gain.
          F1_transform np m target_gain index slot payload)
      | F2_spatial_sensitivity_loss \<Rightarrow>
          bindr (baseline_for h slot m rest) (\<lambda>_.
          bindr (param_center m) (\<lambda>(cx, cy).
          bindr (param_float m ''minimum_sigma_px'') (\<lambda>minimum_sigma.
          bindr (param_float m ''sigma_fraction'') (\<lambda>sigma_fraction.
          bindr (param_float m ''retained_gain'') (\<lambda>retained.
          F2_transform h np m rest retained cx cy sigma_fraction minimum_sigma index slot
            payload)))))
      | F3_persistent_surface_artifact \<Rightarrow>
          bindr (param_float m ''scar_slope'') (\<lambda>slope.
          bindr (param_float m ''scar_intercept_fraction'') (\<lambda>intercept.
          bindr (param_float m ''scar_half_width_px'') (\<lambda>half_width.
          bindr (param_floats m ''rgb_delta'') (\<lambda>delta.
          F3_transform np slope intercept half_width (np_asarray np delta ''float32'')
            index slot payload))))
      | F4_local_nonresponsive_patch \<Rightarrow>
          bindr (baseline_for h slot m rest) (\<lambda>_.
          bindr (param_int m ''minimum_radius_px'') (\<lambda>minimum_radius.
          bindr (param_float m ''radius_fraction'') (\<lambda>radius_fraction.
          bindr (param_center m) (\<lambda>(cx, cy).
          F4_transform h np m rest cx cy radius_fraction minimum_radius index slot payload))))
      | F5_contact_shape_distortion \<Rightarrow>
          bindr (param_floats m ''center_xy'') (\<lambda>center_xy.
          bindr (param_float m ''support_radius_fraction'') (\<lambda>radius_fraction.
          bindr (param_float m ''displacement_px'') (\<lambda>displacement.
          F5_transform np center_xy radius_fraction displacement index slot payload)))
      | F7_high_load_saturation \<Rightarrow>
          bindr (param_float m ''response_knee'') (\<lambda>knee.
          bindr (param_float m ''plateau_width_ratio'') (\<lambda>ratio.
          bindr (param_float m ''anchor_radius_fraction'') (\<lambda>fraction.
          bindr (param_int m ''minimum_anchor_radius_px'') (\<lambda>minimum.
          F7_transform np knee ratio fraction minimum index slot payload))))
      | _ \<Rightarrow> Inl (KeyError ''unknown streaming fidelity operator''))"

definition contact_active :: "fault_manifest \<Rightarrow> string \<Rightarrow> evaluation \<Rightarrow> bool result" where
  "contact_active m slot r =
     bindr (activation_phases m) (\<lambda>phases. phase_active phases slot r)"

text \<open>One slot of \<open>_apply_f6\<close>: a missing history starts from zeros.  The histories are
  assigned before the payload is built, so they are kept when a later call raises.\<close>

definition stream_f6_slot ::
    "hasher \<Rightarrow> numpy \<Rightarrow> fault_manifest \<Rightarrow> reference_bundle option \<Rightarrow> rat \<Rightarrow> rat \<Rightarrow> evaluation \<Rightarrow>
     histories \<times> evaluation \<Rightarrow> string \<Rightarrow> histories \<times> evaluation result" where
  "stream_f6_slot h np m rest mix beta clean st slot =
     (case st of (histories, out) \<Rightarrow>
      let before =
        bindr (ob_sensor (ev_observation clean) slot) (\<lambda>sensor.
        case so_payload sensor of
          None \<Rightarrow> Inl (ValueError ''history operator requires present clean payload'')
        | Some payload \<Rightarrow>
            bindr (baseline_for h slot m rest) (\<lambda>raw.
            let baseline = normalize np raw;
                previous = (case map_of histories slot of
                              None \<Rightarrow> np_zeros_like np baseline | Some a \<Rightarrow> a)
            in bindr (np_sub np (normalize np payload) baseline) (\<lambda>residual.
               bindr (f6_history np beta previous residual) (\<lambda>history.
               Inr (sensor, payload, baseline, residual, history)))))
      in case before of
           Inl e \<Rightarrow> (histories, Inl e)
         | Inr (sensor, payload, baseline, residual, history) \<Rightarrow>
             (dict_set slot history histories,
              if \<not> manifest_active m (step_of clean) then Inr out
              else bindr (f6_payload np mix payload baseline residual history) (\<lambda>transformed.
                   bindr (provenance_for clean slot) (\<lambda>p.
                   deliver_payload h m out sensor p transformed))))"

primrec stream_f6_slots ::
    "hasher \<Rightarrow> numpy \<Rightarrow> fault_manifest \<Rightarrow> reference_bundle option \<Rightarrow> rat \<Rightarrow> rat \<Rightarrow> evaluation \<Rightarrow>
     string list \<Rightarrow> histories \<Rightarrow> evaluation \<Rightarrow> histories \<times> evaluation result" where
  "stream_f6_slots h np m rest mix beta clean [] histories out = (histories, Inr out)"
| "stream_f6_slots h np m rest mix beta clean (slot # slots) histories out =
     (case stream_f6_slot h np m rest mix beta clean (histories, out) slot of
        (histories', Inl e) \<Rightarrow> (histories', Inl e)
      | (histories', Inr out') \<Rightarrow>
          stream_f6_slots h np m rest mix beta clean slots histories' out')"

definition stream_f6 ::
    "hasher \<Rightarrow> numpy \<Rightarrow> evaluation \<Rightarrow> fault_manifest \<Rightarrow> reference_bundle option \<Rightarrow> histories \<Rightarrow>
     histories \<times> evaluation result" where
  "stream_f6 h np clean m rest histories =
     (case bindr (param_float m ''history_mix'') (\<lambda>mix.
           bindr (param_float m ''memory_beta'') (\<lambda>beta. Inr (mix, beta))) of
        Inl e \<Rightarrow> (histories, Inl e)
      | Inr (mix, beta) \<Rightarrow>
          stream_f6_slots h np m rest mix beta clean (fm_sensor_slots m) histories clean)"

definition apply_fidelity ::
    "hasher \<Rightarrow> numpy \<Rightarrow> evaluation \<Rightarrow> fault_manifest \<Rightarrow> reference_bundle option \<Rightarrow> histories \<Rightarrow>
     histories \<times> evaluation result" where
  "apply_fidelity h np clean m rest histories =
     (if fm_operator_id m = F6_history_residual_imprint
      then stream_f6 h np clean m rest histories
      else (histories,
        if \<not> manifest_active m (step_of clean) then Inr clean
        else foldr_res (fidelity_slot h m (transform_current h np m rest)
               (if fm_operator_id m \<in> {F5_contact_shape_distortion, F7_high_load_saturation}
                then contact_active m else always_active)
               (step_of clean)) clean (fm_sensor_slots m)))"

section \<open>The session\<close>

record session =
  ss_manifest :: fault_manifest
  ss_manifest_sha256 :: string
  ss_manifest_dict :: params
  ss_rest_references :: "reference_bundle option"
  ss_family :: family
  ss_processed_count :: int
  ss_histories :: histories
  ss_source_records :: "(int \<times> evaluation) list"
  ss_maximum_source_age :: int
  ss_affected_indices :: "int list"

definition affected_indices :: "fault_manifest \<Rightarrow> int list result" where
  "affected_indices m =
     (let schedule_key =
        (if fm_operator_id m \<in> {A1_stream_absence, C1_sensor_identity_misrouting}
         then Some ''affected_offsets''
         else if fm_operator_id m = A2_frame_erasure then Some ''erased_offsets'' else None)
      in case schedule_key of
           None \<Rightarrow> Inr []
         | Some k \<Rightarrow> bindr (param_ints m k) (\<lambda>offsets.
             Inr (map (\<lambda>offset. fm_start_index m + offset) offsets)))"

definition require_rest_reference ::
    "hasher \<Rightarrow> fault_manifest \<Rightarrow> reference_bundle option \<Rightarrow> unit result" where
  "require_rest_reference h m rest =
     (if fm_operator_id m \<in> set REST_REFERENCE_OPERATOR_IDS then
        (case rest of
           None \<Rightarrow> Inl (ValueError ''this operator requires a frozen rest-reference bundle'')
         | Some b \<Rightarrow>
             bindr (ditem (fm_parameters m) ''rest_reference_sha256'') (\<lambda>v.
               if \<not> py_eq v (PStr (bundle_sha256 h b))
               then Inl (ValueError ''rest-reference bundle does not match the fault manifest'')
               else Inr ()))
      else Inr ())"

definition session_init ::
    "hasher \<Rightarrow> fault_manifest \<Rightarrow> reference_bundle option \<Rightarrow> session result" where
  "session_init h m rest =
     bindr (require_rest_reference h m rest) (\<lambda>_.
     bindr load_registry (\<lambda>reg.
     bindr (create reg (operator_name (fm_operator_id m))) (\<lambda>spec.
     bindr (if spec_family spec = Temporal then maximum_source_age m else Inr 0) (\<lambda>age.
     bindr (affected_indices m) (\<lambda>affected.
     Inr \<lparr>ss_manifest = m, ss_manifest_sha256 = manifest_sha256 h m,
          ss_manifest_dict = manifest_to_dict m, ss_rest_references = rest,
          ss_family = spec_family spec, ss_processed_count = 0, ss_histories = [],
          ss_source_records = [], ss_maximum_source_age = age,
          ss_affected_indices = affected\<rparr>)))))"

definition validate_rest_calibration :: "session \<Rightarrow> evaluation \<Rightarrow> unit result" where
  "validate_rest_calibration s clean =
     (if fm_operator_id (ss_manifest s) \<notin> set REST_REFERENCE_OPERATOR_IDS then Inr ()
      else case ss_rest_references s of
        None \<Rightarrow> Inr ()
      | Some b \<Rightarrow>
          foldr_res (\<lambda>_ slot.
            bindr (provenance_for clean slot) (\<lambda>p.
            bindr (calibration_of b slot) (\<lambda>c.
            if pv_calibration_sha256 p \<noteq> c
            then Inl (ValueError ''rest-reference calibration does not match the clean episode'')
            else Inr ()))) () (fm_sensor_slots (ss_manifest s)))"

definition lookup_source :: "session \<Rightarrow> int \<Rightarrow> evaluation result" where
  "lookup_source s source_index =
     (case map_of (ss_source_records s) source_index of
        Some r \<Rightarrow> Inr r
      | None \<Rightarrow> Inl (ValueError ''temporal source is outside the retained causal history''))"

definition trim_source_cache :: "session \<Rightarrow> int \<Rightarrow> session" where
  "trim_source_cache s current_index =
     (if ss_family s \<noteq> Temporal then s
      else let oldest_required = current_index - ss_maximum_source_age s
           in s\<lparr>ss_source_records := filter (\<lambda>(i, r). \<not> i < oldest_required) (ss_source_records s)\<rparr>)"

text \<open>The dispatch on the family, after the guards: histories and delivery.\<close>

definition deliver_family ::
    "hasher \<Rightarrow> numpy \<Rightarrow> session \<Rightarrow> evaluation \<Rightarrow> histories \<times> evaluation result" where
  "deliver_family h np s clean =
     (let m = ss_manifest s in
      case ss_family s of
        Availability \<Rightarrow> (ss_histories s, apply_availability h clean m (ss_affected_indices s))
      | Fidelity \<Rightarrow> apply_fidelity h np clean m (ss_rest_references s) (ss_histories s)
      | Temporal \<Rightarrow> (ss_histories s, apply_temporal h clean m (lookup_source s))
      | Context \<Rightarrow> (ss_histories s,
          apply_context h clean m (ss_rest_references s) (ss_affected_indices s)))"

definition deliver_one ::
    "hasher \<Rightarrow> numpy \<Rightarrow> session \<Rightarrow> evaluation \<Rightarrow> session \<times> evaluation result" where
  "deliver_one h np s clean =
     (let m = ss_manifest s; index = step_of clean in
      if manifest_sha256 h m \<noteq> ss_manifest_sha256 s
         \<or> \<not> py_eq (PDict (manifest_to_dict m)) (PDict (ss_manifest_dict s))
      then (s, Inl (ValueError ''fault manifest changed during streaming delivery''))
      else if index \<noteq> ss_processed_count s
      then (s, Inl (ValueError ''streaming records must start at zero and remain dense''))
      else case (if index = 0 then validate_rest_calibration s clean else Inr ()) of
        Inl e \<Rightarrow> (s, Inl e)
      | Inr _ \<Rightarrow>
          let s1 = (if ss_family s = Temporal
                    then s\<lparr>ss_source_records := dict_set index clean (ss_source_records s)\<rparr> else s);
              (histories, delivered) = deliver_family h np s1 clean;
              s2 = s1\<lparr>ss_histories := histories\<rparr>
          in case delivered of
               Inl e \<Rightarrow> (s2, Inl e)
             | Inr r \<Rightarrow>
                 (trim_source_cache (s2\<lparr>ss_processed_count := ss_processed_count s2 + 1\<rparr>) index,
                  Inr r))"

text \<open>A whole episode through one session, stopping at the first exception.\<close>

definition stream_step ::
    "hasher \<Rightarrow> numpy \<Rightarrow> session \<Rightarrow> evaluation \<Rightarrow> (session \<times> evaluation) result" where
  "stream_step h np s clean =
     (case deliver_one h np s clean of
        (s', Inr r) \<Rightarrow> Inr (s', r)
      | (s', Inl e) \<Rightarrow> Inl e)"

definition stream_all ::
    "hasher \<Rightarrow> numpy \<Rightarrow> session \<Rightarrow> evaluation list \<Rightarrow> evaluation list result" where
  "stream_all h np s clean = map_acc (stream_step h np) s clean"

end
