(* ===== verification/Replay.thy ===== *)
theory Replay
  imports Streaming Schedules
begin

text \<open>
  The streaming engine against the batch operators: over the dense records of an episode, one
  session delivers what the batch operator computes with the whole episode at hand, exceptions
  included, from a cache that never holds more than the registered source age.
\<close>

section \<open>One delivery of a live session\<close>

text \<open>The fields that no delivery changes, and the number of records delivered so far.\<close>

definition session_at ::
    "hasher \<Rightarrow> fault_manifest \<Rightarrow> reference_bundle option \<Rightarrow> int \<Rightarrow> int list \<Rightarrow> nat \<Rightarrow> session \<Rightarrow> bool" where
  "session_at h m rest age affected k s \<longleftrightarrow>
     ss_manifest s = m \<and> ss_manifest_sha256 s = manifest_sha256 h m \<and>
     ss_manifest_dict s = manifest_to_dict m \<and> ss_rest_references s = rest \<and>
     ss_family s = spec_family (spec_of (fm_operator_id m)) \<and>
     ss_maximum_source_age s = age \<and> ss_affected_indices s = affected \<and>
     ss_processed_count s = int k"

definition store_source :: "session \<Rightarrow> evaluation \<Rightarrow> session" where
  "store_source s clean =
     (if ss_family s = Temporal
      then s\<lparr>ss_source_records := dict_set (step_of clean) clean (ss_source_records s)\<rparr> else s)"

lemma registry_loaded:
  "load_registry = Inr (map (\<lambda>op. (operator_name op, spec_of op)) import_order)"
proof -
  have "foldr_res (\<lambda>reg op. register reg (operator_name op) (spec_of op)) [] import_order =
      Inr (map (\<lambda>op. (operator_name op, spec_of op)) import_order)"
    using register_all [of "[]" import_order] by (simp add: import_order_def)
  moreover have "set import_order = set CORE_OPERATOR_IDS"
    by (auto simp: import_order_def CORE_OPERATOR_IDS_def)
  then have "verify_core (map (\<lambda>op. (operator_name op, spec_of op)) import_order) = Inr ()"
    by (simp add: verify_core_def image_image)
  ultimately show ?thesis by (simp add: load_registry_def)
qed

lemma registry_create:
  "create (map (\<lambda>op. (operator_name op, spec_of op)) import_order) (operator_name op) =
   Inr (spec_of op)"
  by (cases op) (simp_all add: create_def import_order_def)

lemma session_init_Inr:
  assumes "session_init h m rest = Inr s"
  obtains age affected where "session_at h m rest age affected 0 s"
    "ss_histories s = []" "ss_source_records s = []"
    "require_rest_reference h m rest = Inr ()"
    "spec_family (spec_of (fm_operator_id m)) = Temporal \<Longrightarrow> maximum_source_age m = Inr age"
    "affected_indices m = Inr affected"
    "spec_family (spec_of (fm_operator_id m)) \<noteq> Temporal \<Longrightarrow> age = 0"
  using assms
  by (auto simp: session_init_def session_at_def registry_loaded registry_create result_simps
      split: if_splits)

lemma stream_step_live:
  assumes "session_at h m rest age affected k s" "step_of c = int k"
    and "k = 0 \<Longrightarrow> validate_rest_calibration s c = Inr ()"
  shows "stream_step h np s c =
    (case deliver_family h np (store_source s c) c of
       (hs, Inl e) \<Rightarrow> Inl e
     | (hs, Inr r) \<Rightarrow> Inr (trim_source_cache ((store_source s c)\<lparr>ss_histories := hs,
                            ss_processed_count := int k + 1\<rparr>) (int k), r))"
  using assms
  by (auto simp: stream_step_def deliver_one_def session_at_def Let_def store_source_def
      split: prod.splits sum.splits)

lemma session_at_trim:
  "session_at h m rest age affected k s \<Longrightarrow>
   session_at h m rest age affected (Suc k)
     (trim_source_cache ((store_source s c)\<lparr>ss_histories := hs, ss_processed_count := int k + 1\<rparr>) i)"
  by (auto simp: session_at_def trim_source_cache_def store_source_def Let_def)

section \<open>Operators without a state\<close>

text \<open>If every delivery is a function of the record, the session computes its map.\<close>

lemma stream_all_stateless:
  assumes "session_at h m rest age affected 0 s"
    and "\<And>i. i < length clean \<Longrightarrow> step_of (clean ! i) = int i"
    and "clean \<noteq> [] \<Longrightarrow> validate_rest_calibration s (hd clean) = Inr ()"
    and "\<And>k s. k < length clean \<Longrightarrow> session_at h m rest age affected k s \<Longrightarrow>
      deliver_family h np (store_source s (clean ! k)) (clean ! k) = (ss_histories s, f k)"
  shows "stream_all h np s clean = mapr f [0..<length clean]"
proof -
  have "map_acc (stream_step h np) s clean =
      map_acc (\<lambda>u k. bindr (f k) (\<lambda>r. Inr ((), r))) () [0..<length clean]"
  proof (rule map_acc_sim [where R = "\<lambda>k t u. session_at h m rest age affected k t \<and> (k = 0 \<longrightarrow> t = s)"])
    fix k t and u :: unit
    assume k: "k < length clean" and at: "session_at h m rest age affected k t \<and> (k = 0 \<longrightarrow> t = s)"
    have cal: "k = 0 \<Longrightarrow> validate_rest_calibration t (clean ! k) = Inr ()"
      using assms(3) at k by (cases clean) auto
    show "res_rel (\<lambda>(s', y) (t', z). y = z \<and>
          session_at h m rest age affected (Suc k) s' \<and> (Suc k = 0 \<longrightarrow> s' = s))
        (stream_step h np t (clean ! k)) (bindr (f ([0..<length clean] ! k)) (\<lambda>r. Inr ((), r)))"
      using stream_step_live [OF conjunct1 [OF at] assms(2) [OF k] cal, of np]
        assms(4) [OF k conjunct1 [OF at]] at k
      by (cases "f k") (auto intro: session_at_trim)
  qed (use assms(1) in auto)
  then show ?thesis by (simp add: stream_all_def map_acc_unit)
qed

lemma availability_stream:
  assumes "ss_family s = Availability" "ss_manifest s = m" "ss_affected_indices s = affected"
    "distinct (fm_sensor_slots m)"
  shows "deliver_family h np (store_source s c) c = (ss_histories s,
    if step_of c \<notin> set affected then Inr c
    else foldr_res (absence_slot h m c) c (fm_sensor_slots m))"
proof -
  have "foldr_res (\<lambda>out slot. absence_slot h m out out slot) c (fm_sensor_slots m) =
      foldr_res (absence_slot h m c) c (fm_sensor_slots m)"
    using assms(4)
    by (rule absence.fold_view_cong)
       (auto simp: absence_slot_def slot_view_def)
  with assms show ?thesis
    by (simp add: deliver_family_def store_source_def apply_availability_def)
qed

section \<open>Temporal operators and the source cache\<close>

lemma validate_source_ages_Inr:
  assumes "validate_source_ages (py_range start stop) sources = Inr age"
    "0 \<le> k" "k < stop - start"
  shows "py_index sources k = Inr (sources ! nat k)" "0 \<le> sources ! nat k"
    "sources ! nat k \<le> start + k" "start + k - age \<le> sources ! nat k"
proof -
  let ?ages = "map (\<lambda>(d, s). d - s) (zip (py_range start stop) sources)"
  have len: "length sources = nat (stop - start)"
    and nonneg: "\<forall>s\<in>set sources. 0 \<le> s" "\<forall>a\<in>set ?ages. 0 \<le> a"
    and age: "age = (if ?ages = [] then 0 else Max (set ?ages))"
    using assms(1) by (auto simp: validate_source_ages_def Let_def list_ex_iff not_less split: if_splits)
  have k: "nat k < length sources" using assms(2,3) len by auto
  then show "py_index sources k = Inr (sources ! nat k)" "0 \<le> sources ! nat k"
    using assms(2) nonneg(1) by (auto simp: py_index_nonneg)
  have mem: "start + k - sources ! nat k \<in> set ?ages"
  proof -
    have "?ages ! nat k = start + k - sources ! nat k"
      using k len assms(2,3) by (simp add: py_range_nth)
    moreover have "nat k < length ?ages" using k len by simp
    ultimately show ?thesis by (metis nth_mem)
  qed
  then show "sources ! nat k \<le> start + k" using nonneg(2) by auto
  have "?ages \<noteq> []" using mem by (metis empty_iff empty_set)
  then have "start + k - sources ! nat k \<le> age" unfolding age using mem by (simp add: Max_ge)
  then show "start + k - age \<le> sources ! nat k" by linarith
qed

text \<open>The cache holds the last \<open>age\<close> clean records before index \<open>k\<close>, and nothing older.\<close>

definition cache_ok :: "evaluation list \<Rightarrow> int \<Rightarrow> nat \<Rightarrow> session \<Rightarrow> bool" where
  "cache_ok clean age k s \<longleftrightarrow>
     distinct (map fst (ss_source_records s)) \<and>
     (\<forall>i r. (i, r) \<in> set (ss_source_records s) \<longrightarrow>
        int k - 1 - age \<le> i \<and> 0 \<le> i \<and> i < int k \<and> r = clean ! nat i) \<and>
     (\<forall>i. int k - age \<le> int i \<and> i < k \<longrightarrow> map_of (ss_source_records s) (int i) = Some (clean ! i))"

lemma map_of_filter_keys:
  "map_of (filter (\<lambda>(k, v). P k) xs) k = (if P k then map_of xs k else None)"
  by (induction xs) auto

lemma set_dict_set:
  "distinct (map fst d) \<Longrightarrow> set (dict_set k v d) = insert (k, v) {p \<in> set d. fst p \<noteq> k}"
proof (induction d)
  case (Cons p d)
  then show ?case by (cases p) force
qed simp

lemma distinct_filter_keys: "distinct (map fst xs) \<Longrightarrow> distinct (map fst (filter P xs))"
  by (simp add: distinct_map_filter)

lemma cache_ok_step:
  assumes "cache_ok clean age k s" "ss_family s = Temporal" "ss_maximum_source_age s = age"
    "0 \<le> age" "step_of c = int k" "c = clean ! k"
  shows "cache_ok clean age (Suc k)
     (trim_source_cache ((store_source s c)\<lparr>ss_histories := hs, ss_processed_count := n\<rparr>) (int k))"
proof -
  let ?d = "dict_set (int k) c (ss_source_records s)"
  let ?t = "trim_source_cache ((store_source s c)\<lparr>ss_histories := hs, ss_processed_count := n\<rparr>) (int k)"
  have src: "ss_source_records ?t = filter (\<lambda>(i, r). \<not> i < int k - age) ?d"
    using assms(2,3,5) by (simp add: trim_source_cache_def store_source_def Let_def)
  have dist: "distinct (map fst (ss_source_records s))" using assms(1) by (simp add: cache_ok_def)
  have d: "set ?d = insert (int k, c) {p \<in> set (ss_source_records s). fst p \<noteq> int k}"
    by (rule set_dict_set [OF dist])
  show ?thesis unfolding cache_ok_def src
  proof (intro conjI allI impI)
    show "distinct (map fst (filter (\<lambda>(i, r). \<not> i < int k - age) ?d))"
      by (intro distinct_filter_keys distinct_dict_set dist)
  next
    fix i r assume m: "(i, r) \<in> set (filter (\<lambda>(i, r). \<not> i < int k - age) ?d)"
    then have lo: "int k - age \<le> i" by auto
    from m d have "(i = int k \<and> r = c) \<or> ((i, r) \<in> set (ss_source_records s) \<and> i \<noteq> int k)" by auto
    then have "0 \<le> i \<and> i \<le> int k \<and> r = clean ! nat i"
      using assms(1,6) by (fastforce simp: cache_ok_def)
    with lo show "int (Suc k) - 1 - age \<le> i" "0 \<le> i" "i < int (Suc k)" "r = clean ! nat i"
      by auto
  next
    fix i assume i: "int (Suc k) - age \<le> int i \<and> i < Suc k"
    show "map_of (filter (\<lambda>(i, r). \<not> i < int k - age) ?d) (int i) = Some (clean ! i)"
    proof (cases "i = k")
      case True
      with i assms(4,6) show ?thesis by (simp add: map_of_filter_keys [of "\<lambda>i. \<not> i < int k - age"])
    next
      case False
      with i have "i < k" "int k - age \<le> int i" by auto
      with False assms(1) show ?thesis
        by (simp add: map_of_filter_keys [of "\<lambda>i. \<not> i < int k - age"] cache_ok_def)
    qed
  qed
qed

lemma cache_ok_size:
  assumes "cache_ok clean age k s" "0 \<le> age"
  shows "int (length (ss_source_records s)) \<le> age + 1"
proof -
  have sub: "fst ` set (ss_source_records s) \<subseteq> {int k - 1 - age..int k - 1}"
    using assms(1) by (fastforce simp: cache_ok_def)
  have "length (ss_source_records s) = card (fst ` set (ss_source_records s))"
    using assms(1) by (metis cache_ok_def distinct_card length_map list.set_map)
  also have "\<dots> \<le> card {int k - 1 - age..int k - 1}" by (intro card_mono sub) simp
  finally show ?thesis using assms(2) by simp
qed

lemma cache_lookup:
  assumes "cache_ok clean age k s" "ss_family s = Temporal" "step_of (clean ! k) = int k" "0 \<le> age"
    "0 \<le> src" "src \<le> int k" "int k - age \<le> src"
  shows "lookup_source (store_source s (clean ! k)) src = Inr (clean ! nat src)"
proof (cases "src = int k")
  case True
  with assms(2,3) show ?thesis by (simp add: lookup_source_def store_source_def)
next
  case False
  with assms(5,6) obtain j where j: "src = int j" "j < k" by (metis nat_eq_iff2 of_nat_less_iff order_le_less)
  with assms(1,7) have "map_of (ss_source_records s) (int j) = Some (clean ! j)"
    by (simp add: cache_ok_def)
  with j False assms(2,3) show ?thesis by (simp add: lookup_source_def store_source_def)
qed

text \<open>If every lookup of a delivery is inside the cache, the session computes the map of the
  deliveries with the clean episode in the place of the cache.\<close>

lemma stream_all_temporal:
  assumes "session_at h m rest age affected 0 s" "ss_source_records s = []" "0 \<le> age"
    and fam: "spec_family (spec_of (fm_operator_id m)) = Temporal"
    and dense: "\<And>i. i < length clean \<Longrightarrow> step_of (clean ! i) = int i"
    and op: "fm_operator_id m \<notin> set REST_REFERENCE_OPERATOR_IDS"
    and step: "\<And>k lookup. k < length clean \<Longrightarrow>
      (\<And>src. 0 \<le> src \<Longrightarrow> src \<le> int k \<Longrightarrow> int k - age \<le> src \<Longrightarrow> lookup src = Inr (clean ! nat src)) \<Longrightarrow>
      apply_temporal h (clean ! k) m lookup = f k"
  shows "stream_all h np s clean = mapr f [0..<length clean]"
proof -
  have "map_acc (stream_step h np) s clean =
      map_acc (\<lambda>u k. bindr (f k) (\<lambda>r. Inr ((), r))) () [0..<length clean]"
  proof (rule map_acc_sim [where R = "\<lambda>k t u. session_at h m rest age affected k t \<and> cache_ok clean age k t"])
    fix k t and u :: unit
    assume k: "k < length clean"
      and inv: "session_at h m rest age affected k t \<and> cache_ok clean age k t"
    have t: "ss_family t = Temporal" "ss_manifest t = m" "ss_maximum_source_age t = age"
      using inv fam by (auto simp: session_at_def)
    have cal: "validate_rest_calibration t (clean ! k) = Inr ()"
      using op t by (simp add: validate_rest_calibration_def)
    have "deliver_family h np (store_source t (clean ! k)) (clean ! k) = (ss_histories t, f k)"
      using t step [OF k cache_lookup [OF conjunct2 [OF inv] t(1) dense [OF k] assms(3)]]
      by (simp add: deliver_family_def store_source_def)
    then show "res_rel (\<lambda>(s', y) (t', z). y = z \<and>
          session_at h m rest age affected (Suc k) s' \<and> cache_ok clean age (Suc k) s')
        (stream_step h np t (clean ! k)) (bindr (f ([0..<length clean] ! k)) (\<lambda>r. Inr ((), r)))"
      using stream_step_live [OF conjunct1 [OF inv] dense [OF k] cal, of np] inv k t
        cache_ok_step [OF conjunct2 [OF inv] t(1,3) assms(3) dense [OF k] refl]
      by (cases "f k") (auto intro: session_at_trim)
  qed (use assms(1,2) in \<open>auto simp: cache_ok_def\<close>)
  then show ?thesis by (simp add: stream_all_def map_acc_unit)
qed

section \<open>The episodes and sessions that are compared\<close>

definition dense_episode :: "evaluation list \<Rightarrow> bool" where
  "dense_episode clean \<longleftrightarrow> (\<forall>i < length clean. step_of (clean ! i) = int i)"

definition replay_setup ::
    "hasher \<Rightarrow> fault_manifest \<Rightarrow> reference_bundle option \<Rightarrow> session \<Rightarrow> evaluation list \<Rightarrow> bool" where
  "replay_setup h m rest s clean \<longleftrightarrow>
     manifest_ok h m \<and> session_init h m rest = Inr s \<and> (\<forall>b. rest = Some b \<longrightarrow> bundle_ok b) \<and>
     dense_episode clean \<and>
     (case clean of [] \<Rightarrow> True | c # _ \<Rightarrow> validate_rest_calibration s c = Inr ())"

lemma replay_setupD:
  assumes "replay_setup h m rest s clean"
  shows "manifest_ok h m" "session_init h m rest = Inr s" "\<And>b. rest = Some b \<Longrightarrow> bundle_ok b"
    "\<And>i. i < length clean \<Longrightarrow> step_of (clean ! i) = int i"
    "clean \<noteq> [] \<Longrightarrow> validate_rest_calibration s (hd clean) = Inr ()"
  using assms by (auto simp: replay_setup_def dense_episode_def split: list.splits)

section \<open>Availability and context\<close>

lemma A1_stream:
  assumes input: "replay_setup h m rest s clean" and op: "fm_operator_id m = A1_stream_absence"
  shows "stream_all h np s clean = A1_apply h clean m"
proof -
  note d = replay_setupD [OF input]
  obtain age affected where at: "session_at h m rest age affected 0 s"
    and aff: "affected_indices m = Inr affected"
    using session_init_Inr [OF d(2)] by metis
  have "A1_apply h clean m = absence h clean m affected"
    using aff op by (auto simp: affected_indices_def A1_apply_def result_simps)
  then show ?thesis
    unfolding absence_def each_record_map
    using availability_stream d(4) op manifest_ok_window(6) [OF d(1)]
    by (auto simp: session_at_def intro!: stream_all_stateless [OF at d(4,5)])
qed

lemma A2_stream:
  assumes input: "replay_setup h m rest s clean" and op: "fm_operator_id m = A2_frame_erasure"
  shows "stream_all h np s clean = A2_apply h clean m"
proof -
  note d = replay_setupD [OF input]
  obtain age affected where at: "session_at h m rest age affected 0 s"
    and aff: "affected_indices m = Inr affected"
    using session_init_Inr [OF d(2)] by metis
  have "A2_apply h clean m = absence h clean m affected"
    using aff op by (auto simp: affected_indices_def A2_apply_def result_simps)
  then show ?thesis
    unfolding absence_def each_record_map
    using availability_stream d(4) op manifest_ok_window(6) [OF d(1)]
    by (auto simp: session_at_def intro!: stream_all_stateless [OF at d(4,5)])
qed

lemma C1_stream:
  assumes input: "replay_setup h m rest s clean"
    and op: "fm_operator_id m = C1_sensor_identity_misrouting"
  shows "stream_all h np s clean = C1_apply h clean m"
proof -
  note d = replay_setupD [OF input]
  obtain age affected where at: "session_at h m rest age affected 0 s"
    and aff: "affected_indices m = Inr affected"
    using session_init_Inr [OF d(2)] by metis
  have slots: "set (fm_sensor_slots m) = set SENSOR_SLOTS"
    by (rule manifest_ok_window(8) [OF d(1) op])
  obtain v where v: "ditem (fm_parameters m) ''route_map'' = Inr v"
    using C1_offsets [OF d(1) op] by metis
  have "C1_apply h clean m = each_record (\<lambda>index record out.
      if index \<notin> set affected then Inr out
      else foldr_res (c1_slot h m record) out SENSOR_SLOTS) clean"
    using aff op slots v
    by (auto simp: affected_indices_def C1_apply_def result_simps)
  then show ?thesis
    unfolding each_record_map
    using d(4) op slots v
    by (auto simp: session_at_def deliver_family_def store_source_def apply_context_def
        stream_c1_def intro!: stream_all_stateless [OF at d(4,5)])
qed

lemma C2_stream:
  assumes input: "replay_setup h m rest s clean"
    and op: "fm_operator_id m = C2_frame_misregistration"
  shows "stream_all h np s clean = C2_apply h clean m rest"
proof -
  note d = replay_setupD [OF input]
  obtain age affected where at: "session_at h m rest age affected 0 s"
    using session_init_Inr [OF d(2)] by metis
  obtain k where k: "c2_shift m = Inr (k, 0)" using C2_shift [OF d(1) op] .
  show ?thesis
    unfolding C2_apply_def k bindr_simps prod.case each_record_map
    using d(4) op k
    by (auto simp: session_at_def deliver_family_def store_source_def apply_context_def
        stream_c2_def intro!: stream_all_stateless [OF at d(4,5)])
qed

section \<open>Temporal routing\<close>

lemma py_index_clean: "0 \<le> i \<Longrightarrow> i \<le> int k \<Longrightarrow> k < length xs \<Longrightarrow> py_index xs i = Inr (xs ! nat i)"
  by (simp add: py_index_nonneg)

lemma temporal_session:
  assumes "replay_setup h m rest s clean"
    "fm_operator_id m \<in> {T1_fixed_source_delay, T2_held_last_freeze, T3_inter_sensor_skew}"
  obtains age affected where "session_at h m rest age affected 0 s" "ss_source_records s = []"
    "maximum_source_age m = Inr age" "spec_family (spec_of (fm_operator_id m)) = Temporal"
    "fm_operator_id m \<notin> set REST_REFERENCE_OPERATOR_IDS"
proof -
  have fam: "spec_family (spec_of (fm_operator_id m)) = Temporal"
    and op: "fm_operator_id m \<notin> set REST_REFERENCE_OPERATOR_IDS"
    using assms(2) by (auto simp: REST_REFERENCE_OPERATOR_IDS_def)
  show thesis
    using session_init_Inr [OF replay_setupD(2) [OF assms(1)]] that fam op by metis
qed

lemma T12_ages:
  assumes "maximum_source_age m = Inr age"
    "fm_operator_id m \<in> {T1_fixed_source_delay, T2_held_last_freeze}"
  obtains sm where "param_ints m ''source_index_map'' = Inr sm"
    "validate_source_ages (py_range (fm_start_index m) (fm_stop_index m)) sm = Inr age"
  using assms by (auto simp: maximum_source_age_def Let_def result_simps)

lemma T1_stream:
  assumes input: "replay_setup h m rest s clean" and op: "fm_operator_id m = T1_fixed_source_delay"
  shows "stream_all h np s clean = T1_apply h clean m"
proof -
  note d = replay_setupD [OF input]
  note win = manifest_ok_window [OF d(1)]
  obtain age affected where at: "session_at h m rest age affected 0 s" "ss_source_records s = []"
    and age: "maximum_source_age m = Inr age"
    and fam: "spec_family (spec_of (fm_operator_id m)) = Temporal"
      "fm_operator_id m \<notin> set REST_REFERENCE_OPERATOR_IDS"
    using temporal_session [OF input] op by auto
  obtain sm where sm: "param_ints m ''source_index_map'' = Inr sm"
    and ages: "validate_source_ages (py_range (fm_start_index m) (fm_stop_index m)) sm = Inr age"
    using T12_ages [OF age] op by auto
  note src = validate_source_ages_Inr [OF ages]
  have "0 \<le> age" using src(3,4) [of 0] win(2) by simp
  show ?thesis
    unfolding T1_apply_def sm bindr_simps window_records_each [OF win(1)] each_record_map
  proof (rule stream_all_temporal [OF at \<open>0 \<le> age\<close> fam(1) d(4) fam(2)])
    fix k and lookup :: "int \<Rightarrow> evaluation result"
    assume k: "k < length clean" and look: "\<And>src. 0 \<le> src \<Longrightarrow> src \<le> int k \<Longrightarrow> int k - age \<le> src \<Longrightarrow>
        lookup src = Inr (clean ! nat src)"
    show "apply_temporal h (clean ! k) m lookup =
        (if fm_start_index m \<le> int k \<and> int k < fm_stop_index m
         then bindr (py_index sm (int k - fm_start_index m)) (\<lambda>source_index.
              foldr_res (\<lambda>acc slot. bindr (py_index clean source_index)
                  (\<lambda>source. route_source h m source acc slot)) (clean ! k) (fm_sensor_slots m))
         else Inr (clean ! k))"
      using src [of "int k - fm_start_index m"] look [of "sm ! nat (int k - fm_start_index m)"]
        k d(4) [OF k] op sm py_index_clean [of _ k clean]
      by (auto simp: apply_temporal_def manifest_active_def Let_def)
  qed
qed

lemma T2_stream:
  assumes input: "replay_setup h m rest s clean" and op: "fm_operator_id m = T2_held_last_freeze"
  shows "stream_all h np s clean = T2_apply h clean m"
proof -
  note d = replay_setupD [OF input]
  note win = manifest_ok_window [OF d(1)]
  obtain age affected where at: "session_at h m rest age affected 0 s" "ss_source_records s = []"
    and age: "maximum_source_age m = Inr age"
    and fam: "spec_family (spec_of (fm_operator_id m)) = Temporal"
      "fm_operator_id m \<notin> set REST_REFERENCE_OPERATOR_IDS"
    using temporal_session [OF input] op by auto
  obtain sm where sm: "param_ints m ''source_index_map'' = Inr sm"
    and ages: "validate_source_ages (py_range (fm_start_index m) (fm_stop_index m)) sm = Inr age"
    using T12_ages [OF age] op by auto
  note src = validate_source_ages_Inr [OF ages]
  have "0 \<le> age" using src(3,4) [of 0] win(2) by simp
  show ?thesis
    unfolding T2_apply_def sm bindr_simps window_records_each [OF win(1)] each_record_map
  proof (rule stream_all_temporal [OF at \<open>0 \<le> age\<close> fam(1) d(4) fam(2)])
    fix k and lookup :: "int \<Rightarrow> evaluation result"
    assume k: "k < length clean" and look: "\<And>src. 0 \<le> src \<Longrightarrow> src \<le> int k \<Longrightarrow> int k - age \<le> src \<Longrightarrow>
        lookup src = Inr (clean ! nat src)"
    show "apply_temporal h (clean ! k) m lookup =
        (if fm_start_index m \<le> int k \<and> int k < fm_stop_index m
         then bindr (py_index sm (int k - fm_start_index m)) (\<lambda>source_index.
              if source_index = int k then Inr (clean ! k)
              else foldr_res (\<lambda>acc slot. bindr (py_index clean source_index)
                  (\<lambda>source. route_source h m source acc slot)) (clean ! k) (fm_sensor_slots m))
         else Inr (clean ! k))"
      using src [of "int k - fm_start_index m"] look [of "sm ! nat (int k - fm_start_index m)"]
        k d(4) [OF k] op sm py_index_clean [of _ k clean]
      by (auto simp: apply_temporal_def manifest_active_def Let_def)
  qed
qed

lemma T3_ages:
  assumes "foldr_res (\<lambda>maximum slot. bindr (f slot) (\<lambda>sources.
      bindr (validate_source_ages d sources) (\<lambda>age. Inr (max maximum age)))) a slots = Inr (age::int)"
  shows "a \<le> age" "slot \<in> set slots \<Longrightarrow> \<exists>sources b. f slot = Inr sources \<and>
      validate_source_ages d sources = Inr b \<and> b \<le> age"
proof -
  have "a \<le> age \<and> (\<forall>slot\<in>set slots. \<exists>sources b. f slot = Inr sources \<and>
      validate_source_ages d sources = Inr b \<and> b \<le> age)"
    using assms
  proof (induction slots arbitrary: a)
    case (Cons s slots)
    then obtain sources b where "f s = Inr sources" "validate_source_ages d sources = Inr b"
      and "foldr_res (\<lambda>maximum slot. bindr (f slot) (\<lambda>sources.
        bindr (validate_source_ages d sources) (\<lambda>age. Inr (max maximum age)))) (max a b) slots = Inr age"
      by (auto simp: result_simps)
    with Cons.IH [of "max a b"] show ?case by auto
  qed simp
  then show "a \<le> age" "slot \<in> set slots \<Longrightarrow> \<exists>sources b. f slot = Inr sources \<and>
      validate_source_ages d sources = Inr b \<and> b \<le> age" by auto
qed

lemma T3_stream:
  assumes input: "replay_setup h m rest s clean" and op: "fm_operator_id m = T3_inter_sensor_skew"
  shows "stream_all h np s clean = T3_apply h clean m"
proof -
  note d = replay_setupD [OF input]
  note win = manifest_ok_window [OF d(1)]
  obtain age affected where at: "session_at h m rest age affected 0 s" "ss_source_records s = []"
    and age: "maximum_source_age m = Inr age"
    and fam: "spec_family (spec_of (fm_operator_id m)) = Temporal"
      "fm_operator_id m \<notin> set REST_REFERENCE_OPERATOR_IDS"
    using temporal_session [OF input] op by auto
  obtain skew v where v: "ditem (fm_parameters m) ''source_index_map'' = Inr v"
    and item: "\<And>slot. slot \<in> set (fm_sensor_slots m) \<Longrightarrow> param_item m ''source_index_map'' slot =
        Inr (ints (t3_slot_map (fm_start_index m) (fm_stop_index m) skew
                     (slot = last (fm_sensor_slots m))))"
    using T3_map [OF d(1) op] by metis
  let ?sm = "\<lambda>slot. t3_slot_map (fm_start_index m) (fm_stop_index m) skew
                     (slot = last (fm_sensor_slots m))"
  let ?w = "py_range (fm_start_index m) (fm_stop_index m)"
  from age op have f: "foldr_res (\<lambda>maximum slot.
      bindr (bindr (param_item m ''source_index_map'' slot) value_ints) (\<lambda>sources.
      bindr (validate_source_ages ?w sources) (\<lambda>age. Inr (max maximum age))))
      0 (fm_sensor_slots m) = Inr age"
    by (simp add: maximum_source_age_def Let_def)
  have "0 \<le> age" by (rule T3_ages(1) [OF f])
  have src: "t3_source_index m slot o' = Inr (?sm slot ! nat o')"
      "0 \<le> ?sm slot ! nat o'" "?sm slot ! nat o' \<le> fm_start_index m + o'"
      "fm_start_index m + o' - age \<le> ?sm slot ! nat o'"
    if "slot \<in> set (fm_sensor_slots m)" "0 \<le> o'" "o' < fm_stop_index m - fm_start_index m"
    for slot o'
  proof -
    note slot = that(1)
    obtain b where b: "validate_source_ages ?w (?sm slot) = Inr b" "b \<le> age"
      using T3_ages(2) [OF f slot] item [OF slot] by auto
    note s = validate_source_ages_Inr [OF b(1) that(2,3)]
    from s(1) have "py_index (map PInt (?sm slot)) o' = Inr (PInt (?sm slot ! nat o'))"
      by (auto simp: py_index_def Let_def split: if_splits)
    with item [OF that(1)] show "t3_source_index m slot o' = Inr (?sm slot ! nat o')"
      by (simp add: t3_source_index_def ints_def)
    from s(2-4) b(2) show "0 \<le> ?sm slot ! nat o'" "?sm slot ! nat o' \<le> fm_start_index m + o'"
      "fm_start_index m + o' - age \<le> ?sm slot ! nat o'" by linarith+
  qed
  show ?thesis
    unfolding T3_apply_def v bindr_simps window_records_each [OF win(1)] each_record_map
  proof (rule stream_all_temporal [OF at \<open>0 \<le> age\<close> fam(1) d(4) fam(2)])
    fix k and lookup :: "int \<Rightarrow> evaluation result"
    assume k: "k < length clean" and look: "\<And>src. 0 \<le> src \<Longrightarrow> src \<le> int k \<Longrightarrow> int k - age \<le> src \<Longrightarrow>
        lookup src = Inr (clean ! nat src)"
    let ?o = "int k - fm_start_index m"
    have "foldr_res (\<lambda>acc slot. bindr (t3_source_index m slot ?o) (\<lambda>source_index.
              bindr (lookup source_index) (\<lambda>source. route_source h m source acc slot)))
            (clean ! k) (fm_sensor_slots m) =
          foldr_res (\<lambda>acc slot. bindr (t3_source_index m slot ?o) (\<lambda>source_index.
              bindr (py_index clean source_index) (\<lambda>source. route_source h m source acc slot)))
            (clean ! k) (fm_sensor_slots m)"
      if "0 \<le> ?o" "?o < fm_stop_index m - fm_start_index m"
    proof (rule foldr_res_cong)
      fix u slot assume slot: "slot \<in> set (fm_sensor_slots m)"
      let ?q = "?sm slot ! nat ?o"
      have "0 \<le> ?q" "?q \<le> int k" "int k - age \<le> ?q" using src(2-4) [OF slot that] by auto
      then have "lookup ?q = Inr (clean ! nat ?q)" "py_index clean ?q = Inr (clean ! nat ?q)"
        using look k by (auto simp: py_index_clean)
      then show "bindr (t3_source_index m slot ?o) (\<lambda>source_index.
            bindr (lookup source_index) (\<lambda>source. route_source h m source u slot)) =
          bindr (t3_source_index m slot ?o) (\<lambda>source_index.
            bindr (py_index clean source_index) (\<lambda>source. route_source h m source u slot))"
        by (simp add: src(1) [OF slot that])
    qed simp_all
    then show "apply_temporal h (clean ! k) m lookup =
        (if fm_start_index m \<le> int k \<and> int k < fm_stop_index m
         then foldr_res (\<lambda>acc slot. bindr (t3_source_index m slot ?o) (\<lambda>source_index.
                bindr (py_index clean source_index) (\<lambda>source. route_source h m source acc slot)))
                (clean ! k) (fm_sensor_slots m)
         else Inr (clean ! k))"
      using d(4) [OF k] op v by (auto simp: apply_temporal_def manifest_active_def Let_def)
  qed
qed

end
