(* ===== verification/Replay_Fidelity.thy ===== *)
theory Replay_Fidelity
  imports Replay
begin

text \<open>
  The fidelity operators in the streaming engine: the stateless ones read their parameters for
  every record instead of once, and F6 starts a missing history from zeros where the batch
  operator fills it in advance.  With the other families this gives the equivalence of the two
  engines for all fourteen operators.
\<close>

section \<open>The stateless fidelity operators\<close>

definition stateless_fidelity :: "operator_id list" where
  "stateless_fidelity =
     [F1_global_response_drift, F2_spatial_sensitivity_loss, F3_persistent_surface_artifact,
      F4_local_nonresponsive_patch, F5_contact_shape_distortion, F7_high_load_saturation]"

lemma active_records_stream:
  assumes input: "replay_setup h m rest s clean" and op: "fm_operator_id m \<in> set stateless_fidelity"
    and tr: "transform_current h np m rest = tr"
    and pred: "(if fm_operator_id m \<in> {F5_contact_shape_distortion, F7_high_load_saturation}
                then contact_active m else always_active) = pred"
  shows "stream_all h np s clean = active_records h clean m tr pred"
proof -
  note d = replay_setupD [OF input]
  obtain age affected where at: "session_at h m rest age affected 0 s"
    using session_init_Inr [OF d(2)] by metis
  have fam: "spec_family (spec_of (fm_operator_id m)) = Fidelity"
    and f6: "fm_operator_id m \<noteq> F6_history_residual_imprint"
    using op by (auto simp: stateless_fidelity_def)
  have "deliver_family h np (store_source t (clean ! k)) (clean ! k) = (ss_histories t,
      if \<not> manifest_active m (int k) then Inr (clean ! k)
      else foldr_res (fidelity_slot h m tr pred (int k)) (clean ! k) (fm_sensor_slots m))"
    if "k < length clean" "session_at h m rest age affected k t" for k t
    using that fam f6 d(4) [OF that(1)]
    unfolding pred [symmetric]
    by (simp add: session_at_def deliver_family_def store_source_def apply_fidelity_def tr)
  then show ?thesis
    unfolding active_records_def each_record_map
    by (intro stream_all_stateless [OF at d(4,5)])
qed

lemma transform_current_simps:
  "fm_operator_id m = F1_global_response_drift \<Longrightarrow> param_float m ''target_gain'' = Inr d \<Longrightarrow>
     transform_current h np m rest = F1_transform np m d"
  "fm_operator_id m = F2_spatial_sensitivity_loss \<Longrightarrow> param_float m ''retained_gain'' = Inr a \<Longrightarrow>
     param_center m = Inr (cx, cy) \<Longrightarrow> param_float m ''sigma_fraction'' = Inr sf \<Longrightarrow>
     param_float m ''minimum_sigma_px'' = Inr ms \<Longrightarrow>
     transform_current h np m rest = F2_transform h np m rest a cx cy sf ms"
  "fm_operator_id m = F3_persistent_surface_artifact \<Longrightarrow> param_float m ''scar_slope'' = Inr a \<Longrightarrow>
     param_float m ''scar_intercept_fraction'' = Inr b \<Longrightarrow>
     param_float m ''scar_half_width_px'' = Inr c \<Longrightarrow> param_floats m ''rgb_delta'' = Inr ds \<Longrightarrow>
     transform_current h np m rest = F3_transform np a b c (np_asarray np ds ''float32'')"
  "fm_operator_id m = F4_local_nonresponsive_patch \<Longrightarrow> param_center m = Inr (cx, cy) \<Longrightarrow>
     param_float m ''radius_fraction'' = Inr a \<Longrightarrow> param_int m ''minimum_radius_px'' = Inr i \<Longrightarrow>
     transform_current h np m rest = F4_transform h np m rest cx cy a i"
  "fm_operator_id m = F5_contact_shape_distortion \<Longrightarrow> param_float m ''displacement_px'' = Inr a \<Longrightarrow>
     param_floats m ''center_xy'' = Inr cs \<Longrightarrow> param_float m ''support_radius_fraction'' = Inr b \<Longrightarrow>
     transform_current h np m rest = F5_transform np cs b a"
  "fm_operator_id m = F7_high_load_saturation \<Longrightarrow> param_float m ''response_knee'' = Inr a \<Longrightarrow>
     param_float m ''plateau_width_ratio'' = Inr b \<Longrightarrow>
     param_float m ''anchor_radius_fraction'' = Inr c \<Longrightarrow>
     param_int m ''minimum_anchor_radius_px'' = Inr i \<Longrightarrow>
     transform_current h np m rest = F7_transform np a b c i"
  by (intro ext, auto simp: transform_current_def F2_transform_def F4_transform_def bindr_def
      split: sum.splits)+

lemma contact_active_phases:
  "activation_phases m = Inr ps \<Longrightarrow> contact_active m = phase_active ps"
  by (intro ext) (simp add: contact_active_def)

text \<open>The batch operators, with their parameters read per record.\<close>

definition stateless_predicate :: "fault_manifest \<Rightarrow> string \<Rightarrow> evaluation \<Rightarrow> bool result" where
  "stateless_predicate m =
     (if fm_operator_id m \<in> {F5_contact_shape_distortion, F7_high_load_saturation}
      then contact_active m else always_active)"

lemma stateless_batch:
  assumes "manifest_ok h m" "fm_operator_id m \<in> set stateless_fidelity"
  shows "apply_operator h np (fm_operator_id m) clean m rest =
    active_records h clean m (transform_current h np m rest) (stateless_predicate m)"
proof -
  from assms(2) consider
      (F1) "fm_operator_id m = F1_global_response_drift"
    | (F2) "fm_operator_id m = F2_spatial_sensitivity_loss"
    | (F3) "fm_operator_id m = F3_persistent_surface_artifact"
    | (F4) "fm_operator_id m = F4_local_nonresponsive_patch"
    | (F5) "fm_operator_id m = F5_contact_shape_distortion"
    | (F7) "fm_operator_id m = F7_high_load_saturation"
    by (auto simp: stateless_fidelity_def)
  then show ?thesis
  proof cases
    case F1
    obtain d where "param_float m ''target_gain'' = Inr d" using F1_params [OF assms(1) F1] .
    then show ?thesis using F1
      by (simp add: F1_apply_def stateless_predicate_def transform_current_simps(1))
  next
    case F2
    obtain a cx cy sf ms where "param_float m ''retained_gain'' = Inr a"
      "param_center m = Inr (cx, cy)" "param_float m ''sigma_fraction'' = Inr sf"
      "param_float m ''minimum_sigma_px'' = Inr ms"
      using F2_params [OF assms(1) F2] by (metis prod.exhaust_sel)
    then show ?thesis using F2
      by (simp add: F2_apply_def stateless_predicate_def transform_current_simps(2))
  next
    case F3
    obtain a b c ds where "param_float m ''scar_slope'' = Inr a"
      "param_float m ''scar_intercept_fraction'' = Inr b"
      "param_float m ''scar_half_width_px'' = Inr c" "param_floats m ''rgb_delta'' = Inr ds"
      using F3_params [OF assms(1) F3] .
    then show ?thesis using F3
      by (simp add: F3_apply_def stateless_predicate_def transform_current_simps(3))
  next
    case F4
    obtain a cx cy i where "param_center m = Inr (cx, cy)"
      "param_float m ''radius_fraction'' = Inr a" "param_int m ''minimum_radius_px'' = Inr i"
      using F4_params [OF assms(1) F4] by (metis prod.exhaust_sel)
    then show ?thesis using F4
      by (simp add: F4_apply_def stateless_predicate_def transform_current_simps(4))
  next
    case F5
    obtain a x y b where "param_float m ''displacement_px'' = Inr a"
      "param_floats m ''center_xy'' = Inr [x, y]" "param_float m ''support_radius_fraction'' = Inr b"
      "activation_phases m = Inr [ONSET, SUSTAINED]"
      using F5_params [OF assms(1) F5] .
    then show ?thesis using F5
      by (simp add: F5_apply_def stateless_predicate_def transform_current_simps(5) contact_active_phases)
  next
    case F7
    obtain a b c k where "param_float m ''response_knee'' = Inr a"
      "param_float m ''plateau_width_ratio'' = Inr b"
      "param_float m ''anchor_radius_fraction'' = Inr c"
      "param_int m ''minimum_anchor_radius_px'' = Inr k"
      "activation_phases m = Inr [ONSET, SUSTAINED]"
      using F7_params [OF assms(1) F7] .
    then show ?thesis using F7
      by (simp add: F7_apply_def stateless_predicate_def transform_current_simps(6) contact_active_phases)
  qed
qed

lemma stateless_stream:
  assumes "replay_setup h m rest s clean" "fm_operator_id m \<in> set stateless_fidelity"
  shows "stream_all h np s clean = apply_operator h np (fm_operator_id m) clean m rest"
  unfolding stateless_batch [OF replay_setupD(1) [OF assms(1)] assms(2)]
  by (rule active_records_stream [OF assms]) (simp_all add: stateless_predicate_def)

section \<open>F6 and its histories\<close>

text \<open>The batch histories are the streaming ones with zeros where an entry is missing.\<close>

definition histories_rel ::
    "hasher \<Rightarrow> numpy \<Rightarrow> fault_manifest \<Rightarrow> reference_bundle option \<Rightarrow> histories \<Rightarrow> histories \<Rightarrow> bool" where
  "histories_rel h np m rest hb hs \<longleftrightarrow>
     (\<forall>slot\<in>set (fm_sensor_slots m). \<exists>raw. baseline_for h slot m rest = Inr raw \<and>
        map_of hb slot = Some (case map_of hs slot of
          None \<Rightarrow> np_zeros_like np (normalize np raw) | Some a \<Rightarrow> a))"

lemma f6_slot_sim:
  assumes "histories_rel h np m rest hb hs" "slot \<in> set (fm_sensor_slots m)"
    and "index = step_of record"
  shows "case stream_f6_slot h np m rest mix beta record (hs, out) slot of
     (hs', Inl e) \<Rightarrow> f6_slot h np m rest mix beta index record (hb, out) slot = Inl e
   | (hs', Inr out') \<Rightarrow> \<exists>hb'. f6_slot h np m rest mix beta index record (hb, out) slot = Inr (hb', out')
        \<and> histories_rel h np m rest hb' hs'"
proof -
  obtain raw where raw: "baseline_for h slot m rest = Inr raw"
    and prev: "map_of hb slot = Some (case map_of hs slot of
          None \<Rightarrow> np_zeros_like np (normalize np raw) | Some a \<Rightarrow> a)"
    using assms(1,2) by (auto simp: histories_rel_def)
  have rel: "histories_rel h np m rest (dict_set slot a hb) (dict_set slot a hs)" for a
    using assms(1) by (auto simp: histories_rel_def)
  define previous where
    "previous = (case map_of hs slot of None \<Rightarrow> np_zeros_like np (normalize np raw) | Some a \<Rightarrow> a)"
  have prev': "map_of hb slot = Some previous" using prev by (simp add: previous_def)
  show ?thesis
  proof (cases "ob_sensor (ev_observation record) slot")
    case (Inl e)
    then show ?thesis by (simp add: stream_f6_slot_def f6_slot_def)
  next
    case sensor: (Inr sensor)
    show ?thesis
    proof (cases "so_payload sensor")
      case None
      with sensor show ?thesis by (simp add: stream_f6_slot_def f6_slot_def)
    next
      case payload: (Some payload)
      show ?thesis
      proof (cases "np_sub np (normalize np payload) (normalize np raw)")
        case (Inl e)
        with sensor payload raw show ?thesis by (simp add: stream_f6_slot_def f6_slot_def)
      next
        case residual: (Inr residual)
        show ?thesis
        proof (cases "f6_history np beta previous residual")
          case (Inl e)
          with residual sensor payload raw prev' show ?thesis
            by (simp add: stream_f6_slot_def f6_slot_def previous_def [symmetric])
        next
          case history: (Inr history)
          define delivered where "delivered =
            bindr (f6_payload np mix payload (normalize np raw) residual history) (\<lambda>transformed.
            bindr (provenance_for record slot) (\<lambda>p. deliver_payload h m out sensor p transformed))"
          have s: "stream_f6_slot h np m rest mix beta record (hs, out) slot =
              (dict_set slot history hs, if \<not> manifest_active m index then Inr out else delivered)"
            using sensor payload raw residual history assms(3)
            by (simp add: stream_f6_slot_def previous_def [symmetric] delivered_def)
          have b: "f6_slot h np m rest mix beta index record (hb, out) slot =
              (if \<not> manifest_active m index then Inr (dict_set slot history hb, out)
               else bindr delivered (\<lambda>out'. Inr (dict_set slot history hb, out')))"
            using sensor payload raw residual history prev'
            by (simp add: f6_slot_def bindr_assoc delivered_def)
          show ?thesis
            unfolding s b using rel [of history]
            by (cases delivered; cases "manifest_active m index") simp_all
        qed
      qed
    qed
  qed
qed

lemma f6_slots_sim:
  assumes "histories_rel h np m rest hb hs" "set slots \<subseteq> set (fm_sensor_slots m)"
    and "index = step_of record"
  shows "case stream_f6_slots h np m rest mix beta record slots hs out of
     (hs', Inl e) \<Rightarrow>
       foldr_res (f6_slot h np m rest mix beta index record) (hb, out) slots = Inl e
   | (hs', Inr out') \<Rightarrow> \<exists>hb'.
       foldr_res (f6_slot h np m rest mix beta index record) (hb, out) slots = Inr (hb', out')
       \<and> histories_rel h np m rest hb' hs'"
  using assms
proof (induction slots arbitrary: hs hb out)
  case Nil
  then show ?case by auto
next
  case (Cons slot slots)
  obtain hs' res where one: "stream_f6_slot h np m rest mix beta record (hs, out) slot = (hs', res)"
    by fastforce
  have sim: "case (hs', res) of
     (hs', Inl e) \<Rightarrow> f6_slot h np m rest mix beta index record (hb, out) slot = Inl e
   | (hs', Inr out') \<Rightarrow> \<exists>hb'. f6_slot h np m rest mix beta index record (hb, out) slot = Inr (hb', out')
        \<and> histories_rel h np m rest hb' hs'"
    unfolding one [symmetric] using Cons.prems by (intro f6_slot_sim) auto
  show ?case
  proof (cases res)
    case (Inl e)
    with sim one show ?thesis by simp
  next
    case (Inr out')
    with sim obtain hb' where "f6_slot h np m rest mix beta index record (hb, out) slot = Inr (hb', out')"
      "histories_rel h np m rest hb' hs'" by auto
    with Cons.IH [of hb' hs' out'] Cons.prems one Inr show ?thesis
      by (simp split: prod.splits sum.splits)
  qed
qed

lemma f6_initial_rel:
  assumes "\<And>slot. slot \<in> set (fm_sensor_slots m) \<Longrightarrow> \<exists>raw. baseline_for h slot m rest = Inr raw"
  obtains hb where "f6_initial h np m rest = Inr hb" "histories_rel h np m rest hb []"
proof -
  let ?step = "\<lambda>hs slot. bindr (baseline_for h slot m rest) (\<lambda>raw.
         Inr (dict_set slot (np_zeros_like np (normalize np raw)) hs))"
  have "\<exists>hb. foldr_res ?step hs slots = Inr hb \<and>
      (\<forall>slot\<in>set slots. \<exists>raw. baseline_for h slot m rest = Inr raw \<and>
          map_of hb slot = Some (np_zeros_like np (normalize np raw))) \<and>
      (\<forall>slot. slot \<notin> set slots \<longrightarrow> map_of hb slot = map_of hs slot)"
    if "set slots \<subseteq> set (fm_sensor_slots m)" for slots hs
    using that
  proof (induction slots arbitrary: hs)
    case (Cons slot slots)
    from assms Cons.prems obtain raw where raw: "baseline_for h slot m rest = Inr raw" by auto
    with Cons.IH [of "dict_set slot (np_zeros_like np (normalize np raw)) hs"] Cons.prems
    obtain hb where hb: "foldr_res ?step (dict_set slot (np_zeros_like np (normalize np raw)) hs) slots = Inr hb"
      "\<forall>slot\<in>set slots. \<exists>raw. baseline_for h slot m rest = Inr raw \<and>
          map_of hb slot = Some (np_zeros_like np (normalize np raw))"
      "\<forall>t. t \<notin> set slots \<longrightarrow> map_of hb t = map_of (dict_set slot (np_zeros_like np (normalize np raw)) hs) t"
      by auto
    have "map_of hb slot = Some (np_zeros_like np (normalize np raw))"
      using hb(2,3) raw by (cases "slot \<in> set slots") auto
    with hb raw show ?case by (intro exI [of _ hb]) auto
  qed simp
  from this [of "fm_sensor_slots m" "[]"] that show thesis
    by (auto simp: f6_initial_def histories_rel_def)
qed

lemma baseline_for_total:
  assumes "replay_setup h m rest s clean" "fm_operator_id m \<in> set REST_REFERENCE_OPERATOR_IDS"
    "slot \<in> set (fm_sensor_slots m)"
  shows "\<exists>raw. baseline_for h slot m rest = Inr raw"
proof -
  note d = replay_setupD [OF assms(1)]
  have "require_rest_reference h m rest = Inr ()" using session_init_Inr [OF d(2)] by metis
  with assms(2) obtain b v where b: "rest = Some b" "ditem (fm_parameters m) ''rest_reference_sha256'' = Inr v"
    "py_eq v (PStr (bundle_sha256 h b))"
    by (auto simp: require_rest_reference_def result_simps split: option.splits if_splits)
  have "slot \<in> set SENSOR_SLOTS" using assms(3) manifest_ok_window(7) [OF d(1)] by auto
  with d(3) [OF b(1)] obtain a where "payload_for b slot = Inr a"
    using bundle_init_covers(1) unfolding bundle_ok_def by metis
  with b show ?thesis by (simp add: baseline_for_def)
qed

lemma F6_stream:
  assumes input: "replay_setup h m rest s clean" and op: "fm_operator_id m = F6_history_residual_imprint"
  shows "stream_all h np s clean = F6_apply h np clean m rest"
proof -
  note d = replay_setupD [OF input]
  obtain age affected where at: "session_at h m rest age affected 0 s" "ss_histories s = []"
    using session_init_Inr [OF d(2)] by metis
  obtain mix beta where p: "param_float m ''history_mix'' = Inr mix" "param_float m ''memory_beta'' = Inr beta"
    using F6_params [OF d(1) op] .
  have rest_op: "fm_operator_id m \<in> set REST_REFERENCE_OPERATOR_IDS"
    by (simp add: op REST_REFERENCE_OPERATOR_IDS_def)
  obtain hb where hb: "f6_initial h np m rest = Inr hb" "histories_rel h np m rest hb []"
    by (rule f6_initial_rel [of m h rest np]) (rule baseline_for_total [OF input rest_op])
  show ?thesis
    unfolding F6_apply_def p hb(1) bindr_simps each_record_acc_map stream_all_def
  proof (rule map_acc_sim [where R = "\<lambda>k t hb. session_at h m rest age affected k t \<and>
      (k = 0 \<longrightarrow> t = s) \<and> histories_rel h np m rest hb (ss_histories t)"])
    fix k t and hb :: histories
    assume k: "k < length clean" and inv: "session_at h m rest age affected k t \<and>
      (k = 0 \<longrightarrow> t = s) \<and> histories_rel h np m rest hb (ss_histories t)"
    have cal: "k = 0 \<Longrightarrow> validate_rest_calibration t (clean ! k) = Inr ()"
      using d(5) inv k by (cases clean) auto
    have t: "ss_family t = Fidelity" "ss_manifest t = m" "ss_rest_references t = rest"
      using inv op by (auto simp: session_at_def)
    obtain hs' res where fold: "stream_f6_slots h np m rest mix beta (clean ! k) (fm_sensor_slots m)
        (ss_histories t) (clean ! k) = (hs', res)" by fastforce
    have fam: "deliver_family h np (store_source t (clean ! k)) (clean ! k) = (hs', res)"
      using t op p fold
      by (simp add: deliver_family_def store_source_def apply_fidelity_def stream_f6_def)
    have step: "stream_step h np t (clean ! k) = (case res of Inl e \<Rightarrow> Inl e
        | Inr r \<Rightarrow> Inr (t\<lparr>ss_histories := hs', ss_processed_count := int k + 1\<rparr>, r))"
      using stream_step_live [OF conjunct1 [OF inv] d(4) [OF k] cal, of np] fam t(1)
      by (simp add: store_source_def trim_source_cache_def)
    have at': "session_at h m rest age affected (Suc k)
        (t\<lparr>ss_histories := hs', ss_processed_count := int k + 1\<rparr>)"
      using inv by (auto simp: session_at_def)
    show "res_rel (\<lambda>(s', y) (hb', z). y = z \<and> session_at h m rest age affected (Suc k) s' \<and>
          (Suc k = 0 \<longrightarrow> s' = s) \<and> histories_rel h np m rest hb' (ss_histories s'))
        (stream_step h np t (clean ! k))
        (foldr_res (f6_slot h np m rest mix beta (int ([0..<length clean] ! k))
             (clean ! ([0..<length clean] ! k))) (hb, clean ! ([0..<length clean] ! k)) (fm_sensor_slots m))"
      using f6_slots_sim [of h np m rest hb "ss_histories t" "fm_sensor_slots m" "int k" "clean ! k"
          mix beta "clean ! k"] inv d(4) [OF k] fold step at' k
      by (cases res) auto
  qed (use at hb(2) in auto)
qed

section \<open>All operators\<close>

theorem stream_equals_batch:
  assumes "replay_setup h m rest s clean"
  shows "stream_all h np s clean = apply_operator h np (fm_operator_id m) clean m rest"
  using A1_stream [OF assms] A2_stream [OF assms] stateless_stream [OF assms] F6_stream [OF assms]
    T1_stream [OF assms] T2_stream [OF assms] T3_stream [OF assms]
    C1_stream [OF assms] C2_stream [OF assms]
  by (cases "fm_operator_id m") (simp_all add: stateless_fidelity_def)

end
