(* ===== verification/Operator_Effects.thy ===== *)
theory Operator_Effects
  imports Operator_Frames
begin

text \<open>
  What the availability, temporal and context operators deliver on an affected slot, and that
  they deliver it: on a well-formed episode none of their branches raises.
\<close>

section \<open>The delivered slot\<close>

lemma slot_view_after:
  assumes "replace_delivery h u s pv = Inr v" "pv_slot_id pv = so_slot_id s"
    "record_frame c u" "provenance_for c (so_slot_id s) = Inr p"
  shows "slot_view v (so_slot_id s) = (Inr s, Inr pv)"
proof -
  have "so_slot_id s \<in> set (provenance_slots c)"
    using provenance_for_slot [OF assms(4)] by (metis image_eqI list.set_map)
  with assms(3) have "so_slot_id s \<in> set (provenance_slots u)"
    by (simp add: record_frame_def)
  with slot_view_replace [OF assms(1,2)] show ?thesis by simp
qed

lemma provenance_exists:
  assumes "slot_view r slot = (Inr s, Inr p)"
  shows "provenance_for r slot = Inr p" "ob_sensor (ev_observation r) slot = Inr s"
  using assms by (simp_all add: slot_view_def)

definition absent_sensor :: "fault_manifest \<Rightarrow> sensor \<Rightarrow> sensor" where
  "absent_sensor m s =
     s\<lparr>so_payload := None, so_payload_present := False,
       so_declared_validity := (if fm_observability m = DECLARED then Some False else None),
       so_visible_source_time_s := None\<rparr>"

definition absent_provenance :: "fault_manifest \<Rightarrow> provenance \<Rightarrow> provenance" where
  "absent_provenance m p =
     p\<lparr>pv_source_index := None, pv_source_time_s := None, pv_payload_sha256 := None,
       pv_active_fault_ids := [operator_name (fm_operator_id m)]\<rparr>"

lemma absence_delivers:
  assumes "absence h clean m affected = Inr out" "distinct (fm_sensor_slots m)"
    "i < length clean" "int i \<in> set affected" "slot \<in> set (fm_sensor_slots m)"
  shows "\<exists>s p. slot_view (clean ! i) slot = (Inr s, Inr p) \<and>
    slot_view (out ! i) slot = (Inr (absent_sensor m s), Inr (absent_provenance m p))"
proof -
  let ?c = "clean ! i"
  from assms(1) have "mapr (\<lambda>i. if int i \<notin> set affected then Inr (clean ! i)
      else foldr_res (absence_slot h m (clean ! i)) (clean ! i) (fm_sensor_slots m))
      [0..<length clean] = Inr out"
    by (simp add: absence_def each_record_map)
  from mapr_nth [OF this, of i] assms(3,4)
  have run: "foldr_res (absence_slot h m ?c) ?c (fm_sensor_slots m) = Inr (out ! i)" by simp
  obtain u v where step: "absence_slot h m ?c u slot = Inr v" and u: "record_frame ?c u"
    and view: "slot_view (out ! i) slot = slot_view v slot"
    using absence.fold_at [OF run assms(2,5)] by metis
  from step obtain s s' p where s: "ob_sensor (ev_observation ?c) slot = Inr s"
    "without_payload s (fm_observability m = DECLARED) = Inr s'"
    and p: "provenance_for ?c slot = Inr p"
    and r: "replace_delivery h u s' (absent_provenance m p) = Inr v"
    by (auto simp: absence_slot_def result_simps absent_provenance_def dest!: provenance_post_init_id)
  have s': "s' = absent_sensor m s"
    using s(2) by (auto simp: without_payload_def absent_sensor_def dest: sensor_post_init_id)
  have slots: "so_slot_id s = slot" "pv_slot_id p = slot"
    using ob_sensor_slot [OF s(1)] provenance_for_slot [OF p] by auto
  have "slot_view v slot = (Inr (absent_sensor m s), Inr (absent_provenance m p))"
    using slot_view_after [OF r _ u] slots p s' by (simp add: absent_sensor_def absent_provenance_def)
  with s p view show ?thesis by (auto simp: slot_view_def)
qed

definition routed_sensor :: "fault_manifest \<Rightarrow> sensor \<Rightarrow> sensor \<Rightarrow> sensor" where
  "routed_sensor m current source =
     source\<lparr>so_slot_id := so_slot_id current, so_delivery_index := so_delivery_index current,
       so_delivery_time_s := so_delivery_time_s current,
       so_declared_validity := fault_declared_validity current m\<rparr>"

definition routed_provenance :: "fault_manifest \<Rightarrow> string \<Rightarrow> provenance \<Rightarrow> provenance" where
  "routed_provenance m slot p =
     p\<lparr>pv_slot_id := slot, pv_active_fault_ids := [operator_name (fm_operator_id m)]\<rparr>"

text \<open>A loop of \<open>route_source\<close> delivers, at every slot, the source record's slot under the
  current index and time.\<close>

lemma route_delivers:
  assumes "foldr_res (\<lambda>acc slot. bindr (src slot) (\<lambda>source. route_source h m source acc slot)) c
      slots = Inr r" "distinct slots" "slot \<in> set slots" "slot \<in> set (provenance_slots c)"
  shows "\<exists>source current s p. src slot = Inr source \<and>
    ob_sensor (ev_observation c) slot = Inr current \<and> slot_view source slot = (Inr s, Inr p) \<and>
    slot_view r slot = (Inr (routed_sensor m current s), Inr (routed_provenance m slot p))"
proof -
  obtain u v where step: "bindr (src slot) (\<lambda>source. route_source h m source u slot) = Inr v"
    and u: "record_frame c u" "slot_view u slot = slot_view c slot"
    and view: "slot_view r slot = slot_view v slot"
    using route.fold_at [OF assms(1-3)] by metis
  from step obtain source current s p where src: "src slot = Inr source"
    and cur: "ob_sensor (ev_observation u) slot = Inr current"
    and sp: "ob_sensor (ev_observation source) slot = Inr s" "provenance_for source slot = Inr p"
    and r': "replace_delivery h u
      (s\<lparr>so_slot_id := slot, so_delivery_index := so_delivery_index current,
         so_delivery_time_s := so_delivery_time_s current,
         so_declared_validity := fault_declared_validity current m\<rparr>)
      (p\<lparr>pv_slot_id := slot, pv_active_fault_ids := [operator_name (fm_operator_id m)]\<rparr>) = Inr v"
    by (auto simp: route_source_def result_simps dest!: provenance_post_init_id sensor_post_init_id)
  have slot: "so_slot_id current = slot" using ob_sensor_slot [OF cur] by simp
  then have r: "replace_delivery h u (routed_sensor m current s) (routed_provenance m slot p) = Inr v"
    using r' by (simp add: routed_sensor_def routed_provenance_def)
  obtain q where "provenance_for c slot = Inr q" using provenance_for_total [OF assms(4)] .
  then have "slot_view v slot = (Inr (routed_sensor m current s), Inr (routed_provenance m slot p))"
    using slot_view_after [OF r _ u(1)] slot by (simp add: routed_sensor_def routed_provenance_def)
  moreover have "ob_sensor (ev_observation c) slot = Inr current"
    using cur u(2) by (simp add: slot_view_def)
  moreover have "slot_view source slot = (Inr s, Inr p)" using sp by (simp add: slot_view_def)
  ultimately show ?thesis using src view by metis
qed

section \<open>Well-formed episodes\<close>

definition valid_record :: "hasher \<Rightarrow> evaluation \<Rightarrow> bool" where
  "valid_record h r \<longleftrightarrow>
     evaluation_ok h r \<and> observation_ok (ev_observation r) \<and>
     list_all sensor_ok (ob_tactile (ev_observation r)) \<and>
     list_all provenance_ok (ev_provenance r)"

text \<open>A replacement that is well formed and causal against the new delivery is accepted.\<close>

definition causal_pair :: "sensor \<Rightarrow> provenance \<Rightarrow> bool" where
  "causal_pair s p \<longleftrightarrow>
     (case pv_source_index p of None \<Rightarrow> True | Some i \<Rightarrow> i \<le> so_delivery_index s) \<and>
     (case pv_source_time_s p of None \<Rightarrow> True
      | Some t \<Rightarrow> t \<le> fadd (so_delivery_time_s s) time_tolerance)"

lemma causal_iff_pair:
  "ob_sensor ob (pv_slot_id p) = Inr s \<Longrightarrow> causal ob p \<longleftrightarrow> causal_pair s p"
  by (simp add: causal_def causal_pair_def)

lemma map_replace_memI:
  "x \<in> set (map (\<lambda>i. if key i = k then y else i) xs) \<Longrightarrow> x = y \<or> (x \<in> set xs \<and> key x \<noteq> k)"
  by (auto split: if_splits)

lemma replace_delivery_total:
  assumes v: "valid_record h r" and s: "sensor_ok s" "so_slot_id s = slot"
    and p: "provenance_ok p" "pv_slot_id p = slot" and slot: "slot \<in> set SENSOR_SLOTS"
    and c: "causal_pair s p"
  shows "\<exists>r'. replace_delivery h r s p = Inr r' \<and> valid_record h r'"
proof -
  let ?ob = "ev_observation r"
  have ok: "evaluation_ok h r" "observation_ok ?ob" using v by (simp_all add: valid_record_def)
  have slots: "set (tactile_slots ?ob) = set SENSOR_SLOTS" "distinct (provenance_slots r)"
    "set (provenance_slots r) = set SENSOR_SLOTS"
    using ok(1) by (simp_all add: evaluation_ok_def)
  obtain ob where ob: "replace_sensor ?ob s = Inr ob"
    using replace_sensor_total [OF ok(2)] slots(1) slot s(2) by blast
  note ob' = replace_sensor_Inr [OF ob]
  let ?items = "map (\<lambda>i. if pv_slot_id i = pv_slot_id p then p else i) (ev_provenance r)"
  have ob_slots: "tactile_slots ob = tactile_slots ?ob"
    using ob' by (simp add: map_slot_replace del: map_map)
  have causal_all: "causal ob q" if "q \<in> set ?items" for q
  proof (cases "q = p")
    case True
    have "ob_sensor ob (pv_slot_id p) = Inr s"
      using ob_sensor_replace [OF ob, of slot] s(2) p(2) by simp
    with True c show ?thesis by (simp add: causal_iff_pair)
  next
    case False
    then have q: "q \<in> set (ev_provenance r)" "pv_slot_id q \<noteq> slot"
      using map_replace_memI [OF that] p(2) by auto
    then have "causal ?ob q" using ok(1) by (simp add: evaluation_ok_def)
    with q ob_sensor_replace [OF ob, of "pv_slot_id q"] s(2) show ?thesis
      by (simp add: causal_def)
  qed
  have items_slots: "map pv_slot_id ?items = provenance_slots r" by (rule map_provenance_slot)
  obtain r' where r': "build_evaluation_record h ob ?items (Some (ev_clean_record_sha256 r)) = Inr r'"
    by (rule build_evaluation_record_total [of ?items ob])
       (use items_slots slots ob_slots causal_all in \<open>simp_all del: map_map\<close>)
  note b = build_evaluation_record_Inr [OF r']
  have "list_all provenance_ok ?items"
    using v p(1) by (auto simp: valid_record_def list_all_iff)
  moreover have "list_all sensor_ok (ob_tactile ob)"
    using v s(1) ob' by (auto simp: valid_record_def list_all_iff)
  moreover have "observation_ok ob" using ob' by blast
  ultimately have "valid_record h r'"
    using b(1-3) by (simp add: valid_record_def)
  with ob r' show ?thesis by (auto simp: replace_delivery_def Let_def)
qed

lemma valid_slot_view:
  assumes "valid_record h r" "slot \<in> set SENSOR_SLOTS"
  obtains s p where "slot_view r slot = (Inr s, Inr p)" "sensor_ok s" "provenance_ok p"
    "so_slot_id s = slot" "pv_slot_id p = slot" "causal_pair s p"
proof -
  have ok: "evaluation_ok h r" using assms(1) by (simp add: valid_record_def)
  obtain s where s: "ob_sensor (ev_observation r) slot = Inr s"
    using ob_sensor_total [of slot "ev_observation r"] ok assms(2) by (auto simp: evaluation_ok_def)
  obtain p where p: "provenance_for r slot = Inr p"
    using provenance_for_total [of slot r] ok assms(2) by (auto simp: evaluation_ok_def)
  have sl: "so_slot_id s = slot" "s \<in> set (ob_tactile (ev_observation r))"
    using ob_sensor_slot [OF s] by auto
  have pl: "pv_slot_id p = slot" "p \<in> set (ev_provenance r)"
    using provenance_for_slot [OF p] by auto
  have "causal (ev_observation r) p" using ok pl(2) by (simp add: evaluation_ok_def)
  then have "causal_pair s p" using s pl(1) by (simp add: causal_iff_pair)
  with that s p sl pl assms(1) show thesis
    by (auto simp: slot_view_def valid_record_def list_all_iff)
qed

section \<open>No branch raises\<close>

context slot_writer
begin

text \<open>If the step succeeds on every slot that still looks as in the first record, the loop does.\<close>

lemma fold_total:
  assumes "valid_record h c" "distinct slots"
    and step: "\<And>u slot. slot \<in> set slots \<Longrightarrow> valid_record h u \<Longrightarrow> slot_view u slot = slot_view c slot \<Longrightarrow>
      \<exists>r. body u slot = Inr r \<and> valid_record h r"
  shows "\<exists>r. foldr_res body c slots = Inr r \<and> valid_record h r"
proof -
  have "\<exists>r. foldr_res body u rest = Inr r \<and> valid_record h r"
    if "set rest \<subseteq> set slots" "distinct rest" "valid_record h u"
      "\<And>t. t \<in> set rest \<Longrightarrow> slot_view u t = slot_view c t" for rest u
    using that
  proof (induction rest arbitrary: u)
    case (Cons slot rest)
    then obtain v where v: "body u slot = Inr v" "valid_record h v"
      using step [of slot u] by auto
    have "slot_view v t = slot_view c t" if "t \<in> set rest" for t
    proof -
      have "t \<noteq> slot" using that Cons.prems(2) by auto
      then have "slot_view v t = slot_view u t"
        using writes [OF v(1)] by (auto dest: slot_write_other)
      with Cons.prems(4) [of t] that show ?thesis by simp
    qed
    with Cons.IH [of v] Cons.prems(1,2) v show ?case by simp
  qed simp
  from this [of slots c] assms(1,2) show ?thesis by simp
qed

end

lemma absent_ok:
  assumes "sensor_ok s" "provenance_ok p"
  shows "without_payload s (fm_observability m = DECLARED) = Inr (absent_sensor m s)"
    "sensor_ok (absent_sensor m s)" "provenance_post_init (absent_provenance m p) = Inr (absent_provenance m p)"
    "provenance_ok (absent_provenance m p)" "causal_pair (absent_sensor m s) (absent_provenance m p)"
proof -
  show w: "without_payload s (fm_observability m = DECLARED) = Inr (absent_sensor m s)"
    using without_payload_ok [OF assms(1)] by (simp add: absent_sensor_def)
  then show "sensor_ok (absent_sensor m s)"
    by (auto simp: without_payload_def intro: sensor_post_init_ok)
  show q: "provenance_post_init (absent_provenance m p) = Inr (absent_provenance m p)"
    using assms(2)
    by (auto simp: provenance_ok_def provenance_post_init_def absent_provenance_def split: if_splits)
  then show "provenance_ok (absent_provenance m p)" by (rule provenance_post_init_ok)
  show "causal_pair (absent_sensor m s) (absent_provenance m p)"
    by (simp add: causal_pair_def absent_provenance_def)
qed

lemma absence_slot_total:
  assumes "valid_record h c" "valid_record h u" "slot \<in> set SENSOR_SLOTS"
  shows "\<exists>r. absence_slot h m c u slot = Inr r \<and> valid_record h r"
proof -
  obtain s p where sp: "slot_view c slot = (Inr s, Inr p)" "sensor_ok s" "provenance_ok p"
    "so_slot_id s = slot" "pv_slot_id p = slot"
    using valid_slot_view [OF assms(1,3)] by metis
  note ok = absent_ok [OF sp(2,3), of m]
  obtain r where "replace_delivery h u (absent_sensor m s) (absent_provenance m p) = Inr r"
    "valid_record h r"
    using replace_delivery_total [OF assms(2) ok(2) _ ok(4) _ assms(3) ok(5)] sp(4,5)
    by (auto simp: absent_sensor_def absent_provenance_def)
  with ok sp(1) show ?thesis
    by (auto simp: absence_slot_def slot_view_def absent_provenance_def)
qed

lemma absence_fold_total:
  assumes "valid_record h c" "set slots \<subseteq> set SENSOR_SLOTS"
  shows "\<exists>r. foldr_res (absence_slot h m c) c slots = Inr r \<and> valid_record h r"
  by (rule foldr_res_total) (use assms absence_slot_total in blast)+

lemma absence_total:
  assumes "list_all (valid_record h) clean" "set (fm_sensor_slots m) \<subseteq> set SENSOR_SLOTS"
  shows "\<exists>out. absence h clean m affected = Inr out \<and> list_all (valid_record h) out"
  unfolding absence_def
  by (rule each_record_total) (use assms absence_fold_total in \<open>simp add: list_all_length\<close>)

text \<open>An episode whose deliveries do not go back in time, slot by slot.\<close>

definition timed_episode :: "evaluation list \<Rightarrow> bool" where
  "timed_episode clean \<longleftrightarrow>
     (\<forall>j < length clean. \<forall>i \<le> j. \<forall>slot\<in>set SENSOR_SLOTS.
        case (ob_sensor (ev_observation (clean ! i)) slot, ob_sensor (ev_observation (clean ! j)) slot) of
          (Inr a, Inr b) \<Rightarrow> so_delivery_index a \<le> so_delivery_index b \<and>
                            so_delivery_time_s a \<le> so_delivery_time_s b
        | _ \<Rightarrow> True)"

lemma fadd_mono_left: "a \<le> b \<Longrightarrow> fadd a t \<le> fadd b t"
  unfolding fadd_def fl64_def by (intro fl_mono) auto

lemma routed_ok:
  assumes "sensor_ok source" "sensor_ok current" "provenance_ok p" "causal_pair source p"
    "so_delivery_index source \<le> so_delivery_index current"
    "so_delivery_time_s source \<le> so_delivery_time_s current"
  shows "sensor_post_init (routed_sensor m current source) = Inr (routed_sensor m current source)"
    "slot \<in> set SENSOR_SLOTS \<Longrightarrow>
      provenance_post_init (routed_provenance m slot p) = Inr (routed_provenance m slot p)"
    "causal_pair (routed_sensor m current source) (routed_provenance m slot p)"
proof -
  note t = fadd_mono_left [OF assms(6), of time_tolerance]
  show "sensor_post_init (routed_sensor m current source) = Inr (routed_sensor m current source)"
    using assms(1,2) t
    by (auto simp: sensor_ok_def sensor_post_init_def routed_sensor_def result_simps
        split: if_splits option.splits)
  show "slot \<in> set SENSOR_SLOTS \<Longrightarrow>
      provenance_post_init (routed_provenance m slot p) = Inr (routed_provenance m slot p)"
    using assms(3)
    by (auto simp: provenance_ok_def provenance_post_init_def routed_provenance_def result_simps
        split: if_splits option.splits)
  show "causal_pair (routed_sensor m current source) (routed_provenance m slot p)"
    using assms(4,5) t
    by (auto simp: causal_pair_def routed_sensor_def routed_provenance_def split: option.splits)
qed

lemma route_slot_total:
  assumes src: "src slot = Inr source" "valid_record h source"
    and u: "valid_record h u" "slot \<in> set SENSOR_SLOTS"
    and timed: "\<And>a b. ob_sensor (ev_observation source) slot = Inr a \<Longrightarrow>
      ob_sensor (ev_observation u) slot = Inr b \<Longrightarrow>
      so_delivery_index a \<le> so_delivery_index b \<and> so_delivery_time_s a \<le> so_delivery_time_s b"
  shows "\<exists>r. bindr (src slot) (\<lambda>source. route_source h m source u slot) = Inr r \<and> valid_record h r"
proof -
  obtain s p where s: "slot_view source slot = (Inr s, Inr p)" "sensor_ok s" "provenance_ok p"
    "causal_pair s p"
    using valid_slot_view [OF src(2) u(2)] by metis
  obtain cur q where cur: "slot_view u slot = (Inr cur, Inr q)" "sensor_ok cur" "so_slot_id cur = slot"
    using valid_slot_view [OF u] by metis
  have le: "so_delivery_index s \<le> so_delivery_index cur" "so_delivery_time_s s \<le> so_delivery_time_s cur"
    using timed s(1) cur(1) by (auto simp: slot_view_def)
  note ok = routed_ok [OF s(2) cur(2) s(3,4) le, where m = m]
  obtain r where "replace_delivery h u (routed_sensor m cur s) (routed_provenance m slot p) = Inr r"
    "valid_record h r"
    using replace_delivery_total [OF u(1) sensor_post_init_ok [OF ok(1)] _
        provenance_post_init_ok [OF ok(2) [OF u(2)]] _ u(2) ok(3)] cur(3)
    by (auto simp: routed_sensor_def routed_provenance_def)
  with src(1) s(1) cur(1,3) ok(1) ok(2) [OF u(2)] show ?thesis
    by (auto simp: route_source_def slot_view_def routed_sensor_def routed_provenance_def)
qed

lemma route_fold_total:
  assumes c: "valid_record h c" and slots: "set slots \<subseteq> set SENSOR_SLOTS" "distinct slots"
    and src: "\<And>slot. slot \<in> set slots \<Longrightarrow> \<exists>source. src slot = Inr source \<and> valid_record h source \<and>
      (\<forall>a b. ob_sensor (ev_observation source) slot = Inr a \<longrightarrow>
         ob_sensor (ev_observation c) slot = Inr b \<longrightarrow>
         so_delivery_index a \<le> so_delivery_index b \<and> so_delivery_time_s a \<le> so_delivery_time_s b)"
  shows "\<exists>r. foldr_res (\<lambda>acc slot. bindr (src slot) (\<lambda>source. route_source h m source acc slot)) c
      slots = Inr r \<and> valid_record h r"
proof (rule route.fold_total [OF c slots(2)])
  fix u slot
  assume slot: "slot \<in> set slots" and u: "valid_record h u" "slot_view u slot = slot_view c slot"
  obtain source where source: "src slot = Inr source" "valid_record h source"
    and timed: "\<And>a b. ob_sensor (ev_observation source) slot = Inr a \<Longrightarrow>
       ob_sensor (ev_observation c) slot = Inr b \<Longrightarrow>
       so_delivery_index a \<le> so_delivery_index b \<and> so_delivery_time_s a \<le> so_delivery_time_s b"
    using src [OF slot] by blast
  have "ob_sensor (ev_observation u) slot = ob_sensor (ev_observation c) slot"
    using u(2) by (simp add: slot_view_def)
  with timed route_slot_total [of src slot source h u m] source u(1) slot slots(1)
  show "\<exists>r. bindr (src slot) (\<lambda>source. route_source h m source u slot) = Inr r \<and> valid_record h r"
    by auto
qed

lemma timed_episodeD:
  assumes "timed_episode clean" "i \<le> j" "j < length clean" "slot \<in> set SENSOR_SLOTS"
    "ob_sensor (ev_observation (clean ! i)) slot = Inr a"
    "ob_sensor (ev_observation (clean ! j)) slot = Inr b"
  shows "so_delivery_index a \<le> so_delivery_index b \<and> so_delivery_time_s a \<le> so_delivery_time_s b"
  using assms unfolding timed_episode_def by fastforce

text \<open>Routing every slot of record \<open>k\<close> from its registered source index.\<close>

lemma route_record_total:
  assumes "list_all (valid_record h) clean" "timed_episode clean" "k < length clean"
    "set slots \<subseteq> set SENSOR_SLOTS" "distinct slots"
    and src: "\<And>slot. slot \<in> set slots \<Longrightarrow> \<exists>i. src slot = py_index clean i \<and> 0 \<le> i \<and> i \<le> int k"
  shows "\<exists>r. foldr_res (\<lambda>acc slot. bindr (src slot) (\<lambda>source. route_source h m source acc slot))
      (clean ! k) slots = Inr r \<and> valid_record h r"
proof (rule route_fold_total [OF _ assms(4,5)])
  show "valid_record h (clean ! k)" using assms(1,3) by (simp add: list_all_length)
next
  fix slot assume slot: "slot \<in> set slots"
  obtain i where i: "src slot = py_index clean i" "0 \<le> i" "i \<le> int k" using src [OF slot] by blast
  then have at: "nat i \<le> k" "nat i < length clean" "src slot = Inr (clean ! nat i)"
    using assms(3) by (auto simp: py_index_nonneg)
  have "valid_record h (clean ! nat i)" using at(2) assms(1) by (simp add: list_all_length)
  with at timed_episodeD [OF assms(2) at(1) assms(3)] slot assms(4)
  show "\<exists>source. src slot = Inr source \<and> valid_record h source \<and>
      (\<forall>a b. ob_sensor (ev_observation source) slot = Inr a \<longrightarrow>
         ob_sensor (ev_observation (clean ! k)) slot = Inr b \<longrightarrow>
         so_delivery_index a \<le> so_delivery_index b \<and> so_delivery_time_s a \<le> so_delivery_time_s b)"
    by blast
qed

section \<open>Temporal operators\<close>

lemma window_index:
  assumes "manifest_active m (int k)" "0 \<le> fm_start_index m"
  shows "0 \<le> int k - fm_start_index m" "int k - fm_start_index m < fm_stop_index m - fm_start_index m"
  using assms by (auto simp: manifest_active_def)

lemma T1_lag:
  assumes "manifest_ok h m" "fm_operator_id m = T1_fixed_source_delay"
  obtains lag where "severity_value T1_fixed_source_delay (fm_severity_level m) = Inr (PInt lag)"
    "1 \<le> lag" "lag \<le> fm_start_index m"
  using T1_map [OF assms] by blast

lemma T1_run:
  assumes "manifest_ok h m" "fm_operator_id m = T1_fixed_source_delay"
    "severity_value T1_fixed_source_delay (fm_severity_level m) = Inr (PInt lag)"
  shows "T1_apply h clean m = mapr (\<lambda>i.
       if manifest_active m (int i)
       then foldr_res (\<lambda>acc slot. bindr (py_index clean (int i - lag)) (\<lambda>source.
              route_source h m source acc slot)) (clean ! i) (fm_sensor_slots m)
       else Inr (clean ! i)) [0..<length clean]"
proof -
  note win = manifest_ok_window [OF assms(1)]
  have lag: "param_ints m ''source_index_map'' =
      Inr (map (\<lambda>i. i - lag) (py_range (fm_start_index m) (fm_stop_index m)))"
    using T1_map [OF assms(1,2)] assms(3) by fastforce
  have idx: "py_index (map (\<lambda>i. i - lag) (py_range (fm_start_index m) (fm_stop_index m)))
      (int i - fm_start_index m) = Inr (int i - lag)" if "manifest_active m (int i)" for i
    using window_index [OF that win(1)] by (subst py_index_nonneg) (auto simp: py_range_nth)
  show ?thesis
    unfolding T1_apply_def lag(1) bindr_simps window_records_each [OF win(1)] each_record_map
    by (rule mapr_cong) (use idx in \<open>auto simp: manifest_active_def\<close>)
qed

lemma T1_total:
  assumes "manifest_ok h m" "fm_operator_id m = T1_fixed_source_delay"
    "list_all (valid_record h) clean" "timed_episode clean"
  shows "\<exists>out. T1_apply h clean m = Inr out \<and> list_all (valid_record h) out"
proof -
  note win = manifest_ok_window [OF assms(1)]
  obtain lag where sev: "severity_value T1_fixed_source_delay (fm_severity_level m) = Inr (PInt lag)"
    and lag: "1 \<le> lag" "lag \<le> fm_start_index m"
    using T1_lag [OF assms(1,2)] .
  note run = T1_run [OF assms(1,2) sev]
  have "\<exists>r. foldr_res (\<lambda>acc slot. bindr (py_index clean (int i - lag)) (\<lambda>source.
              route_source h m source acc slot)) (clean ! i) (fm_sensor_slots m) = Inr r \<and>
      valid_record h r" if "i < length clean" "manifest_active m (int i)" for i
    by (rule route_record_total [OF assms(3,4) that(1) win(7,6)])
       (use that(2) lag in \<open>auto simp: manifest_active_def intro!: exI [of _ "int i - lag"]\<close>)
  then show ?thesis
    unfolding run by (intro mapr_total) (use assms(3) in \<open>auto simp: list_all_length\<close>)
qed

lemma T1_delivers:
  assumes "manifest_ok h m" "fm_operator_id m = T1_fixed_source_delay"
    "list_all (valid_record h) clean" "T1_apply h clean m = Inr out"
    "i < length clean" "manifest_active m (int i)" "slot \<in> set (fm_sensor_slots m)"
  shows "\<exists>lag current s p.
    severity_value T1_fixed_source_delay (fm_severity_level m) = Inr (PInt lag) \<and>
    1 \<le> lag \<and> lag \<le> int i \<and>
    ob_sensor (ev_observation (clean ! i)) slot = Inr current \<and>
    slot_view (clean ! nat (int i - lag)) slot = (Inr s, Inr p) \<and>
    slot_view (out ! i) slot = (Inr (routed_sensor m current s), Inr (routed_provenance m slot p))"
proof -
  note win = manifest_ok_window [OF assms(1)]
  obtain lag where sev: "severity_value T1_fixed_source_delay (fm_severity_level m) = Inr (PInt lag)"
    and lag: "1 \<le> lag" "lag \<le> fm_start_index m"
    using T1_lag [OF assms(1,2)] .
  note run = T1_run [OF assms(1,2) sev]
  have le: "lag \<le> int i" using lag(2) assms(6) by (simp add: manifest_active_def)
  have src: "py_index clean (int i - lag) = Inr (clean ! nat (int i - lag))"
    using le lag(1) assms(5) by (intro py_index_nonneg) auto
  from mapr_nth [OF assms(4) [unfolded run], of i] assms(5,6)
  have fold: "foldr_res (\<lambda>acc slot. bindr (py_index clean (int i - lag)) (\<lambda>source.
      route_source h m source acc slot)) (clean ! i) (fm_sensor_slots m) = Inr (out ! i)" by simp
  have "slot \<in> set (provenance_slots (clean ! i))"
    using assms(3,5,7) win(7) by (auto simp: list_all_length valid_record_def evaluation_ok_def)
  from route_delivers [OF fold win(6) assms(7) this] le lag sev src show ?thesis by auto
qed

text \<open>T2: inside the hold every delivery repeats the last record before the window; after it the
  records are the clean ones.\<close>

lemma t2_source_map_nth:
  assumes "0 \<le> k" "k < stop - start" "0 \<le> d"
  shows "py_index (t2_source_map start stop d) k = Inr (if k < d then max 0 (start - 1) else start + k)"
  using assms
  by (auto simp: py_index_def t2_source_map_def Let_def nth_append py_range_nth min_def)

lemma T2_duration:
  assumes "manifest_ok h m" "fm_operator_id m = T2_held_last_freeze"
  obtains duration where "1 \<le> duration"
    "severity_value T2_held_last_freeze (fm_severity_level m) = Inr (PInt duration)"
  using T2_map [OF assms] by blast

lemma T2_run:
  assumes "manifest_ok h m" "fm_operator_id m = T2_held_last_freeze"
    "severity_value T2_held_last_freeze (fm_severity_level m) = Inr (PInt k)"
  shows "T2_apply h clean m = mapr (\<lambda>i.
       if manifest_active m (int i) \<and> int i < fm_start_index m + k \<and> 0 < i
       then foldr_res (\<lambda>acc slot. bindr (py_index clean (max 0 (fm_start_index m - 1))) (\<lambda>source.
              route_source h m source acc slot)) (clean ! i) (fm_sensor_slots m)
       else Inr (clean ! i)) [0..<length clean]"
proof -
  note win = manifest_ok_window [OF assms(1)]
  have k: "param_ints m ''source_index_map'' =
      Inr (t2_source_map (fm_start_index m) (fm_stop_index m) k)" "1 \<le> k"
    using T2_map [OF assms(1,2)] assms(3) by fastforce+
  show ?thesis
    unfolding T2_apply_def k(1) bindr_simps window_records_each [OF win(1)] each_record_map
  proof (rule mapr_cong [OF refl])
    fix i
    show "(if fm_start_index m \<le> int i \<and> int i < fm_stop_index m
          then bindr (py_index (t2_source_map (fm_start_index m) (fm_stop_index m) k) (int i - fm_start_index m))
            (\<lambda>source_index. if source_index = int i then Inr (clean ! i)
             else foldr_res (\<lambda>acc slot. bindr (py_index clean source_index)
               (\<lambda>source. route_source h m source acc slot)) (clean ! i) (fm_sensor_slots m))
          else Inr (clean ! i)) =
        (if manifest_active m (int i) \<and> int i < fm_start_index m + k \<and> 0 < i
         then foldr_res (\<lambda>acc slot. bindr (py_index clean (max 0 (fm_start_index m - 1))) (\<lambda>source.
              route_source h m source acc slot)) (clean ! i) (fm_sensor_slots m)
         else Inr (clean ! i))"
      using t2_source_map_nth [of "int i - fm_start_index m" "fm_stop_index m" "fm_start_index m" k]
        k(2) win(1)
      by (auto simp: manifest_active_def)
  qed
qed

lemma T2_total:
  assumes "manifest_ok h m" "fm_operator_id m = T2_held_last_freeze"
    "list_all (valid_record h) clean" "timed_episode clean"
  shows "\<exists>out. T2_apply h clean m = Inr out \<and> list_all (valid_record h) out"
proof -
  note win = manifest_ok_window [OF assms(1)]
  obtain k where k: "severity_value T2_held_last_freeze (fm_severity_level m) = Inr (PInt k)"
    using T2_duration [OF assms(1,2)] by blast
  note run = T2_run [OF assms(1,2) k]
  have "\<exists>r. foldr_res (\<lambda>acc slot. bindr (py_index clean (max 0 (fm_start_index m - 1))) (\<lambda>source.
              route_source h m source acc slot)) (clean ! i) (fm_sensor_slots m) = Inr r \<and>
      valid_record h r" if "i < length clean" "manifest_active m (int i)" for i
    by (rule route_record_total [OF assms(3,4) that(1) win(7,6)])
       (use that(2) in \<open>auto simp: manifest_active_def intro!: exI [of _ "max 0 (fm_start_index m - 1)"]\<close>)
  then show ?thesis
    unfolding run by (intro mapr_total) (use assms(3) in \<open>auto simp: list_all_length\<close>)
qed

lemma T2_delivers:
  assumes "manifest_ok h m" "fm_operator_id m = T2_held_last_freeze"
    "list_all (valid_record h) clean" "T2_apply h clean m = Inr out"
    "i < length clean" "manifest_active m (int i)" "slot \<in> set (fm_sensor_slots m)"
    "severity_value T2_held_last_freeze (fm_severity_level m) = Inr (PInt duration)"
  shows "if int i < fm_start_index m + duration \<and> 0 < i
    then \<exists>current s p. ob_sensor (ev_observation (clean ! i)) slot = Inr current \<and>
      slot_view (clean ! nat (fm_start_index m - 1)) slot = (Inr s, Inr p) \<and>
      slot_view (out ! i) slot = (Inr (routed_sensor m current s), Inr (routed_provenance m slot p))
    else out ! i = clean ! i"
proof -
  note win = manifest_ok_window [OF assms(1)]
  note run = T2_run [OF assms(1,2,8)]
  note at = mapr_nth [OF assms(4) [unfolded run], of i]
  show ?thesis
  proof (cases "int i < fm_start_index m + duration \<and> 0 < i")
    case True
    with at assms(5,6)
    have fold: "foldr_res (\<lambda>acc slot. bindr (py_index clean (max 0 (fm_start_index m - 1))) (\<lambda>source.
      route_source h m source acc slot)) (clean ! i) (fm_sensor_slots m) = Inr (out ! i)" by simp
    have src: "py_index clean (max 0 (fm_start_index m - 1)) = Inr (clean ! nat (fm_start_index m - 1))"
      using assms(5,6) by (subst py_index_nonneg) (auto simp: manifest_active_def max_def)
    have "slot \<in> set (provenance_slots (clean ! i))"
      using assms(3,5,7) win(7) by (auto simp: list_all_length valid_record_def evaluation_ok_def)
    from route_delivers [OF fold win(6) assms(7) this] src True show ?thesis by auto
  next
    case False
    with at assms(5) show ?thesis by auto
  qed
qed

text \<open>T3: the last slot of the scope lags behind the others.\<close>

lemma T3_skew:
  assumes "manifest_ok h m" "fm_operator_id m = T3_inter_sensor_skew"
  obtains skew where "1 \<le> skew"
    "severity_value T3_inter_sensor_skew (fm_severity_level m) = Inr (PInt skew)"
  using T3_map [OF assms] by blast

lemma T3_run:
  assumes "manifest_ok h m" "fm_operator_id m = T3_inter_sensor_skew"
    "severity_value T3_inter_sensor_skew (fm_severity_level m) = Inr (PInt k)"
  shows "T3_apply h clean m = mapr (\<lambda>i.
       if manifest_active m (int i)
       then foldr_res (\<lambda>acc slot. bindr (py_index clean
              (if slot = last (fm_sensor_slots m) then max 0 (int i - k) else int i)) (\<lambda>source.
              route_source h m source acc slot)) (clean ! i) (fm_sensor_slots m)
       else Inr (clean ! i)) [0..<length clean]"
proof -
  note win = manifest_ok_window [OF assms(1)]
  obtain v where k: "ditem (fm_parameters m) ''source_index_map'' = Inr v"
    and item: "\<And>slot. slot \<in> set (fm_sensor_slots m) \<Longrightarrow> param_item m ''source_index_map'' slot =
        Inr (ints (t3_slot_map (fm_start_index m) (fm_stop_index m) k
                     (slot = last (fm_sensor_slots m))))"
  proof (rule T3_map [OF assms(1,2)])
    fix k' v
    assume "severity_value T3_inter_sensor_skew (fm_severity_level m) = Inr (PInt k')"
    with assms(3) have "k' = k" by simp
    moreover assume "ditem (fm_parameters m) ''source_index_map'' = Inr v"
      "\<And>slot. slot \<in> set (fm_sensor_slots m) \<Longrightarrow> param_item m ''source_index_map'' slot =
        Inr (ints (t3_slot_map (fm_start_index m) (fm_stop_index m) k'
                     (slot = last (fm_sensor_slots m))))"
    ultimately show thesis by (intro that) auto
  qed
  have idx: "t3_source_index m slot (int i - fm_start_index m) =
      Inr (if slot = last (fm_sensor_slots m) then max 0 (int i - k) else int i)"
    if "manifest_active m (int i)" "slot \<in> set (fm_sensor_slots m)" for i slot
    using window_index [OF that(1) win(1)] item [OF that(2)]
    by (simp add: t3_source_index_def ints_def t3_slot_map_def py_index_nonneg py_range_nth)
  show ?thesis
    unfolding T3_apply_def k(1) bindr_simps window_records_each [OF win(1)] each_record_map
    by (rule mapr_cong [OF refl])
       (use idx in \<open>auto simp: manifest_active_def intro!: foldr_res_cong\<close>)
qed

lemma T3_total:
  assumes "manifest_ok h m" "fm_operator_id m = T3_inter_sensor_skew"
    "list_all (valid_record h) clean" "timed_episode clean"
  shows "\<exists>out. T3_apply h clean m = Inr out \<and> list_all (valid_record h) out"
proof -
  note win = manifest_ok_window [OF assms(1)]
  obtain k where k: "1 \<le> k"
    and sev: "severity_value T3_inter_sensor_skew (fm_severity_level m) = Inr (PInt k)"
    using T3_skew [OF assms(1,2)] .
  note run = T3_run [OF assms(1,2) sev]
  have "\<exists>r. foldr_res (\<lambda>acc slot. bindr (py_index clean
              (if slot = last (fm_sensor_slots m) then max 0 (int i - k) else int i)) (\<lambda>source.
              route_source h m source acc slot)) (clean ! i) (fm_sensor_slots m) = Inr r \<and>
      valid_record h r" if "i < length clean" "manifest_active m (int i)" for i
  proof (rule route_record_total [OF assms(3,4) that(1) win(7,6)])
    fix slot
    show "\<exists>i'. py_index clean (if slot = last (fm_sensor_slots m) then max 0 (int i - k) else int i) =
        py_index clean i' \<and> 0 \<le> i' \<and> i' \<le> int i"
      using k by (intro exI [of _ "if slot = last (fm_sensor_slots m) then max 0 (int i - k) else int i"]) auto
  qed
  then show ?thesis
    unfolding run by (intro mapr_total) (use assms(3) in \<open>auto simp: list_all_length\<close>)
qed

lemma T3_delivers:
  assumes "manifest_ok h m" "fm_operator_id m = T3_inter_sensor_skew"
    "list_all (valid_record h) clean" "T3_apply h clean m = Inr out"
    "i < length clean" "manifest_active m (int i)" "slot \<in> set (fm_sensor_slots m)"
    "severity_value T3_inter_sensor_skew (fm_severity_level m) = Inr (PInt skew)"
  shows "\<exists>current s p. ob_sensor (ev_observation (clean ! i)) slot = Inr current \<and>
    slot_view (clean ! (if slot = last (fm_sensor_slots m) then nat (int i - skew) else i)) slot =
      (Inr s, Inr p) \<and>
    slot_view (out ! i) slot = (Inr (routed_sensor m current s), Inr (routed_provenance m slot p))"
proof -
  note win = manifest_ok_window [OF assms(1)]
  note run = T3_run [OF assms(1,2,8)]
  have skew: "1 \<le> skew" using T3_skew [OF assms(1,2)] assms(8) by fastforce
  from mapr_nth [OF assms(4) [unfolded run], of i] assms(5,6)
  have fold: "foldr_res (\<lambda>acc slot. bindr (py_index clean
      (if slot = last (fm_sensor_slots m) then max 0 (int i - skew) else int i)) (\<lambda>source.
      route_source h m source acc slot)) (clean ! i) (fm_sensor_slots m) = Inr (out ! i)"
    by (simp cong: if_cong)
  have src: "py_index clean (if slot = last (fm_sensor_slots m) then max 0 (int i - skew) else int i) =
      Inr (clean ! (if slot = last (fm_sensor_slots m) then nat (int i - skew) else i))"
    using assms(5) skew by (subst py_index_nonneg) (auto simp: max_def)
  have "slot \<in> set (provenance_slots (clean ! i))"
    using assms(3,5,7) win(7) by (auto simp: list_all_length valid_record_def evaluation_ok_def)
  from route_delivers [OF fold win(6) assms(7) this] src show ?thesis by auto
qed

section \<open>C1: the two sensors change places\<close>

definition misrouted_sensor :: "fault_manifest \<Rightarrow> sensor \<Rightarrow> sensor \<Rightarrow> sensor" where
  "misrouted_sensor m target source =
     source\<lparr>so_slot_id := so_slot_id target, so_delivery_index := so_delivery_index target,
       so_delivery_time_s := so_delivery_time_s target,
       so_declared_validity := fault_declared_validity target m,
       so_frame_id := so_frame_id target, so_calibration_id := so_calibration_id target\<rparr>"

definition misrouted_provenance ::
    "hasher \<Rightarrow> fault_manifest \<Rightarrow> string \<Rightarrow> sensor \<Rightarrow> provenance \<Rightarrow> provenance" where
  "misrouted_provenance h m slot source p =
     p\<lparr>pv_slot_id := slot, pv_payload_sha256 := array_sha256 h (so_payload source),
       pv_active_fault_ids := [operator_name (fm_operator_id m)]\<rparr>"

definition other_slot :: "string \<Rightarrow> string" where
  "other_slot slot = (if slot = ''left'' then ''right'' else ''left'')"

lemma c1_source:
  assumes "manifest_ok h m" "fm_operator_id m = C1_sensor_identity_misrouting" "slot \<in> set SENSOR_SLOTS"
  shows "bindr (param_item m ''route_map'' slot) route_target = Inr (other_slot slot)"
proof (rule C1_offsets [OF assms(1,2)])
  assume "ditem (fm_parameters m) ''route_map'' =
       Inr (PDict [(''left'', PStr ''right''), (''right'', PStr ''left'')])"
  with assms(3) show ?thesis
    by (auto simp: param_item_def ditem_def SENSOR_SLOTS_def other_slot_def)
qed

lemma C1_run:
  assumes "manifest_ok h m" "fm_operator_id m = C1_sensor_identity_misrouting"
    "param_ints m ''affected_offsets'' = Inr offsets"
  shows "C1_apply h clean m = mapr (\<lambda>i.
      if int i \<in> set (map (\<lambda>offset. fm_start_index m + offset) offsets)
      then foldr_res (c1_slot h m (clean ! i)) (clean ! i) SENSOR_SLOTS
      else Inr (clean ! i)) [0..<length clean]"
proof -
  obtain v where "ditem (fm_parameters m) ''route_map'' = Inr v"
    using C1_offsets [OF assms(1,2)] by blast
  with assms(3) manifest_ok_window(8) [OF assms(1,2)] show ?thesis
    unfolding C1_apply_def each_record_map Let_def by (auto intro!: mapr_cong)
qed

lemma C1_delivers:
  assumes "manifest_ok h m" "fm_operator_id m = C1_sensor_identity_misrouting"
    "list_all (valid_record h) clean" "C1_apply h clean m = Inr out"
    "param_ints m ''affected_offsets'' = Inr offsets"
    "i < length clean" "int i - fm_start_index m \<in> set offsets" "slot \<in> set SENSOR_SLOTS"
  shows "\<exists>target s p. ob_sensor (ev_observation (clean ! i)) slot = Inr target \<and>
    slot_view (clean ! i) (other_slot slot) = (Inr s, Inr p) \<and>
    slot_view (out ! i) slot =
      (Inr (misrouted_sensor m target s), Inr (misrouted_provenance h m slot s p))"
proof -
  let ?c = "clean ! i"
  have hit: "int i \<in> set (map (\<lambda>offset. fm_start_index m + offset) offsets)"
    using assms(7) by (auto simp: image_iff intro!: bexI [of _ "int i - fm_start_index m"])
  from mapr_nth [OF assms(4) [unfolded C1_run [OF assms(1,2,5)]], of i] assms(6) hit
  have fold: "foldr_res (c1_slot h m ?c) ?c SENSOR_SLOTS = Inr (out ! i)" by simp
  have dist: "distinct SENSOR_SLOTS" by (simp add: SENSOR_SLOTS_def)
  obtain u v where step: "c1_slot h m ?c u slot = Inr v" and u: "record_frame ?c u"
      "slot_view u slot = slot_view ?c slot"
    and view: "slot_view (out ! i) slot = slot_view v slot"
    using c1.fold_at [OF fold dist assms(8)] by metis
  from step obtain target s p where t: "ob_sensor (ev_observation u) slot = Inr target"
    and sp: "ob_sensor (ev_observation ?c) (other_slot slot) = Inr s"
      "provenance_for ?c (other_slot slot) = Inr p"
    and r': "replace_delivery h u
      (s\<lparr>so_slot_id := slot, so_delivery_index := so_delivery_index target,
         so_delivery_time_s := so_delivery_time_s target,
         so_declared_validity := fault_declared_validity target m,
         so_frame_id := so_frame_id target, so_calibration_id := so_calibration_id target\<rparr>)
      (p\<lparr>pv_slot_id := slot, pv_payload_sha256 := array_sha256 h (so_payload s),
         pv_active_fault_ids := [operator_name (fm_operator_id m)]\<rparr>) = Inr v"
    unfolding c1_slot_def c1_source [OF assms(1,2,8)] bindr_simps
    by (auto simp: result_simps dest!: provenance_post_init_id sensor_post_init_id)
  have slot: "so_slot_id target = slot" using ob_sensor_slot [OF t] by simp
  then have r: "replace_delivery h u (misrouted_sensor m target s) (misrouted_provenance h m slot s p) = Inr v"
    using r' by (simp add: misrouted_sensor_def misrouted_provenance_def)
  have "valid_record h ?c" using assms(3,6) by (simp add: list_all_length)
  then obtain q where q: "provenance_for ?c slot = Inr q"
    using valid_slot_view [OF _ assms(8)] by (metis provenance_exists(1))
  have "slot_view v slot = (Inr (misrouted_sensor m target s), Inr (misrouted_provenance h m slot s p))"
    using slot_view_after [OF r _ u(1)] slot q by (simp add: misrouted_sensor_def misrouted_provenance_def)
  moreover have "ob_sensor (ev_observation ?c) slot = Inr target"
    using t u(2) by (simp add: slot_view_def)
  moreover have "slot_view ?c (other_slot slot) = (Inr s, Inr p)" using sp by (simp add: slot_view_def)
  ultimately show ?thesis using view by metis
qed

text \<open>Both sensors of a record are delivered at one index and time.\<close>

definition synchronous :: "evaluation \<Rightarrow> bool" where
  "synchronous r \<longleftrightarrow>
     (\<forall>a\<in>set (ob_tactile (ev_observation r)). \<forall>b\<in>set (ob_tactile (ev_observation r)).
        so_delivery_index a = so_delivery_index b \<and> so_delivery_time_s a = so_delivery_time_s b)"

lemma misrouted_ok:
  assumes "sensor_ok source" "sensor_ok target" "provenance_ok p" "causal_pair source p"
    "so_delivery_index source = so_delivery_index target"
    "so_delivery_time_s source = so_delivery_time_s target" "slot \<in> set SENSOR_SLOTS"
  shows "sensor_post_init (misrouted_sensor m target source) = Inr (misrouted_sensor m target source)"
    "provenance_post_init (misrouted_provenance h m slot source p) =
       Inr (misrouted_provenance h m slot source p)"
    "causal_pair (misrouted_sensor m target source) (misrouted_provenance h m slot source p)"
proof -
  show "sensor_post_init (misrouted_sensor m target source) = Inr (misrouted_sensor m target source)"
    using assms(1,2,5,6)
    by (auto simp: sensor_ok_def sensor_post_init_def misrouted_sensor_def result_simps
        split: if_splits option.splits)
  show "provenance_post_init (misrouted_provenance h m slot source p) =
       Inr (misrouted_provenance h m slot source p)"
    using assms(3,7)
    by (auto simp: provenance_ok_def provenance_post_init_def misrouted_provenance_def result_simps
        split: if_splits option.splits)
  show "causal_pair (misrouted_sensor m target source) (misrouted_provenance h m slot source p)"
    using assms(4-6)
    by (auto simp: causal_pair_def misrouted_sensor_def misrouted_provenance_def split: option.splits)
qed

lemma misrouted_payload: "so_payload (misrouted_sensor m target source) = so_payload source"
  by (simp add: misrouted_sensor_def)

lemma c1_slot_run:
  assumes "bindr (param_item m ''route_map'' slot) route_target = Inr source_slot"
    and "ob_sensor (ev_observation current) slot = Inr target"
    and "ob_sensor (ev_observation clean) source_slot = Inr source"
    and "provenance_for clean source_slot = Inr p"
    and slot: "so_slot_id target = slot"
    and routed: "sensor_post_init (misrouted_sensor m target source) = Inr (misrouted_sensor m target source)"
    and pv: "provenance_post_init (misrouted_provenance h m slot source p) =
      Inr (misrouted_provenance h m slot source p)"
  shows "c1_slot h m clean current slot =
    replace_delivery h current (misrouted_sensor m target source) (misrouted_provenance h m slot source p)"
proof -
  have pv': "provenance_post_init
      (p\<lparr>pv_slot_id := slot, pv_payload_sha256 := array_sha256 h (so_payload (misrouted_sensor m target source)),
         pv_active_fault_ids := [operator_name (fm_operator_id m)]\<rparr>) =
      Inr (misrouted_provenance h m slot source p)"
    using pv by (simp only: misrouted_provenance_def misrouted_payload)
  show ?thesis
    unfolding c1_slot_def assms(1-4) bindr_simps
    unfolding misrouted_sensor_def [of m target source, unfolded slot, symmetric] routed bindr_simps pv' ..
qed

lemma c1_slot_total:
  assumes ok: "manifest_ok h m" "fm_operator_id m = C1_sensor_identity_misrouting"
    and c: "valid_record h c" "synchronous c" and slot: "slot \<in> set SENSOR_SLOTS"
    and u: "valid_record h u" "slot_view u slot = slot_view c slot"
  shows "\<exists>r. c1_slot h m c u slot = Inr r \<and> valid_record h r"
proof -
  have other: "other_slot slot \<in> set SENSOR_SLOTS" by (simp add: other_slot_def SENSOR_SLOTS_def)
  obtain s p where s: "slot_view c (other_slot slot) = (Inr s, Inr p)" "sensor_ok s"
    "provenance_ok p" "causal_pair s p"
    using valid_slot_view [OF c(1) other] by metis
  obtain t q where t: "slot_view c slot = (Inr t, Inr q)" "sensor_ok t" "so_slot_id t = slot"
    using valid_slot_view [OF c(1) slot] by metis
  have "s \<in> set (ob_tactile (ev_observation c))" "t \<in> set (ob_tactile (ev_observation c))"
    using s(1) t(1) by (auto simp: slot_view_def dest: ob_sensor_slot)
  then have both: "so_delivery_index s = so_delivery_index t \<and> so_delivery_time_s s = so_delivery_time_s t"
    using c(2) unfolding synchronous_def by blast
  note eq = conjunct1 [OF both] conjunct2 [OF both]
  note good = misrouted_ok [OF s(2) t(2) s(3,4) eq slot]
  obtain r where "replace_delivery h u (misrouted_sensor m t s) (misrouted_provenance h m slot s p) = Inr r"
    "valid_record h r"
    using replace_delivery_total [where s = "misrouted_sensor m t s" and
          p = "misrouted_provenance h m slot s p" and h = h, OF u(1) sensor_post_init_ok [OF good(1)] _
        provenance_post_init_ok [OF good(2)] _ slot good(3)] t(3)
    by (auto simp: misrouted_sensor_def misrouted_provenance_def)
  moreover have "c1_slot h m c u slot =
      replace_delivery h u (misrouted_sensor m t s) (misrouted_provenance h m slot s p)"
  proof -
    have views: "ob_sensor (ev_observation u) slot = Inr t"
      "ob_sensor (ev_observation c) (other_slot slot) = Inr s" "provenance_for c (other_slot slot) = Inr p"
      using s(1) t(1) u(2) by (simp_all add: slot_view_def)
    show ?thesis by (rule c1_slot_run [OF c1_source [OF ok slot] views t(3) good(1,2)])
  qed
  ultimately show ?thesis by simp
qed

lemma C1_total:
  assumes "manifest_ok h m" "fm_operator_id m = C1_sensor_identity_misrouting"
    "list_all (valid_record h) clean" "list_all synchronous clean"
  shows "\<exists>out. C1_apply h clean m = Inr out \<and> list_all (valid_record h) out"
proof -
  obtain n where n: "param_ints m ''affected_offsets'' = Inr (py_range 0 n)"
    using C1_offsets [OF assms(1,2)] by blast
  have "\<exists>r. foldr_res (c1_slot h m (clean ! i)) (clean ! i) SENSOR_SLOTS = Inr r \<and> valid_record h r"
    if "i < length clean" for i
  proof (rule c1.fold_total)
    show "valid_record h (clean ! i)" using that assms(3) by (simp add: list_all_length)
    show "distinct SENSOR_SLOTS" by (simp add: SENSOR_SLOTS_def)
    fix u slot
    assume "slot \<in> set SENSOR_SLOTS" "valid_record h u" "slot_view u slot = slot_view (clean ! i) slot"
    then show "\<exists>r. c1_slot h m (clean ! i) u slot = Inr r \<and> valid_record h r"
      using that assms by (intro c1_slot_total) (simp_all add: list_all_length)
  qed
  then show ?thesis
    unfolding C1_run [OF assms(1,2) n]
    by (intro mapr_total) (use assms(3) in \<open>auto simp: list_all_length\<close>)
qed

section \<open>C2: pixels of the shifted frame\<close>

lemma concat_map_const_length: "(\<And>x. x \<in> set xs \<Longrightarrow> length (f x) = n) \<Longrightarrow> length (concat (map f xs)) = length xs * n"
  by (induction xs) auto

lemma concat_nth:
  assumes "\<And>y. y < h \<Longrightarrow> length (f y) = n" "y < h" "k < n"
  shows "concat (map f [0..<h]) ! (y * n + k) = f y ! k"
  using assms
proof (induction h arbitrary: y)
  case (Suc h)
  have len: "length (concat (map f [0..<h])) = h * n"
    using Suc.prems(1) by (subst concat_map_const_length [where n = n]) auto
  show ?case
  proof (cases "y < h")
    case True
    have "y * n + k < h * n"
    proof -
      have "y * n + k < Suc y * n" using Suc.prems(3) by simp
      also have "\<dots> \<le> h * n" using True by (intro mult_right_mono) auto
      finally show ?thesis .
    qed
    with Suc True len show ?thesis by (simp add: nth_append)
  next
    case False
    then have "y = h" using Suc.prems(2) by simp
    with len Suc.prems show ?thesis by (simp add: nth_append)
  qed
qed simp

lemma baseline_fill_shift_pixel:
  assumes p: "nd_shape payload = [hh, ww, 3]" and b: "nd_shape baseline = [hh, ww, 3]"
    and s: "0 \<le> sx" "0 \<le> sy" and fit: "sx < int ww" "sy < int hh"
    and at: "y < hh" "x < ww" "c < 3"
  shows "\<exists>out. baseline_fill_shift payload baseline sx sy = Inr out \<and>
    nd_dtype out = nd_dtype baseline \<and> nd_shape out = [hh, ww, 3] \<and>
    at3 out y x c = (if sy \<le> int y \<and> sx \<le> int x
                     then at3 payload (y - nat sy) (x - nat sx) c else at3 baseline y x c)"
proof -
  let ?px = "\<lambda>y x c. if nat sy \<le> y \<and> nat sx \<le> x
      then at3 payload (if hh - nat sy = 1 then 0 else y - nat sy) (if ww - nat sx = 1 then 0 else x - nat sx) c
      else at3 baseline y x c"
  let ?out = "baseline\<lparr>nd_data := [?px y x c. y \<leftarrow> [0..<hh], x \<leftarrow> [0..<ww], c \<leftarrow> [0..<3]]\<rparr>"
  have run: "baseline_fill_shift payload baseline sx sy = Inr ?out"
    using fit by (simp add: baseline_fill_shift_def overlay_def dim3_def p b Let_def)
  have row: "length (concat (map (\<lambda>x. map (?px y x) [0..<3]) [0..<ww])) = ww * 3" for y
    by (subst concat_map_const_length [where n = 3]) auto
  have "at3 ?out y x c = nd_data ?out ! (y * (ww * 3) + (x * 3 + c))"
    by (simp add: at3_def b algebra_simps)
  also have "\<dots> = concat (map (\<lambda>x. map (?px y x) [0..<3]) [0..<ww]) ! (x * 3 + c)"
  proof -
    have "x * 3 + c < ww * 3" using at by linarith
    then show ?thesis using row at by (simp add: concat_nth [where n = "ww * 3"])
  qed
  also have "\<dots> = ?px y x c" using at by (simp add: concat_nth [where n = 3])
  also have "\<dots> = (if sy \<le> int y \<and> sx \<le> int x
                     then at3 payload (y - nat sy) (x - nat sx) c else at3 baseline y x c)"
    using at s fit by (auto simp: nat_le_iff)
  finally show ?thesis using run b by (intro exI [of _ ?out]) simp
qed

end
