(* ===== verification/Session_Life.thy ===== *)
theory Session_Life
  imports Replay_Fidelity Operator_Effects
begin

text \<open>
  The life of a streaming session: it opens for every valid manifest whose rest reference
  matches, advances by exactly one record per successful delivery and not at all when a
  delivery raises, and keeps a bounded cache of source records under any sequence of inputs.
\<close>

section \<open>Opening a session\<close>

lemma validate_source_ages_total:
  assumes "length sources = nat (stop - start)"
    and "\<And>k. k < nat (stop - start) \<Longrightarrow> 0 \<le> sources ! k \<and> sources ! k \<le> start + int k"
  shows "\<exists>age. validate_source_ages (py_range start stop) sources = Inr age"
proof -
  have "0 \<le> s" if "s \<in> set sources" for s
    using that assms by (metis in_set_conv_nth)
  moreover have "0 \<le> d - s" if "(d, s) \<in> set (zip (py_range start stop) sources)" for d s
  proof -
    from that obtain k where "k < nat (stop - start)" "d = start + int k" "s = sources ! k"
      using assms(1) by (auto simp: in_set_zip py_range_nth)
    with assms(2) [of k] show ?thesis by simp
  qed
  ultimately show ?thesis
    using assms(1) by (auto simp: validate_source_ages_def Let_def list_ex_iff not_less)
qed

lemma t2_source_map_ages:
  assumes "0 \<le> start" "start < stop" "1 \<le> d"
  shows "\<exists>age. validate_source_ages (py_range start stop) (t2_source_map start stop d) = Inr age"
proof (rule validate_source_ages_total)
  show "length (t2_source_map start stop d) = nat (stop - start)"
    using assms by (simp add: t2_source_map_def Let_def)
  fix k assume k: "k < nat (stop - start)"
  have "py_index (t2_source_map start stop d) (int k) = Inr (t2_source_map start stop d ! k)"
    using k \<open>length (t2_source_map start stop d) = nat (stop - start)\<close> by (subst py_index_nonneg) auto
  with t2_source_map_nth [of "int k" stop start d] k assms
  show "0 \<le> t2_source_map start stop d ! k \<and> t2_source_map start stop d ! k \<le> start + int k"
    by (auto split: if_splits)
qed

lemma t3_slot_map_ages:
  assumes "0 \<le> start" "0 \<le> skew"
  shows "\<exists>age. validate_source_ages (py_range start stop) (t3_slot_map start stop skew b) = Inr age"
  by (rule validate_source_ages_total)
     (use assms in \<open>auto simp: t3_slot_map_def py_range_nth\<close>)

lemma maximum_source_age_total:
  assumes "manifest_ok h m"
  shows "\<exists>age. maximum_source_age m = Inr age"
proof -
  note win = manifest_ok_window [OF assms]
  let ?w = "py_range (fm_start_index m) (fm_stop_index m)"
  consider "fm_operator_id m = T1_fixed_source_delay" | "fm_operator_id m = T2_held_last_freeze"
    | "fm_operator_id m = T3_inter_sensor_skew"
    | "fm_operator_id m \<notin> {T1_fixed_source_delay, T2_held_last_freeze, T3_inter_sensor_skew}" by blast
  then show ?thesis
  proof cases
    case 1
    obtain lag where lag: "param_ints m ''source_index_map'' = Inr (map (\<lambda>i. i - lag) ?w)"
      "1 \<le> lag" "lag \<le> fm_start_index m" using T1_map [OF assms 1] by blast
    have "\<exists>age. validate_source_ages ?w (map (\<lambda>i. i - lag) ?w) = Inr age"
      by (rule validate_source_ages_total) (use lag in \<open>auto simp: py_range_nth\<close>)
    with 1 lag(1) show ?thesis by (simp add: maximum_source_age_def)
  next
    case 2
    obtain k where "param_ints m ''source_index_map'' =
       Inr (t2_source_map (fm_start_index m) (fm_stop_index m) k)" "1 \<le> k"
      using T2_map [OF assms 2] by blast
    with 2 t2_source_map_ages [OF win(1,2)] show ?thesis by (simp add: maximum_source_age_def)
  next
    case 3
    obtain k where k: "1 \<le> k" and item: "\<And>slot. slot \<in> set (fm_sensor_slots m) \<Longrightarrow>
      param_item m ''source_index_map'' slot = Inr (ints (t3_slot_map (fm_start_index m)
        (fm_stop_index m) k (slot = last (fm_sensor_slots m))))"
    proof (rule T3_map [OF assms 3])
      fix k v
      assume "1 \<le> k" "\<And>slot. slot \<in> set (fm_sensor_slots m) \<Longrightarrow>
        param_item m ''source_index_map'' slot = Inr (ints (t3_slot_map (fm_start_index m)
          (fm_stop_index m) k (slot = last (fm_sensor_slots m))))"
      then show thesis by (rule that)
    qed
    have "\<exists>t. foldr_res (\<lambda>maximum slot.
        bindr (bindr (param_item m ''source_index_map'' slot) value_ints) (\<lambda>sources.
        bindr (validate_source_ages ?w sources) (\<lambda>age. Inr (max maximum age)))) 0 (fm_sensor_slots m)
        = Inr t \<and> True"
    proof (rule foldr_res_total)
      fix u :: int and slot assume slot: "slot \<in> set (fm_sensor_slots m)"
      obtain age where "validate_source_ages ?w (t3_slot_map (fm_start_index m) (fm_stop_index m) k
          (slot = last (fm_sensor_slots m))) = Inr age"
        using t3_slot_map_ages [OF win(1)] k by (metis order_trans zero_le_one)
      with item [OF slot] show "\<exists>v. bindr (bindr (param_item m ''source_index_map'' slot) value_ints)
          (\<lambda>sources. bindr (validate_source_ages ?w sources) (\<lambda>age. Inr (max u age))) = Inr v \<and> True"
        by simp
    qed simp
    with 3 show ?thesis by (simp add: maximum_source_age_def)
  next
    case 4
    then show ?thesis by (simp add: maximum_source_age_def)
  qed
qed

lemma affected_indices_total:
  assumes "manifest_ok h m"
  shows "\<exists>affected. affected_indices m = Inr affected"
proof -
  consider "fm_operator_id m = A1_stream_absence" | "fm_operator_id m = A2_frame_erasure"
    | "fm_operator_id m = C1_sensor_identity_misrouting"
    | "fm_operator_id m \<notin> {A1_stream_absence, A2_frame_erasure, C1_sensor_identity_misrouting}" by blast
  then show ?thesis
  proof cases
    case 1
    obtain n where "param_ints m ''affected_offsets'' = Inr (py_range 0 n)"
      using A1_offsets [OF assms 1] by blast
    with 1 show ?thesis by (simp add: affected_indices_def)
  next
    case 2
    obtain offs where "param_ints m ''erased_offsets'' = Inr offs"
      using A2_offsets [OF assms 2] by blast
    with 2 show ?thesis by (simp add: affected_indices_def)
  next
    case 3
    obtain n where "param_ints m ''affected_offsets'' = Inr (py_range 0 n)"
      using C1_offsets [OF assms 3] by blast
    with 3 show ?thesis by (simp add: affected_indices_def)
  next
    case 4
    then show ?thesis by (simp add: affected_indices_def)
  qed
qed

lemma session_init_total:
  assumes "manifest_ok h m" "require_rest_reference h m rest = Inr ()"
  shows "\<exists>s. session_init h m rest = Inr s"
  using maximum_source_age_total [OF assms(1)] affected_indices_total [OF assms(1)] assms(2)
  by (auto simp: session_init_def registry_loaded registry_create)

section \<open>Advancing\<close>

lemma deliver_one_dense:
  "step_of c \<noteq> ss_processed_count s \<Longrightarrow> fst (deliver_one h np s c) = s \<and> isl (snd (deliver_one h np s c))"
  by (auto simp: deliver_one_def Let_def)

lemma trim_count [simp]: "ss_processed_count (trim_source_cache s i) = ss_processed_count s"
  by (simp add: trim_source_cache_def Let_def)

lemma deliver_one_count:
  "ss_processed_count (fst (deliver_one h np s c)) =
   ss_processed_count s + (if isl (snd (deliver_one h np s c)) then 0 else 1)"
  by (auto simp: deliver_one_def Let_def split: sum.splits prod.splits)

section \<open>The bounded cache\<close>

text \<open>Every retained source lies between the current index and the registered age before the
  previous one; a delivery that raised leaves one more entry, for its own record.\<close>

definition cache_bounded :: "session \<Rightarrow> bool" where
  "cache_bounded s \<longleftrightarrow>
     0 \<le> ss_maximum_source_age s \<and> distinct (map fst (ss_source_records s)) \<and>
     (\<forall>i\<in>fst ` set (ss_source_records s).
        ss_processed_count s - 1 - ss_maximum_source_age s \<le> i \<and> i \<le> ss_processed_count s)"

lemma bounded_length:
  assumes "distinct (map fst xs)" "\<And>i. i \<in> fst ` set xs \<Longrightarrow> a \<le> i \<and> i \<le> (b::int)" "a \<le> b + 1"
  shows "int (length xs) \<le> b - a + 1"
proof -
  have sub: "fst ` set xs \<subseteq> {a..b}"
  proof
    fix i assume "i \<in> fst ` set xs"
    with assms(2) show "i \<in> {a..b}" by simp
  qed
  have "length xs = card (fst ` set xs)" using assms(1) by (metis distinct_card length_map list.set_map)
  also have "\<dots> \<le> card {a..b}" by (intro card_mono sub) simp
  finally show ?thesis using assms(3) by simp
qed

lemma cache_bounded_length:
  assumes "cache_bounded s"
  shows "int (length (ss_source_records s)) \<le> ss_maximum_source_age s + 2"
proof -
  have "int (length (ss_source_records s)) \<le>
      ss_processed_count s - (ss_processed_count s - 1 - ss_maximum_source_age s) + 1"
    using assms unfolding cache_bounded_def by (intro bounded_length) auto
  then show ?thesis by simp
qed

lemma deliver_one_cases:
  "fst (deliver_one h np s c) = s \<and> isl (snd (deliver_one h np s c)) \<or>
   step_of c = ss_processed_count s \<and>
   (\<exists>hs. fst (deliver_one h np s c) = (store_source s c)\<lparr>ss_histories := hs\<rparr> \<and>
         isl (snd (deliver_one h np s c)) \<or>
       fst (deliver_one h np s c) = trim_source_cache ((store_source s c)\<lparr>ss_histories := hs,
         ss_processed_count := ss_processed_count s + 1\<rparr>) (ss_processed_count s) \<and>
         \<not> isl (snd (deliver_one h np s c)))"
  by (auto simp: deliver_one_def Let_def store_source_def split: sum.splits prod.splits)

lemma store_source_bounded:
  assumes "cache_bounded s" "step_of c = ss_processed_count s"
  shows "cache_bounded ((store_source s c)\<lparr>ss_histories := hs\<rparr>)"
  using assms distinct_dict_set [of "ss_source_records s" "step_of c" c]
  by (auto simp: cache_bounded_def store_source_def dest!: dict_set_key)

lemma trim_bounded:
  assumes "cache_bounded s" "step_of c = ss_processed_count s" "ss_family s \<noteq> Temporal \<Longrightarrow> ss_source_records s = []"
  shows "cache_bounded (trim_source_cache ((store_source s c)\<lparr>ss_histories := hs,
      ss_processed_count := ss_processed_count s + 1\<rparr>) (ss_processed_count s))"
proof (cases "ss_family s = Temporal")
  case True
  let ?d = "dict_set (ss_processed_count s) c (ss_source_records s)"
  have "distinct (map fst ?d)" using assms(1) by (intro distinct_dict_set) (simp add: cache_bounded_def)
  moreover have le: "i \<le> ss_processed_count s + 1" if "(i, r) \<in> set ?d" for i r
    using dict_set_key [OF that] assms(1) by (fastforce simp: cache_bounded_def)
  ultimately show ?thesis
    using True assms(1,2)
    by (auto simp: cache_bounded_def trim_source_cache_def store_source_def Let_def
        intro!: distinct_filter_keys intro: le)
next
  case False
  with assms show ?thesis by (simp add: cache_bounded_def trim_source_cache_def store_source_def)
qed

definition session_live :: "session \<Rightarrow> bool" where
  "session_live s \<longleftrightarrow> cache_bounded s \<and> (ss_family s \<noteq> Temporal \<longrightarrow> ss_source_records s = [])"

lemma deliver_one_live: "session_live s \<Longrightarrow> session_live (fst (deliver_one h np s c))"
  using deliver_one_cases [of h np s c] store_source_bounded [of s c] trim_bounded [of s c]
  by (auto simp: session_live_def trim_source_cache_def store_source_def Let_def)

lemma validate_source_ages_nonneg: "validate_source_ages d sources = Inr age \<Longrightarrow> 0 \<le> age"
proof -
  assume v: "validate_source_ages d sources = Inr age"
  define ages where "ages = map (\<lambda>(d, s). d - s) (zip d sources)"
  from v have a: "age = (if ages = [] then 0 else Max (set ages))" and "\<forall>a\<in>set ages. 0 \<le> a"
    by (auto simp: validate_source_ages_def Let_def list_ex_iff not_less ages_def split: if_splits)
  then show ?thesis using Max_in [of "set ages"] by (cases "ages = []") auto
qed

lemma maximum_source_age_nonneg: "maximum_source_age m = Inr age \<Longrightarrow> 0 \<le> age"
  by (auto simp: maximum_source_age_def Let_def bindr_eq_Inr split: if_splits
      dest: validate_source_ages_nonneg dest!: T3_ages(1))

lemma session_init_live:
  assumes "session_init h m rest = Inr s"
  shows "session_live s"
proof (rule session_init_Inr [OF assms])
  fix age affected
  assume at: "session_at h m rest age affected 0 s" "ss_source_records s = []"
    and age: "spec_family (spec_of (fm_operator_id m)) = Temporal \<Longrightarrow> maximum_source_age m = Inr age"
      "spec_family (spec_of (fm_operator_id m)) \<noteq> Temporal \<Longrightarrow> age = 0"
  have "0 \<le> age" using age maximum_source_age_nonneg by fastforce
  with at show ?thesis by (simp add: session_live_def cache_bounded_def session_at_def)
qed

text \<open>The state after any sequence of inputs, accepted or not.\<close>

primrec session_after :: "hasher \<Rightarrow> numpy \<Rightarrow> session \<Rightarrow> evaluation list \<Rightarrow> session" where
  "session_after h np s [] = s"
| "session_after h np s (c # cs) = session_after h np (fst (deliver_one h np s c)) cs"

lemma session_after_live: "session_live s \<Longrightarrow> session_live (session_after h np s cs)"
  by (induction cs arbitrary: s) (auto intro: deliver_one_live)

lemma deliver_one_age: "ss_maximum_source_age (fst (deliver_one h np s c)) = ss_maximum_source_age s"
  using deliver_one_cases [of h np s c]
  by (auto simp: trim_source_cache_def store_source_def Let_def)

lemma session_after_age: "ss_maximum_source_age (session_after h np s cs) = ss_maximum_source_age s"
  by (induction cs arbitrary: s) (auto simp: deliver_one_age)

end
