(* ===== verification/Validation_Gate.thy ===== *)
theory Validation_Gate
  imports Validators Operator_Frames Session_Life
begin

text \<open>
  What the gate decides.  A check is a step on the accumulators; the locale \<open>checker\<close> states
  that a step leaves the codes empty exactly when its condition holds, and lifts that to loops.
  It is interpreted on the steps of the gate, which gives the condition a passing report stands
  for, and the converse, that operators on clean episodes satisfy it.
\<close>

section \<open>Codes and messages\<close>

lemma fail_when_codes [simp]:
  "vs_codes (fail_when c code msg st) = [] \<longleftrightarrow> \<not> c \<and> vs_codes st = []"
  by (auto simp: fail_when_def failure_def)

lemma failure_codes [simp]: "vs_codes (failure code msg st) \<noteq> []"
  by (auto simp: failure_def)

lemma fail_when_affected [simp]:
  "vs_affected (fail_when c code msg st) = vs_affected st" "vs_affected (failure code msg st) = vs_affected st"
  by (auto simp: fail_when_def failure_def)

lemma set_metric_simps [simp]:
  "vs_codes (set_metric k v st) = vs_codes st" "vs_failures (set_metric k v st) = vs_failures st"
  "vs_affected (set_metric k v st) = vs_affected st"
  by (simp_all add: set_metric_def)

text \<open>One message per code, every code once, and metrics a receipt can hold.\<close>

definition frozen_metrics :: "params \<Rightarrow> bool" where
  "frozen_metrics kvs \<longleftrightarrow> (\<forall>(k, v)\<in>set kvs. freeze_value v = Inr v)"

definition codes_ok :: "validation_state \<Rightarrow> bool" where
  "codes_ok st \<longleftrightarrow>
     distinct (vs_codes st) \<and> [] \<notin> set (vs_codes st) \<and> length (vs_failures st) = length (vs_codes st) \<and>
     frozen_metrics (vs_metrics st)"

lemma frozen_dict_set: "frozen_metrics kvs \<Longrightarrow> freeze_value v = Inr v \<Longrightarrow> frozen_metrics (dict_set k v kvs)"
  by (fastforce simp: frozen_metrics_def dest: dict_set_member)

lemma codes_ok_steps [simp, intro]:
  "codes_ok st \<Longrightarrow> code \<noteq> [] \<Longrightarrow> codes_ok (failure code msg st)"
  "codes_ok st \<Longrightarrow> code \<noteq> [] \<Longrightarrow> codes_ok (fail_when c code msg st)"
  "codes_ok st \<Longrightarrow> freeze_value v = Inr v \<Longrightarrow> codes_ok (set_metric k v st)"
  "codes_ok st \<Longrightarrow> codes_ok (st\<lparr>vs_affected := n\<rparr>)"
  by (auto simp: codes_ok_def failure_def fail_when_def set_metric_def frozen_dict_set)

section \<open>Steps and loops of checks\<close>

text \<open>A checking loop may carry other results beside the validation state; \<open>view\<close> reads the
  state.\<close>

locale checker =
  fixes view :: "'s \<Rightarrow> validation_state"
    and step :: "'s \<Rightarrow> 'x \<Rightarrow> 's result"
    and ok :: "'x \<Rightarrow> bool"
  assumes step_codes: "step st x = Inr st' \<Longrightarrow>
      vs_codes (view st') = [] \<longleftrightarrow> vs_codes (view st) = [] \<and> ok x"
    and step_keeps: "step st x = Inr st' \<Longrightarrow> codes_ok (view st) \<Longrightarrow> codes_ok (view st')"
begin

lemma loop_codes:
  "foldr_res step st xs = Inr st' \<Longrightarrow>
   vs_codes (view st') = [] \<longleftrightarrow> vs_codes (view st) = [] \<and> (\<forall>x\<in>set xs. ok x)"
proof (induction xs arbitrary: st)
  case (Cons x xs)
  from Cons.prems obtain u where u: "step st x = Inr u" "foldr_res step u xs = Inr st'"
    by (auto simp: result_simps)
  show ?case using step_codes [OF u(1)] Cons.IH [OF u(2)] by auto
qed simp

lemma loop_keeps: "foldr_res step st xs = Inr st' \<Longrightarrow> codes_ok (view st) \<Longrightarrow> codes_ok (view st')"
  by (rule foldr_res_invariant [of step st xs st' "\<lambda>st. codes_ok (view st)"]) (auto intro: step_keeps)

end

section \<open>The slots of an active record\<close>

definition slot_gate ::
    "hasher \<Rightarrow> fault_manifest \<Rightarrow> int list \<Rightarrow> int \<Rightarrow> evaluation \<Rightarrow> evaluation \<Rightarrow> string \<Rightarrow> bool" where
  "slot_gate h m availability index clean delivered slot \<longleftrightarrow>
     (\<exists>s p c same. ob_sensor (ev_observation delivered) slot = Inr s \<and>
        provenance_for delivered slot = Inr p \<and> ob_sensor (ev_observation clean) slot = Inr c \<and>
        slot_matches_clean h clean delivered slot = Inr same \<and>
        (let active = operator_name (fm_operator_id m) \<in> set (pv_active_fault_ids p);
             expected = (if fm_observability m = DECLARED then Some False
                         else if so_payload_present s then so_declared_validity c else None)
         in (same \<or> active) \<and> (active \<longrightarrow> so_declared_validity s = expected) \<and>
            (case pv_source_index p of None \<Rightarrow> True | Some i \<Rightarrow> i \<le> index) \<and>
            (so_payload s \<noteq> None \<longrightarrow> array_sha256 h (so_payload s) = pv_payload_sha256 p) \<and>
            (if index \<in> set availability
             then so_payload s = None \<and> \<not> so_payload_present s \<and> pv_source_index p = None \<and>
                  pv_source_time_s p = None \<and> pv_payload_sha256 p = None \<and>
                  so_declared_validity s = (if fm_observability m = DECLARED then Some False else None)
             else if name_starts (CHR ''A'') (fm_operator_id m) then same
             else so_payload_present s)))"

lemma slot_matches_clean_sensor:
  "slot_matches_clean h clean delivered slot = Inr b \<Longrightarrow>
   \<exists>s p. ob_sensor (ev_observation clean) slot = Inr s \<and> provenance_for clean slot = Inr p"
  by (auto simp: slot_matches_clean_def slot_delivery_hash_def result_simps)

lemma validate_slot_codes:
  assumes "validate_slot h m availability index clean delivered st slot = Inr st'"
  shows "vs_codes st' = [] \<longleftrightarrow> vs_codes st = [] \<and> slot_gate h m availability index clean delivered slot"
proof -
  obtain s where s: "ob_sensor (ev_observation delivered) slot = Inr s"
    using assms by (cases "ob_sensor (ev_observation delivered) slot") (simp_all add: validate_slot_def)
  obtain p where p: "provenance_for delivered slot = Inr p"
    using assms s by (cases "provenance_for delivered slot") (simp_all add: validate_slot_def)
  obtain same where same: "slot_matches_clean h clean delivered slot = Inr same"
    using assms s p by (cases "slot_matches_clean h clean delivered slot") (simp_all add: validate_slot_def)
  obtain c where c: "ob_sensor (ev_observation clean) slot = Inr c"
    using slot_matches_clean_sensor [OF same] by blast
  note v = s p same c
  show ?thesis
    using assms unfolding validate_slot_def slot_gate_def v bindr_simps Let_def
    by (auto split: if_splits option.splits)
qed

lemma validate_slot_keeps:
  "validate_slot h m availability index clean delivered st slot = Inr st' \<Longrightarrow> codes_ok st \<Longrightarrow> codes_ok st'"
  by (auto simp: validate_slot_def result_simps Let_def split: if_splits)

interpretation slot_check: checker "\<lambda>st. st" "validate_slot h m availability index clean delivered"
    "slot_gate h m availability index clean delivered"
  for h m availability index clean delivered
  by unfold_locales (rule validate_slot_codes validate_slot_keeps, assumption+)+

lemma validate_slot_affected:
  "validate_slot h m availability index clean delivered st slot = Inr st' \<Longrightarrow>
   vs_affected st' = vs_affected st"
  by (auto simp: validate_slot_def result_simps Let_def split: if_splits)

section \<open>Records\<close>

definition undeclared_slots :: "fault_manifest \<Rightarrow> evaluation \<Rightarrow> string list" where
  "undeclared_slots m clean =
     filter (\<lambda>slot. slot \<notin> set (fm_sensor_slots m)) (remdups (tactile_slots (ev_observation clean)))"

abbreviation content_hash :: "hasher \<Rightarrow> evaluation \<Rightarrow> string" where
  "content_hash h r \<equiv> delivered_hash h (ev_observation r) (ev_provenance r)"

definition record_gate ::
    "hasher \<Rightarrow> fault_manifest \<Rightarrow> int list \<Rightarrow> nat \<times> evaluation \<times> evaluation \<Rightarrow> bool" where
  "record_gate h m availability item \<longleftrightarrow>
     (case item of (i, clean, delivered) \<Rightarrow>
        ev_clean_record_sha256 delivered = content_hash h clean \<and>
        content_hash h delivered = ev_delivered_record_sha256 delivered \<and>
        (if \<not> manifest_active m (int i) then content_hash h delivered = content_hash h clean
         else non_tactile_hash h delivered = non_tactile_hash h clean \<and>
              (\<forall>slot\<in>set (undeclared_slots m clean). slot_matches_clean h clean delivered slot = Inr True) \<and>
              (\<forall>slot\<in>set (fm_sensor_slots m).
                 slot_gate h m availability (int i) clean delivered slot)))"

definition undeclared_step ::
    "hasher \<Rightarrow> evaluation \<Rightarrow> evaluation \<Rightarrow> validation_state \<Rightarrow> string \<Rightarrow> validation_state result" where
  "undeclared_step h clean delivered st slot =
     bindr (slot_matches_clean h clean delivered slot) (\<lambda>same.
     Inr (fail_when (\<not> same) ''WRITE_SET_VIOLATION'' ''operator changed an undeclared tactile slot'' st))"

interpretation undeclared_check: checker "\<lambda>st. st" "undeclared_step h clean delivered"
    "\<lambda>slot. slot_matches_clean h clean delivered slot = Inr True"
  for h clean delivered
  by unfold_locales (auto simp: undeclared_step_def result_simps)

lemma validate_record_active:
  assumes "manifest_active m (int i)"
  shows "validate_record h m availability st (i, clean, delivered) =
    (let st0 = fail_when (ev_clean_record_sha256 delivered \<noteq> content_hash h clean)
           ''CLEAN_REFERENCE_MISMATCH''
           (''record '' @ int_text (int i) @ '' does not reference its paired clean record'') st;
         st1 = fail_when (content_hash h delivered \<noteq> ev_delivered_record_sha256 delivered)
           ''STALE_DELIVERED_HASH''
           (''record '' @ int_text (int i) @ '' has a cached hash that disagrees with its content'') st0;
         st2 = (if content_hash h delivered \<noteq> content_hash h clean
                then st1\<lparr>vs_affected := vs_affected st1 + 1\<rparr> else st1);
         st3 = fail_when (non_tactile_hash h delivered \<noteq> non_tactile_hash h clean) ''WRITE_SET_VIOLATION''
           ''tactile operator changed vision, proprioception, or episode metadata'' st2
     in bindr (foldr_res (undeclared_step h clean delivered) st3 (undeclared_slots m clean)) (\<lambda>st.
        foldr_res (validate_slot h m availability (int i) clean delivered) st (fm_sensor_slots m)))"
  using assms
  by (simp add: validate_record_def undeclared_step_def [abs_def] undeclared_slots_def Let_def)

lemma validate_record_inactive:
  assumes "\<not> manifest_active m (int i)"
  shows "validate_record h m availability st (i, clean, delivered) =
    Inr (fail_when (content_hash h delivered \<noteq> content_hash h clean) ''OUTSIDE_WINDOW_CHANGED''
           (''record '' @ int_text (int i) @ '' changed outside the registered window'')
        (fail_when (content_hash h delivered \<noteq> ev_delivered_record_sha256 delivered)
           ''STALE_DELIVERED_HASH''
           (''record '' @ int_text (int i) @ '' has a cached hash that disagrees with its content'')
        (fail_when (ev_clean_record_sha256 delivered \<noteq> content_hash h clean)
           ''CLEAN_REFERENCE_MISMATCH''
           (''record '' @ int_text (int i) @ '' does not reference its paired clean record'') st)))"
  using assms by (simp add: validate_record_def Let_def)

lemma affected_codes [simp]:
  "vs_codes (if c then st\<lparr>vs_affected := n\<rparr> else st) = vs_codes st"
  by simp

lemma validate_record_step:
  assumes "validate_record h m availability st item = Inr st'"
  shows "vs_codes st' = [] \<longleftrightarrow> vs_codes st = [] \<and> record_gate h m availability item"
    and "codes_ok st \<Longrightarrow> codes_ok st'"
    and "vs_affected st' = vs_affected st + (case item of (i, clean, delivered) \<Rightarrow>
      if manifest_active m (int i) \<and> content_hash h delivered \<noteq> content_hash h clean then 1 else 0)"
proof -
  obtain i clean delivered where item: "item = (i, clean, delivered)" by (cases item) auto
  have "(vs_codes st' = [] \<longleftrightarrow> vs_codes st = [] \<and> record_gate h m availability item) \<and>
    (codes_ok st \<longrightarrow> codes_ok st') \<and>
    vs_affected st' = vs_affected st + (case item of (i, clean, delivered) \<Rightarrow>
      if manifest_active m (int i) \<and> content_hash h delivered \<noteq> content_hash h clean then 1 else 0)"
  proof (cases "manifest_active m (int i)")
    case False
    with assms show ?thesis
      unfolding item validate_record_inactive [OF False] record_gate_def by auto
  next
    case True
    from assms [unfolded item validate_record_active [OF True] Let_def bindr_eq_Inr] obtain st4 where
      u: "foldr_res (undeclared_step h clean delivered)
        (fail_when (non_tactile_hash h delivered \<noteq> non_tactile_hash h clean) ''WRITE_SET_VIOLATION''
           ''tactile operator changed vision, proprioception, or episode metadata''
         (if content_hash h delivered \<noteq> content_hash h clean
          then (fail_when (content_hash h delivered \<noteq> ev_delivered_record_sha256 delivered)
             ''STALE_DELIVERED_HASH''
             (''record '' @ int_text (int i) @ '' has a cached hash that disagrees with its content'')
             (fail_when (ev_clean_record_sha256 delivered \<noteq> content_hash h clean)
             ''CLEAN_REFERENCE_MISMATCH''
             (''record '' @ int_text (int i) @ '' does not reference its paired clean record'') st))
             \<lparr>vs_affected := vs_affected (fail_when (content_hash h delivered \<noteq> ev_delivered_record_sha256 delivered)
             ''STALE_DELIVERED_HASH''
             (''record '' @ int_text (int i) @ '' has a cached hash that disagrees with its content'')
             (fail_when (ev_clean_record_sha256 delivered \<noteq> content_hash h clean)
             ''CLEAN_REFERENCE_MISMATCH''
             (''record '' @ int_text (int i) @ '' does not reference its paired clean record'') st)) + 1\<rparr>
          else fail_when (content_hash h delivered \<noteq> ev_delivered_record_sha256 delivered)
             ''STALE_DELIVERED_HASH''
             (''record '' @ int_text (int i) @ '' has a cached hash that disagrees with its content'')
             (fail_when (ev_clean_record_sha256 delivered \<noteq> content_hash h clean)
             ''CLEAN_REFERENCE_MISMATCH''
             (''record '' @ int_text (int i) @ '' does not reference its paired clean record'') st)))
        (undeclared_slots m clean) = Inr st4"
      and v: "foldr_res (validate_slot h m availability (int i) clean delivered) st4 (fm_sensor_slots m) =
        Inr st'" by blast
    have "vs_affected st' = vs_affected st4"
      by (rule foldr_res_invariant [OF v]) (auto dest: validate_slot_affected)
    moreover have "vs_affected st4 = vs_affected st + (if content_hash h delivered \<noteq> content_hash h clean then 1 else 0)"
      by (rule foldr_res_invariant [OF u]) (auto simp: undeclared_step_def result_simps)
    ultimately show ?thesis
      using True undeclared_check.loop_codes [OF u] slot_check.loop_codes [OF v]
        undeclared_check.loop_keeps [OF u] slot_check.loop_keeps [OF v]
      unfolding item record_gate_def by auto
  qed
  then show "vs_codes st' = [] \<longleftrightarrow> vs_codes st = [] \<and> record_gate h m availability item"
    "codes_ok st \<Longrightarrow> codes_ok st'"
    "vs_affected st' = vs_affected st + (case item of (i, clean, delivered) \<Rightarrow>
      if manifest_active m (int i) \<and> content_hash h delivered \<noteq> content_hash h clean then 1 else 0)"
    by auto
qed

interpretation record_check: checker "\<lambda>st. st" "validate_record h m availability" "record_gate h m availability"
  for h m availability
  by unfold_locales (rule validate_record_step, assumption+)+

lemma validate_records_affected:
  assumes "foldr_res (validate_record h m availability) st items = Inr st'"
  shows "vs_affected st' = vs_affected st + int (length (filter (\<lambda>(i, clean, delivered).
    manifest_active m (int i) \<and> content_hash h delivered \<noteq> content_hash h clean) items))"
  using assms
proof (induction items arbitrary: st)
  case (Cons x xs)
  from Cons.prems obtain u where u: "validate_record h m availability st x = Inr u"
    "foldr_res (validate_record h m availability) u xs = Inr st'"
    by (auto simp: result_simps)
  show ?case using validate_record_step(3) [OF u(1)] Cons.IH [OF u(2)] by (auto split: prod.splits)
qed simp

end
