(* ===== verification/Semantic_Gate.thy ===== *)
theory Semantic_Gate
  imports Validation_Gate
begin

text \<open>
  What the operator predicates of \<open>operator_validators.py\<close> accept: each loop is a \<open>checker\<close>, so
  the state keeps one message per code, and it stays without a code exactly when every routed
  slot satisfies its gate.  A gate also promises that its check returns, so an accepted
  delivery raises nowhere.
\<close>

lemma foldr_res_returns:
  "(\<And>u x. x \<in> set xs \<Longrightarrow> \<exists>v. f u x = Inr v) \<Longrightarrow> \<exists>t. foldr_res f s xs = Inr t"
  using foldr_res_total [of "\<lambda>_. True" s xs f] by simp

locale total_checker = checker +
  assumes step_total: "ok x \<Longrightarrow> \<exists>st'. step st x = Inr st'"
begin

lemma loop_total: "\<forall>x\<in>set xs. ok x \<Longrightarrow> \<exists>st'. foldr_res step st xs = Inr st'"
  by (rule foldr_res_returns) (use step_total in blast)

end

section \<open>Routed sources\<close>

definition routed_gate ::
    "evaluation list \<Rightarrow> evaluation \<Rightarrow> string \<Rightarrow> int \<Rightarrow> string \<Rightarrow> bool" where
  "routed_gate clean delivered target source_index source_slot \<longleftrightarrow>
     (\<exists>p c q. provenance_for delivered target = Inr p \<and> py_index clean source_index = Inr c \<and>
        provenance_for c source_slot = Inr q \<and> pv_source_index p = Some source_index \<and>
        pv_source_time_s p = pv_source_time_s q \<and> pv_payload_sha256 p = pv_payload_sha256 q \<and>
        pv_physical_source_id p = pv_physical_source_id q)"

lemma routed_codes:
  "validate_routed_source clean d target i slot st = Inr st' \<Longrightarrow>
   vs_codes st' = [] \<longleftrightarrow> vs_codes st = [] \<and> routed_gate clean d target i slot"
  by (auto simp: validate_routed_source_def routed_gate_def result_simps)

lemma routed_keeps:
  "validate_routed_source clean d target i slot st = Inr st' \<Longrightarrow> codes_ok st \<Longrightarrow> codes_ok st'"
  by (auto simp: validate_routed_source_def result_simps)

lemma routed_total:
  "routed_gate clean d target i slot \<Longrightarrow> \<exists>st'. validate_routed_source clean d target i slot st = Inr st'"
  by (auto simp: validate_routed_source_def routed_gate_def)

section \<open>T1\<close>

definition fixed_step ::
    "evaluation list \<Rightarrow> evaluation list \<Rightarrow> int list \<Rightarrow> nat \<times> int \<Rightarrow> validation_state \<Rightarrow> string \<Rightarrow>
     validation_state result" where
  "fixed_step clean delivered source_map item st slot =
     bindr (py_index delivered (snd item)) (\<lambda>d.
     bindr (provenance_for d slot) (\<lambda>p.
     bindr (py_index source_map (int (fst item))) (\<lambda>source.
     if pv_source_index p \<noteq> Some source
     then Inr (failure ''SOURCE_PAYLOAD_MISMATCH''
            ''T1 source index does not match the registered payload lag'' st)
     else validate_routed_source clean d slot source slot st)))"

definition fixed_gate ::
    "evaluation list \<Rightarrow> evaluation list \<Rightarrow> int list \<Rightarrow> nat \<times> int \<Rightarrow> string \<Rightarrow> bool" where
  "fixed_gate clean delivered source_map item slot \<longleftrightarrow>
     (\<exists>d source. py_index delivered (snd item) = Inr d \<and> py_index source_map (int (fst item)) = Inr source \<and>
        routed_gate clean d slot source slot)"

interpretation fixed_slot: total_checker "\<lambda>st. st" "fixed_step clean delivered source_map item"
    "fixed_gate clean delivered source_map item"
  for clean delivered source_map item
proof
  fix st slot st'
  assume run: "fixed_step clean delivered source_map item st slot = Inr st'"
  then obtain d p source where v: "py_index delivered (snd item) = Inr d" "provenance_for d slot = Inr p"
    "py_index source_map (int (fst item)) = Inr source"
    by (auto simp: fixed_step_def result_simps simp del: split_paired_Ex)
  show "vs_codes st' = [] \<longleftrightarrow> vs_codes st = [] \<and> fixed_gate clean delivered source_map item slot"
    using run v routed_codes [of clean d slot source slot st st']
    by (auto simp: fixed_step_def fixed_gate_def routed_gate_def split: if_splits)
  show "codes_ok st \<Longrightarrow> codes_ok st'"
    using run v routed_keeps [of clean d slot source slot st st']
    by (auto simp: fixed_step_def split: if_splits)
next
  fix st slot
  assume "fixed_gate clean delivered source_map item slot"
  then obtain d source p where v: "py_index delivered (snd item) = Inr d"
    "py_index source_map (int (fst item)) = Inr source" "routed_gate clean d slot source slot"
    "provenance_for d slot = Inr p"
    by (auto simp: fixed_gate_def routed_gate_def)
  then show "\<exists>st'. fixed_step clean delivered source_map item st slot = Inr st'"
    using routed_total [OF v(3), of st] by (simp add: fixed_step_def)
qed

interpretation fixed_check: total_checker "\<lambda>st. st"
    "\<lambda>st item. foldr_res (fixed_step clean delivered source_map item) st slots"
    "\<lambda>item. \<forall>slot\<in>set slots. fixed_gate clean delivered source_map item slot"
  for clean delivered source_map slots
  by unfold_locales (rule fixed_slot.loop_codes fixed_slot.loop_keeps fixed_slot.loop_total, assumption+)+

lemma validate_fixed_delay_run:
  "validate_fixed_delay clean delivered m st = bindr (param_ints m ''source_index_map'') (\<lambda>source_map.
     foldr_res (\<lambda>st item. foldr_res (fixed_step clean delivered source_map item) st (fm_sensor_slots m))
       st (enumerate 0 (window_range m delivered)))"
  by (simp add: validate_fixed_delay_def fixed_step_def [abs_def] case_prod_beta')

lemma validate_fixed_delay_codes:
  assumes "validate_fixed_delay clean delivered m st = Inr st'" "param_ints m ''source_index_map'' = Inr smap"
  shows "vs_codes st' = [] \<longleftrightarrow> vs_codes st = [] \<and>
    (\<forall>item\<in>set (enumerate 0 (window_range m delivered)). \<forall>slot\<in>set (fm_sensor_slots m).
       fixed_gate clean delivered smap item slot)"
  using assms fixed_check.loop_codes by (simp add: validate_fixed_delay_run)

lemma validate_fixed_delay_keeps:
  "validate_fixed_delay clean delivered m st = Inr st' \<Longrightarrow> codes_ok st \<Longrightarrow> codes_ok st'"
  by (auto simp: validate_fixed_delay_run result_simps dest: fixed_check.loop_keeps)

section \<open>T2\<close>

definition held_step ::
    "evaluation list \<Rightarrow> evaluation list \<Rightarrow> int \<Rightarrow> string \<Rightarrow> validation_state \<Rightarrow> int \<Rightarrow>
     validation_state result" where
  "held_step clean delivered held_index slot st index =
     bindr (py_index delivered index) (\<lambda>d. validate_routed_source clean d slot held_index slot st)"

definition same_step ::
    "hasher \<Rightarrow> string \<Rightarrow> evaluation list \<Rightarrow> evaluation list \<Rightarrow> string \<Rightarrow> validation_state \<Rightarrow> int \<Rightarrow>
     validation_state result" where
  "same_step h message clean delivered slot st index =
     bindr (py_index clean index) (\<lambda>c. bindr (py_index delivered index) (\<lambda>d.
     bindr (slot_matches_clean h c d slot) (\<lambda>same.
     Inr (fail_when (\<not> same) ''NATIVE_FOOTPRINT_VIOLATION'' message st))))"

definition same_gate ::
    "hasher \<Rightarrow> evaluation list \<Rightarrow> evaluation list \<Rightarrow> string \<Rightarrow> int \<Rightarrow> bool" where
  "same_gate h clean delivered slot index \<longleftrightarrow>
     (\<exists>c d. py_index clean index = Inr c \<and> py_index delivered index = Inr d \<and>
        slot_matches_clean h c d slot = Inr True)"

interpretation held_loop: total_checker "\<lambda>st. st" "held_step clean delivered held_index slot"
    "\<lambda>index. \<exists>d. py_index delivered index = Inr d \<and> routed_gate clean d slot held_index slot"
  for clean delivered held_index slot
  by unfold_locales (auto simp: held_step_def result_simps dest: routed_codes intro: routed_keeps routed_total)

interpretation same_loop: total_checker "\<lambda>st. st" "same_step h message clean delivered slot"
    "same_gate h clean delivered slot"
  for h message clean delivered slot
  by unfold_locales (auto simp: same_step_def same_gate_def result_simps)

definition freeze_stop :: "fault_manifest \<Rightarrow> int \<Rightarrow> int" where
  "freeze_stop m duration = min (fm_stop_index m) (fm_start_index m + duration)"

definition held_range :: "fault_manifest \<Rightarrow> int \<Rightarrow> evaluation list \<Rightarrow> int list" where
  "held_range m duration delivered =
     py_range (fm_start_index m) (min (freeze_stop m duration) (int (length delivered)))"

definition source_indices ::
    "evaluation list \<Rightarrow> string \<Rightarrow> int list \<Rightarrow> int option list result" where
  "source_indices delivered slot indices =
     mapr (\<lambda>index. bindr (py_index delivered index) (\<lambda>d.
       bindr (provenance_for d slot) (\<lambda>p. Inr (pv_source_index p)))) indices"

definition released_range :: "fault_manifest \<Rightarrow> int \<Rightarrow> evaluation list \<Rightarrow> int list" where
  "released_range m duration delivered =
     py_range (freeze_stop m duration) (min (fm_stop_index m) (int (length delivered)))"

definition held_slot_step ::
    "hasher \<Rightarrow> evaluation list \<Rightarrow> evaluation list \<Rightarrow> fault_manifest \<Rightarrow> int \<Rightarrow> int \<Rightarrow> validation_state \<Rightarrow> string \<Rightarrow>
     validation_state result" where
  "held_slot_step h clean delivered m duration held_index st slot =
     bindr (source_indices delivered slot (held_range m duration delivered)) (\<lambda>indices.
     bindr (foldr_res (held_step clean delivered held_index slot)
              (fail_when (length (remdups indices) \<noteq> 1) ''FREEZE_NOT_HELD''
                 ''T2 source index advanced during freeze'' st)
              (held_range m duration delivered)) (\<lambda>st.
     foldr_res (same_step h ''T2 continued holding after its registered duration'' clean delivered slot) st
       (released_range m duration delivered)))"

definition held_slot_gate ::
    "hasher \<Rightarrow> evaluation list \<Rightarrow> evaluation list \<Rightarrow> fault_manifest \<Rightarrow> int \<Rightarrow> int \<Rightarrow> string \<Rightarrow> bool" where
  "held_slot_gate h clean delivered m duration held_index slot \<longleftrightarrow>
     held_range m duration delivered \<noteq> [] \<and>
     (\<forall>index\<in>set (held_range m duration delivered).
        \<exists>d. py_index delivered index = Inr d \<and> routed_gate clean d slot held_index slot) \<and>
     (\<forall>index\<in>set (released_range m duration delivered). same_gate h clean delivered slot index)"

lemma source_indices_held:
  assumes "source_indices delivered slot xs = Inr indices"
    "\<forall>index\<in>set xs. \<exists>d. py_index delivered index = Inr d \<and> routed_gate clean d slot held_index slot"
  shows "indices = map (\<lambda>_. Some held_index) xs"
  using assms unfolding source_indices_def
  by (induction xs arbitrary: indices) (auto simp: result_simps routed_gate_def)

lemma held_distinct:
  "length (remdups (map (\<lambda>_. y) xs)) = 1 \<longleftrightarrow> xs \<noteq> []"
  by (cases xs) (auto simp: length_remdups_card_conv image_constant_conv)

interpretation held_slot: total_checker "\<lambda>st. st" "held_slot_step h clean delivered m duration held_index"
    "held_slot_gate h clean delivered m duration held_index"
  for h clean delivered m duration held_index
proof
  fix st slot st'
  assume "held_slot_step h clean delivered m duration held_index st slot = Inr st'"
  then obtain indices st1 where i: "source_indices delivered slot (held_range m duration delivered) = Inr indices"
    and a: "foldr_res (held_step clean delivered held_index slot)
              (fail_when (length (remdups indices) \<noteq> 1) ''FREEZE_NOT_HELD''
                 ''T2 source index advanced during freeze'' st) (held_range m duration delivered) = Inr st1"
    and b: "foldr_res (same_step h ''T2 continued holding after its registered duration'' clean delivered slot)
              st1 (released_range m duration delivered) = Inr st'"
    unfolding held_slot_step_def bindr_eq_Inr by blast
  show "vs_codes st' = [] \<longleftrightarrow> vs_codes st = [] \<and> held_slot_gate h clean delivered m duration held_index slot"
    using held_loop.loop_codes [OF a] same_loop.loop_codes [OF b]
      source_indices_held [OF i, of clean held_index]
      held_distinct [of "Some held_index" "held_range m duration delivered"]
    unfolding held_slot_gate_def fail_when_codes by argo
  show "codes_ok st \<Longrightarrow> codes_ok st'"
    using held_loop.loop_keeps [OF a] same_loop.loop_keeps [OF b] by blast
next
  fix st slot
  assume gate: "held_slot_gate h clean delivered m duration held_index slot"
  have "\<exists>indices. source_indices delivered slot (held_range m duration delivered) = Inr indices \<and>
      list_all (\<lambda>_. True) indices"
    unfolding source_indices_def
    by (rule mapr_total) (use gate in \<open>auto simp: held_slot_gate_def routed_gate_def\<close>)
  then obtain indices where i: "source_indices delivered slot (held_range m duration delivered) = Inr indices"
    by blast
  obtain st1 where a: "foldr_res (held_step clean delivered held_index slot)
      (fail_when (length (remdups indices) \<noteq> 1) ''FREEZE_NOT_HELD''
         ''T2 source index advanced during freeze'' st) (held_range m duration delivered) = Inr st1"
    using gate held_loop.loop_total unfolding held_slot_gate_def by metis
  obtain st2 where "foldr_res (same_step h ''T2 continued holding after its registered duration'' clean delivered slot)
      st1 (released_range m duration delivered) = Inr st2"
    using gate same_loop.loop_total unfolding held_slot_gate_def by metis
  with i a show "\<exists>st'. held_slot_step h clean delivered m duration held_index st slot = Inr st'"
    by (simp add: held_slot_step_def)
qed

lemma validate_held_last_run:
  "validate_held_last h clean delivered m st =
     bindr (param_int m ''hold_duration_frames'') (\<lambda>duration.
     bindr (param_int m ''held_source_index'') (\<lambda>held_index.
       foldr_res (held_slot_step h clean delivered m duration held_index) st (fm_sensor_slots m)))"
  by (simp add: validate_held_last_def held_slot_step_def [abs_def] held_step_def [abs_def]
      same_step_def [abs_def] source_indices_def held_range_def released_range_def freeze_stop_def Let_def)

lemma validate_held_last_codes:
  assumes "validate_held_last h clean delivered m st = Inr st'"
    "param_int m ''hold_duration_frames'' = Inr duration" "param_int m ''held_source_index'' = Inr held_index"
  shows "vs_codes st' = [] \<longleftrightarrow> vs_codes st = [] \<and>
    (\<forall>slot\<in>set (fm_sensor_slots m). held_slot_gate h clean delivered m duration held_index slot)"
  using assms held_slot.loop_codes by (simp add: validate_held_last_run)

lemma validate_held_last_keeps:
  "validate_held_last h clean delivered m st = Inr st' \<Longrightarrow> codes_ok st \<Longrightarrow> codes_ok st'"
  by (auto simp: validate_held_last_run result_simps dest: held_slot.loop_keeps)

section \<open>T3\<close>

definition skew_slot_step ::
    "evaluation list \<Rightarrow> fault_manifest \<Rightarrow> int \<Rightarrow> evaluation \<Rightarrow> validation_state \<Rightarrow> string \<Rightarrow>
     validation_state result" where
  "skew_slot_step clean m index d st slot =
     bindr (t3_source_index m slot (index - fm_start_index m)) (\<lambda>source.
     validate_routed_source clean d slot source slot st)"

interpretation skew_slot: total_checker "\<lambda>st. st" "skew_slot_step clean m index d"
    "\<lambda>slot. \<exists>source. t3_source_index m slot (index - fm_start_index m) = Inr source \<and>
       routed_gate clean d slot source slot"
  for clean m index d
  by unfold_locales (auto simp: skew_slot_step_def result_simps dest: routed_codes intro: routed_keeps routed_total)

definition slot_sources :: "fault_manifest \<Rightarrow> evaluation \<Rightarrow> int option list result" where
  "slot_sources m d =
     mapr (\<lambda>slot. bindr (provenance_for d slot) (\<lambda>p. Inr (pv_source_index p))) (fm_sensor_slots m)"

definition spread :: "int option list \<Rightarrow> int" where
  "spread indices = Max (set (map the indices)) - Min (set (map the indices))"

definition skew_step ::
    "evaluation list \<Rightarrow> evaluation list \<Rightarrow> fault_manifest \<Rightarrow> validation_state \<times> int list \<Rightarrow> int \<Rightarrow>
     (validation_state \<times> int list) result" where
  "skew_step clean delivered m acc index =
     bindr (py_index delivered index) (\<lambda>d. bindr (slot_sources m d) (\<lambda>indices.
       if None \<in> set indices
       then Inr (failure ''SOURCE_INDEX_MISMATCH''
              ''T3 requires a concrete source index on every routed stream'' (fst acc), snd acc)
       else bindr (foldr_res (skew_slot_step clean m index d) (fst acc) (fm_sensor_slots m)) (\<lambda>st.
              Inr (st, snd acc @ [spread indices]))))"

definition skew_gate ::
    "evaluation list \<Rightarrow> evaluation list \<Rightarrow> fault_manifest \<Rightarrow> int \<Rightarrow> bool" where
  "skew_gate clean delivered m index \<longleftrightarrow>
     (\<exists>d. py_index delivered index = Inr d \<and>
        (\<forall>slot\<in>set (fm_sensor_slots m). \<exists>source.
           t3_source_index m slot (index - fm_start_index m) = Inr source \<and>
           routed_gate clean d slot source slot))"

lemma slot_sources_routed:
  assumes "slot_sources m d = Inr indices"
    "\<forall>slot\<in>set (fm_sensor_slots m). \<exists>source. P slot source \<and> routed_gate clean d slot source slot"
  shows "None \<notin> set indices"
proof
  assume "None \<in> set indices"
  then obtain i where "i < length indices" "indices ! i = None" by (auto simp: in_set_conv_nth)
  with mapr_nth [OF assms(1) [unfolded slot_sources_def], of i]
    mapr_length [OF assms(1) [unfolded slot_sources_def]] assms(2)
  show False by (force simp: result_simps routed_gate_def dest: nth_mem)
qed

interpretation skew_loop: total_checker fst "skew_step clean delivered m" "skew_gate clean delivered m"
  for clean delivered m
proof
  fix acc :: "validation_state \<times> int list" and index acc'
  assume run: "skew_step clean delivered m acc index = Inr acc'"
  then obtain d indices where d: "py_index delivered index = Inr d" "slot_sources m d = Inr indices"
    unfolding skew_step_def bindr_eq_Inr by blast
  show "vs_codes (fst acc') = [] \<longleftrightarrow> vs_codes (fst acc) = [] \<and> skew_gate clean delivered m index"
  proof (cases "None \<in> set indices")
    case True
    with d run slot_sources_routed [OF d(2)] show ?thesis
      unfolding skew_step_def skew_gate_def by auto
  next
    case False
    with d run obtain st where "foldr_res (skew_slot_step clean m index d) (fst acc) (fm_sensor_slots m) = Inr st"
      "acc' = (st, snd acc @ [spread indices])"
      by (auto simp: skew_step_def result_simps)
    with d skew_slot.loop_codes [of clean m index d "fst acc" "fm_sensor_slots m" st] show ?thesis
      by (simp add: skew_gate_def)
  qed
  show "codes_ok (fst acc) \<Longrightarrow> codes_ok (fst acc')"
    using run d by (auto simp: skew_step_def result_simps dest: skew_slot.loop_keeps split: if_splits)
next
  fix acc :: "validation_state \<times> int list" and index
  assume gate: "skew_gate clean delivered m index"
  then obtain d where d: "py_index delivered index = Inr d" and routed: "\<forall>slot\<in>set (fm_sensor_slots m). \<exists>source.
      t3_source_index m slot (index - fm_start_index m) = Inr source \<and> routed_gate clean d slot source slot"
    unfolding skew_gate_def by blast
  have "\<exists>indices. slot_sources m d = Inr indices \<and> list_all (\<lambda>_. True) indices"
    unfolding slot_sources_def
    by (rule mapr_total) (use routed in \<open>auto simp: routed_gate_def\<close>)
  then obtain indices where i: "slot_sources m d = Inr indices" by blast
  obtain st where "foldr_res (skew_slot_step clean m index d) (fst acc) (fm_sensor_slots m) = Inr st"
    using skew_slot.loop_total [OF routed] by blast
  with d i show "\<exists>acc'. skew_step clean delivered m acc index = Inr acc'" by (simp add: skew_step_def)
qed

lemma validate_inter_sensor_skew_run:
  "validate_inter_sensor_skew clean delivered m st =
     bindr (ditem (fm_parameters m) ''source_index_map'') (\<lambda>_.
     bindr (foldr_res (skew_step clean delivered m) (st, []) (window_range m delivered)) (\<lambda>(st, gaps).
     Inr (fail_when (gaps = [] \<or> (if gaps = [] then 0 else Max (set gaps)) \<le> 0) ''NO_INTER_SENSOR_SKEW''
            ''T3 produced no source skew''
           (set_metric ''max_source_index_skew'' (PInt (if gaps = [] then 0 else Max (set gaps))) st))))"
  unfolding validate_inter_sensor_skew_def skew_step_def [abs_def] skew_slot_step_def [abs_def]
    slot_sources_def spread_def Let_def case_prod_beta' ..

text \<open>The collected gaps.\<close>

definition skew_gap :: "evaluation list \<Rightarrow> fault_manifest \<Rightarrow> int \<Rightarrow> int" where
  "skew_gap delivered m index = spread (projr (slot_sources m (projr (py_index delivered index))))"

lemma skew_loop_gaps:
  assumes "foldr_res (skew_step clean delivered m) acc xs = Inr acc'" "vs_codes (fst acc') = []"
  shows "snd acc' = snd acc @ map (skew_gap delivered m) xs"
  using assms
proof (induction xs arbitrary: acc)
  case (Cons x xs)
  from Cons.prems(1) obtain u where u: "skew_step clean delivered m acc x = Inr u"
    "foldr_res (skew_step clean delivered m) u xs = Inr acc'"
    by (auto simp: result_simps)
  then have "vs_codes (fst u) = []" using skew_loop.loop_codes [OF u(2)] Cons.prems(2) by blast
  with u(1) have "snd u = snd acc @ [skew_gap delivered m x]"
    by (auto simp: skew_step_def skew_gap_def result_simps split: if_splits)
  with Cons.IH [OF u(2) Cons.prems(2)] show ?case by simp
qed simp

lemma validate_inter_sensor_skew_codes:
  assumes "validate_inter_sensor_skew clean delivered m st = Inr st'"
  shows "vs_codes st' = [] \<longleftrightarrow> vs_codes st = [] \<and>
    (\<forall>index\<in>set (window_range m delivered). skew_gate clean delivered m index) \<and>
    (\<exists>index\<in>set (window_range m delivered). 0 < skew_gap delivered m index)"
proof -
  obtain a gaps where u: "foldr_res (skew_step clean delivered m) (st, []) (window_range m delivered) = Inr (a, gaps)"
    and st': "vs_codes st' = [] \<longleftrightarrow> vs_codes a = [] \<and> gaps \<noteq> [] \<and> 0 < Max (set gaps)"
  proof -
    from assms obtain a gaps where
      "foldr_res (skew_step clean delivered m) (st, []) (window_range m delivered) = Inr (a, gaps)"
      "st' = fail_when (gaps = [] \<or> (if gaps = [] then 0 else Max (set gaps)) \<le> 0) ''NO_INTER_SENSOR_SKEW''
            ''T3 produced no source skew''
           (set_metric ''max_source_index_skew'' (PInt (if gaps = [] then 0 else Max (set gaps))) a)"
      unfolding validate_inter_sensor_skew_run bindr_eq_Inr by (auto simp: Let_def)
    then show thesis by (intro that) (auto simp: not_le)
  qed
  have "vs_codes a = [] \<Longrightarrow> gaps = map (skew_gap delivered m) (window_range m delivered)"
    using skew_loop_gaps [OF u] by simp
  moreover have "gaps \<noteq> [] \<and> 0 < Max (set gaps) \<longleftrightarrow> (\<exists>g\<in>set gaps. 0 < g)"
    using Max_gr_iff [of "set gaps" 0] by (cases "gaps = []") auto
  ultimately show ?thesis
    using st' skew_loop.loop_codes [OF u] by auto
qed

lemma validate_inter_sensor_skew_keeps:
  "validate_inter_sensor_skew clean delivered m st = Inr st' \<Longrightarrow> codes_ok st \<Longrightarrow> codes_ok st'"
  by (auto simp: validate_inter_sensor_skew_run result_simps dest: skew_loop.loop_keeps)

section \<open>C1\<close>

lemma foldr_res_sum:
  fixes c :: "'s \<Rightarrow> int"
  assumes "foldr_res f s xs = Inr t" "\<And>s x t. f s x = Inr t \<Longrightarrow> c t = c s + w x"
  shows "c t = c s + sum_list (map w xs)"
  using assms(1)
proof (induction xs arbitrary: s)
  case (Cons x xs)
  then obtain u where "f s x = Inr u" "foldr_res f u xs = Inr t" by (auto simp: result_simps)
  with Cons.IH [of u] assms(2) show ?case by simp
qed simp

definition source_differs :: "evaluation list \<Rightarrow> int \<Rightarrow> string \<Rightarrow> bool" where
  "source_differs delivered index slot \<longleftrightarrow>
     (\<exists>d p. py_index delivered index = Inr d \<and> provenance_for d slot = Inr p \<and>
        pv_physical_source_id p \<noteq> slot)"

definition misroute_slot_step ::
    "evaluation list \<Rightarrow> evaluation list \<Rightarrow> fault_manifest \<Rightarrow> int \<Rightarrow> validation_state \<times> int \<Rightarrow> string \<Rightarrow>
     (validation_state \<times> int) result" where
  "misroute_slot_step clean delivered m index acc slot =
     bindr (bindr (param_item m ''route_map'' slot) route_target) (\<lambda>source_slot.
     bindr (py_index delivered index) (\<lambda>d.
     bindr (provenance_for d slot) (\<lambda>p.
     bindr (validate_routed_source clean d slot index source_slot (fst acc)) (\<lambda>st.
     Inr (st, snd acc + (if pv_physical_source_id p \<noteq> slot then 1 else 0 :: int))))))"

definition misroute_gate ::
    "evaluation list \<Rightarrow> evaluation list \<Rightarrow> fault_manifest \<Rightarrow> int \<Rightarrow> string \<Rightarrow> bool" where
  "misroute_gate clean delivered m index slot \<longleftrightarrow>
     (\<exists>source_slot d. bindr (param_item m ''route_map'' slot) route_target = Inr source_slot \<and>
        py_index delivered index = Inr d \<and> routed_gate clean d slot index source_slot)"

lemma misroute_slot_Inr:
  assumes "misroute_slot_step clean delivered m index acc slot = Inr acc'"
  obtains source_slot d p where
    "bindr (param_item m ''route_map'' slot) route_target = Inr source_slot"
    "py_index delivered index = Inr d" "provenance_for d slot = Inr p"
    "validate_routed_source clean d slot index source_slot (fst acc) = Inr (fst acc')"
    "snd acc' = snd acc + (if pv_physical_source_id p \<noteq> slot then 1 else 0)"
  using assms unfolding misroute_slot_step_def bindr_eq_Inr
  by (elim exE conjE) (metis (no_types, lifting) fst_conv sum.inject(2) snd_conv)

interpretation misroute_slot: total_checker fst "misroute_slot_step clean delivered m index"
    "misroute_gate clean delivered m index"
  for clean delivered m index
proof
  fix acc slot acc'
  assume run: "misroute_slot_step clean delivered m index acc slot = Inr acc'"
  then obtain source_slot d where v:
    "bindr (param_item m ''route_map'' slot) route_target = Inr source_slot"
    "py_index delivered index = Inr d"
    "validate_routed_source clean d slot index source_slot (fst acc) = Inr (fst acc')"
    by (rule misroute_slot_Inr) blast
  show "vs_codes (fst acc') = [] \<longleftrightarrow> vs_codes (fst acc) = [] \<and> misroute_gate clean delivered m index slot"
    using v(1,2) routed_codes [OF v(3)] by (simp add: misroute_gate_def)
  show "codes_ok (fst acc) \<Longrightarrow> codes_ok (fst acc')" by (rule routed_keeps [OF v(3)])
next
  fix acc :: "validation_state \<times> int" and slot
  assume "misroute_gate clean delivered m index slot"
  then obtain source_slot d p where v: "bindr (param_item m ''route_map'' slot) route_target = Inr source_slot"
    "py_index delivered index = Inr d" "routed_gate clean d slot index source_slot" "provenance_for d slot = Inr p"
    by (auto simp: misroute_gate_def routed_gate_def)
  then show "\<exists>acc'. misroute_slot_step clean delivered m index acc slot = Inr acc'"
    using routed_total [OF v(3), of "fst acc"] by (auto simp: misroute_slot_step_def)
qed

lemma misroute_slot_count:
  "misroute_slot_step clean delivered m index acc slot = Inr acc' \<Longrightarrow>
   snd acc' = snd acc + (if source_differs delivered index slot then 1 else 0)"
  by (erule misroute_slot_Inr) (auto simp: source_differs_def)

definition misroute_step ::
    "evaluation list \<Rightarrow> evaluation list \<Rightarrow> fault_manifest \<Rightarrow> validation_state \<times> int \<Rightarrow> int \<Rightarrow>
     (validation_state \<times> int) result" where
  "misroute_step clean delivered m acc index =
     (if int (length delivered) \<le> index then Inr acc
      else foldr_res (misroute_slot_step clean delivered m index) acc (fm_sensor_slots m))"

definition misrouted_count :: "evaluation list \<Rightarrow> fault_manifest \<Rightarrow> int \<Rightarrow> int" where
  "misrouted_count delivered m index =
     (if int (length delivered) \<le> index then 0
      else sum_list (map (\<lambda>slot. if source_differs delivered index slot then 1 else 0) (fm_sensor_slots m)))"

interpretation misroute_loop: total_checker fst "misroute_step clean delivered m"
    "\<lambda>index. index < int (length delivered) \<longrightarrow>
       (\<forall>slot\<in>set (fm_sensor_slots m). misroute_gate clean delivered m index slot)"
  for clean delivered m
  by unfold_locales
     (auto simp: misroute_step_def dest: misroute_slot.loop_codes misroute_slot.loop_keeps
        intro: misroute_slot.loop_total simp del: split_paired_Ex split: if_splits)

lemma misroute_step_count:
  "misroute_step clean delivered m acc index = Inr acc' \<Longrightarrow>
   snd acc' = snd acc + misrouted_count delivered m index"
  using foldr_res_sum [of "misroute_slot_step clean delivered m index" acc _ acc' snd, OF _ misroute_slot_count]
  by (auto simp: misroute_step_def misrouted_count_def split: if_splits)

lemma misrouted_count_nonneg: "0 \<le> misrouted_count delivered m index"
  by (auto simp: misrouted_count_def intro!: sum_list_nonneg)

lemma sum_list_zero_iff:
  "(\<And>x. x \<in> set xs \<Longrightarrow> (0 :: int) \<le> f x) \<Longrightarrow> sum_list (map f xs) = 0 \<longleftrightarrow> (\<forall>x\<in>set xs. f x = 0)"
proof (induction xs)
  case (Cons x xs)
  moreover have "0 \<le> sum_list (map f xs)" using Cons.prems by (intro sum_list_nonneg) auto
  ultimately show ?case by (auto simp: add_nonneg_eq_0_iff)
qed simp

lemma misrouted_count_zero:
  "misrouted_count delivered m index = 0 \<longleftrightarrow>
   (index < int (length delivered) \<longrightarrow> (\<forall>slot\<in>set (fm_sensor_slots m). \<not> source_differs delivered index slot))"
  by (auto simp: misrouted_count_def sum_list_zero_iff)

definition unrouted_step ::
    "hasher \<Rightarrow> evaluation list \<Rightarrow> evaluation list \<Rightarrow> fault_manifest \<Rightarrow> int list \<Rightarrow> validation_state \<Rightarrow> int \<Rightarrow>
     validation_state result" where
  "unrouted_step h clean delivered m affected st index =
     (if index \<in> set affected then Inr st
      else foldr_res (\<lambda>st slot. same_step h ''C1 continued misrouting after its registered exposure''
             clean delivered slot st index) st (fm_sensor_slots m))"

interpretation same_slots: total_checker "\<lambda>st. st" "\<lambda>st slot. same_step h message clean delivered slot st index"
    "\<lambda>slot. same_gate h clean delivered slot index"
  for h message clean delivered index
  by unfold_locales (rule same_loop.step_codes same_loop.step_keeps same_loop.step_total, assumption+)+

interpretation unrouted_loop: total_checker "\<lambda>st. st" "unrouted_step h clean delivered m affected"
    "\<lambda>index. index \<notin> set affected \<longrightarrow>
       (\<forall>slot\<in>set (fm_sensor_slots m). same_gate h clean delivered slot index)"
  for h clean delivered m affected
  by unfold_locales
     (auto simp: unrouted_step_def dest: same_slots.loop_codes same_slots.loop_keeps
        intro: same_slots.loop_total split: if_splits)

lemma validate_identity_misrouting_run:
  "validate_identity_misrouting h clean delivered m st =
     bindr (param_ints m ''affected_offsets'') (\<lambda>offsets.
     let affected = map (\<lambda>offset. fm_start_index m + offset) offsets in
     bindr (ditem (fm_parameters m) ''route_map'') (\<lambda>_.
     bindr (foldr_res (misroute_step clean delivered m) (st, 0) (sort (remdups affected))) (\<lambda>(st, mismatches).
     bindr (foldr_res (unrouted_step h clean delivered m affected) st (window_range m delivered)) (\<lambda>st.
     Inr (fail_when (mismatches = 0) ''NO_IDENTITY_MISROUTING'' ''C1 preserved every identity''
           (set_metric ''identity_mismatches'' (PInt mismatches) st))))))"
  unfolding validate_identity_misrouting_def misroute_step_def [abs_def] misroute_slot_step_def [abs_def]
    unrouted_step_def [abs_def] same_step_def [abs_def] Let_def case_prod_beta' prod.collapse ..

lemma validate_identity_misrouting_Inr:
  assumes "validate_identity_misrouting h clean delivered m st = Inr st'"
  obtains offsets affected a n b where "param_ints m ''affected_offsets'' = Inr offsets"
    "affected = map (\<lambda>offset. fm_start_index m + offset) offsets"
    "foldr_res (misroute_step clean delivered m) (st, 0) (sort (remdups affected)) = Inr (a, n)"
    "foldr_res (unrouted_step h clean delivered m affected) a (window_range m delivered) = Inr b"
    "st' = fail_when (n = 0) ''NO_IDENTITY_MISROUTING'' ''C1 preserved every identity''
           (set_metric ''identity_mismatches'' (PInt n) b)"
proof -
  obtain offsets where o: "param_ints m ''affected_offsets'' = Inr offsets"
    using assms unfolding validate_identity_misrouting_run bindr_eq_Inr by blast
  obtain v where v: "ditem (fm_parameters m) ''route_map'' = Inr v"
    using assms unfolding validate_identity_misrouting_run bindr_eq_Inr Let_def by blast
  let ?affected = "map (\<lambda>offset. fm_start_index m + offset) offsets"
  obtain a n where a: "foldr_res (misroute_step clean delivered m) (st, 0) (sort (remdups ?affected)) = Inr (a, n)"
    using assms unfolding validate_identity_misrouting_run o v bindr_simps Let_def bindr_eq_Inr by auto
  obtain b where b: "foldr_res (unrouted_step h clean delivered m ?affected) a (window_range m delivered) = Inr b"
    using assms unfolding validate_identity_misrouting_run o v bindr_simps Let_def a prod.case bindr_eq_Inr
    by blast
  show thesis
    by (rule that [OF o refl a b])
       (use assms in \<open>simp add: validate_identity_misrouting_run o v Let_def a b\<close>)
qed

lemma validate_identity_misrouting_codes:
  assumes "validate_identity_misrouting h clean delivered m st = Inr st'"
    "param_ints m ''affected_offsets'' = Inr offsets"
  defines "affected \<equiv> map (\<lambda>offset. fm_start_index m + offset) offsets"
  shows "vs_codes st' = [] \<longleftrightarrow> vs_codes st = [] \<and>
    (\<forall>index\<in>set affected. index < int (length delivered) \<longrightarrow>
       (\<forall>slot\<in>set (fm_sensor_slots m). misroute_gate clean delivered m index slot)) \<and>
    (\<forall>index\<in>set (window_range m delivered) - set affected.
       \<forall>slot\<in>set (fm_sensor_slots m). same_gate h clean delivered slot index) \<and>
    (\<exists>index\<in>set affected. index < int (length delivered) \<and>
       (\<exists>slot\<in>set (fm_sensor_slots m). source_differs delivered index slot))"
proof -
  obtain a n b where
    u: "foldr_res (misroute_step clean delivered m) (st, 0) (sort (remdups affected)) = Inr (a, n)"
    and v: "foldr_res (unrouted_step h clean delivered m affected) a (window_range m delivered) = Inr b"
    and st': "vs_codes st' = [] \<longleftrightarrow> vs_codes b = [] \<and> n \<noteq> 0"
    by (rule validate_identity_misrouting_Inr [OF assms(1)]) (use assms(2) in \<open>auto simp: affected_def\<close>)
  have "n = sum_list (map (misrouted_count delivered m) (sort (remdups affected)))"
    using foldr_res_sum [OF u, of snd, OF misroute_step_count] by simp
  then have "n = 0 \<longleftrightarrow> (\<forall>index\<in>set affected. misrouted_count delivered m index = 0)"
    by (simp add: sum_list_zero_iff misrouted_count_nonneg)
  then show ?thesis
    using misroute_loop.loop_codes [OF u] unrouted_loop.loop_codes [OF v] st'
    by (auto simp: misrouted_count_zero)
qed

lemma validate_identity_misrouting_keeps:
  "validate_identity_misrouting h clean delivered m st = Inr st' \<Longrightarrow> codes_ok st \<Longrightarrow> codes_ok st'"
  by (erule validate_identity_misrouting_Inr)
     (auto dest!: misroute_loop.loop_keeps unrouted_loop.loop_keeps)

section \<open>Pixel signatures\<close>

lemma fold_metrics [simp]: "vs_codes (fold (\<lambda>(k, v). set_metric k (f v)) xs st) = vs_codes st"
  by (induction xs arbitrary: st) auto

lemma fold_metrics_keeps [simp, intro]:
  "(\<And>v. freeze_value (f v) = Inr (f v)) \<Longrightarrow> codes_ok st \<Longrightarrow> codes_ok (fold (\<lambda>(k, v). set_metric k (f v)) xs st)"
  by (induction xs arbitrary: st) auto

lemma fold_failures: "vs_codes (fold (\<lambda>code. failure code (msg code)) codes st) = [] \<longleftrightarrow>
    vs_codes st = [] \<and> codes = []"
  by (induction codes arbitrary: st) auto

lemma fold_failures_keeps [simp, intro]:
  "codes_ok st \<Longrightarrow> [] \<notin> set codes \<Longrightarrow> codes_ok (fold (\<lambda>code. failure code (msg code)) codes st)"
  by (induction codes arbitrary: st) auto

lemma signature_observable_codes:
  assumes "signature_observable np clean delivered m rest all contact = Inr (dose, unit, codes, extra)"
  shows "[] \<notin> set codes"
  using assms unfolding signature_observable_def
  by (cases "fm_operator_id m") (auto simp: bindr_eq_Inr two_elements split: if_splits)

lemma measure_signature_codes:
  assumes "measure_signature h np clean delivered m rest = Inr s"
  shows "[] \<notin> set (sm_failure_codes s)"
  using assms signature_observable_codes
  by (fastforce simp: measure_signature_def bindr_eq_Inr split: if_splits)

lemma validate_pixel_signature_codes:
  assumes "validate_pixel_signature h np clean delivered m rest st = Inr st'"
    "measure_signature h np clean delivered m rest = Inr s"
  shows "vs_codes st' = [] \<longleftrightarrow> vs_codes st = [] \<and> 0 < sm_achieved_dose s \<and> sm_matched s \<and>
    sm_failure_codes s = [] \<and>
    (fm_operator_id m = C2_frame_misregistration \<longrightarrow> calibration_changed clean delivered m = Inr True)"
  using assms
  by (auto simp: validate_pixel_signature_def result_simps Let_def fold_failures split: if_splits)

lemma validate_pixel_signature_keeps:
  "validate_pixel_signature h np clean delivered m rest st = Inr st' \<Longrightarrow> codes_ok st \<Longrightarrow> codes_ok st'"
  by (auto simp: validate_pixel_signature_def result_simps Let_def dest: measure_signature_codes split: if_splits)

section \<open>Every operator\<close>

lemma validate_operator_semantics_keeps:
  "validate_operator_semantics h np clean delivered m rest st = Inr st' \<Longrightarrow> codes_ok st \<Longrightarrow> codes_ok st'"
  by (auto simp: validate_operator_semantics_def bindr_eq_Inr
      intro: validate_pixel_signature_keeps validate_fixed_delay_keeps validate_held_last_keeps
        validate_inter_sensor_skew_keeps validate_identity_misrouting_keeps split: if_splits)

definition semantic_gate ::
    "hasher \<Rightarrow> numpy \<Rightarrow> evaluation list \<Rightarrow> evaluation list \<Rightarrow> fault_manifest \<Rightarrow>
     reference_bundle option \<Rightarrow> bool" where
  "semantic_gate h np clean delivered m rest \<longleftrightarrow>
     (name_starts (CHR ''F'') (fm_operator_id m) \<or> fm_operator_id m = C2_frame_misregistration \<longrightarrow>
        (\<exists>s. measure_signature h np clean delivered m rest = Inr s \<and> 0 < sm_achieved_dose s \<and>
           sm_matched s \<and> sm_failure_codes s = [] \<and>
           (fm_operator_id m = C2_frame_misregistration \<longrightarrow>
              calibration_changed clean delivered m = Inr True))) \<and>
     (fm_operator_id m = T1_fixed_source_delay \<longrightarrow>
        (\<exists>source_map. param_ints m ''source_index_map'' = Inr source_map \<and>
           (\<forall>item\<in>set (enumerate 0 (window_range m delivered)). \<forall>slot\<in>set (fm_sensor_slots m).
              fixed_gate clean delivered source_map item slot))) \<and>
     (fm_operator_id m = T2_held_last_freeze \<longrightarrow>
        (\<exists>duration held. param_int m ''hold_duration_frames'' = Inr duration \<and>
           param_int m ''held_source_index'' = Inr held \<and>
           (\<forall>slot\<in>set (fm_sensor_slots m). held_slot_gate h clean delivered m duration held slot))) \<and>
     (fm_operator_id m = T3_inter_sensor_skew \<longrightarrow>
        (\<forall>index\<in>set (window_range m delivered). skew_gate clean delivered m index) \<and>
        (\<exists>index\<in>set (window_range m delivered). 0 < skew_gap delivered m index)) \<and>
     (fm_operator_id m = C1_sensor_identity_misrouting \<longrightarrow>
        (\<exists>offsets. param_ints m ''affected_offsets'' = Inr offsets \<and>
           (let affected = (\<lambda>offset. fm_start_index m + offset) ` set offsets in
            (\<forall>index\<in>affected. index < int (length delivered) \<longrightarrow>
               (\<forall>slot\<in>set (fm_sensor_slots m). misroute_gate clean delivered m index slot)) \<and>
            (\<forall>index\<in>set (window_range m delivered) - affected.
               \<forall>slot\<in>set (fm_sensor_slots m). same_gate h clean delivered slot index) \<and>
            (\<exists>index\<in>affected. index < int (length delivered) \<and>
               (\<exists>slot\<in>set (fm_sensor_slots m). source_differs delivered index slot)))))"

lemma validate_operator_semantics_codes:
  assumes "validate_operator_semantics h np clean delivered m rest st = Inr st'"
  shows "vs_codes st' = [] \<longleftrightarrow> vs_codes st = [] \<and> semantic_gate h np clean delivered m rest"
proof (cases "name_starts (CHR ''F'') (fm_operator_id m) \<or> fm_operator_id m = C2_frame_misregistration")
  case True
  then have op: "fm_operator_id m \<notin> {T1_fixed_source_delay, T2_held_last_freeze, T3_inter_sensor_skew,
      C1_sensor_identity_misrouting}"
    by (auto simp: name_starts_def)
  with assms True have run: "validate_pixel_signature h np clean delivered m rest st = Inr st'"
    by (auto simp: validate_operator_semantics_def result_simps)
  then obtain s where "measure_signature h np clean delivered m rest = Inr s"
    by (auto simp: validate_pixel_signature_def result_simps)
  with True op validate_pixel_signature_codes [OF run this] show ?thesis
    by (simp add: semantic_gate_def)
next
  case False
  with assms have run: "(if fm_operator_id m = T1_fixed_source_delay then validate_fixed_delay clean delivered m st
     else if fm_operator_id m = T2_held_last_freeze then validate_held_last h clean delivered m st
     else if fm_operator_id m = T3_inter_sensor_skew then validate_inter_sensor_skew clean delivered m st
     else if fm_operator_id m = C1_sensor_identity_misrouting
     then validate_identity_misrouting h clean delivered m st else Inr st) = Inr st'"
    by (simp add: validate_operator_semantics_def)
  consider "fm_operator_id m = T1_fixed_source_delay" | "fm_operator_id m = T2_held_last_freeze"
    | "fm_operator_id m = T3_inter_sensor_skew" | "fm_operator_id m = C1_sensor_identity_misrouting"
    | "fm_operator_id m \<notin> {T1_fixed_source_delay, T2_held_last_freeze, T3_inter_sensor_skew,
        C1_sensor_identity_misrouting}" by blast
  then show ?thesis
  proof cases
    case 1
    with run have v: "validate_fixed_delay clean delivered m st = Inr st'" by simp
    then obtain smap where "param_ints m ''source_index_map'' = Inr smap"
      by (auto simp: validate_fixed_delay_def result_simps)
    with 1 False validate_fixed_delay_codes [OF v this] show ?thesis by (simp add: semantic_gate_def)
  next
    case 2
    with run have v: "validate_held_last h clean delivered m st = Inr st'" by simp
    then obtain d held where "param_int m ''hold_duration_frames'' = Inr d"
      "param_int m ''held_source_index'' = Inr held"
      unfolding validate_held_last_run bindr_eq_Inr by blast
    with 2 False validate_held_last_codes [OF v this] show ?thesis by (simp add: semantic_gate_def)
  next
    case 3
    with run have v: "validate_inter_sensor_skew clean delivered m st = Inr st'" by simp
    with 3 False validate_inter_sensor_skew_codes [OF v] show ?thesis by (simp add: semantic_gate_def)
  next
    case 4
    with run have v: "validate_identity_misrouting h clean delivered m st = Inr st'" by simp
    then obtain offsets where "param_ints m ''affected_offsets'' = Inr offsets"
      by (rule validate_identity_misrouting_Inr)
    with 4 False validate_identity_misrouting_codes [OF v this] show ?thesis
      by (simp add: semantic_gate_def Let_def)
  next
    case 5
    with run False show ?thesis by (simp add: semantic_gate_def)
  qed
qed

text \<open>What passes the gate is checked to the end.\<close>

lemma validate_operator_semantics_total:
  assumes "semantic_gate h np clean delivered m rest" "fm_sensor_slots m \<noteq> []"
  shows "\<exists>st'. validate_operator_semantics h np clean delivered m rest st = Inr st'"
proof (cases "name_starts (CHR ''F'') (fm_operator_id m) \<or> fm_operator_id m = C2_frame_misregistration")
  case True
  then have op: "fm_operator_id m \<notin> {T1_fixed_source_delay, T2_held_last_freeze, T3_inter_sensor_skew,
      C1_sensor_identity_misrouting}"
    by (auto simp: name_starts_def)
  have "\<exists>st'. validate_pixel_signature h np clean delivered m rest st = Inr st'"
    using assms True by (auto simp: semantic_gate_def validate_pixel_signature_def Let_def)
  with True op show ?thesis by (auto simp: validate_operator_semantics_def)
next
  case False
  consider "fm_operator_id m = T1_fixed_source_delay" | "fm_operator_id m = T2_held_last_freeze"
    | "fm_operator_id m = T3_inter_sensor_skew" | "fm_operator_id m = C1_sensor_identity_misrouting"
    | "fm_operator_id m \<notin> {T1_fixed_source_delay, T2_held_last_freeze, T3_inter_sensor_skew,
        C1_sensor_identity_misrouting}" by blast
  then show ?thesis
  proof cases
    case 1
    with assms False show ?thesis
      by (auto simp: validate_operator_semantics_def semantic_gate_def validate_fixed_delay_run
          intro: fixed_check.loop_total)
  next
    case 2
    with assms False show ?thesis
      by (auto simp: validate_operator_semantics_def semantic_gate_def validate_held_last_run
          intro: held_slot.loop_total)
  next
    case 3
    then obtain w slot where w: "slot \<in> set (window_range m delivered)" "skew_gate clean delivered m slot"
      using assms by (auto simp: semantic_gate_def)
    have gates: "\<forall>index\<in>set (window_range m delivered). skew_gate clean delivered m index"
      using assms 3 by (simp add: semantic_gate_def)
    obtain acc where acc: "foldr_res (skew_step clean delivered m) (st, []) (window_range m delivered) = Inr acc"
      using skew_loop.loop_total [OF gates] by blast
    show ?thesis
    proof (cases "ditem (fm_parameters m) ''source_index_map''")
      case (Inr v)
      with acc 3 False show ?thesis
        by (cases acc) (simp add: validate_operator_semantics_def validate_inter_sensor_skew_run)
    next
      case (Inl e)
      with assms(2) w(2) show ?thesis
        by (cases "fm_sensor_slots m") (auto simp: skew_gate_def t3_source_index_def param_item_def)
    qed
  next
    case 4
    then obtain offsets where o: "param_ints m ''affected_offsets'' = Inr offsets"
      using assms by (auto simp: semantic_gate_def)
    let ?affected = "map (\<lambda>offset. fm_start_index m + offset) offsets"
    have gates: "\<forall>index\<in>set (sort (remdups ?affected)). index < int (length delivered) \<longrightarrow>
        (\<forall>slot\<in>set (fm_sensor_slots m). misroute_gate clean delivered m index slot)"
      "\<forall>index\<in>set (window_range m delivered). index \<notin> set ?affected \<longrightarrow>
        (\<forall>slot\<in>set (fm_sensor_slots m). same_gate h clean delivered slot index)"
      using assms 4 o by (auto simp: semantic_gate_def Let_def)
    obtain a n where u: "foldr_res (misroute_step clean delivered m) (st, 0) (sort (remdups ?affected)) = Inr (a, n)"
      using misroute_loop.loop_total [OF gates(1), of "(st, 0)"] by auto
    obtain b where v: "foldr_res (unrouted_step h clean delivered m ?affected) a (window_range m delivered) = Inr b"
      using unrouted_loop.loop_total [OF gates(2)] by blast
    obtain index slot where "misroute_gate clean delivered m index slot"
      using assms 4 o by (auto simp: semantic_gate_def Let_def)
    then obtain w where "ditem (fm_parameters m) ''route_map'' = Inr w"
      by (cases "ditem (fm_parameters m) ''route_map''") (auto simp: misroute_gate_def param_item_def)
    with 4 False o u v show ?thesis
      by (simp add: validate_operator_semantics_def validate_identity_misrouting_run Let_def)
  next
    case 5
    with False show ?thesis by (simp add: validate_operator_semantics_def)
  qed
qed

section \<open>The whole gate\<close>

definition delivery_availability :: "fault_manifest \<Rightarrow> int list result" where
  "delivery_availability m =
     (if fm_operator_id m \<in> {A1_stream_absence, A2_frame_erasure} then availability_indices m else Inr [])"

text \<open>The active records whose content is not the clean one.\<close>

definition affected_records ::
    "hasher \<Rightarrow> fault_manifest \<Rightarrow> evaluation list \<Rightarrow> evaluation list \<Rightarrow> (nat \<times> evaluation \<times> evaluation) list" where
  "affected_records h m clean delivered =
     filter (\<lambda>(i, c, d). manifest_active m (int i) \<and> content_hash h d \<noteq> content_hash h c)
       (enumerate 0 (zip clean delivered))"

definition delivery_gate ::
    "hasher \<Rightarrow> numpy \<Rightarrow> evaluation list \<Rightarrow> evaluation list \<Rightarrow> fault_manifest \<Rightarrow>
     reference_bundle option \<Rightarrow> bool" where
  "delivery_gate h np clean delivered m rest \<longleftrightarrow>
     length clean = length delivered \<and>
     (\<exists>availability. delivery_availability m = Inr availability \<and>
        (\<forall>item\<in>set (enumerate 0 (zip clean delivered)). record_gate h m availability item)) \<and>
     affected_records h m clean delivered \<noteq> [] \<and> semantic_gate h np clean delivered m rest"

lemma py_index_member: "py_index xs i = Inr x \<Longrightarrow> x \<in> set xs"
  by (auto simp: py_index_def Let_def split: if_splits)

lemma severity_frozen:
  assumes "severity_value op level = Inr v"
  shows "freeze_value v = Inr v"
proof -
  have "v \<in> set (severity_path op)"
    using assms by (auto simp: severity_value_def Let_def dest: py_index_member split: if_splits)
  then show ?thesis by (cases op) (auto simp: lit_def)
qed

lemma validate_delivery_gate:
  assumes "validate_delivery h np clean delivered m rest = Inr r"
  shows "vr_passed r \<longleftrightarrow> delivery_gate h np clean delivered m rest"
    "vr_passed r \<longleftrightarrow> vr_failure_codes r = []"
    "distinct (vr_failure_codes r)" "length (vr_failures r) = length (vr_failure_codes r)"
    "frozen_metrics (vr_metrics r)" "[] \<notin> set (vr_failure_codes r)"
proof -
  let ?st = "\<lparr>vs_codes = [], vs_failures = [], vs_affected = 0, vs_metrics = []\<rparr>"
  obtain dose where dose: "severity_value (fm_operator_id m) (fm_severity_level m) = Inr dose"
    using assms by (auto simp: validate_delivery_def bindr_eq_Inr)
  have "(vr_passed r \<longleftrightarrow> delivery_gate h np clean delivered m rest) \<and> (vr_passed r \<longleftrightarrow> vr_failure_codes r = []) \<and>
    distinct (vr_failure_codes r) \<and> length (vr_failures r) = length (vr_failure_codes r) \<and>
    frozen_metrics (vr_metrics r) \<and> [] \<notin> set (vr_failure_codes r)"
  proof (cases "length clean = length delivered")
    case False
    with assms dose have "r = report_of dose m False
        (failure ''LENGTH_MISMATCH'' ''clean and delivered lengths differ'' ?st)"
      by (simp add: validate_delivery_def Let_def)
    with False severity_frozen [OF dose] show ?thesis
      by (simp add: report_of_def delivery_gate_def failure_def frozen_metrics_def)
  next
    case True
    obtain av where av: "delivery_availability m = Inr av"
      using assms dose True
      by (cases "delivery_availability m") (simp_all add: validate_delivery_def Let_def delivery_availability_def)
    note run = assms [unfolded validate_delivery_def dose delivery_availability_def [symmetric] bindr_simps
      av Let_def bindr_eq_Inr]
    obtain st1 where st1: "foldr_res (validate_record h m av) ?st (enumerate 0 (zip clean delivered)) = Inr st1"
      using run True by (auto simp: bindr_eq_Inr)
    let ?st2 = "fail_when (vs_affected st1 = 0) ''INACTIVE_OPERATOR'' ''operator changed no registered record'' st1"
    obtain st3 where st3: "validate_operator_semantics h np clean delivered m rest ?st2 = Inr st3"
      and r: "r = report_of dose m (vs_codes st3 = []) st3"
      using run True st1 by (auto simp: bindr_eq_Inr)
    have ok: "codes_ok st3"
      by (rule validate_operator_semantics_keeps [OF st3])
         (use record_check.loop_keeps [OF st1] in \<open>auto simp: codes_ok_def [of ?st] frozen_metrics_def\<close>)
    have "vs_affected st1 = int (length (affected_records h m clean delivered))"
      using validate_records_affected [OF st1] by (simp add: affected_records_def)
    then have "vs_codes st3 = [] \<longleftrightarrow> delivery_gate h np clean delivered m rest"
      using validate_operator_semantics_codes [OF st3] record_check.loop_codes [OF st1] True av
      by (auto simp: delivery_gate_def)
    with ok r severity_frozen [OF dose] show ?thesis
      by (simp add: report_of_def codes_ok_def frozen_metrics_def)
  qed
  then show "vr_passed r \<longleftrightarrow> delivery_gate h np clean delivered m rest"
    "vr_passed r \<longleftrightarrow> vr_failure_codes r = []"
    "distinct (vr_failure_codes r)" "length (vr_failures r) = length (vr_failure_codes r)"
    "frozen_metrics (vr_metrics r)" "[] \<notin> set (vr_failure_codes r)" by blast+
qed

end
