(* ===== verification/Manifest_Roundtrip.thy ===== *)
theory Manifest_Roundtrip
  imports Operator_Frames
begin

text \<open>
  The JSON form of a manifest read back.  Materialising the parameters of a manifest a second
  time reproduces them, so \<open>from_dict\<close> inverts \<open>to_dict\<close>; the erasure schedule of A2, the one
  schedule a caller may supply, is carried over as it is.
\<close>

section \<open>Values that freeze to themselves\<close>

lemma sequence_self: "(\<And>x. x \<in> set xs \<Longrightarrow> f x = Inr x) \<Longrightarrow> sequence (map f xs) = Inr xs"
  by (induction xs) auto

lemma freeze_value_json: "json_domain v \<Longrightarrow> freeze_value v = Inr v"
proof (induction v)
  case (PList vs)
  then have "sequence (map freeze_value vs) = Inr vs"
    by (intro sequence_self) (auto simp: list_all_iff)
  then show ?case by simp
next
  case (PDict kvs)
  have "sequence (map (\<lambda>p. pair_result (map_prod id freeze_value p)) kvs) = Inr kvs"
  proof (rule sequence_self)
    fix p assume p: "p \<in> set kvs"
    obtain k v where kv: "p = (k, v)" by (cases p)
    have "json_domain v" using PDict.prems p kv by (force simp: list_all_iff)
    then have "freeze_value v = Inr v" using PDict.IH [OF p] kv by simp
    then show "pair_result (map_prod id freeze_value p) = Inr p" by (simp add: kv)
  qed
  then show ?case by (simp add: comp_def)
qed auto

definition json_params :: "params \<Rightarrow> bool" where
  "json_params ps \<longleftrightarrow> list_all (\<lambda>kv. json_domain (snd kv)) ps"

lemma json_params_freeze: "json_params ps \<Longrightarrow> freeze_value (PDict ps) = Inr (PDict ps)"
  by (rule freeze_value_json) (auto simp: json_params_def list_all_iff)

lemma json_domain_ints [simp]: "json_domain (ints xs)"
  by (auto simp: ints_def list_all_iff)

lemma json_domain_lit [simp]: "json_domain (lit q)"
  by (simp add: lit_def)

lemma seeded_center_json: "seeded_center h op seed = Inr c \<Longrightarrow> json_domain c"
  by (auto simp: seeded_center_def result_simps)

section \<open>Materialising twice\<close>

text \<open>Only three supplied keys reach the parameters.\<close>

lemma rest_parameters_again:
  assumes "rest_parameters op supplied = Inr rest" "dget ps ''rest_reference_sha256'' = dget rest ''rest_reference_sha256''"
  shows "rest_parameters op ps = Inr rest"
  using assms by (auto simp: rest_parameters_def dget_def split: if_splits pyval.splits)

lemma a2_offsets_again:
  assumes "a2_offsets supplied window count = Inr offs" "sorted offs" "distinct offs"
    "\<forall>i\<in>set offs. 0 \<le> i \<and> i < window" "1 \<le> count" "dget ps ''erased_offsets'' = ints offs"
  shows "a2_offsets ps window count = Inr offs"
proof -
  have plain: "as_plain_ints (ints offs) = Some offs"
    by (auto simp: ints_def list_all_iff map_idI)
  have "int (length offs) = count"
    using assms(1,5) by (auto simp: a2_offsets_def split: pyval.splits option.splits if_splits)
  with assms plain show ?thesis
    by (auto simp: a2_offsets_def ints_def distinct_remdups_id sorted_sort_id list_ex_iff)
qed

lemma operator_parameters_again:
  assumes "operator_parameters h op dose seed start stop slots supplied = Inr own"
    and "op = C2_frame_misregistration \<Longrightarrow> dget ps ''realization'' = PStr ''registered_pixels''"
    and "op = A2_frame_erasure \<Longrightarrow> (\<exists>offs. own = [(''erased_offsets'', ints offs)] \<and> sorted offs \<and>
      distinct offs \<and> (\<forall>i\<in>set offs. 0 \<le> i \<and> i < stop - start) \<and>
      dget ps ''erased_offsets'' = ints offs)" and "start < stop"
  shows "operator_parameters h op dose seed start stop slots ps = Inr own"
proof (cases "op = A2_frame_erasure")
  case True
  then obtain offs where o: "own = [(''erased_offsets'', ints offs)]" "sorted offs" "distinct offs"
    "\<forall>i\<in>set offs. 0 \<le> i \<and> i < stop - start" "dget ps ''erased_offsets'' = ints offs"
    using assms(3) by auto
  with True assms(1) obtain d where d: "py_float dose = Inr d"
    "a2_offsets supplied (stop - start) (dose_count (stop - start) d) = Inr offs"
    by (auto simp: operator_parameters_def Let_def result_simps ints_def inj_map_eq_map inj_on_def)
  have "a2_offsets ps (stop - start) (dose_count (stop - start) d) = Inr offs"
    using a2_offsets_again [OF d(2) o(2-4) _ o(5)] dose_count_bounds [of "stop - start" d] assms(4)
    by simp
  with True d(1) o(1) show ?thesis by (simp add: operator_parameters_def)
next
  case False
  then show ?thesis
    using assms(1,2) by (cases op) (auto simp: operator_parameters_def Let_def split: if_splits)
qed

lemma own_keys_distinct:
  assumes "operator_parameters h op dose seed start stop slots supplied = Inr own"
  shows "distinct (map fst own) \<and> set (map fst own) \<inter> set (shared_keys @ [''instance_descriptor_sha256'', ''operator_id'']) = {}"
  using assms
  by (cases op) (auto simp: operator_parameters_def Let_def result_simps shared_keys_def
      split: if_splits)

lemma own_json:
  assumes "operator_parameters h op dose seed start stop slots supplied = Inr own"
  shows "json_params own"
  using assms
  by (cases op) (auto simp: operator_parameters_def Let_def result_simps json_params_def
      contact_phases_def list_all_iff seeded_center_json split: if_splits)

lemma rest_json:
  "rest_parameters op supplied = Inr rest \<Longrightarrow> json_params rest"
  by (auto simp: rest_parameters_def json_params_def split: if_splits pyval.splits)

lemma materialize_again:
  assumes "materialize_operator_parameters h op severity seed start stop slots supplied = Inr ps"
    and "start < stop"
    and "op = A2_frame_erasure \<Longrightarrow> (\<exists>offs. dget ps ''erased_offsets'' = ints offs \<and> sorted offs \<and>
      distinct offs \<and> (\<forall>i\<in>set offs. 0 \<le> i \<and> i < stop - start))"
  shows "materialize_operator_parameters h op severity seed start stop slots ps = Inr ps"
proof (rule materialize_Inr [OF assms(1)])
  fix dose rest own
  let ?base = "[(''parameterization_version'', PStr PARAMETERIZATION_VERSION),
           (''template_seed'', PInt seed)] @ rest @ own"
  let ?tail = "(''instance_descriptor_sha256'', PStr (canonical_hash h (PDict
             ([(''parameterization_version'', PStr PARAMETERIZATION_VERSION),
               (''template_seed'', PInt seed)] @ rest @ own @
              [(''operator_id'', PStr (operator_name op))]))))"
  assume dose: "severity_value op severity = Inr dose"
    and rest: "rest_parameters op supplied = Inr rest"
    and own: "operator_parameters h op dose seed start stop slots supplied = Inr own"
    and ps': "ps = [(''parameterization_version'', PStr PARAMETERIZATION_VERSION),
           (''template_seed'', PInt seed)] @ rest @ own @ [?tail]"
  have ps: "ps = ?base @ [?tail]" using ps' by simp
  note keys = own_keys_distinct [OF own]
  have dist: "distinct (map fst ps)"
    using keys rest_parameters_keys [OF rest] unfolding ps' shared_keys_def
    by (auto simp: image_iff)
  have at: "dget ps k = v" if "(k, v) \<in> set ps" for k v
    using dist that by (simp add: dget_def)
  have rest': "rest_parameters op ps = Inr rest"
  proof (cases "rest = []")
    case True
    then have "op \<notin> set REST_REFERENCE_OPERATOR_IDS"
      using rest by (auto simp: rest_parameters_def split: if_splits pyval.splits)
    with True show ?thesis by (simp add: rest_parameters_def)
  next
    case False
    then obtain s where s: "rest = [(''rest_reference_sha256'', PStr s)]"
      using rest_parameters_keys [OF rest] by auto
    then have "dget ps ''rest_reference_sha256'' = PStr s" by (intro at) (simp add: ps)
    with s show ?thesis by (intro rest_parameters_again [OF rest]) (simp add: dget_def)
  qed
  have own': "operator_parameters h op dose seed start stop slots ps = Inr own"
  proof (rule operator_parameters_again [OF own _ _ assms(2)])
    assume op: "op = C2_frame_misregistration"
    with own have r: "(''realization'', PStr ''registered_pixels'') \<in> set own"
      by (auto simp: operator_parameters_def Let_def result_simps split: if_splits)
    show "dget ps ''realization'' = PStr ''registered_pixels''" using r by (intro at) (simp add: ps)
  next
    assume op: "op = A2_frame_erasure"
    with own obtain offs where o: "own = [(''erased_offsets'', ints offs)]"
      by (auto simp: operator_parameters_def Let_def result_simps)
    then have d: "dget ps ''erased_offsets'' = ints offs" by (intro at) (simp add: ps)
    obtain offs' where "dget ps ''erased_offsets'' = ints offs'" "sorted offs'" "distinct offs'"
      "\<forall>i\<in>set offs'. 0 \<le> i \<and> i < stop - start"
      using assms(3) [OF op] by blast
    with d o show "\<exists>offs. own = [(''erased_offsets'', ints offs)] \<and> sorted offs \<and>
      distinct offs \<and> (\<forall>i\<in>set offs. 0 \<le> i \<and> i < stop - start) \<and>
      dget ps ''erased_offsets'' = ints offs"
      by (metis)
  qed
  have base: "base_parameters h op severity seed start stop slots ps = Inr ?base"
    using dose rest' own' by (simp add: base_parameters_def)
  have "json_params ps"
    using rest_json [OF rest] own_json [OF own] by (simp add: ps' json_params_def)
  then have frozen: "freeze_value (PDict ps) = Inr (PDict ps)" by (rule json_params_freeze)
  have exp: "?base @ [(''instance_descriptor_sha256'', PStr (canonical_hash h (PDict
      (?base @ [(''operator_id'', PStr (operator_name op))]))))] = ps"
    by (simp add: ps')
  have same: "\<not> list_ex (\<lambda>(k, v). k \<noteq> ''erased_offsets'' \<and> \<not> py_eq v (dget ps k)) ps"
    using at by (auto simp: list_ex_iff)
  show ?thesis
    unfolding materialize_operator_parameters_def frozen base bindr_simps Let_def exp
    using same by simp
qed

section \<open>from_dict inverts to_dict\<close>

lemma manifest_dict_get:
  "set (map fst (manifest_to_dict m)) = set MANIFEST_FIELDS"
  by (simp add: manifest_to_dict_def MANIFEST_FIELDS_def)

lemma strict_strings_map: "strict_strings (PList (map PStr ss)) = Inr ss"
proof -
  have "mapr strict_string (map PStr ss) = Inr ss" by (induction ss) auto
  then show ?thesis by simp
qed

lemma from_dict_to_dict_init:
  "manifest_from_dict h (manifest_to_dict m) =
   manifest_init h (operator_name (fm_operator_id m)) (fm_severity_level m) (fm_operator_seed m)
     (fm_start_index m) (fm_stop_index m) (fm_sensor_slots m) (fm_observability m)
     (fm_parameters m) (fm_semantic_version m) (fm_implementation_version m) (fm_severity_registry m)"
  unfolding manifest_from_dict_def manifest_dict_get
  by (simp add: manifest_to_dict_def dget_def strict_strings_map [unfolded strict_strings.simps]
      thaw_value_def)

section \<open>The default erasure schedule of A2\<close>

text \<open>Equally spaced offsets at least one frame apart round to distinct frames, as long as the
  window is below 2^26 frames, so that the rounding error of the division stays smaller than
  the distance.\<close>

lemma fl64_error:
  assumes "1 \<le> x"
  shows "\<bar>fl64 x - x\<bar> \<le> x / 2 ^ 53"
proof -
  let ?u = "pow2 (quantum 53 (-1074) x)"
  have b: "pow2 (binade x) \<le> x" using binade_bounds [of x] assms by (simp add: pow2_powi)
  have "0 \<le> binade x"
  proof (rule ccontr)
    assume "\<not> 0 \<le> binade x"
    then have "(2::rat) powi (binade x + 1) \<le> 2 powi 0" by (subst powi_le_iff) simp
    then show False using binade_bounds [of x] assms by simp
  qed
  then have q: "quantum 53 (-1074) x = binade x - 52" by (simp add: quantum_def)
  have u: "?u = pow2 (binade x) / 2 ^ 52" by (simp add: q pow2_powi powi_sub)
  have pos: "0 < ?u" by (simp add: pow2_powi)
  have "fl64 x = of_int (py_round (x / ?u)) * ?u" using assms by (simp add: fl64_def fl_def Let_def)
  then have "fl64 x - x = (of_int (py_round (x / ?u)) - x / ?u) * ?u"
    using pos by (simp add: field_simps)
  then have "\<bar>fl64 x - x\<bar> = \<bar>of_int (py_round (x / ?u)) - x / ?u\<bar> * ?u"
    using pos by (simp add: abs_mult)
  also have "\<dots> \<le> 1/2 * ?u" using pos by (intro mult_right_mono py_round_error) simp
  also have "\<dots> \<le> x / 2 ^ 53" using b by (simp add: u)
  finally show ?thesis .
qed

lemma py_round_strict: "x + 1 < y \<Longrightarrow> py_round x < py_round y"
  using py_round_error [of x] py_round_error [of y] by linarith

lemma spaced_fractions:
  assumes "2 \<le> count" "count < window" "window \<le> 2 ^ 26" "0 \<le> pos" "pos < count - 1"
  shows "py_round (fdiv (of_int (pos * (window - 1))) (of_int (count - 1))) <
         py_round (fdiv (of_int ((pos + 1) * (window - 1))) (of_int (count - 1)))"
proof -
  let ?q = "\<lambda>k. of_int (k * (window - 1)) / (of_int (count - 1) :: rat)"
  have c: "0 < (of_int (count - 1) :: rat)" using assms(1) by simp
  have step: "?q (k + 1) = ?q k + ?q 1" for k
  proof -
    have "(k + 1) * (window - 1) = k * (window - 1) + 1 * (window - 1)" by (simp add: algebra_simps)
    then show ?thesis by (simp only: of_int_add add_divide_distrib)
  qed
  have one: "1 + 1 / of_int (count - 1) \<le> ?q 1"
  proof -
    have "(of_int count :: rat) \<le> of_int (window - 1)" using assms(2) by (subst of_int_le_iff) simp
    then have "of_int count / of_int (count - 1) \<le> of_int (window - 1) / (of_int (count - 1) :: rat)"
      using c by (intro divide_right_mono) auto
    moreover have "(1 :: rat) + 1 / of_int (count - 1) = of_int count / of_int (count - 1)"
      using c by (simp add: divide_simps)
    ultimately show ?thesis by simp
  qed
  have small: "?q k \<le> 2 ^ 26" if "0 \<le> k" "k \<le> count - 1" for k
  proof -
    have "?q k \<le> of_int (window - 1)"
    proof -
      have "(of_int k :: rat) * of_int (window - 1) \<le> of_int (count - 1) * of_int (window - 1)"
        using that assms(1,2) by (intro mult_right_mono) auto
      then show ?thesis using c by (simp add: divide_le_eq mult.commute)
    qed
    also have "\<dots> \<le> (of_int (2 ^ 26) :: rat)" using assms(3) by (subst of_int_le_iff) simp
    finally show ?thesis by simp
  qed
  have err: "\<bar>fl64 (?q k) - ?q k\<bar> \<le> 1 / 2 ^ 27" if "0 \<le> k" "k \<le> count - 1" for k
  proof (cases "k = 0")
    case True
    then show ?thesis by (simp add: fl64_def)
  next
    case False
    have "1 * (window - 1) \<le> k * (window - 1)"
      using that False assms(1,2) by (intro mult_right_mono) auto
    then have "(of_int (1 * (window - 1)) :: rat) \<le> of_int (k * (window - 1))"
      by (subst of_int_le_iff)
    then have "?q 1 \<le> ?q k" using c by (intro divide_right_mono) auto
    moreover have "0 \<le> 1 / (of_int (count - 1) :: rat)" using c by simp
    ultimately have "1 \<le> ?q k" using one by linarith
    then have "\<bar>fl64 (?q k) - ?q k\<bar> \<le> ?q k / 2 ^ 53" by (rule fl64_error)
    also have "\<dots> \<le> 2 ^ 26 / 2 ^ 53" by (intro divide_right_mono small that) simp
    finally show ?thesis by simp
  qed
  have gap: "2 / 2 ^ 27 < 1 / (of_int (count - 1) :: rat)"
  proof -
    have "(of_int (count - 1) :: rat) < of_int (2 ^ 26)"
      using assms(2,3) by (subst of_int_less_iff) simp
    then show ?thesis using c by (simp add: field_simps)
  qed
  have "fl64 (?q pos) + 1 < fl64 (?q (pos + 1))"
  proof -
    define x y t where "x = ?q pos" and "y = ?q (pos + 1)" and "t = 1 / (of_int (count - 1) :: rat)"
    have "\<bar>fl64 x - x\<bar> \<le> 1 / 2 ^ 27" "\<bar>fl64 y - y\<bar> \<le> 1 / 2 ^ 27"
      unfolding x_def y_def by (rule err; use assms(4,5) in linarith)+
    moreover have "x + 1 + t \<le> y" unfolding x_def y_def t_def using step [of pos] one by linarith
    moreover have "2 / 2 ^ 27 < t" using gap by (simp add: t_def)
    ultimately show ?thesis unfolding x_def [symmetric] y_def [symmetric] by linarith
  qed
  then show ?thesis unfolding fdiv_def by (rule py_round_strict)
qed

lemma sorted_distinct_map_range:
  assumes "\<And>k. 0 \<le> k \<Longrightarrow> k < n - 1 \<Longrightarrow> (f k :: int) < f (k + 1)"
  shows "sorted (map f (py_range 0 n)) \<and> distinct (map f (py_range 0 n))"
proof -
  have less: "f i < f j" if "0 \<le> i" "i < j" "j < n" for i j
    using that
  proof (induction "nat (j - i - 1)" arbitrary: j)
    case 0
    then have "j = i + 1" by simp
    with assms [of i] 0 show ?case by simp
  next
    case (Suc k)
    have "f i < f (j - 1)" using Suc.hyps(2) Suc.prems by (intro Suc.hyps(1)) auto
    also have "\<dots> < f j" using assms [of "j - 1"] Suc.prems Suc.hyps(2) by simp
    finally show ?case .
  qed
  have "f (py_range 0 n ! i) < f (py_range 0 n ! j)" if "i < j" "j < nat n" for i j
    using that less [of "int i" "int j"] by (simp add: py_range_nth)
  then have "sorted_wrt (<) (map f (py_range 0 n))" by (simp add: sorted_wrt_iff_nth_less)
  then show ?thesis by (simp add: strict_sorted_iff)
qed

lemma a2_offsets_sorted:
  assumes "a2_offsets supplied window count = Inr offs" "1 \<le> count" "count \<le> window" "window \<le> 2 ^ 26"
  shows "sorted offs \<and> distinct offs"
proof (cases "dget supplied ''erased_offsets'' = PNone")
  case False
  then have "sort (remdups offs) = offs"
    using assms(1) by (auto simp: a2_offsets_def split: pyval.splits option.splits if_splits)
  then show ?thesis by (metis distinct_remdups distinct_sort sorted_sort)
next
  case True
  show ?thesis
  proof (cases "count = 1")
    case True': True
    with True assms(1) show ?thesis by (auto simp: a2_offsets_def)
  next
    case False
    let ?f = "\<lambda>pos. py_round (fdiv (of_int (pos * (window - 1))) (of_int (count - 1)))"
    have offs: "offs = map ?f (py_range 0 count)"
      using True False assms(1) by (simp add: a2_offsets_def)
    have "?f k < ?f (k + 1)" if "0 \<le> k" "k < count - 1" for k
    proof (cases "count = window")
      case True
      have exact: "of_int (j * (window - 1)) / (of_int (count - 1) :: rat) = of_int j" for j
        using True False assms(2) by simp
      have round: "\<bar>j\<bar> < 2 ^ 53 \<Longrightarrow> py_round (fl64 (of_int j)) = j" for j
        using fl_representable [of "of_int j" j 0 53 "-1074"] by (simp add: fl64_def)
      show ?thesis
        unfolding fdiv_def exact
        using round [of k] round [of "k + 1"] that True assms(4) by simp
    next
      case False': False
      with spaced_fractions [of count window k] that assms(2-4) False show ?thesis by simp
    qed
    then show ?thesis unfolding offs by (rule sorted_distinct_map_range)
  qed
qed

lemma A2_offsets_schedule:
  assumes "manifest_ok h m" "fm_operator_id m = A2_frame_erasure"
    "fm_stop_index m - fm_start_index m \<le> 2 ^ 26"
  obtains offs where "param_ints m ''erased_offsets'' = Inr offs"
    "ditem (fm_parameters m) ''erased_offsets'' = Inr (ints offs)" "sorted offs" "distinct offs"
    "\<And>i. i \<in> set offs \<Longrightarrow> 0 \<le> i \<and> i < fm_stop_index m - fm_start_index m" "offs \<noteq> []"
proof -
  let ?w = "fm_stop_index m - fm_start_index m"
  obtain dose supplied own where parts: "own_parameters h m dose supplied own"
    using manifest_own [OF assms(1)] .
  note own = own_parametersD [OF parts]
  obtain d offs where o: "own = [(''erased_offsets'', ints offs)]"
    "a2_offsets supplied ?w (dose_count ?w d) = Inr offs"
    using own(2) assms(2) by (auto simp: operator_parameters_def Let_def result_simps)
  have w: "1 \<le> ?w" using manifest_ok_window(2) [OF assms(1)] by simp
  note dc = dose_count_bounds [OF w, of d]
  have it: "ditem (fm_parameters m) ''erased_offsets'' = Inr (ints offs)"
    using own(3) [of "''erased_offsets''"] o(1) by (simp add: shared_keys_def)
  have so: "sorted offs \<and> distinct offs"
    using a2_offsets_sorted [OF o(2)] dc assms(3) by simp
  have win: "0 \<le> i \<and> i < ?w" if "i \<in> set offs" for i
    using a2_offsets_window [OF o(2) that _ w] dc assms(3) by simp
  have "offs \<noteq> []"
    using o(2) dc by (auto simp: a2_offsets_def split: pyval.splits option.splits if_splits)
  with that it so win show thesis by (simp add: param_ints_def)
qed

lemma manifest_reload:
  assumes "manifest_ok h m"
    "fm_operator_id m = A2_frame_erasure \<Longrightarrow> fm_stop_index m - fm_start_index m \<le> 2 ^ 26"
  shows "manifest_from_dict h (manifest_to_dict m) = Inr m"
proof -
  obtain ps where init: "manifest_init h (operator_name (fm_operator_id m)) (fm_severity_level m)
      (fm_operator_seed m) (fm_start_index m) (fm_stop_index m) (fm_sensor_slots m)
      (fm_observability m) ps (fm_semantic_version m) (fm_implementation_version m)
      (fm_severity_registry m) = Inr m"
    using assms(1) unfolding manifest_ok_def by blast
  note facts = manifest_init_Inr [OF init]
  have "materialize_operator_parameters h (fm_operator_id m) (fm_severity_level m) (fm_operator_seed m)
      (fm_start_index m) (fm_stop_index m) (fm_sensor_slots m) (fm_parameters m) = Inr (fm_parameters m)"
  proof (rule materialize_again [OF facts(11,16)])
    assume op: "fm_operator_id m = A2_frame_erasure"
    show "\<exists>offs. dget (fm_parameters m) ''erased_offsets'' = ints offs \<and> sorted offs \<and>
      distinct offs \<and> (\<forall>i\<in>set offs. 0 \<le> i \<and> i < fm_stop_index m - fm_start_index m)"
      by (rule A2_offsets_schedule [OF assms(1) op assms(2) [OF op]])
         (auto dest: ditem_dget)
  qed
  with init show ?thesis
    unfolding from_dict_to_dict_init manifest_init_def by (simp split: if_splits)
qed

end
