(* ===== verification/Examples.thy ===== *)
theory Examples
  imports Operator_Effects Replay_Fidelity
begin

text \<open>
  Concrete inputs: a digest, elementwise array kernels on exact rationals, a reference bundle,
  a short episode of 2x2 tactile frames and one manifest per operator family.  The theorems
  about the operators are applied to them.
\<close>

section \<open>A digest\<close>

text \<open>One fixed digest, which is all the theorems applied here need of a hash.\<close>

definition demo_sha :: string where
  "demo_sha = replicate 64 (CHR ''0'')"

definition demo_hasher :: hasher where
  "demo_hasher = \<lparr>sha_json = (\<lambda>v. demo_sha), sha_arr = (\<lambda>a. demo_sha)\<rparr>"

lemma demo_hash [simp]:
  "canonical_hash demo_hasher v = demo_sha" "sha_arr demo_hasher a = demo_sha"
  "delivered_hash demo_hasher ob pvs = demo_sha"
  by (simp_all add: canonical_hash_def delivered_hash_def demo_hasher_def)

lemma demo_sha_hex [simp]: "is_sha256 demo_sha" "length demo_sha = 64" "list_all hex_char demo_sha"
  "demo_sha \<noteq> []"
  by (simp_all add: is_sha256_def demo_sha_def hex_char_def list_all_iff)

section \<open>Array kernels\<close>

definition lift1 :: "(rat \<Rightarrow> rat) \<Rightarrow> ndarray \<Rightarrow> ndarray" where
  "lift1 f a = a\<lparr>nd_data := map (map_option f) (nd_data a)\<rparr>"

text \<open>Two arrays of equal length, or the second one three times as long (a trailing axis).\<close>

definition lift2 :: "(rat \<Rightarrow> rat \<Rightarrow> rat) \<Rightarrow> ndarray \<Rightarrow> ndarray \<Rightarrow> ndarray result" where
  "lift2 f a b =
     (let op = (\<lambda>x y. case (x, y) of (Some p, Some q) \<Rightarrow> Some (f p q) | _ \<Rightarrow> None) in
      if length (nd_data a) = length (nd_data b)
      then Inr (b\<lparr>nd_data := map2 op (nd_data a) (nd_data b)\<rparr>)
      else if 3 * length (nd_data a) = length (nd_data b)
      then Inr (b\<lparr>nd_data := map2 op (concat (map (replicate 3) (nd_data a))) (nd_data b)\<rparr>)
      else Inl (ValueError ''operands could not be broadcast together''))"

definition truth :: "bool \<Rightarrow> rat" where
  "truth b = (if b then 1 else 0)"

definition grid_of :: "nat \<Rightarrow> nat \<Rightarrow> (nat \<Rightarrow> nat \<Rightarrow> rat) \<Rightarrow> ndarray" where
  "grid_of hh ww f = \<lparr>nd_dtype = ''int64'', nd_shape = [hh, ww],
     nd_data = [Some (f y x). y \<leftarrow> [0..<hh], x \<leftarrow> [0..<ww]]\<rparr>"

definition finite_entries :: "ndarray \<Rightarrow> rat list" where
  "finite_entries a = concat (map (\<lambda>x. case x of None \<Rightarrow> [] | Some q \<Rightarrow> [q]) (nd_data a))"

text \<open>A mask over the leading axes, spread over the entries of an array.\<close>

definition mask_bits :: "ndarray \<Rightarrow> ndarray \<Rightarrow> bool list" where
  "mask_bits a msk =
     concat (map (\<lambda>x. replicate (length (nd_data a) div length (nd_data msk)) (x \<noteq> Some 0))
       (nd_data msk))"

fun masked_put :: "bool list \<Rightarrow> 'a list \<Rightarrow> 'a list \<Rightarrow> 'a list" where
  "masked_put (True # bs) (x # xs) (v # vs) = v # masked_put bs xs vs"
| "masked_put (False # bs) (x # xs) vs = x # masked_put bs xs vs"
| "masked_put bs xs vs = xs"

definition demo_numpy :: numpy where
  "demo_numpy = \<lparr>
     np_is_integer = (\<lambda>d. d \<in> {''uint8'', ''int64''}),
     np_astype = (\<lambda>a d. a\<lparr>nd_dtype := d\<rparr>),
     np_asarray = (\<lambda>xs d. \<lparr>nd_dtype = d, nd_shape = [length xs], nd_data = map Some xs\<rparr>),
     np_max0 = (\<lambda>a. fold (\<lambda>x m. case x of None \<Rightarrow> m | Some q \<Rightarrow> max m q) (nd_data a) 0),
     np_min = (\<lambda>a. fold (\<lambda>x m. case x of None \<Rightarrow> m | Some q \<Rightarrow> min m q) (nd_data a) 0),
     np_any = (\<lambda>a. list_ex (\<lambda>x. x \<noteq> Some 0) (nd_data a)),
     np_clip = (\<lambda>a lo hi. lift1 (\<lambda>x. max lo (min hi x)) a),
     np_rint = lift1 (\<lambda>x. of_int (py_round x)),
     np_floor = lift1 (\<lambda>x. of_int \<lfloor>x\<rfloor>),
     np_exp = lift1 (\<lambda>x. 1 / (1 - x)),
     np_abs = lift1 abs, np_neg = lift1 uminus, np_square = lift1 (\<lambda>x. x * x),
     np_add_s = (\<lambda>a c. lift1 (\<lambda>x. x + c) a), np_sub_s = (\<lambda>a c. lift1 (\<lambda>x. x - c) a),
     np_rsub_s = (\<lambda>c a. lift1 (\<lambda>x. c - x) a), np_mul_s = (\<lambda>a c. lift1 (\<lambda>x. x * c) a),
     np_div_s = (\<lambda>a c. lift1 (\<lambda>x. x / c) a),
     np_minimum_s = (\<lambda>a c. lift1 (\<lambda>x. min x c) a), np_maximum_s = (\<lambda>a c. lift1 (\<lambda>x. max x c) a),
     np_lt_s = (\<lambda>a c. lift1 (\<lambda>x. truth (x < c)) a), np_le_s = (\<lambda>a c. lift1 (\<lambda>x. truth (x \<le> c)) a),
     np_gt_s = (\<lambda>a c. lift1 (\<lambda>x. truth (c < x)) a),
     np_add = lift2 (+), np_sub = lift2 (-), np_mul = lift2 (*), np_div = lift2 (/),
     np_newaxis = (\<lambda>a. a\<lparr>nd_shape := nd_shape a @ [1]\<rparr>),
     np_column = (\<lambda>a. a\<lparr>nd_shape := [length (nd_data a), 1]\<rparr>),
     np_mgrid = (\<lambda>hh ww. (grid_of hh ww (\<lambda>y x. of_nat y), grid_of hh ww (\<lambda>y x. of_nat x))),
     np_arange = (\<lambda>n. \<lparr>nd_dtype = ''int64'', nd_shape = [n], nd_data = map (\<lambda>i. Some (of_nat i)) [0..<n]\<rparr>),
     np_zeros = (\<lambda>hh ww d. (grid_of hh ww (\<lambda>y x. 0))\<lparr>nd_dtype := d\<rparr>),
     np_zeros_like = lift1 (\<lambda>x. 0), np_ones_like = lift1 (\<lambda>x. 1),
     np_diff1 = lift1 (\<lambda>x. 1),
     np_get = (\<lambda>a mask. Inr (a\<lparr>nd_data := map snd (filter fst (zip (mask_bits a mask) (nd_data a)))\<rparr>)),
     np_put = (\<lambda>a mask v. Inr (a\<lparr>nd_data := masked_put (mask_bits a mask) (nd_data a) (nd_data v)\<rparr>)),
     np_at2 = (\<lambda>a rows cols. Inr a),
     np_take = (\<lambda>a idx axis. Inr a),
     np_norm_last = lift1 abs,
     np_where = (\<lambda>mask a b. Inr a), np_div_where = (\<lambda>a b out mask. Inr a),
     np_sum = (\<lambda>a. sum_list (finite_entries a)),
     np_mean = (\<lambda>a. sum_list (finite_entries a) / of_nat (length (nd_data a))),
     np_count = (\<lambda>a. int (length (filter (\<lambda>x. x \<noteq> Some 0) (nd_data a)))),
     np_crop = (\<lambda>a y0 y1 x0 x1. a),
     np_ne = lift2 (\<lambda>x y. truth (x \<noteq> y)), np_eq = lift2 (\<lambda>x y. truth (x = y)),
     np_and = lift2 (*), np_any_last = (\<lambda>a. a), np_all_last = (\<lambda>a. a),
     np_min_init = (\<lambda>a c. fold min (finite_entries a) c),
     np_sum_list = sum_list, np_mean_list = (\<lambda>xs. sum_list xs / of_nat (length xs)),
     np_hypot = (\<lambda>x y. max \<bar>x\<bar> \<bar>y\<bar>)\<rparr>"

section \<open>An episode\<close>

definition demo_frame :: "nat \<Rightarrow> nat \<Rightarrow> ndarray" where
  "demo_frame base k = \<lparr>nd_dtype = ''uint8'', nd_shape = [2, 2, 3],
     nd_data = map (\<lambda>i. Some (of_nat ((base + 10 * k + i) mod 256))) [0..<12]\<rparr>"

definition demo_vector :: ndarray where
  "demo_vector = \<lparr>nd_dtype = ''float64'', nd_shape = [2], nd_data = [Some 0, Some 1]\<rparr>"

definition demo_sensor :: "string \<Rightarrow> nat \<Rightarrow> nat \<Rightarrow> sensor" where
  "demo_sensor slot base k = \<lparr>so_slot_id = slot, so_payload = Some (demo_frame base k),
     so_payload_present = True, so_declared_validity = None, so_delivery_index = int k,
     so_delivery_time_s = of_nat k, so_visible_source_time_s = Some (of_nat k),
     so_frame_id = slot @ ''-frame'', so_calibration_id = slot @ ''-cal''\<rparr>"

definition demo_observation :: "nat \<Rightarrow> observation" where
  "demo_observation k = \<lparr>ob_episode_id = ''demo'', ob_task = ''lift'', ob_seed = 7,
     ob_step_index = int k, ob_tactile = [demo_sensor ''left'' 20 k, demo_sensor ''right'' 90 k],
     ob_vision = [], ob_proprio = demo_vector\<rparr>"

definition demo_provenance :: "string \<Rightarrow> nat \<Rightarrow> nat \<Rightarrow> provenance" where
  "demo_provenance slot base k = \<lparr>pv_slot_id = slot, pv_physical_source_id = slot,
     pv_source_index = Some (int k), pv_source_time_s = Some (of_nat k),
     pv_payload_sha256 = array_sha256 demo_hasher (Some (demo_frame base k)),
     pv_calibration_sha256 = demo_sha,
     pv_phase = (if k = 0 then FREE else ONSET), pv_active_fault_ids = []\<rparr>"

definition demo_record :: "nat \<Rightarrow> evaluation" where
  "demo_record k = projr (build_evaluation_record demo_hasher (demo_observation k)
     [demo_provenance ''left'' 20 k, demo_provenance ''right'' 90 k] None)"

definition demo_episode :: "evaluation list" where
  "demo_episode = map demo_record [0..<4]"

definition demo_bundle :: reference_bundle where
  "demo_bundle = projr (bundle_init
     \<lparr>rb_reference_id = ''rest'', rb_dataset_split = SYNTHETIC_DEVELOPMENT,
      rb_split_manifest_sha256 = demo_sha, rb_source_artifact_sha256 = demo_sha,
      rb_no_contact_predicate_id = ''free'', rb_no_contact_validation_sha256 = demo_sha,
      rb_no_contact_verified = True,
      rb_qualified_record_ids = [(''left'', ''r0''), (''right'', ''r1'')],
      rb_calibration_sha256 = [(''left'', demo_sha),
                               (''right'', demo_sha)],
      rb_payloads = []\<rparr>
     [(''left'', ArrayArg (demo_frame 5 0)), (''right'', ArrayArg (demo_frame 6 0))])"

definition demo_init :: "operator_id \<Rightarrow> int \<Rightarrow> observability \<Rightarrow> params \<Rightarrow> fault_manifest result" where
  "demo_init op severity obs ps = manifest_init demo_hasher (operator_name op) severity 3 1 3
     [''left'', ''right''] obs ps FAULT_MANIFEST_SEMANTIC_VERSION OPERATOR_IMPLEMENTATION_VERSION
     SEVERITY_REGISTRY_ID"

definition demo_manifest :: "operator_id \<Rightarrow> int \<Rightarrow> observability \<Rightarrow> params \<Rightarrow> fault_manifest" where
  "demo_manifest op severity obs ps = projr (demo_init op severity obs ps)"

definition rest_args :: params where
  "rest_args = [(''rest_reference_sha256'', PStr demo_sha)]"

definition c2_args :: params where
  "c2_args = rest_args @ [(''realization'', PStr ''registered_pixels'')]"

section \<open>The inputs are well formed\<close>

lemma fl64_of_nat: "k < 2 ^ 53 \<Longrightarrow> fl64 (of_nat k) = of_nat k"
  using fl64_of_int [of "int k"] by simp

lemma time_tolerance_slack: "fl64 t = t \<Longrightarrow> t \<le> fadd t time_tolerance"
proof -
  assume t: "fl64 t = t"
  have "0 \<le> time_tolerance" by (simp add: time_tolerance_def fl64_def fl_nonneg)
  then have "fl64 t \<le> fl64 (t + time_tolerance)" unfolding fl64_def by (intro fl_mono) auto
  with t show ?thesis by (simp add: fadd_def)
qed

lemma demo_time: "k < 2 ^ 53 \<Longrightarrow> \<not> fadd (of_nat k) time_tolerance < of_nat k"
  using time_tolerance_slack [OF fl64_of_nat] by (simp add: not_less)

lemma demo_record_eq: "k < 2 ^ 53 \<Longrightarrow> demo_record k =
  \<lparr>ev_observation = demo_observation k,
   ev_provenance = [demo_provenance ''left'' 20 k, demo_provenance ''right'' 90 k],
   ev_clean_record_sha256 = demo_sha, ev_delivered_record_sha256 = demo_sha\<rparr>"
  using demo_time [of k]
  by (simp add: demo_record_def build_evaluation_record_def demo_observation_def demo_provenance_def
      demo_sensor_def SENSOR_SLOTS_def check_causal_def ob_sensor_def)

lemma demo_sensor_ok: "slot \<in> set SENSOR_SLOTS \<Longrightarrow> k < 2 ^ 53 \<Longrightarrow> sensor_ok (demo_sensor slot base k)"
  using demo_time [of k]
  by (auto simp: sensor_ok_def sensor_post_init_def demo_sensor_def demo_frame_def check_payload_def
      all_finite_def list_all_iff require_minimum_def require_real_minimum_def)

lemma demo_provenance_ok: "slot \<in> set SENSOR_SLOTS \<Longrightarrow> provenance_ok (demo_provenance slot base k)"
  by (auto simp: provenance_ok_def provenance_post_init_def demo_provenance_def SENSOR_SLOTS_def
      require_minimum_def require_real_minimum_def)

lemma demo_sensors: "ob_tactile (demo_observation k) = [demo_sensor ''left'' 20 k, demo_sensor ''right'' 90 k]"
  "ob_step_index (demo_observation k) = int k"
  by (simp_all add: demo_observation_def)

lemma demo_slot_ids [simp]: "so_slot_id (demo_sensor slot base k) = slot"
  "pv_slot_id (demo_provenance slot base k) = slot"
  by (simp_all add: demo_sensor_def demo_provenance_def)

lemma demo_observation_ok: "observation_ok (demo_observation k)"
  by (auto simp: observation_ok_def observation_post_init_def demo_sensors SENSOR_SLOTS_def
      require_minimum_def)
     (auto simp: demo_observation_def all_finite_def demo_vector_def)

lemma demo_causal: "k < 2 ^ 53 \<Longrightarrow> slot \<in> set SENSOR_SLOTS \<Longrightarrow>
    causal (demo_observation k) (demo_provenance slot base k)"
  using demo_time [of k]
  by (auto simp: causal_def ob_sensor_def demo_sensors SENSOR_SLOTS_def)
     (auto simp: demo_sensor_def demo_provenance_def not_less)

lemma demo_valid:
  assumes "k < 2 ^ 53"
  shows "valid_record demo_hasher (demo_record k)"
proof -
  have "evaluation_ok demo_hasher (demo_record k)"
    using demo_causal [OF assms]
    by (simp add: evaluation_ok_def demo_record_eq [OF assms] demo_sensors SENSOR_SLOTS_def)
  moreover have "list_all sensor_ok (ob_tactile (demo_observation k))"
    using demo_sensor_ok [OF _ assms] by (simp add: demo_sensors SENSOR_SLOTS_def)
  moreover have "list_all provenance_ok (ev_provenance (demo_record k))"
    using demo_provenance_ok by (simp add: demo_record_eq [OF assms] SENSOR_SLOTS_def)
  ultimately show ?thesis
    by (simp add: valid_record_def demo_record_eq [OF assms] demo_observation_ok)
qed

lemma demo_length [simp]: "length demo_episode = 4"
  by (simp add: demo_episode_def)

lemma demo_nth: "i < 4 \<Longrightarrow> demo_episode ! i = demo_record i"
  by (simp add: demo_episode_def)

lemma demo_episode_valid: "list_all (valid_record demo_hasher) demo_episode"
  by (simp add: list_all_length demo_nth demo_valid)

lemma demo_step: "k < 2 ^ 53 \<Longrightarrow> step_of (demo_record k) = int k"
  by (simp add: demo_record_eq demo_observation_def)

lemma demo_dense: "dense_episode demo_episode"
  by (simp add: dense_episode_def demo_nth demo_step)

lemma demo_timed: "timed_episode demo_episode"
  unfolding timed_episode_def
  by (auto simp: demo_nth demo_record_eq demo_observation_def ob_sensor_def demo_sensor_def
      SENSOR_SLOTS_def)

lemma demo_manifest_facts:
  assumes "\<not> isl (demo_init op severity obs ps)"
  shows "manifest_ok demo_hasher (demo_manifest op severity obs ps)"
    "fm_operator_id (demo_manifest op severity obs ps) = op"
    "fm_start_index (demo_manifest op severity obs ps) = 1"
    "fm_stop_index (demo_manifest op severity obs ps) = 3"
    "fm_sensor_slots (demo_manifest op severity obs ps) = [''left'', ''right'']"
    "fm_severity_level (demo_manifest op severity obs ps) = severity"
proof -
  have init: "demo_init op severity obs ps = Inr (demo_manifest op severity obs ps)"
    using assms by (auto simp: demo_manifest_def isl_def split: sum.splits)
  note m = init [unfolded demo_init_def]
  show "manifest_ok demo_hasher (demo_manifest op severity obs ps)" by (rule manifest_init_ok [OF m])
  show "fm_operator_id (demo_manifest op severity obs ps) = op"
    using manifest_init_Inr(1) [OF m] by simp
  show "fm_start_index (demo_manifest op severity obs ps) = 1"
    "fm_stop_index (demo_manifest op severity obs ps) = 3"
    "fm_sensor_slots (demo_manifest op severity obs ps) = [''left'', ''right'']"
    "fm_severity_level (demo_manifest op severity obs ps) = severity"
    using manifest_init_Inr(2,4,5,6) [OF m] by simp_all
qed

lemma demo_A1: "\<not> isl (demo_init A1_stream_absence 1 BLIND [])" by code_simp
lemma demo_A2: "\<not> isl (demo_init A2_frame_erasure 1 DECLARED [])" by code_simp
lemma demo_T1: "\<not> isl (demo_init T1_fixed_source_delay 1 BLIND [])" by code_simp
lemma demo_T2: "\<not> isl (demo_init T2_held_last_freeze 1 BLIND [])" by code_simp
lemma demo_T3: "\<not> isl (demo_init T3_inter_sensor_skew 1 BLIND [])" by code_simp
lemma demo_C1: "\<not> isl (demo_init C1_sensor_identity_misrouting 5 BLIND [])" by code_simp
lemma demo_C2: "\<not> isl (demo_init C2_frame_misregistration 1 BLIND c2_args)" by code_simp
lemma demo_F6: "\<not> isl (demo_init F6_history_residual_imprint 1 BLIND rest_args)" by code_simp

lemmas demo_ok = demo_manifest_facts(1) [OF demo_A1] demo_manifest_facts(1) [OF demo_A2]
  demo_manifest_facts(1) [OF demo_T1] demo_manifest_facts(1) [OF demo_T2]
  demo_manifest_facts(1) [OF demo_T3] demo_manifest_facts(1) [OF demo_C1]
  demo_manifest_facts(1) [OF demo_C2] demo_manifest_facts(1) [OF demo_F6]

lemmas demo_fields = demo_manifest_facts(2-) [OF demo_A1] demo_manifest_facts(2-) [OF demo_A2]
  demo_manifest_facts(2-) [OF demo_T1] demo_manifest_facts(2-) [OF demo_T2]
  demo_manifest_facts(2-) [OF demo_T3] demo_manifest_facts(2-) [OF demo_C1]
  demo_manifest_facts(2-) [OF demo_C2] demo_manifest_facts(2-) [OF demo_F6]

lemma demo_bundle_init: "\<not> isl (bundle_init
     \<lparr>rb_reference_id = ''rest'', rb_dataset_split = SYNTHETIC_DEVELOPMENT,
      rb_split_manifest_sha256 = demo_sha, rb_source_artifact_sha256 = demo_sha,
      rb_no_contact_predicate_id = ''free'', rb_no_contact_validation_sha256 = demo_sha,
      rb_no_contact_verified = True,
      rb_qualified_record_ids = [(''left'', ''r0''), (''right'', ''r1'')],
      rb_calibration_sha256 = [(''left'', demo_sha), (''right'', demo_sha)],
      rb_payloads = []\<rparr>
     [(''left'', ArrayArg (demo_frame 5 0)), (''right'', ArrayArg (demo_frame 6 0))])"
  by code_simp

lemma demo_bundle_ok: "bundle_ok demo_bundle"
  using demo_bundle_init unfolding bundle_ok_def demo_bundle_def by (metis sum.collapse(2))

text \<open>Sessions over the demonstration manifests.\<close>

definition demo_session :: "fault_manifest \<Rightarrow> reference_bundle option \<Rightarrow> session" where
  "demo_session m rest = projr (session_init demo_hasher m rest)"

lemma demo_session_F6:
  "\<not> isl (session_init demo_hasher (demo_manifest F6_history_residual_imprint 1 BLIND rest_args)
     (Some demo_bundle))"
  by code_simp

lemma demo_session_T1:
  "\<not> isl (session_init demo_hasher (demo_manifest T1_fixed_source_delay 1 BLIND []) None)"
  by code_simp

lemma demo_calibration_F6:
  "\<not> isl (validate_rest_calibration
     (demo_session (demo_manifest F6_history_residual_imprint 1 BLIND rest_args) (Some demo_bundle))
     (demo_record 0))"
  by code_simp

end
