(* ===== verification/Operator_Contracts.thy ===== *)
theory Operator_Contracts
  imports Session_Life Manifest_Roundtrip Examples
begin

text \<open>
  The contract of each operator in one place: when a well-formed episode goes in, the operator
  returns, the delivered episode is well formed, and every record is what the operator's
  registered schedule says.  The schedules are given by the dose alone, not by the parameter
  maps the manifest stores.
\<close>

section \<open>Absence\<close>

definition absence_schedule :: "fault_manifest \<Rightarrow> int list" where
  "absence_schedule m = map (\<lambda>k. fm_start_index m + k) (projr (param_ints m
     (if fm_operator_id m = A1_stream_absence then ''affected_offsets'' else ''erased_offsets'')))"

lemma absence_schedule_run:
  assumes "manifest_ok h m" "fm_operator_id m \<in> {A1_stream_absence, A2_frame_erasure}"
  shows "apply_operator h np (fm_operator_id m) clean m rest = absence h clean m (absence_schedule m)"
proof (cases "fm_operator_id m = A1_stream_absence")
  case True
  obtain n where "param_ints m ''affected_offsets'' = Inr (py_range 0 n)"
    using A1_offsets [OF assms(1) True] by blast
  with True show ?thesis by (simp add: A1_apply_def absence_schedule_def)
next
  case False
  then have op: "fm_operator_id m = A2_frame_erasure" using assms(2) by simp
  obtain offs where "param_ints m ''erased_offsets'' = Inr offs"
    using A2_offsets [OF assms(1) op] by blast
  with op show ?thesis by (simp add: A2_apply_def absence_schedule_def)
qed

lemma absence_identity:
  assumes "absence h clean m affected = Inr out" "i < length clean" "int i \<notin> set affected"
  shows "out ! i = clean ! i"
  using mapr_nth [OF assms(1) [unfolded absence_def each_record_map], of i] assms(2,3) by simp

section \<open>Temporal routing\<close>

text \<open>The index a temporal operator of dose \<open>d\<close> reads for a slot at index \<open>i\<close>.\<close>

definition source_of :: "fault_manifest \<Rightarrow> int \<Rightarrow> string \<Rightarrow> nat \<Rightarrow> nat" where
  "source_of m d slot i =
     (if fm_operator_id m = T1_fixed_source_delay then nat (int i - d)
      else if fm_operator_id m = T2_held_last_freeze
      then (if int i < fm_start_index m + d then nat (fm_start_index m - 1) else i)
      else if slot = last (fm_sensor_slots m) then nat (int i - d) else i)"

text \<open>A slot of an active record, delivered from the clean record the operator reads: the payload,
  its hash and its source are those of the source record, index, time, slot and declared
  validity those of the current delivery.\<close>

definition reads_source ::
    "fault_manifest \<Rightarrow> evaluation list \<Rightarrow> evaluation list \<Rightarrow> int \<Rightarrow> nat \<Rightarrow> string \<Rightarrow> bool" where
  "reads_source m clean out d i slot \<longleftrightarrow>
     (\<exists>current s p. ob_sensor (ev_observation (clean ! i)) slot = Inr current \<and>
        slot_view (clean ! source_of m d slot i) slot = (Inr s, Inr p) \<and>
        slot_view (out ! i) slot = (Inr (routed_sensor m current s), Inr (routed_provenance m slot p)))"

lemma temporal_total:
  assumes "manifest_ok h m" "list_all (valid_record h) clean" "timed_episode clean"
    and "fm_operator_id m \<in> {T1_fixed_source_delay, T2_held_last_freeze, T3_inter_sensor_skew}"
  shows "\<exists>out. apply_operator h np (fm_operator_id m) clean m rest = Inr out \<and>
    list_all (valid_record h) out"
  using T1_total [OF assms(1) _ assms(2,3)] T2_total [OF assms(1) _ assms(2,3)]
    T3_total [OF assms(1) _ assms(2,3)] assms(4) by auto

lemma temporal_dose:
  assumes "manifest_ok h m"
    and "fm_operator_id m \<in> {T1_fixed_source_delay, T2_held_last_freeze, T3_inter_sensor_skew}"
  obtains d where "1 \<le> d" "severity_value (fm_operator_id m) (fm_severity_level m) = Inr (PInt d)"
proof -
  from assms(2) consider "fm_operator_id m = T1_fixed_source_delay"
    | "fm_operator_id m = T2_held_last_freeze" | "fm_operator_id m = T3_inter_sensor_skew" by blast
  then show thesis
  proof cases
    case 1
    show thesis by (rule T1_lag [OF assms(1) 1]) (use 1 that in simp)
  next
    case 2
    show thesis by (rule T2_duration [OF assms(1) 2]) (use 2 that in simp)
  next
    case 3
    show thesis by (rule T3_skew [OF assms(1) 3]) (use 3 that in simp)
  qed
qed

lemma temporal_reads:
  assumes m: "manifest_ok h m" and v: "list_all (valid_record h) clean"
    and out: "apply_operator h np (fm_operator_id m) clean m rest = Inr out"
    and op: "fm_operator_id m \<in> {T1_fixed_source_delay, T2_held_last_freeze, T3_inter_sensor_skew}"
    and d: "severity_value (fm_operator_id m) (fm_severity_level m) = Inr (PInt d)"
    and i: "i < length clean" "manifest_active m (int i)" "slot \<in> set (fm_sensor_slots m)"
  shows "if fm_operator_id m = T2_held_last_freeze \<and> source_of m d slot i = i then out ! i = clean ! i
    else reads_source m clean out d i slot"
proof -
  from op consider "fm_operator_id m = T1_fixed_source_delay"
    | "fm_operator_id m = T2_held_last_freeze" | "fm_operator_id m = T3_inter_sensor_skew" by blast
  then show ?thesis
  proof cases
    case 1
    with T1_delivers [OF m 1 v _ i] out d show ?thesis
      by (auto simp: reads_source_def source_of_def)
  next
    case 2
    then have eq: "source_of m d slot i = i \<longleftrightarrow> \<not> (int i < fm_start_index m + d \<and> 0 < i)"
      using i(2) manifest_ok_window(1) [OF m] unfolding source_of_def manifest_active_def
      by (simp add: nat_eq_iff)
    from 2 T2_delivers [OF m 2 v _ i, of out d] out d
    have "if int i < fm_start_index m + d \<and> 0 < i
      then \<exists>current s p. ob_sensor (ev_observation (clean ! i)) slot = Inr current \<and>
        slot_view (clean ! nat (fm_start_index m - 1)) slot = (Inr s, Inr p) \<and>
        slot_view (out ! i) slot = (Inr (routed_sensor m current s), Inr (routed_provenance m slot p))
      else out ! i = clean ! i" by simp
    with 2 show ?thesis unfolding eq by (auto simp: reads_source_def source_of_def split: if_splits)
  next
    case 3
    with T3_delivers [OF m 3 v _ i, of out d] out d show ?thesis
      by (auto simp: reads_source_def source_of_def)
  qed
qed

section \<open>Misrouting\<close>

lemma C1_unscheduled:
  assumes "manifest_ok h m" "fm_operator_id m = C1_sensor_identity_misrouting"
    "C1_apply h clean m = Inr out" "i < length clean"
    "param_ints m ''affected_offsets'' = Inr (py_range 0 n)" "int i - fm_start_index m \<notin> {0..<n}"
  shows "out ! i = clean ! i"
  using mapr_nth [OF assms(3) [unfolded C1_run [OF assms(1,2,5)]], of i] assms(4,6)
  by (auto simp: py_range_def split: if_splits)

section \<open>Doses\<close>

definition dose_of :: "operator_id \<Rightarrow> int \<Rightarrow> rat" where
  "dose_of op level = projr (bindr (severity_value op level) py_float)"

text \<open>The operators whose dose is a retained gain or a response knee.\<close>

definition falling_operators :: "operator_id list" where
  "falling_operators =
     [F1_global_response_drift, F2_spatial_sensitivity_loss, F7_high_load_saturation]"

lemma falling_doses:
  "list_all (\<lambda>op. sorted_wrt (>) (map (dose_of op) [1, 2, 3, 4, 5])) falling_operators"
  by code_simp

lemma rising_doses:
  "list_all (\<lambda>op. sorted_wrt (<) (map (dose_of op) [1, 2, 3, 4, 5]))
     (filter (\<lambda>op. op \<notin> set falling_operators) CORE_OPERATOR_IDS)"
  by code_simp

section \<open>Demonstration runs\<close>

lemma demo_session_run:
  "\<not> isl (session_init demo_hasher m rest) \<Longrightarrow>
   session_init demo_hasher m rest = Inr (demo_session m rest)"
  by (auto simp: demo_session_def isl_def split: sum.splits)

abbreviation (input) "demo_A1_manifest \<equiv> demo_manifest A1_stream_absence 1 BLIND []"
abbreviation (input) "demo_A2_manifest \<equiv> demo_manifest A2_frame_erasure 1 DECLARED []"
abbreviation (input) "demo_T1_manifest \<equiv> demo_manifest T1_fixed_source_delay 1 BLIND []"
abbreviation (input) "demo_C1_manifest \<equiv> demo_manifest C1_sensor_identity_misrouting 5 BLIND []"
abbreviation (input) "demo_F6_manifest \<equiv> demo_manifest F6_history_residual_imprint 1 BLIND rest_args"

lemma demo_synchronous: "list_all synchronous demo_episode"
  by (auto simp: list_all_length demo_nth demo_record_eq demo_sensors synchronous_def)
     (simp_all add: demo_sensor_def)

lemma demo_build:
  "k < 2 ^ 53 \<Longrightarrow> build_evaluation_record demo_hasher (demo_observation k)
     [demo_provenance ''left'' 20 k, demo_provenance ''right'' 90 k] None = Inr (demo_record k)"
  using demo_time [of k] demo_record_eq [of k]
  by (simp add: build_evaluation_record_def demo_observation_def demo_provenance_def
      demo_sensor_def SENSOR_SLOTS_def check_causal_def ob_sensor_def)

lemma unit_run: "\<not> isl (x :: unit result) \<Longrightarrow> x = Inr ()"
  by (cases x) auto

lemma demo_hd: "hd demo_episode = demo_record 0"
  by (simp add: demo_episode_def upt_rec)

end
