(* ===== verification/Delivery_Acceptance.thy ===== *)
theory Delivery_Acceptance
  imports Semantic_Gate Operator_Contracts
begin

text \<open>
  The gate accepts what the operators deliver: on a clean episode the validator of an
  availability, temporal or routing operator returns, and it passes exactly when the operator
  changed the content of an active record (for T3, when the skew shows in one).
\<close>

section \<open>Clean episodes\<close>

text \<open>What the collection of a clean episode records: every slot present, delivered from its own
  sensor at the current index, under no fault, with the digest of its payload.\<close>

definition clean_slot :: "hasher \<Rightarrow> nat \<Rightarrow> string \<Rightarrow> sensor \<Rightarrow> provenance \<Rightarrow> bool" where
  "clean_slot h i slot s p \<longleftrightarrow>
     so_payload s \<noteq> None \<and> so_payload_present s \<and> pv_active_fault_ids p = [] \<and>
     pv_source_index p = Some (int i) \<and> pv_physical_source_id p = slot \<and>
     array_sha256 h (so_payload s) = pv_payload_sha256 p"

definition clean_episode :: "hasher \<Rightarrow> evaluation list \<Rightarrow> bool" where
  "clean_episode h clean \<longleftrightarrow>
     list_all (valid_record h) clean \<and>
     (\<forall>i < length clean.
        ev_clean_record_sha256 (clean ! i) = ev_delivered_record_sha256 (clean ! i) \<and>
        ev_clean_record_sha256 (clean ! i) \<noteq> [] \<and>
        (\<forall>slot\<in>set SENSOR_SLOTS. \<forall>s p.
           slot_view (clean ! i) slot = (Inr s, Inr p) \<longrightarrow> clean_slot h i slot s p))"

lemma clean_episode_valid: "clean_episode h clean \<Longrightarrow> list_all (valid_record h) clean"
  by (simp add: clean_episode_def)

lemma clean_view:
  assumes "clean_episode h clean" "i < length clean" "slot \<in> set SENSOR_SLOTS"
  obtains s p where "slot_view (clean ! i) slot = (Inr s, Inr p)" "clean_slot h i slot s p"
proof -
  have "valid_record h (clean ! i)" using assms(1,2) by (simp add: clean_episode_def list_all_length)
  from valid_slot_view [OF this assms(3)] obtain s p where v: "slot_view (clean ! i) slot = (Inr s, Inr p)"
    by metis
  with assms have "clean_slot h i slot s p" by (auto simp: clean_episode_def)
  with v show thesis by (rule that)
qed

lemma slot_matches_view:
  assumes "slot_view a slot = (Inr s, Inr p)" "slot_view b slot = slot_view a slot"
  shows "slot_matches_clean h a b slot = Inr True"
  using assms by (simp add: slot_view_def slot_matches_clean_def slot_delivery_hash_def)

lemma slot_matches_total:
  assumes "slot_view a slot = (Inr s, Inr p)" "slot_view b slot = (Inr t, Inr q)"
  shows "\<exists>same. slot_matches_clean h a b slot = Inr same"
  using assms by (simp add: slot_view_def slot_matches_clean_def slot_delivery_hash_def)

section \<open>The slots the operators deliver\<close>

lemma slot_gate_unchanged:
  assumes "slot_view c slot = (Inr s, Inr p)" "clean_slot h i slot s p"
    "slot_view d slot = slot_view c slot" "int i \<notin> set availability"
  shows "slot_gate h m availability (int i) c d slot"
  using assms slot_matches_view [OF assms(1,3), of h]
  by (auto simp: slot_gate_def slot_view_def clean_slot_def intro: exI [of _ True])

lemma slot_gate_absent:
  assumes "slot_view c slot = (Inr s, Inr p)"
    "slot_view d slot = (Inr (absent_sensor m s), Inr (absent_provenance m p))"
    "int i \<in> set availability"
  shows "slot_gate h m availability (int i) c d slot"
  using assms slot_matches_total [OF assms(1,2), of h]
  by (auto simp: slot_gate_def slot_view_def absent_sensor_def absent_provenance_def)

lemma slot_gate_routed:
  assumes "slot_view c slot = (Inr current, Inr q)" "clean_slot h j src s p" "j \<le> i"
    "slot_view d slot = (Inr (routed_sensor m current s), Inr (routed_provenance m slot p))"
    "\<not> name_starts (CHR ''A'') (fm_operator_id m)"
  shows "slot_gate h m [] (int i) c d slot"
  using assms slot_matches_total [OF assms(1,4), of h]
  by (auto simp: slot_gate_def slot_view_def routed_sensor_def routed_provenance_def clean_slot_def
      fault_declared_validity_def)

lemma slot_gate_misrouted:
  assumes "slot_view c slot = (Inr target, Inr q)" "clean_slot h i src s p"
    "slot_view d slot = (Inr (misrouted_sensor m target s), Inr (misrouted_provenance h m slot s p))"
    "\<not> name_starts (CHR ''A'') (fm_operator_id m)"
  shows "slot_gate h m [] (int i) c d slot"
  using assms slot_matches_total [OF assms(1,3), of h]
  by (auto simp: slot_gate_def slot_view_def misrouted_sensor_def misrouted_provenance_def clean_slot_def
      fault_declared_validity_def)

section \<open>Records\<close>

lemma confined_record_gate:
  assumes clean: "clean_episode h clean" and conf: "all_confined h m clean out" and i: "i < length clean"
    and slots: "\<And>slot. manifest_active m (int i) \<Longrightarrow> slot \<in> set (fm_sensor_slots m) \<Longrightarrow>
      slot_gate h m availability (int i) (clean ! i) (out ! i) slot"
  shows "record_gate h m availability (i, clean ! i, out ! i)"
proof -
  let ?c = "clean ! i" and ?d = "out ! i"
  have c: "evaluation_ok h ?c" "ev_clean_record_sha256 ?c = content_hash h ?c" "ev_clean_record_sha256 ?c \<noteq> []"
    using clean i by (auto simp: clean_episode_def list_all_length valid_record_def evaluation_ok_def)
  have d: "record_frame ?c ?d" "\<not> manifest_active m (int i) \<Longrightarrow> ?d = ?c" "evaluation_ok h ?d"
    "\<And>slot. slot \<notin> set (fm_sensor_slots m) \<Longrightarrow> slot_view ?d slot = slot_view ?c slot"
    using conf i c(1) by (auto simp: all_confined_def confined_def)
  have "content_hash h ?d = ev_delivered_record_sha256 ?d" using d(3) by (simp add: evaluation_ok_def)
  moreover have "ev_clean_record_sha256 ?d = content_hash h ?c"
    using d(1) c(2,3) by (simp add: record_frame_def)
  moreover have "non_tactile_hash h ?d = non_tactile_hash h ?c"
    using d(1) by (simp add: non_tactile_hash_def record_frame_def Let_def)
  moreover have "slot_matches_clean h ?c ?d slot = Inr True" if "slot \<in> set (undeclared_slots m ?c)" for slot
  proof -
    have "slot \<in> set SENSOR_SLOTS" "slot \<notin> set (fm_sensor_slots m)"
      using that c(1) by (auto simp: undeclared_slots_def evaluation_ok_def)
    with clean_view [OF clean i] d(4) show ?thesis by (metis slot_matches_view)
  qed
  ultimately show ?thesis using slots d(2) by (auto simp: record_gate_def)
qed

text \<open>The gate raises on no pair of records whose slots are all there.\<close>

lemma validate_slot_total:
  assumes "slot_view c slot = (Inr s, Inr p)" "slot_view d slot = (Inr t, Inr q)"
  shows "\<exists>st'. validate_slot h m availability index c d st slot = Inr st'"
  using assms by (simp add: validate_slot_def slot_view_def slot_matches_clean_def slot_delivery_hash_def Let_def)

lemma present_view:
  assumes "evaluation_ok h r" "slot \<in> set SENSOR_SLOTS"
  obtains s p where "slot_view r slot = (Inr s, Inr p)"
proof -
  obtain s where "ob_sensor (ev_observation r) slot = Inr s"
    using ob_sensor_total [of slot "ev_observation r"] assms by (auto simp: evaluation_ok_def)
  moreover obtain p where "provenance_for r slot = Inr p"
    using provenance_for_total [of slot r] assms by (auto simp: evaluation_ok_def)
  ultimately show thesis by (intro that) (simp add: slot_view_def)
qed

lemma validate_record_total:
  assumes "evaluation_ok h c" "evaluation_ok h d" "set (fm_sensor_slots m) \<subseteq> set SENSOR_SLOTS"
  shows "\<exists>st'. validate_record h m availability st (i, c, d) = Inr st'"
proof (cases "manifest_active m (int i)")
  case False
  then show ?thesis by (simp add: validate_record_inactive)
next
  case True
  have a: "\<exists>st'. foldr_res (undeclared_step h c d) st (undeclared_slots m c) = Inr st'" for st
  proof -
    have "\<exists>st'. undeclared_step h c d u slot = Inr st'" if "slot \<in> set (undeclared_slots m c)" for u slot
    proof -
      have s: "slot \<in> set SENSOR_SLOTS"
        using that assms(1) by (auto simp: undeclared_slots_def evaluation_ok_def)
      obtain x y z w where v: "slot_view c slot = (Inr x, Inr y)" "slot_view d slot = (Inr z, Inr w)"
        using present_view [OF assms(1) s] present_view [OF assms(2) s] by metis
      then show ?thesis using slot_matches_total [OF v, of h] by (auto simp: undeclared_step_def)
    qed
    then show ?thesis by (intro foldr_res_returns) blast
  qed
  have b: "\<exists>st'. foldr_res (validate_slot h m availability (int i) c d) st (fm_sensor_slots m) = Inr st'" for st
  proof -
    have "\<exists>st'. validate_slot h m availability (int i) c d u slot = Inr st'"
      if "slot \<in> set (fm_sensor_slots m)" for u slot
    proof -
      have s: "slot \<in> set SENSOR_SLOTS" using that assms(3) by auto
      obtain x y z w where "slot_view c slot = (Inr x, Inr y)" "slot_view d slot = (Inr z, Inr w)"
        using present_view [OF assms(1) s] present_view [OF assms(2) s] by metis
      then show ?thesis by (rule validate_slot_total)
    qed
    then show ?thesis by (intro foldr_res_returns) blast
  qed
  show ?thesis
    using a b unfolding validate_record_active [OF True] Let_def by (metis bindr_simps(2))
qed

section \<open>The window\<close>

lemma window_item:
  assumes "index \<in> set (window_range m out)" "0 \<le> fm_start_index m"
  shows "py_index out index = Inr (out ! nat index)" "nat index < length out" "0 \<le> index"
    "manifest_active m index"
  using assms by (auto simp: window_range_def py_index_nonneg manifest_active_def)

lemma window_enumerate:
  assumes "(k, index) \<in> set (enumerate 0 (window_range m out))"
  shows "index \<in> set (window_range m out)" "index = fm_start_index m + int k"
    "k < nat (fm_stop_index m - fm_start_index m)"
  using assms
  by (auto simp: in_set_enumerate_eq window_range_def py_range_nth dest: in_set_zipE)

lemma py_index_nat: "i < length xs \<Longrightarrow> py_index xs (int i) = Inr (xs ! i)"
  by (simp add: py_index_nonneg)

lemma routed_gate_unchanged:
  assumes "clean_episode h clean" "i < length clean" "slot \<in> set SENSOR_SLOTS"
    "slot_view d slot = slot_view (clean ! i) slot"
  shows "routed_gate clean d slot (int i) slot"
proof -
  obtain s p where "slot_view (clean ! i) slot = (Inr s, Inr p)" "clean_slot h i slot s p"
    using clean_view [OF assms(1-3)] .
  with assms(2,4) show ?thesis by (simp add: routed_gate_def slot_view_def clean_slot_def py_index_nat)
qed

lemma routed_gate_source:
  assumes "clean_episode h clean" "j < length clean" "src \<in> set SENSOR_SLOTS"
    "slot_view (clean ! j) src = (Inr s, Inr p)" "provenance_for d slot = Inr q"
    "pv_source_index q = pv_source_index p" "pv_source_time_s q = pv_source_time_s p"
    "pv_payload_sha256 q = pv_payload_sha256 p" "pv_physical_source_id q = pv_physical_source_id p"
  shows "routed_gate clean d slot (int j) src"
proof -
  have "clean_slot h j src s p" using assms(1-4) by (auto simp: clean_episode_def)
  with assms show ?thesis by (simp add: routed_gate_def slot_view_def clean_slot_def py_index_nat)
qed

lemma same_gate_unchanged:
  assumes "clean_episode h clean" "i < length clean" "slot \<in> set SENSOR_SLOTS" "i < length out"
    "slot_view (out ! i) slot = slot_view (clean ! i) slot"
  shows "same_gate h clean out slot (int i)"
proof -
  obtain s p where "slot_view (clean ! i) slot = (Inr s, Inr p)"
    using clean_view [OF assms(1-3)] by metis
  from slot_matches_view [OF this assms(5)] assms(2,4) show ?thesis
    by (simp add: same_gate_def py_index_nat)
qed

section \<open>What the operators deliver is accepted\<close>

lemma paired_item:
  "x \<in> set (enumerate 0 (zip xs ys)) \<Longrightarrow> length ys = length xs \<Longrightarrow>
   \<exists>i < length xs. x = (i, xs ! i, ys ! i)"
  by (cases x) (auto simp: in_set_enumerate_eq)

lemma delivery_accepted:
  assumes m: "manifest_ok h m" and clean: "clean_episode h clean" and conf: "all_confined h m clean out"
    and av: "delivery_availability m = Inr availability"
    and slots: "\<And>i slot. i < length clean \<Longrightarrow> manifest_active m (int i) \<Longrightarrow> slot \<in> set (fm_sensor_slots m) \<Longrightarrow>
      slot_gate h m availability (int i) (clean ! i) (out ! i) slot"
    and changed: "affected_records h m clean out \<noteq> []"
    and semantics: "semantic_gate h np clean out m rest"
  shows "\<exists>r. validate_delivery h np clean out m rest = Inr r \<and> vr_passed r"
proof -
  note win = manifest_ok_window [OF m]
  have len: "length out = length clean" using conf by (simp add: all_confined_def)
  obtain dose supplied own where parts: "own_parameters h m dose supplied own" using manifest_own [OF m] .
  have dose: "severity_value (fm_operator_id m) (fm_severity_level m) = Inr dose"
    by (rule own_parametersD(1) [OF parts])
  have ok: "evaluation_ok h (clean ! i)" "evaluation_ok h (out ! i)" if "i < length clean" for i
    using that clean conf
    by (auto simp: clean_episode_def all_confined_def confined_def list_all_length valid_record_def)
  have "\<exists>st. foldr_res (validate_record h m availability) st0 (enumerate 0 (zip clean out)) = Inr st" for st0
  proof (rule foldr_res_returns)
    fix u and x :: "nat \<times> evaluation \<times> evaluation"
    assume "x \<in> set (enumerate 0 (zip clean out))"
    then obtain i where x: "x = (i, clean ! i, out ! i)" and i: "i < length clean"
      using paired_item len by blast
    show "\<exists>v. validate_record h m availability u x = Inr v"
      unfolding x by (rule validate_record_total [OF ok [OF i] win(7)])
  qed
  then obtain st where st: "foldr_res (validate_record h m availability)
      \<lparr>vs_codes = [], vs_failures = [], vs_affected = 0, vs_metrics = []\<rparr> (enumerate 0 (zip clean out)) = Inr st"
    by blast
  obtain st' where st': "validate_operator_semantics h np clean out m rest
      (fail_when (vs_affected st = 0) ''INACTIVE_OPERATOR'' ''operator changed no registered record'' st) = Inr st'"
    using validate_operator_semantics_total [OF semantics win(5)] by blast
  let ?r = "report_of dose m (vs_codes st' = []) st'"
  have run: "validate_delivery h np clean out m rest = Inr ?r"
    using dose len av st st'
    by (simp add: validate_delivery_def delivery_availability_def Let_def cong: if_cong)
  have "record_gate h m availability item" if "item \<in> set (enumerate 0 (zip clean out))" for item
  proof -
    from that obtain i where "item = (i, clean ! i, out ! i)" "i < length clean"
      using paired_item len by blast
    with confined_record_gate [OF clean conf _ slots] show ?thesis by simp
  qed
  then have "delivery_gate h np clean out m rest"
    using len av changed semantics by (auto simp: delivery_gate_def)
  with run validate_delivery_gate(1) [OF run] show ?thesis by blast
qed

lemma affected_active:
  assumes "affected_records h m clean out \<noteq> []" "length out = length clean"
  obtains i where "i < length clean" "manifest_active m (int i)" "out ! i \<noteq> clean ! i"
proof -
  from assms(1) obtain x where x: "x \<in> set (affected_records h m clean out)" by (meson last_in_set)
  then have "x \<in> set (enumerate 0 (zip clean out))" by (simp add: affected_records_def)
  then obtain i where i: "i < length clean" "x = (i, clean ! i, out ! i)"
    using paired_item assms(2) by blast
  with x have "manifest_active m (int i)" "content_hash h (out ! i) \<noteq> content_hash h (clean ! i)"
    by (auto simp: affected_records_def)
  with i(1) show thesis by (intro that [of i]) auto
qed

subsection \<open>A1 and A2\<close>

lemma absence_availability:
  assumes "manifest_ok h m" "fm_operator_id m \<in> {A1_stream_absence, A2_frame_erasure}"
  shows "delivery_availability m = Inr (absence_schedule m)"
proof (cases "fm_operator_id m = A1_stream_absence")
  case True
  obtain n where "param_ints m ''affected_offsets'' = Inr (py_range 0 n)"
    using A1_offsets [OF assms(1) True] by blast
  with True show ?thesis
    by (simp add: delivery_availability_def availability_indices_def absence_schedule_def)
next
  case False
  then have op: "fm_operator_id m = A2_frame_erasure" using assms(2) by simp
  obtain offs where "param_ints m ''erased_offsets'' = Inr offs"
    using A2_offsets [OF assms(1) op] by blast
  with op show ?thesis
    by (simp add: delivery_availability_def availability_indices_def absence_schedule_def)
qed

lemma absence_accepted:
  assumes m: "manifest_ok h m" "fm_operator_id m \<in> {A1_stream_absence, A2_frame_erasure}"
    and window: "fm_stop_index m - fm_start_index m \<le> 2 ^ 53"
    and clean: "clean_episode h clean" and run: "apply_operator h np (fm_operator_id m) clean m rest = Inr out"
    and changed: "affected_records h m clean out \<noteq> []"
  shows "\<exists>r. validate_delivery h np clean out m rest = Inr r \<and> vr_passed r"
proof (rule delivery_accepted [OF m(1) clean _ absence_availability [OF m] _ changed])
  show "all_confined h m clean out" using apply_operator_confined [OF run m(1)] window by blast
  note win = manifest_ok_window [OF m(1)]
  have abs: "absence h clean m (absence_schedule m) = Inr out"
    using absence_schedule_run [OF m] run by simp
  show "slot_gate h m (absence_schedule m) (int i) (clean ! i) (out ! i) slot"
    if i: "i < length clean" "slot \<in> set (fm_sensor_slots m)" for i slot
  proof -
    have slot: "slot \<in> set SENSOR_SLOTS" using i(2) win(7) by auto
    show ?thesis
    proof (cases "int i \<in> set (absence_schedule m)")
      case True
      with absence_delivers [OF abs win(6) i(1) _ i(2)] slot_gate_absent show ?thesis by blast
    next
      case False
      with absence_identity [OF abs i(1)] clean_view [OF clean i(1) slot] slot_gate_unchanged
      show ?thesis by metis
    qed
  qed
  show "semantic_gate h np clean out m rest"
    using m(2) by (auto simp: semantic_gate_def name_starts_def)
qed

subsection \<open>T1\<close>

text \<open>A slot delivered from a clean record at or before its own index.\<close>

definition routed_from ::
    "hasher \<Rightarrow> fault_manifest \<Rightarrow> evaluation list \<Rightarrow> evaluation list \<Rightarrow> nat \<Rightarrow> nat \<Rightarrow> string \<Rightarrow> bool" where
  "routed_from h m clean out i j slot \<longleftrightarrow>
     (\<exists>current q s p. slot_view (clean ! i) slot = (Inr current, Inr q) \<and>
        slot_view (clean ! j) slot = (Inr s, Inr p) \<and>
        slot_view (out ! i) slot = (Inr (routed_sensor m current s), Inr (routed_provenance m slot p)))"

lemma routed_from_gates:
  assumes "clean_episode h clean" "routed_from h m clean out i j slot" "j \<le> i" "i < length clean"
    "slot \<in> set SENSOR_SLOTS" "\<not> name_starts (CHR ''A'') (fm_operator_id m)"
  shows "slot_gate h m [] (int i) (clean ! i) (out ! i) slot"
    "routed_gate clean (out ! i) slot (int j) slot"
proof -
  obtain current q s p where v: "slot_view (clean ! i) slot = (Inr current, Inr q)"
    "slot_view (clean ! j) slot = (Inr s, Inr p)"
    "slot_view (out ! i) slot = (Inr (routed_sensor m current s), Inr (routed_provenance m slot p))"
    using assms(2) by (auto simp: routed_from_def)
  have c: "clean_slot h j slot s p" using v(2) assms(1,3,4,5) by (auto simp: clean_episode_def)
  show "slot_gate h m [] (int i) (clean ! i) (out ! i) slot"
    by (rule slot_gate_routed [OF v(1) c assms(3) v(3) assms(6)])
  show "routed_gate clean (out ! i) slot (int j) slot"
    by (rule routed_gate_source [OF assms(1) _ assms(5) v(2), of _ _ "routed_provenance m slot p"])
       (use v(3) assms(3,4) in \<open>simp_all add: slot_view_def routed_provenance_def\<close>)
qed

lemma reads_routed_from:
  assumes "clean_episode h clean" "reads_source m clean out d i slot" "i < length clean"
    "slot \<in> set SENSOR_SLOTS"
  shows "routed_from h m clean out i (source_of m d slot i) slot"
proof -
  obtain s p where "slot_view (clean ! i) slot = (Inr s, Inr p)"
    using clean_view [OF assms(1,3,4)] by metis
  with assms(2) show ?thesis
    by (auto simp: reads_source_def routed_from_def slot_view_def)
qed

lemma source_of_le: "source_of m d slot i \<le> i" if "0 \<le> d" "manifest_active m (int i)"
  using that by (auto simp: source_of_def manifest_active_def)

lemma temporal_slots:
  assumes m: "manifest_ok h m" and clean: "clean_episode h clean"
    and op: "fm_operator_id m \<in> {T1_fixed_source_delay, T2_held_last_freeze, T3_inter_sensor_skew}"
    and run: "apply_operator h np (fm_operator_id m) clean m rest = Inr out"
    and d: "severity_value (fm_operator_id m) (fm_severity_level m) = Inr (PInt d)" "1 \<le> d"
    and i: "i < length clean" "manifest_active m (int i)" "slot \<in> set (fm_sensor_slots m)"
  shows "slot_gate h m [] (int i) (clean ! i) (out ! i) slot"
    "routed_gate clean (out ! i) slot (int (source_of m d slot i)) slot"
proof -
  have slot: "slot \<in> set SENSOR_SLOTS" using i(3) manifest_ok_window(7) [OF m] by auto
  have notA: "\<not> name_starts (CHR ''A'') (fm_operator_id m)" using op by (auto simp: name_starts_def)
  note reads = temporal_reads [OF m clean_episode_valid [OF clean] run op d(1) i]
  have "slot_gate h m [] (int i) (clean ! i) (out ! i) slot \<and>
    routed_gate clean (out ! i) slot (int (source_of m d slot i)) slot"
  proof (cases "fm_operator_id m = T2_held_last_freeze \<and> source_of m d slot i = i")
    case True
    with reads have same: "out ! i = clean ! i" by simp
    obtain s p where v: "slot_view (clean ! i) slot = (Inr s, Inr p)" "clean_slot h i slot s p"
      using clean_view [OF clean i(1) slot] .
    show ?thesis
      using slot_gate_unchanged [OF v, of "out ! i" "[]" m] routed_gate_unchanged [OF clean i(1) slot, of "out ! i"]
        same True by simp
  next
    case False
    with reads have "reads_source m clean out d i slot" by (simp only: if_False)
    from reads_routed_from [OF clean this i(1) slot] routed_from_gates [OF clean _ _ i(1) slot notA]
      source_of_le [of d m i slot] d(2) i(2)
    show ?thesis by auto
  qed
  then show "slot_gate h m [] (int i) (clean ! i) (out ! i) slot"
    "routed_gate clean (out ! i) slot (int (source_of m d slot i)) slot" by blast+
qed

lemma temporal_accepted:
  assumes m: "manifest_ok h m" and clean: "clean_episode h clean"
    and op: "fm_operator_id m \<in> {T1_fixed_source_delay, T2_held_last_freeze, T3_inter_sensor_skew}"
    and window: "fm_stop_index m - fm_start_index m \<le> 2 ^ 53"
    and run: "apply_operator h np (fm_operator_id m) clean m rest = Inr out"
    and d: "severity_value (fm_operator_id m) (fm_severity_level m) = Inr (PInt d)" "1 \<le> d"
    and changed: "affected_records h m clean out \<noteq> []"
    and semantics: "semantic_gate h np clean out m rest"
  shows "\<exists>r. validate_delivery h np clean out m rest = Inr r \<and> vr_passed r"
proof (rule delivery_accepted [OF m clean _ _ _ changed semantics])
  show "all_confined h m clean out" using apply_operator_confined [OF run m] window by blast
  show "delivery_availability m = Inr []" using op by (auto simp: delivery_availability_def)
  show "slot_gate h m [] (int i) (clean ! i) (out ! i) slot"
    if "i < length clean" "manifest_active m (int i)" "slot \<in> set (fm_sensor_slots m)" for i slot
    by (rule temporal_slots(1) [OF m clean op run d that])
qed

lemma T1_accepted:
  assumes m: "manifest_ok h m" "fm_operator_id m = T1_fixed_source_delay" and clean: "clean_episode h clean"
    and window: "fm_stop_index m - fm_start_index m \<le> 2 ^ 53"
    and run: "apply_operator h np (fm_operator_id m) clean m rest = Inr out"
    and changed: "affected_records h m clean out \<noteq> []"
  shows "\<exists>r. validate_delivery h np clean out m rest = Inr r \<and> vr_passed r"
proof -
  obtain lag where map: "param_ints m ''source_index_map'' =
      Inr (map (\<lambda>i. i - lag) (py_range (fm_start_index m) (fm_stop_index m)))"
    and lag: "1 \<le> lag" "lag \<le> fm_start_index m"
      "severity_value T1_fixed_source_delay (fm_severity_level m) = Inr (PInt lag)"
    using T1_map [OF m] .
  note win = manifest_ok_window [OF m(1)]
  have op: "fm_operator_id m \<in> {T1_fixed_source_delay, T2_held_last_freeze, T3_inter_sensor_skew}"
    and d: "severity_value (fm_operator_id m) (fm_severity_level m) = Inr (PInt lag)"
    using m(2) lag(3) by auto
  have len: "length out = length clean"
    using apply_operator_confined [OF run m(1)] window by (simp add: all_confined_def)
  have "fixed_gate clean out (map (\<lambda>i. i - lag) (py_range (fm_start_index m) (fm_stop_index m))) item slot"
    if item: "item \<in> set (enumerate 0 (window_range m out))" and slot: "slot \<in> set (fm_sensor_slots m)" for item slot
  proof -
    obtain k index where it: "item = (k, index)" by (cases item)
    note w = window_enumerate [OF item [unfolded it]]
    note at = window_item [OF w(1) win(1)]
    have "py_index (map (\<lambda>i. i - lag) (py_range (fm_start_index m) (fm_stop_index m))) (int k) = Inr (index - lag)"
      using w(2,3) by (subst py_index_nonneg) (auto simp: py_range_nth)
    moreover have "routed_gate clean (out ! nat index) slot (index - lag) slot"
      using temporal_slots(2) [OF m(1) clean op run d lag(1), of "nat index" slot] at slot len lag(2) m(2) w(2)
      by (simp add: source_of_def)
    ultimately show ?thesis using at(1) it by (simp add: fixed_gate_def)
  qed
  then have "semantic_gate h np clean out m rest"
    using m(2) map by (auto simp: semantic_gate_def name_starts_def)
  from temporal_accepted [OF m(1) clean op window run d lag(1) changed this] show ?thesis .
qed

subsection \<open>T2\<close>

lemma T2_hold:
  assumes "manifest_ok h m" "fm_operator_id m = T2_held_last_freeze"
  obtains k where "severity_value T2_held_last_freeze (fm_severity_level m) = Inr (PInt k)" "1 \<le> k"
    "param_int m ''hold_duration_frames'' = Inr (min (fm_stop_index m - fm_start_index m) k)"
    "param_int m ''held_source_index'' = Inr (max 0 (fm_start_index m - 1))"
proof -
  obtain dose supplied own where parts: "own_parameters h m dose supplied own"
    using manifest_own [OF assms(1)] .
  note own = own_parametersD [OF parts]
  obtain k where k: "severity_value T2_held_last_freeze (fm_severity_level m) = Inr (PInt k)" "1 \<le> k"
    using T2_duration [OF assms] by metis
  then have dose: "dose = PInt k" using own(1) assms(2) by simp
  from own(2) have "map_of own ''hold_duration_frames'' = Some (PInt (min (fm_stop_index m - fm_start_index m) k))"
    "map_of own ''held_source_index'' = Some (PInt (max 0 (fm_start_index m - 1)))"
    using assms(2) dose by (auto simp: operator_parameters_def Let_def result_simps)
  with own(3) [of "''hold_duration_frames''"] own(3) [of "''held_source_index''"] k that show thesis
    by (simp add: shared_keys_def param_int_def)
qed

lemma T2_accepted:
  assumes m: "manifest_ok h m" "fm_operator_id m = T2_held_last_freeze" and clean: "clean_episode h clean"
    and window: "fm_stop_index m - fm_start_index m \<le> 2 ^ 53"
    and run: "apply_operator h np (fm_operator_id m) clean m rest = Inr out"
    and changed: "affected_records h m clean out \<noteq> []"
  shows "\<exists>r. validate_delivery h np clean out m rest = Inr r \<and> vr_passed r"
proof -
  obtain k where sev: "severity_value T2_held_last_freeze (fm_severity_level m) = Inr (PInt k)" and k: "1 \<le> k"
    and hold: "param_int m ''hold_duration_frames'' = Inr (min (fm_stop_index m - fm_start_index m) k)"
    and held: "param_int m ''held_source_index'' = Inr (max 0 (fm_start_index m - 1))"
    using T2_hold [OF m] .
  note win = manifest_ok_window [OF m(1)]
  have op: "fm_operator_id m \<in> {T1_fixed_source_delay, T2_held_last_freeze, T3_inter_sensor_skew}"
    and d: "severity_value (fm_operator_id m) (fm_severity_level m) = Inr (PInt k)"
    using m(2) sev by auto
  have len: "length out = length clean"
    using apply_operator_confined [OF run m(1)] window by (simp add: all_confined_def)
  obtain i where i: "i < length clean" "manifest_active m (int i)"
    using affected_active [OF changed len] .
  let ?dur = "min (fm_stop_index m - fm_start_index m) k"
  have stop: "freeze_stop m ?dur = min (fm_stop_index m) (fm_start_index m + k)"
    by (simp add: freeze_stop_def)
  have "held_slot_gate h clean out m ?dur (max 0 (fm_start_index m - 1)) slot"
    if slot: "slot \<in> set (fm_sensor_slots m)" for slot
  proof -
    have "held_range m ?dur out \<noteq> []"
      using i win k len by (simp add: held_range_def stop manifest_active_def min_le_iff_disj)
    moreover have "\<exists>d. py_index out index = Inr d \<and> routed_gate clean d slot (max 0 (fm_start_index m - 1)) slot"
      if "index \<in> set (held_range m ?dur out)" for index
    proof -
      have idx: "index \<in> set (window_range m out)" "index < fm_start_index m + k"
        using that by (auto simp: held_range_def stop window_range_def)
      note at = window_item [OF idx(1) win(1)]
      have "int (source_of m k slot (nat index)) = max 0 (fm_start_index m - 1)"
        using m(2) idx(2) at(3) by (simp add: source_of_def)
      with temporal_slots(2) [OF m(1) clean op run d k, of "nat index" slot] at slot len show ?thesis by simp
    qed
    moreover have "same_gate h clean out slot index" if "index \<in> set (released_range m ?dur out)" for index
    proof -
      have idx: "index \<in> set (window_range m out)" "fm_start_index m + k \<le> index"
        using that win k by (auto simp: released_range_def stop window_range_def)
      note at = window_item [OF idx(1) win(1)]
      have "source_of m k slot (nat index) = nat index"
        using m(2) idx(2) at(3) by (simp add: source_of_def)
      with temporal_reads [OF m(1) clean_episode_valid [OF clean] run op d, of "nat index" slot] m(2) at slot len
      have "out ! nat index = clean ! nat index" by simp
      with same_gate_unchanged [OF clean, of "nat index" slot out] at slot len win(7) show ?thesis by auto
    qed
    ultimately show ?thesis by (simp add: held_slot_gate_def)
  qed
  then have "semantic_gate h np clean out m rest"
    using m(2) hold held by (auto simp: semantic_gate_def name_starts_def)
  from temporal_accepted [OF m(1) clean op window run d k changed this] show ?thesis .
qed

subsection \<open>T3\<close>

lemma T3_source:
  assumes "manifest_ok h m" "fm_operator_id m = T3_inter_sensor_skew"
    "severity_value T3_inter_sensor_skew (fm_severity_level m) = Inr (PInt k)" "1 \<le> k"
    "manifest_active m (int i)" "slot \<in> set (fm_sensor_slots m)"
  shows "t3_source_index m slot (int i - fm_start_index m) = Inr (int (source_of m k slot i))"
proof (rule T3_map [OF assms(1,2)])
  fix k' v
  assume k': "severity_value T3_inter_sensor_skew (fm_severity_level m) = Inr (PInt k')"
    and item: "\<And>slot. slot \<in> set (fm_sensor_slots m) \<Longrightarrow> param_item m ''source_index_map'' slot =
        Inr (ints (t3_slot_map (fm_start_index m) (fm_stop_index m) k' (slot = last (fm_sensor_slots m))))"
  have "k' = k" using k' assms(3) by simp
  with item [OF assms(6)] window_index [OF assms(5) manifest_ok_window(1) [OF assms(1)]] assms(2,4) show ?thesis
    by (simp add: t3_source_index_def ints_def t3_slot_map_def py_index_nonneg py_range_nth source_of_def)
qed

lemma T3_gap:
  assumes m: "manifest_ok h m" "fm_operator_id m = T3_inter_sensor_skew" and clean: "clean_episode h clean"
    and run: "apply_operator h np (fm_operator_id m) clean m rest = Inr out"
    and d: "severity_value (fm_operator_id m) (fm_severity_level m) = Inr (PInt k)" "1 \<le> k"
    and two: "length (fm_sensor_slots m) = 2"
    and i: "i < length clean" "0 < i" "manifest_active m (int i)" and len: "length out = length clean"
  shows "0 < skew_gap out m (int i)"
proof -
  have op: "fm_operator_id m \<in> {T1_fixed_source_delay, T2_held_last_freeze, T3_inter_sensor_skew}"
    using m(2) by simp
  obtain a b where slots: "fm_sensor_slots m = [a, b]" "a \<noteq> b"
    using two manifest_ok_window(6) [OF m(1)] by (auto simp: length_Suc_conv numeral_2_eq_2)
  have routed: "routed_gate clean (out ! i) slot (int (source_of m k slot i)) slot" if "slot \<in> {a, b}" for slot
    using temporal_slots(2) [OF m(1) clean op run d i(1,3)] that slots(1) by simp
  have "slot_sources m (out ! i) = Inr [Some (int (source_of m k a i)), Some (int (source_of m k b i))]"
    using routed [of a] routed [of b] slots(1) by (auto simp: slot_sources_def routed_gate_def)
  then have "skew_gap out m (int i) = spread [Some (int i), Some (max 0 (int i - k))]"
    using slots m(2) i(1) len d(2) by (simp add: skew_gap_def py_index_nat source_of_def)
  also have "\<dots> = int i - max 0 (int i - k)" using d(2) by (auto simp: spread_def max_def min_def)
  finally show ?thesis using i(2) d(2) by auto
qed

lemma T3_accepted:
  assumes m: "manifest_ok h m" "fm_operator_id m = T3_inter_sensor_skew" and clean: "clean_episode h clean"
    and window: "fm_stop_index m - fm_start_index m \<le> 2 ^ 53"
    and run: "apply_operator h np (fm_operator_id m) clean m rest = Inr out"
    and changed: "affected_records h m clean out \<noteq> []"
    and two: "length (fm_sensor_slots m) = 2"
    and i: "i < length clean" "0 < i" "manifest_active m (int i)"
  shows "\<exists>r. validate_delivery h np clean out m rest = Inr r \<and> vr_passed r"
proof -
  obtain k where k: "1 \<le> k" "severity_value T3_inter_sensor_skew (fm_severity_level m) = Inr (PInt k)"
    using T3_skew [OF m] .
  note win = manifest_ok_window [OF m(1)]
  have op: "fm_operator_id m \<in> {T1_fixed_source_delay, T2_held_last_freeze, T3_inter_sensor_skew}"
    and d: "severity_value (fm_operator_id m) (fm_severity_level m) = Inr (PInt k)"
    using m(2) k(2) by auto
  have len: "length out = length clean"
    using apply_operator_confined [OF run m(1)] window by (simp add: all_confined_def)
  have "skew_gate clean out m index" if "index \<in> set (window_range m out)" for index
  proof -
    note at = window_item [OF that win(1)]
    have "t3_source_index m slot (index - fm_start_index m) = Inr (int (source_of m k slot (nat index))) \<and>
      routed_gate clean (out ! nat index) slot (int (source_of m k slot (nat index))) slot"
      if "slot \<in> set (fm_sensor_slots m)" for slot
      using T3_source [OF m k(2,1), of "nat index" slot]
        temporal_slots(2) [OF m(1) clean op run d k(1), of "nat index" slot] at that len by simp
    with at(1) show ?thesis by (auto simp: skew_gate_def)
  qed
  moreover have "int i \<in> set (window_range m out)"
    using i len by (simp add: window_range_def manifest_active_def)
  ultimately have "semantic_gate h np clean out m rest"
    using m(2) T3_gap [OF m clean run d k(1) two i len]
    by (auto simp: semantic_gate_def name_starts_def)
  from temporal_accepted [OF m(1) clean op window run d k(1) changed this] show ?thesis .
qed

text \<open>With a single slot there is no skew to show.\<close>

lemma single_slot_gap:
  assumes "length (fm_sensor_slots m) = 1"
  shows "skew_gap delivered m index \<le> 0 \<or> isl (slot_sources m (projr (py_index delivered index)))"
proof -
  obtain a where "fm_sensor_slots m = [a]" using assms by (auto simp: length_Suc_conv)
  then show ?thesis
    by (cases "provenance_for (projr (py_index delivered index)) a")
       (auto simp: skew_gap_def spread_def slot_sources_def isl_def)
qed

lemma single_slot_refused:
  assumes "fm_operator_id m = T3_inter_sensor_skew" "length (fm_sensor_slots m) = 1"
    "validate_delivery h np clean delivered m rest = Inr r"
  shows "\<not> vr_passed r"
proof
  assume "vr_passed r"
  then have "semantic_gate h np clean delivered m rest"
    using validate_delivery_gate(1) [OF assms(3)] by (simp add: delivery_gate_def)
  then obtain index where "skew_gate clean delivered m index" "0 < skew_gap delivered m index"
    using assms(1) by (auto simp: semantic_gate_def)
  moreover from this(1) have "\<not> isl (slot_sources m (projr (py_index delivered index)))"
    using assms(2) by (auto simp: skew_gate_def slot_sources_def routed_gate_def length_Suc_conv)
  ultimately show False using single_slot_gap [OF assms(2), of delivered index] by linarith
qed

subsection \<open>C1\<close>

lemma other_slot_neq: "slot \<in> set SENSOR_SLOTS \<Longrightarrow> other_slot slot \<noteq> slot \<and> other_slot slot \<in> set SENSOR_SLOTS"
  by (auto simp: other_slot_def SENSOR_SLOTS_def)

lemma C1_slot:
  assumes m: "manifest_ok h m" "fm_operator_id m = C1_sensor_identity_misrouting" and clean: "clean_episode h clean"
    and run: "C1_apply h clean m = Inr out" and offsets: "param_ints m ''affected_offsets'' = Inr offsets"
    and i: "i < length clean" "int i - fm_start_index m \<in> set offsets" "slot \<in> set SENSOR_SLOTS"
    and len: "length out = length clean"
  shows "slot_gate h m [] (int i) (clean ! i) (out ! i) slot" "misroute_gate clean out m (int i) slot"
    "source_differs out (int i) slot"
proof -
  obtain target s p where t: "ob_sensor (ev_observation (clean ! i)) slot = Inr target"
    and src: "slot_view (clean ! i) (other_slot slot) = (Inr s, Inr p)"
    and view: "slot_view (out ! i) slot = (Inr (misrouted_sensor m target s), Inr (misrouted_provenance h m slot s p))"
    using C1_delivers [OF m clean_episode_valid [OF clean] run offsets i] by blast
  note other = other_slot_neq [OF i(3)]
  obtain u q where v: "slot_view (clean ! i) slot = (Inr u, Inr q)" using clean_view [OF clean i(1,3)] .
  then have cv: "slot_view (clean ! i) slot = (Inr target, Inr q)" using t by (simp add: slot_view_def)
  have c: "clean_slot h i (other_slot slot) s p" using src clean i(1) other by (auto simp: clean_episode_def)
  show "slot_gate h m [] (int i) (clean ! i) (out ! i) slot"
    by (rule slot_gate_misrouted [OF cv c view]) (use m(2) in \<open>simp add: name_starts_def\<close>)
  have "routed_gate clean (out ! i) slot (int i) (other_slot slot)"
    by (rule routed_gate_source [OF clean i(1) _ src, of _ _ "misrouted_provenance h m slot s p"])
       (use view other c in \<open>simp_all add: slot_view_def misrouted_provenance_def clean_slot_def\<close>)
  with c1_source [OF m i(3)] i(1) len show "misroute_gate clean out m (int i) slot"
    by (simp add: misroute_gate_def py_index_nat)
  show "source_differs out (int i) slot"
    using view c other i(1) len
    by (simp add: source_differs_def py_index_nat slot_view_def misrouted_provenance_def clean_slot_def)
qed

lemma C1_accepted:
  assumes m: "manifest_ok h m" "fm_operator_id m = C1_sensor_identity_misrouting" and clean: "clean_episode h clean"
    and window: "fm_stop_index m - fm_start_index m \<le> 2 ^ 53"
    and run: "apply_operator h np (fm_operator_id m) clean m rest = Inr out"
    and changed: "affected_records h m clean out \<noteq> []"
  shows "\<exists>r. validate_delivery h np clean out m rest = Inr r \<and> vr_passed r"
proof -
  note win = manifest_ok_window [OF m(1)]
  obtain n where off: "param_ints m ''affected_offsets'' = Inr (py_range 0 n)"
    using C1_offsets [OF m] by metis
  have c1: "C1_apply h clean m = Inr out" using run m(2) by simp
  have conf: "all_confined h m clean out" using apply_operator_confined [OF run m(1)] window by blast
  then have len: "length out = length clean" by (simp add: all_confined_def)
  note slot = C1_slot [OF m clean c1 off]
  have kept: "out ! i = clean ! i" if "i < length clean" "int i - fm_start_index m \<notin> {0..<n}" for i
    by (rule C1_unscheduled [OF m c1 that(1) off that(2)])
  have slots: "set (fm_sensor_slots m) = set SENSOR_SLOTS" by (rule win(8) [OF m(2)])
  have gate: "slot_gate h m [] (int i) (clean ! i) (out ! i) slot"
    if i: "i < length clean" "slot \<in> set (fm_sensor_slots m)" for i slot
  proof (cases "int i - fm_start_index m \<in> {0..<n}")
    case True
    with slot(1) [of i slot] i slots len show ?thesis by simp
  next
    case False
    with kept [OF i(1)] clean_view [OF clean i(1), of slot] i slots slot_gate_unchanged show ?thesis
      by (metis empty_iff empty_set)
  qed
  let ?affected = "(\<lambda>offset. fm_start_index m + offset) ` {0..<n}"
  have scheduled: "index \<in> ?affected \<longleftrightarrow> index - fm_start_index m \<in> {0..<n}" for index
    by (auto simp: image_iff intro: bexI [of _ "index - fm_start_index m"])
  have routed: "misroute_gate clean out m index slot" "source_differs out index slot"
    if "index \<in> ?affected" "index < int (length out)" "slot \<in> set (fm_sensor_slots m)" for index slot
  proof -
    have "0 \<le> index" using that(1) win(1) by auto
    then show "misroute_gate clean out m index slot" "source_differs out index slot"
      using slot(2,3) [of "nat index" slot] that scheduled [of index] slots len by simp_all
  qed
  moreover have "same_gate h clean out slot index"
    if "index \<in> set (window_range m out) - ?affected" "slot \<in> set (fm_sensor_slots m)" for index slot
  proof -
    have w: "index \<in> set (window_range m out)" and f: "index - fm_start_index m \<notin> {0..<n}"
      using that(1) scheduled [of index] by auto
    note at = window_item [OF w win(1)]
    have "out ! nat index = clean ! nat index" using kept [of "nat index"] f at len by simp
    with same_gate_unchanged [OF clean, of "nat index" slot out] that(2) slots at len show ?thesis by simp
  qed
  moreover have "\<exists>offset\<in>{0..<n}. fm_start_index m + offset < int (length out) \<and>
      (\<exists>slot\<in>set (fm_sensor_slots m). source_differs out (fm_start_index m + offset) slot)"
  proof -
    obtain i where i: "i < length clean" "out ! i \<noteq> clean ! i" using affected_active [OF changed len] by metis
    then have "int i - fm_start_index m \<in> {0..<n}" using kept [OF i(1)] by blast
    moreover from this have "int i \<in> ?affected" using scheduled [of "int i"] by blast
    moreover obtain slot where "slot \<in> set (fm_sensor_slots m)" using slots by (auto simp: SENSOR_SLOTS_def)
    ultimately show ?thesis using routed(2) [of "int i"] i(1) len
      by (intro bexI [of _ "int i - fm_start_index m"]) auto
  qed
  ultimately have "semantic_gate h np clean out m rest"
    using m(2) off by (auto simp: semantic_gate_def name_starts_def Let_def)
  from delivery_accepted [OF m(1) clean conf _ _ changed this, of "[]"] gate m(2) show ?thesis
    by (simp add: delivery_availability_def)
qed

section \<open>A digest that tells a faulted record from a clean one\<close>

primrec mentions :: "string \<Rightarrow> pyval \<Rightarrow> bool" where
  "mentions name PNone = False"
| "mentions name (PBool b) = False"
| "mentions name (PInt i) = False"
| "mentions name (PFloat q) = False"
| "mentions name PNonFinite = False"
| "mentions name (PStr s) = (s = name)"
| "mentions name (PList vs) = list_ex id (map (mentions name) vs)"
| "mentions name (PDict kvs) = list_ex (\<lambda>kv. snd kv) (map (map_prod id (mentions name)) kvs)"
| "mentions name POther = False"

definition marking_hasher :: "operator_id \<Rightarrow> hasher" where
  "marking_hasher op =
     \<lparr>sha_json = (\<lambda>v. if mentions (operator_name op) v then replicate 64 (CHR ''f'') else demo_sha),
      sha_arr = (\<lambda>a. demo_sha)\<rparr>"

definition marked_init :: "operator_id \<Rightarrow> fault_manifest result" where
  "marked_init op = manifest_init (marking_hasher op) (operator_name op) 1 3 1 3
     [''left'', ''right''] BLIND [] FAULT_MANIFEST_SEMANTIC_VERSION OPERATOR_IMPLEMENTATION_VERSION
     SEVERITY_REGISTRY_ID"

definition marked_manifest :: "operator_id \<Rightarrow> fault_manifest" where
  "marked_manifest op = projr (marked_init op)"

lemma marked_A1: "\<not> isl (marked_init A1_stream_absence)" by code_simp

lemma mentions_canon: "mentions name (canon v) = mentions name v"
proof (induction v)
  case (PList xs)
  then show ?case by (auto simp: list_ex_iff)
next
  case (PDict kvs)
  have "mentions name (canon (snd x)) = mentions name (snd x)" if "x \<in> set kvs" for x
    using PDict [OF that, of "snd x"] by (cases x) simp
  then have "(\<exists>x\<in>set kvs. mentions name (canon (snd x))) = (\<exists>x\<in>set kvs. mentions name (snd x))" by blast
  then show ?case by (simp add: list_ex_iff image_iff)
qed auto

lemma marked_hash:
  "delivered_hash (marking_hasher op) ob pvs =
   (if mentions (operator_name op) (observation_value (marking_hasher op) ob) \<or>
       (\<exists>p\<in>set pvs. mentions (operator_name op) (provenance_value p))
    then replicate 64 (CHR ''f'') else demo_sha)"
  by (simp add: delivered_hash_def canonical_hash_def marking_hasher_def mentions_canon list_ex_iff)

lemma marked_fault:
  "p \<in> set pvs \<Longrightarrow> operator_name op \<in> set (pv_active_fault_ids p) \<Longrightarrow>
   delivered_hash (marking_hasher op) ob pvs = replicate 64 (CHR ''f'')"
  by (auto simp: marked_hash provenance_value_def list_ex_iff)

lemma marked_demo:
  assumes "k < 2 ^ 53"
  shows "delivered_hash (marking_hasher A1_stream_absence) (demo_observation k)
    [demo_provenance ''left'' 20 k, demo_provenance ''right'' 90 k] = demo_sha"
proof -
  have neq: "demo_sha \<noteq> ''A1_stream_absence''" by code_simp
  show ?thesis
    unfolding marked_hash
    by (simp add: provenance_value_def observation_value_def sensor_value_def array_value_def
        opt_value_def demo_observation_def demo_sensor_def demo_provenance_def demo_vector_def
        demo_frame_def marking_hasher_def demo_hasher_def array_sha256_def neq)
qed

lemma marked_valid:
  assumes "k < 2 ^ 53"
  shows "valid_record (marking_hasher A1_stream_absence) (demo_record k)"
  using demo_valid [OF assms] marked_demo [OF assms]
  by (simp add: valid_record_def evaluation_ok_def demo_record_eq [OF assms])

lemma marked_clean: "clean_episode (marking_hasher A1_stream_absence) demo_episode"
proof -
  have "clean_slot (marking_hasher A1_stream_absence) i slot s p"
    if "i < 4" "slot \<in> set SENSOR_SLOTS" "slot_view (demo_record i) slot = (Inr s, Inr p)" for i slot s p
  proof -
    have "s = demo_sensor slot (if slot = ''left'' then 20 else 90) i"
      "p = demo_provenance slot (if slot = ''left'' then 20 else 90) i"
      using that
      by (auto simp: slot_view_def demo_record_eq ob_sensor_def demo_sensors provenance_for_def
          find_provenance_def SENSOR_SLOTS_def)
    then show ?thesis
      by (simp add: clean_slot_def demo_sensor_def demo_provenance_def array_sha256_def marking_hasher_def
          demo_hasher_def)
  qed
  then show ?thesis
    by (auto simp: clean_episode_def list_all_length demo_nth marked_valid) (simp_all add: demo_record_eq)
qed

lemma marked_manifest_A1:
  "manifest_ok (marking_hasher A1_stream_absence) (marked_manifest A1_stream_absence)"
  "fm_operator_id (marked_manifest A1_stream_absence) = A1_stream_absence"
  "fm_start_index (marked_manifest A1_stream_absence) = 1"
  "fm_stop_index (marked_manifest A1_stream_absence) = 3"
  "fm_sensor_slots (marked_manifest A1_stream_absence) = [''left'', ''right'']"
  "absence_schedule (marked_manifest A1_stream_absence) = [1]"
proof -
  have init: "marked_init A1_stream_absence = Inr (marked_manifest A1_stream_absence)"
    using marked_A1 by (auto simp: marked_manifest_def isl_def split: sum.splits)
  note m = init [unfolded marked_init_def]
  show "manifest_ok (marking_hasher A1_stream_absence) (marked_manifest A1_stream_absence)"
    by (rule manifest_init_ok [OF m])
  show "fm_operator_id (marked_manifest A1_stream_absence) = A1_stream_absence"
    using manifest_init_Inr(1) [OF m] by (simp only: operator_name_inj)
  show "fm_start_index (marked_manifest A1_stream_absence) = 1"
    "fm_stop_index (marked_manifest A1_stream_absence) = 3"
    "fm_sensor_slots (marked_manifest A1_stream_absence) = [''left'', ''right'']"
    using manifest_init_Inr(4,5,6) [OF m] by simp_all
  show "absence_schedule (marked_manifest A1_stream_absence) = [1]" by code_simp
qed

text \<open>The faulted demonstration episode differs from the clean one under this digest.\<close>

lemma marked_affected:
  assumes "apply_operator (marking_hasher A1_stream_absence) np A1_stream_absence demo_episode
    (marked_manifest A1_stream_absence) None = Inr out"
  shows "affected_records (marking_hasher A1_stream_absence) (marked_manifest A1_stream_absence)
    demo_episode out \<noteq> []"
proof -
  let ?h = "marking_hasher A1_stream_absence" and ?m = "marked_manifest A1_stream_absence"
  note m = marked_manifest_A1
  have run: "absence ?h demo_episode ?m [1] = Inr out"
    using absence_schedule_run [OF m(1), of np demo_episode None] assms m by simp
  obtain s p where v: "slot_view (out ! 1) ''left'' = (Inr (absent_sensor ?m s), Inr (absent_provenance ?m p))"
    using absence_delivers [OF run, of 1 "''left''"] m(5) by auto
  then have member: "absent_provenance ?m p \<in> set (ev_provenance (out ! 1))"
    using provenance_for_slot by (auto simp: slot_view_def)
  have "pv_active_fault_ids (absent_provenance ?m p) = [operator_name A1_stream_absence]"
    using m(2) by (simp add: absent_provenance_def)
  then have "operator_name A1_stream_absence \<in> set (pv_active_fault_ids (absent_provenance ?m p))"
    by (metis list.set_intros(1))
  then have "content_hash ?h (out ! 1) = replicate 64 (CHR ''f'')"
    by (rule marked_fault [OF member])
  moreover have "content_hash ?h (demo_episode ! 1) = demo_sha"
    using marked_demo [of 1] by (simp add: demo_nth demo_record_eq)
  moreover have "length out = 4" using run by (auto simp: absence_def each_record_map dest: mapr_length)
  ultimately have "(1, demo_episode ! 1, out ! 1) \<in> set (affected_records ?h ?m demo_episode out)"
    using m(3,4) by (auto simp: affected_records_def in_set_enumerate_eq manifest_active_def demo_sha_def)
  then show ?thesis by auto
qed

section \<open>Other demonstrations\<close>

text \<open>An availability or absence report always returns on well-formed episodes of equal length.\<close>

lemma unchanged_report:
  assumes "manifest_ok h m" "fm_operator_id m \<in> {A1_stream_absence, A2_frame_erasure}"
    "list_all (valid_record h) clean"
  shows "\<exists>r. validate_delivery h np clean clean m rest = Inr r"
proof -
  obtain dose supplied own where parts: "own_parameters h m dose supplied own" using manifest_own [OF assms(1)] .
  have dose: "severity_value (fm_operator_id m) (fm_severity_level m) = Inr dose"
    by (rule own_parametersD(1) [OF parts])
  have "\<exists>st. foldr_res (validate_record h m (absence_schedule m)) st0 (enumerate 0 (zip clean clean)) = Inr st" for st0
  proof (rule foldr_res_returns)
    fix u and x :: "nat \<times> evaluation \<times> evaluation"
    assume "x \<in> set (enumerate 0 (zip clean clean))"
    then obtain i where x: "x = (i, clean ! i, clean ! i)" and i: "i < length clean" using paired_item by blast
    then have "evaluation_ok h (clean ! i)" using assms(3) by (simp add: list_all_length valid_record_def)
    then show "\<exists>v. validate_record h m (absence_schedule m) u x = Inr v"
      unfolding x using validate_record_total manifest_ok_window(7) [OF assms(1)] by blast
  qed
  then obtain st where "foldr_res (validate_record h m (absence_schedule m))
      \<lparr>vs_codes = [], vs_failures = [], vs_affected = 0, vs_metrics = []\<rparr> (enumerate 0 (zip clean clean)) = Inr st"
    by blast
  with dose absence_availability [OF assms(1,2)] assms(2) show ?thesis
    by (auto simp: validate_delivery_def delivery_availability_def validate_operator_semantics_def
        name_starts_def Let_def)
qed

definition single_slot_manifest :: fault_manifest where
  "single_slot_manifest = projr (manifest_init demo_hasher (operator_name T3_inter_sensor_skew) 1 3 1 3
     [''left''] BLIND [] FAULT_MANIFEST_SEMANTIC_VERSION OPERATOR_IMPLEMENTATION_VERSION SEVERITY_REGISTRY_ID)"

lemma single_slot_init: "\<not> isl (manifest_init demo_hasher (operator_name T3_inter_sensor_skew) 1 3 1 3
     [''left''] BLIND [] FAULT_MANIFEST_SEMANTIC_VERSION OPERATOR_IMPLEMENTATION_VERSION SEVERITY_REGISTRY_ID)"
  by code_simp

lemma single_slot_fields:
  "fm_operator_id single_slot_manifest = T3_inter_sensor_skew" "length (fm_sensor_slots single_slot_manifest) = 1"
  by code_simp+

lemma single_slot_report:
  "\<exists>r. validate_delivery demo_hasher demo_numpy [] [] single_slot_manifest None = Inr r"
proof -
  have "\<not> isl (validate_delivery demo_hasher demo_numpy [] [] single_slot_manifest None)" by code_simp
  then show ?thesis by (auto simp: isl_def) (metis sum.exhaust)
qed

end
