(* ===== verification/Reference_Match.thy ===== *)
theory Reference_Match
  imports Reference_Signatures Replay_Fidelity
begin

text \<open>
  The injected pixel operators agree with the independent reference the validator checks them
  with: whatever payload an operator delivers, the reference realization computes the same one.
  Two documented facts about numpy are needed for the two transforms that are not written the
  same way, clipping of scaled 8-bit data and masked assignment through an empty mask.
\<close>

section \<open>What is used of numpy\<close>

definition numpy_laws :: "numpy \<Rightarrow> bool" where
  "numpy_laws np \<longleftrightarrow>
     np_is_integer np ''uint8'' \<and>
     (\<forall>a. uint8_array a \<longrightarrow>
        np_clip np (np_div_s np (np_astype np a ''float64'') 255) 0 1 =
        np_div_s np (np_astype np a ''float64'') 255) \<and>
     (\<forall>a b mask v r. \<not> np_any np mask \<and> np_get np b mask = Inr v \<and> np_put np a mask v = Inr r \<longrightarrow>
        r = a)"

lemma ref_normalize_eq: "ref_normalize np = normalize np"
  by (intro ext) (simp add: ref_normalize_def normalize_def np_normalize_as_def)

lemma ref_restore_eq: "ref_restore np = clip_like np" "ref_restore np = restore_like np"
  by (intro ext, simp add: ref_restore_def clip_like_def restore_like_def)+

lemma ref_grid_eq: "ref_grid np payload = (case dim3 payload of (height, width) \<Rightarrow> grid np height width)"
  by (simp add: ref_grid_def grid_def dim3_def)

lemma ref_scale64_eq:
  "numpy_laws np \<Longrightarrow> uint8_array payload \<Longrightarrow> ref_scale64 np payload = normalize_float64 np payload"
  by (simp add: ref_scale64_def normalize_float64_def np_normalize_as_def numpy_laws_def uint8_array_def)

lemma ref_reflect_indices_eq: "ref_reflect_indices = reflected_indices"
  by (intro ext) (simp add: ref_reflect_indices_def reflected_indices_def reflect_index_def Let_def)

lemma ref_baseline_for:
  "rest = Some b \<Longrightarrow> baseline_for h slot m rest = ref_baseline h slot m b"
  by (simp add: baseline_for_def ref_baseline_def)

section \<open>Transform by transform\<close>

lemma ref_f1_matches:
  "fm_operator_id m = F1_global_response_drift \<Longrightarrow>
   transform_current h np m rest index slot payload = ref_f1 np payload m index"
  by (simp add: transform_current_def ref_f1_def F1_transform_def F1_gain_def ref_normalize_eq
      ref_restore_eq(1) Let_def)

lemma ref_f2_matches:
  assumes "fm_operator_id m = F2_spatial_sensitivity_loss"
    "transform_current h np m rest index slot payload = Inr x" "baseline_for h slot m rest = Inr baseline"
  shows "ref_f2 np payload baseline m = Inr x"
  using assms
  by (auto simp: transform_current_def F2_transform_def ref_f2_def ref_normalize_eq ref_grid_eq
      ref_restore_eq(1) Let_def result_simps split: prod.splits)

lemma ref_f3_matches:
  assumes "fm_operator_id m = F3_persistent_surface_artifact"
    "transform_current h np m rest index slot payload = Inr x"
  shows "ref_f3 np payload m = Inr x"
  using assms
  by (auto simp: transform_current_def F3_transform_def ref_f3_def ref_normalize_eq ref_grid_eq
      ref_restore_eq(1) dim3_def Let_def result_simps split: prod.splits)

lemma ref_f4_matches:
  assumes "fm_operator_id m = F4_local_nonresponsive_patch"
    "transform_current h np m rest index slot payload = Inr x" "baseline_for h slot m rest = Inr baseline"
  shows "ref_f4 np payload baseline m = Inr x"
  using assms
  by (auto simp: transform_current_def F4_transform_def ref_f4_def F4_radius_def ref_grid_eq
      Let_def result_simps split: prod.splits)

lemma ref_f5_warp_matches:
  assumes laws: "numpy_laws np" and u: "uint8_array payload"
    and op: "compact_horizontal_warp np payload (cx, cy) fraction displacement = Inr x"
    and ref: "ref_f5_warp np payload cx cy fraction displacement = Inr y"
  shows "y = x"
proof -
  have empty: "r = a" if "\<not> np_any np mask" "np_get np b mask = Inr v" "np_put np a mask v = Inr r"
    for a b mask v r using laws that by (auto simp: numpy_laws_def)
  show ?thesis
    using op ref
    by (auto simp: compact_horizontal_warp_def ref_f5_warp_def warp_radius_squared_def warp_sample_def
        ref_scale64_eq [OF laws u] ref_restore_eq(2) Let_def result_simps
        split: prod.splits if_splits dest: empty)
qed

lemma ref_f7_compress_matches:
  assumes laws: "numpy_laws np" and u: "uint8_array payload"
    and op: "same_frame_response_compression np payload knee ratio fraction minimum = Inr x"
  shows "ref_f7_compress np payload minimum fraction knee ratio = Inr x"
  using op
  by (auto simp: same_frame_response_compression_def ref_f7_compress_def reflected_box_anchor_def
      anchor_radius_def ref_scale64_eq [OF laws u] ref_restore_eq(2) ref_reflect_indices_eq Let_def
      result_simps split: prod.splits if_splits)

lemma center_floats:
  "param_floats m ''center_xy'' = Inr [cx, cy] \<Longrightarrow> param_center m = Inr (cx, cy)"
  by (simp add: param_center_def)

lemma ref_f5_matches:
  assumes laws: "numpy_laws np" and u: "uint8_array payload"
    and op: "fm_operator_id m = F5_contact_shape_distortion"
    and m: "manifest_ok h m"
    and tr: "transform_current h np m rest index slot payload = Inr x"
    and ph: "activation_phases m = Inr phases" "phase \<in> set phases"
    and ref: "ref_f5 np payload phase m = Inr y"
  shows "y = x"
proof -
  obtain cx cy where c: "param_floats m ''center_xy'' = Inr [cx, cy]" using F5_params [OF m op] by metis
  then have "param_center m = Inr (cx, cy)" by (simp add: center_floats)
  with ref ph obtain fraction displacement where p: "param_float m ''support_radius_fraction'' = Inr fraction"
    "param_float m ''displacement_px'' = Inr displacement"
    and w: "ref_f5_warp np payload cx cy fraction displacement = Inr y"
    by (auto simp: ref_f5_def result_simps)
  have "compact_horizontal_warp np payload (cx, cy) fraction displacement = Inr x"
    using tr op c p by (simp add: transform_current_def F5_transform_def py_index_def)
  with ref_f5_warp_matches [OF laws u _ w] show ?thesis by blast
qed

lemma ref_f7_matches:
  assumes laws: "numpy_laws np" and u: "uint8_array payload"
    and op: "fm_operator_id m = F7_high_load_saturation"
    and tr: "transform_current h np m rest index slot payload = Inr x"
    and ph: "activation_phases m = Inr phases" "phase \<in> set phases"
  shows "ref_f7 np payload phase m = Inr x"
  using tr op ph ref_f7_compress_matches [OF laws u]
  by (auto simp: transform_current_def F7_transform_def ref_f7_def result_simps)

section \<open>The entries of the reference\<close>

definition slot_payload :: "evaluation \<Rightarrow> string \<Rightarrow> ndarray option" where
  "slot_payload r slot =
     (case ob_sensor (ev_observation r) slot of Inl _ \<Rightarrow> None | Inr s \<Rightarrow> so_payload s)"

lemma slot_payload_view: "slot_view u slot = slot_view v slot \<Longrightarrow> slot_payload u slot = slot_payload v slot"
  by (simp add: slot_view_def slot_payload_def)

text \<open>What an entry of the dictionary is, for an operator without history.\<close>

definition reference_entry ::
    "hasher \<Rightarrow> numpy \<Rightarrow> fault_manifest \<Rightarrow> reference_bundle option \<Rightarrow> evaluation \<Rightarrow> int \<Rightarrow> string \<Rightarrow>
     ndarray \<Rightarrow> bool" where
  "reference_entry h np m rest c index slot v \<longleftrightarrow>
     manifest_active m index \<and> slot \<in> set (fm_sensor_slots m) \<and>
     (\<exists>payload baseline. slot_payload c slot = Some payload \<and>
        (if fm_operator_id m \<in> set NEEDS_BASELINE then baseline_for h slot m rest = Inr baseline
         else baseline = payload) \<and>
        expected_payload np m index c slot payload baseline = Inr v)"

lemma expected_slot_entry:
  assumes "expected_slot h np m rest index c (hs, d) slot = Inr (hs', d')"
    "fm_operator_id m \<noteq> F6_history_residual_imprint" "slot \<in> set (fm_sensor_slots m)"
  shows "d' = d \<or> (\<exists>v. d' = dict_set (index, slot) v d \<and> reference_entry h np m rest c index slot v)"
proof -
  from assms(1) obtain s payload baseline where s: "ob_sensor (ev_observation c) slot = Inr s"
    and payload: "so_payload s = Some payload"
    and base: "expected_baseline h m rest slot payload = Inr baseline"
    unfolding expected_slot_def by (auto simp: result_simps split: option.splits)
  have "if fm_operator_id m \<in> set NEEDS_BASELINE then baseline_for h slot m rest = Inr baseline
      else baseline = payload"
    using base ref_baseline_for [of rest] by (auto simp: expected_baseline_def split: option.splits if_splits)
  then have entry: "reference_entry h np m rest c index slot v"
    if "manifest_active m index" "expected_payload np m index c slot payload baseline = Inr v" for v
    unfolding reference_entry_def slot_payload_def using s payload that assms(3) by auto
  show ?thesis
    using assms(1,2) s payload unfolding expected_slot_def
    by (simp add: base) (auto simp: result_simps split: if_splits dest: entry)
qed

lemma expected_record_entries:
  assumes "foldr_res (expected_slot h np m rest index c) (hs, d) slots = Inr (hs', d')"
    "fm_operator_id m \<noteq> F6_history_residual_imprint" "set slots \<subseteq> set (fm_sensor_slots m)"
    "\<And>k slot v. ((k, slot), v) \<in> set d \<Longrightarrow> Q k slot v"
    "\<And>slot v. reference_entry h np m rest c index slot v \<Longrightarrow> Q index slot v"
  shows "((k, slot), v) \<in> set d' \<Longrightarrow> Q k slot v"
proof -
  have "\<forall>((k, slot), v) \<in> set (snd (hs', d')). Q k slot v"
  proof (rule foldr_res_invariant [OF assms(1), of "\<lambda>st. \<forall>((k, slot), v) \<in> set (snd st). Q k slot v"])
    fix st slot st'
    assume slot: "slot \<in> set slots" and st: "\<forall>((k, slot), v) \<in> set (snd st). Q k slot v"
      and run: "expected_slot h np m rest index c st slot = Inr st'"
    obtain hs d hs' d' where e: "st = (hs, d)" "st' = (hs', d')" by fastforce
    from expected_slot_entry [OF run [unfolded e] assms(2)] slot assms(3)
    have "d' = d \<or> (\<exists>v. d' = dict_set (index, slot) v d \<and> reference_entry h np m rest c index slot v)"
      by blast
    then obtain v where "d' = d \<or> d' = dict_set (index, slot) v d \<and> Q index slot v"
      using assms(5) by blast
    then have "x \<in> set d \<or> x = ((index, slot), v) \<and> Q index slot v" if "x \<in> set d'" for x
      using that dict_set_member [of x "(index, slot)" v d] by auto
    then show "\<forall>((k, slot), v) \<in> set (snd st'). Q k slot v" using st e by fastforce
  qed (use assms(4) in auto)
  then show "((k, slot), v) \<in> set d' \<Longrightarrow> Q k slot v" by auto
qed

lemma expected_entries:
  assumes "expected_pixel_payloads h np clean m rest = Inr d"
    "fm_operator_id m \<noteq> F6_history_residual_imprint" "((k, slot), v) \<in> set d"
  shows "\<exists>i < length clean. k = int i \<and> reference_entry h np m rest (clean ! i) k slot v"
proof -
  let ?Q = "\<lambda>k slot v. \<exists>i < length clean. k = int i \<and> reference_entry h np m rest (clean ! i) k slot v"
  let ?step = "\<lambda>st (index, record).
      foldr_res (expected_slot h np m rest (int index) record) st (fm_sensor_slots m)"
  from assms(1,2) obtain hs where run: "foldr_res ?step ([], []) (enumerate 0 clean) = Inr (hs, d)"
    by (auto simp: expected_pixel_payloads_def expected_initial_def result_simps)
  have "\<forall>((k, slot), v) \<in> set (snd (hs, d)). ?Q k slot v"
  proof (rule foldr_res_invariant [OF run, of "\<lambda>st. \<forall>((k, slot), v) \<in> set (snd st). ?Q k slot v"])
    fix st x st'
    assume x: "x \<in> set (enumerate 0 clean)" and st: "\<forall>((k, slot), v) \<in> set (snd st). ?Q k slot v"
      and run: "?step st x = Inr st'"
    obtain i where i: "i < length clean" "x = (i, clean ! i)"
      using x by (auto simp: in_set_enumerate_eq)
    obtain hs d hs' d' where e: "st = (hs, d)" "st' = (hs', d')" by fastforce
    have fold: "foldr_res (expected_slot h np m rest (int i) (clean ! i)) (hs, d) (fm_sensor_slots m) =
        Inr (hs', d')" using run e i by simp
    have "?Q k slot v" if "((k, slot), v) \<in> set d'" for k slot v
      by (rule expected_record_entries [OF fold assms(2) order_refl _ _ that, of ?Q])
         (use st e i in auto)
    then show "\<forall>((k, slot), v) \<in> set (snd st'). ?Q k slot v" using e by auto
  qed simp
  with assms(3) show ?thesis by auto
qed

section \<open>Delivered payloads are the expected ones\<close>

lemma fidelity_slot_payload:
  assumes "fidelity_slot h m tr pred index u slot = Inr v" "slot_payload u slot = Some payload"
    "slot \<in> set (provenance_slots u)"
  shows "\<exists>a. pred slot u = Inr a \<and>
    (if a then \<exists>x. tr index slot payload = Inr x \<and> slot_payload v slot = Some x
     else slot_payload v slot = Some payload)"
proof -
  from assms(1) obtain a where a: "pred slot u = Inr a"
    by (auto simp: fidelity_slot_def result_simps)
  show ?thesis
  proof (cases a)
    case False
    with a assms show ?thesis by (intro exI [of _ False]) (simp add: fidelity_slot_def)
  next
    case True
    from assms(1,2) a True obtain s x p where s: "ob_sensor (ev_observation u) slot = Inr s"
      and x: "tr index slot payload = Inr x" and p: "provenance_for u slot = Inr p"
      and d: "deliver_payload h m u s p x = Inr v"
      by (auto simp: fidelity_slot_def slot_payload_def result_simps split: option.splits)
    from d obtain s' p' where w: "replace_delivery h u s' p' = Inr v" "so_payload s' = Some x"
      "so_slot_id s' = so_slot_id s" "pv_slot_id p' = pv_slot_id p"
      by (auto simp: deliver_payload_def mark_provenance_def result_simps
          dest!: provenance_post_init_id sensor_post_init_id)
    have ids: "so_slot_id s = slot" "pv_slot_id p = slot"
      using ob_sensor_slot [OF s] provenance_for_slot [OF p] by auto
    have "slot_view v slot = (Inr s', Inr p')"
      using slot_view_replace [OF w(1), of slot] w ids assms(3) by simp
    with a True x w show ?thesis
      by (intro exI [of _ True]) (simp add: slot_view_def slot_payload_def)
  qed
qed

lemma reference_entry_stateless:
  assumes laws: "numpy_laws np" and m: "manifest_ok h m" and op: "fm_operator_id m \<in> set stateless_fidelity"
    and entry: "reference_entry h np m rest c index slot v"
    and payload: "slot_payload c slot = Some payload" "uint8_array payload"
    and u: "slot_view u slot = slot_view c slot" "stateless_predicate m slot u = Inr a"
  shows "if a then \<forall>x. transform_current h np m rest index slot payload = Inr x \<longrightarrow> v = x else v = payload"
proof -
  from entry payload(1) obtain baseline where
    b: "if fm_operator_id m \<in> set NEEDS_BASELINE then baseline_for h slot m rest = Inr baseline
        else baseline = payload"
    and e: "expected_payload np m index c slot payload baseline = Inr v"
    by (auto simp: reference_entry_def)
  have prov: "provenance_for u slot = provenance_for c slot" using u(1) by (simp add: slot_view_def)
  from op consider
      (F1) "fm_operator_id m = F1_global_response_drift"
    | (F2) "fm_operator_id m = F2_spatial_sensitivity_loss"
    | (F3) "fm_operator_id m = F3_persistent_surface_artifact"
    | (F4) "fm_operator_id m = F4_local_nonresponsive_patch"
    | (F5) "fm_operator_id m = F5_contact_shape_distortion"
    | (F7) "fm_operator_id m = F7_high_load_saturation"
    by (auto simp: stateless_fidelity_def)
  then show ?thesis
  proof cases
    case F1
    with e u(2) show ?thesis
      by (simp add: expected_payload_def stateless_predicate_def always_active_def ref_f1_matches [OF F1])
  next
    case F2
    with b have "baseline_for h slot m rest = Inr baseline" by (simp add: NEEDS_BASELINE_def)
    with ref_f2_matches [OF F2] e u(2) F2 show ?thesis
      by (auto simp: expected_payload_def stateless_predicate_def always_active_def)
  next
    case F3
    with ref_f3_matches [OF F3] e u(2) show ?thesis
      by (fastforce simp: expected_payload_def stateless_predicate_def always_active_def)
  next
    case F4
    with b have "baseline_for h slot m rest = Inr baseline" by (simp add: NEEDS_BASELINE_def)
    with ref_f4_matches [OF F4] e u(2) F4 show ?thesis
      by (auto simp: expected_payload_def stateless_predicate_def always_active_def)
  next
    case F5
    obtain phases where ph: "activation_phases m = Inr phases" using F5_params [OF m F5] by metis
    from e F5 obtain p where p: "provenance_for c slot = Inr p" "ref_f5 np payload (pv_phase p) m = Inr v"
      by (auto simp: expected_payload_def result_simps)
    have a: "a = (pv_phase p \<in> set phases)"
      using u(2) F5 ph p(1) prov by (simp add: stateless_predicate_def contact_active_def phase_active_def)
    show ?thesis
    proof (cases a)
      case True
      with a ref_f5_matches [OF laws payload(2) F5 m _ ph _ p(2)] show ?thesis by auto
    next
      case False
      with a p(2) ph show ?thesis by (simp add: ref_f5_def)
    qed
  next
    case F7
    obtain phases where ph: "activation_phases m = Inr phases" using F7_params [OF m F7] by metis
    from e F7 obtain p where p: "provenance_for c slot = Inr p" "ref_f7 np payload (pv_phase p) m = Inr v"
      by (auto simp: expected_payload_def result_simps)
    have a: "a = (pv_phase p \<in> set phases)"
      using u(2) F7 ph p(1) prov by (simp add: stateless_predicate_def contact_active_def phase_active_def)
    show ?thesis
    proof (cases a)
      case True
      with a ref_f7_matches [OF laws payload(2) F7 _ ph] p(2) show ?thesis by fastforce
    next
      case False
      with a p(2) ph show ?thesis by (simp add: ref_f7_def)
    qed
  qed
qed

lemma stateless_delivers_reference:
  assumes laws: "numpy_laws np" and m: "manifest_ok h m" and op: "fm_operator_id m \<in> set stateless_fidelity"
    and run: "apply_operator h np (fm_operator_id m) clean m rest = Inr out"
    and i: "i < length clean" and entry: "reference_entry h np m rest (clean ! i) (int i) slot v"
    and u8: "\<And>a. slot_payload (clean ! i) slot = Some a \<Longrightarrow> uint8_array a"
    and ok: "evaluation_ok h (clean ! i)"
  shows "slot_payload (out ! i) slot = Some v"
proof -
  let ?tr = "transform_current h np m rest"
  have win: "distinct (fm_sensor_slots m)" "set (fm_sensor_slots m) \<subseteq> set SENSOR_SLOTS"
    using manifest_ok_window(6,7) [OF m] by auto
  have slot: "slot \<in> set (fm_sensor_slots m)" "manifest_active m (int i)"
    using entry by (auto simp: reference_entry_def)
  obtain payload where payload: "slot_payload (clean ! i) slot = Some payload"
    using entry by (auto simp: reference_entry_def)
  have "mapr (\<lambda>i. if \<not> manifest_active m (int i) then Inr (clean ! i)
      else foldr_res (fidelity_slot h m ?tr (stateless_predicate m) (int i)) (clean ! i) (fm_sensor_slots m))
      [0..<length clean] = Inr out"
    using run unfolding stateless_batch [OF m op] active_records_def each_record_map .
  from mapr_nth [OF this, of i] i slot(2)
  have fold: "foldr_res (fidelity_slot h m ?tr (stateless_predicate m) (int i)) (clean ! i)
      (fm_sensor_slots m) = Inr (out ! i)" by simp
  obtain u w where step: "fidelity_slot h m ?tr (stateless_predicate m) (int i) u slot = Inr w"
    and u: "record_frame (clean ! i) u" "slot_view u slot = slot_view (clean ! i) slot"
    and view: "slot_view (out ! i) slot = slot_view w slot"
    using fidelity.fold_at [OF fold win(1) slot(1)] by metis
  have cov: "slot \<in> set (provenance_slots u)"
    using u(1) ok slot(1) win(2) by (auto simp: record_frame_def evaluation_ok_def)
  have pu: "slot_payload u slot = Some payload" using slot_payload_view [OF u(2)] payload by simp
  obtain a where a: "stateless_predicate m slot u = Inr a"
    "if a then \<exists>x. ?tr (int i) slot payload = Inr x \<and> slot_payload w slot = Some x
     else slot_payload w slot = Some payload"
    using fidelity_slot_payload [OF step pu cov] by blast
  have "slot_payload w slot = Some v"
    using reference_entry_stateless [OF laws m op entry payload u8 [OF payload] u(2) a(1)] a(2)
    by (auto split: if_splits)
  then show ?thesis using slot_payload_view [OF view] by simp
qed

section \<open>Misregistration\<close>

lemma ref_c2_matches:
  assumes "c2_shift m = Inr (sx, sy)"
  shows "ref_c2 payload baseline m = baseline_fill_shift payload baseline sx sy"
proof -
  have "param_ints m ''translation_xy_px'' = Inr [sx, sy]"
    using assms by (auto simp: c2_shift_def result_simps two_elements split: if_splits)
  then show ?thesis by (auto simp: ref_c2_def baseline_fill_shift_def dim3_def)
qed

lemma C2_delivers_reference:
  assumes m: "manifest_ok h m" and op: "fm_operator_id m = C2_frame_misregistration"
    and run: "C2_apply h clean m rest = Inr out"
    and i: "i < length clean" and entry: "reference_entry h np m rest (clean ! i) (int i) slot v"
    and ok: "evaluation_ok h (clean ! i)"
  shows "slot_payload (out ! i) slot = Some v"
proof -
  have win: "distinct (fm_sensor_slots m)" "set (fm_sensor_slots m) \<subseteq> set SENSOR_SLOTS"
    using manifest_ok_window(6,7) [OF m] by auto
  have slot: "slot \<in> set (fm_sensor_slots m)" "manifest_active m (int i)"
    using entry by (auto simp: reference_entry_def)
  from run obtain sx sy where shift: "c2_shift m = Inr (sx, sy)"
    and runs: "mapr (\<lambda>i. if \<not> manifest_active m (int i) then Inr (clean ! i)
      else foldr_res (c2_slot h m rest sx sy) (clean ! i) (fm_sensor_slots m)) [0..<length clean] = Inr out"
    by (auto simp: C2_apply_def result_simps each_record_map)
  from entry op obtain payload baseline where payload: "slot_payload (clean ! i) slot = Some payload"
    and b: "baseline_for h slot m rest = Inr baseline"
    and v: "baseline_fill_shift payload baseline sx sy = Inr v"
    by (auto simp: reference_entry_def NEEDS_BASELINE_def expected_payload_def ref_c2_matches [OF shift])
  from mapr_nth [OF runs, of i] i slot(2)
  have fold: "foldr_res (c2_slot h m rest sx sy) (clean ! i) (fm_sensor_slots m) = Inr (out ! i)" by simp
  obtain u w where step: "c2_slot h m rest sx sy u slot = Inr w"
    and u: "record_frame (clean ! i) u" "slot_view u slot = slot_view (clean ! i) slot"
    and view: "slot_view (out ! i) slot = slot_view w slot"
    using c2.fold_at [OF fold win(1) slot(1)] by metis
  have cov: "slot \<in> set (provenance_slots u)"
    using u(1) ok slot(1) win(2) by (auto simp: record_frame_def evaluation_ok_def)
  have pu: "slot_payload u slot = Some payload" using slot_payload_view [OF u(2)] payload by simp
  obtain s s' p p' where s: "ob_sensor (ev_observation u) slot = Inr s" and p: "provenance_for u slot = Inr p"
    and w: "replace_delivery h u s' p' = Inr w" "so_payload s' = Some v" "so_slot_id s' = so_slot_id s"
      "pv_slot_id p' = pv_slot_id p"
    using step pu b v
    by (auto simp: c2_slot_def slot_payload_def result_simps Let_def split: option.splits
        dest!: provenance_post_init_id sensor_post_init_id)
  have ids: "so_slot_id s = slot" "pv_slot_id p = slot"
    using ob_sensor_slot [OF s] provenance_for_slot [OF p] by auto
  have "slot_view w slot = (Inr s', Inr p')" using slot_view_replace [OF w(1), of slot] w ids cov by simp
  then have "slot_payload w slot = Some v" using w(2) by (simp add: slot_view_def slot_payload_def)
  then show ?thesis using slot_payload_view [OF view] by simp
qed

section \<open>F6, in lockstep\<close>

lemma map_acc_lockstep:
  assumes "map_acc f s xs = Inr ys" "foldr_res g t zs = Inr t'" "length xs = length zs" "R 0 s t"
    and "\<And>i s t s1 t1. i < length xs \<Longrightarrow> R i s t \<Longrightarrow> f s (xs ! i) = Inr (s1, ys ! i) \<Longrightarrow>
      g t (zs ! i) = Inr t1 \<Longrightarrow> R (Suc i) s1 t1"
  shows "\<exists>s'. R (length xs) s' t'"
  using assms
proof (induction xs arbitrary: s t ys zs R)
  case Nil
  then show ?case by auto
next
  case (Cons x xs)
  obtain z zs' where zs: "zs = z # zs'" using Cons.prems(3) by (cases zs) auto
  from Cons.prems(1,2) zs obtain s1 y ys' t1 where one: "f s x = Inr (s1, y)"
    "map_acc f s1 xs = Inr ys'" "ys = y # ys'" "g t z = Inr t1" "foldr_res g t1 zs' = Inr t'"
    by (auto simp: result_simps)
  have "\<exists>s'. R (Suc (length xs)) s' t'"
  proof (rule Cons.IH [where R = "\<lambda>i. R (Suc i)", OF one(2,5)])
    show "length xs = length zs'" using Cons.prems(3) zs by simp
    show "R (Suc 0) s1 t1" using Cons.prems(4) Cons.prems(5) [of 0 s t s1 t1] one zs by simp
    fix i s t s2 t2
    assume "i < length xs" "R (Suc i) s t" "f s (xs ! i) = Inr (s2, ys' ! i)" "g t (zs' ! i) = Inr t2"
    then show "R (Suc (Suc i)) s2 t2" using Cons.prems(5) [of "Suc i" s t s2 t2] one(3) zs by simp
  qed
  then show ?case by simp
qed

definition entries_delivered :: "evaluation list \<Rightarrow> nat \<Rightarrow> evaluation \<Rightarrow> expected \<Rightarrow> bool" where
  "entries_delivered out i acc d \<longleftrightarrow>
     (\<forall>k slot v. ((k, slot), v) \<in> set d \<longrightarrow>
        (\<exists>j < i. k = int j \<and> slot_payload (out ! j) slot = Some v) \<or>
        k = int i \<and> slot_payload acc slot = Some v)"

lemma f6_slot_lockstep:
  assumes rest: "rest = Some b"
    and op: "fm_operator_id m = F6_history_residual_imprint"
    and p: "param_float m ''history_mix'' = Inr mix" "param_float m ''memory_beta'' = Inr beta"
    and cov: "slot \<in> set (provenance_slots acc)"
    and f: "f6_slot h np m rest mix beta index c (hs, acc) slot = Inr (hb, acc')"
    and g: "expected_slot h np m rest index c (hs, d) slot = Inr (hr, d')"
  shows "hb = hr \<and> (if manifest_active m index
    then \<exists>v. d' = dict_set (index, slot) v d \<and> slot_payload acc' slot = Some v \<and> slot_write h slot acc acc'
    else d' = d \<and> acc' = acc)"
proof -
  from f obtain s payload raw residual previous history where s: "ob_sensor (ev_observation c) slot = Inr s"
    and payload: "so_payload s = Some payload" and raw: "baseline_for h slot m rest = Inr raw"
    and residual: "np_sub np (normalize np payload) (normalize np raw) = Inr residual"
    and previous: "map_of hs slot = Some previous"
    and history: "f6_history np beta previous residual = Inr history"
    and hb: "hb = dict_set slot history hs"
    by (auto simp: f6_slot_def result_simps Let_def split: option.splits if_splits)
  have base: "expected_baseline h m rest slot a = Inr raw" for a
    using ref_baseline_for [OF rest] raw op rest by (simp add: expected_baseline_def NEEDS_BASELINE_def)
  note known = s payload raw base residual previous history [unfolded f6_history_def] op p
  show ?thesis
  proof (cases "manifest_active m index")
    case False
    with f g known hb show ?thesis
      by (simp add: f6_slot_def expected_slot_def ref_normalize_eq f6_history_def)
  next
    case True
    with f known obtain x p where x: "f6_payload np mix payload (normalize np raw) residual history = Inr x"
      and p: "provenance_for c slot = Inr p" and del: "deliver_payload h m acc s p x = Inr acc'"
      by (auto simp: f6_slot_def f6_history_def result_simps)
    from g True known x have d': "d' = dict_set (index, slot) x d" "hr = dict_set slot history hs"
      by (auto simp: expected_slot_def ref_normalize_eq ref_restore_eq(1) f6_payload_def result_simps)
    have ids: "so_slot_id s = slot" "pv_slot_id p = slot"
      using ob_sensor_slot [OF s] provenance_for_slot [OF p] by auto
    from del obtain s' p' where w: "replace_delivery h acc s' p' = Inr acc'" "so_payload s' = Some x"
      "so_slot_id s' = slot" "pv_slot_id p' = slot"
      using ids by (auto simp: deliver_payload_def mark_provenance_def result_simps
          dest!: provenance_post_init_id sensor_post_init_id)
    have "slot_view acc' slot = (Inr s', Inr p')"
      using slot_view_replace [OF w(1), of slot] w(3,4) cov by simp
    then have "slot_payload acc' slot = Some x" using w(2) by (simp add: slot_view_def slot_payload_def)
    with True d' hb deliver_payload_writes [OF del ids] show ?thesis by auto
  qed
qed

lemma f6_record_lockstep:
  assumes rest: "rest = Some b" and op: "fm_operator_id m = F6_history_residual_imprint"
    and p: "param_float m ''history_mix'' = Inr mix" "param_float m ''memory_beta'' = Inr beta"
    and slots: "set (fm_sensor_slots m) \<subseteq> set (provenance_slots c)"
    and f: "foldr_res (f6_slot h np m rest mix beta (int i) c) (hs, c) (fm_sensor_slots m) = Inr (hb, out ! i)"
    and g: "foldr_res (expected_slot h np m rest (int i) c) (hs, d) (fm_sensor_slots m) = Inr (hr, d')"
    and d: "distinct (map fst d)" "entries_delivered out i c d"
    "\<And>k slot v. ((k, slot), v) \<in> set d \<Longrightarrow> k < int i"
  shows "hb = hr \<and> distinct (map fst d') \<and> entries_delivered out i (out ! i) d'"
proof -
  let ?R = "\<lambda>(hb, acc) (hr, d'). hb = hr \<and> distinct (map fst d') \<and> entries_delivered out i acc d' \<and>
      provenance_slots acc = provenance_slots c"
  have "?R (hb, out ! i) (hr, d')"
  proof (rule foldr_res_lockstep [OF f g, of ?R])
    fix st st' slot st1 st1'
    assume slot: "slot \<in> set (fm_sensor_slots m)" and R: "?R st st'"
      and f1: "f6_slot h np m rest mix beta (int i) c st slot = Inr st1"
      and g1: "expected_slot h np m rest (int i) c st' slot = Inr st1'"
    obtain hs acc dd h1 acc1 h1' d1 where e: "st = (hs, acc)" "st' = (hs, dd)" "st1 = (h1, acc1)"
      "st1' = (h1', d1)" and dd: "distinct (map fst dd)" "entries_delivered out i acc dd"
      and frame: "provenance_slots acc = provenance_slots c"
      using R by (cases st; cases st'; cases st1; cases st1') auto
    have cov: "slot \<in> set (provenance_slots acc)" using slots slot frame by auto
    note one = f6_slot_lockstep [OF rest op p cov f1 [unfolded e] g1 [unfolded e]]
    show "?R st1 st1'"
    proof (cases "manifest_active m (int i)")
      case False
      with one dd frame e show ?thesis by simp
    next
      case True
      with one obtain v where v: "d1 = dict_set (int i, slot) v dd" "slot_payload acc1 slot = Some v"
        "slot_write h slot acc acc1" "h1 = h1'" by auto
      have "provenance_slots acc1 = provenance_slots acc"
        using slot_write_frame [OF v(3)] by (simp add: record_frame_def)
      moreover have "entries_delivered out i acc1 d1"
      proof -
        have "slot_payload acc1 t = slot_payload acc t" if "t \<noteq> slot" for t
          using slot_payload_view [OF slot_write_other [OF v(3) that]] .
        with dd v(2) show ?thesis
          unfolding v(1) entries_delivered_def set_dict_set [OF dd(1)] by fastforce
      qed
      ultimately show ?thesis using v dd frame e by (simp add: distinct_dict_set)
    qed
  qed (use d in simp)
  then show ?thesis by simp
qed

lemma F6_delivers_reference:
  assumes m: "manifest_ok h m" and op: "fm_operator_id m = F6_history_residual_imprint"
    and run: "F6_apply h np clean m rest = Inr out"
    and ref: "expected_pixel_payloads h np clean m rest = Inr d"
    and ok: "list_all (evaluation_ok h) clean" and entry: "((k, slot), v) \<in> set d"
  shows "\<exists>j < length clean. k = int j \<and> slot_payload (out ! j) slot = Some v"
proof -
  obtain mix beta where p: "param_float m ''history_mix'' = Inr mix" "param_float m ''memory_beta'' = Inr beta"
    using F6_params [OF m op] .
  have win: "set (fm_sensor_slots m) \<subseteq> set SENSOR_SLOTS" using manifest_ok_window(7) [OF m] .
  from ref op obtain b hs hr where rest: "rest = Some b" and init: "expected_initial h np m rest = Inr hs"
    and g: "foldr_res (\<lambda>st (index, record).
        foldr_res (expected_slot h np m rest (int index) record) st (fm_sensor_slots m))
        (hs, []) (enumerate 0 clean) = Inr (hr, d)"
    by (auto simp: expected_pixel_payloads_def expected_initial_def result_simps split: option.splits)
  have same: "f6_initial h np m rest = expected_initial h np m rest"
    using rest op by (simp add: f6_initial_def expected_initial_def baseline_for_def ref_baseline_def
        ref_normalize_eq cong: bindr_cong)
  have f: "map_acc (\<lambda>s i. foldr_res (f6_slot h np m rest mix beta (int i) (clean ! i)) (s, clean ! i)
      (fm_sensor_slots m)) hs [0..<length clean] = Inr out"
    using run p init same by (simp add: F6_apply_def each_record_acc_map)
  let ?R = "\<lambda>i hb (hr, d). hb = hr \<and> distinct (map fst d) \<and>
      (\<forall>k slot v. ((k, slot), v) \<in> set d \<longrightarrow> (\<exists>j < i. k = int j \<and> slot_payload (out ! j) slot = Some v))"
  have "\<exists>s'. ?R (length [0..<length clean]) s' (hr, d)"
  proof (rule map_acc_lockstep [OF f g, where R = ?R])
    fix i s t s1 t1
    assume i: "i < length [0..<length clean]" and R: "?R i s t"
      and f1: "foldr_res (f6_slot h np m rest mix beta (int ([0..<length clean] ! i)) (clean ! ([0..<length clean] ! i)))
        (s, clean ! ([0..<length clean] ! i)) (fm_sensor_slots m) = Inr (s1, out ! i)"
      and g1: "(case enumerate 0 clean ! i of (index, record) \<Rightarrow>
        foldr_res (expected_slot h np m rest (int index) record) t (fm_sensor_slots m)) = Inr t1"
    obtain d0 hr1 d1 where e: "t = (s, d0)" "t1 = (hr1, d1)" using R by (cases t; cases t1) auto
    have d0: "distinct (map fst d0)" "entries_delivered out i (clean ! i) d0"
      using R e by (auto simp: entries_delivered_def)
    have lt: "k < int i" if "((k, slot), v) \<in> set d0" for k slot v
      using R e that by fastforce
    have slots: "set (fm_sensor_slots m) \<subseteq> set (provenance_slots (clean ! i))"
      using ok i win by (auto simp: list_all_length evaluation_ok_def)
    have "s1 = hr1 \<and> distinct (map fst d1) \<and> entries_delivered out i (out ! i) d1"
      by (rule f6_record_lockstep [OF rest op p slots _ _ d0 lt])
         (use f1 g1 e i in \<open>simp_all add: nth_enumerate_eq\<close>)
    then show "?R (Suc i) s1 t1" using e by (fastforce simp: entries_delivered_def less_Suc_eq)
  qed simp_all
  with entry show ?thesis by auto
qed

section \<open>Every pixel operator\<close>

definition pixel_operators :: "operator_id list" where
  "pixel_operators = F6_history_residual_imprint # C2_frame_misregistration # stateless_fidelity"

definition uint8_episode :: "evaluation list \<Rightarrow> bool" where
  "uint8_episode clean \<longleftrightarrow> (\<forall>c\<in>set clean. \<forall>slot a. slot_payload c slot = Some a \<longrightarrow> uint8_array a)"

lemma pixel_operator_delivers_reference:
  assumes "manifest_ok h m" "fm_operator_id m \<in> set pixel_operators" "numpy_laws np"
    and "list_all (evaluation_ok h) clean" "uint8_episode clean"
    and "apply_operator h np (fm_operator_id m) clean m rest = Inr out"
    and "expected_pixel_payloads h np clean m rest = Inr d" "((k, slot), v) \<in> set d"
  shows "\<exists>j < length clean. k = int j \<and> slot_payload (out ! j) slot = Some v"
proof (cases "fm_operator_id m = F6_history_residual_imprint")
  case True
  with F6_delivers_reference [OF assms(1) True _ assms(7,4,8)] assms(6) show ?thesis by simp
next
  case False
  obtain j where j: "j < length clean" "k = int j" "reference_entry h np m rest (clean ! j) k slot v"
    using expected_entries [OF assms(7) False assms(8)] by blast
  have ok: "evaluation_ok h (clean ! j)" using assms(4) j(1) by (simp add: list_all_length)
  have "slot_payload (out ! j) slot = Some v"
  proof (cases "fm_operator_id m = C2_frame_misregistration")
    case True
    with C2_delivers_reference [OF assms(1) True _ j(1) _ ok] j assms(6) show ?thesis by simp
  next
    case f: False
    show ?thesis
    proof (rule stateless_delivers_reference [OF assms(3,1) _ assms(6) j(1) _ _ ok])
      show "fm_operator_id m \<in> set stateless_fidelity" using assms(2) False f by (simp add: pixel_operators_def)
      show "uint8_array a" if "slot_payload (clean ! j) slot = Some a" for a
        using assms(5) j(1) that unfolding uint8_episode_def by (meson nth_mem)
    qed (use j in simp)
  qed
  with j show ?thesis by blast
qed

end
