(* ===== verification/Pixel_Acceptance.thy ===== *)
theory Pixel_Acceptance
  imports Reference_Match Semantic_Gate Operator_Contracts
begin

text \<open>
  The pixel comparison of \<open>measure_signature\<close> succeeds on what the pixel operators deliver; the
  demonstration kernels satisfy the laws this rests on.
\<close>

lemma all_matched_True:
  assumes "all_matched delivered expected = Inr b"
    and "\<And>k slot v. ((k, slot), v) \<in> set expected \<Longrightarrow>
      \<exists>j < length delivered. k = int j \<and> slot_payload (delivered ! j) slot = Some v"
  shows "b"
proof -
  have "foldr_res (\<lambda>matched ((index, slot), payload).
         if \<not> matched then Inr False
         else bindr (py_index delivered index) (\<lambda>d.
              bindr (ob_sensor (ev_observation d) slot) (\<lambda>sensor.
              Inr (case so_payload sensor of None \<Rightarrow> False | Some a \<Rightarrow> array_equal a payload))))
       True expected = Inr b"
    using assms(1) by (simp add: all_matched_def)
  then show b
  proof (rule foldr_res_invariant)
    fix u x v
    assume x: "x \<in> set expected" and u: u
      and run: "(case x of (key, payload) \<Rightarrow> (case key of (index, slot) \<Rightarrow> \<lambda>payload.
         if \<not> u then Inr False
         else bindr (py_index delivered index) (\<lambda>d.
              bindr (ob_sensor (ev_observation d) slot) (\<lambda>sensor.
              Inr (case so_payload sensor of None \<Rightarrow> False | Some a \<Rightarrow> array_equal a payload)))) payload) = Inr v"
    obtain k slot p where e: "x = ((k, slot), p)" by (metis prod.exhaust)
    then obtain j where j: "j < length delivered" "k = int j" "slot_payload (delivered ! j) slot = Some p"
      using assms(2) x by blast
    then obtain s where "ob_sensor (ev_observation (delivered ! j)) slot = Inr s" "so_payload s = Some p"
      by (auto simp: slot_payload_def split: sum.splits)
    with run e u j show v by (simp add: py_index_nonneg array_equal_def)
  qed simp
qed

lemma all_matched_returns:
  assumes "\<And>k slot v. ((k, slot), v) \<in> set expected \<Longrightarrow>
      \<exists>j < length delivered. k = int j \<and> slot_payload (delivered ! j) slot = Some v"
  shows "\<exists>b. all_matched delivered expected = Inr b"
  unfolding all_matched_def
proof (rule foldr_res_returns)
  fix u and x :: "(int \<times> string) \<times> ndarray"
  assume x: "x \<in> set expected"
  obtain k slot p where e: "x = ((k, slot), p)" by (metis prod.exhaust)
  then obtain j where j: "j < length delivered" "k = int j" "slot_payload (delivered ! j) slot = Some p"
    using assms x by blast
  then obtain s where "ob_sensor (ev_observation (delivered ! j)) slot = Inr s" "so_payload s = Some p"
    by (auto simp: slot_payload_def split: sum.splits)
  with e j show "\<exists>v. (case x of (key, payload) \<Rightarrow> (case key of (index, slot) \<Rightarrow> \<lambda>payload.
         if \<not> u then Inr False
         else bindr (py_index delivered index) (\<lambda>d.
              bindr (ob_sensor (ev_observation d) slot) (\<lambda>sensor.
              Inr (case so_payload sensor of None \<Rightarrow> False | Some a \<Rightarrow> array_equal a payload)))) payload) = Inr v"
    by (cases u) (auto simp: py_index_nonneg)
qed

lemma reference_matches:
  assumes "manifest_ok h m" "fm_operator_id m \<in> set pixel_operators" "numpy_laws np"
    and "list_all (valid_record h) clean" "uint8_episode clean"
    and "fm_stop_index m - fm_start_index m \<le> 2 ^ 53"
    and "apply_operator h np (fm_operator_id m) clean m rest = Inr out"
    and "expected_pixel_payloads h np clean m rest = Inr expected"
  shows "all_matched out expected = Inr True"
proof -
  have ok: "list_all (evaluation_ok h) clean" using assms(4) by (simp add: list_all_iff valid_record_def)
  have len: "length out = length clean"
    using apply_operator_confined [OF assms(7,1)] assms(6) by (simp add: all_confined_def)
  have entry: "\<exists>j < length out. k = int j \<and> slot_payload (out ! j) slot = Some v"
    if "((k, slot), v) \<in> set expected" for k slot v
    using pixel_operator_delivers_reference [OF assms(1-3) ok assms(5,7,8) that] len by simp
  obtain b where b: "all_matched out expected = Inr b"
    using all_matched_returns entry by blast
  moreover have b using all_matched_True [OF b] entry by blast
  ultimately show ?thesis by simp
qed

section \<open>The demonstration kernels\<close>

lemma masked_put_none: "list_all Not bs \<Longrightarrow> masked_put bs xs vs = xs"
proof (induction bs arbitrary: xs)
  case (Cons b bs)
  then show ?case by (cases xs) simp_all
qed simp

lemma demo_numpy_laws: "numpy_laws demo_numpy"
proof -
  have elem: "max 0 (min 1 (rat_of_nat b / 255)) = rat_of_nat b / 255" if "b < 256" for b
    using that by (simp add: min_def max_def)
  have "lift1 (\<lambda>x. max 0 (min 1 x)) (lift1 (\<lambda>x. x / 255) (a\<lparr>nd_dtype := d\<rparr>)) =
      lift1 (\<lambda>x. x / 255) (a\<lparr>nd_dtype := d\<rparr>)" if "uint8_array a" for a d
  proof -
    have "map (map_option (\<lambda>x. max 0 (min 1 x))) (map (map_option (\<lambda>x. x / 255)) (nd_data a)) =
        map (map_option (\<lambda>x. x / 255)) (nd_data a)"
      unfolding map_map
      by (rule map_cong [OF refl]) (use that elem in \<open>auto simp: uint8_array_def list_all_iff\<close>)
    then show ?thesis by (simp add: lift1_def del: map_map)
  qed
  then have clip: "np_clip demo_numpy (np_div_s demo_numpy (np_astype demo_numpy a d) 255) 0 1 =
      np_div_s demo_numpy (np_astype demo_numpy a d) 255" if "uint8_array a" for a d
    using that by (simp add: demo_numpy_def)
  have put: "r = a" if "\<not> np_any demo_numpy msk" "np_put demo_numpy a msk v = Inr r" for a msk v r
  proof -
    have "list_all Not (mask_bits a msk)"
      using that(1) by (auto simp: demo_numpy_def mask_bits_def list_all_iff list_ex_iff)
    with that(2) show ?thesis by (auto simp: demo_numpy_def masked_put_none)
  qed
  have "np_is_integer demo_numpy ''uint8''" by (simp add: demo_numpy_def)
  with clip put show ?thesis unfolding numpy_laws_def by blast
qed

section \<open>The stateless fidelity operators return\<close>

text \<open>What an active slot is delivered as.\<close>

definition fidelity_sensor :: "fault_manifest \<Rightarrow> sensor \<Rightarrow> ndarray \<Rightarrow> sensor" where
  "fidelity_sensor m s x =
     s\<lparr>so_payload := Some x, so_payload_present := True, so_declared_validity := fault_declared_validity s m\<rparr>"

definition fidelity_provenance :: "hasher \<Rightarrow> fault_manifest \<Rightarrow> provenance \<Rightarrow> ndarray \<Rightarrow> provenance" where
  "fidelity_provenance h m p x =
     p\<lparr>pv_active_fault_ids := sort (remdups (pv_active_fault_ids p @ [operator_name (fm_operator_id m)])),
       pv_payload_sha256 := array_sha256 h (Some x)\<rparr>"

lemma deliver_payload_total:
  assumes "valid_record h u" "slot \<in> set SENSOR_SLOTS" "slot_view u slot = (Inr s, Inr p)"
    "check_payload x = Inr ()"
  shows "\<exists>r. deliver_payload h m u s p x = Inr r \<and> valid_record h r \<and>
    slot_view r slot = (Inr (fidelity_sensor m s x), Inr (fidelity_provenance h m p x))"
proof -
  obtain ok: "sensor_ok s" "provenance_ok p" "so_slot_id s = slot" "pv_slot_id p = slot" "causal_pair s p"
    using valid_slot_view [OF assms(1,2)] assms(3) by auto
  have s: "sensor_post_init (fidelity_sensor m s x) = Inr (fidelity_sensor m s x)"
    using ok(1) assms(4)
    by (auto simp: sensor_ok_def sensor_post_init_def fidelity_sensor_def result_simps
        split: if_splits option.splits)
  have p: "provenance_post_init (fidelity_provenance h m p x) = Inr (fidelity_provenance h m p x)"
    using ok(2)
    by (auto simp: provenance_ok_def provenance_post_init_def fidelity_provenance_def result_simps
        split: if_splits)
  have c: "causal_pair (fidelity_sensor m s x) (fidelity_provenance h m p x)"
    using ok(5)
    by (auto simp: causal_pair_def fidelity_sensor_def fidelity_provenance_def split: option.splits)
  obtain r where r: "replace_delivery h u (fidelity_sensor m s x) (fidelity_provenance h m p x) = Inr r"
    "valid_record h r"
    using replace_delivery_total [OF assms(1) _ _ _ _ assms(2) c] s p ok(3,4)
    by (auto simp: sensor_ok_def provenance_ok_def fidelity_sensor_def fidelity_provenance_def)
  have "slot_view r (so_slot_id (fidelity_sensor m s x)) =
      (Inr (fidelity_sensor m s x), Inr (fidelity_provenance h m p x))"
    by (rule slot_view_after [OF r(1) _ record_frame_refl])
       (use ok assms(3) in \<open>simp_all add: fidelity_sensor_def fidelity_provenance_def slot_view_def\<close>)
  with r s p ok(3) show ?thesis
    by (auto simp: deliver_payload_def mark_provenance_def fidelity_sensor_def fidelity_provenance_def)
qed

text \<open>Whether the operator is active at a slot, and what it transforms there.\<close>

definition in_phase :: "fault_manifest \<Rightarrow> evaluation \<Rightarrow> string \<Rightarrow> bool" where
  "in_phase m r slot \<longleftrightarrow>
     (fm_operator_id m \<in> {F5_contact_shape_distortion, F7_high_load_saturation} \<longrightarrow>
        (\<exists>p. provenance_for r slot = Inr p \<and> pv_phase p \<in> {ONSET, SUSTAINED}))"

definition transforms ::
    "hasher \<Rightarrow> numpy \<Rightarrow> fault_manifest \<Rightarrow> reference_bundle option \<Rightarrow> int \<Rightarrow> evaluation \<Rightarrow> string \<Rightarrow> ndarray \<Rightarrow> bool" where
  "transforms h np m rest index r slot x \<longleftrightarrow>
     (\<exists>s payload. ob_sensor (ev_observation r) slot = Inr s \<and> so_payload s = Some payload \<and>
        transform_current h np m rest index slot payload = Inr x \<and> check_payload x = Inr ())"

lemma stateless_predicate_phase:
  assumes m: "manifest_ok h m" and v: "valid_record h r" "slot \<in> set SENSOR_SLOTS"
  shows "stateless_predicate m slot r = Inr (in_phase m r slot)"
proof -
  obtain p where p: "provenance_for r slot = Inr p"
    using valid_slot_view [OF v] by (auto simp: slot_view_def)
  consider "fm_operator_id m = F5_contact_shape_distortion" | "fm_operator_id m = F7_high_load_saturation"
    | "fm_operator_id m \<notin> {F5_contact_shape_distortion, F7_high_load_saturation}" by blast
  then show ?thesis
  proof cases
    case 1
    then have "activation_phases m = Inr [ONSET, SUSTAINED]" using F5_params [OF m] by metis
    with 1 p show ?thesis
      by (simp add: stateless_predicate_def contact_active_def phase_active_def in_phase_def)
  next
    case 2
    then have "activation_phases m = Inr [ONSET, SUSTAINED]" using F7_params [OF m] by metis
    with 2 p show ?thesis
      by (simp add: stateless_predicate_def contact_active_def phase_active_def in_phase_def)
  next
    case 3
    then show ?thesis by (auto simp: stateless_predicate_def always_active_def in_phase_def)
  qed
qed

lemma fidelity_slot_total:
  assumes m: "manifest_ok h m" and c: "valid_record h c" and u: "valid_record h u"
    and slot: "slot \<in> set SENSOR_SLOTS" and view: "slot_view u slot = slot_view c slot"
    and tr: "in_phase m c slot \<Longrightarrow> \<exists>x. transforms h np m rest index c slot x"
  shows "\<exists>r. fidelity_slot h m (transform_current h np m rest) (stateless_predicate m) index u slot = Inr r \<and>
    valid_record h r \<and>
    (if in_phase m c slot
     then \<exists>s p x. slot_view c slot = (Inr s, Inr p) \<and> transforms h np m rest index c slot x \<and>
       slot_view r slot = (Inr (fidelity_sensor m s x), Inr (fidelity_provenance h m p x))
     else r = u)"
proof -
  have phase: "in_phase m u slot = in_phase m c slot"
    using view by (simp add: in_phase_def slot_view_def)
  note pred = stateless_predicate_phase [OF m u slot, unfolded phase]
  show ?thesis
  proof (cases "in_phase m c slot")
    case False
    with pred u show ?thesis by (simp add: fidelity_slot_def)
  next
    case True
    obtain s p where sp: "slot_view c slot = (Inr s, Inr p)" using valid_slot_view [OF c slot] by metis
    obtain x payload where x: "transforms h np m rest index c slot x"
      and s: "slot_view c slot = (Inr s, Inr p)" "so_payload s = Some payload"
        "transform_current h np m rest index slot payload = Inr x" "check_payload x = Inr ()"
      using tr [OF True] sp by (auto simp: transforms_def slot_view_def)
    obtain r where "deliver_payload h m u s p x = Inr r" "valid_record h r"
      "slot_view r slot = (Inr (fidelity_sensor m s x), Inr (fidelity_provenance h m p x))"
      using deliver_payload_total [OF u slot _ s(4), of s p m] view s(1) by auto
    with True pred s x view show ?thesis
      by (auto simp: fidelity_slot_def slot_view_def)
  qed
qed

lemma fidelity_slot_delivers:
  assumes m: "manifest_ok h m" and c: "valid_record h c" and slot: "slot \<in> set SENSOR_SLOTS"
    and u: "record_frame c u" "slot_view u slot = slot_view c slot"
    and run: "fidelity_slot h m (transform_current h np m rest) (stateless_predicate m) index u slot = Inr v"
    and x: "in_phase m c slot \<Longrightarrow> transforms h np m rest index c slot x"
    and sp: "slot_view c slot = (Inr s, Inr p)"
  shows "slot_view v slot =
    (if in_phase m c slot then (Inr (fidelity_sensor m s x), Inr (fidelity_provenance h m p x))
     else (Inr s, Inr p))"
proof -
  have "stateless_predicate m slot u = stateless_predicate m slot c"
    using u(2) by (auto simp: stateless_predicate_def contact_active_def phase_active_def always_active_def
        slot_view_def fun_eq_iff)
  then have pred: "stateless_predicate m slot u = Inr (in_phase m c slot)"
    using stateless_predicate_phase [OF m c slot] by simp
  show ?thesis
  proof (cases "in_phase m c slot")
    case False
    with run pred u sp show ?thesis by (simp add: fidelity_slot_def)
  next
    case True
    from x [OF True] sp obtain payload where t: "so_payload s = Some payload"
      "transform_current h np m rest index slot payload = Inr x"
      by (auto simp: transforms_def slot_view_def)
    with True run pred u sp have d: "deliver_payload h m u s p x = Inr v"
      by (simp add: fidelity_slot_def slot_view_def)
    then have r: "replace_delivery h u (fidelity_sensor m s x) (fidelity_provenance h m p x) = Inr v"
      by (auto simp: deliver_payload_def mark_provenance_def fidelity_sensor_def fidelity_provenance_def
          result_simps dest!: sensor_post_init_id provenance_post_init_id)
    have ids: "so_slot_id s = slot" "pv_slot_id p = slot"
      using valid_slot_view [OF c slot] sp by auto
    have "slot_view v (so_slot_id (fidelity_sensor m s x)) =
        (Inr (fidelity_sensor m s x), Inr (fidelity_provenance h m p x))"
      by (rule slot_view_after [OF r _ u(1)])
         (use ids sp in \<open>simp_all add: fidelity_sensor_def fidelity_provenance_def slot_view_def\<close>)
    with True ids show ?thesis by (simp add: fidelity_sensor_def)
  qed
qed

lemma fidelity_record_total:
  assumes m: "manifest_ok h m" and c: "valid_record h c"
    and tr: "\<And>slot. slot \<in> set (fm_sensor_slots m) \<Longrightarrow> in_phase m c slot \<Longrightarrow>
      \<exists>x. transforms h np m rest index c slot x"
  shows "\<exists>r. foldr_res (fidelity_slot h m (transform_current h np m rest) (stateless_predicate m) index) c
      (fm_sensor_slots m) = Inr r \<and> valid_record h r"
proof (rule fidelity.fold_total [OF c manifest_ok_window(6) [OF m]])
  fix u slot
  assume "slot \<in> set (fm_sensor_slots m)" "valid_record h u" "slot_view u slot = slot_view c slot"
  with fidelity_slot_total [OF m c, of u slot] tr manifest_ok_window(7) [OF m]
  show "\<exists>r. fidelity_slot h m (transform_current h np m rest) (stateless_predicate m) index u slot = Inr r \<and>
      valid_record h r" by blast
qed

text \<open>The whole batch operator.\<close>

lemma stateless_total:
  assumes m: "manifest_ok h m" "fm_operator_id m \<in> set stateless_fidelity"
    and c: "list_all (valid_record h) clean"
    and tr: "\<And>i slot. i < length clean \<Longrightarrow> manifest_active m (int i) \<Longrightarrow> slot \<in> set (fm_sensor_slots m) \<Longrightarrow>
      in_phase m (clean ! i) slot \<Longrightarrow> \<exists>x. transforms h np m rest (int i) (clean ! i) slot x"
  shows "\<exists>out. apply_operator h np (fm_operator_id m) clean m rest = Inr out \<and> list_all (valid_record h) out"
  unfolding stateless_batch [OF m] active_records_def each_record_map
proof (rule mapr_total)
  fix i
  assume "i \<in> set [0..<length clean]"
  then have i: "i < length clean" by simp
  with c have v: "valid_record h (clean ! i)" by (simp add: list_all_length)
  show "\<exists>y. (if \<not> manifest_active m (int i) then Inr (clean ! i)
      else foldr_res (fidelity_slot h m (transform_current h np m rest) (stateless_predicate m) (int i))
        (clean ! i) (fm_sensor_slots m)) = Inr y \<and> valid_record h y"
    using v fidelity_record_total [OF m(1) v] tr [OF i] by auto
qed

lemma stateless_delivers:
  assumes m: "manifest_ok h m" "fm_operator_id m \<in> set stateless_fidelity"
    and c: "list_all (valid_record h) clean"
    and run: "apply_operator h np (fm_operator_id m) clean m rest = Inr out"
    and i: "i < length clean" "manifest_active m (int i)" "slot \<in> set (fm_sensor_slots m)"
    and x: "in_phase m (clean ! i) slot \<Longrightarrow> transforms h np m rest (int i) (clean ! i) slot x"
    and sp: "slot_view (clean ! i) slot = (Inr s, Inr p)"
  shows "slot_view (out ! i) slot =
    (if in_phase m (clean ! i) slot then (Inr (fidelity_sensor m s x), Inr (fidelity_provenance h m p x))
     else (Inr s, Inr p))"
proof -
  note win = manifest_ok_window [OF m(1)]
  have v: "valid_record h (clean ! i)" and slot: "slot \<in> set SENSOR_SLOTS"
    using c i win(7) by (auto simp: list_all_length)
  have fold: "foldr_res (fidelity_slot h m (transform_current h np m rest) (stateless_predicate m) (int i))
      (clean ! i) (fm_sensor_slots m) = Inr (out ! i)"
    using mapr_nth [OF run [unfolded stateless_batch [OF m] active_records_def each_record_map], of i] i by simp
  obtain u w where at: "fidelity_slot h m (transform_current h np m rest) (stateless_predicate m) (int i) u slot = Inr w"
    "record_frame (clean ! i) u" "slot_view u slot = slot_view (clean ! i) slot" "slot_view (out ! i) slot = slot_view w slot"
    using fidelity.fold_at [OF fold win(6) i(3)] by metis
  from fidelity_slot_delivers [OF m(1) v slot at(2,3,1) x sp] at(4) show ?thesis by simp
qed

section \<open>A demonstration of F1\<close>

abbreviation (input) "demo_F1_manifest \<equiv> demo_manifest F1_global_response_drift 1 BLIND rest_args"

lemma demo_F1: "\<not> isl (demo_init F1_global_response_drift 1 BLIND rest_args)" by code_simp

lemmas demo_F1_facts = demo_manifest_facts [OF demo_F1]

lemma lift1_fields [simp]:
  "nd_shape (lift1 f a) = nd_shape a" "nd_dtype (lift1 f a) = nd_dtype a"
  "all_finite (lift1 f a) = all_finite a" "all_finite (a\<lparr>nd_dtype := d\<rparr>) = all_finite a"
  by (auto simp: lift1_def all_finite_def list_all_iff)

lemma demo_clip_payload:
  assumes "check_payload a = Inr ()" "nd_shape b = nd_shape a" "all_finite b"
  shows "check_payload (clip_like demo_numpy a b) = Inr ()"
  using assms
  by (auto simp: check_payload_def clip_like_def demo_numpy_def Let_def split: if_splits)

lemma demo_normalize:
  "nd_shape (normalize demo_numpy a) = nd_shape a" "all_finite (normalize demo_numpy a) = all_finite a"
  by (auto simp: normalize_def np_normalize_as_def demo_numpy_def Let_def)

lemma demo_frame_payload: "check_payload (demo_frame b k) = Inr ()" "uint8_array (demo_frame b k)"
  by (auto simp: check_payload_def demo_frame_def all_finite_def list_all_iff uint8_array_def)

lemma demo_record_sensor:
  assumes "k < 4" "slot \<in> set SENSOR_SLOTS"
  obtains b where "ob_sensor (ev_observation (demo_record k)) slot = Inr (demo_sensor slot b k)"
    "provenance_for (demo_record k) slot = Inr (demo_provenance slot b k)"
  using assms that
  by (auto simp: demo_record_eq ob_sensor_def demo_sensors provenance_for_def find_provenance_def SENSOR_SLOTS_def)

lemma demo_F1_transforms:
  assumes "k < 4" "slot \<in> set SENSOR_SLOTS"
  shows "\<exists>x. transforms demo_hasher demo_numpy demo_F1_manifest rest index (demo_record k) slot x"
proof -
  obtain b where b: "ob_sensor (ev_observation (demo_record k)) slot = Inr (demo_sensor slot b k)"
    using demo_record_sensor [of k slot] assms by metis
  obtain d where d: "param_float demo_F1_manifest ''target_gain'' = Inr d"
    using F1_params [OF demo_F1_facts(1,2)] by metis
  let ?a = "demo_frame b k"
  have scaled: "nd_shape (np_mul_s demo_numpy y c) = nd_shape y" "all_finite (np_mul_s demo_numpy y c) = all_finite y"
    for y c by (simp_all add: demo_numpy_def)
  have "check_payload (clip_like demo_numpy ?a (np_mul_s demo_numpy (normalize demo_numpy ?a) g)) = Inr ()" for g
    by (rule demo_clip_payload [OF demo_frame_payload(1)])
       (use demo_frame_payload(1) [of b k] in \<open>simp_all add: scaled demo_normalize check_payload_def split: if_splits\<close>)
  then show ?thesis
    using b transform_current_simps(1) [OF demo_F1_facts(2) d]
    by (auto simp: transforms_def F1_transform_def demo_sensor_def)
qed

lemma demo_F1_run:
  obtains out where "apply_operator demo_hasher demo_numpy F1_global_response_drift demo_episode
      demo_F1_manifest (Some demo_bundle) = Inr out" "list_all (valid_record demo_hasher) out"
proof -
  have "\<exists>x. transforms demo_hasher demo_numpy demo_F1_manifest (Some demo_bundle) (int i) (demo_episode ! i) slot x"
    if "i < length demo_episode" "slot \<in> set (fm_sensor_slots demo_F1_manifest)" for i slot
    using that demo_F1_transforms [of i slot] manifest_ok_window(7) [OF demo_F1_facts(1)]
    by (auto simp: demo_nth)
  then show thesis
    using stateless_total [OF demo_F1_facts(1) _ demo_episode_valid, of demo_numpy "Some demo_bundle"] that
    by (auto simp: demo_F1_facts stateless_fidelity_def)
qed

lemma enumerate_item: "x \<in> set (enumerate 0 xs) \<Longrightarrow> \<exists>i < length xs. x = (i, xs ! i)"
  by (cases x) (auto simp: in_set_enumerate_eq)

lemma demo_F1_expected:
  obtains d where "expected_pixel_payloads demo_hasher demo_numpy demo_episode demo_F1_manifest (Some demo_bundle) = Inr d"
proof -
  obtain g where g: "param_float demo_F1_manifest ''target_gain'' = Inr g"
    using F1_params [OF demo_F1_facts(1,2)] by metis
  have step: "\<exists>v. expected_slot demo_hasher demo_numpy demo_F1_manifest (Some demo_bundle) (int i) (demo_record i) st slot = Inr v"
    if i: "i < 4" "slot \<in> set SENSOR_SLOTS" for i st slot
  proof -
    obtain b where b: "ob_sensor (ev_observation (demo_record i)) slot = Inr (demo_sensor slot b i)"
      using demo_record_sensor [OF i] by metis
    show ?thesis
      by (cases st) (simp add: expected_slot_def b demo_sensor_def expected_baseline_def expected_payload_def
          ref_f1_def g demo_F1_facts NEEDS_BASELINE_def Let_def)
  qed
  have "\<exists>v. foldr_res (\<lambda>st (index, record).
              foldr_res (expected_slot demo_hasher demo_numpy demo_F1_manifest (Some demo_bundle) (int index) record)
                st (fm_sensor_slots demo_F1_manifest)) ([], []) (enumerate 0 demo_episode) = Inr v"
  proof (rule foldr_res_returns)
    fix u :: "histories \<times> expected" and x
    assume "x \<in> set (enumerate 0 demo_episode)"
    then obtain i where "x = (i, demo_record i)" "i < 4"
      using enumerate_item [of x demo_episode] by (auto simp: demo_nth)
    with step manifest_ok_window(7) [OF demo_F1_facts(1)]
    show "\<exists>v. (case x of (index, record) \<Rightarrow>
              foldr_res (expected_slot demo_hasher demo_numpy demo_F1_manifest (Some demo_bundle) (int index) record)
                u (fm_sensor_slots demo_F1_manifest)) = Inr v"
      by (auto intro!: foldr_res_returns simp del: split_paired_Ex)
  qed
  then show thesis
    using that by (auto simp: expected_pixel_payloads_def expected_initial_def demo_F1_facts)
qed

lemma demo_uint8: "uint8_episode demo_episode"
proof -
  have "uint8_array a" if k: "k < 4" "slot_payload (demo_record k) slot = Some a" for k slot a
  proof (cases "slot \<in> set SENSOR_SLOTS")
    case True
    obtain b where "ob_sensor (ev_observation (demo_record k)) slot = Inr (demo_sensor slot b k)"
      using demo_record_sensor [OF k(1) True] by metis
    with k(2) demo_frame_payload(2) show ?thesis by (auto simp: slot_payload_def demo_sensor_def)
  next
    case False
    with k show ?thesis
      by (auto simp: slot_payload_def demo_record_eq ob_sensor_def demo_sensors SENSOR_SLOTS_def)
  qed
  then show ?thesis
    by (auto simp: uint8_episode_def in_set_conv_nth demo_nth)
qed

lemma episode_slots:
  assumes "manifest_ok h m" "list_all (valid_record h) clean" "i < length clean" "slot \<in> set (fm_sensor_slots m)"
  shows "\<exists>s p. slot_view (clean ! i) slot = (Inr s, Inr p)"
  using valid_slot_view [of h "clean ! i" slot] assms manifest_ok_window(7) [OF assms(1)]
  by (metis list_all_length subsetD)

end
