(* ===== verification/Runtime.thy ===== *)
theory Runtime
  imports Validators Streaming
begin

text \<open>
  Offline execution of one registered fault (\<open>runtime.py\<close>): the checks before the operator, the
  operator, the validation of its delivery and the content address of the delivered trace.
\<close>

record replay_result =
  rr_records :: "evaluation list"
  rr_validation :: validation_report
  rr_trace_sha256 :: string

definition record_hashes :: "hasher \<Rightarrow> evaluation list \<Rightarrow> pyval" where
  "record_hashes h records =
     PList (map (\<lambda>r. PStr (delivered_hash h (ev_observation r) (ev_provenance r))) records)"

definition trace_hash :: "hasher \<Rightarrow> evaluation list \<Rightarrow> fault_manifest \<Rightarrow> string" where
  "trace_hash h records m =
     canonical_hash h (PDict [(''manifest_sha256'', PStr (manifest_sha256 h m)),
                              (''records'', record_hashes h records)])"

text \<open>The rest references of the episode: registered, and calibrated like every clean record.\<close>

definition require_episode_calibration ::
    "evaluation list \<Rightarrow> fault_manifest \<Rightarrow> reference_bundle \<Rightarrow> unit result" where
  "require_episode_calibration clean m b =
     foldr_res (\<lambda>_ slot.
       bindr (mapr (\<lambda>r. bindr (provenance_for r slot) (\<lambda>p. Inr (pv_calibration_sha256 p))) clean) (\<lambda>hashes.
       bindr (calibration_of b slot) (\<lambda>c.
       if set hashes \<noteq> {c}
       then Inl (ValueError ''rest-reference calibration does not match the clean episode'')
       else Inr ()))) () (fm_sensor_slots m)"

definition require_episode_references ::
    "hasher \<Rightarrow> evaluation list \<Rightarrow> fault_manifest \<Rightarrow> reference_bundle option \<Rightarrow> unit result" where
  "require_episode_references h clean m rest =
     (if fm_operator_id m \<notin> set REST_REFERENCE_OPERATOR_IDS then Inr ()
      else case rest of
        None \<Rightarrow> Inl (ValueError ''this operator requires a frozen rest-reference bundle'')
      | Some b \<Rightarrow>
          bindr (ditem (fm_parameters m) ''rest_reference_sha256'') (\<lambda>v.
          if \<not> py_eq v (PStr (bundle_sha256 h b))
          then Inl (ValueError ''rest-reference bundle does not match the fault manifest'')
          else require_episode_calibration clean m b))"

definition last_erasure :: "fault_manifest \<Rightarrow> int result" where
  "last_erasure m =
     bindr (param_ints m ''erased_offsets'') (\<lambda>offsets.
     bindr (py_index offsets (- 1)) (\<lambda>offset. Inr (fm_start_index m + offset)))"

definition require_resume :: "evaluation list \<Rightarrow> fault_manifest \<Rightarrow> unit result" where
  "require_resume clean m =
     (if fm_operator_id m \<noteq> A2_frame_erasure then Inr ()
      else bindr (last_erasure m) (\<lambda>last.
        if int (length clean) - 1 \<le> last
        then Inl (ValueError ''A2 requires a later clean payload to resume'') else Inr ()))"

definition apply_fault ::
    "hasher \<Rightarrow> numpy \<Rightarrow> evaluation list \<Rightarrow> fault_manifest \<Rightarrow> reference_bundle option \<Rightarrow>
     replay_result result" where
  "apply_fault h np clean m rest =
     (if int (length clean) < fm_stop_index m
      then Inl (ValueError ''fault window exceeds the episode length'')
      else bindr (require_episode_references h clean m rest) (\<lambda>_.
           bindr (require_resume clean m) (\<lambda>_.
           bindr load_registry (\<lambda>registry.
           bindr (create registry (operator_name (fm_operator_id m))) (\<lambda>_.
           bindr (apply_operator h np (fm_operator_id m) clean m rest) (\<lambda>records.
           bindr (validate_delivery h np clean records m rest) (\<lambda>validation.
           Inr \<lparr>rr_records = records, rr_validation = validation,
                rr_trace_sha256 = trace_hash h records m\<rparr>)))))))"

end
