(* ===== verification/Delivery.thy ===== *)
theory Delivery
  imports Runtime
begin

text \<open>
  Online delivery in the closed loop (\<open>closed_loop/delivery.py\<close>): the clean-stream gate both
  sessions share, the identity session, the fault session over the streaming engine, and the
  receipt a session is finalized to.  A call returns the session as it is afterwards, also after
  an exception.
\<close>

section \<open>Traces\<close>

definition clean_trace_hash :: "hasher \<Rightarrow> evaluation list \<Rightarrow> string" where
  "clean_trace_hash h records =
     canonical_hash h
       (PDict [(''namespace'', PStr ''robotactile_benchmark.closed_loop.clean_trace.v1''),
               (''records'', record_hashes h records)])"

definition fault_trace_hash :: "hasher \<Rightarrow> evaluation list \<Rightarrow> string \<Rightarrow> string" where
  "fault_trace_hash h records sha =
     canonical_hash h (PDict [(''manifest_sha256'', PStr sha), (''records'', record_hashes h records)])"

abbreviation content_sha :: "hasher \<Rightarrow> evaluation \<Rightarrow> string" where
  "content_sha h r \<equiv> delivered_hash h (ev_observation r) (ev_provenance r)"

definition check_pair_hashes :: "hasher \<Rightarrow> evaluation \<times> evaluation \<Rightarrow> unit result" where
  "check_pair_hashes h pair =
     (case pair of (clean, delivered) \<Rightarrow>
        if ev_clean_record_sha256 clean \<noteq> content_sha h clean \<or>
           ev_delivered_record_sha256 clean \<noteq> content_sha h clean
        then Inl (ValueError ''clean record has stale cached hashes'')
        else if ev_delivered_record_sha256 delivered \<noteq> content_sha h delivered
        then Inl (ValueError ''delivered record has a stale cached hash'')
        else if ev_clean_record_sha256 delivered \<noteq> content_sha h clean
        then Inl (ValueError ''delivered record has a wrong clean reference'')
        else Inr ())"

definition validate_record_hashes :: "hasher \<Rightarrow> evaluation list \<Rightarrow> evaluation list \<Rightarrow> unit result" where
  "validate_record_hashes h clean delivered =
     foldr_res (\<lambda>_ pair. check_pair_hashes h pair) () (zip clean delivered)"

definition freeze_validation_report :: "validation_report \<Rightarrow> validation_report result" where
  "freeze_validation_report report =
     bindr (freeze_value (PDict (vr_metrics report))) (\<lambda>v.
       case v of PDict metrics \<Rightarrow> Inr (report\<lparr>vr_metrics := metrics\<rparr>)
       | _ \<Rightarrow> Inl (TypeError ''metrics must be a mapping''))"

section \<open>The receipt\<close>

record delivery_finalization =
  df_clean_records :: "evaluation list"
  df_delivered_records :: "evaluation list"
  df_validation :: "validation_report option"
  df_clean_trace_sha256 :: string
  df_delivered_trace_sha256 :: string
  df_manifest_sha256 :: "string option"

text \<open>\<open>canonical_hash\<close> of a whole record.\<close>

definition evaluation_value :: "hasher \<Rightarrow> evaluation \<Rightarrow> pyval" where
  "evaluation_value h r =
     PDict [(''observation'', observation_value h (ev_observation r)),
            (''provenance'', PList (map provenance_value (ev_provenance r))),
            (''clean_record_sha256'', PStr (ev_clean_record_sha256 r)),
            (''delivered_record_sha256'', PStr (ev_delivered_record_sha256 r))]"

definition same_records :: "hasher \<Rightarrow> evaluation list \<Rightarrow> evaluation list \<Rightarrow> bool" where
  "same_records h clean delivered \<longleftrightarrow>
     list_all (\<lambda>(c, d). canonical_hash h (evaluation_value h c) = canonical_hash h (evaluation_value h d))
       (zip clean delivered)"

definition finalization_init ::
    "hasher \<Rightarrow> delivery_finalization \<Rightarrow> delivery_finalization result" where
  "finalization_init h f =
     (let clean = df_clean_records f; delivered = df_delivered_records f in
      if clean = [] \<or> length clean \<noteq> length delivered
      then Inl (ValueError ''finalization traces must be non-empty and equal-length'')
      else bindr (check_sha (df_clean_trace_sha256 f)) (\<lambda>_.
           bindr (check_sha (df_delivered_trace_sha256 f)) (\<lambda>_.
           bindr (validate_record_hashes h clean delivered) (\<lambda>_.
           if df_clean_trace_sha256 f \<noteq> clean_trace_hash h clean
           then Inl (ValueError ''clean trace hash does not match its records'')
           else case df_validation f of
             None \<Rightarrow>
               if df_manifest_sha256 f \<noteq> None
               then Inl (ValueError ''identity finalization cannot name a manifest'')
               else if df_delivered_trace_sha256 f \<noteq> clean_trace_hash h delivered
               then Inl (ValueError ''identity delivered trace hash does not match records'')
               else if \<not> same_records h clean delivered
               then Inl (ValueError ''identity delivery must preserve complete records'')
               else Inr f
           | Some report \<Rightarrow>
               (case df_manifest_sha256 f of
                  None \<Rightarrow> Inl (ValueError ''fault finalization requires a manifest hash'')
                | Some sha \<Rightarrow>
                    bindr (check_sha sha) (\<lambda>_.
                    if df_delivered_trace_sha256 f \<noteq> fault_trace_hash h delivered sha
                    then Inl (ValueError ''fault delivered trace hash does not match records'')
                    else bindr (freeze_validation_report report) (\<lambda>report.
                         Inr (f\<lparr>df_validation := Some report\<rparr>))))))))"

section \<open>The clean-stream gate\<close>

type_synonym stream_identity =
  "string \<times> string \<times> int \<times> string list \<times> string list \<times> string list \<times> string list \<times> string list"

record delivery_session =
  ds_clean_records :: "evaluation list"
  ds_delivered_records :: "evaluation list"
  ds_stream_identity :: "stream_identity option"
  ds_finalized :: bool

definition delivery_session_init :: delivery_session where
  "delivery_session_init =
     \<lparr>ds_clean_records = [], ds_delivered_records = [], ds_stream_identity = None, ds_finalized = False\<rparr>"

definition require_open :: "delivery_session \<Rightarrow> unit result" where
  "require_open s =
     (if ds_finalized s then Inl (ValueError ''delivery session has already been finalized'') else Inr ())"

definition identity_of :: "evaluation \<Rightarrow> stream_identity" where
  "identity_of r =
     (let ob = ev_observation r in
      (ob_episode_id ob, ob_task ob, ob_seed ob, map so_slot_id (ob_tactile ob),
       map pv_physical_source_id (ev_provenance r), map so_frame_id (ob_tactile ob),
       map so_calibration_id (ob_tactile ob), map pv_calibration_sha256 (ev_provenance r)))"

text \<open>The session with the identity the gate leaves in it.\<close>

definition validate_clean_record ::
    "hasher \<Rightarrow> delivery_session \<Rightarrow> evaluation \<Rightarrow> delivery_session result" where
  "validate_clean_record h s r =
     (if step_of r \<noteq> int (length (ds_clean_records s))
      then Inl (ValueError ''clean stream step indices must start at zero and be dense'')
      else if ev_clean_record_sha256 r \<noteq> content_sha h r
      then Inl (ValueError ''clean record clean hash is stale'')
      else if ev_delivered_record_sha256 r \<noteq> content_sha h r
      then Inl (ValueError ''clean record delivered hash is stale'')
      else if list_ex (\<lambda>p. pv_active_fault_ids p \<noteq> []) (ev_provenance r)
      then Inl (ValueError ''clean stream cannot contain active fault identifiers'')
      else case ds_stream_identity s of
        None \<Rightarrow> Inr (s\<lparr>ds_stream_identity := Some (identity_of r)\<rparr>)
      | Some identity \<Rightarrow>
          if identity_of r \<noteq> identity
          then Inl (ValueError ''clean stream identity changed during delivery'') else Inr s)"

definition append_clean ::
    "hasher \<Rightarrow> delivery_session \<Rightarrow> evaluation \<Rightarrow> delivery_session result" where
  "append_clean h s r =
     bindr (validate_clean_record h s r) (\<lambda>s. Inr (s\<lparr>ds_clean_records := ds_clean_records s @ [r]\<rparr>))"

definition require_records :: "delivery_session \<Rightarrow> evaluation list result" where
  "require_records s =
     (if ds_clean_records s = [] then Inl (ValueError ''cannot finalize an empty delivery session'')
      else Inr (ds_clean_records s))"

section \<open>The identity session\<close>

definition identity_deliver ::
    "hasher \<Rightarrow> delivery_session \<Rightarrow> evaluation \<Rightarrow> delivery_session \<times> evaluation result" where
  "identity_deliver h s r =
     (case bindr (require_open s) (\<lambda>_. append_clean h s r) of
        Inl e \<Rightarrow> (s, Inl e)
      | Inr s \<Rightarrow> (s\<lparr>ds_delivered_records := ds_delivered_records s @ [r]\<rparr>, Inr r))"

definition identity_finalize ::
    "hasher \<Rightarrow> delivery_session \<Rightarrow> delivery_session \<times> delivery_finalization result" where
  "identity_finalize h s =
     (case bindr (require_open s) (\<lambda>_.
           bindr (require_records s) (\<lambda>clean.
           finalization_init h
             \<lparr>df_clean_records = clean, df_delivered_records = ds_delivered_records s, df_validation = None,
              df_clean_trace_sha256 = clean_trace_hash h clean,
              df_delivered_trace_sha256 = clean_trace_hash h clean, df_manifest_sha256 = None\<rparr>)) of
        Inl e \<Rightarrow> (s, Inl e)
      | Inr f \<Rightarrow> (s\<lparr>ds_finalized := True\<rparr>, Inr f))"

section \<open>The fault session\<close>

record online_session =
  os_base :: delivery_session
  os_manifest :: fault_manifest
  os_rest_references :: "reference_bundle option"
  os_manifest_sha256 :: string
  os_manifest_dict :: params
  os_streaming :: session

definition online_init ::
    "hasher \<Rightarrow> fault_manifest \<Rightarrow> reference_bundle option \<Rightarrow> online_session result" where
  "online_init h m rest =
     bindr (require_rest_reference h m rest) (\<lambda>_.
     bindr (session_init h m rest) (\<lambda>streaming.
     Inr \<lparr>os_base = delivery_session_init, os_manifest = m, os_rest_references = rest,
          os_manifest_sha256 = manifest_sha256 h m, os_manifest_dict = manifest_to_dict m,
          os_streaming = streaming\<rparr>))"

definition require_manifest_unchanged :: "hasher \<Rightarrow> online_session \<Rightarrow> unit result" where
  "require_manifest_unchanged h s =
     (if manifest_sha256 h (os_manifest s) \<noteq> os_manifest_sha256 s \<or>
         \<not> py_eq (PDict (manifest_to_dict (os_manifest s))) (PDict (os_manifest_dict s))
      then Inl (ValueError ''fault manifest changed during delivery'') else Inr ())"

definition online_rest_calibration :: "online_session \<Rightarrow> evaluation \<Rightarrow> unit result" where
  "online_rest_calibration s r =
     (case os_rest_references s of
        None \<Rightarrow> Inr ()
      | Some b \<Rightarrow>
          if fm_operator_id (os_manifest s) \<notin> set REST_REFERENCE_OPERATOR_IDS then Inr ()
          else foldr_res (\<lambda>_ slot.
            bindr (provenance_for r slot) (\<lambda>p.
            bindr (calibration_of b slot) (\<lambda>c.
            if pv_calibration_sha256 p \<noteq> c
            then Inl (ValueError ''rest-reference calibration does not match the clean episode'')
            else Inr ()))) () (fm_sensor_slots (os_manifest s)))"

text \<open>\<open>deliver\<close>: the clean record is appended before the streaming engine is called, so it stays
  when the engine raises.\<close>

definition online_deliver ::
    "hasher \<Rightarrow> numpy \<Rightarrow> online_session \<Rightarrow> evaluation \<Rightarrow> online_session \<times> evaluation result" where
  "online_deliver h np s r =
     (case bindr (require_open (os_base s)) (\<lambda>_.
           bindr (require_manifest_unchanged h s) (\<lambda>_.
           bindr (if ds_clean_records (os_base s) = [] then online_rest_calibration s r else Inr ()) (\<lambda>_.
           append_clean h (os_base s) r))) of
        Inl e \<Rightarrow> (s, Inl e)
      | Inr base \<Rightarrow>
          let (streaming, delivered) = deliver_one h np (os_streaming s) r;
              s = s\<lparr>os_base := base, os_streaming := streaming\<rparr>
          in case delivered of
               Inl e \<Rightarrow> (s, Inl e)
             | Inr current \<Rightarrow>
                 (s\<lparr>os_base := base\<lparr>ds_delivered_records := ds_delivered_records base @ [current]\<rparr>\<rparr>,
                  Inr current))"

definition with_a2_resume_failure ::
    "fault_manifest \<Rightarrow> validation_report \<Rightarrow> evaluation list \<Rightarrow> validation_report result" where
  "with_a2_resume_failure m report clean =
     (if fm_operator_id m \<noteq> A2_frame_erasure then Inr report
      else bindr (last_erasure m) (\<lambda>last.
        if last < int (length clean) - 1 then Inr report
        else if ''A2_RESUME_MISSING'' \<in> set (vr_failure_codes report) then Inr report
        else Inr \<lparr>vr_passed = False, vr_failure_codes = vr_failure_codes report @ [''A2_RESUME_MISSING''],
                  vr_failures = vr_failures report @
                    [''A2 requires a later clean payload to resume after its last erasure''],
                  vr_metrics = vr_metrics report\<rparr>))"

definition online_finalize ::
    "hasher \<Rightarrow> numpy \<Rightarrow> online_session \<Rightarrow> online_session \<times> delivery_finalization result" where
  "online_finalize h np s =
     (let m = os_manifest s; delivered = ds_delivered_records (os_base s) in
      case bindr (require_open (os_base s)) (\<lambda>_.
           bindr (require_manifest_unchanged h s) (\<lambda>_.
           bindr (require_records (os_base s)) (\<lambda>clean.
           bindr (validate_delivery h np clean delivered m (os_rest_references s)) (\<lambda>report.
           bindr (with_a2_resume_failure m report clean) (\<lambda>report.
           finalization_init h
             \<lparr>df_clean_records = clean, df_delivered_records = delivered, df_validation = Some report,
              df_clean_trace_sha256 = clean_trace_hash h clean,
              df_delivered_trace_sha256 = trace_hash h delivered m,
              df_manifest_sha256 = Some (os_manifest_sha256 s)\<rparr>))))) of
        Inl e \<Rightarrow> (s, Inl e)
      | Inr f \<Rightarrow> (s\<lparr>os_base := (os_base s)\<lparr>ds_finalized := True\<rparr>\<rparr>, Inr f))"

end
