(* ===== verification/Delivery_Life.thy ===== *)
theory Delivery_Life
  imports Delivery Semantic_Gate Session_Life Replay_Fidelity
begin

text \<open>
  The life of a delivery session: the clean stream it accepts, the online session delivering what
  the offline runtime delivers, what an exception of the streaming engine leaves behind, and the
  seal of a finalized session.
\<close>

section \<open>Clean streams\<close>

text \<open>What the gate of a session asks of the records, one by one.\<close>

definition clean_record :: "hasher \<Rightarrow> evaluation \<Rightarrow> bool" where
  "clean_record h r \<longleftrightarrow>
     ev_clean_record_sha256 r = content_sha h r \<and> ev_delivered_record_sha256 r = content_sha h r \<and>
     list_all (\<lambda>p. pv_active_fault_ids p = []) (ev_provenance r)"

definition clean_stream :: "hasher \<Rightarrow> evaluation list \<Rightarrow> bool" where
  "clean_stream h clean \<longleftrightarrow>
     dense_episode clean \<and> list_all (clean_record h) clean \<and>
     (\<forall>r\<in>set clean. identity_of r = identity_of (hd clean))"

text \<open>A session is open on a stream when its identity is the one of the records so far.\<close>

definition open_on :: "delivery_session \<Rightarrow> evaluation list \<Rightarrow> bool" where
  "open_on s clean \<longleftrightarrow>
     \<not> ds_finalized s \<and> ds_clean_records s = clean \<and>
     ds_stream_identity s = (case clean of [] \<Rightarrow> None | r # _ \<Rightarrow> Some (identity_of r))"

lemma open_init: "open_on delivery_session_init []"
  by (simp add: open_on_def delivery_session_init_def)

lemma append_clean_accepts:
  assumes "open_on s clean" "clean_record h r" "step_of r = int (length clean)"
    and "clean \<noteq> [] \<Longrightarrow> identity_of r = identity_of (hd clean)"
  shows "\<exists>s'. append_clean h s r = Inr s' \<and> open_on s' (clean @ [r]) \<and>
    ds_delivered_records s' = ds_delivered_records s"
  using assms
  by (cases clean)
     (auto simp: append_clean_def validate_clean_record_def open_on_def clean_record_def list_ex_iff list_all_iff)

lemma append_clean_Inr:
  assumes "append_clean h s r = Inr s'"
  shows "ds_clean_records s' = ds_clean_records s @ [r]" "ds_delivered_records s' = ds_delivered_records s"
    "ds_finalized s' = ds_finalized s" "step_of r = int (length (ds_clean_records s))" "clean_record h r"
  using assms
  by (auto simp: append_clean_def validate_clean_record_def result_simps clean_record_def list_ex_iff list_all_iff
      split: if_splits option.splits)

section \<open>Digests\<close>

text \<open>A digest function: lowercase hexadecimal of the right length, as \<open>hashlib.sha256\<close> gives.\<close>

definition sha_digests :: "hasher \<Rightarrow> bool" where
  "sha_digests h \<longleftrightarrow> (\<forall>v. is_sha256 (sha_json h v))"

lemma check_sha_canonical: "sha_digests h \<Longrightarrow> check_sha (canonical_hash h v) = Inr ()"
  by (simp add: sha_digests_def check_sha_def canonical_hash_def)

lemma canonical_nonempty: "sha_digests h \<Longrightarrow> canonical_hash h v \<noteq> []"
  by (metis sha_digests_def canonical_hash_def is_sha256_def list.size(3) zero_neq_numeral)

lemma freeze_pairs:
  "frozen_metrics kvs \<Longrightarrow> freeze_value (PDict kvs) = Inr (PDict kvs)"
proof -
  have "sequence (map pair_result (map (map_prod id freeze_value) kvs)) = Inr kvs"
    if "frozen_metrics kvs" using that
    by (induction kvs) (auto simp: frozen_metrics_def)
  then show "frozen_metrics kvs \<Longrightarrow> freeze_value (PDict kvs) = Inr (PDict kvs)" by simp
qed

lemma freeze_report: "frozen_metrics (vr_metrics r) \<Longrightarrow> freeze_validation_report r = Inr r"
  by (simp add: freeze_validation_report_def freeze_pairs del: freeze_value.simps)

lemma trace_hash_fault: "trace_hash h records m = fault_trace_hash h records (manifest_sha256 h m)"
  by (simp add: trace_hash_def fault_trace_hash_def)

lemma validate_record_hashes_ok:
  assumes "list_all (clean_record h) clean" "length delivered = length clean"
    "\<And>i. i < length clean \<Longrightarrow> ev_delivered_record_sha256 (delivered ! i) = content_sha h (delivered ! i) \<and>
      ev_clean_record_sha256 (delivered ! i) = content_sha h (clean ! i)"
  shows "validate_record_hashes h clean delivered = Inr ()"
proof -
  have "\<exists>t. foldr_res (\<lambda>_ pair. check_pair_hashes h pair) () (zip clean delivered) = Inr t"
  proof (rule foldr_res_returns)
    fix u and x :: "evaluation \<times> evaluation"
    assume "x \<in> set (zip clean delivered)"
    then obtain i where "i < length clean" "x = (clean ! i, delivered ! i)"
      using assms(2) by (auto simp: set_zip)
    with assms show "\<exists>v. check_pair_hashes h x = Inr v"
      by (auto simp: check_pair_hashes_def list_all_length clean_record_def)
  qed
  then show ?thesis by (simp add: validate_record_hashes_def)
qed

section \<open>A whole stream through the online session\<close>

definition online_step ::
    "hasher \<Rightarrow> numpy \<Rightarrow> online_session \<Rightarrow> evaluation \<Rightarrow> online_session result" where
  "online_step h np s r =
     (case online_deliver h np s r of (s', Inl e) \<Rightarrow> Inl e | (s', Inr d) \<Rightarrow> Inr s')"

definition online_all ::
    "hasher \<Rightarrow> numpy \<Rightarrow> online_session \<Rightarrow> evaluation list \<Rightarrow> online_session result" where
  "online_all h np s clean = foldr_res (online_step h np) s clean"

text \<open>The session of manifest \<open>m\<close> after the records \<open>clean\<close>, delivered as \<open>out\<close>.\<close>

definition online_at ::
    "hasher \<Rightarrow> fault_manifest \<Rightarrow> reference_bundle option \<Rightarrow> evaluation list \<Rightarrow> evaluation list \<Rightarrow>
     online_session \<Rightarrow> bool" where
  "online_at h m rest clean out s \<longleftrightarrow>
     os_manifest s = m \<and> os_rest_references s = rest \<and> os_manifest_sha256 s = manifest_sha256 h m \<and>
     os_manifest_dict s = manifest_to_dict m \<and> open_on (os_base s) clean \<and>
     ds_delivered_records (os_base s) = out"

lemma online_atD:
  assumes "online_at h m rest clean out s"
  shows "require_open (os_base s) = Inr ()" "require_manifest_unchanged h s = Inr ()"
    "ds_clean_records (os_base s) = clean" "ds_delivered_records (os_base s) = out"
    "os_manifest s = m" "os_rest_references s = rest" "os_manifest_sha256 s = manifest_sha256 h m"
  using assms by (simp_all add: online_at_def open_on_def require_open_def require_manifest_unchanged_def)

lemma online_deliver_step:
  assumes at: "online_at h m rest clean out s"
    and r: "clean_record h r" "step_of r = int (length clean)" "clean \<noteq> [] \<Longrightarrow> identity_of r = identity_of (hd clean)"
    and cal: "clean = [] \<Longrightarrow> online_rest_calibration s r = Inr ()"
    and engine: "deliver_one h np (os_streaming s) r = (t, Inr d)"
  shows "\<exists>s'. online_step h np s r = Inr s' \<and> online_at h m rest (clean @ [r]) (out @ [d]) s' \<and> os_streaming s' = t"
proof -
  note a = online_atD [OF at]
  have "open_on (os_base s) clean" using at by (simp add: online_at_def)
  from append_clean_accepts [OF this r] obtain base where base: "append_clean h (os_base s) r = Inr base"
    "open_on base (clean @ [r])" "ds_delivered_records base = out" using a(4) by auto
  have c: "(if ds_clean_records (os_base s) = [] then online_rest_calibration s r else Inr ()) = Inr ()"
    using cal a(3) by simp
  let ?s = "s\<lparr>os_base := base\<lparr>ds_delivered_records := ds_delivered_records base @ [d]\<rparr>, os_streaming := t\<rparr>"
  have gate: "bindr (require_open (os_base s)) (\<lambda>_. bindr (require_manifest_unchanged h s) (\<lambda>_.
      bindr (if ds_clean_records (os_base s) = [] then online_rest_calibration s r else Inr ()) (\<lambda>_.
      append_clean h (os_base s) r))) = Inr base"
    unfolding a(1,2) c base(1) bindr_simps ..
  have "online_deliver h np s r = (?s, Inr d)"
    unfolding online_deliver_def gate by (simp add: engine)
  moreover have "online_at h m rest (clean @ [r]) (out @ [d]) ?s"
    using at base(2,3) by (simp add: online_at_def open_on_def)
  ultimately show ?thesis by (simp add: online_step_def)
qed

lemma online_all_run:
  assumes "online_at h m rest clean out s" "map_acc (stream_step h np) (os_streaming s) rs = Inr ds"
    and "clean_stream h (clean @ rs)"
    and "clean = [] \<Longrightarrow> rs \<noteq> [] \<Longrightarrow> online_rest_calibration s (hd rs) = Inr ()"
  shows "\<exists>s'. online_all h np s rs = Inr s' \<and> online_at h m rest (clean @ rs) (out @ ds) s'"
  using assms
proof (induction rs arbitrary: clean out s ds)
  case Nil
  then show ?case by (simp add: online_all_def)
next
  case (Cons r rs)
  from Cons.prems(2) obtain t d ds' where step: "stream_step h np (os_streaming s) r = Inr (t, d)"
    and ds: "map_acc (stream_step h np) t rs = Inr ds'" "ds = d # ds'"
    by (auto simp: result_simps)
  have engine: "deliver_one h np (os_streaming s) r = (t, Inr d)"
    using step by (auto simp: stream_step_def split: prod.splits sum.splits)
  have nth: "(clean @ r # rs) ! length clean = r" by simp
  have r: "clean_record h r"
    using Cons.prems(3) unfolding clean_stream_def list_all_append list.pred_inject(2) by blast
  have step_r: "step_of r = int (length clean)"
  proof -
    have "length clean < length (clean @ r # rs)" by simp
    then have "step_of ((clean @ r # rs) ! length clean) = int (length clean)"
      using Cons.prems(3) unfolding clean_stream_def dense_episode_def by blast
    then show ?thesis by (simp only: nth)
  qed
  have same: "identity_of r = identity_of (hd clean)" if "clean \<noteq> []"
  proof -
    have "r \<in> set (clean @ r # rs)" by simp
    then have "identity_of r = identity_of (hd (clean @ r # rs))"
      using Cons.prems(3) unfolding clean_stream_def by blast
    then show ?thesis by (simp only: hd_append2 [OF that])
  qed
  have cal: "online_rest_calibration s r = Inr ()" if "clean = []"
    using Cons.prems(4) that by simp
  obtain s1 where s1: "online_step h np s r = Inr s1" "online_at h m rest (clean @ [r]) (out @ [d]) s1"
    "os_streaming s1 = t"
    using online_deliver_step [OF Cons.prems(1) r step_r same cal engine] by blast
  have tail: "map_acc (stream_step h np) (os_streaming s1) rs = Inr ds'" using ds(1) s1(3) by simp
  have "clean_stream h ((clean @ [r]) @ rs)" using Cons.prems(3) by (simp only: append_assoc append.simps)
  from Cons.IH [OF s1(2) tail this] obtain s' where "online_all h np s1 rs = Inr s'"
    "online_at h m rest ((clean @ [r]) @ rs) ((out @ [d]) @ ds') s'" by (auto simp del: append_assoc)
  with s1(1) ds(2) show ?case by (simp add: online_all_def)
qed

section \<open>The offline runtime\<close>

lemma calibrations_agree:
  assumes "require_episode_calibration clean m b = Inr ()" "r \<in> set clean"
  shows "foldr_res (\<lambda>_ slot.
            bindr (provenance_for r slot) (\<lambda>p.
            bindr (calibration_of b slot) (\<lambda>c.
            if pv_calibration_sha256 p \<noteq> c
            then Inl (ValueError ''rest-reference calibration does not match the clean episode'')
            else Inr ()))) () (fm_sensor_slots m) = Inr ()"
proof -
  have "foldr_res (\<lambda>_ slot.
            bindr (provenance_for r slot) (\<lambda>p.
            bindr (calibration_of b slot) (\<lambda>c.
            if pv_calibration_sha256 p \<noteq> c
            then Inl (ValueError ''rest-reference calibration does not match the clean episode'')
            else Inr ()))) () slots = Inr ()"
    if "foldr_res (\<lambda>_ slot.
       bindr (mapr (\<lambda>r. bindr (provenance_for r slot) (\<lambda>p. Inr (pv_calibration_sha256 p))) clean) (\<lambda>hashes.
       bindr (calibration_of b slot) (\<lambda>c.
       if set hashes \<noteq> {c}
       then Inl (ValueError ''rest-reference calibration does not match the clean episode'')
       else Inr ()))) () slots = Inr ()" for slots
    using that
  proof (induction slots)
    case (Cons slot slots)
    from Cons.prems obtain hashes c where hs:
      "mapr (\<lambda>r. bindr (provenance_for r slot) (\<lambda>p. Inr (pv_calibration_sha256 p))) clean = Inr hashes"
      "calibration_of b slot = Inr c" "set hashes = {c}"
      by (auto simp: result_simps split: if_splits)
    obtain i where i: "i < length clean" "r = clean ! i" using assms(2) by (auto simp: in_set_conv_nth)
    from mapr_nth [OF hs(1) i(1)] i(2) obtain p where p: "provenance_for r slot = Inr p"
      "pv_calibration_sha256 p = hashes ! i" by (auto simp: result_simps)
    have "hashes ! i \<in> set hashes" using mapr_length [OF hs(1)] i(1) by simp
    with p hs Cons show ?case by (auto simp: result_simps)
  qed simp
  then show ?thesis using assms(1) by (simp add: require_episode_calibration_def)
qed

lemma apply_fault_Inr:
  assumes "apply_fault h np clean m rest = Inr r"
  shows "fm_stop_index m \<le> int (length clean)" "require_episode_references h clean m rest = Inr ()"
    "require_resume clean m = Inr ()"
    "apply_operator h np (fm_operator_id m) clean m rest = Inr (rr_records r)"
    "validate_delivery h np clean (rr_records r) m rest = Inr (rr_validation r)"
    "rr_trace_sha256 r = trace_hash h (rr_records r) m"
  using assms by (auto simp: apply_fault_def result_simps split: if_splits)

lemma references_calibrated:
  assumes "require_episode_references h clean m rest = Inr ()" "c \<in> set clean"
    "os_manifest s = m" "os_rest_references s = rest"
  shows "online_rest_calibration s c = Inr ()"
  using assms calibrations_agree [of clean m _ c]
  by (auto simp: require_episode_references_def online_rest_calibration_def result_simps
      split: option.splits if_splits)

lemma references_calibrated_stream:
  assumes "require_episode_references h clean m rest = Inr ()" "c \<in> set clean"
    "ss_manifest s = m" "ss_rest_references s = rest"
  shows "validate_rest_calibration s c = Inr ()"
  using assms calibrations_agree [of clean m _ c]
  by (auto simp: require_episode_references_def validate_rest_calibration_def result_simps
      split: option.splits if_splits)

lemma resume_no_failure:
  assumes "require_resume clean m = Inr ()"
  shows "with_a2_resume_failure m report clean = Inr report"
proof (cases "fm_operator_id m = A2_frame_erasure")
  case True
  with assms obtain last where "last_erasure m = Inr last" "\<not> int (length clean) - 1 \<le> last"
    by (cases "last_erasure m") (simp_all add: require_resume_def split: if_splits)
  with True show ?thesis by (simp add: with_a2_resume_failure_def)
qed (simp add: with_a2_resume_failure_def)

lemma online_matches_runtime:
  assumes m: "manifest_ok h m" "fm_stop_index m - fm_start_index m \<le> 2 ^ 53" and rest_ok: "\<forall>b. rest = Some b \<longrightarrow> bundle_ok b"
    and h: "sha_digests h" and clean: "clean_stream h clean" "list_all (evaluation_ok h) clean"
    and init: "online_init h m rest = Inr s" and offline: "apply_fault h np clean m rest = Inr r"
  shows "\<exists>s1 s2 f. online_all h np s clean = Inr s1 \<and> online_finalize h np s1 = (s2, Inr f) \<and>
    df_clean_records f = clean \<and> df_delivered_records f = rr_records r \<and>
    df_validation f = Some (rr_validation r) \<and> df_delivered_trace_sha256 f = rr_trace_sha256 r \<and>
    df_manifest_sha256 f = Some (manifest_sha256 h m)"
proof -
  note off = apply_fault_Inr [OF offline]
  note win = manifest_ok_window [OF m(1)]
  have nonempty: "clean \<noteq> []" using off(1) win by auto
  obtain t where t: "session_init h m rest = Inr t" and s: "os_streaming s = t" "os_base s = delivery_session_init"
    "os_manifest s = m" "os_rest_references s = rest"
    and at: "online_at h m rest [] [] s"
    using init by (auto simp: online_init_def result_simps online_at_def delivery_session_init_def open_on_def)
  have tm: "ss_manifest t = m" "ss_rest_references t = rest"
    using t by (auto simp: session_init_def result_simps)
  have "validate_rest_calibration t (hd clean) = Inr ()"
    by (rule references_calibrated_stream [OF off(2) _ tm]) (use nonempty in simp)
  moreover have "dense_episode clean" using clean(1) unfolding clean_stream_def by blast
  ultimately have "replay_setup h m rest t clean"
    using m(1) t rest_ok nonempty by (cases clean) (simp_all add: replay_setup_def)
  then have stream: "map_acc (stream_step h np) t clean = Inr (rr_records r)"
    using stream_equals_batch off(4) by (simp add: stream_all_def)
  have cal: "online_rest_calibration s (hd clean) = Inr ()"
    by (rule references_calibrated [OF off(2) _ s(3,4)]) (use nonempty in simp)
  obtain s1 where s1: "online_all h np s clean = Inr s1" "online_at h m rest clean (rr_records r) s1"
    using online_all_run [OF at, of np clean "rr_records r"] stream s(1) clean(1) cal by auto
  note a = online_atD [OF s1(2)]
  let ?f = "\<lparr>df_clean_records = clean, df_delivered_records = rr_records r, df_validation = Some (rr_validation r),
      df_clean_trace_sha256 = clean_trace_hash h clean,
      df_delivered_trace_sha256 = trace_hash h (rr_records r) m, df_manifest_sha256 = Some (manifest_sha256 h m)\<rparr>"
  have conf: "all_confined h m clean (rr_records r)" using apply_operator_confined [OF off(4) m(1)] m(2) by blast
  have hashes: "validate_record_hashes h clean (rr_records r) = Inr ()"
  proof (rule validate_record_hashes_ok)
    show "list_all (clean_record h) clean" using clean(1) unfolding clean_stream_def by blast
    show "length (rr_records r) = length clean" using conf by (simp add: all_confined_def)
    fix i
    assume i: "i < length clean"
    have c: "evaluation_ok h (clean ! i)" "clean_record h (clean ! i)"
      using clean i unfolding clean_stream_def list_all_length by blast+
    have "ev_clean_record_sha256 (clean ! i) \<noteq> []"
      using c(2) canonical_nonempty [OF h] by (simp add: clean_record_def delivered_hash_def)
    with conf i c show "ev_delivered_record_sha256 (rr_records r ! i) = content_sha h (rr_records r ! i) \<and>
        ev_clean_record_sha256 (rr_records r ! i) = content_sha h (clean ! i)"
      by (auto simp: all_confined_def confined_def record_frame_def evaluation_ok_def clean_record_def)
  qed
  have "finalization_init h ?f = Inr ?f"
    using nonempty conf hashes h freeze_report validate_delivery_gate(5) [OF off(5)]
    by (simp add: finalization_init_def all_confined_def check_sha_canonical clean_trace_hash_def
        trace_hash_def fault_trace_hash_def manifest_sha256_def Let_def)
  then have "online_finalize h np s1 = (s1\<lparr>os_base := (os_base s1)\<lparr>ds_finalized := True\<rparr>\<rparr>, Inr ?f)"
    using off(5) nonempty resume_no_failure [OF off(3)]
    by (simp add: online_finalize_def a require_records_def Let_def)
  with s1(1) off(6) show ?thesis by auto
qed

end
