(* ===== verification/Delivery_Faults.thy ===== *)
theory Delivery_Faults
  imports Delivery_Life Examples
begin

text \<open>
  Every call sequence on an online session, exceptions included: what the gate keeps of the stream,
  what an exception of the streaming engine leaves behind, and the seal of a finalized session; and
  the identity session over a whole stream.
\<close>

section \<open>Reachable sessions\<close>

text \<open>The calls a client can make, whether they return or raise.\<close>

inductive online_reaches :: "hasher \<Rightarrow> numpy \<Rightarrow> online_session \<Rightarrow> online_session \<Rightarrow> bool"
  for h np s where
  reaches_refl: "online_reaches h np s s"
| reaches_deliver: "online_reaches h np s t \<Longrightarrow> online_reaches h np s (fst (online_deliver h np t r))"
| reaches_finalize: "online_reaches h np s t \<Longrightarrow> online_reaches h np s (fst (online_finalize h np t))"

declare online_reaches.intros [intro]

lemma online_reaches_invariant:
  assumes "online_reaches h np s t" "I s"
    and "\<And>u r. I u \<Longrightarrow> I (fst (online_deliver h np u r))" "\<And>u. I u \<Longrightarrow> I (fst (online_finalize h np u))"
  shows "I t"
  using assms by induction auto

text \<open>The two ways a delivery leaves the session: as it was, or with the record appended and the
  engine advanced.\<close>

lemma online_deliver_cases:
  obtains (refused) "fst (online_deliver h np s r) = s" "isl (snd (online_deliver h np s r))"
  | (accepted) base where "append_clean h (os_base s) r = Inr base" "\<not> ds_finalized (os_base s)"
      "os_base (fst (online_deliver h np s r)) =
         (case snd (deliver_one h np (os_streaming s) r) of Inl _ \<Rightarrow> base
          | Inr d \<Rightarrow> base\<lparr>ds_delivered_records := ds_delivered_records base @ [d]\<rparr>)"
      "os_streaming (fst (online_deliver h np s r)) = fst (deliver_one h np (os_streaming s) r)"
      "isl (snd (online_deliver h np s r)) = isl (snd (deliver_one h np (os_streaming s) r))"
proof (cases "bindr (require_open (os_base s)) (\<lambda>_. bindr (require_manifest_unchanged h s) (\<lambda>_.
      bindr (if ds_clean_records (os_base s) = [] then online_rest_calibration s r else Inr ()) (\<lambda>_.
      append_clean h (os_base s) r)))")
  case (Inl e)
  then show ?thesis by (intro refused) (simp_all add: online_deliver_def)
next
  case (Inr base)
  obtain t d where step: "deliver_one h np (os_streaming s) r = (t, d)" by fastforce
  from Inr have gate: "append_clean h (os_base s) r = Inr base" "\<not> ds_finalized (os_base s)"
    by (auto simp: bindr_eq_Inr require_open_def split: if_splits)
  have "online_deliver h np s r =
    (case d of Inl e \<Rightarrow> (s\<lparr>os_base := base, os_streaming := t\<rparr>, Inl e)
     | Inr current \<Rightarrow> (s\<lparr>os_base := base\<lparr>ds_delivered_records := ds_delivered_records base @ [current]\<rparr>,
         os_streaming := t\<rparr>, Inr current))"
    unfolding online_deliver_def Inr by (simp add: step split: sum.split)
  with gate step show ?thesis by (intro accepted [of base]) (simp_all split: sum.splits)
qed

lemma online_finalize_cases:
  "fst (online_finalize h np s) = s \<and> isl (snd (online_finalize h np s)) \<or>
   fst (online_finalize h np s) = s\<lparr>os_base := (os_base s)\<lparr>ds_finalized := True\<rparr>\<rparr> \<and>
   \<not> isl (snd (online_finalize h np s))"
  by (simp add: online_finalize_def Let_def split: sum.split)

section \<open>The gate keeps the stream clean\<close>

lemma append_clean_stream:
  assumes "append_clean h s r = Inr s'" "clean_stream h (ds_clean_records s)"
    and "ds_stream_identity s = (case ds_clean_records s of [] \<Rightarrow> None | r # _ \<Rightarrow> Some (identity_of r))"
  shows "clean_stream h (ds_clean_records s')"
    "ds_stream_identity s' = (case ds_clean_records s' of [] \<Rightarrow> None | r # _ \<Rightarrow> Some (identity_of r))"
proof -
  note a = append_clean_Inr [OF assms(1)]
  have id: "ds_stream_identity s' = Some (identity_of r) \<and>
      (ds_clean_records s \<noteq> [] \<longrightarrow> identity_of r = identity_of (hd (ds_clean_records s)))"
    using assms(1,3)
    by (auto simp: append_clean_def validate_clean_record_def result_simps split: if_splits option.splits list.splits)
  then show "ds_stream_identity s' = (case ds_clean_records s' of [] \<Rightarrow> None | r # _ \<Rightarrow> Some (identity_of r))"
    by (cases "ds_clean_records s") (simp_all add: a(1))
  have "dense_episode (ds_clean_records s @ [r])"
    using assms(2) a(4) by (auto simp: clean_stream_def dense_episode_def nth_append less_Suc_eq)
  moreover have "\<forall>x\<in>set (ds_clean_records s @ [r]). identity_of x = identity_of (hd (ds_clean_records s @ [r]))"
  proof (cases "ds_clean_records s")
    case (Cons y ys)
    with assms(2) id show ?thesis unfolding clean_stream_def by (metis Un_iff append_Cons empty_iff empty_set
        hd_append2 list.discI list.set_intros(1) set_ConsD set_append)
  qed simp
  ultimately show "clean_stream h (ds_clean_records s')"
    using assms(2) a(1,5) unfolding clean_stream_def by simp
qed

text \<open>The bookkeeping of a session: its stream is clean, its identity is that of the stream, and
  the engine has handled exactly the delivered records, at most as many as were accepted.\<close>

definition accounted :: "hasher \<Rightarrow> online_session \<Rightarrow> bool" where
  "accounted h s \<longleftrightarrow>
     clean_stream h (ds_clean_records (os_base s)) \<and>
     ds_stream_identity (os_base s) =
       (case ds_clean_records (os_base s) of [] \<Rightarrow> None | r # _ \<Rightarrow> Some (identity_of r)) \<and>
     int (length (ds_delivered_records (os_base s))) = ss_processed_count (os_streaming s) \<and>
     ss_processed_count (os_streaming s) \<le> int (length (ds_clean_records (os_base s)))"

lemma online_init_accounted:
  assumes "online_init h m rest = Inr s"
  shows "accounted h s"
proof -
  obtain t where t: "session_init h m rest = Inr t" "os_streaming s = t" "os_base s = delivery_session_init"
    using assms by (auto simp: online_init_def result_simps)
  have "ss_processed_count t = 0" using t(1) by (auto simp: session_init_def result_simps)
  with t(2,3) show ?thesis
    by (simp add: accounted_def delivery_session_init_def clean_stream_def dense_episode_def)
qed

lemma online_deliver_accounted:
  assumes "accounted h s"
  shows "accounted h (fst (online_deliver h np s r))"
proof (cases rule: online_deliver_cases [of h np s r])
  case refused
  with assms show ?thesis by simp
next
  case (accepted base)
  note a = append_clean_Inr [OF accepted(1)] append_clean_stream [OF accepted(1)]
  have "ss_processed_count (os_streaming (fst (online_deliver h np s r))) =
      ss_processed_count (os_streaming s) + (if isl (snd (deliver_one h np (os_streaming s) r)) then 0 else 1)"
    by (simp add: accepted(4) deliver_one_count)
  with assms a accepted(3) show ?thesis
    unfolding accounted_def by (simp split: sum.splits)
qed

lemma online_finalize_accounted: "accounted h s \<Longrightarrow> accounted h (fst (online_finalize h np s))"
  using online_finalize_cases [of h np s] by (auto simp: accounted_def)

lemma online_reaches_accounted:
  "online_reaches h np s t \<Longrightarrow> accounted h s \<Longrightarrow> accounted h t"
  by (erule online_reaches_invariant) (auto intro: online_deliver_accounted online_finalize_accounted)

section \<open>After an exception of the engine\<close>

text \<open>A stuck session has accepted a record the engine did not deliver.\<close>

definition stuck :: "online_session \<Rightarrow> bool" where
  "stuck s \<longleftrightarrow>
     int (length (ds_delivered_records (os_base s))) = ss_processed_count (os_streaming s) \<and>
     ss_processed_count (os_streaming s) < int (length (ds_clean_records (os_base s)))"

lemma stuck_deliver:
  assumes "stuck s"
  shows "stuck (fst (online_deliver h np s r))" "isl (snd (online_deliver h np s r))"
proof -
  have "stuck (fst (online_deliver h np s r)) \<and> isl (snd (online_deliver h np s r))"
  proof (cases rule: online_deliver_cases [of h np s r])
    case refused
    with assms show ?thesis by simp
  next
    case (accepted base)
    note a = append_clean_Inr [OF accepted(1)]
    have raised: "fst (deliver_one h np (os_streaming s) r) = os_streaming s \<and>
        isl (snd (deliver_one h np (os_streaming s) r))"
      using assms a(4) by (intro deliver_one_dense) (simp add: stuck_def)
    with assms a accepted(3-5) show ?thesis by (auto simp: stuck_def split: sum.splits)
  qed
  then show "stuck (fst (online_deliver h np s r))" "isl (snd (online_deliver h np s r))" by blast+
qed

lemma finalization_lengths:
  "length (df_clean_records f) \<noteq> length (df_delivered_records f) \<Longrightarrow> isl (finalization_init h f)"
  by (simp add: finalization_init_def)

lemma isl_bindr: "(\<And>x. r = Inr x \<Longrightarrow> isl (f x)) \<Longrightarrow> isl (bindr r f)"
  by (cases r) simp_all

lemma isl_case_pair: "isl r \<Longrightarrow> isl (snd (case r of Inl e \<Rightarrow> (s, Inl e) | Inr x \<Rightarrow> f x))"
  by (cases r) simp_all

lemma stuck_finalize:
  assumes "stuck s"
  shows "stuck (fst (online_finalize h np s))" "isl (snd (online_finalize h np s))"
proof -
  have len: "length (ds_clean_records (os_base s)) \<noteq> length (ds_delivered_records (os_base s))"
    using assms by (auto simp: stuck_def)
  have "isl (snd (online_finalize h np s))"
    unfolding online_finalize_def Let_def
    by (rule isl_case_pair, intro isl_bindr finalization_lengths)
       (use len in \<open>auto simp: require_records_def split: if_splits\<close>)
  with assms online_finalize_cases [of h np s]
  show "stuck (fst (online_finalize h np s))" "isl (snd (online_finalize h np s))" by auto
qed

lemma stuck_reaches: "online_reaches h np s t \<Longrightarrow> stuck s \<Longrightarrow> stuck t"
  by (erule online_reaches_invariant) (auto intro: stuck_deliver stuck_finalize)

text \<open>A delivery that raises after its record was accepted gets a session stuck.\<close>

lemma raised_stuck:
  assumes "accounted h s" "isl (snd (online_deliver h np s r))"
    and "ds_clean_records (os_base (fst (online_deliver h np s r))) \<noteq> ds_clean_records (os_base s)"
  shows "stuck (fst (online_deliver h np s r))"
proof (cases rule: online_deliver_cases [of h np s r])
  case refused
  with assms(3) show ?thesis by simp
next
  case (accepted base)
  note a = append_clean_Inr [OF accepted(1)]
  from assms(2) accepted(5) have "isl (snd (deliver_one h np (os_streaming s) r))" by simp
  then have "ss_processed_count (os_streaming (fst (online_deliver h np s r))) = ss_processed_count (os_streaming s)"
    "os_base (fst (online_deliver h np s r)) = base"
    using accepted(3,4) deliver_one_count [of h np "os_streaming s" r] by (auto split: sum.splits)
  with assms(1) a show ?thesis by (simp add: stuck_def accounted_def)
qed

section \<open>The seal\<close>

lemma sealed_deliver: "ds_finalized (os_base s) \<Longrightarrow>
    online_deliver h np s r = (s, Inl (ValueError ''delivery session has already been finalized''))"
  by (simp add: online_deliver_def require_open_def)

lemma sealed_finalize: "ds_finalized (os_base s) \<Longrightarrow>
    online_finalize h np s = (s, Inl (ValueError ''delivery session has already been finalized''))"
  by (simp add: online_finalize_def require_open_def)

lemma sealed_reaches: "online_reaches h np s t \<Longrightarrow> ds_finalized (os_base s) \<Longrightarrow> t = s"
  by (induction rule: online_reaches.induct) (simp_all add: sealed_deliver sealed_finalize)

section \<open>The identity session\<close>

lemma sealed_identity: "ds_finalized s \<Longrightarrow>
    identity_deliver h s r = (s, Inl (ValueError ''delivery session has already been finalized'')) \<and>
    identity_finalize h s = (s, Inl (ValueError ''delivery session has already been finalized''))"
  by (simp add: identity_deliver_def identity_finalize_def require_open_def)

definition identity_step :: "hasher \<Rightarrow> delivery_session \<Rightarrow> evaluation \<Rightarrow> delivery_session result" where
  "identity_step h s r = (case identity_deliver h s r of (s', Inl e) \<Rightarrow> Inl e | (s', Inr d) \<Rightarrow> Inr s')"

definition identity_all :: "hasher \<Rightarrow> delivery_session \<Rightarrow> evaluation list \<Rightarrow> delivery_session result" where
  "identity_all h s rs = foldr_res (identity_step h) s rs"

lemma identity_deliver_accepts:
  assumes "open_on s clean" "clean_record h r" "step_of r = int (length clean)"
    and "clean \<noteq> [] \<Longrightarrow> identity_of r = identity_of (hd clean)"
  shows "\<exists>s'. identity_deliver h s r = (s', Inr r) \<and> open_on s' (clean @ [r]) \<and>
    ds_delivered_records s' = ds_delivered_records s @ [r]"
proof -
  from append_clean_accepts [OF assms] obtain s' where s': "append_clean h s r = Inr s'"
    "open_on s' (clean @ [r])" "ds_delivered_records s' = ds_delivered_records s" by blast
  with assms(1) show ?thesis by (simp add: identity_deliver_def open_on_def require_open_def)
qed

lemma identity_all_run:
  assumes "open_on s clean" "ds_delivered_records s = clean" "clean_stream h (clean @ rs)"
  shows "\<exists>s'. identity_all h s rs = Inr s' \<and> open_on s' (clean @ rs) \<and> ds_delivered_records s' = clean @ rs"
  using assms
proof (induction rs arbitrary: clean s)
  case Nil
  then show ?case by (simp add: identity_all_def)
next
  case (Cons r rs)
  have "step_of ((clean @ r # rs) ! length clean) = int (length clean)"
    using Cons.prems(3) unfolding clean_stream_def dense_episode_def by (metis length_append less_add_same_cancel1
        length_greater_0_conv list.discI)
  moreover have "clean_record h r" using Cons.prems(3) unfolding clean_stream_def by simp
  moreover have "clean \<noteq> [] \<Longrightarrow> identity_of r = identity_of (hd clean)"
    using Cons.prems(3) unfolding clean_stream_def by (metis Un_iff hd_append2 list.set_intros(1) set_append)
  ultimately obtain s' where s': "identity_deliver h s r = (s', Inr r)" "open_on s' (clean @ [r])"
    "ds_delivered_records s' = clean @ [r]"
    using identity_deliver_accepts [OF Cons.prems(1), of h r] Cons.prems(2) by auto
  from Cons.IH [OF s'(2,3)] Cons.prems(3) s'(1) show ?case
    by (simp add: identity_all_def identity_step_def)
qed

lemma identity_session_returns:
  assumes "sha_digests h" "clean_stream h clean" "clean \<noteq> []"
  shows "\<exists>s1 s2 f. identity_all h delivery_session_init clean = Inr s1 \<and>
    identity_finalize h s1 = (s2, Inr f) \<and> ds_finalized s2 \<and>
    df_clean_records f = clean \<and> df_delivered_records f = clean \<and> df_validation f = None \<and>
    df_clean_trace_sha256 f = df_delivered_trace_sha256 f"
proof -
  obtain s where s: "identity_all h delivery_session_init clean = Inr s" "open_on s clean"
    "ds_delivered_records s = clean"
    using identity_all_run [OF open_init, of h clean] assms(2) by (auto simp: delivery_session_init_def)
  have records: "list_all (clean_record h) clean" using assms(2) unfolding clean_stream_def by blast
  have "validate_record_hashes h clean clean = Inr ()"
    by (rule validate_record_hashes_ok [OF records])
       (use records in \<open>simp_all add: list_all_length clean_record_def\<close>)
  moreover have "same_records h clean clean"
    by (auto simp: same_records_def list_all_iff in_set_zip)
  ultimately have "finalization_init h
      \<lparr>df_clean_records = clean, df_delivered_records = clean, df_validation = None,
       df_clean_trace_sha256 = clean_trace_hash h clean, df_delivered_trace_sha256 = clean_trace_hash h clean,
       df_manifest_sha256 = None\<rparr> =
    Inr \<lparr>df_clean_records = clean, df_delivered_records = clean, df_validation = None,
       df_clean_trace_sha256 = clean_trace_hash h clean, df_delivered_trace_sha256 = clean_trace_hash h clean,
       df_manifest_sha256 = None\<rparr>" (is "_ = Inr ?f")
    using assms(1,3) by (simp add: finalization_init_def check_sha_canonical clean_trace_hash_def Let_def)
  then have "identity_finalize h s = (s\<lparr>ds_finalized := True\<rparr>, Inr ?f)"
    using s(2,3) assms(3) by (simp add: identity_finalize_def open_on_def require_open_def require_records_def)
  with s(1) show ?thesis by auto
qed

end
