(* ===== verification/Delivery_Examples.thy ===== *)
theory Delivery_Examples
  imports Delivery_Faults Delivery_Acceptance
begin

text \<open>Concrete sessions for the properties of online delivery.\<close>

section \<open>The demonstration episode as a clean stream\<close>

lemma demo_identity: "k < 2 ^ 53 \<Longrightarrow> identity_of (demo_record k) = identity_of (demo_record 0)"
  by (simp add: demo_record_eq identity_of_def demo_observation_def demo_sensor_def demo_provenance_def Let_def)

lemma demo_set: "r \<in> set demo_episode \<Longrightarrow> \<exists>k < 4. r = demo_record k"
  by (auto simp: demo_episode_def)

lemma demo_stream:
  assumes "\<And>k. k < 4 \<Longrightarrow> content_sha h (demo_record k) = demo_sha"
  shows "clean_stream h demo_episode"
proof -
  have "clean_record h r \<and> identity_of r = identity_of (hd demo_episode)" if r: "r \<in> set demo_episode" for r
  proof -
    obtain k where k: "k < 4" "r = demo_record k" using demo_set [OF r] by blast
    then have "k < 2 ^ 53" by simp
    with assms [OF k(1)] have "clean_record h r"
      unfolding k(2) by (simp add: clean_record_def demo_record_eq demo_provenance_def)
    with demo_identity [OF \<open>k < 2 ^ 53\<close>] show ?thesis unfolding demo_hd k(2) by blast
  qed
  then show ?thesis using demo_dense unfolding clean_stream_def list_all_iff by blast
qed

lemma demo_clean_stream: "clean_stream demo_hasher demo_episode"
  by (rule demo_stream) simp

lemma marked_clean_stream: "clean_stream (marking_hasher A1_stream_absence) demo_episode"
  by (rule demo_stream) (simp add: demo_record_eq marked_demo)

lemma demo_digests: "sha_digests demo_hasher" "sha_digests (marking_hasher op)"
proof -
  have f: "is_sha256 (replicate 64 (CHR ''f''))" by code_simp
  show "sha_digests demo_hasher" "sha_digests (marking_hasher op)"
    by (simp_all add: sha_digests_def demo_hasher_def marking_hasher_def f)
qed

section \<open>A faulted run\<close>

lemma marked_runtime:
  "\<exists>r. apply_fault (marking_hasher A1_stream_absence) demo_numpy demo_episode
     (marked_manifest A1_stream_absence) None = Inr r"
proof -
  let ?h = "marking_hasher A1_stream_absence" and ?m = "marked_manifest A1_stream_absence"
  note m = marked_manifest_A1
  obtain out where out: "apply_operator ?h demo_numpy A1_stream_absence demo_episode ?m None = Inr out"
    using absence_total [OF clean_episode_valid [OF marked_clean], of ?m "[1]"]
      absence_schedule_run [OF m(1), of demo_numpy demo_episode None] m
    by (auto simp: SENSOR_SLOTS_def)
  obtain report where "validate_delivery ?h demo_numpy demo_episode out ?m None = Inr report"
    using absence_accepted [OF m(1) _ _ marked_clean, of demo_numpy None out] marked_affected [OF out] out m
    by auto
  moreover have "require_episode_references ?h demo_episode ?m None = Inr ()" "require_resume demo_episode ?m = Inr ()"
    using m(2) by (simp_all add: require_episode_references_def require_resume_def REST_REFERENCE_OPERATOR_IDS_def)
  ultimately show ?thesis using out m(2,4)
    by (simp add: apply_fault_def registry_loaded registry_create del: operator_name.simps)
qed

lemma marked_online: "\<exists>s. online_init (marking_hasher A1_stream_absence) (marked_manifest A1_stream_absence) None = Inr s"
proof -
  have "\<not> isl (online_init (marking_hasher A1_stream_absence) (marked_manifest A1_stream_absence) None)"
    by code_simp
  then show ?thesis by (metis sum.collapse(2))
qed

section \<open>A stream in which both sensors drop out\<close>

definition dark_record :: "nat \<Rightarrow> evaluation" where
  "dark_record k =
     (let dark = (\<lambda>s. s\<lparr>so_payload := None, so_payload_present := False, so_visible_source_time_s := None\<rparr>);
          lost = (\<lambda>p. p\<lparr>pv_source_index := None, pv_source_time_s := None, pv_payload_sha256 := None\<rparr>)
      in \<lparr>ev_observation = (demo_observation k)\<lparr>ob_tactile := map dark (ob_tactile (demo_observation k))\<rparr>,
          ev_provenance = map lost [demo_provenance ''left'' 20 k, demo_provenance ''right'' 90 k],
          ev_clean_record_sha256 = demo_sha, ev_delivered_record_sha256 = demo_sha\<rparr>)"

definition dark_session :: "nat \<Rightarrow> online_session" where
  "dark_session k =
     (let m = demo_manifest F1_global_response_drift 1 BLIND rest_args;
          s = projr (online_init demo_hasher m (Some demo_bundle))
      in if k = 0 then s else fst (online_deliver demo_hasher demo_numpy s (dark_record 0)))"

lemma dark_init:
  "\<not> isl (online_init demo_hasher (demo_manifest F1_global_response_drift 1 BLIND rest_args) (Some demo_bundle))"
  by code_simp

lemma dark_run:
  "isl (snd (online_deliver demo_hasher demo_numpy (dark_session 1) (dark_record 1)))"
  "length (ds_clean_records (os_base (dark_session 1))) = 1"
  "length (ds_clean_records (os_base (fst (online_deliver demo_hasher demo_numpy (dark_session 1) (dark_record 1))))) = 2"
  by code_simp+

end
