(* ===== verification/Trials.thy ===== *)
theory Trials
  imports References
begin

text \<open>
  Paired trials (\<open>trials.py\<close>): the four conditions, the trial manifest with its constructor checks
  in the order of the code, its JSON form, and the grid of four cells built from one clean trial
  and a persistent and a restored fault.
\<close>

section \<open>Enumerations\<close>

datatype condition = CLEAN | FAULTED | NO_TOUCH | RESTORED

fun condition_value :: "condition \<Rightarrow> string" where
  "condition_value CLEAN = ''clean''"
| "condition_value FAULTED = ''faulted''"
| "condition_value NO_TOUCH = ''no_touch''"
| "condition_value RESTORED = ''restored''"

definition condition_of :: "string \<Rightarrow> condition result" where
  "condition_of s =
     (case find (\<lambda>c. condition_value c = s) [CLEAN, FAULTED, NO_TOUCH, RESTORED] of
        None \<Rightarrow> Inl (ValueError ''is not a valid Condition'') | Some c \<Rightarrow> Inr c)"

datatype restoration_mode = VALID_STREAM_RESUME | MAINTENANCE_OR_REPLACEMENT

fun restoration_value :: "restoration_mode \<Rightarrow> string" where
  "restoration_value VALID_STREAM_RESUME = ''valid_stream_resume''"
| "restoration_value MAINTENANCE_OR_REPLACEMENT = ''maintenance_or_replacement''"

definition restoration_of :: "string \<Rightarrow> restoration_mode result" where
  "restoration_of s =
     (case find (\<lambda>c. restoration_value c = s) [VALID_STREAM_RESUME, MAINTENANCE_OR_REPLACEMENT] of
        None \<Rightarrow> Inl (ValueError ''is not a valid RestorationMode'') | Some c \<Rightarrow> Inr c)"

datatype terminal_status =
  SUCCESS | TASK_FAILURE | EARLY_STOP | TIMEOUT | CRASH | VALIDATOR_REJECTED | UNSUPPORTED_CONTRACT

fun terminal_value :: "terminal_status \<Rightarrow> string" where
  "terminal_value SUCCESS = ''success''"
| "terminal_value TASK_FAILURE = ''task_failure''"
| "terminal_value EARLY_STOP = ''early_stop''"
| "terminal_value TIMEOUT = ''timeout''"
| "terminal_value CRASH = ''crash''"
| "terminal_value VALIDATOR_REJECTED = ''validator_rejected''"
| "terminal_value UNSUPPORTED_CONTRACT = ''unsupported_contract''"

definition TERMINAL_STATUSES :: "terminal_status list" where
  "TERMINAL_STATUSES =
     [SUCCESS, TASK_FAILURE, EARLY_STOP, TIMEOUT, CRASH, VALIDATOR_REJECTED, UNSUPPORTED_CONTRACT]"

definition terminal_of :: "string \<Rightarrow> terminal_status result" where
  "terminal_of s =
     (case find (\<lambda>c. terminal_value c = s) TERMINAL_STATUSES of
        None \<Rightarrow> Inl (ValueError ''is not a valid TerminalStatus'') | Some c \<Rightarrow> Inr c)"

lemma condition_of_value [simp]: "condition_of (condition_value c) = Inr c"
  by (cases c) (simp_all add: condition_of_def)

lemma restoration_of_value [simp]: "restoration_of (restoration_value c) = Inr c"
  by (cases c) (simp_all add: restoration_of_def)

lemma terminal_of_value [simp]: "terminal_of (terminal_value c) = Inr c"
  by (cases c) (simp_all add: terminal_of_def TERMINAL_STATUSES_def)

lemma terminal_value_inj [simp]: "terminal_value a = terminal_value b \<longleftrightarrow> a = b"
  by (metis terminal_of_value sum.inject(2))

section \<open>The trial manifest\<close>

definition system_manifest_hash :: "hasher \<Rightarrow> string \<Rightarrow> string \<Rightarrow> string \<Rightarrow> string \<Rightarrow> string" where
  "system_manifest_hash h system_id checkpoint config spec =
     canonical_hash h
       (PDict [(''system_id'', PStr system_id), (''checkpoint_sha256'', PStr checkpoint),
               (''config_sha256'', PStr config), (''action_spec'', PStr spec)])"

record trial_manifest =
  tm_task :: string
  tm_initial_seed :: int
  tm_exogenous_seed :: int
  tm_condition :: condition
  tm_base_system_id :: string
  tm_executed_system_id :: string
  tm_dataset_sha256 :: string
  tm_base_system_manifest_sha256 :: string
  tm_checkpoint_sha256 :: string
  tm_config_sha256 :: string
  tm_action_spec :: string
  tm_fault_manifest_sha256 :: "string option"
  tm_matched_no_touch_system_id :: "string option"
  tm_restoration_index :: "int option"
  tm_restoration_mode :: "restoration_mode option"
  tm_semantic_version :: string

text \<open>The constructor: what is left to check once the fields have their types.\<close>

definition check_faulted :: "trial_manifest \<Rightarrow> unit result" where
  "check_faulted t =
     (if tm_condition t = CLEAN \<and> tm_fault_manifest_sha256 t \<noteq> None
      then Inl (ValueError ''clean condition cannot reference a fault manifest'')
      else if tm_condition t = CLEAN \<and> tm_executed_system_id t \<noteq> tm_base_system_id t
      then Inl (ValueError ''clean condition must execute the base system'')
      else if tm_condition t \<in> {FAULTED, RESTORED} \<and> tm_fault_manifest_sha256 t = None
      then Inl (ValueError ''faulted/restored condition requires a fault manifest'')
      else if tm_condition t \<in> {FAULTED, RESTORED} \<and> tm_executed_system_id t \<noteq> tm_base_system_id t
      then Inl (ValueError ''faulted/restored must execute the base system'')
      else Inr ())"

definition check_restoration :: "trial_manifest \<Rightarrow> unit result" where
  "check_restoration t =
     (if tm_condition t = RESTORED
      then (case tm_restoration_index t of
              None \<Rightarrow> Inl (ValueError ''restored condition requires a restoration index'')
            | Some i \<Rightarrow>
                if i < 0 then Inl (ValueError ''restored condition requires a restoration index'')
                else if tm_restoration_mode t = None
                then Inl (ValueError ''restored condition requires a restoration mode'')
                else Inr ())
      else if tm_restoration_index t \<noteq> None \<or> tm_restoration_mode t \<noteq> None
      then Inl (ValueError ''restoration metadata is only valid for restored trials'')
      else Inr ())"

definition check_no_touch :: "trial_manifest \<Rightarrow> unit result" where
  "check_no_touch t =
     (if tm_condition t = NO_TOUCH
      then (case tm_matched_no_touch_system_id t of
              None \<Rightarrow> Inl (ValueError ''no-touch condition requires a matched no-touch system'')
            | Some s \<Rightarrow>
                if s = [] then Inl (ValueError ''no-touch condition requires a matched no-touch system'')
                else if tm_executed_system_id t \<noteq> s
                then Inl (ValueError ''no-touch executed system must equal its matched control'')
                else if tm_fault_manifest_sha256 t \<noteq> None
                then Inl (ValueError ''no-touch condition cannot reference a fault manifest'')
                else Inr ())
      else if tm_matched_no_touch_system_id t \<noteq> None
      then Inl (ValueError ''matched no-touch ID is only valid for no-touch trials'')
      else Inr ())"

definition trial_init :: "hasher \<Rightarrow> trial_manifest \<Rightarrow> trial_manifest result" where
  "trial_init h t =
     (if tm_initial_seed t < 0 \<or> tm_exogenous_seed t < 0
      then Inl (ValueError ''trial seeds must be non-negative'')
      else if tm_semantic_version t \<noteq> ''1.0''
      then Inl (ValueError ''unsupported trial-manifest semantic version'')
      else if tm_task t = [] \<or> tm_base_system_id t = [] \<or> tm_executed_system_id t = [] \<or> tm_action_spec t = []
      then Inl (ValueError ''must be non-empty'')
      else bindr (check_sha (tm_dataset_sha256 t)) (\<lambda>_.
           bindr (check_sha (tm_base_system_manifest_sha256 t)) (\<lambda>_.
           bindr (check_sha (tm_checkpoint_sha256 t)) (\<lambda>_.
           bindr (check_sha (tm_config_sha256 t)) (\<lambda>_.
           if tm_action_spec t \<noteq> ''qpos8_next_step''
           then Inl (ValueError ''trial action spec must be qpos8_next_step'')
           else if tm_condition t \<noteq> NO_TOUCH \<and> tm_base_system_manifest_sha256 t \<noteq>
                   system_manifest_hash h (tm_base_system_id t) (tm_checkpoint_sha256 t) (tm_config_sha256 t)
                     (tm_action_spec t)
           then Inl (ValueError ''base system manifest does not match checkpoint/config identity'')
           else bindr (case tm_fault_manifest_sha256 t of None \<Rightarrow> Inr () | Some s \<Rightarrow> check_sha s) (\<lambda>_.
                bindr (check_faulted t) (\<lambda>_.
                bindr (check_restoration t) (\<lambda>_.
                bindr (check_no_touch t) (\<lambda>_. Inr t)))))))))"

text \<open>\<open>pair_key\<close>: the fields the four conditions of a pair share.\<close>

definition pair_key :: "hasher \<Rightarrow> trial_manifest \<Rightarrow> string" where
  "pair_key h t =
     canonical_hash h
       (PDict [(''task'', PStr (tm_task t)), (''initial_seed'', PInt (tm_initial_seed t)),
               (''exogenous_seed'', PInt (tm_exogenous_seed t)),
               (''base_system_id'', PStr (tm_base_system_id t)),
               (''dataset_sha256'', PStr (tm_dataset_sha256 t)),
               (''base_system_manifest_sha256'', PStr (tm_base_system_manifest_sha256 t)),
               (''action_spec'', PStr (tm_action_spec t))])"

abbreviation opt_str :: "string option \<Rightarrow> pyval" where
  "opt_str \<equiv> opt_value PStr"

definition trial_to_dict :: "trial_manifest \<Rightarrow> params" where
  "trial_to_dict t =
     [(''task'', PStr (tm_task t)),
      (''initial_seed'', PInt (tm_initial_seed t)),
      (''exogenous_seed'', PInt (tm_exogenous_seed t)),
      (''condition'', PStr (condition_value (tm_condition t))),
      (''base_system_id'', PStr (tm_base_system_id t)),
      (''executed_system_id'', PStr (tm_executed_system_id t)),
      (''dataset_sha256'', PStr (tm_dataset_sha256 t)),
      (''base_system_manifest_sha256'', PStr (tm_base_system_manifest_sha256 t)),
      (''checkpoint_sha256'', PStr (tm_checkpoint_sha256 t)),
      (''config_sha256'', PStr (tm_config_sha256 t)),
      (''action_spec'', PStr (tm_action_spec t)),
      (''fault_manifest_sha256'', opt_str (tm_fault_manifest_sha256 t)),
      (''matched_no_touch_system_id'', opt_str (tm_matched_no_touch_system_id t)),
      (''restoration_index'', opt_value PInt (tm_restoration_index t)),
      (''restoration_mode'', opt_value (\<lambda>r. PStr (restoration_value r)) (tm_restoration_mode t)),
      (''semantic_version'', PStr (tm_semantic_version t))]"

text \<open>\<open>canonical_hash(self)\<close>: a dataclass is hashed by its fields, which have the JSON form above.\<close>

definition trial_sha256 :: "hasher \<Rightarrow> trial_manifest \<Rightarrow> string" where
  "trial_sha256 h t = canonical_hash h (PDict (trial_to_dict t))"

definition TRIAL_FIELDS :: "string list" where
  "TRIAL_FIELDS =
     [''task'', ''initial_seed'', ''exogenous_seed'', ''condition'', ''base_system_id'',
      ''executed_system_id'', ''dataset_sha256'', ''base_system_manifest_sha256'',
      ''checkpoint_sha256'', ''config_sha256'', ''action_spec'', ''fault_manifest_sha256'',
      ''matched_no_touch_system_id'', ''restoration_index'', ''restoration_mode'', ''semantic_version'']"

fun optional_string :: "pyval \<Rightarrow> string option result" where
  "optional_string PNone = Inr None"
| "optional_string (PStr s) = Inr (Some s)"
| "optional_string v = Inl (TypeError ''must be a string or null'')"

definition trial_from_dict :: "hasher \<Rightarrow> params \<Rightarrow> trial_manifest result" where
  "trial_from_dict h d =
     (if set (map fst d) \<noteq> set TRIAL_FIELDS
      then Inl (ValueError ''trial manifest fields mismatch'')
      else bindr (optional_string (dget d ''fault_manifest_sha256'')) (\<lambda>fault.
        bindr (optional_string (dget d ''matched_no_touch_system_id'')) (\<lambda>no_touch.
        bindr (optional_string (dget d ''restoration_mode'')) (\<lambda>mode.
        bindr (strict_string (dget d ''task'')) (\<lambda>task.
        bindr (strict_integer (dget d ''initial_seed'')) (\<lambda>initial_seed.
        bindr (strict_integer (dget d ''exogenous_seed'')) (\<lambda>exogenous_seed.
        bindr (bindr (strict_string (dget d ''condition'')) condition_of) (\<lambda>condition.
        bindr (strict_string (dget d ''base_system_id'')) (\<lambda>base.
        bindr (strict_string (dget d ''executed_system_id'')) (\<lambda>executed.
        bindr (strict_string (dget d ''dataset_sha256'')) (\<lambda>dataset.
        bindr (strict_string (dget d ''base_system_manifest_sha256'')) (\<lambda>base_sha.
        bindr (strict_string (dget d ''checkpoint_sha256'')) (\<lambda>checkpoint.
        bindr (strict_string (dget d ''config_sha256'')) (\<lambda>config.
        bindr (strict_string (dget d ''action_spec'')) (\<lambda>spec.
        bindr (case dget d ''restoration_index'' of PNone \<Rightarrow> Inr None
               | v \<Rightarrow> bindr (strict_integer v) (\<lambda>i. Inr (Some i))) (\<lambda>restoration_index.
        bindr (case mode of None \<Rightarrow> Inr None
               | Some s \<Rightarrow> bindr (restoration_of s) (\<lambda>r. Inr (Some r))) (\<lambda>restoration_mode.
        bindr (strict_string (dget d ''semantic_version'')) (\<lambda>semver.
        trial_init h
          \<lparr>tm_task = task, tm_initial_seed = initial_seed, tm_exogenous_seed = exogenous_seed,
           tm_condition = condition, tm_base_system_id = base, tm_executed_system_id = executed,
           tm_dataset_sha256 = dataset, tm_base_system_manifest_sha256 = base_sha,
           tm_checkpoint_sha256 = checkpoint, tm_config_sha256 = config, tm_action_spec = spec,
           tm_fault_manifest_sha256 = fault, tm_matched_no_touch_system_id = no_touch,
           tm_restoration_index = restoration_index, tm_restoration_mode = restoration_mode,
           tm_semantic_version = semver\<rparr>))))))))))))))))))"

section \<open>The paired grid\<close>

text \<open>The fields in which the persistent and the restored fault have to agree.\<close>

definition same_instance :: "fault_manifest \<Rightarrow> fault_manifest \<Rightarrow> bool" where
  "same_instance a b \<longleftrightarrow>
     fm_operator_id a = fm_operator_id b \<and> fm_severity_level a = fm_severity_level b \<and>
     fm_operator_seed a = fm_operator_seed b \<and> fm_start_index a = fm_start_index b \<and>
     fm_sensor_slots a = fm_sensor_slots b \<and> fm_observability a = fm_observability b \<and>
     fm_semantic_version a = fm_semantic_version b \<and>
     fm_implementation_version a = fm_implementation_version b \<and>
     fm_severity_registry a = fm_severity_registry b"

definition build_paired_trial_grid ::
    "hasher \<Rightarrow> trial_manifest \<Rightarrow> fault_manifest \<Rightarrow> fault_manifest \<Rightarrow> int \<Rightarrow> restoration_mode \<Rightarrow>
     string \<Rightarrow> string \<Rightarrow> string \<Rightarrow> (trial_manifest \<times> trial_manifest \<times> trial_manifest \<times> trial_manifest) result" where
  "build_paired_trial_grid h clean fault restore index mode no_touch_id no_touch_checkpoint no_touch_config =
     (if tm_condition clean \<noteq> CLEAN then Inl (ValueError ''paired grid must start from a clean trial'')
      else if \<not> same_instance fault restore
      then Inl (ValueError ''faulted/restored manifests must differ only at stop_index'')
      else if \<not> py_eq (PDict (static_parameter_view (fm_parameters fault)))
                      (PDict (static_parameter_view (fm_parameters restore)))
      then Inl (ValueError ''faulted/restored manifests must share one operator instance'')
      else if fm_stop_index restore \<noteq> index
      then Inl (ValueError ''restoration index must equal the restored manifest stop'')
      else if fm_stop_index fault \<le> index
      then Inl (ValueError ''faulted manifest must persist beyond restoration index'')
      else bindr (trial_init h (clean\<lparr>tm_condition := FAULTED,
                    tm_fault_manifest_sha256 := Some (manifest_sha256 h fault)\<rparr>)) (\<lambda>faulted.
           bindr (trial_init h (clean\<lparr>tm_condition := NO_TOUCH, tm_executed_system_id := no_touch_id,
                    tm_checkpoint_sha256 := no_touch_checkpoint, tm_config_sha256 := no_touch_config,
                    tm_matched_no_touch_system_id := Some no_touch_id\<rparr>)) (\<lambda>no_touch.
           bindr (trial_init h (clean\<lparr>tm_condition := RESTORED,
                    tm_fault_manifest_sha256 := Some (manifest_sha256 h restore),
                    tm_restoration_index := Some index, tm_restoration_mode := Some mode\<rparr>)) (\<lambda>restored.
           Inr (clean, faulted, no_touch, restored)))))"

section \<open>Valid trials\<close>

definition trial_ok :: "hasher \<Rightarrow> trial_manifest \<Rightarrow> bool" where
  "trial_ok h t \<longleftrightarrow> trial_init h t = Inr t"

lemma check_sha_Inr [simp]: "check_sha s = Inr u \<longleftrightarrow> is_sha256 s"
  by (simp add: check_sha_def)

lemma check_sha_ok [simp]: "is_sha256 s \<Longrightarrow> check_sha s = Inr ()"
  by (simp add: check_sha_def)

lemma trial_init_id: "trial_init h t = Inr u \<Longrightarrow> u = t"
  unfolding trial_init_def by (simp add: result_simps split: if_splits)

lemma trial_init_ok [inv_intros]: "trial_init h t = Inr u \<Longrightarrow> trial_ok h u"
  using trial_init_id by (force simp: trial_ok_def)

lemma trial_ok_fields:
  assumes "trial_ok h t"
  shows "is_sha256 (tm_dataset_sha256 t)" "is_sha256 (tm_base_system_manifest_sha256 t)"
    "is_sha256 (tm_checkpoint_sha256 t)" "is_sha256 (tm_config_sha256 t)"
    "0 \<le> tm_initial_seed t" "0 \<le> tm_exogenous_seed t" "tm_task t \<noteq> []" "tm_base_system_id t \<noteq> []"
    "tm_executed_system_id t \<noteq> []"
    "tm_action_spec t = ''qpos8_next_step''" "tm_semantic_version t = ''1.0''"
    "check_faulted t = Inr ()" "check_restoration t = Inr ()" "check_no_touch t = Inr ()"
    "tm_condition t \<noteq> NO_TOUCH \<Longrightarrow> tm_base_system_manifest_sha256 t =
       system_manifest_hash h (tm_base_system_id t) (tm_checkpoint_sha256 t) (tm_config_sha256 t) (tm_action_spec t)"
  using assms unfolding trial_ok_def trial_init_def by (simp_all add: result_simps split: if_splits)

lemma trial_dict_fields: "set (map fst (trial_to_dict t)) = set TRIAL_FIELDS"
  by (simp add: trial_to_dict_def TRIAL_FIELDS_def)

lemma optional_string_opt [simp]: "optional_string (opt_str s) = Inr s"
  by (cases s) (simp_all add: opt_value_def)

lemma trial_reload: "trial_from_dict h (trial_to_dict t) = trial_init h t"
proof -
  have i: "(case opt_value PInt i of PNone \<Rightarrow> Inr None
      | v \<Rightarrow> bindr (strict_integer v) (\<lambda>i. Inr (Some i))) = Inr i" for i
    by (cases i) (simp_all add: opt_value_def)
  have n: "(case mode of None \<Rightarrow> Inr None
      | Some x \<Rightarrow> ((\<lambda>s. bindr (restoration_of s) (\<lambda>r. Inr (Some r))) \<circ> restoration_value) x) = Inr mode" for mode
    by (cases mode) simp_all
  have m: "optional_string (opt_value (\<lambda>r. PStr (restoration_value r)) mode) = Inr (map_option restoration_value mode)" for mode
    by (cases mode) (simp_all add: opt_value_def)
  show ?thesis
    unfolding trial_from_dict_def trial_dict_fields
    by (cases t) (simp add: trial_to_dict_def dget_def i m n)
qed

section \<open>The four cells of a grid\<close>

lemma faulted_cell:
  assumes "trial_ok h clean" "tm_condition clean = CLEAN" "is_sha256 sha"
  shows "trial_ok h (clean\<lparr>tm_condition := FAULTED, tm_fault_manifest_sha256 := Some sha\<rparr>)"
  using trial_ok_fields [OF assms(1)] assms(2,3)
  unfolding trial_ok_def trial_init_def
  by (simp add: check_faulted_def check_restoration_def check_no_touch_def split: if_splits option.splits)

lemma restored_cell:
  assumes "trial_ok h clean" "tm_condition clean = CLEAN" "is_sha256 sha" "0 \<le> index"
  shows "trial_ok h (clean\<lparr>tm_condition := RESTORED, tm_fault_manifest_sha256 := Some sha,
    tm_restoration_index := Some index, tm_restoration_mode := Some mode\<rparr>)"
  using trial_ok_fields [OF assms(1)] assms(2-)
  unfolding trial_ok_def trial_init_def
  by (simp add: check_faulted_def check_restoration_def check_no_touch_def split: if_splits option.splits)

lemma no_touch_cell:
  assumes "trial_ok h clean" "tm_condition clean = CLEAN"
  shows "trial_ok h (clean\<lparr>tm_condition := NO_TOUCH, tm_executed_system_id := sys,
      tm_checkpoint_sha256 := ckpt, tm_config_sha256 := cfg, tm_matched_no_touch_system_id := Some sys\<rparr>) \<longleftrightarrow>
    sys \<noteq> [] \<and> is_sha256 ckpt \<and> is_sha256 cfg"
  using trial_ok_fields [OF assms(1)] assms(2)
  unfolding trial_ok_def trial_init_def
  by (auto simp: check_faulted_def check_restoration_def check_no_touch_def result_simps split: if_splits option.splits)

end
