(* ===== verification/Loop_Contracts.thy ===== *)
theory Loop_Contracts
  imports Trials Numpy
begin

text \<open>
  The contracts of closed-loop execution (\<open>closed_loop/contracts.py\<close>): the run budget, the context
  and identity of a policy, action plans, reset receipts, the transitions and batches a backend
  returns, and what a policy is told of an execution.  Each constructor returns the frozen object
  or the exception it raises.
\<close>

section \<open>Field checks\<close>

definition ACTION_SPEC :: string where
  "ACTION_SPEC = ''qpos8_next_step''"

definition LOOP_SEMANTIC_VERSION :: string where
  "LOOP_SEMANTIC_VERSION = ''1.0''"

definition require_nonempty :: "string \<Rightarrow> unit result" where
  "require_nonempty s = (if s = [] then Inl (ValueError ''must be non-empty'') else Inr ())"

definition require_nonnegative :: "int \<Rightarrow> unit result" where
  "require_nonnegative i = (if i < 0 then Inl (ValueError ''must be non-negative'') else Inr ())"

definition require_positive :: "int \<Rightarrow> unit result" where
  "require_positive i =
     bindr (require_nonnegative i) (\<lambda>_. if i = 0 then Inl (ValueError ''must be positive'') else Inr ())"

definition require_positive_real :: "rat \<Rightarrow> unit result" where
  "require_positive_real x = (if x \<le> 0 then Inl (ValueError ''must be positive'') else Inr ())"

definition require_action_spec :: "string \<Rightarrow> unit result" where
  "require_action_spec s =
     bindr (require_nonempty s) (\<lambda>_.
     if s \<noteq> ACTION_SPEC then Inl (ValueError ''action_spec must be qpos8_next_step'') else Inr ())"

text \<open>The dtypes below \<open>np.floating\<close>.\<close>

definition FLOATING_DTYPES :: "string list" where
  "FLOATING_DTYPES = [''float16'', ''float32'', ''float64'', ''float128'']"

definition freeze_action_array :: "numpy \<Rightarrow> ndarray \<Rightarrow> ndarray result" where
  "freeze_action_array np value =
     (if nd_dtype value \<notin> set FLOATING_DTYPES
      then Inl (TypeError ''must already have a floating dtype'')
      else let frozen = np_astype np value ''float32'' in
           if length (nd_shape frozen) \<noteq> 2 \<or> nd_shape frozen ! 0 = 0 \<or> nd_shape frozen ! 1 \<noteq> 8
           then Inl (ValueError ''must have shape [H, 8] with H > 0'')
           else if \<not> all_finite frozen then Inl (ValueError ''must be finite'')
           else Inr frozen)"

lemma require_nonempty_Inr [simp, result_simps]: "require_nonempty s = Inr u \<longleftrightarrow> s \<noteq> []"
  by (simp add: require_nonempty_def)

lemma require_nonnegative_Inr [simp, result_simps]: "require_nonnegative i = Inr u \<longleftrightarrow> 0 \<le> i"
  by (simp add: require_nonnegative_def)

lemma require_positive_Inr [simp, result_simps]: "require_positive i = Inr u \<longleftrightarrow> 0 < i"
  by (auto simp: require_positive_def result_simps)

lemma require_positive_real_Inr [simp, result_simps]: "require_positive_real x = Inr u \<longleftrightarrow> 0 < x"
  by (auto simp: require_positive_real_def)

lemma require_action_spec_Inr [simp, result_simps]: "require_action_spec s = Inr u \<longleftrightarrow> s = ACTION_SPEC"
  by (auto simp: require_action_spec_def result_simps ACTION_SPEC_def)

section \<open>Signals\<close>

datatype backend_signal =
  Running | Signal_success | Signal_task_failure | Signal_early_stop | Signal_timeout

fun signal_value :: "backend_signal \<Rightarrow> string" where
  "signal_value Running = ''running''"
| "signal_value Signal_success = ''success''"
| "signal_value Signal_task_failure = ''task_failure''"
| "signal_value Signal_early_stop = ''early_stop''"
| "signal_value Signal_timeout = ''timeout''"

section \<open>The run budget\<close>

record run_spec =
  rs_prompt :: string
  rs_success_predicate_id :: string
  rs_max_control_cycles :: int
  rs_max_observation_steps :: int
  rs_execute_action_steps :: int
  rs_wall_timeout_s :: rat
  rs_semantic_version :: string

definition run_spec_init :: "run_spec \<Rightarrow> run_spec result" where
  "run_spec_init s =
     bindr (require_nonempty (rs_prompt s)) (\<lambda>_.
     bindr (require_nonempty (rs_success_predicate_id s)) (\<lambda>_.
     bindr (require_positive (rs_max_control_cycles s)) (\<lambda>_.
     bindr (require_positive (rs_max_observation_steps s)) (\<lambda>_.
     bindr (require_positive (rs_execute_action_steps s)) (\<lambda>_.
     if rs_max_observation_steps s < rs_execute_action_steps s
     then Inl (ValueError ''execute_action_steps cannot exceed max_observation_steps'')
     else if rs_max_observation_steps s < rs_max_control_cycles s
     then Inl (ValueError ''max_control_cycles cannot exceed max_observation_steps'')
     else bindr (require_positive_real (rs_wall_timeout_s s)) (\<lambda>_.
          if rs_semantic_version s \<noteq> LOOP_SEMANTIC_VERSION
          then Inl (ValueError ''semantic_version must be 1.0'') else Inr s))))))"

definition run_spec_value :: "run_spec \<Rightarrow> params" where
  "run_spec_value s =
     [(''prompt'', PStr (rs_prompt s)),
      (''success_predicate_id'', PStr (rs_success_predicate_id s)),
      (''max_control_cycles'', PInt (rs_max_control_cycles s)),
      (''max_observation_steps'', PInt (rs_max_observation_steps s)),
      (''execute_action_steps'', PInt (rs_execute_action_steps s)),
      (''wall_timeout_s'', PFloat (rs_wall_timeout_s s)),
      (''semantic_version'', PStr (rs_semantic_version s))]"

definition run_spec_sha256 :: "hasher \<Rightarrow> run_spec \<Rightarrow> string" where
  "run_spec_sha256 h s = canonical_hash h (PDict (run_spec_value s))"

definition run_spec_ok :: "run_spec \<Rightarrow> bool" where
  "run_spec_ok s \<longleftrightarrow> run_spec_init s = Inr s"

lemma run_spec_init_id: "run_spec_init s = Inr t \<Longrightarrow> t = s"
  unfolding run_spec_init_def by (simp add: result_simps split: if_splits)

lemma run_spec_init_ok [inv_intros]: "run_spec_init s = Inr t \<Longrightarrow> run_spec_ok t"
  using run_spec_init_id by (force simp: run_spec_ok_def)

lemma run_spec_ok_iff:
  "run_spec_ok s \<longleftrightarrow>
     rs_prompt s \<noteq> [] \<and> rs_success_predicate_id s \<noteq> [] \<and>
     0 < rs_max_control_cycles s \<and> rs_max_control_cycles s \<le> rs_max_observation_steps s \<and>
     0 < rs_execute_action_steps s \<and> rs_execute_action_steps s \<le> rs_max_observation_steps s \<and>
     0 < rs_wall_timeout_s s \<and> rs_semantic_version s = LOOP_SEMANTIC_VERSION"
  unfolding run_spec_ok_def run_spec_init_def by (auto simp: result_simps split: if_splits)

section \<open>Policies\<close>

record episode_context =
  ec_episode_id :: string
  ec_task :: string
  ec_initial_seed :: int
  ec_exogenous_seed :: int
  ec_instruction :: string
  ec_action_spec :: string

definition context_init :: "episode_context \<Rightarrow> episode_context result" where
  "context_init c =
     bindr (require_nonempty (ec_episode_id c)) (\<lambda>_.
     bindr (require_nonempty (ec_task c)) (\<lambda>_.
     bindr (require_nonnegative (ec_initial_seed c)) (\<lambda>_.
     bindr (require_nonnegative (ec_exogenous_seed c)) (\<lambda>_.
     bindr (require_nonempty (ec_instruction c)) (\<lambda>_.
     bindr (require_action_spec (ec_action_spec c)) (\<lambda>_. Inr c))))))"

record policy_identity =
  pi_system_id :: string
  pi_checkpoint_sha256 :: string
  pi_config_sha256 :: string
  pi_action_spec :: string
  pi_consumes_tactile :: bool
  pi_supports_structural_absence :: bool

definition identity_init :: "policy_identity \<Rightarrow> policy_identity result" where
  "identity_init p =
     bindr (require_nonempty (pi_system_id p)) (\<lambda>_.
     bindr (check_sha (pi_checkpoint_sha256 p)) (\<lambda>_.
     bindr (check_sha (pi_config_sha256 p)) (\<lambda>_.
     bindr (require_action_spec (pi_action_spec p)) (\<lambda>_. Inr p))))"

record action_plan =
  ap_action_spec :: string
  ap_source_step_index :: int
  ap_actions :: ndarray

definition action_plan_init :: "numpy \<Rightarrow> action_plan \<Rightarrow> action_plan result" where
  "action_plan_init np p =
     bindr (require_action_spec (ap_action_spec p)) (\<lambda>_.
     bindr (require_nonnegative (ap_source_step_index p)) (\<lambda>_.
     bindr (freeze_action_array np (ap_actions p)) (\<lambda>actions. Inr (p\<lparr>ap_actions := actions\<rparr>))))"

definition action_plan_sha256 :: "hasher \<Rightarrow> action_plan \<Rightarrow> string" where
  "action_plan_sha256 h p =
     canonical_hash h
       (PDict [(''action_spec'', PStr (ap_action_spec p)),
               (''source_step_index'', PInt (ap_source_step_index p)),
               (''actions'', array_value h (ap_actions p))])"

section \<open>Backends\<close>

record reset_receipt =
  rc_episode_id :: string
  rc_initial_seed :: int
  rc_exogenous_seed :: int
  rc_simulator_state_sha256 :: string
  rc_native_reset_id :: string

definition receipt_init :: "reset_receipt \<Rightarrow> reset_receipt result" where
  "receipt_init r =
     bindr (require_nonempty (rc_episode_id r)) (\<lambda>_.
     bindr (require_nonnegative (rc_initial_seed r)) (\<lambda>_.
     bindr (require_nonnegative (rc_exogenous_seed r)) (\<lambda>_.
     bindr (check_sha (rc_simulator_state_sha256 r)) (\<lambda>_.
     bindr (require_nonempty (rc_native_reset_id r)) (\<lambda>_. Inr r)))))"

record backend_transition =
  bt_clean_record :: evaluation
  bt_signal :: backend_signal
  bt_native_step_id :: int
  bt_diagnostics :: params

definition transition_init :: "backend_transition \<Rightarrow> backend_transition result" where
  "transition_init t =
     (if list_ex (\<lambda>p. pv_active_fault_ids p \<noteq> []) (ev_provenance (bt_clean_record t))
      then Inl (ValueError ''clean_record may not contain active fault IDs'')
      else bindr (require_nonnegative (bt_native_step_id t)) (\<lambda>_.
           bindr (freeze_value (PDict (bt_diagnostics t))) (\<lambda>v.
           case v of PDict d \<Rightarrow> Inr (t\<lparr>bt_diagnostics := d\<rparr>)
           | _ \<Rightarrow> Inl (TypeError ''diagnostics must be a mapping''))))"

record execution_batch =
  eb_transitions :: "backend_transition list"
  eb_executed_action_count :: int

text \<open>\<open>zip(xs, xs[1:])\<close> and \<open>any\<close> over it.\<close>

definition all_adjacent :: "('a \<Rightarrow> 'a \<Rightarrow> bool) \<Rightarrow> 'a list \<Rightarrow> bool" where
  "all_adjacent R xs \<longleftrightarrow> list_all (\<lambda>(a, b). R a b) (zip xs (tl xs))"

definition batch_init :: "execution_batch \<Rightarrow> execution_batch result" where
  "batch_init b =
     (if eb_transitions b = [] then Inl (ValueError ''transitions must be non-empty'')
      else bindr (require_positive (eb_executed_action_count b)) (\<lambda>_.
        if int (length (eb_transitions b)) < eb_executed_action_count b
        then Inl (ValueError ''executed_action_count cannot exceed transition count'')
        else if \<not> all_adjacent (\<lambda>a b. b = a + 1)
                  (map (\<lambda>t. ob_step_index (ev_observation (bt_clean_record t))) (eb_transitions b))
        then Inl (ValueError ''transition benchmark step indices must be dense'')
        else if \<not> all_adjacent (\<lambda>a b. a < b) (map bt_native_step_id (eb_transitions b))
        then Inl (ValueError ''native step IDs must strictly increase'')
        else Inr b))"

record policy_execution =
  pe_action_plan_sha256 :: string
  pe_executed_actions :: ndarray
  pe_delivered_observations :: "observation list"
  pe_terminal_signal :: backend_signal

definition execution_init :: "numpy \<Rightarrow> policy_execution \<Rightarrow> policy_execution result" where
  "execution_init np p =
     bindr (freeze_action_array np (pe_executed_actions p)) (\<lambda>actions.
     if length (pe_delivered_observations p) \<noteq> nd_shape actions ! 0
     then Inl (ValueError ''number of delivered observations must equal executed actions'')
     else bindr (check_sha (pe_action_plan_sha256 p)) (\<lambda>_.
          Inr (p\<lparr>pe_executed_actions := actions\<rparr>)))"

end
