(* ===== verification/Trial_Results.thy ===== *)
theory Trial_Results
  imports Loop_Contracts Delivery
begin

text \<open>
  The public receipt of a closed-loop trial (\<open>closed_loop/results.py\<close>), its construction from a run
  (\<open>closed_loop/result_hashes.py\<close>), and the JSON views of run budgets and receipts
  (\<open>closed_loop/artifact_values.py\<close>).
\<close>

section \<open>The receipt\<close>

record trial_result =
  tr_trial_manifest_sha256 :: string
  tr_pair_key :: string
  tr_run_spec_sha256 :: string
  tr_initial_state_sha256 :: "string option"
  tr_terminal_status :: terminal_status
  tr_execution_status :: "terminal_status option"
  tr_score_eligible :: bool
  tr_score_success :: "bool option"
  tr_validation_passed :: "bool option"
  tr_validation_failure_codes :: "string list"
  tr_clean_trace_sha256 :: string
  tr_delivered_trace_sha256 :: string
  tr_action_trace_sha256 :: string
  tr_terminal_trace_sha256 :: string
  tr_observation_count :: int
  tr_control_cycle_count :: int
  tr_failure_stage :: "string option"
  tr_failure_code :: "string option"
  tr_semantic_version :: string

definition CRASH_FAILURE_STAGES :: "string list" where
  "CRASH_FAILURE_STAGES =
     [''reset'', ''policy_reset'', ''observe'', ''delivery'', ''infer'', ''execute'', ''commit'',
      ''validation'', ''close'']"

definition check_opt_sha :: "string option \<Rightarrow> unit result" where
  "check_opt_sha v = (case v of None \<Rightarrow> Inr () | Some s \<Rightarrow> check_sha s)"

definition check_opt_code :: "string option \<Rightarrow> unit result" where
  "check_opt_code v =
     (case v of None \<Rightarrow> Inr ()
      | Some s \<Rightarrow> if s = [] then Inl (ValueError ''must be a non-empty string or None'') else Inr ())"

definition validate_codes :: "string list \<Rightarrow> unit result" where
  "validate_codes codes =
     (if \<not> list_all (\<lambda>c. c \<noteq> []) codes
      then Inl (ValueError ''validation_failure_codes must contain non-empty strings'')
      else if \<not> distinct codes
      then Inl (ValueError ''validation_failure_codes must be unique'')
      else Inr ())"

definition NORMAL_STATUSES :: "terminal_status list" where
  "NORMAL_STATUSES = [SUCCESS, TASK_FAILURE, EARLY_STOP, TIMEOUT]"

definition validate_semantics :: "trial_result \<Rightarrow> unit result" where
  "validate_semantics r =
     (if tr_terminal_status r \<in> set NORMAL_STATUSES
      then (if tr_execution_status r \<noteq> Some (tr_terminal_status r) \<or> \<not> tr_score_eligible r \<or>
               tr_score_success r \<noteq> Some (tr_terminal_status r = SUCCESS) \<or>
               tr_validation_passed r \<noteq> Some True \<or> tr_validation_failure_codes r \<noteq> [] \<or>
               tr_failure_stage r \<noteq> None \<or> tr_failure_code r \<noteq> None
            then Inl (ValueError ''normal terminal status has incoherent result semantics'')
            else Inr ())
      else if tr_terminal_status r = UNSUPPORTED_CONTRACT
      then (if tr_execution_status r \<noteq> None \<or> tr_score_eligible r \<or> tr_score_success r \<noteq> None \<or>
               tr_validation_passed r \<noteq> None \<or> tr_validation_failure_codes r \<noteq> [] \<or>
               tr_failure_stage r \<noteq> Some ''preflight'' \<or> tr_failure_code r = None
            then Inl (ValueError ''unsupported result has incoherent semantics'')
            else Inr ())
      else if tr_terminal_status r = VALIDATOR_REJECTED
      then (if tr_execution_status r = None \<or> tr_score_eligible r \<or> tr_score_success r \<noteq> None \<or>
               tr_validation_passed r \<noteq> Some False \<or> tr_validation_failure_codes r = [] \<or>
               tr_failure_stage r \<noteq> Some ''validation'' \<or> tr_failure_code r \<noteq> Some ''validator_rejected''
            then Inl (ValueError ''validator rejection has incoherent semantics'')
            else Inr ())
      else (if \<not> tr_score_eligible r \<or> tr_score_success r \<noteq> Some False \<or> tr_execution_status r = None \<or>
               tr_failure_stage r = None \<or> tr_failure_code r = None \<or>
               the (tr_failure_stage r) \<notin> set CRASH_FAILURE_STAGES \<or>
               tr_failure_stage r \<noteq> Some ''reset'' \<and> tr_initial_state_sha256 r = None \<or>
               tr_validation_passed r = Some False \<and> tr_validation_failure_codes r = [] \<or>
               tr_validation_passed r \<noteq> Some False \<and> tr_validation_failure_codes r \<noteq> []
            then Inl (ValueError ''crash result has incoherent semantics'')
            else Inr ()))"

definition validate_reset_state :: "trial_result \<Rightarrow> unit result" where
  "validate_reset_state r =
     (if tr_terminal_status r \<in> set (VALIDATOR_REJECTED # NORMAL_STATUSES) \<and> tr_initial_state_sha256 r = None
      then Inl (ValueError ''completed result requires an initial state hash'')
      else if tr_terminal_status r = UNSUPPORTED_CONTRACT \<and> tr_initial_state_sha256 r \<noteq> None
      then Inl (ValueError ''unsupported result cannot include a reset state hash'')
      else Inr ())"

text \<open>\<open>terminal_trace_sha256\<close>: every field but the digest itself.\<close>

definition terminal_trace_sha256 :: "hasher \<Rightarrow> trial_result \<Rightarrow> string" where
  "terminal_trace_sha256 h r =
     canonical_hash h
       (PDict [(''namespace'', PStr ''robotactile_benchmark.closed_loop.terminal_trace.v1''),
               (''trial_manifest_sha256'', PStr (tr_trial_manifest_sha256 r)),
               (''pair_key'', PStr (tr_pair_key r)),
               (''run_spec_sha256'', PStr (tr_run_spec_sha256 r)),
               (''initial_state_sha256'', opt_str (tr_initial_state_sha256 r)),
               (''terminal_status'', PStr (terminal_value (tr_terminal_status r))),
               (''execution_status'', opt_value (\<lambda>s. PStr (terminal_value s)) (tr_execution_status r)),
               (''score_eligible'', PBool (tr_score_eligible r)),
               (''score_success'', opt_value PBool (tr_score_success r)),
               (''validation_passed'', opt_value PBool (tr_validation_passed r)),
               (''validation_failure_codes'', PList (map PStr (tr_validation_failure_codes r))),
               (''clean_trace_sha256'', PStr (tr_clean_trace_sha256 r)),
               (''delivered_trace_sha256'', PStr (tr_delivered_trace_sha256 r)),
               (''action_trace_sha256'', PStr (tr_action_trace_sha256 r)),
               (''observation_count'', PInt (tr_observation_count r)),
               (''control_cycle_count'', PInt (tr_control_cycle_count r)),
               (''failure_stage'', opt_str (tr_failure_stage r)),
               (''failure_code'', opt_str (tr_failure_code r)),
               (''semantic_version'', PStr (tr_semantic_version r))])"

definition result_init :: "hasher \<Rightarrow> trial_result \<Rightarrow> trial_result result" where
  "result_init h r =
     bindr (check_sha (tr_trial_manifest_sha256 r)) (\<lambda>_.
     bindr (check_sha (tr_pair_key r)) (\<lambda>_.
     bindr (check_sha (tr_run_spec_sha256 r)) (\<lambda>_.
     bindr (check_sha (tr_clean_trace_sha256 r)) (\<lambda>_.
     bindr (check_sha (tr_delivered_trace_sha256 r)) (\<lambda>_.
     bindr (check_sha (tr_action_trace_sha256 r)) (\<lambda>_.
     bindr (check_sha (tr_terminal_trace_sha256 r)) (\<lambda>_.
     bindr (check_opt_sha (tr_initial_state_sha256 r)) (\<lambda>_.
     bindr (validate_codes (tr_validation_failure_codes r)) (\<lambda>_.
     bindr (require_nonnegative (tr_observation_count r)) (\<lambda>_.
     bindr (require_nonnegative (tr_control_cycle_count r)) (\<lambda>_.
     bindr (check_opt_code (tr_failure_stage r)) (\<lambda>_.
     bindr (check_opt_code (tr_failure_code r)) (\<lambda>_.
     if tr_semantic_version r \<noteq> LOOP_SEMANTIC_VERSION
     then Inl (ValueError ''semantic_version must be 1.0'')
     else bindr (validate_semantics r) (\<lambda>_.
          bindr (validate_reset_state r) (\<lambda>_.
          if tr_terminal_trace_sha256 r \<noteq> terminal_trace_sha256 h r
          then Inl (ValueError ''terminal_trace_sha256 does not match receipt fields'')
          else Inr r)))))))))))))))"

definition result_ok :: "hasher \<Rightarrow> trial_result \<Rightarrow> bool" where
  "result_ok h r \<longleftrightarrow> result_init h r = Inr r"

lemma result_init_id: "result_init h r = Inr s \<Longrightarrow> s = r"
  unfolding result_init_def by (simp add: result_simps split: if_splits)

lemma result_init_ok [inv_intros]: "result_init h r = Inr s \<Longrightarrow> result_ok h s"
  using result_init_id by (force simp: result_ok_def)

section \<open>Building a receipt\<close>

record action_entry =
  ae_action_plan_sha256 :: string
  ae_source_step_index :: int
  ae_executed_actions :: ndarray

definition action_entry_value :: "hasher \<Rightarrow> action_entry \<Rightarrow> pyval" where
  "action_entry_value h e =
     PDict [(''action_plan_sha256'', PStr (ae_action_plan_sha256 e)),
            (''source_step_index'', PInt (ae_source_step_index e)),
            (''executed_actions'', array_value h (ae_executed_actions e))]"

definition action_trace_sha256 :: "hasher \<Rightarrow> action_entry list \<Rightarrow> string" where
  "action_trace_sha256 h entries =
     canonical_hash h
       (PDict [(''namespace'', PStr ''robotactile_benchmark.closed_loop.action_trace.v1''),
               (''entries'', PList (map (action_entry_value h) entries))])"

definition empty_record_trace_sha256 :: "hasher \<Rightarrow> string \<Rightarrow> string" where
  "empty_record_trace_sha256 h kind =
     canonical_hash h
       (PDict [(''namespace'', PStr ''robotactile_benchmark.closed_loop.empty_trace.v1''),
               (''kind'', PStr kind)])"

fun score :: "terminal_status \<Rightarrow> bool \<times> bool option" where
  "score SUCCESS = (True, Some True)"
| "score TASK_FAILURE = (True, Some False)"
| "score EARLY_STOP = (True, Some False)"
| "score TIMEOUT = (True, Some False)"
| "score CRASH = (True, Some False)"
| "score VALIDATOR_REJECTED = (False, None)"
| "score UNSUPPORTED_CONTRACT = (False, None)"

type_synonym validation_fields = "bool option \<times> string list"

definition trace_fields ::
    "hasher \<Rightarrow> delivery_finalization option \<Rightarrow> string \<times> string \<times> validation_fields" where
  "trace_fields h finalization =
     (case finalization of
        None \<Rightarrow> (empty_record_trace_sha256 h ''clean'', empty_record_trace_sha256 h ''delivered'', None, [])
      | Some f \<Rightarrow>
          (df_clean_trace_sha256 f, df_delivered_trace_sha256 f,
           (case df_validation f of None \<Rightarrow> (Some True, [])
            | Some v \<Rightarrow> (Some (vr_passed v), vr_failure_codes v))))"

definition build_trial_result ::
    "hasher \<Rightarrow> trial_manifest \<Rightarrow> run_spec \<Rightarrow> string option \<Rightarrow> terminal_status \<Rightarrow> terminal_status option \<Rightarrow>
     delivery_finalization option \<Rightarrow> action_entry list \<Rightarrow> int \<Rightarrow> int \<Rightarrow> string option \<Rightarrow> string option \<Rightarrow>
     validation_fields option \<Rightarrow> trial_result result" where
  "build_trial_result h trial spec initial terminal execution finalization entries observations cycles
      stage code override =
     (let (clean_hash, delivered_hash, fields) = trace_fields h finalization;
          (passed, codes) = (case override of None \<Rightarrow> fields | Some v \<Rightarrow> v);
          (eligible, success) = score terminal;
          r = \<lparr>tr_trial_manifest_sha256 = trial_sha256 h trial, tr_pair_key = pair_key h trial,
               tr_run_spec_sha256 = run_spec_sha256 h spec, tr_initial_state_sha256 = initial,
               tr_terminal_status = terminal, tr_execution_status = execution,
               tr_score_eligible = eligible, tr_score_success = success,
               tr_validation_passed = passed, tr_validation_failure_codes = codes,
               tr_clean_trace_sha256 = clean_hash, tr_delivered_trace_sha256 = delivered_hash,
               tr_action_trace_sha256 = action_trace_sha256 h entries, tr_terminal_trace_sha256 = [],
               tr_observation_count = observations, tr_control_cycle_count = cycles,
               tr_failure_stage = stage, tr_failure_code = code,
               tr_semantic_version = LOOP_SEMANTIC_VERSION\<rparr>
      in result_init h (r\<lparr>tr_terminal_trace_sha256 := terminal_trace_sha256 h r\<rparr>))"

text \<open>The digest does not depend on its own field.\<close>

lemma terminal_trace_update [simp]:
  "terminal_trace_sha256 h (r\<lparr>tr_terminal_trace_sha256 := s\<rparr>) = terminal_trace_sha256 h r"
  by (simp add: terminal_trace_sha256_def)

end
