(* ===== verification/Result_Json.thy ===== *)
theory Result_Json
  imports Trial_Results
begin

text \<open>
  The strict JSON views of run budgets and terminal receipts (\<open>closed_loop/artifact_values.py\<close>).
  \<open>ArtifactValidationError\<close> is a subclass of \<open>ValueError\<close>; a timeout that is not finite, which the
  constructor of the budget refuses with a \<open>ValueError\<close>, is refused where it is read.
\<close>

definition mapping_fields :: "string list \<Rightarrow> pyval \<Rightarrow> params result" where
  "mapping_fields expected v =
     (case v of PDict d \<Rightarrow>
        if set (map fst d) \<noteq> set expected then Inl (ValueError ''fields mismatch'') else Inr d
      | _ \<Rightarrow> Inl (ValueError ''fields mismatch''))"

fun json_string :: "pyval \<Rightarrow> string result" where
  "json_string (PStr s) = (if s = [] then Inl (ValueError ''must be a non-empty string'') else Inr s)"
| "json_string v = Inl (ValueError ''must be a non-empty string'')"

fun json_opt_string :: "pyval \<Rightarrow> string option result" where
  "json_opt_string PNone = Inr None"
| "json_opt_string v = bindr (json_string v) (\<lambda>s. Inr (Some s))"

fun json_integer :: "pyval \<Rightarrow> int result" where
  "json_integer (PInt i) = Inr i"
| "json_integer v = Inl (ValueError ''must be an integer'')"

fun json_opt_bool :: "pyval \<Rightarrow> bool option result" where
  "json_opt_bool PNone = Inr None"
| "json_opt_bool (PBool b) = Inr (Some b)"
| "json_opt_bool v = Inl (ValueError ''must be boolean or null'')"

fun json_sha256 :: "pyval \<Rightarrow> string result" where
  "json_sha256 (PStr s) = bindr (check_sha s) (\<lambda>_. Inr s)"
| "json_sha256 v = Inl (ValueError ''must be a lowercase SHA256'')"

section \<open>Run budgets\<close>

definition RUN_SPEC_FIELDS :: "string list" where
  "RUN_SPEC_FIELDS =
     [''prompt'', ''success_predicate_id'', ''max_control_cycles'', ''max_observation_steps'',
      ''execute_action_steps'', ''wall_timeout_s'', ''semantic_version'']"

definition run_spec_to_dict :: "run_spec \<Rightarrow> params" where
  "run_spec_to_dict s =
     [(''prompt'', PStr (rs_prompt s)),
      (''success_predicate_id'', PStr (rs_success_predicate_id s)),
      (''max_control_cycles'', PInt (rs_max_control_cycles s)),
      (''max_observation_steps'', PInt (rs_max_observation_steps s)),
      (''execute_action_steps'', PInt (rs_execute_action_steps s)),
      (''wall_timeout_s'', PFloat (rs_wall_timeout_s s)),
      (''semantic_version'', PStr (rs_semantic_version s))]"

definition run_spec_from_dict :: "pyval \<Rightarrow> run_spec result" where
  "run_spec_from_dict v =
     bindr (mapping_fields RUN_SPEC_FIELDS v) (\<lambda>d.
     bindr (case dget d ''wall_timeout_s'' of
              PInt i \<Rightarrow> Inr (fl64 (of_int i)) | PFloat x \<Rightarrow> Inr x
            | PNonFinite \<Rightarrow> Inl (ValueError ''must be finite'')
            | _ \<Rightarrow> Inl (ValueError ''wall timeout must be a JSON number'')) (\<lambda>timeout.
     bindr (json_string (dget d ''prompt'')) (\<lambda>prompt.
     bindr (json_string (dget d ''success_predicate_id'')) (\<lambda>predicate.
     bindr (json_integer (dget d ''max_control_cycles'')) (\<lambda>cycles.
     bindr (json_integer (dget d ''max_observation_steps'')) (\<lambda>steps.
     bindr (json_integer (dget d ''execute_action_steps'')) (\<lambda>actions.
     bindr (json_string (dget d ''semantic_version'')) (\<lambda>semver.
     run_spec_init \<lparr>rs_prompt = prompt, rs_success_predicate_id = predicate,
       rs_max_control_cycles = cycles, rs_max_observation_steps = steps,
       rs_execute_action_steps = actions, rs_wall_timeout_s = timeout,
       rs_semantic_version = semver\<rparr>))))))))"

lemma run_spec_dict_fields: "mapping_fields RUN_SPEC_FIELDS (PDict (run_spec_to_dict s)) = Inr (run_spec_to_dict s)"
  by (simp add: mapping_fields_def RUN_SPEC_FIELDS_def run_spec_to_dict_def)

lemma run_spec_reload:
  assumes "run_spec_ok s"
  shows "run_spec_from_dict (PDict (run_spec_to_dict s)) = Inr s"
proof -
  have "rs_prompt s \<noteq> []" "rs_success_predicate_id s \<noteq> []" "rs_semantic_version s \<noteq> []"
    using assms by (simp_all add: run_spec_ok_iff LOOP_SEMANTIC_VERSION_def)
  with assms show ?thesis
    unfolding run_spec_from_dict_def run_spec_dict_fields
    by (cases s) (simp add: run_spec_to_dict_def dget_def run_spec_ok_def)
qed

section \<open>Receipts\<close>

definition RESULT_FIELDS :: "string list" where
  "RESULT_FIELDS =
     [''trial_manifest_sha256'', ''pair_key'', ''run_spec_sha256'', ''initial_state_sha256'',
      ''terminal_status'', ''execution_status'', ''score_eligible'', ''score_success'',
      ''validation_passed'', ''validation_failure_codes'', ''clean_trace_sha256'',
      ''delivered_trace_sha256'', ''action_trace_sha256'', ''terminal_trace_sha256'',
      ''observation_count'', ''control_cycle_count'', ''failure_stage'', ''failure_code'',
      ''semantic_version'']"

definition result_to_dict :: "trial_result \<Rightarrow> params" where
  "result_to_dict r =
     [(''trial_manifest_sha256'', PStr (tr_trial_manifest_sha256 r)),
      (''pair_key'', PStr (tr_pair_key r)),
      (''run_spec_sha256'', PStr (tr_run_spec_sha256 r)),
      (''initial_state_sha256'', opt_str (tr_initial_state_sha256 r)),
      (''terminal_status'', PStr (terminal_value (tr_terminal_status r))),
      (''execution_status'', opt_value (\<lambda>s. PStr (terminal_value s)) (tr_execution_status r)),
      (''score_eligible'', PBool (tr_score_eligible r)),
      (''score_success'', opt_value PBool (tr_score_success r)),
      (''validation_passed'', opt_value PBool (tr_validation_passed r)),
      (''validation_failure_codes'', PList (map PStr (tr_validation_failure_codes r))),
      (''clean_trace_sha256'', PStr (tr_clean_trace_sha256 r)),
      (''delivered_trace_sha256'', PStr (tr_delivered_trace_sha256 r)),
      (''action_trace_sha256'', PStr (tr_action_trace_sha256 r)),
      (''terminal_trace_sha256'', PStr (tr_terminal_trace_sha256 r)),
      (''observation_count'', PInt (tr_observation_count r)),
      (''control_cycle_count'', PInt (tr_control_cycle_count r)),
      (''failure_stage'', opt_str (tr_failure_stage r)),
      (''failure_code'', opt_str (tr_failure_code r)),
      (''semantic_version'', PStr (tr_semantic_version r))]"

fun json_codes :: "pyval \<Rightarrow> string list result" where
  "json_codes (PList vs) = mapr json_string vs"
| "json_codes v = Inl (ValueError ''validation failure codes must be a string list'')"

fun json_bool :: "pyval \<Rightarrow> bool result" where
  "json_bool (PBool b) = Inr b"
| "json_bool v = Inl (ValueError ''score eligible must be boolean'')"

fun json_opt_sha :: "pyval \<Rightarrow> string option result" where
  "json_opt_sha PNone = Inr None"
| "json_opt_sha v = bindr (json_sha256 v) (\<lambda>s. Inr (Some s))"

fun json_opt_status :: "pyval \<Rightarrow> terminal_status option result" where
  "json_opt_status PNone = Inr None"
| "json_opt_status v = bindr (json_string v) (\<lambda>s. bindr (terminal_of s) (\<lambda>t. Inr (Some t)))"

definition result_from_dict :: "hasher \<Rightarrow> pyval \<Rightarrow> trial_result result" where
  "result_from_dict h v =
     bindr (mapping_fields RESULT_FIELDS v) (\<lambda>d.
     bindr (json_codes (dget d ''validation_failure_codes'')) (\<lambda>codes.
     bindr (json_bool (dget d ''score_eligible'')) (\<lambda>eligible.
     bindr (json_opt_sha (dget d ''initial_state_sha256'')) (\<lambda>initial.
     bindr (json_sha256 (dget d ''trial_manifest_sha256'')) (\<lambda>trial.
     bindr (json_sha256 (dget d ''pair_key'')) (\<lambda>pair.
     bindr (json_sha256 (dget d ''run_spec_sha256'')) (\<lambda>spec.
     bindr (bindr (json_string (dget d ''terminal_status'')) terminal_of) (\<lambda>terminal.
     bindr (json_opt_status (dget d ''execution_status'')) (\<lambda>execution.
     bindr (json_opt_bool (dget d ''score_success'')) (\<lambda>success.
     bindr (json_opt_bool (dget d ''validation_passed'')) (\<lambda>passed.
     bindr (json_sha256 (dget d ''clean_trace_sha256'')) (\<lambda>clean.
     bindr (json_sha256 (dget d ''delivered_trace_sha256'')) (\<lambda>delivered.
     bindr (json_sha256 (dget d ''action_trace_sha256'')) (\<lambda>action.
     bindr (json_sha256 (dget d ''terminal_trace_sha256'')) (\<lambda>trace.
     bindr (json_integer (dget d ''observation_count'')) (\<lambda>observations.
     bindr (json_integer (dget d ''control_cycle_count'')) (\<lambda>cycles.
     bindr (json_opt_string (dget d ''failure_stage'')) (\<lambda>stage.
     bindr (json_opt_string (dget d ''failure_code'')) (\<lambda>code.
     bindr (json_string (dget d ''semantic_version'')) (\<lambda>semver.
     result_init h
       \<lparr>tr_trial_manifest_sha256 = trial, tr_pair_key = pair, tr_run_spec_sha256 = spec,
        tr_initial_state_sha256 = initial, tr_terminal_status = terminal,
        tr_execution_status = execution, tr_score_eligible = eligible, tr_score_success = success,
        tr_validation_passed = passed, tr_validation_failure_codes = codes,
        tr_clean_trace_sha256 = clean, tr_delivered_trace_sha256 = delivered,
        tr_action_trace_sha256 = action, tr_terminal_trace_sha256 = trace,
        tr_observation_count = observations, tr_control_cycle_count = cycles,
        tr_failure_stage = stage, tr_failure_code = code, tr_semantic_version = semver\<rparr>))))))))))))))))))))"

lemma result_dict_fields: "mapping_fields RESULT_FIELDS (PDict (result_to_dict r)) = Inr (result_to_dict r)"
  by (simp add: mapping_fields_def RESULT_FIELDS_def result_to_dict_def)

lemma json_opt_simps [simp]:
  "json_opt_string (opt_str s) = (if s = Some [] then Inl (ValueError ''must be a non-empty string'') else Inr s)"
  "json_opt_bool (opt_value PBool b) = Inr b"
  "json_opt_sha (opt_str s) = bindr (check_opt_sha s) (\<lambda>_. Inr s)"
  by (cases s; cases b; simp add: opt_value_def check_opt_sha_def bindr_assoc)+

lemma terminal_value_nonempty [simp]: "terminal_value s \<noteq> []"
  by (cases s) simp_all

lemma json_opt_status_value [simp]: "json_opt_status (opt_value (\<lambda>s. PStr (terminal_value s)) s) = Inr s"
  by (cases s) (simp_all add: opt_value_def)

lemma json_codes_map: "list_all (\<lambda>c. c \<noteq> []) codes \<Longrightarrow> json_codes (PList (map PStr codes)) = Inr codes"
  by (induction codes) auto

text \<open>A receipt that its constructor accepts can be read back.\<close>

lemma result_ok_json:
  assumes "result_ok h r"
  shows "is_sha256 (tr_trial_manifest_sha256 r)" "is_sha256 (tr_pair_key r)" "is_sha256 (tr_run_spec_sha256 r)"
    "is_sha256 (tr_clean_trace_sha256 r)" "is_sha256 (tr_delivered_trace_sha256 r)"
    "is_sha256 (tr_action_trace_sha256 r)" "is_sha256 (tr_terminal_trace_sha256 r)"
    "check_opt_sha (tr_initial_state_sha256 r) = Inr ()"
    "list_all (\<lambda>c. c \<noteq> []) (tr_validation_failure_codes r)" "distinct (tr_validation_failure_codes r)"
    "tr_failure_stage r \<noteq> Some []" "tr_failure_code r \<noteq> Some []"
    "tr_semantic_version r = LOOP_SEMANTIC_VERSION" "validate_semantics r = Inr ()"
    "validate_reset_state r = Inr ()" "tr_terminal_trace_sha256 r = terminal_trace_sha256 h r"
    "0 \<le> tr_observation_count r" "0 \<le> tr_control_cycle_count r"
  using assms unfolding result_ok_def result_init_def
  by (simp_all add: result_simps check_opt_code_def validate_codes_def split: if_splits option.splits)

lemma result_reload:
  assumes "result_ok h r"
  shows "result_from_dict h (PDict (result_to_dict r)) = Inr r"
proof -
  note r = result_ok_json [OF assms]
  have d: "dget (result_to_dict r) ''validation_failure_codes'' = PList (map PStr (tr_validation_failure_codes r))"
    by (simp add: result_to_dict_def dget_def)
  have "result_from_dict h (PDict (result_to_dict r)) = result_init h r"
    unfolding result_from_dict_def result_dict_fields bindr_simps d json_codes_map [OF r(9)]
    using r by (cases r) (simp add: result_to_dict_def dget_def LOOP_SEMANTIC_VERSION_def)
  with assms show ?thesis by (simp add: result_ok_def)
qed

end
