(* ===== verification/Matrix_Contracts.thy ===== *)
theory Matrix_Contracts
  imports Result_Json Registry
begin

text \<open>
  The contracts of a benchmark matrix (\<open>matrix/contracts.py\<close>): grid points, the unique executions
  (cells) a matrix asks for and the comparison rows that refer to them by content address.
\<close>

section \<open>Field checks\<close>

text \<open>\<open>str.strip\<close> removes these characters (of the first 256).\<close>

definition blank :: "string \<Rightarrow> bool" where
  "blank s \<longleftrightarrow> list_all (\<lambda>c. of_char c \<in> {9, 10, 11, 12, 13, 28, 29, 30, 31, 32, 133, 160 :: nat}) s"

definition require_text :: "string \<Rightarrow> unit result" where
  "require_text s = (if blank s then Inl (ValueError ''must be a non-empty string'') else Inr ())"

fun json_text :: "pyval \<Rightarrow> string result" where
  "json_text (PStr s) = bindr (require_text s) (\<lambda>_. Inr s)"
| "json_text v = Inl (ValueError ''must be a non-empty string'')"

fun json_bounded :: "int \<Rightarrow> pyval \<Rightarrow> int result" where
  "json_bounded minimum (PInt i) = (if i < minimum then Inl (ValueError ''must be at least'') else Inr i)"
| "json_bounded minimum v = Inl (TypeError ''must be an integer'')"

definition MATRIX_SEMANTIC_VERSION :: string where
  "MATRIX_SEMANTIC_VERSION = ''1.0''"

datatype grid_kind = PRIMARY | FOCUSED_PHASE | FOCUSED_RESTORATION

fun kind_value :: "grid_kind \<Rightarrow> string" where
  "kind_value PRIMARY = ''primary_14x5_blind''"
| "kind_value FOCUSED_PHASE = ''focused_phase''"
| "kind_value FOCUSED_RESTORATION = ''focused_restoration''"

definition kind_of :: "string \<Rightarrow> grid_kind result" where
  "kind_of s =
     (if s = ''primary_14x5_blind'' then Inr PRIMARY else if s = ''focused_phase'' then Inr FOCUSED_PHASE
      else if s = ''focused_restoration'' then Inr FOCUSED_RESTORATION
      else Inl (ValueError ''is not a valid MatrixGridKind''))"

lemma kind_of_value [simp]: "kind_of (kind_value k) = Inr k"
  by (cases k) (simp_all add: kind_of_def)

lemma kind_value_text [simp]: "\<not> blank (kind_value k)"
  by (cases k) (simp_all add: blank_def)

lemma require_text_Inr [simp, result_simps]: "require_text s = Inr u \<longleftrightarrow> \<not> blank s"
  by (simp add: require_text_def)

lemma require_text_ok [simp]: "\<not> blank s \<Longrightarrow> require_text s = Inr ()"
  by (simp add: require_text_def)

lemma json_text_Inr: "json_text v = Inr s \<longleftrightarrow> v = PStr s \<and> \<not> blank s"
  by (cases v) (auto simp: result_simps)

lemma blank_Nil [simp]: "blank []"
  by (simp add: blank_def)

lemma is_sha256_text: "is_sha256 s \<Longrightarrow> \<not> blank s"
  unfolding is_sha256_def blank_def
proof (cases s)
  case (Cons c cs)
  moreover assume "length s = 64 \<and> list_all hex_char s"
  ultimately have "hex_char c" by simp
  then have "of_char c \<notin> {9, 10, 11, 12, 13, 28, 29, 30, 31, 32, 133, 160 :: nat}"
    by (auto simp: hex_char_def)
  with Cons show "\<not> list_all (\<lambda>c. of_char c \<in> {9, 10, 11, 12, 13, 28, 29, 30, 31, 32, 133, 160 :: nat}) s" by simp
qed simp

section \<open>Grid points\<close>

record grid_point =
  gp_focus_id :: string
  gp_fault :: fault_manifest
  gp_restoration_index :: int

definition grid_point_init :: "grid_point \<Rightarrow> grid_point result" where
  "grid_point_init p =
     bindr (require_text (gp_focus_id p)) (\<lambda>_.
     if gp_restoration_index p < 0 then Inl (ValueError ''must be at least'')
     else if \<not> (fm_start_index (gp_fault p) < gp_restoration_index p \<and>
                gp_restoration_index p < fm_stop_index (gp_fault p))
     then Inl (ValueError ''restoration index must lie inside the fault window'') else Inr p)"

definition grid_point_sha256 :: "hasher \<Rightarrow> grid_point \<Rightarrow> string" where
  "grid_point_sha256 h p =
     canonical_hash h
       (PDict [(''focus_id'', PStr (gp_focus_id p)),
               (''fault_manifest_sha256'', PStr (manifest_sha256 h (gp_fault p))),
               (''restoration_index'', PInt (gp_restoration_index p))])"

section \<open>Cells\<close>

record matrix_cell =
  mc_trial :: trial_manifest
  mc_fault :: "fault_manifest option"
  mc_semantic_version :: string

definition cell_init :: "hasher \<Rightarrow> matrix_cell \<Rightarrow> matrix_cell result" where
  "cell_init h c =
     (if mc_semantic_version c \<noteq> MATRIX_SEMANTIC_VERSION
      then Inl (ValueError ''unsupported matrix cell semantic version'')
      else if (tm_condition (mc_trial c) \<in> {FAULTED, RESTORED}) \<noteq> (mc_fault c \<noteq> None)
      then Inl (ValueError ''faulted/restored cells must carry exactly one fault manifest'')
      else if mc_fault c \<noteq> None \<and>
              tm_fault_manifest_sha256 (mc_trial c) \<noteq> map_option (manifest_sha256 h) (mc_fault c)
      then Inl (ValueError ''cell fault manifest does not match its trial'') else Inr c)"

definition cell_to_dict :: "matrix_cell \<Rightarrow> params" where
  "cell_to_dict c =
     [(''trial'', PDict (trial_to_dict (mc_trial c))),
      (''fault_manifest'', opt_value (\<lambda>m. PDict (manifest_to_dict m)) (mc_fault c)),
      (''semantic_version'', PStr (mc_semantic_version c))]"

definition cell_sha256 :: "hasher \<Rightarrow> matrix_cell \<Rightarrow> string" where
  "cell_sha256 h c = canonical_hash h (PDict (cell_to_dict c))"

definition cell_pair_key :: "hasher \<Rightarrow> matrix_cell \<Rightarrow> string" where
  "cell_pair_key h c = pair_key h (mc_trial c)"

definition cell_operator_id :: "matrix_cell \<Rightarrow> string option" where
  "cell_operator_id c = map_option (\<lambda>m. operator_name (fm_operator_id m)) (mc_fault c)"

definition cell_severity_level :: "matrix_cell \<Rightarrow> int option" where
  "cell_severity_level c = map_option fm_severity_level (mc_fault c)"

definition cell_native_dose :: "matrix_cell \<Rightarrow> pyval option result" where
  "cell_native_dose c =
     (case mc_fault c of None \<Rightarrow> Inr None
      | Some m \<Rightarrow> bindr (severity_value (fm_operator_id m) (fm_severity_level m)) (\<lambda>dose. Inr (Some dose)))"

definition cell_from_dict :: "hasher \<Rightarrow> pyval \<Rightarrow> matrix_cell result" where
  "cell_from_dict h v =
     bindr (mapping_fields [''trial'', ''fault_manifest'', ''semantic_version''] v) (\<lambda>d.
     bindr (case dget d ''trial'' of PDict t \<Rightarrow> Inr t
            | _ \<Rightarrow> Inl (TypeError ''matrix cell trial must be an object'')) (\<lambda>t.
     bindr (case dget d ''fault_manifest'' of PNone \<Rightarrow> Inr None | PDict m \<Rightarrow> Inr (Some m)
            | _ \<Rightarrow> Inl (TypeError ''matrix cell fault manifest must be an object or null'')) (\<lambda>m.
     bindr (trial_from_dict h t) (\<lambda>trial.
     bindr (case m of None \<Rightarrow> Inr None
            | Some m \<Rightarrow> bindr (manifest_from_dict h m) (\<lambda>m. Inr (Some m))) (\<lambda>fault.
     bindr (json_text (dget d ''semantic_version'')) (\<lambda>semver.
     cell_init h \<lparr>mc_trial = trial, mc_fault = fault, mc_semantic_version = semver\<rparr>))))))"

definition cell_ok :: "hasher \<Rightarrow> matrix_cell \<Rightarrow> bool" where
  "cell_ok h c \<longleftrightarrow> trial_ok h (mc_trial c) \<and> (\<forall>m\<in>set_option (mc_fault c). manifest_ok h m) \<and> cell_init h c = Inr c"

lemma cell_init_id: "cell_init h c = Inr c' \<Longrightarrow> c' = c"
  by (auto simp: cell_init_def split: if_splits)

section \<open>Comparison rows\<close>

record matrix_row =
  mr_point_id :: string
  mr_focus_id :: string
  mr_operator_id :: operator_id
  mr_severity_level :: int
  mr_native_dose :: pyval
  mr_restoration_index :: int
  mr_clean :: string
  mr_faulted :: string
  mr_no_touch :: string
  mr_restored :: string

text \<open>The constructor, called with keyword arguments (\<open>cls(**value)\<close>), whose values it checks.\<close>

definition row_init :: "params \<Rightarrow> matrix_row result" where
  "row_init d =
     bindr (json_text (dget d ''point_id'')) (\<lambda>point.
     bindr (json_text (dget d ''focus_id'')) (\<lambda>focus.
     bindr (json_text (dget d ''operator_id'')) (\<lambda>name.
     case operator_of_name name of
       None \<Rightarrow> Inl (ValueError ''comparison operator is not registered'')
     | Some op \<Rightarrow>
         bindr (json_bounded 1 (dget d ''severity_level'')) (\<lambda>severity.
         if 5 < severity then Inl (ValueError ''severity_level must be in [1, 5]'')
         else bindr (severity_value op severity) (\<lambda>dose.
              if dget d ''native_dose'' \<noteq> dose
              then Inl (ValueError ''comparison native dose does not match the registry'')
              else bindr (json_bounded 0 (dget d ''restoration_index'')) (\<lambda>index.
                bindr (json_sha256 (dget d ''clean_cell_sha256'')) (\<lambda>clean.
                bindr (json_sha256 (dget d ''faulted_cell_sha256'')) (\<lambda>faulted.
                bindr (json_sha256 (dget d ''no_touch_cell_sha256'')) (\<lambda>no_touch.
                bindr (json_sha256 (dget d ''restored_cell_sha256'')) (\<lambda>restored.
                Inr \<lparr>mr_point_id = point, mr_focus_id = focus, mr_operator_id = op, mr_severity_level = severity,
                     mr_native_dose = dose, mr_restoration_index = index, mr_clean = clean, mr_faulted = faulted,
                     mr_no_touch = no_touch, mr_restored = restored\<rparr>))))))))))"

definition row_to_dict :: "matrix_row \<Rightarrow> params" where
  "row_to_dict r =
     [(''point_id'', PStr (mr_point_id r)), (''focus_id'', PStr (mr_focus_id r)),
      (''operator_id'', PStr (operator_name (mr_operator_id r))),
      (''severity_level'', PInt (mr_severity_level r)), (''native_dose'', mr_native_dose r),
      (''restoration_index'', PInt (mr_restoration_index r)),
      (''clean_cell_sha256'', PStr (mr_clean r)), (''faulted_cell_sha256'', PStr (mr_faulted r)),
      (''no_touch_cell_sha256'', PStr (mr_no_touch r)), (''restored_cell_sha256'', PStr (mr_restored r))]"

definition ROW_FIELDS :: "string list" where
  "ROW_FIELDS =
     [''point_id'', ''focus_id'', ''operator_id'', ''severity_level'', ''native_dose'', ''restoration_index'',
      ''clean_cell_sha256'', ''faulted_cell_sha256'', ''no_touch_cell_sha256'', ''restored_cell_sha256'']"

definition row_from_dict :: "pyval \<Rightarrow> matrix_row result" where
  "row_from_dict v = bindr (mapping_fields ROW_FIELDS v) row_init"

definition row_ok :: "matrix_row \<Rightarrow> bool" where
  "row_ok r \<longleftrightarrow>
     \<not> blank (mr_point_id r) \<and> \<not> blank (mr_focus_id r) \<and> 1 \<le> mr_severity_level r \<and> mr_severity_level r \<le> 5 \<and>
     severity_value (mr_operator_id r) (mr_severity_level r) = Inr (mr_native_dose r) \<and> 0 \<le> mr_restoration_index r \<and>
     is_sha256 (mr_clean r) \<and> is_sha256 (mr_faulted r) \<and> is_sha256 (mr_no_touch r) \<and> is_sha256 (mr_restored r)"

lemma operator_name_text [simp]: "\<not> blank (operator_name op)"
  by (cases op) (simp_all add: blank_def)

lemma json_bounded_Inr: "json_bounded minimum v = Inr i \<longleftrightarrow> v = PInt i \<and> minimum \<le> i"
  by (cases v) auto

lemma json_sha256_Inr: "json_sha256 v = Inr s \<longleftrightarrow> v = PStr s \<and> is_sha256 s"
  by (cases v) (auto simp: result_simps)

lemma row_init_ok: "row_init d = Inr r \<Longrightarrow> row_ok r"
  by (auto simp: row_init_def row_ok_def bindr_eq_Inr json_text_Inr json_bounded_Inr json_sha256_Inr
      split: option.splits if_splits)

lemma row_reload: "row_ok r \<Longrightarrow> row_from_dict (PDict (row_to_dict r)) = Inr r"
  by (cases r) (simp add: row_from_dict_def mapping_fields_def ROW_FIELDS_def row_to_dict_def row_init_def dget_def row_ok_def)

end
