(* ===== verification/Matrix_Results.thy ===== *)
theory Matrix_Results
  imports Matrix_Contracts
begin

text \<open>
  Cell outcomes: what an executor returns and the receipt of a cell (\<open>matrix/results.py\<close>).
\<close>

section \<open>Status\<close>

datatype cell_status = Pending | Completed_cell | Crashed_cell | Unsupported_cell | Rejected_cell

fun status_value :: "cell_status \<Rightarrow> string" where
  "status_value Pending = ''pending''"
| "status_value Completed_cell = ''completed''"
| "status_value Crashed_cell = ''crash''"
| "status_value Unsupported_cell = ''unsupported''"
| "status_value Rejected_cell = ''validator_rejected''"

definition CELL_STATUSES :: "cell_status list" where
  "CELL_STATUSES = [Pending, Completed_cell, Crashed_cell, Unsupported_cell, Rejected_cell]"

definition status_of :: "string \<Rightarrow> cell_status result" where
  "status_of s =
     (case find (\<lambda>st. status_value st = s) CELL_STATUSES of
        None \<Rightarrow> Inl (ValueError ''is not a valid MatrixCellStatus'') | Some st \<Rightarrow> Inr st)"

lemma status_of_value [simp]: "status_of (status_value st) = Inr st"
  by (cases st) (simp_all add: status_of_def CELL_STATUSES_def)

lemma status_value_text [simp]: "\<not> blank (status_value st)"
  by (cases st) (simp_all add: blank_def)

lemma condition_value_text [simp]: "\<not> blank (condition_value c)"
  by (cases c) (simp_all add: blank_def)

section \<open>Artifacts and outcomes\<close>

record artifact_reference =
  ar_result_sha256 :: string
  ar_root_receipt_sha256 :: string
  ar_evidence_level :: string

definition artifact_init :: "artifact_reference \<Rightarrow> artifact_reference result" where
  "artifact_init a =
     bindr (check_sha (ar_result_sha256 a)) (\<lambda>_.
     bindr (check_sha (ar_root_receipt_sha256 a)) (\<lambda>_.
     bindr (require_text (ar_evidence_level a)) (\<lambda>_. Inr a)))"

definition artifact_to_dict :: "artifact_reference \<Rightarrow> params" where
  "artifact_to_dict a =
     [(''result_sha256'', PStr (ar_result_sha256 a)), (''root_receipt_sha256'', PStr (ar_root_receipt_sha256 a)),
      (''evidence_level'', PStr (ar_evidence_level a))]"

definition artifact_from_dict :: "pyval \<Rightarrow> artifact_reference result" where
  "artifact_from_dict v =
     bindr (mapping_fields [''result_sha256'', ''root_receipt_sha256'', ''evidence_level''] v) (\<lambda>d.
     bindr (json_sha256 (dget d ''result_sha256'')) (\<lambda>r.
     bindr (json_sha256 (dget d ''root_receipt_sha256'')) (\<lambda>root_sha.
     bindr (json_text (dget d ''evidence_level'')) (\<lambda>level.
     artifact_init \<lparr>ar_result_sha256 = r, ar_root_receipt_sha256 = root_sha, ar_evidence_level = level\<rparr>))))"

record cell_execution =
  cx_status :: cell_status
  cx_artifact :: "artifact_reference option"
  cx_failure_code :: "string option"

definition execution_check :: "cell_execution \<Rightarrow> cell_execution result" where
  "execution_check x =
     (if cx_status x = Pending then Inl (ValueError ''an executor cannot return a pending outcome'')
      else bindr (case cx_failure_code x of None \<Rightarrow> Inr () | Some code \<Rightarrow> require_text code) (\<lambda>_.
        if cx_status x = Completed_cell
        then (if cx_artifact x = None \<or> cx_failure_code x \<noteq> None
              then Inl (ValueError ''completed execution requires an artifact and no failure'') else Inr x)
        else if cx_status x = Rejected_cell
        then (if cx_artifact x = None \<or> cx_failure_code x = None
              then Inl (ValueError ''validator rejection requires artifact and failure code'') else Inr x)
        else if cx_failure_code x = None
        then Inl (ValueError ''crash/unsupported execution requires a failure code'') else Inr x))"

definition execution_crash :: "string \<Rightarrow> cell_execution result" where
  "execution_crash code =
     execution_check \<lparr>cx_status = Crashed_cell, cx_artifact = None, cx_failure_code = Some code\<rparr>"

text \<open>\<open>ClosedLoopTrialResult.sha256\<close>: a dataclass is hashed by its fields, which have the JSON form.\<close>

definition result_sha256 :: "hasher \<Rightarrow> trial_result \<Rightarrow> string" where
  "result_sha256 h r = canonical_hash h (PDict (result_to_dict r))"

text \<open>\<open>code or fallback\<close>.\<close>

definition code_or :: "string option \<Rightarrow> string \<Rightarrow> string" where
  "code_or code fallback = (case code of None \<Rightarrow> fallback | Some c \<Rightarrow> if c = [] then fallback else c)"

definition execution_from_closed_loop :: "hasher \<Rightarrow> trial_result \<Rightarrow> string \<Rightarrow> string \<Rightarrow> cell_execution result" where
  "execution_from_closed_loop h r root_sha level =
     bindr (artifact_init \<lparr>ar_result_sha256 = result_sha256 h r, ar_root_receipt_sha256 = root_sha,
              ar_evidence_level = level\<rparr>) (\<lambda>a.
     execution_check
       (if tr_terminal_status r = CRASH
        then \<lparr>cx_status = Crashed_cell, cx_artifact = Some a, cx_failure_code = Some (code_or (tr_failure_code r) ''crash'')\<rparr>
        else if tr_terminal_status r = UNSUPPORTED_CONTRACT
        then \<lparr>cx_status = Unsupported_cell, cx_artifact = Some a,
              cx_failure_code = Some (code_or (tr_failure_code r) ''unsupported_contract'')\<rparr>
        else if tr_terminal_status r = VALIDATOR_REJECTED
        then \<lparr>cx_status = Rejected_cell, cx_artifact = Some a,
              cx_failure_code = Some (code_or (tr_failure_code r) ''validator_rejected'')\<rparr>
        else \<lparr>cx_status = Completed_cell, cx_artifact = Some a, cx_failure_code = None\<rparr>))"

lemma artifact_init_id: "artifact_init a = Inr b \<Longrightarrow> b = a"
  by (auto simp: artifact_init_def bindr_eq_Inr)

lemma execution_check_id: "execution_check x = Inr y \<Longrightarrow> y = x"
  by (auto simp: execution_check_def bindr_eq_Inr split: if_splits)

section \<open>Receipts\<close>

definition validate_fault_metadata :: "condition \<Rightarrow> string option \<Rightarrow> int option \<Rightarrow> unit result" where
  "validate_fault_metadata condition operator severity =
     (if (condition \<in> {FAULTED, RESTORED}) \<noteq> (operator \<noteq> None \<and> severity \<noteq> None)
      then Inl (ValueError ''fault metadata must exist exactly for faulted/restored cells'')
      else bindr (case operator of None \<Rightarrow> Inr () | Some op \<Rightarrow> require_text op) (\<lambda>_.
           case severity of None \<Rightarrow> Inr ()
           | Some level \<Rightarrow>
               if level < 1 then Inl (ValueError ''must be at least'')
               else if 5 < level then Inl (ValueError ''severity_level must be in [1, 5]'') else Inr ()))"

record cell_receipt =
  cr_cell_sha256 :: string
  cr_trial_manifest_sha256 :: string
  cr_task :: string
  cr_pair_key :: string
  cr_condition :: condition
  cr_operator_id :: "string option"
  cr_severity_level :: "int option"
  cr_status :: cell_status
  cr_artifact :: "artifact_reference option"
  cr_failure_code :: "string option"
  cr_semantic_version :: string

definition cell_receipt_init :: "cell_receipt \<Rightarrow> cell_receipt result" where
  "cell_receipt_init r =
     bindr (check_sha (cr_cell_sha256 r)) (\<lambda>_.
     bindr (check_sha (cr_trial_manifest_sha256 r)) (\<lambda>_.
     bindr (check_sha (cr_pair_key r)) (\<lambda>_.
     bindr (require_text (cr_task r)) (\<lambda>_.
     if cr_status r = Pending then Inl (ValueError ''persisted cell receipt cannot be pending'')
     else if cr_semantic_version r \<noteq> MATRIX_SEMANTIC_VERSION
     then Inl (ValueError ''unsupported matrix receipt semantic version'')
     else bindr (validate_fault_metadata (cr_condition r) (cr_operator_id r) (cr_severity_level r)) (\<lambda>_.
          bindr (execution_check \<lparr>cx_status = cr_status r, cx_artifact = cr_artifact r,
                   cx_failure_code = cr_failure_code r\<rparr>) (\<lambda>_. Inr r))))))"

definition receipt_from_execution :: "hasher \<Rightarrow> matrix_cell \<Rightarrow> cell_execution \<Rightarrow> cell_receipt result" where
  "receipt_from_execution h c x =
     cell_receipt_init
       \<lparr>cr_cell_sha256 = cell_sha256 h c, cr_trial_manifest_sha256 = trial_sha256 h (mc_trial c),
        cr_task = tm_task (mc_trial c), cr_pair_key = cell_pair_key h c, cr_condition = tm_condition (mc_trial c),
        cr_operator_id = cell_operator_id c, cr_severity_level = cell_severity_level c, cr_status = cx_status x,
        cr_artifact = cx_artifact x, cr_failure_code = cx_failure_code x,
        cr_semantic_version = MATRIX_SEMANTIC_VERSION\<rparr>"

definition cell_receipt_to_dict :: "cell_receipt \<Rightarrow> params" where
  "cell_receipt_to_dict r =
     [(''cell_sha256'', PStr (cr_cell_sha256 r)), (''trial_manifest_sha256'', PStr (cr_trial_manifest_sha256 r)),
      (''task'', PStr (cr_task r)), (''pair_key'', PStr (cr_pair_key r)),
      (''condition'', PStr (condition_value (cr_condition r))), (''operator_id'', opt_str (cr_operator_id r)),
      (''severity_level'', opt_value PInt (cr_severity_level r)), (''status'', PStr (status_value (cr_status r))),
      (''artifact'', opt_value (\<lambda>a. PDict (artifact_to_dict a)) (cr_artifact r)),
      (''failure_code'', opt_str (cr_failure_code r)), (''semantic_version'', PStr (cr_semantic_version r))]"

definition cell_receipt_sha256 :: "hasher \<Rightarrow> cell_receipt \<Rightarrow> string" where
  "cell_receipt_sha256 h r = canonical_hash h (PDict (cell_receipt_to_dict r))"

fun json_opt_text :: "pyval \<Rightarrow> string option result" where
  "json_opt_text PNone = Inr None"
| "json_opt_text v = bindr (json_text v) (\<lambda>s. Inr (Some s))"

fun json_opt_bounded :: "pyval \<Rightarrow> int option result" where
  "json_opt_bounded PNone = Inr None"
| "json_opt_bounded v = bindr (json_bounded 0 v) (\<lambda>i. Inr (Some i))"

fun json_opt_artifact :: "pyval \<Rightarrow> artifact_reference option result" where
  "json_opt_artifact PNone = Inr None"
| "json_opt_artifact v = bindr (artifact_from_dict v) (\<lambda>a. Inr (Some a))"

definition CELL_RECEIPT_FIELDS :: "string list" where
  "CELL_RECEIPT_FIELDS =
     [''cell_sha256'', ''trial_manifest_sha256'', ''task'', ''pair_key'', ''condition'', ''operator_id'',
      ''severity_level'', ''status'', ''artifact'', ''failure_code'', ''semantic_version'']"

definition cell_receipt_from_dict :: "pyval \<Rightarrow> cell_receipt result" where
  "cell_receipt_from_dict v =
     bindr (mapping_fields CELL_RECEIPT_FIELDS v) (\<lambda>d.
     bindr (json_sha256 (dget d ''cell_sha256'')) (\<lambda>cell.
     bindr (json_sha256 (dget d ''trial_manifest_sha256'')) (\<lambda>trial.
     bindr (json_text (dget d ''task'')) (\<lambda>task.
     bindr (json_sha256 (dget d ''pair_key'')) (\<lambda>pair.
     bindr (bindr (json_text (dget d ''condition'')) condition_of) (\<lambda>condition.
     bindr (json_opt_text (dget d ''operator_id'')) (\<lambda>operator.
     bindr (json_opt_bounded (dget d ''severity_level'')) (\<lambda>severity.
     bindr (bindr (json_text (dget d ''status'')) status_of) (\<lambda>status.
     bindr (json_opt_artifact (dget d ''artifact'')) (\<lambda>artifact.
     bindr (json_opt_text (dget d ''failure_code'')) (\<lambda>failure.
     bindr (json_text (dget d ''semantic_version'')) (\<lambda>semver.
     cell_receipt_init
       \<lparr>cr_cell_sha256 = cell, cr_trial_manifest_sha256 = trial, cr_task = task, cr_pair_key = pair,
        cr_condition = condition, cr_operator_id = operator, cr_severity_level = severity, cr_status = status,
        cr_artifact = artifact, cr_failure_code = failure, cr_semantic_version = semver\<rparr>))))))))))))"

definition artifact_ok :: "artifact_reference option \<Rightarrow> bool" where
  "artifact_ok a \<longleftrightarrow> (\<forall>x. a = Some x \<longrightarrow> artifact_init x = Inr x)"

definition cell_receipt_ok :: "cell_receipt \<Rightarrow> bool" where
  "cell_receipt_ok r \<longleftrightarrow> cell_receipt_init r = Inr r \<and> artifact_ok (cr_artifact r)"

lemma cell_receipt_init_id: "cell_receipt_init r = Inr s \<Longrightarrow> s = r"
  by (auto simp: cell_receipt_init_def bindr_eq_Inr split: if_splits)

lemma artifact_reload: "artifact_init a = Inr a \<Longrightarrow> artifact_from_dict (PDict (artifact_to_dict a)) = Inr a"
  by (cases a)
     (auto simp: artifact_from_dict_def artifact_to_dict_def mapping_fields_def dget_def artifact_init_def bindr_eq_Inr)

lemma json_opt_text_opt [simp]: "(\<And>s. x = Some s \<Longrightarrow> \<not> blank s) \<Longrightarrow> json_opt_text (opt_str x) = Inr x"
  by (cases x) (simp_all add: opt_value_def)

lemma json_opt_bounded_opt [simp]: "(\<And>i. x = Some i \<Longrightarrow> 0 \<le> i) \<Longrightarrow> json_opt_bounded (opt_value PInt x) = Inr x"
  by (cases x) (simp_all add: opt_value_def)

lemma json_opt_artifact_opt [simp]:
  "artifact_ok a \<Longrightarrow> json_opt_artifact (opt_value (\<lambda>a. PDict (artifact_to_dict a)) a) = Inr a"
  by (cases a) (simp_all add: opt_value_def artifact_ok_def artifact_reload)

lemma fault_metadata_Inr:
  assumes "validate_fault_metadata c op sev = Inr u"
  shows "\<And>s. op = Some s \<Longrightarrow> \<not> blank s" "\<And>i. sev = Some i \<Longrightarrow> 1 \<le> i \<and> i \<le> 5"
  using assms by (auto simp: validate_fault_metadata_def bindr_eq_Inr split: if_splits option.splits)

lemma execution_check_code: "execution_check x = Inr y \<Longrightarrow> cx_failure_code x = Some s \<Longrightarrow> \<not> blank s"
  by (auto simp: execution_check_def bindr_eq_Inr split: if_splits)

lemma receipt_init_fields:
  assumes "cell_receipt_init r = Inr s"
  shows "is_sha256 (cr_cell_sha256 r)" "is_sha256 (cr_trial_manifest_sha256 r)" "is_sha256 (cr_pair_key r)"
    "\<not> blank (cr_task r)" "cr_status r \<noteq> Pending" "cr_semantic_version r = MATRIX_SEMANTIC_VERSION"
    "validate_fault_metadata (cr_condition r) (cr_operator_id r) (cr_severity_level r) = Inr ()"
    "\<exists>x. execution_check \<lparr>cx_status = cr_status r, cx_artifact = cr_artifact r, cx_failure_code = cr_failure_code r\<rparr> = Inr x"
  using assms by (auto simp: cell_receipt_init_def bindr_eq_Inr split: if_splits)

lemma semver_text [simp]: "\<not> blank MATRIX_SEMANTIC_VERSION"
  by (simp add: MATRIX_SEMANTIC_VERSION_def blank_def)

lemma cell_receipt_reload:
  assumes "cell_receipt_ok r"
  shows "cell_receipt_from_dict (PDict (cell_receipt_to_dict r)) = Inr r"
proof -
  have init: "cell_receipt_init r = Inr r" "artifact_ok (cr_artifact r)" using assms by (simp_all add: cell_receipt_ok_def)
  note f = receipt_init_fields [OF init(1)]
  note m = fault_metadata_Inr [OF f(7)]
  obtain x where x: "execution_check \<lparr>cx_status = cr_status r, cx_artifact = cr_artifact r,
      cx_failure_code = cr_failure_code r\<rparr> = Inr x" using f(8) by blast
  have code: "cr_failure_code r = Some s \<Longrightarrow> \<not> blank s" for s using execution_check_code [OF x] by simp
  have sev: "cr_severity_level r = Some i \<Longrightarrow> 0 \<le> i" for i using m(2) by fastforce
  note readers = json_opt_text_opt [of "cr_operator_id r", OF m(1)] json_opt_text_opt [of "cr_failure_code r", OF code]
    json_opt_bounded_opt [of "cr_severity_level r", OF sev] json_opt_artifact_opt [OF init(2)]
  show ?thesis
    using init(1) f readers
    by (cases r) (simp add: cell_receipt_from_dict_def mapping_fields_def CELL_RECEIPT_FIELDS_def cell_receipt_to_dict_def
        dget_def)
qed

end
