(* ===== verification/Matrix_States.thy ===== *)
theory Matrix_States
  imports Matrix_Results
begin

text \<open>
  Cell states (\<open>matrix/states.py\<close>), the final summary and the accounting of one invocation
  (\<open>matrix/summary.py\<close>).
\<close>

section \<open>States\<close>

record cell_state =
  cs_cell_sha256 :: string
  cs_trial_manifest_sha256 :: string
  cs_task :: string
  cs_pair_key :: string
  cs_condition :: condition
  cs_operator_id :: "string option"
  cs_severity_level :: "int option"
  cs_status :: cell_status
  cs_receipt_sha256 :: "string option"
  cs_artifact :: "artifact_reference option"
  cs_failure_code :: "string option"

definition cell_state_init :: "cell_state \<Rightarrow> cell_state result" where
  "cell_state_init s =
     bindr (check_sha (cs_cell_sha256 s)) (\<lambda>_.
     bindr (check_sha (cs_trial_manifest_sha256 s)) (\<lambda>_.
     bindr (check_sha (cs_pair_key s)) (\<lambda>_.
     bindr (require_text (cs_task s)) (\<lambda>_.
     bindr (validate_fault_metadata (cs_condition s) (cs_operator_id s) (cs_severity_level s)) (\<lambda>_.
     if cs_status s = Pending
     then (if cs_receipt_sha256 s \<noteq> None \<or> cs_artifact s \<noteq> None \<or> cs_failure_code s \<noteq> None
           then Inl (ValueError ''pending state cannot reference a terminal receipt'') else Inr s)
     else bindr (case cs_receipt_sha256 s of None \<Rightarrow> Inl (ValueError ''must be a lowercase SHA256'')
                 | Some sha \<Rightarrow> check_sha sha) (\<lambda>_.
          bindr (execution_check \<lparr>cx_status = cs_status s, cx_artifact = cs_artifact s,
                   cx_failure_code = cs_failure_code s\<rparr>) (\<lambda>_. Inr s)))))))"

definition state_from_cell ::
    "hasher \<Rightarrow> matrix_cell \<Rightarrow> cell_status \<Rightarrow> string option \<Rightarrow> artifact_reference option \<Rightarrow> string option \<Rightarrow>
     cell_state result" where
  "state_from_cell h c status receipt artifact code =
     cell_state_init
       \<lparr>cs_cell_sha256 = cell_sha256 h c, cs_trial_manifest_sha256 = trial_sha256 h (mc_trial c),
        cs_task = tm_task (mc_trial c), cs_pair_key = cell_pair_key h c, cs_condition = tm_condition (mc_trial c),
        cs_operator_id = cell_operator_id c, cs_severity_level = cell_severity_level c, cs_status = status,
        cs_receipt_sha256 = receipt, cs_artifact = artifact, cs_failure_code = code\<rparr>"

definition state_pending :: "hasher \<Rightarrow> matrix_cell \<Rightarrow> cell_state result" where
  "state_pending h c = state_from_cell h c Pending None None None"

definition state_from_receipt :: "hasher \<Rightarrow> matrix_cell \<Rightarrow> cell_receipt \<Rightarrow> cell_state result" where
  "state_from_receipt h c r =
     state_from_cell h c (cr_status r) (Some (cell_receipt_sha256 h r)) (cr_artifact r) (cr_failure_code r)"

definition cell_state_to_dict :: "cell_state \<Rightarrow> params" where
  "cell_state_to_dict s =
     [(''cell_sha256'', PStr (cs_cell_sha256 s)), (''trial_manifest_sha256'', PStr (cs_trial_manifest_sha256 s)),
      (''task'', PStr (cs_task s)), (''pair_key'', PStr (cs_pair_key s)),
      (''condition'', PStr (condition_value (cs_condition s))), (''operator_id'', opt_str (cs_operator_id s)),
      (''severity_level'', opt_value PInt (cs_severity_level s)), (''status'', PStr (status_value (cs_status s))),
      (''receipt_sha256'', opt_str (cs_receipt_sha256 s)),
      (''artifact'', opt_value (\<lambda>a. PDict (artifact_to_dict a)) (cs_artifact s)),
      (''failure_code'', opt_str (cs_failure_code s))]"

definition CELL_STATE_FIELDS :: "string list" where
  "CELL_STATE_FIELDS =
     [''cell_sha256'', ''trial_manifest_sha256'', ''task'', ''pair_key'', ''condition'', ''operator_id'',
      ''severity_level'', ''status'', ''receipt_sha256'', ''artifact'', ''failure_code'']"

definition cell_state_from_dict :: "pyval \<Rightarrow> cell_state result" where
  "cell_state_from_dict v =
     bindr (mapping_fields CELL_STATE_FIELDS v) (\<lambda>d.
     bindr (json_sha256 (dget d ''cell_sha256'')) (\<lambda>cell.
     bindr (json_sha256 (dget d ''trial_manifest_sha256'')) (\<lambda>trial.
     bindr (json_text (dget d ''task'')) (\<lambda>task.
     bindr (json_sha256 (dget d ''pair_key'')) (\<lambda>pair.
     bindr (bindr (json_text (dget d ''condition'')) condition_of) (\<lambda>condition.
     bindr (json_opt_text (dget d ''operator_id'')) (\<lambda>operator.
     bindr (json_opt_bounded (dget d ''severity_level'')) (\<lambda>severity.
     bindr (bindr (json_text (dget d ''status'')) status_of) (\<lambda>status.
     bindr (json_opt_sha (dget d ''receipt_sha256'')) (\<lambda>receipt.
     bindr (json_opt_artifact (dget d ''artifact'')) (\<lambda>artifact.
     bindr (json_opt_text (dget d ''failure_code'')) (\<lambda>code.
     cell_state_init
       \<lparr>cs_cell_sha256 = cell, cs_trial_manifest_sha256 = trial, cs_task = task, cs_pair_key = pair,
        cs_condition = condition, cs_operator_id = operator, cs_severity_level = severity, cs_status = status,
        cs_receipt_sha256 = receipt, cs_artifact = artifact, cs_failure_code = code\<rparr>))))))))))))"

definition cell_state_ok :: "cell_state \<Rightarrow> bool" where
  "cell_state_ok s \<longleftrightarrow> cell_state_init s = Inr s \<and> artifact_ok (cs_artifact s)"

lemma cell_state_init_id: "cell_state_init s = Inr t \<Longrightarrow> t = s"
  by (auto simp: cell_state_init_def bindr_eq_Inr split: if_splits)

lemma state_init_fields:
  assumes "cell_state_init s = Inr t"
  shows "is_sha256 (cs_cell_sha256 s)" "is_sha256 (cs_trial_manifest_sha256 s)" "is_sha256 (cs_pair_key s)"
    "\<not> blank (cs_task s)"
    "validate_fault_metadata (cs_condition s) (cs_operator_id s) (cs_severity_level s) = Inr ()"
    "\<And>x. cs_receipt_sha256 s = Some x \<Longrightarrow> is_sha256 x"
    "\<And>code. cs_failure_code s = Some code \<Longrightarrow> \<not> blank code"
  using assms
  by (auto simp: cell_state_init_def bindr_eq_Inr dest: execution_check_code split: if_splits option.splits)

lemma json_opt_sha_opt [simp]: "(\<And>s. x = Some s \<Longrightarrow> is_sha256 s) \<Longrightarrow> json_opt_sha (opt_str x) = Inr x"
  by (cases x) (simp_all add: opt_value_def)

lemma cell_state_reload:
  assumes "cell_state_ok s"
  shows "cell_state_from_dict (PDict (cell_state_to_dict s)) = Inr s"
proof -
  have init: "cell_state_init s = Inr s" "artifact_ok (cs_artifact s)" using assms by (simp_all add: cell_state_ok_def)
  note f = state_init_fields [OF init(1)]
  note m = fault_metadata_Inr [OF f(5)]
  have sev: "cs_severity_level s = Some i \<Longrightarrow> 0 \<le> i" for i using m(2) by fastforce
  note readers = json_opt_text_opt [of "cs_operator_id s", OF m(1)] json_opt_text_opt [of "cs_failure_code s", OF f(7)]
    json_opt_bounded_opt [of "cs_severity_level s", OF sev] json_opt_artifact_opt [OF init(2)]
    json_opt_sha_opt [of "cs_receipt_sha256 s", OF f(6)]
  show ?thesis
    using init(1) f(1-4) readers
    by (cases s) (simp add: cell_state_from_dict_def mapping_fields_def CELL_STATE_FIELDS_def cell_state_to_dict_def
        dget_def)
qed

section \<open>The summary\<close>

record matrix_summary =
  ms_matrix_id :: string
  ms_kind :: grid_kind
  ms_manifest_sha256 :: string
  ms_pair_key :: string
  ms_cells :: "cell_state list"
  ms_semantic_version :: string

definition matrix_summary_init :: "matrix_summary \<Rightarrow> matrix_summary result" where
  "matrix_summary_init m =
     bindr (require_text (ms_matrix_id m)) (\<lambda>_.
     bindr (check_sha (ms_manifest_sha256 m)) (\<lambda>_.
     bindr (check_sha (ms_pair_key m)) (\<lambda>_.
     if ms_semantic_version m \<noteq> MATRIX_SEMANTIC_VERSION
     then Inl (ValueError ''unsupported matrix summary semantic version'')
     else if ms_cells m = [] then Inl (ValueError ''matrix summary requires typed cell states'')
     else if list_ex (\<lambda>c. cs_status c = Pending) (ms_cells m)
     then Inl (ValueError ''final matrix summary cannot contain pending cells'')
     else if \<not> distinct (map cs_cell_sha256 (ms_cells m))
     then Inl (ValueError ''matrix summary cell addresses must be unique'')
     else if set (map cs_pair_key (ms_cells m)) \<noteq> {ms_pair_key m}
     then Inl (ValueError ''matrix summary cells must share its pair key'') else Inr m)))"

definition count_status :: "cell_status \<Rightarrow> cell_state list \<Rightarrow> int" where
  "count_status status cells = int (length (filter (\<lambda>c. cs_status c = status) cells))"

definition status_counts :: "matrix_summary \<Rightarrow> (cell_status \<times> int) list" where
  "status_counts m = map (\<lambda>status. (status, count_status status (ms_cells m))) CELL_STATUSES"

definition matrix_summary_to_dict :: "matrix_summary \<Rightarrow> params" where
  "matrix_summary_to_dict m =
     [(''matrix_id'', PStr (ms_matrix_id m)), (''kind'', PStr (kind_value (ms_kind m))),
      (''manifest_sha256'', PStr (ms_manifest_sha256 m)), (''pair_key'', PStr (ms_pair_key m)),
      (''cells'', PList (map (\<lambda>c. PDict (cell_state_to_dict c)) (ms_cells m))),
      (''status_counts'', PDict (map (\<lambda>(status, n). (status_value status, PInt n)) (status_counts m))),
      (''semantic_version'', PStr (ms_semantic_version m))]"

definition matrix_summary_sha256 :: "hasher \<Rightarrow> matrix_summary \<Rightarrow> string" where
  "matrix_summary_sha256 h m = canonical_hash h (PDict (matrix_summary_to_dict m))"

definition SUMMARY_FIELDS :: "string list" where
  "SUMMARY_FIELDS =
     [''matrix_id'', ''kind'', ''manifest_sha256'', ''pair_key'', ''cells'', ''status_counts'', ''semantic_version'']"

text \<open>The counts are read in the order of the enumeration (the code iterates over a set).\<close>

definition matrix_summary_from_dict :: "pyval \<Rightarrow> matrix_summary result" where
  "matrix_summary_from_dict v =
     bindr (mapping_fields SUMMARY_FIELDS v) (\<lambda>d.
     case (dget d ''cells'', dget d ''status_counts'') of
       (PList cells, PDict counts) \<Rightarrow>
         if set (map fst counts) \<noteq> set (map status_value CELL_STATUSES)
         then Inl (ValueError ''matrix summary status count fields mismatch'')
         else bindr (json_text (dget d ''matrix_id'')) (\<lambda>mid.
              bindr (bindr (json_text (dget d ''kind'')) kind_of) (\<lambda>kind.
              bindr (json_sha256 (dget d ''manifest_sha256'')) (\<lambda>sha.
              bindr (json_sha256 (dget d ''pair_key'')) (\<lambda>pair.
              bindr (mapr cell_state_from_dict cells) (\<lambda>states.
              bindr (json_text (dget d ''semantic_version'')) (\<lambda>semver.
              bindr (matrix_summary_init
                \<lparr>ms_matrix_id = mid, ms_kind = kind, ms_manifest_sha256 = sha, ms_pair_key = pair,
                 ms_cells = states, ms_semantic_version = semver\<rparr>) (\<lambda>summary.
              bindr (mapr (\<lambda>status. json_bounded 0 (dget counts (status_value status))) CELL_STATUSES) (\<lambda>normalized.
              if normalized \<noteq> map snd (status_counts summary)
              then Inl (ValueError ''matrix summary status counts disagree with cells'')
              else Inr summary))))))))
     | _ \<Rightarrow> Inl (TypeError ''matrix summary cells/counts have invalid types''))"

definition matrix_summary_ok :: "matrix_summary \<Rightarrow> bool" where
  "matrix_summary_ok m \<longleftrightarrow> matrix_summary_init m = Inr m \<and> list_all cell_state_ok (ms_cells m)"

lemma matrix_summary_init_id: "matrix_summary_init m = Inr n \<Longrightarrow> n = m"
  by (auto simp: matrix_summary_init_def bindr_eq_Inr split: if_splits)

lemma summary_init_fields:
  assumes "matrix_summary_init m = Inr n"
  shows "\<not> blank (ms_matrix_id m)" "is_sha256 (ms_manifest_sha256 m)" "is_sha256 (ms_pair_key m)"
    "ms_semantic_version m = MATRIX_SEMANTIC_VERSION" "ms_cells m \<noteq> []" "\<forall>c\<in>set (ms_cells m). cs_status c \<noteq> Pending"
    "distinct (map cs_cell_sha256 (ms_cells m))" "\<forall>c\<in>set (ms_cells m). cs_pair_key c = ms_pair_key m"
  using assms by (auto simp: matrix_summary_init_def bindr_eq_Inr list_ex_iff split: if_splits)

lemma matrix_summary_reload:
  assumes "matrix_summary_ok m"
  shows "matrix_summary_from_dict (PDict (matrix_summary_to_dict m)) = Inr m"
proof -
  have init: "matrix_summary_init m = Inr m" "list_all cell_state_ok (ms_cells m)"
    using assms by (simp_all add: matrix_summary_ok_def)
  note f = summary_init_fields [OF init(1)]
  have cells: "mapr cell_state_from_dict (map (\<lambda>c. PDict (cell_state_to_dict c)) (ms_cells m)) = Inr (ms_cells m)"
    using init(2) by (induction "ms_cells m" arbitrary: m rule: list.induct)
      (auto simp: mapr_iff_list_all2 list_all2_map1 list.rel_refl_strong list_all_iff cell_state_reload)
  have get: "d = matrix_summary_to_dict m \<Longrightarrow>
      dget d ''cells'' = PList (map (\<lambda>c. PDict (cell_state_to_dict c)) (ms_cells m)) \<and>
      dget d ''status_counts'' = PDict (map (\<lambda>(status, n). (status_value status, PInt n)) (status_counts m)) \<and>
      dget d ''matrix_id'' = PStr (ms_matrix_id m) \<and> dget d ''kind'' = PStr (kind_value (ms_kind m)) \<and>
      dget d ''manifest_sha256'' = PStr (ms_manifest_sha256 m) \<and> dget d ''pair_key'' = PStr (ms_pair_key m) \<and>
      dget d ''semantic_version'' = PStr (ms_semantic_version m)" for d
    by (simp add: matrix_summary_to_dict_def dget_def)
  have fields: "mapping_fields SUMMARY_FIELDS (PDict (matrix_summary_to_dict m)) = Inr (matrix_summary_to_dict m)"
    by (simp add: mapping_fields_def SUMMARY_FIELDS_def matrix_summary_to_dict_def)
  have counts: "mapr (\<lambda>status. json_bounded 0 (dget (map (\<lambda>(status, n). (status_value status, PInt n)) (status_counts m))
      (status_value status))) CELL_STATUSES = Inr (map snd (status_counts m))"
    by (simp add: status_counts_def CELL_STATUSES_def dget_def count_status_def)
  have keys: "set (map fst (map (\<lambda>(status, n). (status_value status, PInt n)) (status_counts m))) =
      set (map status_value CELL_STATUSES)"
    by (simp add: status_counts_def CELL_STATUSES_def)
  have m: "\<lparr>ms_matrix_id = ms_matrix_id m, ms_kind = ms_kind m, ms_manifest_sha256 = ms_manifest_sha256 m,
      ms_pair_key = ms_pair_key m, ms_cells = ms_cells m, ms_semantic_version = ms_semantic_version m\<rparr> = m" by simp
  have "\<not> blank (ms_semantic_version m)" using f(4) by simp
  then show ?thesis
    unfolding matrix_summary_from_dict_def fields bindr_simps
    by (simp only: get [OF refl] prod.case pyval.case keys if_False not_True_eq_False refl json_text.simps
        require_text_ok [OF f(1)] f(2,3) bindr_simps kind_value_text cells json_sha256.simps check_sha_ok kind_of_value
        semver_text require_text_ok m init(1) counts simp_thms)
qed

section \<open>Accounting\<close>

record matrix_run =
  rr_states :: "cell_state list"
  rr_summary :: "matrix_summary option"
  rr_executed :: int
  rr_reused :: int
  rr_pending :: int

definition matrix_run_init :: "matrix_run \<Rightarrow> matrix_run result" where
  "matrix_run_init r =
     (if rr_states r = [] then Inl (ValueError ''matrix run result requires typed states'')
      else if rr_executed r < 0 \<or> rr_reused r < 0 \<or> rr_pending r < 0 then Inl (ValueError ''must be at least'')
      else if rr_executed r + rr_reused r + rr_pending r \<noteq> int (length (rr_states r))
      then Inl (ValueError ''matrix run accounting does not cover every requested cell'')
      else if count_status Pending (rr_states r) \<noteq> rr_pending r
      then Inl (ValueError ''matrix run pending count disagrees with states'')
      else if (rr_summary r = None) \<noteq> (0 < rr_pending r)
      then Inl (ValueError ''matrix summary exists exactly when no cells are pending'')
      else if (case rr_summary r of None \<Rightarrow> False | Some m \<Rightarrow> ms_cells m \<noteq> rr_states r)
      then Inl (ValueError ''matrix run summary does not match invocation states'') else Inr r)"

lemma matrix_run_init_id: "matrix_run_init r = Inr s \<Longrightarrow> s = r"
  by (auto simp: matrix_run_init_def split: if_splits)

end
