(* ===== verification/Matrix_Manifests.thy ===== *)
theory Matrix_Manifests
  imports Matrix_States Manifest_Roundtrip "HOL-Library.Multiset"
begin

text \<open>
  The materialized matrix (\<open>matrix/manifest.py\<close>): unique cells, comparison rows that refer to them,
  and the cross-link validation.
\<close>

record matrix_manifest =
  mm_matrix_id :: string
  mm_kind :: grid_kind
  mm_pair_key :: string
  mm_cells :: "matrix_cell list"
  mm_comparisons :: "matrix_row list"
  mm_semantic_version :: string

type_synonym cell_lookup = "string \<Rightarrow> matrix_cell option"

section \<open>Rows\<close>

definition validate_operator_instance ::
    "hasher \<Rightarrow> matrix_row \<Rightarrow> matrix_cell \<Rightarrow> matrix_cell \<Rightarrow> unit result" where
  "validate_operator_instance h row faulted restored =
     (case (mc_fault faulted, mc_fault restored) of
        (Some fault, Some restored_fault) \<Rightarrow>
          if \<not> same_instance fault restored_fault
          then Inl (ValueError ''matrix comparison crossed operator instances'')
          else if \<not> py_eq (PDict (static_parameter_view (fm_parameters fault)))
                          (PDict (static_parameter_view (fm_parameters restored_fault)))
          then Inl (ValueError ''matrix comparison crossed operator instances'')
          else if fm_stop_index restored_fault \<noteq> mr_restoration_index row \<or>
                  fm_stop_index fault \<le> mr_restoration_index row \<or>
                  tm_restoration_index (mc_trial restored) \<noteq> Some (mr_restoration_index row)
          then Inl (ValueError ''matrix comparison restoration index disagrees with cell'')
          else (case tm_restoration_mode (mc_trial restored) of
              None \<Rightarrow> Inl (ValueError ''matrix restored cell lost its restoration mode'')
            | Some mode \<Rightarrow>
                if mr_point_id row \<noteq> canonical_hash h
                     (PDict [(''focus_id'', PStr (mr_focus_id row)),
                             (''fault_manifest_sha256'', PStr (manifest_sha256 h fault)),
                             (''restoration_index'', PInt (mr_restoration_index row)),
                             (''restoration_mode'', PStr (restoration_value mode))])
                then Inl (ValueError ''matrix point ID does not bind its operator instance'') else Inr ())
      | _ \<Rightarrow> Inl (ValueError ''matrix fault cells lost their operator instance''))"

definition row_references :: "matrix_row \<Rightarrow> (condition \<times> string) list" where
  "row_references row =
     [(CLEAN, mr_clean row), (FAULTED, mr_faulted row), (NO_TOUCH, mr_no_touch row), (RESTORED, mr_restored row)]"

definition referenced_cell :: "cell_lookup \<Rightarrow> condition \<Rightarrow> string \<Rightarrow> matrix_cell result" where
  "referenced_cell lookup condition address =
     (case lookup address of
        None \<Rightarrow> Inl (ValueError ''matrix comparison references the wrong cell condition'')
      | Some cell \<Rightarrow>
          if tm_condition (mc_trial cell) \<noteq> condition
          then Inl (ValueError ''matrix comparison references the wrong cell condition'') else Inr cell)"

definition validate_row :: "hasher \<Rightarrow> cell_lookup \<Rightarrow> matrix_row \<Rightarrow> string list result" where
  "validate_row h lookup row =
     bindr (referenced_cell lookup CLEAN (mr_clean row)) (\<lambda>_.
     bindr (referenced_cell lookup FAULTED (mr_faulted row)) (\<lambda>faulted.
     bindr (referenced_cell lookup NO_TOUCH (mr_no_touch row)) (\<lambda>_.
     bindr (referenced_cell lookup RESTORED (mr_restored row)) (\<lambda>restored.
     if list_ex (\<lambda>cell. cell_operator_id cell \<noteq> Some (operator_name (mr_operator_id row)) \<or>
                    cell_severity_level cell \<noteq> Some (mr_severity_level row)) [faulted, restored]
     then Inl (ValueError ''matrix comparison fault metadata disagrees with cell'')
     else bindr (validate_operator_instance h row faulted restored) (\<lambda>_.
          Inr (map snd (row_references row)))))))"

section \<open>The inventory\<close>

definition PRIMARY_GRID :: "(operator_id \<times> int) list" where
  "PRIMARY_GRID = [(op, level). op \<leftarrow> CORE_OPERATOR_IDS, level \<leftarrow> [1, 2, 3, 4, 5]]"

definition count_condition :: "condition \<Rightarrow> matrix_cell list \<Rightarrow> nat" where
  "count_condition c cells = length (filter (\<lambda>cell. tm_condition (mc_trial cell) = c) cells)"

definition validate_inventory :: "hasher \<Rightarrow> matrix_manifest \<Rightarrow> unit result" where
  "validate_inventory h m =
     (let cells = mm_cells m; rows = mm_comparisons m; addresses = map (cell_sha256 h) cells in
      if cells = [] \<or> rows = [] then Inl (ValueError ''matrix manifest must contain cells and comparisons'')
      else if \<not> distinct addresses then Inl (ValueError ''matrix cells must be content-address unique'')
      else if set (map (cell_pair_key h) cells) \<noteq> {mm_pair_key m}
      then Inl (ValueError ''matrix cells must share the frozen pair key'')
      else if list_ex (\<lambda>cell. case mc_fault cell of None \<Rightarrow> False | Some f \<Rightarrow> fm_observability f \<noteq> BLIND) cells
      then Inl (ValueError ''matrix fault manifests must all be blind'')
      else if count_condition CLEAN cells \<noteq> 1
      then Inl (ValueError ''matrix must contain exactly one clean baseline'')
      else if count_condition NO_TOUCH cells \<noteq> 1
      then Inl (ValueError ''matrix must contain exactly one no-touch baseline'')
      else if \<not> distinct (map mr_point_id rows)
      then Inl (ValueError ''matrix comparison point IDs must be unique'')
      else bindr (mapr (validate_row h (map_of (zip addresses cells))) rows) (\<lambda>referenced.
           if set (concat referenced) \<noteq> set addresses then Inl (ValueError ''matrix contains unreferenced cells'')
           else if mm_kind m = PRIMARY \<and>
                   (length rows \<noteq> 70 \<or>
                    set (map (\<lambda>r. (mr_operator_id r, mr_severity_level r)) rows) \<noteq> set PRIMARY_GRID)
           then Inl (ValueError ''primary matrix must contain the complete blind 14 x 5 grid'')
           else Inr ()))"

definition matrix_manifest_init :: "hasher \<Rightarrow> matrix_manifest \<Rightarrow> matrix_manifest result" where
  "matrix_manifest_init h m =
     bindr (require_text (mm_matrix_id m)) (\<lambda>_.
     bindr (check_sha (mm_pair_key m)) (\<lambda>_.
     if mm_semantic_version m \<noteq> MATRIX_SEMANTIC_VERSION
     then Inl (ValueError ''unsupported matrix manifest semantic version'')
     else bindr (validate_inventory h m) (\<lambda>_. Inr m)))"

definition matrix_manifest_to_dict :: "matrix_manifest \<Rightarrow> params" where
  "matrix_manifest_to_dict m =
     [(''matrix_id'', PStr (mm_matrix_id m)), (''kind'', PStr (kind_value (mm_kind m))),
      (''pair_key'', PStr (mm_pair_key m)),
      (''cells'', PList (map (\<lambda>c. PDict (cell_to_dict c)) (mm_cells m))),
      (''comparisons'', PList (map (\<lambda>r. PDict (row_to_dict r)) (mm_comparisons m))),
      (''semantic_version'', PStr (mm_semantic_version m))]"

definition matrix_manifest_sha256 :: "hasher \<Rightarrow> matrix_manifest \<Rightarrow> string" where
  "matrix_manifest_sha256 h m = canonical_hash h (PDict (matrix_manifest_to_dict m))"

definition MATRIX_FIELDS :: "string list" where
  "MATRIX_FIELDS = [''matrix_id'', ''kind'', ''pair_key'', ''cells'', ''comparisons'', ''semantic_version'']"

definition matrix_manifest_from_dict :: "hasher \<Rightarrow> pyval \<Rightarrow> matrix_manifest result" where
  "matrix_manifest_from_dict h v =
     bindr (mapping_fields MATRIX_FIELDS v) (\<lambda>d.
     case (dget d ''cells'', dget d ''comparisons'') of
       (PList cells, PList comparisons) \<Rightarrow>
         bindr (json_text (dget d ''matrix_id'')) (\<lambda>mid.
         bindr (bindr (json_text (dget d ''kind'')) kind_of) (\<lambda>kind.
         bindr (json_sha256 (dget d ''pair_key'')) (\<lambda>pair.
         bindr (mapr (cell_from_dict h) cells) (\<lambda>cells.
         bindr (mapr row_from_dict comparisons) (\<lambda>rows.
         bindr (json_text (dget d ''semantic_version'')) (\<lambda>semver.
         matrix_manifest_init h
           \<lparr>mm_matrix_id = mid, mm_kind = kind, mm_pair_key = pair, mm_cells = cells, mm_comparisons = rows,
            mm_semantic_version = semver\<rparr>))))))
     | _ \<Rightarrow> Inl (TypeError ''matrix manifest cells/comparisons must be lists''))"

section \<open>Valid matrices\<close>

definition matrix_manifest_ok :: "hasher \<Rightarrow> matrix_manifest \<Rightarrow> bool" where
  "matrix_manifest_ok h m \<longleftrightarrow>
     matrix_manifest_init h m = Inr m \<and> list_all (cell_ok h) (mm_cells m) \<and> list_all row_ok (mm_comparisons m)"

lemma matrix_manifest_init_id: "matrix_manifest_init h m = Inr n \<Longrightarrow> n = m"
  by (auto simp: matrix_manifest_init_def bindr_eq_Inr split: if_splits)

lemma inventory_fields:
  assumes "validate_inventory h m = Inr u"
  shows "mm_cells m \<noteq> []" "mm_comparisons m \<noteq> []" "distinct (map (cell_sha256 h) (mm_cells m))"
    "\<forall>c\<in>set (mm_cells m). cell_pair_key h c = mm_pair_key m"
    "count_condition CLEAN (mm_cells m) = 1" "count_condition NO_TOUCH (mm_cells m) = 1"
    "distinct (map mr_point_id (mm_comparisons m))"
    "\<exists>referenced. mapr (validate_row h (map_of (zip (map (cell_sha256 h) (mm_cells m)) (mm_cells m)))) (mm_comparisons m) =
       Inr referenced \<and> set (concat referenced) = set (map (cell_sha256 h) (mm_cells m))"
    "mm_kind m = PRIMARY \<Longrightarrow> length (mm_comparisons m) = 70 \<and>
       set (map (\<lambda>r. (mr_operator_id r, mr_severity_level r)) (mm_comparisons m)) = set PRIMARY_GRID"
  using assms unfolding validate_inventory_def Let_def
  by (auto simp: bindr_eq_Inr split: if_splits)

lemma manifest_init_fields:
  assumes "matrix_manifest_init h m = Inr n"
  shows "\<not> blank (mm_matrix_id m)" "is_sha256 (mm_pair_key m)" "mm_semantic_version m = MATRIX_SEMANTIC_VERSION"
    "validate_inventory h m = Inr ()"
  using assms by (auto simp: matrix_manifest_init_def bindr_eq_Inr split: if_splits)

text \<open>A row of a valid matrix refers to one cell of every condition.\<close>

lemma referenced_cell_Inr:
  "referenced_cell lookup c address = Inr cell \<longleftrightarrow> lookup address = Some cell \<and> tm_condition (mc_trial cell) = c"
  by (auto simp: referenced_cell_def split: option.splits)

lemma lookup_cell:
  assumes "map_of (zip (map (cell_sha256 h) cells) cells) address = Some cell"
  shows "cell \<in> set cells \<and> cell_sha256 h cell = address"
proof -
  from map_of_SomeD [OF assms] show ?thesis by (auto simp: set_zip)
qed

definition row_linked :: "hasher \<Rightarrow> matrix_cell list \<Rightarrow> matrix_row \<Rightarrow> bool" where
  "row_linked h cells row \<longleftrightarrow>
     (\<exists>clean faulted no_touch restored f g. {clean, faulted, no_touch, restored} \<subseteq> set cells \<and>
        map (cell_sha256 h) [clean, faulted, no_touch, restored] =
          [mr_clean row, mr_faulted row, mr_no_touch row, mr_restored row] \<and>
        map (\<lambda>c. tm_condition (mc_trial c)) [clean, faulted, no_touch, restored] = [CLEAN, FAULTED, NO_TOUCH, RESTORED] \<and>
        mc_fault faulted = Some f \<and> mc_fault restored = Some g \<and> same_instance f g \<and>
        fm_operator_id f = mr_operator_id row \<and> fm_severity_level f = mr_severity_level row \<and>
        fm_stop_index g = mr_restoration_index row \<and> mr_restoration_index row < fm_stop_index f \<and>
        tm_restoration_index (mc_trial restored) = Some (mr_restoration_index row))"

lemma operator_instance_Inr:
  assumes "validate_operator_instance h row faulted restored = Inr u"
  shows "\<exists>f g. mc_fault faulted = Some f \<and> mc_fault restored = Some g \<and> same_instance f g \<and>
    fm_stop_index g = mr_restoration_index row \<and> mr_restoration_index row < fm_stop_index f \<and>
    tm_restoration_index (mc_trial restored) = Some (mr_restoration_index row)"
  using assms by (auto simp: validate_operator_instance_def split: option.splits if_splits)

lemma validate_row_linked:
  assumes "validate_row h (map_of (zip (map (cell_sha256 h) cells) cells)) row = Inr refs"
  shows "row_linked h cells row \<and> refs = [mr_clean row, mr_faulted row, mr_no_touch row, mr_restored row]"
proof -
  let ?lookup = "map_of (zip (map (cell_sha256 h) cells) cells)"
  obtain clean faulted no_touch restored where cells:
    "referenced_cell ?lookup CLEAN (mr_clean row) = Inr clean"
    "referenced_cell ?lookup FAULTED (mr_faulted row) = Inr faulted"
    "referenced_cell ?lookup NO_TOUCH (mr_no_touch row) = Inr no_touch"
    "referenced_cell ?lookup RESTORED (mr_restored row) = Inr restored"
    and meta: "cell_operator_id faulted = Some (operator_name (mr_operator_id row))"
      "cell_severity_level faulted = Some (mr_severity_level row)"
    and inst: "validate_operator_instance h row faulted restored = Inr ()"
    and refs: "refs = map snd (row_references row)"
    using assms by (auto simp: validate_row_def bindr_eq_Inr split: if_splits)
  obtain f g where fg: "mc_fault faulted = Some f" "mc_fault restored = Some g" "same_instance f g"
    "fm_stop_index g = mr_restoration_index row" "mr_restoration_index row < fm_stop_index f"
    "tm_restoration_index (mc_trial restored) = Some (mr_restoration_index row)"
    using operator_instance_Inr [OF inst] by blast
  have "fm_operator_id f = mr_operator_id row" "fm_severity_level f = mr_severity_level row"
    using meta fg(1) by (simp_all add: cell_operator_id_def cell_severity_level_def)
  with cells fg have "row_linked h cells row"
    unfolding row_linked_def referenced_cell_Inr
    by (intro exI [of _ clean] exI [of _ faulted] exI [of _ no_touch] exI [of _ restored] exI [of _ f] exI [of _ g])
       (auto dest: lookup_cell)
  with refs show ?thesis by (simp add: row_references_def)
qed

lemma inventory_linked:
  assumes "validate_inventory h m = Inr u"
  shows "\<forall>row\<in>set (mm_comparisons m). row_linked h (mm_cells m) row"
    "set (map (cell_sha256 h) (mm_cells m)) = (\<Union>row\<in>set (mm_comparisons m). set (map snd (row_references row)))"
proof -
  obtain referenced where r: "mapr (validate_row h (map_of (zip (map (cell_sha256 h) (mm_cells m)) (mm_cells m))))
      (mm_comparisons m) = Inr referenced" "set (concat referenced) = set (map (cell_sha256 h) (mm_cells m))"
    using inventory_fields(8) [OF assms] by blast
  from r(1) have all: "list_all2 (\<lambda>row refs. row_linked h (mm_cells m) row \<and> refs = map snd (row_references row))
      (mm_comparisons m) referenced"
    unfolding mapr_iff_list_all2
    by (rule list.rel_mono_strong) (use validate_row_linked in \<open>fastforce simp: row_references_def\<close>)
  then show "\<forall>row\<in>set (mm_comparisons m). row_linked h (mm_cells m) row"
    by (auto simp: list_all2_conv_all_nth in_set_conv_nth)
  have "referenced = map (\<lambda>row. map snd (row_references row)) (mm_comparisons m)"
    using all by (auto simp: list_all2_conv_all_nth intro: nth_equalityI)
  with r(2) show "set (map (cell_sha256 h) (mm_cells m)) =
      (\<Union>row\<in>set (mm_comparisons m). set (map snd (row_references row)))" by simp
qed

text \<open>Seventy rows over seventy pairs: every operator at every level exactly once.\<close>

lemma primary_grid_distinct: "distinct PRIMARY_GRID" "length PRIMARY_GRID = 70"
  by code_simp+

lemma primary_rows:
  assumes "validate_inventory h m = Inr u" "mm_kind m = PRIMARY"
  shows "distinct (map (\<lambda>r. (mr_operator_id r, mr_severity_level r)) (mm_comparisons m))"
    "mset (map (\<lambda>r. (mr_operator_id r, mr_severity_level r)) (mm_comparisons m)) = mset PRIMARY_GRID"
proof -
  let ?pairs = "map (\<lambda>r. (mr_operator_id r, mr_severity_level r)) (mm_comparisons m)"
  have set: "set ?pairs = set PRIMARY_GRID" and len: "length ?pairs = 70"
    using inventory_fields(9) [OF assms] by simp_all
  have "card (set ?pairs) = 70"
    using set distinct_card [OF primary_grid_distinct(1)] primary_grid_distinct(2) by simp
  with len show d: "distinct ?pairs" by (metis card_distinct)
  from set d primary_grid_distinct(1) show "mset ?pairs = mset PRIMARY_GRID" by (metis set_eq_iff_mset_eq_distinct)
qed

section \<open>Reading a matrix back\<close>

text \<open>The A2 window in which the erasure schedule survives the round trip through JSON.\<close>

definition cell_reloadable :: "matrix_cell \<Rightarrow> bool" where
  "cell_reloadable c \<longleftrightarrow> (\<forall>m\<in>set_option (mc_fault c). fm_operator_id m = A2_frame_erasure \<longrightarrow>
     fm_stop_index m - fm_start_index m \<le> 2 ^ 26)"

lemma cell_reload:
  assumes "cell_ok h c" "cell_reloadable c"
  shows "cell_from_dict h (PDict (cell_to_dict c)) = Inr c"
proof -
  have trial: "trial_from_dict h (trial_to_dict (mc_trial c)) = Inr (mc_trial c)"
    using assms(1) trial_reload by (simp add: cell_ok_def trial_ok_def)
  have semver: "mc_semantic_version c = MATRIX_SEMANTIC_VERSION"
    using assms(1) by (auto simp: cell_ok_def cell_init_def split: if_splits)
  show ?thesis
  proof (cases "mc_fault c")
    case None
    with trial semver assms(1) show ?thesis
      by (cases c) (simp add: cell_from_dict_def cell_to_dict_def mapping_fields_def dget_def opt_value_def cell_ok_def)
  next
    case (Some m)
    then have "manifest_from_dict h (manifest_to_dict m) = Inr m"
      using assms by (intro manifest_reload) (auto simp: cell_ok_def cell_reloadable_def)
    with trial semver assms(1) Some show ?thesis
      by (cases c) (simp add: cell_from_dict_def cell_to_dict_def mapping_fields_def dget_def opt_value_def cell_ok_def)
  qed
qed

lemma matrix_manifest_reload:
  assumes "matrix_manifest_ok h m" "list_all cell_reloadable (mm_cells m)"
  shows "matrix_manifest_from_dict h (PDict (matrix_manifest_to_dict m)) = Inr m"
proof -
  have init: "matrix_manifest_init h m = Inr m" using assms(1) by (simp add: matrix_manifest_ok_def)
  note f = manifest_init_fields [OF init]
  have cells: "mapr (cell_from_dict h) (map (\<lambda>c. PDict (cell_to_dict c)) (mm_cells m)) = Inr (mm_cells m)"
    using assms cell_reload
    by (auto simp: mapr_iff_list_all2 list_all2_map1 list_all_iff matrix_manifest_ok_def intro: list.rel_refl_strong)
  have rows: "mapr row_from_dict (map (\<lambda>r. PDict (row_to_dict r)) (mm_comparisons m)) = Inr (mm_comparisons m)"
    using assms(1) row_reload
    by (auto simp: mapr_iff_list_all2 list_all2_map1 list_all_iff matrix_manifest_ok_def intro: list.rel_refl_strong)
  have fields: "mapping_fields MATRIX_FIELDS (PDict (matrix_manifest_to_dict m)) = Inr (matrix_manifest_to_dict m)"
    by (simp add: mapping_fields_def MATRIX_FIELDS_def matrix_manifest_to_dict_def)
  have get: "d = matrix_manifest_to_dict m \<Longrightarrow>
      dget d ''cells'' = PList (map (\<lambda>c. PDict (cell_to_dict c)) (mm_cells m)) \<and>
      dget d ''comparisons'' = PList (map (\<lambda>r. PDict (row_to_dict r)) (mm_comparisons m)) \<and>
      dget d ''matrix_id'' = PStr (mm_matrix_id m) \<and> dget d ''kind'' = PStr (kind_value (mm_kind m)) \<and>
      dget d ''pair_key'' = PStr (mm_pair_key m) \<and> dget d ''semantic_version'' = PStr (mm_semantic_version m)" for d
    by (simp add: matrix_manifest_to_dict_def dget_def)
  have m: "\<lparr>mm_matrix_id = mm_matrix_id m, mm_kind = mm_kind m, mm_pair_key = mm_pair_key m, mm_cells = mm_cells m,
      mm_comparisons = mm_comparisons m, mm_semantic_version = mm_semantic_version m\<rparr> = m" by simp
  have "\<not> blank (mm_semantic_version m)" using f(3) by simp
  then show ?thesis
    unfolding matrix_manifest_from_dict_def fields bindr_simps
    by (simp only: get [OF refl] prod.case pyval.case json_text.simps require_text_ok [OF f(1)] f(2) bindr_simps
        kind_value_text cells rows json_sha256.simps check_sha_ok kind_of_value require_text_ok m init not_False_eq_True)
qed

end
