(* ===== verification/Matrix_Builders.thy ===== *)
theory Matrix_Builders
  imports Matrix_Manifests
begin

text \<open>
  The deterministic four-condition matrix builders (\<open>matrix/builders.py\<close>).  Python strings order by
  code points, which the list order of the characters' codes is.
\<close>

section \<open>Orders\<close>

text \<open>Sorting by a tuple key is sorting by its parts, from the last to the first (both sorts are stable).\<close>

definition codes :: "string \<Rightarrow> nat list" where
  "codes s = map of_char s"

fun list_le :: "nat list \<Rightarrow> nat list \<Rightarrow> bool" where
  "list_le [] ys = True"
| "list_le (x # xs) [] = False"
| "list_le (x # xs) (y # ys) = (x < y \<or> (x = y \<and> list_le xs ys))"

definition str_le :: "string \<Rightarrow> string \<Rightarrow> bool" where
  "str_le s t \<longleftrightarrow> list_le (codes s) (codes t)"

text \<open>Insertion sort over a total preorder, stable.\<close>

fun insert_by :: "('a \<Rightarrow> 'a \<Rightarrow> bool) \<Rightarrow> 'a \<Rightarrow> 'a list \<Rightarrow> 'a list" where
  "insert_by le x [] = [x]"
| "insert_by le x (y # ys) = (if le x y then x # y # ys else y # insert_by le x ys)"

fun sort_by :: "('a \<Rightarrow> 'a \<Rightarrow> bool) \<Rightarrow> 'a list \<Rightarrow> 'a list" where
  "sort_by le [] = []"
| "sort_by le (x # xs) = insert_by le x (sort_by le xs)"

text \<open>The order of tuples of strings and integers.\<close>

datatype key_part = Text_key string | Int_key int

fun key_le :: "key_part list \<Rightarrow> key_part list \<Rightarrow> bool" where
  "key_le (Text_key s # ks) (Text_key t # ls) = ((s \<noteq> t \<and> str_le s t) \<or> (s = t \<and> key_le ks ls))"
| "key_le (Int_key i # ks) (Int_key j # ls) = (i < j \<or> (i = j \<and> key_le ks ls))"
| "key_le ks ls = (ks = [])"

lemma set_insert_by [simp]: "set (insert_by le x xs) = insert x (set xs)"
  by (induction xs) auto

lemma set_sort_by [simp]: "set (sort_by le xs) = set xs"
  by (induction xs) auto

lemma length_insert_by [simp]: "length (insert_by le x xs) = Suc (length xs)"
  by (induction xs) auto

lemma length_sort_by [simp]: "length (sort_by le xs) = length xs"
  by (induction xs) auto

lemma mset_insert_by [simp]: "mset (insert_by le x xs) = add_mset x (mset xs)"
  by (induction xs) auto

lemma mset_sort_by [simp]: "mset (sort_by le xs) = mset xs"
  by (induction xs) auto

section \<open>Cells in order\<close>

fun condition_rank :: "condition \<Rightarrow> int" where
  "condition_rank CLEAN = 0"
| "condition_rank NO_TOUCH = 1"
| "condition_rank FAULTED = 2"
| "condition_rank RESTORED = 3"

definition cell_key :: "hasher \<Rightarrow> matrix_cell \<Rightarrow> key_part list" where
  "cell_key h c =
     [Int_key (condition_rank (tm_condition (mc_trial c))),
      Text_key (case cell_operator_id c of None \<Rightarrow> [] | Some op \<Rightarrow> op),
      Int_key (case cell_severity_level c of None \<Rightarrow> 0 | Some level \<Rightarrow> level),
      Int_key (case tm_restoration_index (mc_trial c) of None \<Rightarrow> 0 | Some i \<Rightarrow> i), Text_key (cell_sha256 h c)]"

definition ordered_cells :: "hasher \<Rightarrow> matrix_cell list \<Rightarrow> matrix_cell list" where
  "ordered_cells h cells = sort_by (\<lambda>c d. key_le (cell_key h c) (cell_key h d)) cells"

section \<open>Points\<close>

definition point_key :: "hasher \<Rightarrow> grid_point \<Rightarrow> key_part list" where
  "point_key h p =
     [Text_key (operator_name (fm_operator_id (gp_fault p))), Int_key (fm_severity_level (gp_fault p)),
      Text_key (gp_focus_id p), Int_key (gp_restoration_index p), Text_key (manifest_sha256 h (gp_fault p))]"

text \<open>The arguments the three builders share.\<close>

record matrix_request =
  mq_matrix_id :: string
  mq_kind :: grid_kind
  mq_clean :: trial_manifest
  mq_restoration_mode :: restoration_mode
  mq_no_touch_system_id :: string
  mq_no_touch_checkpoint_sha256 :: string
  mq_no_touch_config_sha256 :: string

definition fresh_cell :: "hasher \<Rightarrow> trial_manifest \<Rightarrow> fault_manifest option \<Rightarrow> matrix_cell result" where
  "fresh_cell h t m =
     cell_init h \<lparr>mc_trial = t, mc_fault = m, mc_semantic_version = MATRIX_SEMANTIC_VERSION\<rparr>"

text \<open>\<open>cells_by_address.setdefault\<close>, on the dictionary in insertion order.\<close>

definition remember_cell :: "hasher \<Rightarrow> matrix_cell list \<Rightarrow> matrix_cell \<Rightarrow> matrix_cell list" where
  "remember_cell h cells c = (if cell_sha256 h c \<in> set (map (cell_sha256 h) cells) then cells else cells @ [c])"

definition build_row ::
    "hasher \<Rightarrow> matrix_request \<Rightarrow> grid_point \<Rightarrow> (matrix_cell list \<times> matrix_row) result" where
  "build_row h q p =
     (let fault = gp_fault p in
      bindr (reparameterized h fault None (Some (gp_restoration_index p))) (\<lambda>restored_fault.
      bindr (build_paired_trial_grid h (mq_clean q) fault restored_fault (gp_restoration_index p) (mq_restoration_mode q)
               (mq_no_touch_system_id q) (mq_no_touch_checkpoint_sha256 q) (mq_no_touch_config_sha256 q))
        (\<lambda>(clean, faulted, no_touch, restored).
      bindr (fresh_cell h clean None) (\<lambda>clean.
      bindr (fresh_cell h no_touch None) (\<lambda>no_touch.
      bindr (fresh_cell h faulted (Some fault)) (\<lambda>faulted.
      bindr (fresh_cell h restored (Some restored_fault)) (\<lambda>restored.
      bindr (severity_value (fm_operator_id fault) (fm_severity_level fault)) (\<lambda>dose.
      bindr (row_init
        [(''point_id'', PStr (canonical_hash h
            (PDict [(''focus_id'', PStr (gp_focus_id p)),
                    (''fault_manifest_sha256'', PStr (manifest_sha256 h fault)),
                    (''restoration_index'', PInt (gp_restoration_index p)),
                    (''restoration_mode'', PStr (restoration_value (mq_restoration_mode q)))]))),
         (''focus_id'', PStr (gp_focus_id p)), (''operator_id'', PStr (operator_name (fm_operator_id fault))),
         (''severity_level'', PInt (fm_severity_level fault)), (''native_dose'', dose),
         (''restoration_index'', PInt (gp_restoration_index p)),
         (''clean_cell_sha256'', PStr (cell_sha256 h clean)), (''faulted_cell_sha256'', PStr (cell_sha256 h faulted)),
         (''no_touch_cell_sha256'', PStr (cell_sha256 h no_touch)),
         (''restored_cell_sha256'', PStr (cell_sha256 h restored))]) (\<lambda>row.
      Inr ([clean, no_touch, faulted, restored], row))))))))))"

fun build_rows ::
    "hasher \<Rightarrow> matrix_request \<Rightarrow> grid_point list \<Rightarrow> matrix_cell list \<Rightarrow> matrix_row list \<Rightarrow>
     (matrix_cell list \<times> matrix_row list) result" where
  "build_rows h q [] cells rows = Inr (cells, rows)"
| "build_rows h q (p # ps) cells rows =
     bindr (build_row h q p) (\<lambda>(fresh, row).
     build_rows h q ps (foldl (remember_cell h) cells fresh) (rows @ [row]))"

definition build_matrix_manifest :: "hasher \<Rightarrow> matrix_request \<Rightarrow> grid_point list \<Rightarrow> matrix_manifest result" where
  "build_matrix_manifest h q points =
     (if tm_condition (mq_clean q) \<noteq> CLEAN
      then Inl (ValueError ''matrix construction must start from a clean trial'')
      else if points = [] then Inl (ValueError ''focused matrix requires typed grid points'')
      else if list_ex (\<lambda>p. fm_observability (gp_fault p) \<noteq> BLIND) points
      then Inl (ValueError ''benchmark matrix fault manifests must all be blind'')
      else if \<not> distinct (map (grid_point_sha256 h) points)
      then Inl (ValueError ''matrix grid points must be unique'')
      else let ordered = sort_by (\<lambda>p r. key_le (point_key h p) (point_key h r)) points in
           bindr (build_rows h q ordered [] []) (\<lambda>(cells, rows).
           matrix_manifest_init h
             \<lparr>mm_matrix_id = mq_matrix_id q, mm_kind = mq_kind q, mm_pair_key = pair_key h (mq_clean q),
              mm_cells = ordered_cells h cells, mm_comparisons = rows,
              mm_semantic_version = MATRIX_SEMANTIC_VERSION\<rparr>))"

definition build_focused_phase_manifest :: "hasher \<Rightarrow> matrix_request \<Rightarrow> grid_point list \<Rightarrow> matrix_manifest result" where
  "build_focused_phase_manifest h q points = build_matrix_manifest h (q\<lparr>mq_kind := FOCUSED_PHASE\<rparr>) points"

definition build_focused_restoration_manifest ::
    "hasher \<Rightarrow> matrix_request \<Rightarrow> grid_point list \<Rightarrow> matrix_manifest result" where
  "build_focused_restoration_manifest h q points =
     build_matrix_manifest h (q\<lparr>mq_kind := FOCUSED_RESTORATION\<rparr>) points"

text \<open>A severity level has one decimal digit.\<close>

definition build_primary_matrix_manifest ::
    "hasher \<Rightarrow> matrix_request \<Rightarrow> fault_manifest list \<Rightarrow> int \<Rightarrow> matrix_manifest result" where
  "build_primary_matrix_manifest h q faults restoration_index =
     (if length faults \<noteq> 70 \<or> set (map (\<lambda>m. (fm_operator_id m, fm_severity_level m)) faults) \<noteq> set PRIMARY_GRID
      then Inl (ValueError ''primary matrix requires the complete blind 14 x 5 grid'')
      else if list_ex (\<lambda>m. fm_observability m \<noteq> BLIND) faults
      then Inl (ValueError ''primary matrix fault manifests must all be blind'')
      else bindr (mapr (\<lambda>m. grid_point_init
               \<lparr>gp_focus_id = operator_name (fm_operator_id m) @ '':L'' @ [char_of (48 + nat (fm_severity_level m))],
                gp_fault = m, gp_restoration_index = restoration_index\<rparr>) faults) (\<lambda>points.
           build_matrix_manifest h (q\<lparr>mq_kind := PRIMARY\<rparr>) points))"

end
