(* ===== verification/Matrix_Store.thy ===== *)
theory Matrix_Store
  imports Matrix_Builders
begin

text \<open>
  The persisted state of a matrix run (\<open>matrix/io.py\<close>) and the resumable runner (\<open>matrix/runner.py\<close>).

  The output directory is a store: whether its two directory paths are real directories (or free), and
  the members of each.  A member is a document (a regular file with the canonical JSON text of a
  value), a regular file with any other content, or not a regular file.  Two documents have the same
  text exactly if the key-sorted forms of their values agree; the length of a text is the parameter
  \<open>sz\<close> (\<open>json.dumps\<close> prints floats, which are not modelled).  \<open>MatrixResumeError\<close> is a subclass of
  \<open>ValueError\<close>.
\<close>

section \<open>Members\<close>

datatype member = Document pyval | Garbled | Irregular

record store =
  st_real :: bool
  st_cells_real :: bool
  st_manifest :: "member option"
  st_cells :: "(string \<times> member) list"
  st_summary :: "member option"

definition empty_store :: store where
  "empty_store = \<lparr>st_real = True, st_cells_real = True, st_manifest = None, st_cells = [], st_summary = None\<rparr>"

type_synonym sizes = "pyval \<Rightarrow> nat"

definition MAX_MANIFEST_BYTES :: nat where "MAX_MANIFEST_BYTES = 16 * 1024 * 1024"

definition MAX_SUMMARY_BYTES :: nat where "MAX_SUMMARY_BYTES = 4 * 1024 * 1024"

definition MAX_RECEIPT_BYTES :: nat where "MAX_RECEIPT_BYTES = 128 * 1024"

abbreviation resume_error :: "string \<Rightarrow> 'a result" where
  "resume_error s \<equiv> Inl (ValueError s)"

text \<open>What the \<open>except\<close> clause of \<open>_load_typed\<close> turns into a \<open>MatrixResumeError\<close>.\<close>

fun strict_failure :: "exn \<Rightarrow> exn" where
  "strict_failure (ValueError s) = ValueError ''failed strict validation''"
| "strict_failure (TypeError s) = ValueError ''failed strict validation''"
| "strict_failure e = e"

definition load_typed :: "sizes \<Rightarrow> nat \<Rightarrow> (pyval \<Rightarrow> 'a result) \<Rightarrow> member option \<Rightarrow> 'a result" where
  "load_typed sz maximum factory m =
     (case m of
        Some (Document v) \<Rightarrow>
          if \<not> (0 < sz v \<and> sz v \<le> maximum) then resume_error ''matrix member size is invalid''
          else (case factory v of Inl e \<Rightarrow> Inl (strict_failure e) | Inr x \<Rightarrow> Inr x)
      | Some Garbled \<Rightarrow> resume_error ''is not canonical JSON''
      | _ \<Rightarrow> resume_error ''matrix member is not a regular file'')"

definition same_text :: "pyval \<Rightarrow> pyval \<Rightarrow> bool" where
  "same_text v w \<longleftrightarrow> canon v = canon w"

text \<open>\<open>_publish_no_clobber\<close>.\<close>

definition publish :: "member option \<Rightarrow> pyval \<Rightarrow> member result" where
  "publish old v =
     (case old of
        None \<Rightarrow> Inr (Document v)
      | Some (Document w) \<Rightarrow> if same_text w v then Inr (Document w) else resume_error ''matrix member cannot be clobbered''
      | Some m \<Rightarrow> resume_error ''matrix member cannot be clobbered'')"

section \<open>The request boundary\<close>

definition cell_receipt_path :: "hasher \<Rightarrow> matrix_cell \<Rightarrow> string" where
  "cell_receipt_path h c = cell_sha256 h c @ ''.json''"

definition load_manifest :: "hasher \<Rightarrow> sizes \<Rightarrow> store \<Rightarrow> matrix_manifest result" where
  "load_manifest h sz st = load_typed sz MAX_MANIFEST_BYTES (matrix_manifest_from_dict h) (st_manifest st)"

definition require_same_manifest :: "hasher \<Rightarrow> sizes \<Rightarrow> store \<Rightarrow> matrix_manifest \<Rightarrow> unit result" where
  "require_same_manifest h sz st m =
     bindr (load_manifest h sz st) (\<lambda>loaded.
     if loaded \<noteq> m \<or> matrix_manifest_sha256 h loaded \<noteq> matrix_manifest_sha256 h m
     then resume_error ''existing matrix manifest does not match request'' else Inr ())"

definition reject_unknown_members :: "hasher \<Rightarrow> store \<Rightarrow> matrix_manifest \<Rightarrow> unit result" where
  "reject_unknown_members h st m =
     (if list_ex (\<lambda>(name, x). x = Irregular \<or> name \<notin> set (map (cell_receipt_path h) (mm_cells m))) (st_cells st)
      then resume_error ''matrix cells directory contains an unknown member'' else Inr ())"

definition verify_matrix_output :: "hasher \<Rightarrow> sizes \<Rightarrow> store \<Rightarrow> matrix_manifest \<Rightarrow> unit result" where
  "verify_matrix_output h sz st m =
     (if \<not> st_real st then resume_error ''matrix output must be an existing real directory''
      else if \<not> st_cells_real st then resume_error ''matrix cells path must be an existing real directory''
      else bindr (require_same_manifest h sz st m) (\<lambda>_. reject_unknown_members h st m))"

definition prepare_matrix_output :: "hasher \<Rightarrow> sizes \<Rightarrow> store \<Rightarrow> matrix_manifest \<Rightarrow> store \<times> unit result" where
  "prepare_matrix_output h sz st m =
     (if \<not> st_real st then (st, resume_error ''matrix output must be a real directory'')
      else if \<not> st_cells_real st then (st, resume_error ''matrix cells path must be a real directory'')
      else if st_manifest st \<noteq> None
      then (st, bindr (require_same_manifest h sz st m) (\<lambda>_. verify_matrix_output h sz st m))
      else (case publish (st_manifest st) (PDict (matrix_manifest_to_dict m)) of
          Inl e \<Rightarrow> (st, Inl e)
        | Inr x \<Rightarrow> let st = st\<lparr>st_manifest := Some x\<rparr> in (st, verify_matrix_output h sz st m)))"

section \<open>Receipts\<close>

definition validate_receipt_cell :: "hasher \<Rightarrow> cell_receipt \<Rightarrow> matrix_cell \<Rightarrow> unit result" where
  "validate_receipt_cell h r c =
     (if cr_cell_sha256 r \<noteq> cell_sha256 h c \<or> cr_trial_manifest_sha256 r \<noteq> trial_sha256 h (mc_trial c) \<or>
         cr_task r \<noteq> tm_task (mc_trial c) \<or> cr_pair_key r \<noteq> cell_pair_key h c \<or>
         cr_condition r \<noteq> tm_condition (mc_trial c) \<or> cr_operator_id r \<noteq> cell_operator_id c \<or>
         cr_severity_level r \<noteq> cell_severity_level c
      then resume_error ''existing verified cell does not match its specification'' else Inr ())"

definition load_cell_receipt :: "hasher \<Rightarrow> sizes \<Rightarrow> store \<Rightarrow> matrix_cell \<Rightarrow> cell_receipt result" where
  "load_cell_receipt h sz st c =
     bindr (load_typed sz MAX_RECEIPT_BYTES cell_receipt_from_dict (map_of (st_cells st) (cell_receipt_path h c))) (\<lambda>r.
     bindr (validate_receipt_cell h r c) (\<lambda>_. Inr r))"

definition write_cell_receipt ::
    "hasher \<Rightarrow> sizes \<Rightarrow> store \<Rightarrow> matrix_cell \<Rightarrow> cell_receipt \<Rightarrow> store \<times> unit result" where
  "write_cell_receipt h sz st c r =
     (let path = cell_receipt_path h c; v = PDict (cell_receipt_to_dict r) in
      case validate_receipt_cell h r c of
        Inl e \<Rightarrow> (st, Inl e)
      | Inr _ \<Rightarrow>
          if map_of (st_cells st) path \<noteq> None
          then (st, bindr (load_cell_receipt h sz st c) (\<lambda>existing.
                 if existing \<noteq> r \<or> \<not> same_text (PDict (cell_receipt_to_dict existing)) v
                 then resume_error ''existing verified cell cannot be replaced'' else Inr ()))
          else (case publish None v of
              Inl e \<Rightarrow> (st, Inl e)
            | Inr x \<Rightarrow> (st\<lparr>st_cells := st_cells st @ [(path, x)]\<rparr>, Inr ())))"

section \<open>The summary\<close>

definition write_matrix_summary :: "sizes \<Rightarrow> store \<Rightarrow> matrix_summary \<Rightarrow> store \<times> unit result" where
  "write_matrix_summary sz st s =
     (let v = PDict (matrix_summary_to_dict s) in
      if st_summary st \<noteq> None
      then (st, bindr (load_typed sz MAX_SUMMARY_BYTES matrix_summary_from_dict (st_summary st)) (\<lambda>existing.
             if existing \<noteq> s \<or> \<not> same_text (PDict (matrix_summary_to_dict existing)) v
             then resume_error ''existing matrix summary cannot be clobbered'' else Inr ()))
      else (case publish None v of
          Inl e \<Rightarrow> (st, Inl e) | Inr x \<Rightarrow> (st\<lparr>st_summary := Some x\<rparr>, Inr ())))"

definition load_matrix_summary :: "hasher \<Rightarrow> sizes \<Rightarrow> store \<Rightarrow> matrix_manifest \<Rightarrow> matrix_summary result" where
  "load_matrix_summary h sz st m =
     bindr (verify_matrix_output h sz st m) (\<lambda>_.
     bindr (load_typed sz MAX_SUMMARY_BYTES matrix_summary_from_dict (st_summary st)) (\<lambda>s.
     if ms_matrix_id s \<noteq> mm_matrix_id m \<or> ms_kind s \<noteq> mm_kind m \<or>
        ms_manifest_sha256 s \<noteq> matrix_manifest_sha256 h m \<or> ms_pair_key s \<noteq> mm_pair_key m \<or>
        length (ms_cells s) \<noteq> length (mm_cells m)
     then resume_error ''matrix summary does not match its manifest''
     else bindr (mapr (\<lambda>c. bindr (load_cell_receipt h sz st c) (state_from_receipt h c)) (mm_cells m)) (\<lambda>expected.
          if ms_cells s \<noteq> expected
          then resume_error ''matrix summary does not match verified cell receipts'' else Inr s)))"

section \<open>The runner\<close>

text \<open>An executor runs one cell and may change the world outside.\<close>

type_synonym 'e executor = "matrix_cell \<Rightarrow> 'e \<Rightarrow> cell_execution result \<times> 'e"

fun exn_type :: "exn \<Rightarrow> string" where
  "exn_type (ValueError s) = ''builtins.ValueError''"
| "exn_type (TypeError s) = ''builtins.TypeError''"
| "exn_type (KeyError s) = ''builtins.KeyError''"
| "exn_type (IndexError s) = ''builtins.IndexError''"
| "exn_type (RuntimeError s) = ''builtins.RuntimeError''"

definition execute_cell :: "'e executor \<Rightarrow> matrix_cell \<Rightarrow> 'e \<Rightarrow> cell_execution result \<times> 'e" where
  "execute_cell exec c w =
     (case exec c w of
        (Inl e, w) \<Rightarrow> (execution_crash (''executor_exception:'' @ exn_type e), w)
      | (Inr x, w) \<Rightarrow> (Inr x, w))"

text \<open>A missing cell: execute it, keep its receipt, and give its state.\<close>

definition run_cell ::
    "hasher \<Rightarrow> sizes \<Rightarrow> 'e executor \<Rightarrow> matrix_cell \<Rightarrow> store \<Rightarrow> 'e \<Rightarrow> store \<times> 'e \<times> cell_state result" where
  "run_cell h sz exec c st w =
     (case execute_cell exec c w of (x, w) \<Rightarrow>
      case bindr x (receipt_from_execution h c) of
        Inl e \<Rightarrow> (st, w, Inl e)
      | Inr r \<Rightarrow>
          (case write_cell_receipt h sz st c r of
             (st, Inl e) \<Rightarrow> (st, w, Inl e)
           | (st, Inr _) \<Rightarrow> (st, w, state_from_receipt h c r)))"

fun run_cells ::
    "hasher \<Rightarrow> sizes \<Rightarrow> 'e executor \<Rightarrow> int option \<Rightarrow> matrix_cell list \<Rightarrow> cell_state list \<Rightarrow> int \<Rightarrow> int \<Rightarrow>
     store \<Rightarrow> 'e \<Rightarrow> store \<times> 'e \<times> (cell_state list \<times> int \<times> int) result" where
  "run_cells h sz exec max_new [] states executed reused st w = (st, w, Inr (states, executed, reused))"
| "run_cells h sz exec max_new (c # cs) states executed reused st w =
     (if map_of (st_cells st) (cell_receipt_path h c) \<noteq> None
      then (case bindr (load_cell_receipt h sz st c) (state_from_receipt h c) of
          Inl e \<Rightarrow> (st, w, Inl e)
        | Inr s \<Rightarrow> run_cells h sz exec max_new cs (states @ [s]) executed (reused + 1) st w)
      else if (case max_new of None \<Rightarrow> False | Some n \<Rightarrow> n \<le> executed)
      then (case state_pending h c of
          Inl e \<Rightarrow> (st, w, Inl e)
        | Inr s \<Rightarrow> run_cells h sz exec max_new cs (states @ [s]) executed reused st w)
      else (case run_cell h sz exec c st w of
          (st, w, Inl e) \<Rightarrow> (st, w, Inl e)
        | (st, w, Inr s) \<Rightarrow> run_cells h sz exec max_new cs (states @ [s]) (executed + 1) reused st w))"

definition matrix_summary_of :: "hasher \<Rightarrow> matrix_manifest \<Rightarrow> cell_state list \<Rightarrow> matrix_summary" where
  "matrix_summary_of h m states =
     \<lparr>ms_matrix_id = mm_matrix_id m, ms_kind = mm_kind m, ms_manifest_sha256 = matrix_manifest_sha256 h m,
      ms_pair_key = mm_pair_key m, ms_cells = states, ms_semantic_version = MATRIX_SEMANTIC_VERSION\<rparr>"

text \<open>Publishing the summary of a run without pending cells, and reading it back.\<close>

definition publish_summary ::
    "hasher \<Rightarrow> sizes \<Rightarrow> store \<Rightarrow> matrix_manifest \<Rightarrow> cell_state list \<Rightarrow> store \<times> matrix_summary result" where
  "publish_summary h sz st m states =
     (case matrix_summary_init (matrix_summary_of h m states) of
        Inl e \<Rightarrow> (st, Inl e)
      | Inr s \<Rightarrow>
          (case write_matrix_summary sz st s of
             (st, Inl e) \<Rightarrow> (st, Inl e)
           | (st, Inr _) \<Rightarrow> (st, load_matrix_summary h sz st m)))"

definition run_matrix ::
    "hasher \<Rightarrow> sizes \<Rightarrow> store \<Rightarrow> matrix_manifest \<Rightarrow> 'e executor \<Rightarrow> int option \<Rightarrow> 'e \<Rightarrow>
     store \<times> 'e \<times> matrix_run result" where
  "run_matrix h sz st m exec max_new w =
     (if (case max_new of None \<Rightarrow> False | Some n \<Rightarrow> n < 0)
      then (st, w, Inl (ValueError ''max_new_cells must be a non-negative integer or None''))
      else case prepare_matrix_output h sz st m of
        (st, Inl e) \<Rightarrow> (st, w, Inl e)
      | (st, Inr _) \<Rightarrow>
          if st_summary st \<noteq> None
          then (st, w, bindr (load_matrix_summary h sz st m) (\<lambda>s.
                 matrix_run_init \<lparr>rr_states = ms_cells s, rr_summary = Some s, rr_executed = 0,
                   rr_reused = int (length (ms_cells s)), rr_pending = 0\<rparr>))
          else (case run_cells h sz exec max_new (mm_cells m) [] 0 0 st w of
              (st, w, Inl e) \<Rightarrow> (st, w, Inl e)
            | (st, w, Inr (states, executed, reused)) \<Rightarrow>
                let pending = count_status Pending states in
                if pending = 0
                then (case publish_summary h sz st m states of
                    (st, Inl e) \<Rightarrow> (st, w, Inl e)
                  | (st, Inr s) \<Rightarrow> (st, w, matrix_run_init \<lparr>rr_states = states, rr_summary = Some s,
                       rr_executed = executed, rr_reused = reused, rr_pending = pending\<rparr>))
                else (st, w, matrix_run_init \<lparr>rr_states = states, rr_summary = None,
                       rr_executed = executed, rr_reused = reused, rr_pending = pending\<rparr>)))"

end
