(* ===== verification/Matrix_Runs.thy ===== *)
theory Matrix_Runs
  imports Matrix_Store
begin

text \<open>
  What holds of every matrix run, whatever the executor and whatever the directory it starts from:
  no member that exists is replaced or removed, and a run that returns accounts for every cell.
\<close>

section \<open>Members are only added\<close>

definition kept :: "store \<Rightarrow> store \<Rightarrow> bool" where
  "kept st st' \<longleftrightarrow>
     st_real st' = st_real st \<and> st_cells_real st' = st_cells_real st \<and>
     (st_manifest st \<noteq> None \<longrightarrow> st_manifest st' = st_manifest st) \<and>
     (st_summary st \<noteq> None \<longrightarrow> st_summary st' = st_summary st) \<and>
     (\<exists>added. st_cells st' = st_cells st @ added \<and> distinct (map fst added) \<and>
        set (map fst added) \<inter> set (map fst (st_cells st)) = {})"

lemma kept_refl [simp, intro]: "kept st st"
  by (simp add: kept_def)

lemma kept_trans [trans]:
  assumes "kept st st'" "kept st' st''"
  shows "kept st st''"
proof -
  obtain xs ys where "st_cells st' = st_cells st @ xs" "st_cells st'' = st_cells st' @ ys"
    "distinct (map fst xs)" "distinct (map fst ys)" "set (map fst xs) \<inter> set (map fst (st_cells st)) = {}"
    "set (map fst ys) \<inter> set (map fst (st_cells st')) = {}"
    using assms unfolding kept_def by blast
  then have "\<exists>added. st_cells st'' = st_cells st @ added \<and> distinct (map fst added) \<and>
      set (map fst added) \<inter> set (map fst (st_cells st)) = {}"
    by (intro exI [of _ "xs @ ys"]) auto
  with assms show ?thesis unfolding kept_def by metis
qed

lemma kept_member: "kept st st' \<Longrightarrow> map_of (st_cells st) path = Some x \<Longrightarrow> map_of (st_cells st') path = Some x"
  by (auto simp: kept_def map_add_Some_iff)

lemma kept_prepare: "prepare_matrix_output h sz st m = (st', r) \<Longrightarrow> kept st st'"
  by (auto simp: prepare_matrix_output_def Let_def kept_def split: if_splits sum.splits)

lemma kept_write: "write_cell_receipt h sz st c r = (st', u) \<Longrightarrow> kept st st'"
  by (auto simp: write_cell_receipt_def Let_def kept_def publish_def map_of_eq_None_iff split: if_splits sum.splits)

lemma kept_run_cell: "run_cell h sz exec c st w = (st', w', r) \<Longrightarrow> kept st st'"
  by (auto simp: run_cell_def split: prod.splits sum.splits dest: kept_write)

lemma kept_run_cells:
  "run_cells h sz exec b cs S e u st w = (st', w', r) \<Longrightarrow> kept st st'"
proof (induction h sz exec b cs S e u st w arbitrary: st' w' r rule: run_cells.induct)
  case (2 h sz exec b c cs S e u st w)
  then show ?case
    by (auto split: if_splits sum.splits prod.splits dest: kept_run_cell intro: kept_trans)
qed simp

lemma kept_publish: "publish_summary h sz st m S = (st', r) \<Longrightarrow> kept st st'"
  by (auto simp: publish_summary_def write_matrix_summary_def Let_def kept_def publish_def
      split: if_splits sum.splits prod.splits)

lemma kept_run_matrix: "run_matrix h sz st m exec b w = (st', w', r) \<Longrightarrow> kept st st'"
  unfolding run_matrix_def Let_def
  by (auto split: if_splits sum.splits prod.splits dest!: kept_prepare kept_run_cells kept_publish
      intro: kept_trans kept_trans [OF kept_trans])

text \<open>Only receipts of the matrix are added.\<close>

definition adds :: "hasher \<Rightarrow> matrix_cell set \<Rightarrow> store \<Rightarrow> store \<Rightarrow> bool" where
  "adds h C st st' \<longleftrightarrow> set (map fst (st_cells st')) \<subseteq> set (map fst (st_cells st)) \<union> cell_receipt_path h ` C"

lemma adds_refl [simp]: "adds h C st st"
  by (simp add: adds_def)

lemma adds_trans [trans]: "adds h C st st' \<Longrightarrow> adds h C st' st'' \<Longrightarrow> adds h C st st''"
  unfolding adds_def by blast

lemma adds_run_cell: "run_cell h sz exec c st w = (st', w', r) \<Longrightarrow> c \<in> C \<Longrightarrow> adds h C st st'"
  by (auto simp: run_cell_def write_cell_receipt_def Let_def adds_def rev_image_eqI
      split: prod.splits sum.splits if_splits)

lemma adds_run_cells: "run_cells h sz exec b cs S e u st w = (st', w', r) \<Longrightarrow> set cs \<subseteq> C \<Longrightarrow> adds h C st st'"
proof (induction h sz exec b cs S e u st w arbitrary: st' w' r rule: run_cells.induct)
  case (2 h sz exec b c cs S e u st w)
  then show ?case by (auto split: if_splits sum.splits prod.splits dest: adds_run_cell intro: adds_trans)
qed simp

lemma adds_run_matrix: "run_matrix h sz st m exec b w = (st', w', r) \<Longrightarrow> adds h (set (mm_cells m)) st st'"
proof -
  have prep: "adds h C st (fst (prepare_matrix_output h sz st m))" for C
    by (auto simp: prepare_matrix_output_def Let_def adds_def split: sum.splits)
  have pub: "publish_summary h sz st0 m S = (st1, q) \<Longrightarrow> adds h C st0 st1" for C st0 S st1 q
    by (auto simp: publish_summary_def write_matrix_summary_def Let_def adds_def split: if_splits sum.splits prod.splits)
  assume run: "run_matrix h sz st m exec b w = (st', w', r)"
  obtain st1 p where p: "prepare_matrix_output h sz st m = (st1, p)" by fastforce
  obtain st2 w2 q where q: "run_cells h sz exec b (mm_cells m) [] 0 0 st1 w = (st2, w2, q)" by (metis prod_cases3)
  have "st' \<in> {st, st1, st2} \<or> (\<exists>S z. publish_summary h sz st2 m S = (st', z))"
    using run p q unfolding run_matrix_def Let_def by (auto split: if_splits sum.splits prod.splits)
  then show ?thesis
    using prep [of "set (mm_cells m)"] p adds_run_cells [OF q order_refl] pub by (auto intro: adds_trans)
qed

section \<open>What stops a matrix\<close>

text \<open>A member of the receipts directory that is not a receipt of the matrix, such as the temporary
  file that an interrupted \<open>_publish_no_clobber\<close> leaves there, makes every later run raise.\<close>

lemma unknown_member_blocks_run:
  assumes "(name, x) \<in> set (st_cells st)" "name \<notin> cell_receipt_path h ` set (mm_cells m)"
  shows "\<exists>st' e. run_matrix h sz st m exec b w = (st', w, Inl e)"
proof -
  have "reject_unknown_members h st' m = resume_error ''matrix cells directory contains an unknown member''"
    if "st_cells st' = st_cells st" for st'
    using assms that by (auto simp: reject_unknown_members_def list_ex_iff)
  then have "\<exists>st' e. prepare_matrix_output h sz st m = (st', Inl e)"
    by (auto simp: prepare_matrix_output_def verify_matrix_output_def Let_def bindr_def split: sum.splits)
  then show ?thesis by (auto simp: run_matrix_def)
qed

text \<open>A task of white space is a valid trial task, but its cells cannot have a receipt.\<close>

lemma blank_task_has_no_receipt:
  "blank (tm_task (mc_trial c)) \<Longrightarrow> \<exists>e. receipt_from_execution h c x = Inl e"
  by (cases "receipt_from_execution h c x")
     (auto simp: receipt_from_execution_def dest: receipt_init_fields(4))

section \<open>Every cell is accounted for\<close>

text \<open>The state of a cell names the cell, and is pending exactly if the cell has no receipt.\<close>

definition covers :: "hasher \<Rightarrow> store \<Rightarrow> matrix_cell \<Rightarrow> cell_state \<Rightarrow> bool" where
  "covers h st c s \<longleftrightarrow>
     cs_cell_sha256 s = cell_sha256 h c \<and> cs_trial_manifest_sha256 s = trial_sha256 h (mc_trial c) \<and>
     cs_task s = tm_task (mc_trial c) \<and> cs_condition s = tm_condition (mc_trial c) \<and>
     cs_operator_id s = cell_operator_id c \<and> cs_severity_level s = cell_severity_level c \<and>
     (cs_status s = Pending \<longleftrightarrow> map_of (st_cells st) (cell_receipt_path h c) = None)"

lemma receipt_loaded:
  assumes "load_cell_receipt h sz st c = Inr r"
  shows "map_of (st_cells st) (cell_receipt_path h c) \<noteq> None" "cr_status r \<noteq> Pending"
proof -
  have typed: "load_typed sz MAX_RECEIPT_BYTES cell_receipt_from_dict (map_of (st_cells st) (cell_receipt_path h c)) = Inr r"
    using assms by (auto simp: load_cell_receipt_def bindr_eq_Inr)
  then show "map_of (st_cells st) (cell_receipt_path h c) \<noteq> None"
    by (auto simp: load_typed_def split: option.splits)
  from typed obtain v where "cell_receipt_from_dict v = Inr r"
    by (auto simp: load_typed_def split: option.splits member.splits if_splits sum.splits)
  then obtain r' where "cell_receipt_init r' = Inr r" by (auto simp: cell_receipt_from_dict_def bindr_eq_Inr)
  then show "cr_status r \<noteq> Pending" using receipt_init_fields(5) cell_receipt_init_id by metis
qed

lemma state_of_cell:
  assumes "state_from_cell h c status receipt a code = Inr s"
    and "status = Pending \<longleftrightarrow> map_of (st_cells st) (cell_receipt_path h c) = None"
  shows "covers h st c s"
  using cell_state_init_id [OF assms(1) [unfolded state_from_cell_def]] assms(2) by (simp add: covers_def)

lemma loaded_covers:
  assumes "bindr (load_cell_receipt h sz st c) (state_from_receipt h c) = Inr s"
  shows "covers h st c s"
proof -
  obtain r where r: "load_cell_receipt h sz st c = Inr r" "state_from_receipt h c r = Inr s"
    using assms by (auto simp: bindr_eq_Inr)
  show ?thesis
    by (rule state_of_cell [OF r(2) [unfolded state_from_receipt_def]]) (use receipt_loaded [OF r(1)] in auto)
qed

lemma run_cell_covers:
  assumes "run_cell h sz exec c st w = (st', w', Inr s)"
  shows "covers h st' c s"
proof -
  obtain x r where x: "bindr x (receipt_from_execution h c) = Inr r" "write_cell_receipt h sz st c r = (st', Inr ())"
    "state_from_receipt h c r = Inr s"
    using assms by (auto simp: run_cell_def split: prod.splits sum.splits)
  have "cr_status r \<noteq> Pending"
    using x(1) receipt_init_fields(5) cell_receipt_init_id
    by (fastforce simp: receipt_from_execution_def bindr_eq_Inr)
  moreover have "map_of (st_cells st') (cell_receipt_path h c) \<noteq> None"
    using x(2) by (auto simp: write_cell_receipt_def Let_def publish_def bindr_eq_Inr map_add_def split: if_splits sum.splits option.splits)
  ultimately show ?thesis by (intro state_of_cell [OF x(3) [unfolded state_from_receipt_def]]) simp
qed

lemma covers_kept: "covers h st c s \<Longrightarrow> cs_status s \<noteq> Pending \<Longrightarrow> kept st st' \<Longrightarrow> covers h st' c s"
  by (auto simp: covers_def dest: kept_member)

lemma run_cells_exhausted:
  "run_cells h sz exec (Some n) cs S e u st w = (st', w', r) \<Longrightarrow> n \<le> e \<Longrightarrow> st' = st \<and> w' = w"
  by (induction cs arbitrary: S u) (auto split: if_splits sum.splits)

lemma run_cells_accounts:
  "run_cells h sz exec b cs S e u st w = (st', w', Inr (S', e', u')) \<Longrightarrow>
   \<exists>T. S' = S @ T \<and> list_all2 (covers h st') cs T \<and> e' + u' + count_status Pending T = e + u + int (length cs) \<and>
     e \<le> e' \<and> u \<le> u' \<and> (\<forall>n. b = Some n \<longrightarrow> e' \<le> max e n)"
proof (induction h sz exec b cs S e u st w arbitrary: st' w' S' e' u' rule: run_cells.induct)
  case (1 h sz exec b S e u st w)
  then show ?case by (simp add: count_status_def)
next
  case (2 h sz exec b c cs S e u st w)
  note run = "2.prems"
  have step: "\<exists>T. S' = S @ T \<and> list_all2 (covers h st') (c # cs) T \<and>
      e' + u' + count_status Pending T = e + u + int (length (c # cs)) \<and> e \<le> e' \<and> u \<le> u' \<and> (\<forall>n. b = Some n \<longrightarrow> e' \<le> max e n)"
    if tail: "\<exists>T. S' = (S @ [s]) @ T \<and> list_all2 (covers h st') cs T \<and>
        e' + u' + count_status Pending T = e1 + u1 + int (length cs) \<and> e1 \<le> e' \<and> u1 \<le> u' \<and>
        (\<forall>n. b = Some n \<longrightarrow> e' \<le> max e1 n)"
      and hd: "covers h st' c s" "e \<le> e1" "u \<le> u1" "e1 + u1 + (if cs_status s = Pending then 1 else 0) = e + u + 1"
        "\<forall>n. b = Some n \<longrightarrow> e1 \<le> max e n" for s e1 u1
  proof -
    obtain T where T: "S' = S @ s # T" "list_all2 (covers h st') cs T"
      "e' + u' + count_status Pending T = e1 + u1 + int (length cs)" "e1 \<le> e'" "u1 \<le> u'"
      "\<forall>n. b = Some n \<longrightarrow> e' \<le> max e1 n"
      using tail by auto
    then show ?thesis using hd by (intro exI [of _ "s # T"]) (auto simp: count_status_def)
  qed
  show ?case
  proof (cases "map_of (st_cells st) (cell_receipt_path h c) = None")
    case False
    then obtain s where s: "bindr (load_cell_receipt h sz st c) (state_from_receipt h c) = Inr s"
      "run_cells h sz exec b cs (S @ [s]) e (u + 1) st w = (st', w', Inr (S', e', u'))"
      using run by (auto split: sum.splits)
    have c: "covers h st c s" using loaded_covers [OF s(1)] .
    then have p: "cs_status s \<noteq> Pending" using False by (simp add: covers_def)
    show ?thesis
      by (rule step [OF "2.IH"(1) [OF False s(1,2)]]) (use covers_kept [OF c p kept_run_cells [OF s(2)]] p in auto)
  next
    case absent: True
    show ?thesis
    proof (cases "case b of None \<Rightarrow> False | Some n \<Rightarrow> n \<le> e")
      case True
      then obtain s where s: "state_pending h c = Inr s"
        "run_cells h sz exec b cs (S @ [s]) e u st w = (st', w', Inr (S', e', u'))"
        using run absent by (auto split: sum.splits)
      have "st' = st" using True s(2) run_cells_exhausted by (fastforce split: option.splits)
      then have c: "covers h st' c s" using state_of_cell [OF s(1) [unfolded state_pending_def]] absent by simp
      then have "cs_status s = Pending" using absent \<open>st' = st\<close> by (simp add: covers_def)
      with c show ?thesis
        by (intro step [OF "2.IH"(2) [OF _ True s(1,2)]]) (use absent in auto)
    next
      case False
      then obtain st1 w1 s where s: "run_cell h sz exec c st w = (st1, w1, Inr s)"
        "run_cells h sz exec b cs (S @ [s]) (e + 1) u st1 w1 = (st', w', Inr (S', e', u'))"
        using run absent by (auto split: sum.splits prod.splits)
      have c: "covers h st1 c s" using run_cell_covers [OF s(1)] .
      have p: "cs_status s \<noteq> Pending"
        using c s(1) by (auto simp: covers_def run_cell_def write_cell_receipt_def Let_def publish_def absent
            split: prod.splits sum.splits if_splits)
      show ?thesis
        by (rule step [OF "2.IH"(3) [OF _ False s(1) [symmetric] refl refl s(2)]])
           (use absent False covers_kept [OF c p kept_run_cells [OF s(2)]] p in \<open>auto split: option.splits\<close>)
    qed
  qed
qed

section \<open>Whole runs\<close>

lemma mapr_covers:
  assumes "mapr (\<lambda>c. bindr (load_cell_receipt h sz st c) (state_from_receipt h c)) cs = Inr S"
  shows "list_all2 (covers h st) cs S"
  using assms unfolding mapr_iff_list_all2 by (rule list.rel_mono_strong) (simp add: loaded_covers)

lemma covers_pending:
  "list_all2 (covers h st) cs S \<Longrightarrow>
   count_status Pending S = int (length (filter (\<lambda>c. map_of (st_cells st) (cell_receipt_path h c) = None) cs))"
  by (induction rule: list_all2_induct) (auto simp: count_status_def covers_def)

lemma loaded_summary:
  assumes "load_matrix_summary h sz st m = Inr s"
  shows "list_all2 (covers h st) (mm_cells m) (ms_cells s)" "count_status Pending (ms_cells s) = 0"
proof -
  have expected: "mapr (\<lambda>c. bindr (load_cell_receipt h sz st c) (state_from_receipt h c)) (mm_cells m) = Inr (ms_cells s)"
    using assms by (auto simp: load_matrix_summary_def bindr_eq_Inr split: if_splits)
  then show covers: "list_all2 (covers h st) (mm_cells m) (ms_cells s)" by (rule mapr_covers)
  have "map_of (st_cells st) (cell_receipt_path h c) \<noteq> None" if c: "c \<in> set (mm_cells m)" for c
  proof -
    obtain t where "bindr (load_cell_receipt h sz st c) (state_from_receipt h c) = Inr t"
      using expected c unfolding mapr_iff_list_all2 by (auto simp: list_all2_conv_all_nth in_set_conv_nth)
    then show ?thesis using receipt_loaded(1) by (auto simp: bindr_eq_Inr)
  qed
  then have "filter (\<lambda>c. map_of (st_cells st) (cell_receipt_path h c) = None) (mm_cells m) = []"
    by (simp add: filter_empty_conv)
  with covers_pending [OF covers] show "count_status Pending (ms_cells s) = 0" by simp
qed

lemma published_summary:
  assumes "publish_summary h sz st m S = (st', Inr s)" "st_summary st = None"
  shows "st_summary st' \<noteq> None" "st_cells st' = st_cells st"
  using assms by (auto simp: publish_summary_def write_matrix_summary_def Let_def publish_def
      split: if_splits sum.splits prod.splits)

lemma run_init_fields:
  assumes "matrix_run_init r = Inr s"
  shows "s = r" "rr_states r \<noteq> []" "rr_executed r + rr_reused r + rr_pending r = int (length (rr_states r))"
    "count_status Pending (rr_states r) = rr_pending r" "rr_summary r = None \<longleftrightarrow> 0 < rr_pending r"
    "\<And>t. rr_summary r = Some t \<Longrightarrow> ms_cells t = rr_states r"
    "0 \<le> rr_executed r" "0 \<le> rr_reused r" "0 \<le> rr_pending r"
  using assms by (auto simp: matrix_run_init_def split: if_splits)

lemma covers_same_cells: "st_cells st' = st_cells st \<Longrightarrow> covers h st' = covers h st"
  by (intro ext) (simp add: covers_def)

definition same_summary :: "store \<Rightarrow> store \<Rightarrow> bool" where
  "same_summary st st' \<longleftrightarrow> st_summary st' = st_summary st"

lemma same_summary_refl [simp]: "same_summary st st"
  by (simp add: same_summary_def)

lemma same_summary_trans [trans]: "same_summary st st' \<Longrightarrow> same_summary st' st'' \<Longrightarrow> same_summary st st''"
  by (simp add: same_summary_def)

lemma run_cell_summary: "run_cell h sz exec c st w = (st', w', r) \<Longrightarrow> same_summary st st'"
  by (auto simp: run_cell_def write_cell_receipt_def Let_def same_summary_def split: prod.splits sum.splits if_splits)

lemma run_cells_summary: "run_cells h sz exec b cs S e u st w = (st', w', r) \<Longrightarrow> same_summary st st'"
proof (induction h sz exec b cs S e u st w arbitrary: st' w' r rule: run_cells.induct)
  case (2 h sz exec b c cs S e u st w)
  then show ?case
    by (auto split: if_splits sum.splits prod.splits dest: run_cell_summary intro: same_summary_trans)
qed simp

lemma run_matrix_prepared:
  assumes "run_matrix h sz st m exec b w = (st', w', Inr r)"
  shows "\<exists>st1. prepare_matrix_output h sz st m = (st1, Inr ())"
proof (cases "prepare_matrix_output h sz st m")
  case (Pair st1 p)
  then show ?thesis using assms by (cases p) (simp_all add: run_matrix_def split: if_splits)
qed

lemma run_matrix_accounts:
  assumes run: "run_matrix h sz st m exec b w = (st', w', Inr r)"
  shows "list_all2 (covers h st') (mm_cells m) (rr_states r)"
    "\<forall>n. b = Some n \<longrightarrow> rr_executed r \<le> n"
    "st_summary st' \<noteq> None \<longleftrightarrow> rr_pending r = 0"
    "rr_executed r + rr_reused r + rr_pending r = int (length (mm_cells m))"
    "rr_summary r = None \<longleftrightarrow> 0 < rr_pending r" "\<forall>t. rr_summary r = Some t \<longrightarrow> ms_cells t = rr_states r"
proof -
  have budget: "0 \<le> n" if "b = Some n" for n using run that by (auto simp: run_matrix_def split: if_splits)
  obtain st1 where prep: "prepare_matrix_output h sz st m = (st1, Inr ())"
    using run_matrix_prepared [OF run] by blast
  have main: "list_all2 (covers h st') (mm_cells m) (rr_states r) \<and> (\<forall>n. b = Some n \<longrightarrow> rr_executed r \<le> n) \<and>
      (st_summary st' \<noteq> None \<longleftrightarrow> rr_pending r = 0) \<and> matrix_run_init r = Inr r"
  proof (cases "st_summary st1 = None")
    case False
    then have stored: "st' = st1" "bindr (load_matrix_summary h sz st1 m) (\<lambda>s. matrix_run_init
        \<lparr>rr_states = ms_cells s, rr_summary = Some s, rr_executed = 0,
         rr_reused = int (length (ms_cells s)), rr_pending = 0\<rparr>) = Inr r"
      using run prep unfolding run_matrix_def by (auto split: if_splits)
    obtain s where s: "load_matrix_summary h sz st1 m = Inr s" "st' = st1"
      "matrix_run_init \<lparr>rr_states = ms_cells s, rr_summary = Some s, rr_executed = 0,
          rr_reused = int (length (ms_cells s)), rr_pending = 0\<rparr> = Inr r"
      using stored unfolding bindr_eq_Inr by blast
    note r = matrix_run_init_id [OF s(3)]
    have init: "matrix_run_init r = Inr r" using s(3) unfolding r [symmetric] .
    have "rr_states r = ms_cells s" "rr_executed r = 0" "rr_pending r = 0" unfolding r by simp_all
    with loaded_summary [OF s(1)] s(2) False budget init show ?thesis by simp
  next
    case True
    obtain st2 w2 q where q: "run_cells h sz exec b (mm_cells m) [] 0 0 st1 w = (st2, w2, q)" by (metis prod_cases3)
    then obtain S e u where cells: "run_cells h sz exec b (mm_cells m) [] 0 0 st1 w = (st2, w2, Inr (S, e, u))"
      using run prep True unfolding run_matrix_def by (cases q) (auto split: if_splits)
    obtain c: "list_all2 (covers h st2) (mm_cells m) S" and e: "\<forall>n. b = Some n \<longrightarrow> e \<le> max 0 n"
      using run_cells_accounts [OF cells] by auto
    have none: "st_summary st2 = None" using run_cells_summary [OF cells] True by (simp add: same_summary_def)
    show ?thesis
    proof (cases "count_status Pending S = 0")
      case zero: True
      obtain st3 q where q: "publish_summary h sz st2 m S = (st3, q)" by fastforce
      obtain s where p: "publish_summary h sz st2 m S = (st', Inr s)"
        "matrix_run_init \<lparr>rr_states = S, rr_summary = Some s, rr_executed = e, rr_reused = u, rr_pending = 0\<rparr> = Inr r"
      proof (cases q)
        case (Inl x)
        with run prep True cells zero q show ?thesis by (simp add: run_matrix_def split: if_splits)
      next
        case (Inr s)
        with run prep True cells zero q have "st3 = st' \<and> matrix_run_init
            \<lparr>rr_states = S, rr_summary = Some s, rr_executed = e, rr_reused = u, rr_pending = 0\<rparr> = Inr r"
          by (simp add: run_matrix_def split: if_splits)
        with q Inr that show ?thesis by blast
      qed
      note r = matrix_run_init_id [OF p(2)]
      have init: "matrix_run_init r = Inr r" using p(2) unfolding r [symmetric] .
      have "rr_states r = S" "rr_executed r = e" "rr_pending r = 0" unfolding r by simp_all
      moreover have "covers h st' = covers h st2" by (rule covers_same_cells [OF published_summary(2) [OF p(1) none]])
      ultimately show ?thesis using init c e budget published_summary(1) [OF p(1) none] by auto
    next
      case some: False
      then have p: "st' = st2" "matrix_run_init \<lparr>rr_states = S, rr_summary = None, rr_executed = e, rr_reused = u,
          rr_pending = count_status Pending S\<rparr> = Inr r"
        using run prep True cells by (simp_all add: run_matrix_def split: if_splits)
      note r = matrix_run_init_id [OF p(2)]
      have init: "matrix_run_init r = Inr r" using p(2) unfolding r [symmetric] .
      have "rr_states r = S" "rr_executed r = e" "rr_pending r = count_status Pending S" unfolding r by simp_all
      with init c e budget p(1) none some show ?thesis by auto
    qed
  qed
  then have init: "matrix_run_init r = Inr r" by blast
  note f = run_init_fields [OF init]
  show "list_all2 (covers h st') (mm_cells m) (rr_states r)" "\<forall>n. b = Some n \<longrightarrow> rr_executed r \<le> n"
    "st_summary st' \<noteq> None \<longleftrightarrow> rr_pending r = 0" using main by auto
  then show "rr_executed r + rr_reused r + rr_pending r = int (length (mm_cells m))"
    "rr_summary r = None \<longleftrightarrow> 0 < rr_pending r" "\<forall>t. rr_summary r = Some t \<longrightarrow> ms_cells t = rr_states r"
    using f by (auto dest: list_all2_lengthD)
qed

end
