(* ===== verification/Matrix_Resume.thy ===== *)
theory Matrix_Resume
  imports Matrix_Runs Delivery_Life
begin

text \<open>
  Resuming a matrix run.  The abstract state of an output directory is how many cells, in the order of
  the manifest, have a receipt; a run moves it forward by at most its budget and publishes the summary
  when no cell is left.  Any series of runs that ends with an unbounded one leaves the same directory,
  and has called the executor on the same cells in the same order, as one uninterrupted run.
\<close>

section \<open>Outcomes\<close>

text \<open>An executor whose outcome depends on the cell, and that keeps the list of its calls.\<close>

definition logging :: "(matrix_cell \<Rightarrow> cell_execution result) \<Rightarrow> matrix_cell list executor" where
  "logging f c w = (f c, w @ [c])"

text \<open>The receipt and the state the outcome of a cell leads to.\<close>

definition planned_receipt :: "hasher \<Rightarrow> (matrix_cell \<Rightarrow> cell_execution result) \<Rightarrow> matrix_cell \<Rightarrow> cell_receipt result" where
  "planned_receipt h f c =
     bindr (fst (execute_cell (logging f) c [])) (receipt_from_execution h c)"

definition planned_state :: "hasher \<Rightarrow> (matrix_cell \<Rightarrow> cell_execution result) \<Rightarrow> matrix_cell \<Rightarrow> cell_state result" where
  "planned_state h f c = bindr (planned_receipt h f c) (state_from_receipt h c)"

text \<open>Outcomes are constructed values.\<close>

definition sound_outcomes :: "(matrix_cell \<Rightarrow> cell_execution result) \<Rightarrow> matrix_cell list \<Rightarrow> bool" where
  "sound_outcomes f cs \<longleftrightarrow>
     list_all (\<lambda>c. case f c of Inl e \<Rightarrow> True | Inr x \<Rightarrow> execution_check x = Inr x \<and> artifact_ok (cx_artifact x)) cs"

definition fits :: "sizes \<Rightarrow> nat \<Rightarrow> pyval \<Rightarrow> bool" where
  "fits sz maximum v \<longleftrightarrow> 0 < sz v \<and> sz v \<le> maximum"

definition the_right :: "'a result \<Rightarrow> 'a" where
  "the_right r = projr r"

definition receipt_value :: "hasher \<Rightarrow> (matrix_cell \<Rightarrow> cell_execution result) \<Rightarrow> matrix_cell \<Rightarrow> pyval" where
  "receipt_value h f c = PDict (cell_receipt_to_dict (the_right (planned_receipt h f c)))"

definition final_states :: "hasher \<Rightarrow> (matrix_cell \<Rightarrow> cell_execution result) \<Rightarrow> matrix_manifest \<Rightarrow> cell_state list" where
  "final_states h f m = map (\<lambda>c. the_right (planned_state h f c)) (mm_cells m)"

definition final_summary :: "hasher \<Rightarrow> (matrix_cell \<Rightarrow> cell_execution result) \<Rightarrow> matrix_manifest \<Rightarrow> matrix_summary" where
  "final_summary h f m = matrix_summary_of h m (final_states h f m)"

text \<open>A matrix that can be run: valid, readable back, with texts within the limits of \<open>matrix/io.py\<close>.\<close>

definition runnable ::
    "hasher \<Rightarrow> sizes \<Rightarrow> matrix_manifest \<Rightarrow> (matrix_cell \<Rightarrow> cell_execution result) \<Rightarrow> bool" where
  "runnable h sz m f \<longleftrightarrow>
     matrix_manifest_ok h m \<and> list_all (\<lambda>c. cell_reloadable c \<and> \<not> blank (tm_task (mc_trial c))) (mm_cells m) \<and>
     sound_outcomes f (mm_cells m) \<and> fits sz MAX_MANIFEST_BYTES (PDict (matrix_manifest_to_dict m)) \<and>
     list_all (\<lambda>c. fits sz MAX_RECEIPT_BYTES (receipt_value h f c)) (mm_cells m) \<and>
     fits sz MAX_SUMMARY_BYTES (PDict (matrix_summary_to_dict (final_summary h f m)))"

section \<open>The cells of a runnable matrix\<close>

lemma the_right_Inr [simp]: "the_right (Inr x) = x"
  by (simp add: the_right_def)

lemma fault_metadata_ok:
  assumes "cell_ok h c"
  shows "validate_fault_metadata (tm_condition (mc_trial c)) (cell_operator_id c) (cell_severity_level c) = Inr ()"
proof (cases "mc_fault c")
  case None
  with assms show ?thesis
    by (auto simp: cell_ok_def cell_init_def validate_fault_metadata_def cell_operator_id_def cell_severity_level_def
        split: if_splits)
next
  case (Some m)
  then have "manifest_ok h m" using assms by (simp add: cell_ok_def)
  then have "1 \<le> fm_severity_level m \<and> fm_severity_level m \<le> 5"
    unfolding manifest_ok_def by (blast dest: manifest_init_Inr(12,13))
  with Some assms show ?thesis
    by (auto simp: cell_ok_def cell_init_def validate_fault_metadata_def cell_operator_id_def cell_severity_level_def
        split: if_splits)
qed

lemma crash_sound: "\<exists>x. execution_crash (''executor_exception:'' @ s) = Inr x \<and> execution_check x = Inr x \<and> cx_artifact x = None"
  by (simp add: execution_crash_def execution_check_def blank_def)

lemma executed_sound:
  assumes "sound_outcomes f cs" "c \<in> set cs"
  shows "\<exists>x. execute_cell (logging f) c w = (Inr x, w @ [c]) \<and> fst (execute_cell (logging f) c []) = Inr x \<and>
    execution_check x = Inr x \<and> artifact_ok (cx_artifact x)"
proof (cases "f c")
  case (Inl e)
  with crash_sound [of "exn_type e"] show ?thesis by (auto simp: execute_cell_def logging_def artifact_ok_def)
next
  case (Inr x)
  with assms show ?thesis by (auto simp: execute_cell_def logging_def sound_outcomes_def list_all_iff)
qed

section \<open>The directory at a point of the run\<close>

definition store_at ::
    "hasher \<Rightarrow> (matrix_cell \<Rightarrow> cell_execution result) \<Rightarrow> matrix_manifest \<Rightarrow> nat \<Rightarrow> bool \<Rightarrow> store" where
  "store_at h f m k published =
     \<lparr>st_real = True, st_cells_real = True, st_manifest = Some (Document (PDict (matrix_manifest_to_dict m))),
      st_cells = map (\<lambda>c. (cell_receipt_path h c, Document (receipt_value h f c))) (take k (mm_cells m)),
      st_summary = (if published then Some (Document (PDict (matrix_summary_to_dict (final_summary h f m)))) else None)\<rparr>"

text \<open>The progress a run with a budget makes.\<close>

definition reached :: "matrix_manifest \<Rightarrow> int option \<Rightarrow> nat \<Rightarrow> nat" where
  "reached m b k = (case b of None \<Rightarrow> length (mm_cells m) | Some a \<Rightarrow> min (length (mm_cells m)) (k + nat a))"

text \<open>What a run that finishes the matrix returns.\<close>

definition complete_run :: "hasher \<Rightarrow> (matrix_cell \<Rightarrow> cell_execution result) \<Rightarrow> matrix_manifest \<Rightarrow> int \<Rightarrow> matrix_run" where
  "complete_run h f m executed =
     \<lparr>rr_states = final_states h f m, rr_summary = Some (final_summary h f m), rr_executed = executed,
      rr_reused = int (length (mm_cells m)) - executed, rr_pending = 0\<rparr>"

locale resumable =
  fixes h :: hasher and sz :: sizes and m :: matrix_manifest and f :: "matrix_cell \<Rightarrow> cell_execution result"
  assumes runnable: "runnable h sz m f" and digests: "sha_digests h"
begin

lemma valid: "matrix_manifest_ok h m" "matrix_manifest_init h m = Inr m" "validate_inventory h m = Inr ()"
  using runnable manifest_init_fields(4) by (auto simp: runnable_def matrix_manifest_ok_def)

lemma addresses: "distinct (map (cell_sha256 h) (mm_cells m))"
  using inventory_fields(3) [OF valid(3)] .

lemma sha_hash [simp]: "is_sha256 (canonical_hash h v)"
  using digests by (simp add: sha_digests_def canonical_hash_def)

lemma cell_sound:
  assumes "c \<in> set (mm_cells m)"
  shows "cell_ok h c" "\<not> blank (tm_task (mc_trial c))" "cell_pair_key h c = mm_pair_key m"
  using assms runnable inventory_fields(4) [OF valid(3)]
  by (auto simp: runnable_def matrix_manifest_ok_def list_all_iff)

lemma sha_fields [simp]:
  "is_sha256 (cell_sha256 h c)" "is_sha256 (trial_sha256 h t)" "is_sha256 (cell_receipt_sha256 h r)"
  "is_sha256 (matrix_manifest_sha256 h n)"
  by (simp_all add: cell_sha256_def trial_sha256_def cell_receipt_sha256_def matrix_manifest_sha256_def)

lemma pair_sha: "is_sha256 (mm_pair_key m)"
  using manifest_init_fields(2) [OF valid(2)] .

lemma planned:
  assumes c: "c \<in> set (mm_cells m)"
  obtains x r s where "\<And>w. execute_cell (logging f) c w = (Inr x, w @ [c])"
    "receipt_from_execution h c x = Inr r" "planned_receipt h f c = Inr r" "cell_receipt_ok r"
    "validate_receipt_cell h r c = Inr ()" "state_from_receipt h c r = Inr s" "planned_state h f c = Inr s"
    "cell_state_ok s" "cs_status s \<noteq> Pending" "cs_cell_sha256 s = cell_sha256 h c" "cs_pair_key s = mm_pair_key m"
    "receipt_value h f c = PDict (cell_receipt_to_dict r)"
proof -
  have outcomes: "sound_outcomes f (mm_cells m)" using runnable by (simp add: runnable_def)
  from executed_sound [OF this c] obtain x where x: "fst (execute_cell (logging f) c []) = Inr x"
    "execution_check x = Inr x" "artifact_ok (cx_artifact x)" by blast
  have run: "execute_cell (logging f) c w = (Inr x, w @ [c])" for w
    using executed_sound [OF outcomes c, of w] x(1) by auto
  note sound = cell_sound [OF c]
  define r where "r = \<lparr>cr_cell_sha256 = cell_sha256 h c, cr_trial_manifest_sha256 = trial_sha256 h (mc_trial c),
    cr_task = tm_task (mc_trial c), cr_pair_key = cell_pair_key h c, cr_condition = tm_condition (mc_trial c),
    cr_operator_id = cell_operator_id c, cr_severity_level = cell_severity_level c, cr_status = cx_status x,
    cr_artifact = cx_artifact x, cr_failure_code = cx_failure_code x, cr_semantic_version = MATRIX_SEMANTIC_VERSION\<rparr>"
  have x': "\<lparr>cx_status = cx_status x, cx_artifact = cx_artifact x, cx_failure_code = cx_failure_code x\<rparr> = x" by simp
  have status: "cx_status x \<noteq> Pending" using x(2) by (auto simp: execution_check_def)
  have init: "cell_receipt_init r = Inr r"
    using sound x(2) status fault_metadata_ok [OF sound(1)] pair_sha
    by (simp add: cell_receipt_init_def r_def check_sha_ok bindr_simps x')
  have receipt: "receipt_from_execution h c x = Inr r" using init by (simp add: receipt_from_execution_def r_def)
  define s where "s = \<lparr>cs_cell_sha256 = cell_sha256 h c, cs_trial_manifest_sha256 = trial_sha256 h (mc_trial c),
    cs_task = tm_task (mc_trial c), cs_pair_key = cell_pair_key h c, cs_condition = tm_condition (mc_trial c),
    cs_operator_id = cell_operator_id c, cs_severity_level = cell_severity_level c, cs_status = cr_status r,
    cs_receipt_sha256 = Some (cell_receipt_sha256 h r), cs_artifact = cr_artifact r, cs_failure_code = cr_failure_code r\<rparr>"
  have state_init: "cell_state_init s = Inr s"
    using sound x(2) status fault_metadata_ok [OF sound(1)] pair_sha
    by (simp add: cell_state_init_def s_def r_def check_sha_ok bindr_simps x')
  have state: "state_from_receipt h c r = Inr s"
    using state_init by (simp add: state_from_receipt_def state_from_cell_def s_def)
  have planned: "planned_receipt h f c = Inr r" using x(1) receipt by (simp add: planned_receipt_def)
  show thesis
    by (rule that [of x r s, OF run receipt planned])
       (use init x(3) state planned state_init sound(3) status in
        \<open>simp_all add: cell_receipt_ok_def planned_state_def cell_state_ok_def receipt_value_def validate_receipt_cell_def r_def s_def\<close>)
qed

lemma pending_state:
  assumes c: "c \<in> set (mm_cells m)"
  obtains s where "state_pending h c = Inr s" "cs_status s = Pending"
proof -
  note sound = cell_sound [OF c]
  have "\<exists>s. state_pending h c = Inr s"
    unfolding state_pending_def state_from_cell_def cell_state_init_def
    using sound fault_metadata_ok [OF sound(1)] pair_sha by (simp add: check_sha_ok bindr_simps)
  then obtain s where s: "state_pending h c = Inr s" by blast
  with that cell_state_init_id [OF s [unfolded state_pending_def state_from_cell_def]] show thesis by simp
qed

subsection \<open>Members of the directory\<close>

abbreviation total :: nat where "total \<equiv> length (mm_cells m)"

abbreviation outcome :: "matrix_cell \<Rightarrow> cell_state" where "outcome c \<equiv> the_right (planned_state h f c)"

lemma receipt_paths: "distinct (map (cell_receipt_path h) (mm_cells m))"
  using addresses by (auto simp: distinct_map cell_receipt_path_def inj_on_def)

lemma receipt_lookup:
  assumes "j < total"
  shows "map_of (st_cells (store_at h f m k p)) (cell_receipt_path h (mm_cells m ! j)) =
    (if j < k then Some (Document (receipt_value h f (mm_cells m ! j))) else None)"
proof (cases "j < k")
  case True
  have "distinct (map fst (st_cells (store_at h f m k p)))"
    using receipt_paths by (simp add: store_at_def comp_def take_map [symmetric] distinct_take)
  moreover have "mm_cells m ! j \<in> set (take k (mm_cells m))"
    using assms True by (auto simp: in_set_conv_nth intro!: exI [of _ j])
  ultimately show ?thesis using True by (simp add: map_of_eq_Some_iff) (simp add: store_at_def image_iff, blast)
next
  case False
  have "cell_receipt_path h (mm_cells m ! j) \<notin> cell_receipt_path h ` set (take k (mm_cells m))"
  proof
    assume "cell_receipt_path h (mm_cells m ! j) \<in> cell_receipt_path h ` set (take k (mm_cells m))"
    then obtain i where "i < k" "i < total" "cell_receipt_path h (mm_cells m ! j) = cell_receipt_path h (mm_cells m ! i)"
      by (auto simp: in_set_conv_nth)
    then show False using assms False nth_eq_iff_index_eq [OF receipt_paths, of i j] by simp
  qed
  with False show ?thesis by (simp add: store_at_def map_of_eq_None_iff image_comp comp_def)
qed

lemma receipt_fits: "c \<in> set (mm_cells m) \<Longrightarrow> fits sz MAX_RECEIPT_BYTES (receipt_value h f c)"
  using runnable by (simp add: runnable_def list_all_iff)

lemma stored_receipt:
  assumes "j < k" "j < total"
  shows "bindr (load_cell_receipt h sz (store_at h f m k p) (mm_cells m ! j)) (state_from_receipt h (mm_cells m ! j)) =
    Inr (outcome (mm_cells m ! j))"
proof -
  have c: "mm_cells m ! j \<in> set (mm_cells m)" using assms(2) by simp
  obtain r s where r: "cell_receipt_ok r" "validate_receipt_cell h r (mm_cells m ! j) = Inr ()"
    "state_from_receipt h (mm_cells m ! j) r = Inr s" "planned_state h f (mm_cells m ! j) = Inr s"
    "receipt_value h f (mm_cells m ! j) = PDict (cell_receipt_to_dict r)"
    using planned [OF c] by metis
  have "load_cell_receipt h sz (store_at h f m k p) (mm_cells m ! j) = Inr r"
    using receipt_lookup [OF assms(2), of k p] assms(1) receipt_fits [OF c] cell_receipt_reload [OF r(1)] r(2,5)
    by (simp add: load_cell_receipt_def load_typed_def fits_def)
  with r show ?thesis by simp
qed

lemma written_receipt:
  assumes "k < total"
  shows "run_cell h sz (logging f) (mm_cells m ! k) (store_at h f m k False) w =
    (store_at h f m (Suc k) False, w @ [mm_cells m ! k], Inr (outcome (mm_cells m ! k)))"
proof -
  have c: "mm_cells m ! k \<in> set (mm_cells m)" using assms by simp
  obtain x r s where r: "execute_cell (logging f) (mm_cells m ! k) w = (Inr x, w @ [mm_cells m ! k])"
    "receipt_from_execution h (mm_cells m ! k) x = Inr r" "validate_receipt_cell h r (mm_cells m ! k) = Inr ()"
    "state_from_receipt h (mm_cells m ! k) r = Inr s" "planned_state h f (mm_cells m ! k) = Inr s"
    "receipt_value h f (mm_cells m ! k) = PDict (cell_receipt_to_dict r)"
    using planned [OF c] by metis
  show ?thesis
    using r receipt_lookup [OF assms, of k False]
    by (simp add: run_cell_def write_cell_receipt_def publish_def Let_def)
       (simp add: store_at_def take_Suc_conv_app_nth [OF assms])
qed

subsection \<open>The phases of the loop\<close>

lemma loop_reuses:
  assumes "j + i \<le> k" "k \<le> total"
  shows "run_cells h sz (logging f) b (drop j (mm_cells m)) S e u (store_at h f m k False) w =
    run_cells h sz (logging f) b (drop (j + i) (mm_cells m)) (S @ map outcome (take i (drop j (mm_cells m)))) e (u + int i)
      (store_at h f m k False) w"
  using assms
proof (induction i arbitrary: j S u)
  case (Suc i)
  then have j: "j < k" "j < total" by simp_all
  have "run_cells h sz (logging f) b (drop j (mm_cells m)) S e u (store_at h f m k False) w =
      run_cells h sz (logging f) b (drop (Suc j) (mm_cells m)) (S @ [outcome (mm_cells m ! j)]) e (u + 1)
        (store_at h f m k False) w"
    using stored_receipt [OF j] receipt_lookup [OF j(2), of k False] j(1)
    by (simp add: Cons_nth_drop_Suc [OF j(2), symmetric])
  also have "\<dots> = run_cells h sz (logging f) b (drop (Suc j + i) (mm_cells m))
      ((S @ [outcome (mm_cells m ! j)]) @ map outcome (take i (drop (Suc j) (mm_cells m)))) e (u + 1 + int i)
      (store_at h f m k False) w"
    using Suc.prems by (intro Suc.IH) simp_all
  also have "(S @ [outcome (mm_cells m ! j)]) @ map outcome (take i (drop (Suc j) (mm_cells m))) =
      S @ map outcome (take (Suc i) (drop j (mm_cells m)))"
    by (simp add: Cons_nth_drop_Suc [OF j(2), symmetric])
  finally show ?case by (simp add: algebra_simps)
qed simp

lemma loop_executes:
  assumes "k + i \<le> total" "\<And>a. b = Some a \<Longrightarrow> e + int i \<le> a"
  shows "run_cells h sz (logging f) b (drop k (mm_cells m)) S e u (store_at h f m k False) w =
    run_cells h sz (logging f) b (drop (k + i) (mm_cells m)) (S @ map outcome (take i (drop k (mm_cells m)))) (e + int i) u
      (store_at h f m (k + i) False) (w @ take i (drop k (mm_cells m)))"
  using assms
proof (induction i arbitrary: k S e w)
  case (Suc i)
  then have k: "k < total" by simp
  have "run_cells h sz (logging f) b (drop k (mm_cells m)) S e u (store_at h f m k False) w =
      run_cells h sz (logging f) b (drop (Suc k) (mm_cells m)) (S @ [outcome (mm_cells m ! k)]) (e + 1) u
        (store_at h f m (Suc k) False) (w @ [mm_cells m ! k])"
    using written_receipt [OF k] receipt_lookup [OF k, of k False] Suc.prems(2)
    by (auto simp: Cons_nth_drop_Suc [OF k, symmetric] split: option.splits)
  also have "\<dots> = run_cells h sz (logging f) b (drop (Suc k + i) (mm_cells m))
      ((S @ [outcome (mm_cells m ! k)]) @ map outcome (take i (drop (Suc k) (mm_cells m)))) (e + 1 + int i) u
      (store_at h f m (Suc k + i) False) ((w @ [mm_cells m ! k]) @ take i (drop (Suc k) (mm_cells m)))"
    using Suc.prems by (intro Suc.IH) (auto simp: algebra_simps)
  finally show ?case by (simp add: algebra_simps Cons_nth_drop_Suc [OF k, symmetric])
qed simp

lemma loop_defers:
  assumes "k \<le> j" "a \<le> e"
  shows "\<exists>P. run_cells h sz (logging f) (Some a) (drop j (mm_cells m)) S e u (store_at h f m k False) w =
      (store_at h f m k False, w, Inr (S @ P, e, u)) \<and> length P = total - j \<and> (\<forall>s\<in>set P. cs_status s = Pending)"
  using assms(1)
proof (induction "total - j" arbitrary: j S)
  case (Suc d)
  then have j: "j < total" by simp
  obtain s where s: "state_pending h (mm_cells m ! j) = Inr s" "cs_status s = Pending"
    using pending_state j nth_mem by blast
  have d: "d = total - Suc j" using Suc.hyps(2) by simp
  obtain P where P: "run_cells h sz (logging f) (Some a) (drop (Suc j) (mm_cells m)) (S @ [s]) e u (store_at h f m k False) w =
      (store_at h f m k False, w, Inr ((S @ [s]) @ P, e, u))" "length P = total - Suc j" "\<forall>s\<in>set P. cs_status s = Pending"
    using Suc.hyps(1) [OF d, of "S @ [s]"] Suc.prems by auto
  have "run_cells h sz (logging f) (Some a) (drop j (mm_cells m)) S e u (store_at h f m k False) w =
      (store_at h f m k False, w, Inr (S @ s # P, e, u))"
    using receipt_lookup [OF j, of k False] Suc.prems assms(2) s(1) P(1)
    by (simp add: Cons_nth_drop_Suc [OF j, symmetric])
  with P(2,3) s(2) j show ?case by (intro exI [of _ "s # P"]) auto
qed simp

subsection \<open>The summary\<close>

lemma states_of_cells: "length (final_states h f m) = total"
  "map cs_cell_sha256 (final_states h f m) = map (cell_sha256 h) (mm_cells m)"
  "\<forall>s\<in>set (final_states h f m). cs_status s \<noteq> Pending \<and> cs_pair_key s = mm_pair_key m \<and> cell_state_ok s"
proof -
  have fields: "cs_cell_sha256 (outcome c) = cell_sha256 h c \<and> cs_status (outcome c) \<noteq> Pending \<and>
      cs_pair_key (outcome c) = mm_pair_key m \<and> cell_state_ok (outcome c)" if "c \<in> set (mm_cells m)" for c
    using planned [OF that] by (metis the_right_Inr)
  then show "map cs_cell_sha256 (final_states h f m) = map (cell_sha256 h) (mm_cells m)"
    "\<forall>s\<in>set (final_states h f m). cs_status s \<noteq> Pending \<and> cs_pair_key s = mm_pair_key m \<and> cell_state_ok s"
    by (simp_all add: final_states_def)
qed (simp add: final_states_def)

lemma no_pending: "count_status Pending (final_states h f m) = 0"
  using states_of_cells(3) by (simp add: count_status_def)

lemma summary_valid: "matrix_summary_init (final_summary h f m) = Inr (final_summary h f m)"
    "matrix_summary_ok (final_summary h f m)"
proof -
  note init = manifest_init_fields [OF valid(2)]
  have nonempty: "final_states h f m \<noteq> []"
    using states_of_cells(1) inventory_fields(1) [OF valid(3)] by fastforce
  then have keys: "set (map cs_pair_key (final_states h f m)) = {mm_pair_key m}"
    using states_of_cells(3) by (auto simp: image_iff) (metis last_in_set)
  have "\<not> list_ex (\<lambda>c. cs_status c = Pending) (final_states h f m)" using states_of_cells(3) by (simp add: list_ex_iff)
  with keys nonempty show "matrix_summary_init (final_summary h f m) = Inr (final_summary h f m)"
    using init states_of_cells(2) addresses
    unfolding final_summary_def matrix_summary_of_def
    by (simp add: matrix_summary_init_def check_sha_ok bindr_simps)
  with states_of_cells(3) show "matrix_summary_ok (final_summary h f m)"
    by (simp add: matrix_summary_ok_def list_all_iff final_summary_def matrix_summary_of_def)
qed

lemma manifest_loads: "load_manifest h sz (store_at h f m k p) = Inr m"
proof -
  have "list_all cell_reloadable (mm_cells m)" using runnable by (simp add: runnable_def list_all_iff)
  from matrix_manifest_reload [OF valid(1) this] show ?thesis
    using runnable by (simp add: load_manifest_def load_typed_def store_at_def runnable_def fits_def)
qed

lemma output_verified: "verify_matrix_output h sz (store_at h f m k p) m = Inr ()"
proof -
  have "reject_unknown_members h (store_at h f m k p) m = Inr ()"
    by (auto simp: reject_unknown_members_def store_at_def list_ex_iff dest: in_set_takeD)
  moreover have "require_same_manifest h sz (store_at h f m k p) m = Inr ()"
    by (simp add: require_same_manifest_def manifest_loads)
  ultimately show ?thesis by (simp add: verify_matrix_output_def) (simp add: store_at_def)
qed

lemma prepared: "prepare_matrix_output h sz (store_at h f m k p) m = (store_at h f m k p, Inr ())"
proof -
  have same: "require_same_manifest h sz (store_at h f m k p) m = Inr ()"
    by (simp add: require_same_manifest_def manifest_loads)
  have st: "st_real (store_at h f m k p)" "st_cells_real (store_at h f m k p)" "st_manifest (store_at h f m k p) \<noteq> None"
    by (simp_all add: store_at_def)
  show ?thesis unfolding prepare_matrix_output_def using st same output_verified by simp
qed

lemma prepared_empty: "prepare_matrix_output h sz empty_store m = (store_at h f m 0 False, Inr ())"
proof -
  have "empty_store\<lparr>st_manifest := Some (Document (PDict (matrix_manifest_to_dict m)))\<rparr> = store_at h f m 0 False"
    by (simp add: empty_store_def store_at_def)
  moreover have "st_real empty_store" "st_cells_real empty_store" "st_manifest empty_store = None"
    by (simp_all add: empty_store_def)
  ultimately show ?thesis
    unfolding prepare_matrix_output_def publish_def using output_verified [of 0 False] by (simp add: Let_def)
qed

lemma summary_loads: "load_matrix_summary h sz (store_at h f m total True) m = Inr (final_summary h f m)"
proof -
  have typed: "load_typed sz MAX_SUMMARY_BYTES matrix_summary_from_dict (st_summary (store_at h f m total True)) =
      Inr (final_summary h f m)"
    using matrix_summary_reload [OF summary_valid(2)] runnable
    by (simp add: load_typed_def store_at_def runnable_def fits_def)
  have receipts: "mapr (\<lambda>c. bindr (load_cell_receipt h sz (store_at h f m total True) c) (state_from_receipt h c)) (mm_cells m) =
      Inr (final_states h f m)"
    unfolding mapr_iff_list_all2 final_states_def
    by (auto simp: list_all2_conv_all_nth stored_receipt)
  show ?thesis
    unfolding load_matrix_summary_def output_verified typed bindr_simps
    using states_of_cells(1) by (simp add: final_summary_def matrix_summary_of_def receipts)
qed

lemma summary_published:
  "publish_summary h sz (store_at h f m total False) m (final_states h f m) =
     (store_at h f m total True, Inr (final_summary h f m))"
proof -
  have "write_matrix_summary sz (store_at h f m total False) (final_summary h f m) = (store_at h f m total True, Inr ())"
    by (simp add: write_matrix_summary_def publish_def Let_def store_at_def)
  then show ?thesis
    using summary_loads summary_valid(1) by (simp add: publish_summary_def final_summary_def)
qed

subsection \<open>Runs\<close>

lemma loop_from_start:
  assumes "k \<le> total" "\<forall>a. b = Some a \<longrightarrow> 0 \<le> a"
  shows "\<exists>P. run_cells h sz (logging f) b (mm_cells m) [] 0 0 (store_at h f m k False) w =
      (store_at h f m (reached m b k) False, w @ take (reached m b k - k) (drop k (mm_cells m)),
       Inr (map outcome (take (reached m b k) (mm_cells m)) @ P, int (reached m b k - k), int k)) \<and>
    length P = total - reached m b k \<and> (\<forall>s\<in>set P. cs_status s = Pending)"
proof -
  define i where "i = reached m b k - k"
  have i: "k + i = reached m b k" "k + i \<le> total" using assms by (auto simp: i_def reached_def split: option.splits)
  have within: "\<And>a. b = Some a \<Longrightarrow> 0 + int i \<le> a" using assms by (auto simp: i_def reached_def)
  have "map outcome (take k (mm_cells m)) @ map outcome (take i (drop k (mm_cells m))) =
      map outcome (take (k + i) (mm_cells m))"
    by (simp add: take_add)
  then have phases: "run_cells h sz (logging f) b (mm_cells m) [] 0 0 (store_at h f m k False) w =
      run_cells h sz (logging f) b (drop (k + i) (mm_cells m)) (map outcome (take (k + i) (mm_cells m))) (int i) (int k)
        (store_at h f m (k + i) False) (w @ take i (drop k (mm_cells m)))"
    using loop_reuses [of 0 k k b "[]" 0 0 w]
      loop_executes [OF i(2) within, where S = "map outcome (take k (mm_cells m))" and u = "int k" and w = w]
      assms(1) by simp
  show ?thesis
  proof (cases "k + i = total")
    case True
    with phases i(1) show ?thesis by (intro exI [of _ "[]"]) (simp add: i_def)
  next
    case False
    then obtain a where a: "b = Some a" "a \<le> int i" using assms i by (auto simp: i_def reached_def split: option.splits)
    with phases loop_defers [OF order_refl a(2), where j = "k + i" and S = "map outcome (take (k + i) (mm_cells m))" and
        u = "int k" and w = "w @ take i (drop k (mm_cells m))"] i(1)
    show ?thesis by (auto simp: i_def)
  qed
qed

abbreviation final_run :: "int \<Rightarrow> matrix_run" where "final_run \<equiv> complete_run h f m"

lemma final_run_init: "0 \<le> e \<Longrightarrow> e \<le> int total \<Longrightarrow> matrix_run_init (final_run e) = Inr (final_run e)"
  using states_of_cells(1) no_pending inventory_fields(1) [OF valid(3)]
  by (auto simp: matrix_run_init_def complete_run_def final_summary_def matrix_summary_of_def)

lemma run_of_prepared:
  assumes "\<forall>a. b = Some a \<longrightarrow> 0 \<le> a" "prepare_matrix_output h sz st m = (store_at h f m k False, Inr ())"
  shows "run_matrix h sz st m (logging f) b w =
     (case run_cells h sz (logging f) b (mm_cells m) [] 0 0 (store_at h f m k False) w of
        (st, w, Inl e) \<Rightarrow> (st, w, Inl e)
      | (st, w, Inr (states, executed, reused)) \<Rightarrow>
          let pending = count_status Pending states in
          if pending = 0
          then (case publish_summary h sz st m states of
              (st, Inl e) \<Rightarrow> (st, w, Inl e)
            | (st, Inr s) \<Rightarrow> (st, w, matrix_run_init \<lparr>rr_states = states, rr_summary = Some s,
                 rr_executed = executed, rr_reused = reused, rr_pending = pending\<rparr>))
          else (st, w, matrix_run_init \<lparr>rr_states = states, rr_summary = None,
                 rr_executed = executed, rr_reused = reused, rr_pending = pending\<rparr>))"
proof -
  have "\<not> (case b of None \<Rightarrow> False | Some n \<Rightarrow> n < 0)" using assms(1) by (auto split: option.splits)
  moreover have "st_summary (store_at h f m k False) = None" by (simp add: store_at_def)
  ultimately show ?thesis using assms(2) by (simp add: run_matrix_def)
qed

lemma run_completes:
  assumes "k \<le> total" "\<forall>a. b = Some a \<longrightarrow> 0 \<le> a" "reached m b k = total"
    and "prepare_matrix_output h sz st m = (store_at h f m k False, Inr ())"
  shows "run_matrix h sz st m (logging f) b w =
    (store_at h f m total True, w @ drop k (mm_cells m), Inr (final_run (int (total - k))))"
proof -
  have loop: "run_cells h sz (logging f) b (mm_cells m) [] 0 0 (store_at h f m k False) w =
      (store_at h f m total False, w @ drop k (mm_cells m), Inr (final_states h f m, int (total - k), int k))"
    using loop_from_start [where b = b and w = w, OF assms(1,2)] assms(3) by (auto simp: final_states_def)
  have run: "\<lparr>rr_states = final_states h f m, rr_summary = Some (final_summary h f m), rr_executed = int total - int k,
      rr_reused = int k, rr_pending = 0\<rparr> = final_run (int total - int k)"
    using assms(1) by (simp add: complete_run_def)
  show ?thesis
    unfolding run_of_prepared [where b = b, OF assms(2,4)] loop
    using final_run_init [of "int total - int k"] assms(1)
    by (simp add: no_pending summary_published of_nat_diff run)
qed

lemma run_suspends:
  assumes "k \<le> total" "\<forall>a. b = Some a \<longrightarrow> 0 \<le> a" "reached m b k < total"
    and "prepare_matrix_output h sz st m = (store_at h f m k False, Inr ())"
  shows "\<exists>r. run_matrix h sz st m (logging f) b w =
    (store_at h f m (reached m b k) False, w @ take (reached m b k - k) (drop k (mm_cells m)), Inr r)"
proof -
  let ?k = "reached m b k"
  obtain P where P: "run_cells h sz (logging f) b (mm_cells m) [] 0 0 (store_at h f m k False) w =
      (store_at h f m ?k False, w @ take (?k - k) (drop k (mm_cells m)),
       Inr (map outcome (take ?k (mm_cells m)) @ P, int (?k - k), int k))"
    "length P = total - ?k" "\<forall>s\<in>set P. cs_status s = Pending"
    using loop_from_start [where b = b and w = w, OF assms(1,2)] by blast
  have "count_status Pending (map outcome (take ?k (mm_cells m))) = 0"
    using states_of_cells(3) by (auto simp: count_status_def final_states_def filter_empty_conv dest: in_set_takeD)
  then have count: "count_status Pending (map outcome (take ?k (mm_cells m)) @ P) = int (total - ?k)"
    using P(2,3) by (simp add: count_status_def)
  have k: "k \<le> ?k" using assms(1) by (auto simp: reached_def split: option.splits)
  let ?r = "\<lparr>rr_states = map outcome (take ?k (mm_cells m)) @ P, rr_summary = None, rr_executed = int (?k - k),
    rr_reused = int k, rr_pending = int (total - ?k)\<rparr>"
  have "P \<noteq> []" using P(2) assms(3) by auto
  then have "matrix_run_init ?r = Inr ?r"
    using assms(3) P(2) k count by (simp add: matrix_run_init_def of_nat_diff)
  moreover have "int (total - ?k) \<noteq> 0" using assms(3) by simp
  ultimately have "run_matrix h sz st m (logging f) b w =
      (store_at h f m ?k False, w @ take (?k - k) (drop k (mm_cells m)), Inr ?r)"
    unfolding run_of_prepared [where b = b, OF assms(2,4)] P(1)
    by (simp only: prod.case sum.case Let_def count if_False)
  then show ?thesis by blast
qed

lemma run_finished:
  assumes "\<forall>a. b = Some a \<longrightarrow> 0 \<le> a"
  shows "run_matrix h sz (store_at h f m total True) m (logging f) b w =
    (store_at h f m total True, w, Inr (final_run 0))"
proof -
  have "\<not> (case b of None \<Rightarrow> False | Some n \<Rightarrow> n < 0)" using assms by (auto split: option.splits)
  moreover have "st_summary (store_at h f m total True) \<noteq> None" by (simp add: store_at_def)
  moreover have "\<lparr>rr_states = ms_cells (final_summary h f m), rr_summary = Some (final_summary h f m), rr_executed = 0,
      rr_reused = int (length (ms_cells (final_summary h f m))), rr_pending = 0\<rparr> = final_run 0"
    using states_of_cells(1) by (simp add: complete_run_def final_summary_def matrix_summary_of_def)
  ultimately show ?thesis using final_run_init [of 0] by (simp add: run_matrix_def prepared summary_loads)
qed

end

section \<open>Series of runs\<close>

fun run_sessions ::
    "hasher \<Rightarrow> sizes \<Rightarrow> matrix_manifest \<Rightarrow> 'e executor \<Rightarrow> nat list \<Rightarrow> store \<Rightarrow> 'e \<Rightarrow> store \<times> 'e" where
  "run_sessions h sz m exec [] st w = (st, w)"
| "run_sessions h sz m exec (b # bs) st w =
     (case run_matrix h sz st m exec (Some (int b)) w of (st, w, _) \<Rightarrow> run_sessions h sz m exec bs st w)"

text \<open>The directories a series goes through: untouched, part of the way, or finished.\<close>

definition on_the_way ::
    "hasher \<Rightarrow> (matrix_cell \<Rightarrow> cell_execution result) \<Rightarrow> matrix_manifest \<Rightarrow> store \<Rightarrow> matrix_cell list \<Rightarrow> bool" where
  "on_the_way h f m st w \<longleftrightarrow>
     st = empty_store \<and> w = [] \<or> (\<exists>k<length (mm_cells m). st = store_at h f m k False \<and> w = take k (mm_cells m)) \<or>
     st = store_at h f m (length (mm_cells m)) True \<and> w = mm_cells m"

context resumable
begin

lemma open_or_finished:
  assumes "on_the_way h f m st w"
  obtains k where "k < total" "prepare_matrix_output h sz st m = (store_at h f m k False, Inr ())" "w = take k (mm_cells m)"
  | "st = store_at h f m total True" "w = mm_cells m"
  using assms prepared prepared_empty inventory_fields(1) [OF valid(3)] unfolding on_the_way_def by auto

lemma session_stays:
  assumes "on_the_way h f m st w" "run_matrix h sz st m (logging f) (Some (int b)) w = (st', w', r)"
  shows "on_the_way h f m st' w'"
  using assms(1)
proof (cases rule: open_or_finished)
  case (1 k)
  let ?k = "reached m (Some (int b)) k"
  have k: "k \<le> total" "k \<le> ?k" using 1(1) by (simp_all add: reached_def)
  show ?thesis
  proof (cases "?k = total")
    case True
    have "w @ drop k (mm_cells m) = mm_cells m" using 1(3) by simp
    with run_completes [OF k(1) _ True 1(2), of w] assms(2) show ?thesis by (auto simp: on_the_way_def)
  next
    case False
    then have less: "?k < total" by (simp add: reached_def split: if_splits)
    have "w @ take (?k - k) (drop k (mm_cells m)) = take ?k (mm_cells m)"
      using 1(3) k(2) by (simp add: take_add [symmetric])
    with run_suspends [OF k(1) _ less 1(2), of w] assms(2) less show ?thesis by (auto simp: on_the_way_def)
  qed
next
  case 2
  with run_finished [of "Some (int b)" w] assms(2) show ?thesis by (auto simp: on_the_way_def)
qed

lemma sessions_stay: "on_the_way h f m st w \<Longrightarrow> run_sessions h sz m (logging f) bs st w = (st', w') \<Longrightarrow> on_the_way h f m st' w'"
proof (induction bs arbitrary: st w)
  case (Cons b bs)
  obtain st1 w1 r where run: "run_matrix h sz st m (logging f) (Some (int b)) w = (st1, w1, r)" by (metis prod_cases3)
  with Cons session_stays [OF Cons.prems(1) run] show ?case by simp
qed simp

lemma last_run:
  assumes "on_the_way h f m st w"
  shows "\<exists>e. run_matrix h sz st m (logging f) None w = (store_at h f m total True, mm_cells m, Inr (final_run e))"
  using assms
proof (cases rule: open_or_finished)
  case (1 k)
  then have "w @ drop k (mm_cells m) = mm_cells m" by simp
  with run_completes [OF _ _ _ 1(2), of None w] 1(1) show ?thesis by (auto simp: reached_def)
next
  case 2
  with run_finished [of None w] show ?thesis by auto
qed

lemma resume_agrees:
  assumes "run_sessions h sz m (logging f) bs empty_store [] = (st, w)"
  shows "\<exists>S r r'. run_matrix h sz st m (logging f) None w = (S, mm_cells m, Inr r) \<and>
    run_matrix h sz empty_store m (logging f) None [] = (S, mm_cells m, Inr r') \<and>
    rr_states r = rr_states r' \<and> rr_summary r = rr_summary r' \<and> rr_summary r \<noteq> None"
proof -
  have start: "on_the_way h f m empty_store []" by (simp add: on_the_way_def)
  from last_run [OF sessions_stay [OF start assms]] last_run [OF start] show ?thesis
    by (fastforce simp: complete_run_def)
qed

end

end
