(* ===== verification/Matrix_Inventory.thy ===== *)
theory Matrix_Inventory
  imports Matrix_Builders
begin

text \<open>
  What the inventory check of a matrix manifest guarantees: every cell is referred to by a row, and the
  primary matrix has one faulted and one restored cell for every operator at every level.
\<close>

section \<open>Cells of one condition\<close>

lemma count_addresses:
  assumes "distinct (map (cell_sha256 h) cells)"
  shows "count_condition k cells = card (cell_sha256 h ` {c \<in> set cells. tm_condition (mc_trial c) = k})"
proof -
  have "distinct (map (cell_sha256 h) (filter (\<lambda>c. tm_condition (mc_trial c) = k) cells))"
    using assms by (rule distinct_map_filter)
  from distinct_card [OF this] show ?thesis by (simp add: count_condition_def)
qed

lemma count_conditions:
  "length cells = count_condition CLEAN cells + count_condition NO_TOUCH cells + count_condition FAULTED cells +
     count_condition RESTORED cells"
proof (induction cells)
  case (Cons c cells)
  then show ?case by (cases "tm_condition (mc_trial c)") (simp_all add: count_condition_def)
qed (simp add: count_condition_def)

text \<open>A condition whose cells the rows refer to, each row to a cell of its own operator and level.\<close>

definition at_dose :: "condition \<Rightarrow> operator_id \<Rightarrow> int \<Rightarrow> matrix_cell \<Rightarrow> bool" where
  "at_dose k op level c \<longleftrightarrow>
     tm_condition (mc_trial c) = k \<and> cell_operator_id c = Some (operator_name op) \<and> cell_severity_level c = Some level"

definition covers_rows :: "hasher \<Rightarrow> matrix_manifest \<Rightarrow> condition \<Rightarrow> (matrix_row \<Rightarrow> string) \<Rightarrow> bool" where
  "covers_rows h m k ref \<longleftrightarrow>
     (\<forall>row\<in>set (mm_comparisons m). \<exists>c\<in>set (mm_cells m). cell_sha256 h c = ref row \<and>
        at_dose k (mr_operator_id row) (mr_severity_level row) c) \<and>
     (\<forall>c\<in>set (mm_cells m). tm_condition (mc_trial c) = k \<longrightarrow> (\<exists>row\<in>set (mm_comparisons m). cell_sha256 h c = ref row))"

lemma same_address:
  assumes "distinct (map (cell_sha256 h) cells)" "c \<in> set cells" "d \<in> set cells" "cell_sha256 h c = cell_sha256 h d"
  shows "c = d"
  using assms by (auto simp: distinct_map dest: inj_onD)

lemma covered_addresses:
  assumes rows: "covers_rows h m k ref"
  shows "cell_sha256 h ` {c \<in> set (mm_cells m). tm_condition (mc_trial c) = k} = ref ` set (mm_comparisons m)"
  using rows unfolding covers_rows_def at_dose_def by (fastforce simp: image_iff)

lemma reference_inj:
  assumes inventory: "validate_inventory h m = Inr u" "mm_kind m = PRIMARY" and rows: "covers_rows h m k ref"
  shows "inj_on ref (set (mm_comparisons m))"
proof (rule inj_onI)
  fix r s assume rs: "r \<in> set (mm_comparisons m)" "s \<in> set (mm_comparisons m)" "ref r = ref s"
  obtain c d where cd: "c \<in> set (mm_cells m)" "d \<in> set (mm_cells m)" "cell_sha256 h c = ref r" "cell_sha256 h d = ref s"
    "at_dose k (mr_operator_id r) (mr_severity_level r) c" "at_dose k (mr_operator_id s) (mr_severity_level s) d"
    using rows rs unfolding covers_rows_def by meson
  then have "c = d" using same_address [OF inventory_fields(3) [OF inventory(1)]] rs(3) by metis
  with cd have "(mr_operator_id r, mr_severity_level r) = (mr_operator_id s, mr_severity_level s)"
    by (simp add: at_dose_def)
  with primary_rows(1) [OF inventory] rs show "r = s" by (auto simp: distinct_map dest: inj_onD)
qed

lemma covered_count:
  assumes inventory: "validate_inventory h m = Inr u" "mm_kind m = PRIMARY" and rows: "covers_rows h m k ref"
  shows "count_condition k (mm_cells m) = 70"
proof -
  have "distinct (mm_comparisons m)" using primary_rows(1) [OF inventory] by (simp add: distinct_map)
  then have "card (set (mm_comparisons m)) = 70"
    using distinct_card inventory_fields(9) [OF inventory] by metis
  with card_image [OF reference_inj [OF assms]] show ?thesis
    unfolding count_addresses [OF inventory_fields(3) [OF inventory(1)]] covered_addresses [OF rows] by simp
qed

lemma covered_once:
  assumes inventory: "validate_inventory h m = Inr u" "mm_kind m = PRIMARY" and rows: "covers_rows h m k ref"
    and dose: "(op, level) \<in> set PRIMARY_GRID"
  shows "\<exists>!c. c \<in> set (mm_cells m) \<and> at_dose k op level c"
proof -
  obtain row where row: "row \<in> set (mm_comparisons m)" "mr_operator_id row = op" "mr_severity_level row = level"
    using dose inventory_fields(9) [OF inventory] by (metis (mono_tags, lifting) fst_conv imageE list.set_map snd_conv)
  then obtain c where c: "c \<in> set (mm_cells m)" "at_dose k op level c" "cell_sha256 h c = ref row"
    using rows unfolding covers_rows_def by metis
  have "d = c" if d: "d \<in> set (mm_cells m)" "at_dose k op level d" for d
  proof -
    obtain row' where r: "row' \<in> set (mm_comparisons m)" "cell_sha256 h d = ref row'"
      using rows d unfolding covers_rows_def at_dose_def by metis
    then obtain e where e: "e \<in> set (mm_cells m)" "cell_sha256 h e = ref row'"
      "at_dose k (mr_operator_id row') (mr_severity_level row') e"
      using rows unfolding covers_rows_def by metis
    have "e = d" using same_address [OF inventory_fields(3) [OF inventory(1)] e(1) d(1)] e(2) r(2) by simp
    with e(3) d(2) row have "(mr_operator_id row', mr_severity_level row') = (mr_operator_id row, mr_severity_level row)"
      by (simp add: at_dose_def)
    then have "row' = row" using primary_rows(1) [OF inventory] r(1) row(1) by (auto simp: distinct_map dest: inj_onD)
    then show "d = c"
      using same_address [OF inventory_fields(3) [OF inventory(1)] d(1) c(1)] r(2) c(3) by simp
  qed
  with c show ?thesis by blast
qed

section \<open>The rows of a valid matrix\<close>

lemma rows_cover:
  assumes "validate_inventory h m = Inr u"
  shows "covers_rows h m FAULTED mr_faulted" "covers_rows h m RESTORED mr_restored"
proof -
  note linked = inventory_linked [OF assms]
  note address = same_address [OF inventory_fields(3) [OF assms]]
  have ref: "(tm_condition (mc_trial c) = FAULTED \<longrightarrow> (\<exists>row\<in>set (mm_comparisons m). cell_sha256 h c = mr_faulted row)) \<and>
      (tm_condition (mc_trial c) = RESTORED \<longrightarrow> (\<exists>row\<in>set (mm_comparisons m). cell_sha256 h c = mr_restored row))"
    if c: "c \<in> set (mm_cells m)" for c
  proof -
    obtain row where row: "row \<in> set (mm_comparisons m)" "cell_sha256 h c \<in> set (map snd (row_references row))"
    proof -
      have "cell_sha256 h c \<in> set (map (cell_sha256 h) (mm_cells m))" using c by simp
      then show ?thesis using that unfolding linked(2) by blast
    qed
    have "row_linked h (mm_cells m) row" using linked(1) row(1) by blast
    then obtain clean faulted no_touch restored where l: "{clean, faulted, no_touch, restored} \<subseteq> set (mm_cells m)"
      "map (cell_sha256 h) [clean, faulted, no_touch, restored] =
         [mr_clean row, mr_faulted row, mr_no_touch row, mr_restored row]"
      "map (\<lambda>c. tm_condition (mc_trial c)) [clean, faulted, no_touch, restored] = [CLEAN, FAULTED, NO_TOUCH, RESTORED]"
      unfolding row_linked_def by (elim exE conjE)
    have refs: "map snd (row_references row) = map (cell_sha256 h) [clean, faulted, no_touch, restored]"
      using l(2) by (simp add: row_references_def)
    have "cell_sha256 h c \<in> cell_sha256 h ` set [clean, faulted, no_touch, restored]"
      using row(2) unfolding refs list.set_map .
    then obtain x where x: "x \<in> {clean, faulted, no_touch, restored}" "cell_sha256 h c = cell_sha256 h x" by auto
    then have "c = x" using address [OF c] l(1) by blast
    with x(1) l row(1) show ?thesis by auto
  qed
  have dose: "\<exists>faulted\<in>set (mm_cells m). \<exists>restored\<in>set (mm_cells m).
      cell_sha256 h faulted = mr_faulted row \<and> at_dose FAULTED (mr_operator_id row) (mr_severity_level row) faulted \<and>
      cell_sha256 h restored = mr_restored row \<and> at_dose RESTORED (mr_operator_id row) (mr_severity_level row) restored"
    if "row \<in> set (mm_comparisons m)" for row
  proof -
    have "row_linked h (mm_cells m) row" using linked(1) that by blast
    then show ?thesis
      unfolding row_linked_def
      by (elim exE conjE)
         (auto simp: at_dose_def cell_operator_id_def cell_severity_level_def same_instance_def intro!: bexI)
  qed
  show "covers_rows h m FAULTED mr_faulted" "covers_rows h m RESTORED mr_restored"
    unfolding covers_rows_def using ref dose by blast+
qed

lemma primary_inventory:
  assumes "validate_inventory h m = Inr u" "mm_kind m = PRIMARY"
  shows "length (mm_cells m) = 142" "count_condition FAULTED (mm_cells m) = 70"
    "count_condition RESTORED (mm_cells m) = 70"
proof -
  show counts: "count_condition FAULTED (mm_cells m) = 70" "count_condition RESTORED (mm_cells m) = 70"
    using covered_count [OF assms] rows_cover [OF assms(1)] by blast+
  show "length (mm_cells m) = 142"
    unfolding count_conditions [of "mm_cells m"] counts inventory_fields(5,6) [OF assms(1)] by simp
qed

end
