(* ===== verification/Runner.thy ===== *)
theory Runner
  imports Trial_Results
begin

text \<open>
  One closed-loop trial (\<open>closed_loop/runner.py\<close>, \<open>closed_loop/runner_checks.py\<close>).

  The simulator and the policy are protocols (\<open>closed_loop/interfaces.py\<close>) and the clock is given:
  their operations are functions over a state \<open>'e\<close> of the outside world, which a call may change
  also when it raises; \<open>RunnerViolation\<close> is the runner's own exception.  The local variables of the runner are a record, so that its \<open>except\<close> and
  \<open>finally\<close> clauses see them as they were when an exception was raised.  An operation of the
  runner is a function from that record to a result and the record afterwards.
\<close>

section \<open>The outside world\<close>

record 'e backend =
  be_action_spec :: string
  be_success_predicate_id :: string
  be_reset :: "episode_context \<Rightarrow> 'e \<Rightarrow> reset_receipt result \<times> 'e"
  be_observe :: "'e \<Rightarrow> evaluation result \<times> 'e"
  be_execute :: "ndarray \<Rightarrow> 'e \<Rightarrow> execution_batch result \<times> 'e"
  be_close :: "'e \<Rightarrow> unit result \<times> 'e"

record 'e policy =
  po_identity :: policy_identity
  po_reset :: "episode_context \<Rightarrow> 'e \<Rightarrow> unit result \<times> 'e"
  po_infer :: "observation \<Rightarrow> 'e \<Rightarrow> action_plan result \<times> 'e"
  po_commit :: "policy_execution \<Rightarrow> 'e \<Rightarrow> unit result \<times> 'e"
  po_abort :: "string \<Rightarrow> 'e \<Rightarrow> unit result \<times> 'e"
  po_close :: "'e \<Rightarrow> unit result \<times> 'e"

text \<open>The arguments of a run.\<close>

record 'e run_env =
  en_hasher :: hasher
  en_numpy :: numpy
  en_trial :: trial_manifest
  en_spec :: run_spec
  en_backend :: "'e backend"
  en_policy :: "'e policy"
  en_clock :: "'e \<Rightarrow> rat \<times> 'e"
  en_fault :: "fault_manifest option"
  en_rest :: "reference_bundle option"

section \<open>Checks of the runner\<close>

text \<open>\<open>RunnerViolation\<close> beside the exceptions of everything else.\<close>

datatype run_exn = Raised exn | RunnerViolation string

type_synonym 'a checked = "run_exn + 'a"

definition raised :: "'a result \<Rightarrow> 'a checked" where
  "raised r = (case r of Inl e \<Rightarrow> Inl (Raised e) | Inr x \<Rightarrow> Inr x)"

definition build_episode_context :: "hasher \<Rightarrow> trial_manifest \<Rightarrow> string \<Rightarrow> episode_context result" where
  "build_episode_context h trial prompt =
     context_init
       \<lparr>ec_episode_id = canonical_hash h
          (PDict [(''namespace'', PStr ''robotactile_benchmark.closed_loop.episode.v1''),
                  (''trial_manifest_sha256'', PStr (trial_sha256 h trial))]),
        ec_task = tm_task trial, ec_initial_seed = tm_initial_seed trial,
        ec_exogenous_seed = tm_exogenous_seed trial, ec_instruction = prompt,
        ec_action_spec = tm_action_spec trial\<rparr>"

definition preflight :: "'e run_env \<Rightarrow> unit result" where
  "preflight E =
     (let trial = en_trial E; identity = po_identity (en_policy E); fault = en_fault E;
          faulted = tm_condition trial \<in> {FAULTED, RESTORED}
      in if pi_system_id identity \<noteq> tm_executed_system_id trial \<or>
            pi_checkpoint_sha256 identity \<noteq> tm_checkpoint_sha256 trial \<or>
            pi_config_sha256 identity \<noteq> tm_config_sha256 trial \<or>
            pi_action_spec identity \<noteq> tm_action_spec trial
         then Inl (ValueError ''policy identity does not match the trial manifest'')
         else if be_action_spec (en_backend E) \<noteq> tm_action_spec trial
         then Inl (ValueError ''backend action spec does not match the trial manifest'')
         else if be_success_predicate_id (en_backend E) \<noteq> rs_success_predicate_id (en_spec E)
         then Inl (ValueError ''backend success predicate does not match the run spec'')
         else if faulted \<and> fault = None
         then Inl (ValueError ''faulted/restored trial requires a fault manifest'')
         else if \<not> faulted \<and> fault \<noteq> None
         then Inl (ValueError ''clean/no-touch trial cannot receive a fault manifest'')
         else if fault \<noteq> None \<and>
                 tm_fault_manifest_sha256 trial \<noteq> map_option (manifest_sha256 (en_hasher E)) fault
         then Inl (ValueError ''fault manifest does not match the trial manifest'')
         else if en_rest E \<noteq> None \<and>
                 (case fault of None \<Rightarrow> True
                  | Some m \<Rightarrow> fm_operator_id m \<notin> set REST_REFERENCE_OPERATOR_IDS)
         then Inl (ValueError ''rest references are only valid for rest-reference operators'')
         else if tm_condition trial = RESTORED \<and> fault \<noteq> None \<and>
                 tm_restoration_index trial \<noteq> map_option fm_stop_index fault
         then Inl (ValueError ''restoration index must equal the fault stop index'')
         else if tm_condition trial = NO_TOUCH
         then (if pi_consumes_tactile identity
               then Inl (ValueError ''no-touch trial requires a non-tactile policy'') else Inr ())
         else if \<not> pi_consumes_tactile identity
         then Inl (ValueError ''tactile trial requires a tactile-consuming base policy'')
         else Inr ())"

definition validate_reset :: "reset_receipt \<Rightarrow> episode_context \<Rightarrow> unit checked" where
  "validate_reset receipt ctx =
     (if rc_episode_id receipt \<noteq> ec_episode_id ctx \<or>
         rc_initial_seed receipt \<noteq> ec_initial_seed ctx \<or>
         rc_exogenous_seed receipt \<noteq> ec_exogenous_seed ctx
      then Inl (RunnerViolation ''reset_receipt_mismatch'') else Inr ())"

definition check_clean_record :: "hasher \<Rightarrow> evaluation \<Rightarrow> episode_context \<Rightarrow> int \<Rightarrow> unit checked" where
  "check_clean_record h r ctx expected_step =
     (let ob = ev_observation r in
      if ob_episode_id ob \<noteq> ec_episode_id ctx \<or> ob_task ob \<noteq> ec_task ctx \<or>
         ob_seed ob \<noteq> ec_initial_seed ctx
      then Inl (RunnerViolation ''clean_record_identity_mismatch'')
      else if ob_step_index ob \<noteq> expected_step then Inl (RunnerViolation ''clean_record_step_mismatch'')
      else if list_ex (\<lambda>p. pv_active_fault_ids p \<noteq> []) (ev_provenance r)
      then Inl (RunnerViolation ''clean_record_contains_fault'')
      else if ev_clean_record_sha256 r \<noteq> content_sha h r \<or> ev_delivered_record_sha256 r \<noteq> content_sha h r
      then Inl (RunnerViolation ''clean_record_hash_mismatch'')
      else Inr ())"

text \<open>The loop over the transitions, with \<open>terminal_seen\<close> and \<open>previous_native_step_id\<close>.\<close>

fun validate_transitions ::
    "hasher \<Rightarrow> episode_context \<Rightarrow> int \<Rightarrow> bool \<Rightarrow> int option \<Rightarrow> backend_transition list \<Rightarrow>
     int option checked" where
  "validate_transitions h ctx step terminal_seen previous [] = Inr previous"
| "validate_transitions h ctx step terminal_seen previous (t # ts) =
     (if terminal_seen then Inl (RunnerViolation ''terminal_transition_followed'')
      else if (case previous of None \<Rightarrow> False | Some p \<Rightarrow> bt_native_step_id t \<le> p)
      then Inl (RunnerViolation ''native_step_id_not_monotonic'')
      else case check_clean_record h (bt_clean_record t) ctx step of
        Inl e \<Rightarrow> Inl e
      | Inr _ \<Rightarrow>
          validate_transitions h ctx (step + 1) (bt_signal t \<noteq> Running) (Some (bt_native_step_id t)) ts)"

definition validate_batch ::
    "hasher \<Rightarrow> execution_batch \<Rightarrow> int \<Rightarrow> episode_context \<Rightarrow> int \<Rightarrow> int option \<Rightarrow> int checked" where
  "validate_batch h batch requested ctx expected_step previous =
     (if requested < eb_executed_action_count batch \<or>
         int (length (eb_transitions batch)) \<noteq> eb_executed_action_count batch
      then Inl (RunnerViolation ''transition_action_count_mismatch'')
      else case raised (if eb_executed_action_count batch < requested
                then bindr (py_index (eb_transitions batch) (- 1)) (\<lambda>t. Inr (bt_signal t = Running))
                else Inr False) of
        Inl e \<Rightarrow> Inl e
      | Inr running_partial \<Rightarrow>
          if running_partial then Inl (RunnerViolation ''running_partial_batch'')
          else (case validate_transitions h ctx expected_step False previous (eb_transitions batch) of
                  Inl e \<Rightarrow> Inl e
                | Inr None \<Rightarrow> Inl (RunnerViolation ''empty_execution_batch'')
                | Inr (Some native) \<Rightarrow> Inr native))"

section \<open>The delivery session of a run\<close>

datatype run_session = Identity_session delivery_session | Fault_session online_session

fun session_deliver :: "hasher \<Rightarrow> numpy \<Rightarrow> run_session \<Rightarrow> evaluation \<Rightarrow> run_session \<times> evaluation result" where
  "session_deliver h np (Identity_session s) r =
     (case identity_deliver h s r of (s', d) \<Rightarrow> (Identity_session s', d))"
| "session_deliver h np (Fault_session s) r =
     (case online_deliver h np s r of (s', d) \<Rightarrow> (Fault_session s', d))"

fun session_finalize :: "hasher \<Rightarrow> numpy \<Rightarrow> run_session \<Rightarrow> run_session \<times> delivery_finalization result" where
  "session_finalize h np (Identity_session s) =
     (case identity_finalize h s of (s', f) \<Rightarrow> (Identity_session s', f))"
| "session_finalize h np (Fault_session s) =
     (case online_finalize h np s of (s', f) \<Rightarrow> (Fault_session s', f))"

section \<open>The local variables and the operations over them\<close>

record 'e frame =
  fr_world :: 'e
  fr_initial_state_sha256 :: "string option"
  fr_finalization :: "delivery_finalization option"
  fr_action_entries :: "action_entry list"
  fr_observation_count :: int
  fr_control_cycle_count :: int
  fr_backend_signal :: backend_signal
  fr_session :: "run_session option"
  fr_reset_attempted :: bool
  fr_policy_reset_entered :: bool
  fr_previous_native_step_id :: "int option"
  fr_stage :: string
  fr_current_observation :: "observation option"
  fr_started_at :: rat

type_synonym ('e, 'a) run = "'e frame \<Rightarrow> 'a checked \<times> 'e frame"

definition sbind :: "('e, 'a) run \<Rightarrow> ('a \<Rightarrow> ('e, 'b) run) \<Rightarrow> ('e, 'b) run" where
  "sbind m f s = (case m s of (Inl e, s') \<Rightarrow> (Inl e, s') | (Inr x, s') \<Rightarrow> f x s')"

definition sret :: "'a \<Rightarrow> ('e, 'a) run" where
  "sret x s = (Inr x, s)"

definition sget :: "('e, 'e frame) run" where
  "sget s = (Inr s, s)"

definition lift_checked :: "'a checked \<Rightarrow> ('e, 'a) run" where
  "lift_checked r s = (r, s)"

definition lift_result :: "'a result \<Rightarrow> ('e, 'a) run" where
  "lift_result r = lift_checked (raised r)"

definition update :: "('e frame \<Rightarrow> 'e frame) \<Rightarrow> ('e, unit) run" where
  "update f s = (Inr (), f s)"

text \<open>A call of the outside world.\<close>

definition call :: "('e \<Rightarrow> 'a result \<times> 'e) \<Rightarrow> ('e, 'a) run" where
  "call f s = (case f (fr_world s) of (r, w) \<Rightarrow> (raised r, s\<lparr>fr_world := w\<rparr>))"

definition read_clock :: "'e run_env \<Rightarrow> ('e, rat) run" where
  "read_clock E s = (case en_clock E (fr_world s) of (t, w) \<Rightarrow> (Inr t, s\<lparr>fr_world := w\<rparr>))"

definition set_stage :: "string \<Rightarrow> ('e, unit) run" where
  "set_stage stage = update (\<lambda>s. s\<lparr>fr_stage := stage\<rparr>)"

text \<open>\<open>session.deliver\<close> and \<open>session.finalize\<close> on the session of the run, which is open whenever
  the code reaches them.\<close>

definition run_deliver :: "'e run_env \<Rightarrow> evaluation \<Rightarrow> ('e, evaluation) run" where
  "run_deliver E r s =
     (case fr_session s of
        None \<Rightarrow> (Inl (Raised (TypeError ''NoneType object has no attribute deliver'')), s)
      | Some session \<Rightarrow>
          (case session_deliver (en_hasher E) (en_numpy E) session r of
             (session', d) \<Rightarrow> (raised d, s\<lparr>fr_session := Some session'\<rparr>)))"

definition run_finalize :: "'e run_env \<Rightarrow> ('e, delivery_finalization) run" where
  "run_finalize E s =
     (case fr_session s of
        None \<Rightarrow> (Inl (Raised (TypeError ''NoneType object has no attribute finalize'')), s)
      | Some session \<Rightarrow>
          (case session_finalize (en_hasher E) (en_numpy E) session of
             (session', f) \<Rightarrow> (raised f, s\<lparr>fr_session := Some session'\<rparr>)))"

primrec run_deliveries :: "'e run_env \<Rightarrow> evaluation list \<Rightarrow> ('e, evaluation list) run" where
  "run_deliveries E [] = sret []"
| "run_deliveries E (r # rs) =
     sbind (run_deliver E r) (\<lambda>d. sbind (run_deliveries E rs) (\<lambda>ds. sret (d # ds)))"

text \<open>\<open>actions[:n]\<close> of an \<open>[H, 8]\<close> array.\<close>

definition action_prefix :: "int \<Rightarrow> ndarray \<Rightarrow> ndarray" where
  "action_prefix n a =
     a\<lparr>nd_shape := min (nat n) (hd (nd_shape a)) # tl (nd_shape a),
       nd_data := take (nat n * prod_list (tl (nd_shape a))) (nd_data a)\<rparr>"

section \<open>One control cycle\<close>

text \<open>What follows a valid batch: deliver its records, keep the action entry and tell the policy.
  The result says whether the loop goes on.\<close>

definition commit_batch ::
    "'e run_env \<Rightarrow> action_plan \<Rightarrow> ndarray \<Rightarrow> execution_batch \<Rightarrow> ('e, bool) run" where
  "commit_batch E plan actions batch =
     (let plan_sha = action_plan_sha256 (en_hasher E) plan;
          executed = eb_executed_action_count batch;
          prefix = action_prefix executed actions in
      sbind (set_stage ''delivery'') (\<lambda>_.
      sbind (run_deliveries E (map bt_clean_record (eb_transitions batch))) (\<lambda>delivered.
      sbind (update (\<lambda>s. s\<lparr>fr_action_entries := fr_action_entries s @
               [\<lparr>ae_action_plan_sha256 = plan_sha, ae_source_step_index = ap_source_step_index plan,
                 ae_executed_actions = prefix\<rparr>]\<rparr>)) (\<lambda>_.
      sbind (lift_result (py_index (eb_transitions batch) (- 1))) (\<lambda>final.
      sbind (update (\<lambda>s. s\<lparr>fr_backend_signal := bt_signal final,
               fr_observation_count := fr_observation_count s + executed\<rparr>)) (\<lambda>_.
      sbind (lift_result (py_index delivered (- 1))) (\<lambda>last_delivered.
      sbind (update (\<lambda>s. s\<lparr>fr_current_observation := Some (ev_observation last_delivered)\<rparr>)) (\<lambda>_.
      sbind (set_stage ''commit'') (\<lambda>_.
      sbind (lift_result (execution_init (en_numpy E)
               \<lparr>pe_action_plan_sha256 = plan_sha, pe_executed_actions = prefix,
                pe_delivered_observations = map ev_observation delivered,
                pe_terminal_signal = bt_signal final\<rparr>)) (\<lambda>execution.
      sbind (call (po_commit (en_policy E) execution)) (\<lambda>_.
      sret (bt_signal final = Running))))))))))))"

definition execute_plan :: "'e run_env \<Rightarrow> episode_context \<Rightarrow> action_plan \<Rightarrow> int \<Rightarrow> ('e, bool) run" where
  "execute_plan E ctx plan requested =
     (let actions = action_prefix requested (ap_actions plan) in
      sbind (set_stage ''execute'') (\<lambda>_.
      sbind (update (\<lambda>s. s\<lparr>fr_control_cycle_count := fr_control_cycle_count s + 1\<rparr>)) (\<lambda>_.
      sbind (call (be_execute (en_backend E) actions)) (\<lambda>batch.
      sbind sget (\<lambda>s.
      sbind (lift_checked (validate_batch (en_hasher E) batch requested ctx (fr_observation_count s)
                    (fr_previous_native_step_id s))) (\<lambda>native.
      sbind (update (\<lambda>s. s\<lparr>fr_previous_native_step_id := Some native\<rparr>)) (\<lambda>_.
      commit_batch E plan actions batch)))))))"

definition timeout_break :: "('e, bool) run" where
  "timeout_break = sbind (update (\<lambda>s. s\<lparr>fr_backend_signal := Signal_timeout\<rparr>)) (\<lambda>_. sret False)"

definition infer_plan :: "'e run_env \<Rightarrow> ('e, action_plan) run" where
  "infer_plan E =
     sbind (set_stage ''infer'') (\<lambda>_.
     sbind sget (\<lambda>s.
     sbind (lift_result (case fr_current_observation s of
              None \<Rightarrow> Inl (RuntimeError ''local variable referenced before assignment'')
            | Some ob \<Rightarrow> Inr ob)) (\<lambda>ob.
     sbind (call (po_infer (en_policy E) ob)) (\<lambda>plan.
     if ap_action_spec plan \<noteq> ACTION_SPEC
     then lift_checked (Inl (RunnerViolation ''action_plan_action_spec_mismatch''))
     else if ap_source_step_index plan \<noteq> ob_step_index ob
     then lift_checked (Inl (RunnerViolation ''action_plan_source_step_mismatch''))
     else sret plan))))"

definition requested_count :: "run_spec \<Rightarrow> int \<Rightarrow> action_plan \<Rightarrow> int result" where
  "requested_count spec observations plan =
     bindr (py_index (nd_shape (ap_actions plan)) 0) (\<lambda>rows.
     Inr (min (min (rs_execute_action_steps spec) (rs_max_observation_steps spec - observations)) (int rows)))"

definition loop_body :: "'e run_env \<Rightarrow> episode_context \<Rightarrow> ('e, bool) run" where
  "loop_body E ctx =
     sbind (read_clock E) (\<lambda>now.
     sbind sget (\<lambda>s.
     if rs_wall_timeout_s (en_spec E) \<le> fl64 (now - fr_started_at s) then timeout_break
     else if rs_max_control_cycles (en_spec E) \<le> fr_control_cycle_count s \<or>
             rs_max_observation_steps (en_spec E) \<le> fr_observation_count s
     then timeout_break
     else sbind (infer_plan E) (\<lambda>plan.
          sbind (lift_result (requested_count (en_spec E) (fr_observation_count s) plan)) (\<lambda>requested.
          if requested < 1 then timeout_break else execute_plan E ctx plan requested))))"

text \<open>The \<open>while True\<close> loop; that it returns is a theorem.\<close>

partial_function (option) run_loop ::
    "'e run_env \<Rightarrow> episode_context \<Rightarrow> 'e frame \<Rightarrow> (unit checked \<times> 'e frame) option" where
  "run_loop E ctx s =
     (case loop_body E ctx s of (r, s') \<Rightarrow>
        if isl r then Some (Inl (projl r), s')
        else if projr r then run_loop E ctx s' else Some (Inr (), s'))"

section \<open>Evidence\<close>

text \<open>What the runner keeps for the evaluator (\<open>closed_loop/capture.py\<close>).\<close>

definition action_entry_init :: "action_entry \<Rightarrow> action_entry result" where
  "action_entry_init e =
     (let a = ae_executed_actions e in
      if \<not> is_sha256 (ae_action_plan_sha256 e)
      then Inl (ValueError ''action_plan_sha256 must be a lowercase SHA256'')
      else if ae_source_step_index e < 0 then Inl (ValueError ''source_step_index must be non-negative'')
      else if nd_dtype a \<noteq> ''float32'' \<or> length (nd_shape a) \<noteq> 2 \<or> nd_shape a ! 1 \<noteq> 8
      then Inl (ValueError ''executed_actions must be canonical float32 [N, 8]'')
      else if nd_shape a ! 0 < 1 \<or> \<not> all_finite a
      then Inl (ValueError ''executed_actions must be non-empty and finite'')
      else Inr e)"

record evidence =
  ce_result :: trial_result
  ce_finalization :: "delivery_finalization option"
  ce_action_entries :: "action_entry list"

definition evidence_init :: "hasher \<Rightarrow> evidence \<Rightarrow> evidence result" where
  "evidence_init h e =
     (if action_trace_sha256 h (ce_action_entries e) \<noteq> tr_action_trace_sha256 (ce_result e)
      then Inl (ValueError ''captured actions do not match the terminal result'')
      else if (case ce_finalization e of None \<Rightarrow> False
               | Some f \<Rightarrow> df_clean_trace_sha256 f \<noteq> tr_clean_trace_sha256 (ce_result e) \<or>
                           df_delivered_trace_sha256 f \<noteq> tr_delivered_trace_sha256 (ce_result e))
      then Inl (ValueError ''captured delivery does not match the terminal result'')
      else Inr e)"

definition record_evidence ::
    "hasher \<Rightarrow> bool \<Rightarrow> trial_result \<Rightarrow> delivery_finalization option \<Rightarrow> action_entry list \<Rightarrow>
     evidence option result" where
  "record_evidence h capture r finalization entries =
     (if \<not> capture then Inr None
      else bindr (mapr action_entry_init entries) (\<lambda>entries.
           bindr (evidence_init h \<lparr>ce_result = r, ce_finalization = finalization, ce_action_entries = entries\<rparr>)
             (\<lambda>e. Inr (Some e))))"

section \<open>Opening a run\<close>

type_synonym run_output = "trial_result \<times> evidence option"

datatype opened = Rejected run_output | Started episode_context

definition STRUCTURAL_ABSENCE_OPERATOR_IDS :: "operator_id list" where
  "STRUCTURAL_ABSENCE_OPERATOR_IDS = [A1_stream_absence, A2_frame_erasure]"

definition open_session :: "'e run_env \<Rightarrow> run_session result" where
  "open_session E =
     (case en_fault E of
        None \<Rightarrow> Inr (Identity_session delivery_session_init)
      | Some m \<Rightarrow> bindr (online_init (en_hasher E) m (en_rest E)) (\<lambda>s. Inr (Fault_session s)))"

definition observe_first :: "'e run_env \<Rightarrow> episode_context \<Rightarrow> ('e, unit) run" where
  "observe_first E ctx =
     sbind (set_stage ''policy_reset'') (\<lambda>_.
     sbind (update (\<lambda>s. s\<lparr>fr_policy_reset_entered := True\<rparr>)) (\<lambda>_.
     sbind (call (po_reset (en_policy E) ctx)) (\<lambda>_.
     sbind (read_clock E) (\<lambda>started.
     sbind (update (\<lambda>s. s\<lparr>fr_started_at := started\<rparr>)) (\<lambda>_.
     sbind (set_stage ''observe'') (\<lambda>_.
     sbind (call (be_observe (en_backend E))) (\<lambda>initial_clean.
     sbind (lift_checked (check_clean_record (en_hasher E) initial_clean ctx 0)) (\<lambda>_.
     sbind (set_stage ''delivery'') (\<lambda>_.
     sbind (run_deliver E initial_clean) (\<lambda>delivered.
     update (\<lambda>s. s\<lparr>fr_current_observation := Some (ev_observation delivered),
                    fr_observation_count := 1\<rparr>)))))))))))"

definition start_episode :: "'e run_env \<Rightarrow> episode_context \<Rightarrow> ('e, unit) run" where
  "start_episode E ctx =
     sbind (set_stage ''reset'') (\<lambda>_.
     sbind (update (\<lambda>s. s\<lparr>fr_reset_attempted := True\<rparr>)) (\<lambda>_.
     sbind (call (be_reset (en_backend E) ctx)) (\<lambda>receipt.
     sbind (update (\<lambda>s. s\<lparr>fr_initial_state_sha256 := Some (rc_simulator_state_sha256 receipt)\<rparr>)) (\<lambda>_.
     sbind (lift_checked (validate_reset receipt ctx)) (\<lambda>_.
     observe_first E ctx)))))"

definition run_open :: "'e run_env \<Rightarrow> bool \<Rightarrow> ('e, opened) run" where
  "run_open E capture =
     (let h = en_hasher E in
      sbind (lift_result (preflight E)) (\<lambda>_.
      if (case en_fault E of None \<Rightarrow> False
          | Some m \<Rightarrow> fm_operator_id m \<in> set STRUCTURAL_ABSENCE_OPERATOR_IDS \<and>
                      \<not> pi_supports_structural_absence (po_identity (en_policy E)))
      then sbind (lift_result (build_trial_result h (en_trial E) (en_spec E) None UNSUPPORTED_CONTRACT None
                    None [] 0 0 (Some ''preflight'') (Some ''structural_absence_unsupported'') None)) (\<lambda>r.
           sbind (lift_result (record_evidence h capture r None [])) (\<lambda>e. sret (Rejected (r, e))))
      else sbind (lift_result (build_episode_context h (en_trial E) (rs_prompt (en_spec E)))) (\<lambda>ctx.
           sbind (lift_result (open_session E)) (\<lambda>session.
           sbind (update (\<lambda>s. s\<lparr>fr_session := Some session\<rparr>)) (\<lambda>_.
           sbind (start_episode E ctx) (\<lambda>_. sret (Started ctx)))))))"

section \<open>Closing a run\<close>

definition restoration_validation ::
    "trial_manifest \<Rightarrow> delivery_finalization \<Rightarrow> validation_fields option" where
  "restoration_validation trial f =
     (if tm_condition trial \<noteq> RESTORED then None
      else if list_ex (\<lambda>r. Some (step_of r) = tm_restoration_index trial) (df_delivered_records f) then None
      else Some (Some False,
             dedup ((case df_validation f of None \<Rightarrow> [] | Some v \<Rightarrow> vr_failure_codes v) @
                    [''RESTORATION_NOT_OBSERVED''])))"

definition validation_override ::
    "trial_manifest \<Rightarrow> delivery_finalization \<Rightarrow> validation_fields option" where
  "validation_override trial f =
     (let restoration = restoration_validation trial f in
      case df_validation f of
        None \<Rightarrow> restoration
      | Some v \<Rightarrow>
          if vr_passed v then restoration
          else Some (Some False,
                 dedup (vr_failure_codes v @ (case restoration of None \<Rightarrow> [] | Some o1 \<Rightarrow> snd o1))))"

definition run_finish :: "'e run_env \<Rightarrow> ('e, trial_result) run" where
  "run_finish E =
     sbind (set_stage ''validation'') (\<lambda>_.
     sbind (run_finalize E) (\<lambda>f.
     sbind (update (\<lambda>s. s\<lparr>fr_finalization := Some f\<rparr>)) (\<lambda>_.
     sbind sget (\<lambda>s.
     sbind (lift_result (terminal_of (signal_value (fr_backend_signal s)))) (\<lambda>status.
     let override = validation_override (en_trial E) f;
         (terminal, stage, code) =
           (case override of None \<Rightarrow> (status, None, None)
            | Some _ \<Rightarrow> (VALIDATOR_REJECTED, Some ''validation'', Some ''validator_rejected''))
     in lift_result (build_trial_result (en_hasher E) (en_trial E) (en_spec E) (fr_initial_state_sha256 s)
          terminal (Some status) (Some f) (fr_action_entries s) (fr_observation_count s)
          (fr_control_cycle_count s) stage code override))))))"

text \<open>The body of the \<open>try\<close> statement.\<close>

datatype outcome = Early run_output | Completed trial_result

definition try_block ::
    "'e run_env \<Rightarrow> bool \<Rightarrow> 'e frame \<Rightarrow> (outcome checked \<times> 'e frame) option" where
  "try_block E capture s =
     (case run_open E capture s of
        (Inl e, s) \<Rightarrow> Some (Inl e, s)
      | (Inr (Rejected out), s) \<Rightarrow> Some (Inr (Early out), s)
      | (Inr (Started ctx), s) \<Rightarrow>
          (case run_loop E ctx s of
             None \<Rightarrow> None
           | Some (Inl e, s) \<Rightarrow> Some (Inl e, s)
           | Some (Inr _, s) \<Rightarrow>
               (case run_finish E s of
                  (Inl e, s) \<Rightarrow> Some (Inl e, s)
                | (Inr r, s) \<Rightarrow> Some (Inr (Completed r), s))))"

definition failure_code_of :: "run_exn \<Rightarrow> string \<Rightarrow> string" where
  "failure_code_of e stage = (case e of RunnerViolation code \<Rightarrow> code | Raised _ \<Rightarrow> stage @ ''_failed'')"

text \<open>The \<open>except\<close> clause after a reset was attempted: abort the policy, keep what the session can
  be finalized to, and report a crash.\<close>

definition suppressed_abort :: "'e run_env \<Rightarrow> string \<Rightarrow> 'e frame \<Rightarrow> 'e frame" where
  "suppressed_abort E code s =
     (if fr_policy_reset_entered s then snd (call (po_abort (en_policy E) code) s) else s)"

definition suppressed_finalize :: "'e run_env \<Rightarrow> 'e frame \<Rightarrow> 'e frame" where
  "suppressed_finalize E s =
     (if fr_session s = None then s
      else case run_finalize E s of
        (Inl _, s') \<Rightarrow> s'\<lparr>fr_finalization := None\<rparr>
      | (Inr f, s') \<Rightarrow> s'\<lparr>fr_finalization := Some f\<rparr>)"

definition crash_result :: "'e run_env \<Rightarrow> bool \<Rightarrow> run_exn \<Rightarrow> ('e, run_output) run" where
  "crash_result E capture e s =
     (let code = failure_code_of e (fr_stage s);
          s = suppressed_finalize E (suppressed_abort E code s)
      in (raised (bindr (build_trial_result (en_hasher E) (en_trial E) (en_spec E) (fr_initial_state_sha256 s) CRASH
                  (Some CRASH) (fr_finalization s) (fr_action_entries s) (fr_observation_count s)
                  (fr_control_cycle_count s) (Some (fr_stage s)) (Some code) None) (\<lambda>r.
          bindr (record_evidence (en_hasher E) capture r (fr_finalization s) (fr_action_entries s)) (\<lambda>ev.
          Inr (r, ev)))), s))"

definition close_resources :: "'e run_env \<Rightarrow> 'e frame \<Rightarrow> string list \<times> 'e frame" where
  "close_resources E s =
     (case call (be_close (en_backend E)) s of (b, s) \<Rightarrow>
      case call (po_close (en_policy E)) s of (p, s) \<Rightarrow>
        ((if isl b then [''backend_close_failed''] else []) @ (if isl p then [''policy_close_failed''] else []), s))"

text \<open>The \<open>finally\<close> clause of a run that completed.\<close>

definition close_completed :: "'e run_env \<Rightarrow> trial_result \<Rightarrow> string list \<Rightarrow> 'e frame \<Rightarrow> trial_result result" where
  "close_completed E r codes s =
     (if codes = [] then Inr r
      else build_trial_result (en_hasher E) (en_trial E) (en_spec E) (tr_initial_state_sha256 r) CRASH
             (tr_execution_status r) (fr_finalization s) (fr_action_entries s) (fr_observation_count s)
             (fr_control_cycle_count s) (Some ''close'')
             (Some (if length codes = 1 then hd codes else ''multiple_close_failures''))
             (Some (tr_validation_passed r, tr_validation_failure_codes r)))"

definition frame_init :: "'e \<Rightarrow> 'e frame" where
  "frame_init w =
     \<lparr>fr_world = w, fr_initial_state_sha256 = None, fr_finalization = None, fr_action_entries = [],
      fr_observation_count = 0, fr_control_cycle_count = 0, fr_backend_signal = Running,
      fr_session = None, fr_reset_attempted = False, fr_policy_reset_entered = False,
      fr_previous_native_step_id = None, fr_stage = ''preflight'', fr_current_observation = None,
      fr_started_at = 0\<rparr>"

definition run_trial :: "'e run_env \<Rightarrow> bool \<Rightarrow> 'e \<Rightarrow> (run_output checked \<times> 'e) option" where
  "run_trial E capture w =
     (case try_block E capture (frame_init w) of
        None \<Rightarrow> None
      | Some (Inl e, s) \<Rightarrow>
          (case (if fr_reset_attempted s then crash_result E capture e s else (Inl e, s)) of
             (r, s) \<Rightarrow> case close_resources E s of (_, s) \<Rightarrow> Some (r, fr_world s))
      | Some (Inr (Early out), s) \<Rightarrow>
          (case close_resources E s of (_, s) \<Rightarrow> Some (Inr out, fr_world s))
      | Some (Inr (Completed r), s) \<Rightarrow>
          (case close_resources E s of (codes, s) \<Rightarrow>
             Some (raised (bindr (close_completed E r codes s) (\<lambda>r.
                   bindr (record_evidence (en_hasher E) capture r (fr_finalization s) (fr_action_entries s)) (\<lambda>ev.
                   Inr (r, ev)))), fr_world s)))"

definition run_closed_loop_trial :: "'e run_env \<Rightarrow> 'e \<Rightarrow> (trial_result checked \<times> 'e) option" where
  "run_closed_loop_trial E w =
     (case run_trial E False w of
        None \<Rightarrow> None
      | Some (Inl e, w) \<Rightarrow> Some (Inl e, w)
      | Some (Inr out, w) \<Rightarrow> Some (Inr (fst out), w))"

definition run_closed_loop_trial_with_evidence :: "'e run_env \<Rightarrow> 'e \<Rightarrow> (evidence checked \<times> 'e) option" where
  "run_closed_loop_trial_with_evidence E w =
     (case run_trial E True w of
        None \<Rightarrow> None
      | Some (Inl e, w) \<Rightarrow> Some (Inl e, w)
      | Some (Inr (r, None), w) \<Rightarrow>
          Some (Inl (Raised (RuntimeError ''closed-loop runner did not emit exactly one evidence snapshot'')), w)
      | Some (Inr (r, Some e), w) \<Rightarrow> Some (Inr e, w))"

end
