(* ===== verification/Runner_Life.thy ===== *)
theory Runner_Life
  imports Runner Delivery_Life
begin

text \<open>
  Termination, budgets and totality of the closed-loop runner, by weakest preconditions over the
  runner's operations: \<open>wp m Q X s\<close> says that \<open>m\<close> from \<open>s\<close> returns in \<open>Q\<close> or raises in \<open>X\<close>.
\<close>

section \<open>Weakest preconditions\<close>

named_theorems wp_simps \<open>weakest preconditions of the runner's operations\<close>

definition wp :: "('e, 'a) run \<Rightarrow> ('a \<Rightarrow> 'e frame \<Rightarrow> bool) \<Rightarrow> (run_exn \<Rightarrow> 'e frame \<Rightarrow> bool) \<Rightarrow> 'e frame \<Rightarrow> bool" where
  "wp m Q X s = (case m s of (Inl e, s') \<Rightarrow> X e s' | (Inr x, s') \<Rightarrow> Q x s')"

lemma wp_sbind [wp_simps]: "wp (sbind m f) Q X = wp m (\<lambda>x. wp (f x) Q X) X"
  by (auto simp: wp_def sbind_def fun_eq_iff split: sum.splits prod.splits)

lemma wp_sret [wp_simps]: "wp (sret x) Q X = Q x"
  by (simp add: wp_def sret_def fun_eq_iff)

lemma wp_checked [wp_simps]:
  "wp (lift_checked r) Q X = (\<lambda>s. case r of Inl e \<Rightarrow> X e s | Inr x \<Rightarrow> Q x s)"
  by (simp add: wp_def lift_checked_def fun_eq_iff split: sum.split)

lemma wp_result [wp_simps]:
  "wp (lift_result r) Q X = (\<lambda>s. case r of Inl e \<Rightarrow> X (Raised e) s | Inr x \<Rightarrow> Q x s)"
  by (simp add: lift_result_def wp_checked raised_def fun_eq_iff split: sum.split)

lemma wp_update [wp_simps]: "wp (update f) Q X = (\<lambda>s. Q () (f s))"
  by (simp add: wp_def update_def fun_eq_iff)

lemma wp_stage [wp_simps]: "wp (set_stage stage) Q X = (\<lambda>s. Q () (s\<lparr>fr_stage := stage\<rparr>))"
  by (simp add: set_stage_def wp_update)

lemma wp_sget [wp_simps]: "wp sget Q X = (\<lambda>s. Q s s)"
  by (simp add: wp_def sget_def fun_eq_iff)

lemma wp_clock [wp_simps]:
  "wp (read_clock E) Q X =
     (\<lambda>s. case en_clock E (fr_world s) of (t, w) \<Rightarrow> Q t (s\<lparr>fr_world := w\<rparr>))"
  by (simp add: wp_def read_clock_def fun_eq_iff split: prod.split)

lemma wp_mono: "wp m Q X s \<Longrightarrow> (\<And>x s'. Q x s' \<Longrightarrow> Q' x s') \<Longrightarrow> (\<And>e s'. X e s' \<Longrightarrow> X' e s') \<Longrightarrow> wp m Q' X' s"
  by (auto simp: wp_def split: sum.splits prod.splits)

lemma wp_Inr: "wp m Q X s \<Longrightarrow> m s = (Inr x, s') \<Longrightarrow> Q x s'"
  by (simp add: wp_def)

lemma wp_Inl: "wp m Q X s \<Longrightarrow> m s = (Inl e, s') \<Longrightarrow> X e s'"
  by (simp add: wp_def)

text \<open>Operations that only change the world or only the session.\<close>

lemma wp_callI:
  "(\<And>x w. Q x (s\<lparr>fr_world := w\<rparr>)) \<Longrightarrow> (\<And>e w. X (Raised e) (s\<lparr>fr_world := w\<rparr>)) \<Longrightarrow> wp (call f) Q X s"
  by (simp add: wp_def call_def raised_def split: sum.split prod.split)

lemma wp_call_resultI:
  "(\<And>x w. f (fr_world s) = (Inr x, w) \<Longrightarrow> Q x (s\<lparr>fr_world := w\<rparr>)) \<Longrightarrow>
   (\<And>e w. X (Raised e) (s\<lparr>fr_world := w\<rparr>)) \<Longrightarrow> wp (call f) Q X s"
  by (auto simp: wp_def call_def raised_def split: sum.split prod.split)

lemma wp_deliverI:
  assumes "\<And>x ses. Q x (s\<lparr>fr_session := Some ses\<rparr>)" "\<And>e ses. X (Raised e) (s\<lparr>fr_session := Some ses\<rparr>)"
    and "fr_session s \<noteq> None"
  shows "wp (run_deliver E r) Q X s"
  using assms by (auto simp: wp_def run_deliver_def raised_def split: sum.split prod.split option.split)

lemma wp_deliveriesI:
  assumes "fr_session s \<noteq> None"
    "\<And>xs ses. length xs = length rs \<Longrightarrow> Q xs (s\<lparr>fr_session := Some ses\<rparr>)" "\<And>e ses. X (Raised e) (s\<lparr>fr_session := Some ses\<rparr>)"
  shows "wp (run_deliveries E rs) Q X s"
  using assms
proof (induction rs arbitrary: s Q)
  case Nil
  then obtain ses where "fr_session s = Some ses" by blast
  then have "s\<lparr>fr_session := Some ses\<rparr> = s" by simp
  with Nil.prems(2) [of "[]" ses] show ?case by (simp add: wp_simps)
next
  case (Cons r rs)
  show ?case
    by (simp add: wp_simps, rule wp_deliverI, rule Cons.IH) (use Cons.prems in simp_all)
qed

lemma wp_finalizeI:
  assumes "fr_session s \<noteq> None"
    and "\<And>ses f ses'. fr_session s = Some ses \<Longrightarrow> session_finalize (en_hasher E) (en_numpy E) ses = (ses', Inr f) \<Longrightarrow>
      Q f (s\<lparr>fr_session := Some ses'\<rparr>)"
    and "\<And>e ses'. X (Raised e) (s\<lparr>fr_session := Some ses'\<rparr>)"
  shows "wp (run_finalize E) Q X s"
  using assms by (auto simp: wp_def run_finalize_def raised_def split: sum.split prod.split option.split)

section \<open>Batches\<close>

lemma py_index_Nil [simp]: "py_index [] i = Inl (IndexError ''list index out of range'')"
  by (simp add: py_index_def)

lemma py_index_last: "xs \<noteq> [] \<Longrightarrow> py_index xs (- 1) = Inr (last xs)"
  by (auto simp: py_index_def last_conv_nth nat_diff_distrib' Let_def)

lemma validate_batch_Inr:
  assumes "validate_batch h batch requested ctx step previous = Inr native" "1 \<le> requested"
  shows "eb_transitions batch \<noteq> []" "int (length (eb_transitions batch)) = eb_executed_action_count batch"
    "eb_executed_action_count batch \<le> requested"
proof -
  show "eb_transitions batch \<noteq> []"
    using assms by (auto simp: validate_batch_def raised_def split: if_splits)
  show "int (length (eb_transitions batch)) = eb_executed_action_count batch"
    "eb_executed_action_count batch \<le> requested"
    using assms by (auto simp: validate_batch_def split: if_splits)
qed

section \<open>One cycle\<close>

definition sound_exn :: "run_exn \<Rightarrow> bool" where
  "sound_exn e \<longleftrightarrow> e \<noteq> RunnerViolation []"

lemma sound_exn_simps [simp]: "sound_exn (Raised e)" "sound_exn (RunnerViolation c) \<longleftrightarrow> c \<noteq> []"
  by (simp_all add: sound_exn_def)

lemma check_clean_record_exn: "check_clean_record h r ctx step = Inl e \<Longrightarrow> sound_exn e"
  by (auto simp: check_clean_record_def Let_def split: if_splits)

lemma validate_transitions_exn: "validate_transitions h ctx step seen previous ts = Inl e \<Longrightarrow> sound_exn e"
  by (induction ts arbitrary: step seen previous)
     (auto dest: check_clean_record_exn split: if_splits sum.splits)

lemma validate_batch_exn: "validate_batch h batch requested ctx step previous = Inl e \<Longrightarrow> sound_exn e"
  by (auto simp: validate_batch_def raised_def dest: validate_transitions_exn
      split: if_splits sum.splits option.splits)

text \<open>What holds from the reset on: the budgets, a session, and a stage with the simulator state its
  crash report needs.\<close>

definition within_budget :: "'e run_env \<Rightarrow> 'e frame \<Rightarrow> bool" where
  "within_budget E s \<longleftrightarrow>
     0 \<le> fr_control_cycle_count s \<and> fr_control_cycle_count s \<le> rs_max_control_cycles (en_spec E) \<and>
     0 \<le> fr_observation_count s \<and> fr_observation_count s \<le> rs_max_observation_steps (en_spec E)"

definition started :: "'e run_env \<Rightarrow> 'e frame \<Rightarrow> bool" where
  "started E s \<longleftrightarrow>
     fr_reset_attempted s \<and> fr_session s \<noteq> None \<and> within_budget E s \<and>
     fr_stage s \<in> set CRASH_FAILURE_STAGES \<and> (fr_stage s \<noteq> ''reset'' \<longrightarrow> fr_initial_state_sha256 s \<noteq> None) \<and>
     check_opt_sha (fr_initial_state_sha256 s) = Inr ()"

definition crashed :: "'e run_env \<Rightarrow> run_exn \<Rightarrow> 'e frame \<Rightarrow> bool" where
  "crashed E e s \<longleftrightarrow> started E s \<and> sound_exn e"

definition cycling :: "'e run_env \<Rightarrow> 'e frame \<Rightarrow> bool" where
  "cycling E s \<longleftrightarrow> started E s \<and> fr_initial_state_sha256 s \<noteq> None"

lemma started_world [simp]:
  "started E (s\<lparr>fr_world := w\<rparr>) = started E s" "cycling E (s\<lparr>fr_world := w\<rparr>) = cycling E s"
  "within_budget E (s\<lparr>fr_world := w\<rparr>) = within_budget E s"
  by (simp_all add: started_def cycling_def within_budget_def)

lemma stage_values [simp]:
  "set CRASH_FAILURE_STAGES = {''reset'', ''policy_reset'', ''observe'', ''delivery'', ''infer'', ''execute'',
     ''commit'', ''validation'', ''close''}"
  by (simp add: CRASH_FAILURE_STAGES_def)

lemma cycling_simps [simp]:
  "cycling E (s\<lparr>fr_stage := stage\<rparr>) \<longleftrightarrow>
     fr_reset_attempted s \<and> fr_session s \<noteq> None \<and> within_budget E s \<and>
     stage \<in> set CRASH_FAILURE_STAGES \<and> check_opt_sha (fr_initial_state_sha256 s) = Inr () \<and>
     fr_initial_state_sha256 s \<noteq> None"
  by (auto simp: cycling_def started_def within_budget_def)

lemma cyclingD:
  assumes "cycling E s"
  shows "fr_reset_attempted s" "fr_session s \<noteq> None" "within_budget E s"
    "fr_stage s \<in> set CRASH_FAILURE_STAGES" "check_opt_sha (fr_initial_state_sha256 s) = Inr ()"
    "fr_initial_state_sha256 s \<noteq> None"
  using assms by (simp_all add: cycling_def started_def)

lemma wp_infer:
  assumes "cycling E s" "\<And>plan s'. cycling E s' \<Longrightarrow> fr_control_cycle_count s' = fr_control_cycle_count s \<Longrightarrow>
      fr_observation_count s' = fr_observation_count s \<Longrightarrow> Q plan s'"
    and "\<And>e s'. cycling E s' \<Longrightarrow> sound_exn e \<Longrightarrow> X e s'"
  shows "wp (infer_plan E) Q X s"
proof -
  note c = cyclingD [OF assms(1)]
  have s': "cycling E (s\<lparr>fr_stage := ''infer'', fr_world := w\<rparr>)" for w
    using c by (simp add: cycling_def started_def within_budget_def)
  show ?thesis
    unfolding infer_plan_def
    by (auto simp: wp_simps intro!: wp_callI assms(2,3) s' split: option.split)
       (use c in \<open>simp_all add: cycling_def started_def within_budget_def\<close>)
qed

lemma wp_commit:
  assumes c: "cycling E s" "eb_transitions batch \<noteq> []"
    and budget: "0 \<le> eb_executed_action_count batch"
      "eb_executed_action_count batch \<le> rs_max_observation_steps (en_spec E) - fr_observation_count s"
  shows "wp (commit_batch E plan actions batch)
    (\<lambda>go s'. cycling E s' \<and> fr_control_cycle_count s' = fr_control_cycle_count s)
    (\<lambda>e s'. cycling E s' \<and> sound_exn e) s"
proof -
  note f = cyclingD [OF c(1)]
  note fields = cycling_def started_def within_budget_def
  have q: "py_index ds (- 1) = Inr (last ds)" if "length ds = length (map bt_clean_record (eb_transitions batch))" for ds :: "evaluation list"
    using that c(2) by (intro py_index_last) auto
  show ?thesis
    unfolding commit_batch_def Let_def wp_simps
    by (rule wp_deliveriesI; (rule wp_callI)?)
       (use f budget c(2) in \<open>auto simp: fields q py_index_last intro!: wp_callI split: sum.split\<close>)
qed

lemma wp_execute:
  assumes c: "cycling E s" "1 \<le> requested"
    and budget: "requested \<le> rs_max_observation_steps (en_spec E) - fr_observation_count s"
      "fr_control_cycle_count s < rs_max_control_cycles (en_spec E)"
  shows "wp (execute_plan E ctx plan requested)
    (\<lambda>go s'. cycling E s' \<and> fr_control_cycle_count s' = fr_control_cycle_count s + 1)
    (\<lambda>e s'. cycling E s' \<and> sound_exn e) s"
proof -
  note f = cyclingD [OF c(1)]
  note fields = cycling_def started_def within_budget_def
  have "wp (commit_batch E plan actions batch)
      (\<lambda>go s'. cycling E s' \<and> fr_control_cycle_count s' = fr_control_cycle_count s + 1)
      (\<lambda>e s'. cycling E s' \<and> sound_exn e)
      (s\<lparr>fr_stage := ''execute'', fr_control_cycle_count := fr_control_cycle_count s + 1, fr_world := w,
         fr_previous_native_step_id := Some native\<rparr>)"
    if v: "validate_batch (en_hasher E) batch requested ctx step previous = Inr native"
    for batch step previous native w actions
    by (rule wp_mono [OF wp_commit])
       (use f budget validate_batch_Inr [OF v c(2)] in \<open>auto simp: fields\<close>)
  with f budget show ?thesis
    unfolding execute_plan_def Let_def wp_simps
    by (intro wp_callI) (auto simp: fields validate_batch_exn split: sum.split)
qed

lemma wp_loop_body:
  assumes c: "cycling E s"
  shows "wp (loop_body E ctx)
    (\<lambda>go s'. cycling E s' \<and> (go \<longrightarrow> fr_control_cycle_count s < rs_max_control_cycles (en_spec E) \<and>
       fr_control_cycle_count s' = fr_control_cycle_count s + 1))
    (\<lambda>e s'. cycling E s' \<and> sound_exn e) s"
proof -
  note fields = cycling_def started_def within_budget_def
  have t: "cycling E (s\<lparr>fr_world := w, fr_backend_signal := Signal_timeout\<rparr>)" for w
    using c by (simp add: fields)
  have body: "wp (if requested < 1 then timeout_break else execute_plan E ctx plan requested)
      (\<lambda>go s'. cycling E s' \<and> (go \<longrightarrow> fr_control_cycle_count s < rs_max_control_cycles (en_spec E) \<and>
         fr_control_cycle_count s' = fr_control_cycle_count s + 1))
      (\<lambda>e s'. cycling E s' \<and> sound_exn e) s'"
    if s': "cycling E s'" "fr_control_cycle_count s' = fr_control_cycle_count s"
        "fr_observation_count s' = fr_observation_count s"
      and r: "requested_count (en_spec E) (fr_observation_count s) plan = Inr requested"
      and "fr_control_cycle_count s < rs_max_control_cycles (en_spec E)"
    for requested plan s'
  proof (cases "requested < 1")
    case True
    with s' show ?thesis by (simp add: timeout_break_def wp_simps fields)
  next
    case False
    have "requested \<le> rs_max_observation_steps (en_spec E) - fr_observation_count s"
      using r by (auto simp: requested_count_def bindr_eq_Inr)
    with False that(5) s'(2,3) show ?thesis
      by (simp add: wp_simps) (rule wp_mono [OF wp_execute [OF s'(1)]]; simp)
  qed
  have infer: "wp (infer_plan E) (\<lambda>plan s'. case requested_count (en_spec E) (fr_observation_count s) plan of
        Inl e \<Rightarrow> cycling E s' \<and> sound_exn (Raised e)
      | Inr requested \<Rightarrow> wp (if requested < 1 then timeout_break else execute_plan E ctx plan requested)
          (\<lambda>go s'. cycling E s' \<and> (go \<longrightarrow> fr_control_cycle_count s < rs_max_control_cycles (en_spec E) \<and>
             fr_control_cycle_count s' = fr_control_cycle_count s + 1))
          (\<lambda>e s'. cycling E s' \<and> sound_exn e) s')
      (\<lambda>e s'. cycling E s' \<and> sound_exn e) (s\<lparr>fr_world := w\<rparr>)"
    if "fr_control_cycle_count s < rs_max_control_cycles (en_spec E)" for w
  proof (rule wp_infer)
    fix plan s'
    assume s': "cycling E s'" "fr_control_cycle_count s' = fr_control_cycle_count (s\<lparr>fr_world := w\<rparr>)"
      "fr_observation_count s' = fr_observation_count (s\<lparr>fr_world := w\<rparr>)"
    show "case requested_count (en_spec E) (fr_observation_count s) plan of
        Inl e \<Rightarrow> cycling E s' \<and> sound_exn (Raised e)
      | Inr requested \<Rightarrow> wp (if requested < 1 then timeout_break else execute_plan E ctx plan requested)
          (\<lambda>go s'. cycling E s' \<and> (go \<longrightarrow> fr_control_cycle_count s < rs_max_control_cycles (en_spec E) \<and>
             fr_control_cycle_count s' = fr_control_cycle_count s + 1))
          (\<lambda>e s'. cycling E s' \<and> sound_exn e) s'"
    proof (cases "requested_count (en_spec E) (fr_observation_count s) plan")
      case (Inr requested)
      have "fr_control_cycle_count s' = fr_control_cycle_count s" "fr_observation_count s' = fr_observation_count s"
        using s'(2,3) by simp_all
      from body [OF s'(1) this Inr that] Inr show ?thesis by (simp only: sum.case)
    qed (use s' in simp)
  qed (use c in simp_all)
  obtain now w where clk: "en_clock E (fr_world s) = (now, w)" by fastforce
  let ?s = "s\<lparr>fr_world := w\<rparr>"
  let ?late = "rs_wall_timeout_s (en_spec E) \<le> fl64 (now - fr_started_at ?s)"
  let ?spent = "rs_max_control_cycles (en_spec E) \<le> fr_control_cycle_count ?s \<or>
    rs_max_observation_steps (en_spec E) \<le> fr_observation_count ?s"
  show ?thesis
  proof (cases "?late \<or> ?spent")
    case True
    with t show ?thesis unfolding loop_body_def wp_simps clk prod.case
      by (auto simp: timeout_break_def wp_simps)
  next
    case False
    then have late: "\<not> ?late" and spent: "\<not> ?spent" by blast+
    from spent have "fr_control_cycle_count s < rs_max_control_cycles (en_spec E)" by simp
    from infer [OF this, of w] show ?thesis
      unfolding loop_body_def wp_simps clk prod.case if_not_P [OF late] if_not_P [OF spent] by simp
  qed
qed

section \<open>The loop\<close>

text \<open>Every iteration that goes on has used a control cycle, so the loop returns.\<close>

lemma run_loop_steps:
  "run_loop E ctx s =
     (case loop_body E ctx s of
        (Inl e, s') \<Rightarrow> Some (Inl e, s')
      | (Inr go, s') \<Rightarrow> if go then run_loop E ctx s' else Some (Inr (), s'))"
  by (subst run_loop.simps) (simp split: prod.split sum.split)

text \<open>The control cycles count up by themselves, whatever the state.\<close>

lemma wp_loop_count:
  "wp (loop_body E ctx)
    (\<lambda>go s'. go \<longrightarrow> fr_control_cycle_count s < rs_max_control_cycles (en_spec E) \<and>
       fr_control_cycle_count s' = fr_control_cycle_count s + 1) (\<lambda>e s'. True) s"
proof -
  have deliver: "fr_control_cycle_count (snd (run_deliver E r s')) = fr_control_cycle_count s'" for r s'
    by (simp add: run_deliver_def split: option.split prod.split)
  have deliveries: "fr_control_cycle_count (snd (run_deliveries E rs s')) = fr_control_cycle_count s'" for rs s'
  proof (induction rs arbitrary: s')
    case (Cons r rs)
    show ?case using deliver [of r s'] Cons
      by (auto simp: sbind_def sret_def split: prod.split sum.split) (metis snd_conv)+
  qed (simp add: sret_def)
  have d: "wp (run_deliveries E rs) Q (\<lambda>e s'. True) s'"
    if "\<And>ds t. fr_control_cycle_count t = fr_control_cycle_count s' \<Longrightarrow> Q ds t" for rs Q s'
    using that deliveries [of rs s'] by (auto simp: wp_def split: sum.split prod.split)
  show ?thesis
    unfolding loop_body_def infer_plan_def execute_plan_def commit_batch_def timeout_break_def Let_def
    by (auto simp: wp_simps intro!: wp_callI d split: prod.split sum.split option.split)
qed

lemma run_loop_returns: "\<exists>r s'. run_loop E ctx s = Some (r, s')"
proof (induction "nat (rs_max_control_cycles (en_spec E) - fr_control_cycle_count s)" arbitrary: s rule: less_induct)
  case less
  obtain r s' where body: "loop_body E ctx s = (r, s')" by fastforce
  show ?case
  proof (cases r)
    case (Inr go)
    show ?thesis
    proof (cases go)
      case True
      with wp_Inr [OF wp_loop_count [of E ctx s]] body Inr
      have "fr_control_cycle_count s < rs_max_control_cycles (en_spec E) \<and>
          fr_control_cycle_count s' = fr_control_cycle_count s + 1" by auto
      with less [of s'] True body Inr show ?thesis by (simp add: run_loop_steps [of E ctx s])
    qed (use body Inr in \<open>simp add: run_loop_steps [of E ctx s]\<close>)
  qed (use body in \<open>simp add: run_loop_steps [of E ctx s]\<close>)
qed

lemma run_loop_rule:
  assumes "run_loop E ctx s = Some (r, s')" "P s"
    and body: "\<And>s. P s \<Longrightarrow> wp (loop_body E ctx) (\<lambda>go s'. if go then P s' else Q s') X s"
  shows "case r of Inl e \<Rightarrow> X e s' | Inr _ \<Rightarrow> Q s'"
  using assms(1,2)
proof (induction "nat (rs_max_control_cycles (en_spec E) - fr_control_cycle_count s)" arbitrary: s rule: less_induct)
  case less
  obtain q t where step: "loop_body E ctx s = (q, t)" by fastforce
  show ?case
  proof (cases q)
    case (Inl e)
    with less.prems step wp_Inl [OF body] show ?thesis by (auto simp: run_loop_steps [of E ctx s])
  next
    case (Inr go)
    with step wp_Inr [OF wp_loop_count] have "go \<longrightarrow> fr_control_cycle_count s < rs_max_control_cycles (en_spec E) \<and>
       fr_control_cycle_count t = fr_control_cycle_count s + 1" by blast
    moreover have "if go then P t else Q t" using wp_Inr [OF body] less.prems(2) step Inr by blast
    ultimately show ?thesis using less.prems(1) step Inr less.hyps [of t]
      by (auto simp: run_loop_steps [of E ctx s] split: if_splits)
  qed
qed

lemma run_loop_invariant:
  assumes "run_loop E ctx s = Some (r, s')" "cycling E s"
  shows "cycling E s'" "r = Inl e \<Longrightarrow> sound_exn e"
proof -
  have body: "wp (loop_body E ctx) (\<lambda>go s'. if go then cycling E s' else cycling E s')
      (\<lambda>e s'. cycling E s' \<and> sound_exn e) t" if "cycling E t" for t
    by (rule wp_mono [OF wp_loop_body [OF that]]) auto
  from run_loop_rule [OF assms body] show "cycling E s'" "r = Inl e \<Longrightarrow> sound_exn e"
    by (auto split: sum.splits)
qed

lemma try_block_returns: "\<exists>out s'. try_block E capture s = Some (out, s')"
proof -
  obtain o1 s1 where o1: "run_open E capture s = (o1, s1)" by fastforce
  show ?thesis
  proof (cases o1)
    case (Inr opened)
    show ?thesis
    proof (cases opened)
      case (Started ctx)
      obtain l s2 where l: "run_loop E ctx s1 = Some (l, s2)" using run_loop_returns by blast
      obtain r s3 where "run_finish E s2 = (r, s3)" by fastforce
      with o1 Inr Started l show ?thesis by (cases l; cases r) (simp_all add: try_block_def)
    qed (use o1 Inr in \<open>simp add: try_block_def\<close>)
  qed (use o1 in \<open>simp add: try_block_def\<close>)
qed

text \<open>Every call of the runner returns.\<close>

lemma run_trial_returns: "\<exists>out w'. run_trial E capture w = Some (out, w')"
proof -
  obtain out s where t: "try_block E capture (frame_init w) = Some (out, s)" using try_block_returns by blast
  show ?thesis
  proof (cases out)
    case (Inl e)
    obtain r s1 where r: "(if fr_reset_attempted s then crash_result E capture e s else (Inl e, s)) = (r, s1)" by fastforce
    obtain codes s2 where "close_resources E s1 = (codes, s2)" by fastforce
    with t Inl r show ?thesis by (simp add: run_trial_def)
  next
    case (Inr res)
    obtain codes s2 where "close_resources E s = (codes, s2)" by fastforce
    with t Inr show ?thesis by (cases res) (simp_all add: run_trial_def)
  qed
qed

end
