(* ===== verification/Runner_Results.thy ===== *)
theory Runner_Results
  imports Runner_Life
begin

text \<open>
  When a receipt can be built, and that the runner builds only such ones: every run that attempts
  the reset returns a receipt its constructor accepts.
\<close>

section \<open>Reports and receipts\<close>

text \<open>The validation fields of a receipt: failed exactly when there are codes, which are distinct
  and not empty strings.\<close>

definition coherent_fields :: "validation_fields \<Rightarrow> bool" where
  "coherent_fields v \<longleftrightarrow>
     (fst v = Some False \<longleftrightarrow> snd v \<noteq> []) \<and> distinct (snd v) \<and> [] \<notin> set (snd v)"

abbreviation report_fields :: "delivery_finalization \<Rightarrow> validation_fields" where
  "report_fields f \<equiv>
     (case df_validation f of None \<Rightarrow> (Some True, []) | Some v \<Rightarrow> (Some (vr_passed v), vr_failure_codes v))"

definition sound_finalization :: "delivery_finalization \<Rightarrow> bool" where
  "sound_finalization f \<longleftrightarrow>
     is_sha256 (df_clean_trace_sha256 f) \<and> is_sha256 (df_delivered_trace_sha256 f) \<and>
     coherent_fields (report_fields f)"

lemma freeze_validation_Inr:
  assumes "freeze_validation_report r = Inr r'"
  shows "vr_passed r' = vr_passed r" "vr_failure_codes r' = vr_failure_codes r"
proof -
  obtain v where v: "(case v of PDict metrics \<Rightarrow> Inr (r\<lparr>vr_metrics := metrics\<rparr>)
      | _ \<Rightarrow> Inl (TypeError ''metrics must be a mapping'')) = Inr r'"
    using assms by (auto simp: freeze_validation_report_def bindr_eq_Inr)
  show "vr_passed r' = vr_passed r" "vr_failure_codes r' = vr_failure_codes r"
    using v by (cases v, auto)+
qed

lemma finalization_init_Inr:
  assumes "finalization_init h f = Inr g"
  shows "is_sha256 (df_clean_trace_sha256 g)" "is_sha256 (df_delivered_trace_sha256 g)"
    "report_fields g = report_fields f" "length (df_delivered_records g) = length (df_clean_records g)"
    "df_delivered_records g = df_delivered_records f"
  using assms
  by (auto simp: finalization_init_def Let_def bindr_eq_Inr freeze_validation_Inr
      split: if_splits option.splits)

lemma a2_resume_fields:
  assumes "with_a2_resume_failure m report clean = Inr r"
    and "coherent_fields (Some (vr_passed report), vr_failure_codes report)"
  shows "coherent_fields (Some (vr_passed r), vr_failure_codes r)"
  using assms by (auto simp: with_a2_resume_failure_def coherent_fields_def bindr_eq_Inr split: if_splits)

lemma online_finalize_sound:
  assumes "online_finalize h np s = (s', Inr f)"
  shows "sound_finalization f"
proof -
  obtain clean report report' where run:
    "validate_delivery h np clean (ds_delivered_records (os_base s)) (os_manifest s) (os_rest_references s) = Inr report"
    "with_a2_resume_failure (os_manifest s) report clean = Inr report'"
    and f: "finalization_init h
      \<lparr>df_clean_records = clean, df_delivered_records = ds_delivered_records (os_base s), df_validation = Some report',
       df_clean_trace_sha256 = clean_trace_hash h clean,
       df_delivered_trace_sha256 = trace_hash h (ds_delivered_records (os_base s)) (os_manifest s),
       df_manifest_sha256 = Some (os_manifest_sha256 s)\<rparr> = Inr f"
    using assms by (auto simp: online_finalize_def Let_def bindr_eq_Inr split: sum.splits)
  have "coherent_fields (Some (vr_passed report), vr_failure_codes report)"
    using validate_delivery_gate(2,3,6) [OF run(1)] by (simp add: coherent_fields_def)
  from a2_resume_fields [OF run(2) this] finalization_init_Inr [OF f] show ?thesis
    by (simp add: sound_finalization_def)
qed

lemma session_finalize_sound:
  assumes "session_finalize h np ses = (ses', Inr f)"
  shows "sound_finalization f"
proof (cases ses)
  case (Identity_session s)
  with assms obtain t where t: "identity_finalize h s = (t, Inr f)" by (auto split: prod.splits)
  then obtain clean where "finalization_init h
      \<lparr>df_clean_records = clean, df_delivered_records = ds_delivered_records s, df_validation = None,
       df_clean_trace_sha256 = clean_trace_hash h clean, df_delivered_trace_sha256 = clean_trace_hash h clean,
       df_manifest_sha256 = None\<rparr> = Inr f"
    by (auto simp: identity_finalize_def bindr_eq_Inr split: sum.splits)
  from finalization_init_Inr [OF this] show ?thesis
    by (simp add: sound_finalization_def coherent_fields_def)
next
  case (Fault_session s)
  with assms online_finalize_sound show ?thesis by (fastforce split: prod.splits)
qed

text \<open>A receipt is built from digests, so only its semantics can be refused.\<close>

definition sound_option :: "delivery_finalization option \<Rightarrow> bool" where
  "sound_option f \<longleftrightarrow> (\<forall>x. f = Some x \<longrightarrow> sound_finalization x)"

lemma sound_option_simps [simp]: "sound_option None" "sound_option (Some f) = sound_finalization f"
  by (simp_all add: sound_option_def)

definition receipt_fields ::
    "hasher \<Rightarrow> delivery_finalization option \<Rightarrow> validation_fields option \<Rightarrow> validation_fields" where
  "receipt_fields h finalization override =
     (case override of None \<Rightarrow> snd (snd (trace_fields h finalization)) | Some v \<Rightarrow> v)"

lemma receipt_fields_coherent:
  "sound_option f \<Longrightarrow> (\<And>v. override = Some v \<Longrightarrow> coherent_fields v) \<Longrightarrow> coherent_fields (receipt_fields h f override)"
  by (auto simp: receipt_fields_def trace_fields_def sound_finalization_def coherent_fields_def
      split: option.splits)

lemma trace_fields_sha:
  assumes "sha_digests h" "sound_option f" "trace_fields h f = (a, b, v)"
  shows "is_sha256 a" "is_sha256 b"
  using assms check_sha_canonical [OF assms(1)]
  by (auto simp: trace_fields_def sound_finalization_def empty_record_trace_sha256_def split: option.splits)

lemma sha_canonical: "sha_digests h \<Longrightarrow> is_sha256 (canonical_hash h v)"
  by (simp add: sha_digests_def canonical_hash_def)

lemma build_trial_result_returns:
  assumes h: "sha_digests h" and f: "sound_option f"
    and fields: "coherent_fields (receipt_fields h f override)"
    and initial: "check_opt_sha initial = Inr ()" and counts: "0 \<le> observations" "0 \<le> cycles"
    and codes: "stage \<noteq> Some []" "code \<noteq> Some []"
    and sem: "\<And>r. tr_terminal_status r = terminal \<Longrightarrow> tr_execution_status r = execution \<Longrightarrow>
      tr_initial_state_sha256 r = initial \<Longrightarrow> (tr_score_eligible r, tr_score_success r) = score terminal \<Longrightarrow>
      (tr_validation_passed r, tr_validation_failure_codes r) = receipt_fields h f override \<Longrightarrow>
      tr_failure_stage r = stage \<Longrightarrow> tr_failure_code r = code \<Longrightarrow>
      validate_semantics r = Inr () \<and> validate_reset_state r = Inr ()"
  shows "\<exists>r. build_trial_result h trial spec initial terminal execution f entries observations cycles stage code
      override = Inr r \<and> result_ok h r \<and> tr_terminal_status r = terminal \<and> tr_execution_status r = execution \<and>
    tr_initial_state_sha256 r = initial \<and>
    (tr_validation_passed r, tr_validation_failure_codes r) = receipt_fields h f override \<and>
    tr_observation_count r = observations \<and> tr_control_cycle_count r = cycles \<and>
    tr_trial_manifest_sha256 r = trial_sha256 h trial \<and>
    tr_failure_stage r = stage \<and> tr_failure_code r = code"
proof -
  obtain a b v where tf: "trace_fields h f = (a, b, v)" by (metis prod_cases3)
  obtain passed cs where pc: "receipt_fields h f override = (passed, cs)" by fastforce
  then have over: "(case override of None \<Rightarrow> v | Some w \<Rightarrow> w) = (passed, cs)"
    using tf by (simp add: receipt_fields_def split: option.splits)
  obtain eligible success where sc: "score terminal = (eligible, success)" by fastforce
  define r where "r = \<lparr>tr_trial_manifest_sha256 = trial_sha256 h trial, tr_pair_key = pair_key h trial,
      tr_run_spec_sha256 = run_spec_sha256 h spec, tr_initial_state_sha256 = initial,
      tr_terminal_status = terminal, tr_execution_status = execution, tr_score_eligible = eligible,
      tr_score_success = success, tr_validation_passed = passed, tr_validation_failure_codes = cs,
      tr_clean_trace_sha256 = a, tr_delivered_trace_sha256 = b,
      tr_action_trace_sha256 = action_trace_sha256 h entries, tr_terminal_trace_sha256 = [],
      tr_observation_count = observations, tr_control_cycle_count = cycles, tr_failure_stage = stage,
      tr_failure_code = code, tr_semantic_version = LOOP_SEMANTIC_VERSION\<rparr>"
  define s where "s = r\<lparr>tr_terminal_trace_sha256 := terminal_trace_sha256 h r\<rparr>"
  have build: "build_trial_result h trial spec initial terminal execution f entries observations cycles stage code
      override = result_init h s"
    unfolding build_trial_result_def Let_def tf prod.case over sc s_def r_def ..
  have codes_ok: "validate_codes cs = Inr ()"
    using fields unfolding pc coherent_fields_def by (auto simp: validate_codes_def list_all_iff)
  have stage_ok: "check_opt_code stage = Inr ()" "check_opt_code code = Inr ()"
    using codes by (auto simp: check_opt_code_def split: option.split)
  have r: "tr_trial_manifest_sha256 r = trial_sha256 h trial" "tr_pair_key r = pair_key h trial"
    "tr_run_spec_sha256 r = run_spec_sha256 h spec" "tr_initial_state_sha256 r = initial"
    "tr_terminal_status r = terminal" "tr_execution_status r = execution"
    "tr_score_eligible r = eligible" "tr_score_success r = success"
    "tr_validation_passed r = passed" "tr_validation_failure_codes r = cs"
    "tr_clean_trace_sha256 r = a" "tr_delivered_trace_sha256 r = b"
    "tr_action_trace_sha256 r = action_trace_sha256 h entries"
    "tr_observation_count r = observations" "tr_control_cycle_count r = cycles"
    "tr_failure_stage r = stage" "tr_failure_code r = code" "tr_semantic_version r = LOOP_SEMANTIC_VERSION"
    by (simp_all add: r_def)
  have digests: "is_sha256 (trial_sha256 h trial)" "is_sha256 (pair_key h trial)"
    "is_sha256 (run_spec_sha256 h spec)" "is_sha256 (action_trace_sha256 h entries)"
    "is_sha256 (terminal_trace_sha256 h r)"
    by (simp_all add: sha_canonical [OF h] trial_sha256_def pair_key_def run_spec_sha256_def
        action_trace_sha256_def terminal_trace_sha256_def)
  have "validate_semantics s = Inr () \<and> validate_reset_state s = Inr ()"
    by (rule sem) (simp_all add: s_def r sc pc)
  then have "result_init h s = Inr s"
    using digests trace_fields_sha [OF h f tf] initial counts codes_ok stage_ok
    unfolding result_init_def s_def by (simp add: r require_nonnegative_def)
  moreover have "tr_terminal_status s = terminal" "tr_execution_status s = execution"
    "tr_initial_state_sha256 s = initial" "tr_validation_passed s = passed" "tr_validation_failure_codes s = cs"
    "tr_observation_count s = observations" "tr_control_cycle_count s = cycles"
    "tr_trial_manifest_sha256 s = trial_sha256 h trial" "tr_failure_stage s = stage" "tr_failure_code s = code"
    by (simp_all add: s_def r)
  ultimately show ?thesis unfolding build pc by (simp add: result_ok_def)
qed

section \<open>The receipts the runner builds\<close>

lemma crash_semantics:
  assumes "tr_terminal_status r = CRASH" "tr_execution_status r \<noteq> None"
    "(tr_score_eligible r, tr_score_success r) = score CRASH"
    "coherent_fields (tr_validation_passed r, tr_validation_failure_codes r)"
    "tr_failure_stage r = Some stage" "stage \<in> set CRASH_FAILURE_STAGES" "tr_failure_code r \<noteq> None"
    "stage \<noteq> ''reset'' \<longrightarrow> tr_initial_state_sha256 r \<noteq> None"
  shows "validate_semantics r = Inr () \<and> validate_reset_state r = Inr ()"
  using assms
  by (auto simp: validate_semantics_def validate_reset_state_def NORMAL_STATUSES_def coherent_fields_def)

lemma build_crash:
  assumes "sha_digests h" "sound_option f" "\<And>v. override = Some v \<Longrightarrow> coherent_fields v"
    and "check_opt_sha initial = Inr ()" "0 \<le> observations" "0 \<le> cycles"
    and "stage \<in> set CRASH_FAILURE_STAGES" "stage \<noteq> ''reset'' \<longrightarrow> initial \<noteq> None" "code \<noteq> []"
  shows "\<exists>r. build_trial_result h trial spec initial CRASH (Some status) f entries observations cycles (Some stage)
      (Some code) override = Inr r \<and> result_ok h r \<and> tr_terminal_status r = CRASH \<and>
    tr_observation_count r = observations \<and> tr_control_cycle_count r = cycles \<and>
    tr_trial_manifest_sha256 r = trial_sha256 h trial"
proof -
  have fields: "coherent_fields (receipt_fields h f override)"
    by (rule receipt_fields_coherent) (use assms in auto)
  have "Some stage \<noteq> Some []" "Some code \<noteq> Some []" using assms(7,9) by auto
  note build = build_trial_result_returns [OF assms(1,2) fields assms(4-6) this,
      where terminal = CRASH and execution = "Some status" and trial = trial and spec = spec and entries = entries]
  have "\<exists>r. build_trial_result h trial spec initial CRASH (Some status) f entries observations cycles (Some stage)
      (Some code) override = Inr r \<and> result_ok h r \<and> tr_terminal_status r = CRASH \<and>
      tr_execution_status r = Some status \<and> tr_initial_state_sha256 r = initial \<and>
      (tr_validation_passed r, tr_validation_failure_codes r) = receipt_fields h f override \<and>
      tr_observation_count r = observations \<and> tr_control_cycle_count r = cycles \<and>
      tr_trial_manifest_sha256 r = trial_sha256 h trial \<and>
      tr_failure_stage r = Some stage \<and> tr_failure_code r = Some code"
  proof (rule build)
    fix r :: trial_result
    assume "tr_terminal_status r = CRASH" "tr_execution_status r = Some status"
      "tr_initial_state_sha256 r = initial" "(tr_score_eligible r, tr_score_success r) = score CRASH"
      "(tr_validation_passed r, tr_validation_failure_codes r) = receipt_fields h f override"
      "tr_failure_stage r = Some stage" "tr_failure_code r = Some code"
    with fields assms(3,7,8) show "validate_semantics r = Inr () \<and> validate_reset_state r = Inr ()"
      by (intro crash_semantics [of r stage]) simp_all
  qed
  then show ?thesis by blast
qed

lemma build_unsupported:
  assumes "sha_digests h"
  shows "\<exists>r. build_trial_result h trial spec None UNSUPPORTED_CONTRACT None None [] 0 0 (Some ''preflight'')
      (Some ''structural_absence_unsupported'') None = Inr r \<and> result_ok h r \<and>
    tr_terminal_status r = UNSUPPORTED_CONTRACT \<and>
    tr_observation_count r = 0 \<and> tr_control_cycle_count r = 0 \<and>
    tr_trial_manifest_sha256 r = trial_sha256 h trial"
proof -
  have fields: "receipt_fields h None None = (None, [])" by (simp add: receipt_fields_def trace_fields_def)
  show ?thesis
    using build_trial_result_returns [OF assms, of None None None 0 0 "Some ''preflight''"
        "Some ''structural_absence_unsupported''" UNSUPPORTED_CONTRACT None trial spec "[]"]
    by (auto simp: fields coherent_fields_def check_opt_sha_def validate_semantics_def validate_reset_state_def
        NORMAL_STATUSES_def)
qed

lemma override_coherent:
  assumes "sound_finalization f" "validation_override trial f = Some v"
  shows "fst v = Some False" "snd v \<noteq> []" "distinct (snd v)" "[] \<notin> set (snd v)"
  using assms
  by (auto simp: validation_override_def restoration_validation_def sound_finalization_def coherent_fields_def Let_def
      split: option.splits if_splits)

lemma override_None:
  assumes "sound_finalization f" "validation_override trial f = None"
  shows "report_fields f = (Some True, [])"
  using assms
  by (auto simp: validation_override_def sound_finalization_def coherent_fields_def Let_def split: option.splits if_splits)

lemma build_normal:
  assumes h: "sha_digests h" and f: "sound_finalization f" and "check_opt_sha initial = Inr ()" "initial \<noteq> None"
    and "0 \<le> observations" "0 \<le> cycles" "status \<in> set NORMAL_STATUSES"
    and ov: "override = validation_override trial f"
    and parts: "(terminal, stage, code) =
      (case override of None \<Rightarrow> (status, None, None)
       | Some _ \<Rightarrow> (VALIDATOR_REJECTED, Some ''validation'', Some ''validator_rejected''))"
  shows "\<exists>r. build_trial_result h trial spec initial terminal (Some status) (Some f) entries observations cycles stage
      code override = Inr r \<and> result_ok h r \<and> tr_terminal_status r = terminal \<and>
    tr_execution_status r = Some status \<and> tr_initial_state_sha256 r = initial \<and>
    coherent_fields (tr_validation_passed r, tr_validation_failure_codes r) \<and>
    tr_observation_count r = observations \<and> tr_control_cycle_count r = cycles \<and>
    tr_trial_manifest_sha256 r = trial_sha256 h trial"
proof (cases override)
  case None
  with parts have p: "terminal = status" "stage = None" "code = None" by simp_all
  have fields: "receipt_fields h (Some f) override = (Some True, [])"
    using override_None [OF f ov [symmetric, unfolded None]] None by (simp add: receipt_fields_def trace_fields_def)
  show ?thesis
    using build_trial_result_returns [OF h, of "Some f" override initial observations cycles stage code terminal
        "Some status" trial spec entries] assms fields
    unfolding p
    by (auto simp: coherent_fields_def validate_semantics_def validate_reset_state_def NORMAL_STATUSES_def)
next
  case (Some v)
  with parts have p: "terminal = VALIDATOR_REJECTED" "stage = Some ''validation''" "code = Some ''validator_rejected''"
    by simp_all
  note v = override_coherent [OF f ov [symmetric, unfolded Some]]
  have fields: "receipt_fields h (Some f) override = (Some False, snd v)"
    using v(1) Some by (cases v) (simp add: receipt_fields_def)
  show ?thesis
    using build_trial_result_returns [OF h, of "Some f" override initial observations cycles stage code terminal
        "Some status" trial spec entries] assms fields v
    unfolding p
    by (auto simp: coherent_fields_def validate_semantics_def validate_reset_state_def NORMAL_STATUSES_def)
qed

end
