(* ===== verification/Runner_Runs.thy ===== *)
theory Runner_Runs
  imports Runner_Results
begin

text \<open>
  Whole runs: the contract of a simulation backend, that every admitted run returns a receipt
  within its budget, what a success means, and that the resources are closed once.
\<close>

section \<open>Receipts and completed runs\<close>

text \<open>A receipt of the trial, within its budget.\<close>

definition receipt_of_trial :: "'e run_env \<Rightarrow> trial_result \<Rightarrow> bool" where
  "receipt_of_trial E r \<longleftrightarrow>
     result_ok (en_hasher E) r \<and> tr_trial_manifest_sha256 r = trial_sha256 (en_hasher E) (en_trial E) \<and>
     0 \<le> tr_control_cycle_count r \<and> tr_control_cycle_count r \<le> rs_max_control_cycles (en_spec E) \<and>
     0 \<le> tr_observation_count r \<and> tr_observation_count r \<le> rs_max_observation_steps (en_spec E)"

text \<open>What the \<open>finally\<close> clause needs of a completed run.\<close>

definition completed :: "'e run_env \<Rightarrow> trial_result \<Rightarrow> 'e frame \<Rightarrow> bool" where
  "completed E r s \<longleftrightarrow>
     receipt_of_trial E r \<and> cycling E s \<and> sound_option (fr_finalization s) \<and>
     coherent_fields (tr_validation_passed r, tr_validation_failure_codes r) \<and>
     tr_execution_status r \<noteq> None \<and> tr_initial_state_sha256 r \<noteq> None \<and>
     check_opt_sha (tr_initial_state_sha256 r) = Inr ()"

lemma signal_status:
  "terminal_of (signal_value signal) = Inr status \<Longrightarrow> status \<in> set NORMAL_STATUSES"
  by (cases signal) (auto simp: terminal_of_def TERMINAL_STATUSES_def NORMAL_STATUSES_def)

section \<open>The backend contract\<close>

text \<open>A backend of the \<open>SimulationBackend\<close> protocol answers a reset with a \<open>ResetReceipt\<close>, an object
  that exists only as the result of its constructor.\<close>

locale simulation =
  fixes E :: "'e run_env"
  assumes digests: "sha_digests (en_hasher E)"
    and budget: "run_spec_ok (en_spec E)"
    and receipts: "be_reset (en_backend E) ctx w = (Inr r, w') \<Longrightarrow> receipt_init r = Inr r"
begin

lemma budget_bounds: "0 < rs_max_control_cycles (en_spec E)" "1 \<le> rs_max_observation_steps (en_spec E)"
  using budget by (auto simp: run_spec_ok_iff)

lemma receipt_sha: "be_reset (en_backend E) ctx w = (Inr r, w') \<Longrightarrow> is_sha256 (rc_simulator_state_sha256 r)"
  using receipts [of ctx w r w'] by (auto simp: receipt_init_def bindr_eq_Inr)

lemma validate_reset_exn: "validate_reset receipt ctx = Inl e \<Longrightarrow> sound_exn e"
  by (auto simp: validate_reset_def split: if_splits)

lemma wp_observe_first:
  assumes "fr_reset_attempted s" "fr_session s \<noteq> None"
    "fr_initial_state_sha256 s = Some sha" "is_sha256 sha"
    "fr_control_cycle_count s = 0" "fr_observation_count s = 0"
  shows "wp (observe_first E ctx) (\<lambda>_. cycling E) (\<lambda>e s'. started E s' \<and> sound_exn e) s"
proof -
  note fields = cycling_def started_def within_budget_def check_opt_sha_def
  show ?thesis
    unfolding observe_first_def wp_simps using assms budget_bounds
    by (auto simp: fields intro!: wp_callI wp_deliverI dest: check_clean_record_exn split: prod.split sum.split)
qed

lemma wp_start:
  assumes "fr_session s \<noteq> None" "fr_initial_state_sha256 s = None"
    "fr_control_cycle_count s = 0" "fr_observation_count s = 0"
  shows "wp (start_episode E ctx) (\<lambda>_. cycling E) (\<lambda>e s'. started E s' \<and> sound_exn e) s"
proof -
  note fields = started_def within_budget_def check_opt_sha_def
  show ?thesis
    unfolding start_episode_def wp_simps
  proof (rule wp_call_resultI)
    fix receipt w
    assume "be_reset (en_backend E) ctx (fr_world (s\<lparr>fr_stage := ''reset'', fr_reset_attempted := True\<rparr>)) = (Inr receipt, w)"
    then have sha: "is_sha256 (rc_simulator_state_sha256 receipt)" using receipt_sha by simp
    show "case validate_reset receipt ctx of
        Inl e \<Rightarrow> started E (s\<lparr>fr_stage := ''reset'', fr_reset_attempted := True, fr_world := w,
             fr_initial_state_sha256 := Some (rc_simulator_state_sha256 receipt)\<rparr>) \<and> sound_exn e
      | Inr x \<Rightarrow> wp (observe_first E ctx) (\<lambda>_. cycling E) (\<lambda>e s'. started E s' \<and> sound_exn e)
           (s\<lparr>fr_stage := ''reset'', fr_reset_attempted := True, fr_world := w,
             fr_initial_state_sha256 := Some (rc_simulator_state_sha256 receipt)\<rparr>)"
      using assms budget_bounds sha wp_observe_first
      by (auto simp: fields dest: validate_reset_exn split: sum.split)
  qed (use assms budget_bounds in \<open>auto simp: fields\<close>)
qed

text \<open>The frame the loop starts from.\<close>

lemma wp_open:
  assumes "preflight E = Inr ()" "\<not> isl (open_session E)" "trial_ok (en_hasher E) (en_trial E)"
  shows "wp (run_open E False)
    (\<lambda>out s'. case out of Started ctx \<Rightarrow> cycling E s'
       | Rejected res \<Rightarrow> result_ok (en_hasher E) (fst res) \<and> tr_terminal_status (fst res) = UNSUPPORTED_CONTRACT \<and>
           tr_observation_count (fst res) = 0 \<and> tr_control_cycle_count (fst res) = 0 \<and>
           tr_trial_manifest_sha256 (fst res) = trial_sha256 (en_hasher E) (en_trial E))
    (\<lambda>e s'. started E s' \<and> sound_exn e) (frame_init w)"
proof -
  let ?h = "en_hasher E" and ?t = "en_trial E"
  obtain session where session: "open_session E = Inr session" using assms(2) by (cases "open_session E") auto
  have "rs_prompt (en_spec E) \<noteq> []" using budget by (simp add: run_spec_ok_iff)
  then have "\<not> isl (build_episode_context ?h ?t (rs_prompt (en_spec E)))"
    using trial_ok_fields [OF assms(3)] canonical_nonempty [OF digests]
    by (simp add: build_episode_context_def context_init_def require_nonempty_def require_nonnegative_def
        require_action_spec_def ACTION_SPEC_def)
  then obtain ctx where ctx: "build_episode_context ?h ?t (rs_prompt (en_spec E)) = Inr ctx"
    by (cases "build_episode_context ?h ?t (rs_prompt (en_spec E))") auto
  have start: "wp (start_episode E ctx) (\<lambda>_. cycling E) (\<lambda>e s'. started E s' \<and> sound_exn e)
      (frame_init w\<lparr>fr_session := Some session\<rparr>)"
    by (rule wp_start) (simp_all add: frame_init_def)
  from build_unsupported [OF digests, of ?t "en_spec E"] start assms(1) show ?thesis
    by (auto simp: run_open_def Let_def wp_simps ctx session record_evidence_def)
qed

lemma wp_finish:
  assumes c: "cycling E s"
  shows "wp (run_finish E) (completed E) (\<lambda>e s'. started E s' \<and> sound_exn e) s"
proof -
  note f = cyclingD [OF c] and fields = cycling_def started_def within_budget_def
  have built: "\<exists>r. build_trial_result (en_hasher E) (en_trial E) (en_spec E) (fr_initial_state_sha256 s) terminal (Some status)
      (Some fin) (fr_action_entries s) (fr_observation_count s) (fr_control_cycle_count s) stage code
      (validation_override (en_trial E) fin) = Inr r \<and>
      completed E r (s\<lparr>fr_stage := ''validation'', fr_session := Some ses, fr_finalization := Some fin\<rparr>)"
    if fin: "sound_finalization fin" and status: "terminal_of (signal_value (fr_backend_signal s)) = Inr status"
      and parts: "(case validation_override (en_trial E) fin of None \<Rightarrow> (status, None, None)
        | Some _ \<Rightarrow> (VALIDATOR_REJECTED, Some ''validation'', Some ''validator_rejected'')) = (terminal, stage, code)"
    for fin status terminal stage code ses
  proof -
    have bounds: "0 \<le> fr_observation_count s" "0 \<le> fr_control_cycle_count s"
      using f by (simp_all add: within_budget_def)
    obtain r where "build_trial_result (en_hasher E) (en_trial E) (en_spec E) (fr_initial_state_sha256 s) terminal
        (Some status) (Some fin) (fr_action_entries s) (fr_observation_count s) (fr_control_cycle_count s) stage code
        (validation_override (en_trial E) fin) = Inr r" "result_ok (en_hasher E) r"
      "tr_execution_status r = Some status" "tr_initial_state_sha256 r = fr_initial_state_sha256 s"
      "coherent_fields (tr_validation_passed r, tr_validation_failure_codes r)"
      "tr_observation_count r = fr_observation_count s" "tr_control_cycle_count r = fr_control_cycle_count s"
      "tr_trial_manifest_sha256 r = trial_sha256 (en_hasher E) (en_trial E)"
      using build_normal [where trial = "en_trial E" and spec = "en_spec E" and entries = "fr_action_entries s",
          OF digests fin f(5,6) bounds signal_status [OF status] refl parts [symmetric]] by blast
    with f fin show ?thesis
      by (simp add: completed_def receipt_of_trial_def fields)
  qed
  show ?thesis
    unfolding run_finish_def Let_def wp_simps
  proof (rule wp_finalizeI, goal_cases)
    case (2 ses fin ses')
    then have fin: "sound_finalization fin" by (blast intro: session_finalize_sound)
    show ?case
    proof (cases "terminal_of (signal_value (fr_backend_signal s))")
      case (Inl e)
      with f show ?thesis by (simp add: fields)
    next
      case (Inr status)
      obtain terminal stage code where parts: "(case validation_override (en_trial E) fin of None \<Rightarrow> (status, None, None)
          | Some _ \<Rightarrow> (VALIDATOR_REJECTED, Some ''validation'', Some ''validator_rejected'')) = (terminal, stage, code)"
        by (metis prod_cases3)
      from built [OF fin Inr parts, of ses'] Inr show ?thesis
        by (auto simp: parts wp_simps)
    qed
  qed (use f in \<open>simp_all add: fields\<close>)
qed

text \<open>The \<open>except\<close> clause.\<close>

lemma abort_world: "\<exists>w. suppressed_abort E code s = s\<lparr>fr_world := w\<rparr>"
  by (simp add: suppressed_abort_def call_def split: prod.split) (metis (no_types) frame.surjective frame.update_convs(1))

lemma suppressed_finalize_started:
  assumes "started E s"
  shows "started E (suppressed_finalize E s)" "sound_option (fr_finalization (suppressed_finalize E s))"
    "fr_stage (suppressed_finalize E s) = fr_stage s"
proof -
  obtain ses where ses: "fr_session s = Some ses" using assms by (auto simp: started_def)
  obtain ses' out where run: "session_finalize (en_hasher E) (en_numpy E) ses = (ses', out)" by fastforce
  show "started E (suppressed_finalize E s)" "sound_option (fr_finalization (suppressed_finalize E s))"
    "fr_stage (suppressed_finalize E s) = fr_stage s"
    using assms ses run session_finalize_sound [of "en_hasher E" "en_numpy E" ses ses']
    by (auto simp: suppressed_finalize_def run_finalize_def raised_def started_def within_budget_def split: sum.split)
qed

lemma failure_code_nonempty: "sound_exn e \<Longrightarrow> failure_code_of e stage \<noteq> []"
  by (cases e) (simp_all add: failure_code_of_def)

lemma crash_returns:
  assumes "started E s" "sound_exn e"
  shows "\<exists>r s'. crash_result E False e s = (Inr (r, None), s') \<and> receipt_of_trial E r"
proof -
  let ?code = "failure_code_of e (fr_stage s)"
  obtain w where w: "suppressed_abort E ?code s = s\<lparr>fr_world := w\<rparr>" using abort_world by blast
  define t where "t = suppressed_finalize E (suppressed_abort E ?code s)"
  have t: "started E t" "sound_option (fr_finalization t)" "fr_stage t = fr_stage s"
    using suppressed_finalize_started [of "s\<lparr>fr_world := w\<rparr>"] assms(1) by (simp_all add: t_def w)
  have "\<exists>r. build_trial_result (en_hasher E) (en_trial E) (en_spec E) (fr_initial_state_sha256 t) CRASH (Some CRASH)
      (fr_finalization t) (fr_action_entries t) (fr_observation_count t) (fr_control_cycle_count t)
      (Some (fr_stage t)) (Some ?code) None = Inr r \<and> result_ok (en_hasher E) r \<and> tr_terminal_status r = CRASH \<and>
    tr_observation_count r = fr_observation_count t \<and> tr_control_cycle_count r = fr_control_cycle_count t \<and>
    tr_trial_manifest_sha256 r = trial_sha256 (en_hasher E) (en_trial E)"
    by (rule build_crash [OF digests t(2)])
       (use t(1) failure_code_nonempty [OF assms(2)] in \<open>simp_all add: started_def within_budget_def\<close>)
  then obtain r where r: "build_trial_result (en_hasher E) (en_trial E) (en_spec E) (fr_initial_state_sha256 t) CRASH
      (Some CRASH) (fr_finalization t) (fr_action_entries t) (fr_observation_count t) (fr_control_cycle_count t)
      (Some (fr_stage t)) (Some ?code) None = Inr r" "result_ok (en_hasher E) r"
    "tr_observation_count r = fr_observation_count t" "tr_control_cycle_count r = fr_control_cycle_count t"
    "tr_trial_manifest_sha256 r = trial_sha256 (en_hasher E) (en_trial E)" by blast
  then have "crash_result E False e s = (Inr (r, None), t)"
    by (simp add: crash_result_def Let_def t_def [symmetric] record_evidence_def raised_def)
  with r t(1) show ?thesis by (simp add: receipt_of_trial_def started_def within_budget_def)
qed

text \<open>The \<open>finally\<close> clause.\<close>

lemma close_world: "\<exists>codes w. close_resources E s = (codes, s\<lparr>fr_world := w\<rparr>) \<and> length codes \<le> 2 \<and> [] \<notin> set codes"
proof -
  obtain b w1 where b: "be_close (en_backend E) (fr_world s) = (b, w1)" by fastforce
  obtain p w2 where p: "po_close (en_policy E) w1 = (p, w2)" by fastforce
  have "close_resources E s =
    ((if isl b then [''backend_close_failed''] else []) @ (if isl p then [''policy_close_failed''] else []),
     s\<lparr>fr_world := w2\<rparr>)"
    by (simp add: close_resources_def call_def b p raised_def split: sum.split)
  then show ?thesis by auto
qed

lemma close_completed_returns:
  assumes "completed E r s" "[] \<notin> set codes"
  shows "\<exists>r'. close_completed E r codes (s\<lparr>fr_world := w\<rparr>) = Inr r' \<and> receipt_of_trial E r' \<and>
    (codes = [] \<longrightarrow> r' = r) \<and> (codes \<noteq> [] \<longrightarrow> tr_terminal_status r' = CRASH)"
proof (cases "codes = []")
  case True
  with assms show ?thesis by (simp add: close_completed_def completed_def)
next
  case False
  let ?code = "if length codes = 1 then hd codes else ''multiple_close_failures''"
  obtain status where st: "tr_execution_status r = Some status" using assms(1) by (auto simp: completed_def)
  have "\<exists>r'. build_trial_result (en_hasher E) (en_trial E) (en_spec E) (tr_initial_state_sha256 r) CRASH (Some status)
      (fr_finalization s) (fr_action_entries s) (fr_observation_count s) (fr_control_cycle_count s)
      (Some ''close'') (Some ?code) (Some (tr_validation_passed r, tr_validation_failure_codes r)) = Inr r' \<and>
    result_ok (en_hasher E) r' \<and> tr_terminal_status r' = CRASH \<and>
    tr_observation_count r' = fr_observation_count s \<and> tr_control_cycle_count r' = fr_control_cycle_count s \<and>
    tr_trial_manifest_sha256 r' = trial_sha256 (en_hasher E) (en_trial E)"
  proof (rule build_crash [OF digests])
    show "?code \<noteq> []" using assms(2) False by (metis hd_in_set list.discI)
  qed (use assms(1) in \<open>simp_all add: completed_def cycling_def started_def within_budget_def\<close>)
  with False st assms(1) show ?thesis
    by (auto simp: close_completed_def receipt_of_trial_def completed_def cycling_def started_def within_budget_def)
qed

text \<open>The body of the \<open>try\<close> statement.\<close>

lemma try_block_outcomes:
  assumes "preflight E = Inr ()" "\<not> isl (open_session E)" "trial_ok (en_hasher E) (en_trial E)"
    and "try_block E False (frame_init w) = Some (out, s)"
  shows "case out of Inl e \<Rightarrow> started E s \<and> sound_exn e
    | Inr (Early res) \<Rightarrow> receipt_of_trial E (fst res) \<and> tr_terminal_status (fst res) = UNSUPPORTED_CONTRACT
    | Inr (Completed r) \<Rightarrow> completed E r s"
proof -
  note open_wp = wp_open [OF assms(1-3), of w]
  obtain o1 s1 where o1: "run_open E False (frame_init w) = (o1, s1)" by fastforce
  show ?thesis
  proof (cases o1)
    case (Inl e)
    with o1 assms(4) wp_Inl [OF open_wp] show ?thesis by (auto simp: try_block_def)
  next
    case (Inr opened)
    show ?thesis
    proof (cases opened)
      case (Rejected res)
      with o1 Inr assms(4) wp_Inr [OF open_wp] budget_bounds show ?thesis
        by (auto simp: try_block_def receipt_of_trial_def)
    next
      case (Started ctx)
      with o1 Inr wp_Inr [OF open_wp] have c: "cycling E s1" by fastforce
      obtain l s2 where l: "run_loop E ctx s1 = Some (l, s2)" using run_loop_returns by blast
      note inv = run_loop_invariant [OF l c]
      show ?thesis
      proof (cases l)
        case (Inl e)
        with o1 Inr Started l assms(4) inv show ?thesis by (auto simp: try_block_def cycling_def)
      next
        case (Inr u)
        obtain r s3 where r: "run_finish E s2 = (r, s3)" by fastforce
        with o1 \<open>o1 = Inr opened\<close> Started l Inr assms(4) wp_Inr [OF wp_finish [OF inv(1)]] wp_Inl [OF wp_finish [OF inv(1)]]
        show ?thesis by (cases r) (auto simp: try_block_def)
      qed
    qed
  qed
qed

lemma run_returns_receipt:
  assumes "preflight E = Inr ()" "\<not> isl (open_session E)" "trial_ok (en_hasher E) (en_trial E)"
  shows "\<exists>r w'. run_closed_loop_trial E w = Some (Inr r, w') \<and> receipt_of_trial E r"
proof -
  obtain out s where t: "try_block E False (frame_init w) = Some (out, s)" using try_block_returns by blast
  note o = try_block_outcomes [OF assms t]
  show ?thesis
  proof (cases out)
    case (Inl e)
    with o have e: "started E s" "sound_exn e" by simp_all
    from crash_returns [OF this] obtain r s' where r: "crash_result E False e s = (Inr (r, None), s')"
      "receipt_of_trial E r" by blast
    obtain codes w' where "close_resources E s' = (codes, s'\<lparr>fr_world := w'\<rparr>)" using close_world by blast
    with t Inl r e(1) show ?thesis by (simp add: run_closed_loop_trial_def run_trial_def started_def)
  next
    case (Inr res)
    show ?thesis
    proof (cases res)
      case (Early out1)
      obtain codes w' where "close_resources E s = (codes, s\<lparr>fr_world := w'\<rparr>)" using close_world by blast
      with t Inr Early o show ?thesis by (simp add: run_closed_loop_trial_def run_trial_def)
    next
      case (Completed r)
      obtain codes w' where close: "close_resources E s = (codes, s\<lparr>fr_world := w'\<rparr>)" "[] \<notin> set codes"
        using close_world by blast
      have "completed E r s" using o Inr Completed by simp
      from close_completed_returns [OF this close(2), of w'] obtain r' where
        "close_completed E r codes (s\<lparr>fr_world := w'\<rparr>) = Inr r'" "receipt_of_trial E r'" by blast
      with t Inr Completed close show ?thesis
        by (simp add: run_closed_loop_trial_def run_trial_def record_evidence_def raised_def)
    qed
  qed
qed

end

end
