(* ===== verification/Runner_Traces.thy ===== *)
theory Runner_Traces
  imports Runner_Runs
begin

text \<open>
  What a returned receipt says about the run: a success was signalled, validated and closed; the
  resources are closed once on every path; capturing evidence does not change the run.
\<close>

section \<open>The status of a receipt\<close>

lemma build_status:
  assumes "build_trial_result h trial spec initial terminal execution f entries observations cycles stage code
    override = Inr r"
  shows "tr_terminal_status r = terminal"
proof -
  obtain a b v where "trace_fields h f = (a, b, v)" by (metis prod_cases3)
  moreover obtain p cs where "(case override of None \<Rightarrow> v | Some v \<Rightarrow> v) = (p, cs)" by fastforce
  moreover obtain e sc where "score terminal = (e, sc)" by fastforce
  ultimately show ?thesis
    using assms by (auto simp: build_trial_result_def Let_def dest: result_init_id)
qed

lemma terminal_success: "terminal_of (signal_value signal) = Inr SUCCESS \<Longrightarrow> signal = Signal_success"
  by (cases signal) (auto simp: terminal_of_def TERMINAL_STATUSES_def)

text \<open>What the runner requires of a success.\<close>

definition earned :: "'e run_env \<Rightarrow> 'e frame \<Rightarrow> bool" where
  "earned E s \<longleftrightarrow>
     fr_backend_signal s = Signal_success \<and> fst (close_resources E s) = [] \<and>
     (\<exists>f. fr_finalization s = Some f \<and>
        (\<forall>v. df_validation f = Some v \<longrightarrow> vr_passed v) \<and>
        (tm_condition (en_trial E) = RESTORED \<longrightarrow>
           (\<exists>r\<in>set (df_delivered_records f). Some (step_of r) = tm_restoration_index (en_trial E))))"

lemma override_none_validated:
  assumes "validation_override trial f = None"
  shows "\<forall>v. df_validation f = Some v \<longrightarrow> vr_passed v"
    "tm_condition trial = RESTORED \<longrightarrow> (\<exists>r\<in>set (df_delivered_records f). Some (step_of r) = tm_restoration_index trial)"
  using assms
  by (auto simp: validation_override_def restoration_validation_def Let_def list_ex_iff split: option.splits if_splits)

lemma finish_success:
  assumes "run_finish E s = (Inr r, s')" "tr_terminal_status r = SUCCESS"
  shows "fr_backend_signal s' = Signal_success \<and> (\<exists>f. fr_finalization s' = Some f \<and>
    validation_override (en_trial E) f = None)"
proof -
  obtain f s1 where f: "run_finalize E (s\<lparr>fr_stage := ''validation''\<rparr>) = (Inr f, s1)"
    using assms(1) by (auto simp: run_finish_def sbind_def set_stage_def update_def split: sum.splits prod.splits)
  then have signal: "fr_backend_signal s1 = fr_backend_signal s"
    by (auto simp: run_finalize_def split: option.splits prod.splits)
  obtain status where status: "terminal_of (signal_value (fr_backend_signal s)) = Inr status"
    using assms(1) f signal
    by (cases "terminal_of (signal_value (fr_backend_signal s))")
       (simp_all add: run_finish_def sbind_def set_stage_def update_def sget_def lift_result_def lift_checked_def raised_def)
  show ?thesis
  proof (cases "validation_override (en_trial E) f")
    case None
    with assms f signal status have "s' = s1\<lparr>fr_finalization := Some f\<rparr>" "status = SUCCESS"
      by (auto simp: run_finish_def sbind_def set_stage_def update_def sget_def lift_result_def lift_checked_def
          raised_def Let_def dest!: build_status split: sum.splits)
    with None status signal terminal_success show ?thesis by auto
  next
    case (Some v)
    with assms f signal status have False
      by (auto simp: run_finish_def sbind_def set_stage_def update_def sget_def lift_result_def lift_checked_def
          raised_def Let_def dest!: build_status split: sum.splits)
    then show ?thesis ..
  qed
qed

lemma crash_status: "crash_result E capture e s = (Inr (r, ev), s') \<Longrightarrow> tr_terminal_status r = CRASH"
  by (auto simp: crash_result_def Let_def raised_def bindr_eq_Inr dest!: build_status split: sum.splits)

lemma wp_trivial: "(\<And>x s'. Q x s') \<Longrightarrow> (\<And>e s'. X e s') \<Longrightarrow> wp m Q X s"
  by (auto simp: wp_def split: sum.split prod.split)

lemma early_status:
  assumes "run_open E capture s = (Inr (Rejected (r, ev)), s')"
  shows "tr_terminal_status r = UNSUPPORTED_CONTRACT"
proof -
  define Q where "Q out s' \<longleftrightarrow> (case out of Started ctx \<Rightarrow> True
      | Rejected res \<Rightarrow> tr_terminal_status (fst res) = UNSUPPORTED_CONTRACT)" for out and s' :: "'a frame"
  have Q: "Q (Started ctx) s'" "Q (Rejected (r, ev)) s' \<longleftrightarrow> tr_terminal_status r = UNSUPPORTED_CONTRACT" for ctx r ev s'
    by (simp_all add: Q_def)
  have "wp (run_open E capture) Q (\<lambda>_ _. True) s"
    unfolding run_open_def Let_def
    by (auto simp: wp_simps Q intro!: wp_trivial dest: build_status split: sum.split)
  from wp_Inr [OF this assms] show ?thesis by (simp add: Q)
qed

text \<open>A success comes out of a run that completed, validated and closed.\<close>

lemma completed_success:
  assumes "try_block E capture w = Some (Inr (Completed r), s)" "tr_terminal_status r = SUCCESS"
  shows "fr_backend_signal s = Signal_success"
    "\<exists>f. fr_finalization s = Some f \<and> validation_override (en_trial E) f = None"
proof -
  obtain s1 where "run_finish E s1 = (Inr r, s)"
    using assms(1) by (auto simp: try_block_def split: prod.splits sum.splits opened.splits option.splits)
  from finish_success [OF this assms(2)] show "fr_backend_signal s = Signal_success"
    "\<exists>f. fr_finalization s = Some f \<and> validation_override (en_trial E) f = None" by simp_all
qed

lemma early_outcome:
  assumes "try_block E capture w = Some (Inr (Early (r, ev)), s)"
  shows "tr_terminal_status r = UNSUPPORTED_CONTRACT"
proof -
  have "run_open E capture w = (Inr (Rejected (r, ev)), s)"
    using assms by (auto simp: try_block_def split: prod.splits sum.splits opened.splits option.splits)
  then show ?thesis by (rule early_status)
qed

lemma close_status:
  "close_completed E r codes s = Inr r' \<Longrightarrow> codes \<noteq> [] \<Longrightarrow> tr_terminal_status r' = CRASH"
  by (auto simp: close_completed_def dest: build_status)

lemma run_success:
  assumes "run_trial E capture w = Some (Inr (r, ev), w')" "tr_terminal_status r = SUCCESS"
  shows "\<exists>s. try_block E capture (frame_init w) = Some (Inr (Completed r), s) \<and> earned E s"
proof -
  obtain out s where t: "try_block E capture (frame_init w) = Some (out, s)"
    using assms(1) by (auto simp: run_trial_def split: option.splits)
  show ?thesis
  proof (cases out)
    case (Inl e)
    with assms t have False
      by (auto simp: run_trial_def dest: crash_status split: if_splits prod.splits)
    then show ?thesis ..
  next
    case (Inr res)
    show ?thesis
    proof (cases res)
      case (Early out1)
      with Inr t assms early_outcome [of E capture "frame_init w" r ev s] have False
        by (auto simp: run_trial_def split: prod.splits)
      then show ?thesis ..
    next
      case (Completed r0)
      obtain codes s2 where close: "close_resources E s = (codes, s2)" by fastforce
      with Inr Completed t assms(1) obtain r1 where "close_completed E r0 codes s2 = Inr r1" "r1 = r"
        by (auto simp: run_trial_def raised_def bindr_eq_Inr split: sum.splits)
      moreover have "codes = []" using calculation close_status [of E r0 codes s2 r1] assms(2) by auto
      ultimately have "r0 = r" "codes = []" by (simp_all add: close_completed_def)
      with t Inr Completed have t': "try_block E capture (frame_init w) = Some (Inr (Completed r), s)" by simp
      note run = completed_success [OF t' assms(2)]
      from run(2) obtain f where f: "fr_finalization s = Some f" "validation_override (en_trial E) f = None" by blast
      have "earned E s"
        unfolding earned_def using run(1) f override_none_validated [OF f(2)] close \<open>codes = []\<close> by simp
      with t' show ?thesis by blast
    qed
  qed
qed

section \<open>Crashes\<close>

lemma build_failure:
  assumes "build_trial_result h trial spec initial terminal execution f entries observations cycles stage code
    override = Inr r"
  shows "tr_failure_stage r = stage \<and> tr_failure_code r = code \<and> tr_execution_status r = execution"
proof -
  obtain a b v where "trace_fields h f = (a, b, v)" by (metis prod_cases3)
  moreover obtain p cs where "(case override of None \<Rightarrow> v | Some v \<Rightarrow> v) = (p, cs)" by fastforce
  moreover obtain e sc where "score terminal = (e, sc)" by fastforce
  ultimately show ?thesis
    using assms by (auto simp: build_trial_result_def Let_def dest: result_init_id)
qed

lemma finish_status:
  assumes "run_finish E s = (Inr r, s')"
  shows "tr_terminal_status r \<noteq> CRASH"
proof -
  have "wp (run_finish E) (\<lambda>r s'. tr_terminal_status r \<noteq> CRASH) (\<lambda>_ _. True) s"
    unfolding run_finish_def Let_def
    by (auto simp: wp_simps NORMAL_STATUSES_def intro!: wp_trivial dest!: build_status signal_status
        split: sum.split prod.split option.split)
  from wp_Inr [OF this assms] show ?thesis by simp
qed

lemma run_crash:
  assumes "run_trial E capture w = Some (Inr (r, ev), w')" "tr_terminal_status r = CRASH"
  shows "\<exists>out s. try_block E capture (frame_init w) = Some (out, s) \<and>
    (case out of
       Inl e \<Rightarrow> fr_reset_attempted s \<and> tr_failure_stage r = Some (fr_stage s) \<and>
         tr_failure_code r = Some (failure_code_of e (fr_stage s))
     | Inr (Early res) \<Rightarrow> False
     | Inr (Completed r0) \<Rightarrow> fst (close_resources E s) \<noteq> [] \<and> tr_failure_stage r = Some ''close'' \<and>
         tr_execution_status r = tr_execution_status r0)"
proof -
  obtain out s where t: "try_block E capture (frame_init w) = Some (out, s)"
    using assms(1) by (auto simp: run_trial_def split: option.splits)
  have stage: "fr_stage (suppressed_finalize E (suppressed_abort E code s)) = fr_stage s" for code
    by (auto simp: suppressed_finalize_def run_finalize_def suppressed_abort_def call_def split: prod.split sum.split option.split)
  show ?thesis
  proof (cases out)
    case (Inl e)
    then have r: "fr_reset_attempted s" "\<exists>s'. crash_result E capture e s = (Inr (r, ev), s')"
      using assms(1) t by (auto simp: run_trial_def split: if_splits prod.splits)
    then have "tr_failure_stage r = Some (fr_stage s) \<and> tr_failure_code r = Some (failure_code_of e (fr_stage s))"
      by (auto simp: crash_result_def Let_def raised_def bindr_eq_Inr stage dest!: build_failure split: sum.splits)
    with t Inl r show ?thesis by auto
  next
    case (Inr res)
    show ?thesis
    proof (cases res)
      case (Early out1)
      with Inr t assms early_outcome [of E capture "frame_init w" r ev s] have False
        by (auto simp: run_trial_def split: prod.splits)
      then show ?thesis ..
    next
      case (Completed r0)
      obtain codes s2 where close: "close_resources E s = (codes, s2)" by fastforce
      with Inr Completed t assms(1) have r: "close_completed E r0 codes s2 = Inr r"
        by (auto simp: run_trial_def raised_def bindr_eq_Inr split: sum.splits)
      obtain s1 where "run_finish E s1 = (Inr r0, s)"
        using t Inr Completed by (auto simp: try_block_def split: prod.splits sum.splits opened.splits option.splits)
      with r assms(2) have "codes \<noteq> []" by (auto simp: close_completed_def dest: finish_status)
      with r have "tr_failure_stage r = Some ''close''" "tr_execution_status r = tr_execution_status r0"
        by (auto simp: close_completed_def dest!: build_failure)
      with t Inr Completed close \<open>codes \<noteq> []\<close> show ?thesis by auto
    qed
  qed
qed

section \<open>Evidence\<close>

lemma record_evidence_off: "record_evidence h False r f entries = Inr None"
  by (simp add: record_evidence_def)

lemma evidence_init_id: "evidence_init h e = Inr e' \<Longrightarrow> e' = e"
  by (auto simp: evidence_init_def split: if_splits)

lemma record_evidence_on:
  assumes "record_evidence h True r f entries = Inr ev"
  shows "\<exists>e. ev = Some e \<and> ce_result e = r \<and> evidence_init h e = Inr e"
  using assms evidence_init_id [of h _ _] by (fastforce simp: record_evidence_def bindr_eq_Inr)

text \<open>The runner differs in what it records only.\<close>

lemma open_capture:
  assumes "run_open E True s = (out, s')"
  shows "case out of
      Inr (Started ctx) \<Rightarrow> run_open E False s = (out, s')
    | Inr (Rejected (r, ev)) \<Rightarrow> run_open E False s = (Inr (Rejected (r, None)), s') \<and>
        (\<exists>e. ev = Some e \<and> ce_result e = r \<and> evidence_init (en_hasher E) e = Inr e)
    | Inl e \<Rightarrow> run_open E False s = (out, s') \<or> s' = s"
proof (cases "preflight E")
  case (Inl e)
  with assms show ?thesis
    by (auto simp: run_open_def Let_def sbind_def lift_result_def lift_checked_def raised_def)
next
  case (Inr u)
  show ?thesis
  proof (cases "case en_fault E of None \<Rightarrow> False
      | Some m \<Rightarrow> fm_operator_id m \<in> set STRUCTURAL_ABSENCE_OPERATOR_IDS \<and>
          \<not> pi_supports_structural_absence (po_identity (en_policy E))")
    case True
    with assms Inr show ?thesis
      unfolding run_open_def Let_def if_P [OF True]
      by (auto simp: sbind_def lift_result_def lift_checked_def raised_def sret_def record_evidence_off
          dest: record_evidence_on split: sum.splits)
  next
    case False
    then have same: "run_open E True = run_open E False"
      by (simp add: run_open_def Let_def False)
    have "\<nexists>r. out = Inr (Rejected r)"
      using assms unfolding run_open_def Let_def if_not_P [OF False]
      by (auto simp: sbind_def sret_def split: sum.splits prod.splits)
    with assms same show ?thesis by (auto split: sum.split opened.split)
  qed
qed

lemma evidence_run:
  assumes "run_trial E True w = Some (Inr (r, Some ev), w')"
  shows "run_trial E False w = Some (Inr (r, None), w') \<and> ce_result ev = r \<and> evidence_init (en_hasher E) ev = Inr ev"
proof -
  obtain o1 s1 where o1: "run_open E True (frame_init w) = (o1, s1)" by fastforce
  note o2 = open_capture [OF o1]
  have crash: "run_trial E False w = Some (Inr (r, None), w') \<and> ce_result ev = r \<and> evidence_init (en_hasher E) ev = Inr ev"
    if "try_block E True (frame_init w) = Some (Inl e, s)"
      "fr_reset_attempted s \<Longrightarrow> try_block E False (frame_init w) = Some (Inl e, s)" for e s
  proof -
    have "fr_reset_attempted s" using assms that(1) by (auto simp: run_trial_def split: if_splits prod.splits)
    with assms that show ?thesis
      by (auto simp: run_trial_def crash_result_def Let_def raised_def bindr_eq_Inr record_evidence_off
          dest!: record_evidence_on split: prod.splits sum.splits)
  qed
  have normal: "run_trial E False w = Some (Inr (r, None), w') \<and> ce_result ev = r \<and> evidence_init (en_hasher E) ev = Inr ev"
    if "try_block E True (frame_init w) = Some (Inr (Completed r0), s)"
      "try_block E False (frame_init w) = Some (Inr (Completed r0), s)" for r0 s
    using assms that
    by (auto simp: run_trial_def raised_def bindr_eq_Inr record_evidence_off
          dest!: record_evidence_on split: prod.splits sum.splits)
  show ?thesis
  proof (cases o1)
    case (Inl e)
    with o1 o2 show ?thesis by (intro crash [of e s1]) (auto simp: try_block_def frame_init_def)
  next
    case (Inr opened)
    show ?thesis
    proof (cases opened)
      case (Rejected res)
      with o1 o2 Inr assms show ?thesis
        by (cases res) (auto simp: run_trial_def try_block_def split: prod.splits)
    next
      case (Started ctx)
      obtain l s2 where l: "run_loop E ctx s1 = Some (l, s2)" using run_loop_returns by blast
      obtain q s3 where q: "run_finish E s2 = (q, s3)" by fastforce
      from o1 o2 Inr Started have o3: "run_open E False (frame_init w) = (Inr (Started ctx), s1)" by simp
      have same: "try_block E True (frame_init w) = try_block E False (frame_init w)"
        using o1 o3 Inr Started by (simp add: try_block_def)
      have t: "\<exists>out s. try_block E True (frame_init w) = Some (out, s) \<and> (\<forall>x. out \<noteq> Inr (Early x))"
        using o1 Inr Started l q by (cases l; cases q) (simp_all add: try_block_def)
      then obtain out s where out: "try_block E True (frame_init w) = Some (out, s)" "\<forall>x. out \<noteq> Inr (Early x)" by blast
      show ?thesis
      proof (cases out)
        case (Inl e)
        with crash [of e s] out same show ?thesis by simp
      next
        case (Inr res)
        with out same normal [of _ s] show ?thesis by (cases res) auto
      qed
    qed
  qed
qed

end
