(* ===== verification/Runner_Protocol.thy ===== *)
theory Runner_Protocol
  imports Runner_Traces
begin

text \<open>
  The order in which the runner calls the backend and the policy (\<open>closed_loop/interfaces.py\<close> says
  when each operation may be called).  The world is extended by a log of the calls; the log of every
  run is a word of the protocol automaton, and erasing the log gives the run itself.
\<close>

section \<open>The protocol\<close>

datatype event =
    Backend_reset | Policy_reset | Observed | Inferred | Executed | Committed | Aborted
  | Backend_closed | Policy_closed

datatype phase = Fresh | Posed | Briefed | Ready | Planned | Moved | Stopped | Half_closed | Closed

fun protocol_step :: "phase \<Rightarrow> event \<Rightarrow> phase option" where
  "protocol_step Fresh Backend_reset = Some Posed"
| "protocol_step Posed Policy_reset = Some Briefed"
| "protocol_step Briefed Observed = Some Ready"
| "protocol_step Ready Inferred = Some Planned"
| "protocol_step Planned Executed = Some Moved"
| "protocol_step Moved Committed = Some Ready"
| "protocol_step p Aborted = (if p \<in> {Briefed, Ready, Planned, Moved} then Some Stopped else None)"
| "protocol_step p Backend_closed = (if p \<in> {Half_closed, Closed} then None else Some Half_closed)"
| "protocol_step Half_closed Policy_closed = Some Closed"
| "protocol_step p ev = None"

fun run_protocol :: "phase \<Rightarrow> event list \<Rightarrow> phase option" where
  "run_protocol p [] = Some p"
| "run_protocol p (ev # evs) = (case protocol_step p ev of None \<Rightarrow> None | Some q \<Rightarrow> run_protocol q evs)"

lemma run_protocol_append:
  "run_protocol p (evs @ evs') = Option.bind (run_protocol p evs) (\<lambda>q. run_protocol q evs')"
  by (induction evs arbitrary: p) (auto split: option.split)

lemma run_protocol_snoc:
  "run_protocol p (evs @ [ev]) = Option.bind (run_protocol p evs) (\<lambda>q. protocol_step q ev)"
  by (simp add: run_protocol_append) (cases "run_protocol p evs"; simp split: option.split)

text \<open>What acceptance means: both resources are closed once, the policy is aborted at most once,
  and what is committed was executed and what is executed was inferred.\<close>

definition owed :: "phase \<Rightarrow> nat" where
  "owed p = (if p = Half_closed then 0 else if p = Closed then 0 else 1)"

lemma protocol_counts:
  assumes "run_protocol p evs = Some Closed"
  shows "count_list evs Backend_closed = owed p"
    "count_list evs Policy_closed = (if p = Closed then 0 else 1)"
    "count_list evs Aborted \<le> (if p \<in> {Stopped, Half_closed, Closed} then 0 else 1)"
    "count_list evs Committed \<le> count_list evs Executed + (if p = Moved then 1 else 0)"
    "count_list evs Executed \<le> count_list evs Inferred + (if p = Planned then 1 else 0)"
proof -
  have "count_list evs Backend_closed = owed p \<and> count_list evs Policy_closed = (if p = Closed then 0 else 1) \<and>
    count_list evs Aborted \<le> (if p \<in> {Stopped, Half_closed, Closed} then 0 else 1) \<and>
    count_list evs Committed \<le> count_list evs Executed + (if p = Moved then 1 else 0) \<and>
    count_list evs Executed \<le> count_list evs Inferred + (if p = Planned then 1 else 0)"
    using assms
  proof (induction evs arbitrary: p)
    case (Cons ev evs)
    then obtain q where q: "protocol_step p ev = Some q" "run_protocol q evs = Some Closed"
      by (auto split: option.splits)
    from Cons.IH [OF q(2)] q(1) show ?case
      by (cases p; cases ev) (auto simp: owed_def split: if_splits)
  qed (simp add: owed_def)
  then show "count_list evs Backend_closed = owed p"
    "count_list evs Policy_closed = (if p = Closed then 0 else 1)"
    "count_list evs Aborted \<le> (if p \<in> {Stopped, Half_closed, Closed} then 0 else 1)"
    "count_list evs Committed \<le> count_list evs Executed + (if p = Moved then 1 else 0)"
    "count_list evs Executed \<le> count_list evs Inferred + (if p = Planned then 1 else 0)" by blast+
qed

section \<open>The logged world\<close>

definition noting :: "event \<Rightarrow> ('e \<Rightarrow> 'a result \<times> 'e) \<Rightarrow> 'e \<times> event list \<Rightarrow> 'a result \<times> ('e \<times> event list)" where
  "noting ev f w = (case f (fst w) of (r, v) \<Rightarrow> (r, (v, snd w @ [ev])))"

definition logged :: "'e run_env \<Rightarrow> ('e \<times> event list) run_env" where
  "logged E =
     (let b = en_backend E; p = en_policy E in
      \<lparr>en_hasher = en_hasher E, en_numpy = en_numpy E, en_trial = en_trial E, en_spec = en_spec E,
       en_backend =
         \<lparr>be_action_spec = be_action_spec b, be_success_predicate_id = be_success_predicate_id b,
          be_reset = (\<lambda>ctx. noting Backend_reset (be_reset b ctx)),
          be_observe = noting Observed (be_observe b),
          be_execute = (\<lambda>a. noting Executed (be_execute b a)),
          be_close = noting Backend_closed (be_close b)\<rparr>,
       en_policy =
         \<lparr>po_identity = po_identity p, po_reset = (\<lambda>ctx. noting Policy_reset (po_reset p ctx)),
          po_infer = (\<lambda>ob. noting Inferred (po_infer p ob)),
          po_commit = (\<lambda>x. noting Committed (po_commit p x)),
          po_abort = (\<lambda>reason. noting Aborted (po_abort p reason)),
          po_close = noting Policy_closed (po_close p)\<rparr>,
       en_clock = (\<lambda>w. case en_clock E (fst w) of (t, v) \<Rightarrow> (t, (v, snd w))),
       en_fault = en_fault E, en_rest = en_rest E\<rparr>)"

lemma logged_fields [simp]:
  "en_hasher (logged E) = en_hasher E" "en_numpy (logged E) = en_numpy E" "en_trial (logged E) = en_trial E"
  "en_spec (logged E) = en_spec E" "en_fault (logged E) = en_fault E" "en_rest (logged E) = en_rest E"
  "be_action_spec (en_backend (logged E)) = be_action_spec (en_backend E)"
  "be_success_predicate_id (en_backend (logged E)) = be_success_predicate_id (en_backend E)"
  "be_reset (en_backend (logged E)) ctx = noting Backend_reset (be_reset (en_backend E) ctx)"
  "be_observe (en_backend (logged E)) = noting Observed (be_observe (en_backend E))"
  "be_execute (en_backend (logged E)) a = noting Executed (be_execute (en_backend E) a)"
  "be_close (en_backend (logged E)) = noting Backend_closed (be_close (en_backend E))"
  "po_identity (en_policy (logged E)) = po_identity (en_policy E)"
  "po_reset (en_policy (logged E)) ctx = noting Policy_reset (po_reset (en_policy E) ctx)"
  "po_infer (en_policy (logged E)) ob = noting Inferred (po_infer (en_policy E) ob)"
  "po_commit (en_policy (logged E)) x = noting Committed (po_commit (en_policy E) x)"
  "po_abort (en_policy (logged E)) reason = noting Aborted (po_abort (en_policy E) reason)"
  "po_close (en_policy (logged E)) = noting Policy_closed (po_close (en_policy E))"
  "en_clock (logged E) w = (case en_clock E (fst w) of (t, v) \<Rightarrow> (t, (v, snd w)))"
  by (simp_all add: logged_def Let_def)

section \<open>Every run follows the protocol\<close>

definition traced :: "'e \<times> event list \<Rightarrow> phase option" where
  "traced w = run_protocol Fresh (snd w)"

text \<open>Where an exception may be raised, and from where the policy may be aborted.\<close>

definition interrupted :: "run_exn \<Rightarrow> ('e \<times> event list) frame \<Rightarrow> bool" where
  "interrupted e s \<longleftrightarrow>
     (\<exists>p. traced (fr_world s) = Some p \<and> p \<in> {Fresh, Posed, Briefed, Ready, Planned, Moved} \<and>
        (fr_policy_reset_entered s \<longrightarrow> p \<in> {Briefed, Ready, Planned, Moved}))"

definition at_phase :: "phase \<Rightarrow> ('e \<times> event list) frame \<Rightarrow> bool" where
  "at_phase p s \<longleftrightarrow> traced (fr_world s) = Some p \<and> (fr_policy_reset_entered s \<longleftrightarrow> p \<in> {Briefed, Ready, Planned, Moved})"

lemma wp_noted:
  assumes "\<And>x v l. run_protocol Fresh l = Option.bind (traced (fr_world s)) (\<lambda>p. protocol_step p ev) \<Longrightarrow>
      Q x (s\<lparr>fr_world := (v, l)\<rparr>)"
    and "\<And>e v l. run_protocol Fresh l = Option.bind (traced (fr_world s)) (\<lambda>p. protocol_step p ev) \<Longrightarrow>
      X (Raised e) (s\<lparr>fr_world := (v, l)\<rparr>)"
  shows "wp (call (noting ev f)) Q X s"
proof -
  obtain r v where f: "f (fst (fr_world s)) = (r, v)" by fastforce
  have noted: "run_protocol Fresh (snd (fr_world s) @ [ev]) = Option.bind (traced (fr_world s)) (\<lambda>p. protocol_step p ev)"
    by (simp add: traced_def run_protocol_snoc split: option.split)
  from f assms(1) [OF noted] assms(2) [OF noted] show ?thesis
    by (cases r) (simp_all add: wp_def call_def noting_def raised_def)
qed

lemma wp_session_only:
  assumes "\<And>x ses. Q x (s\<lparr>fr_session := ses\<rparr>)" "\<And>e ses. X e (s\<lparr>fr_session := ses\<rparr>)"
  shows "wp (run_deliver E r) Q X s"
proof (cases "fr_session s")
  case None
  then have "s\<lparr>fr_session := None\<rparr> = s" by simp
  with assms(2) [of _ None] None show ?thesis by (simp add: wp_def run_deliver_def)
qed (use assms in \<open>auto simp: wp_def run_deliver_def raised_def split: sum.split prod.split\<close>)

lemma wp_session_end:
  assumes "\<And>x ses. Q x (s\<lparr>fr_session := ses\<rparr>)" "\<And>e ses. X e (s\<lparr>fr_session := ses\<rparr>)"
  shows "wp (run_finalize E) Q X s"
proof (cases "fr_session s")
  case None
  then have "s\<lparr>fr_session := None\<rparr> = s" by simp
  with assms(2) [of _ None] None show ?thesis by (simp add: wp_def run_finalize_def)
qed (use assms in \<open>auto simp: wp_def run_finalize_def raised_def split: sum.split prod.split\<close>)

lemma wp_session_all:
  assumes "\<And>xs ses. Q xs (s\<lparr>fr_session := ses\<rparr>)" "\<And>e ses. X e (s\<lparr>fr_session := ses\<rparr>)"
  shows "wp (run_deliveries E rs) Q X s"
  using assms
proof (induction rs arbitrary: s Q)
  case Nil
  have "s\<lparr>fr_session := fr_session s\<rparr> = s" by simp
  with Nil(1) [of "[]" "fr_session s"] show ?case by (simp add: wp_simps)
next
  case (Cons r rs)
  show ?case
    by (simp add: wp_simps, rule wp_session_only, rule Cons.IH) (use Cons.prems in simp_all)
qed

lemmas at_phase_defs = at_phase_def interrupted_def traced_def

lemma wp_observe_logged:
  assumes "traced (fr_world s) = Some Posed"
  shows "wp (observe_first (logged E) ctx) (\<lambda>_. at_phase Ready) interrupted s"
  unfolding observe_first_def wp_simps logged_fields using assms
  by (auto simp: at_phase_defs intro!: wp_noted wp_session_only split: sum.split prod.split)

lemma wp_start_logged:
  assumes "traced (fr_world s) = Some Fresh" "\<not> fr_policy_reset_entered s"
  shows "wp (start_episode (logged E) ctx) (\<lambda>_. at_phase Ready) interrupted s"
  unfolding start_episode_def wp_simps logged_fields using assms
  by (auto simp: at_phase_defs intro!: wp_noted wp_observe_logged split: sum.split)

lemma wp_open_logged:
  "wp (run_open (logged E) capture)
     (\<lambda>out s. case out of Started ctx \<Rightarrow> at_phase Ready s | Rejected res \<Rightarrow> at_phase Fresh s)
     interrupted (frame_init (w, []))"
  unfolding run_open_def Let_def
  by (auto simp: wp_simps at_phase_defs frame_init_def intro!: wp_mono [OF wp_start_logged] split: sum.split)

lemma wp_body_logged:
  assumes "at_phase Ready s"
  shows "wp (loop_body (logged E) ctx)
    (\<lambda>go s'. if go then at_phase Ready s' else at_phase Ready s' \<or> at_phase Planned s') interrupted s"
  unfolding loop_body_def infer_plan_def execute_plan_def commit_batch_def timeout_break_def Let_def
  using assms
  by (auto simp: wp_simps at_phase_defs intro!: wp_noted wp_session_all split: prod.split sum.split option.split)

lemma wp_finish_logged:
  assumes "at_phase Ready s \<or> at_phase Planned s"
  shows "wp (run_finish (logged E)) (\<lambda>_ s'. at_phase Ready s' \<or> at_phase Planned s') interrupted s"
  unfolding run_finish_def Let_def using assms
  by (auto simp: wp_simps at_phase_defs intro!: wp_session_end split: prod.split sum.split option.split)

lemma try_block_logged:
  assumes "try_block (logged E) capture (frame_init (w, [])) = Some (out, s)"
  shows "case out of Inl e \<Rightarrow> interrupted e s
    | Inr (Early res) \<Rightarrow> at_phase Fresh s
    | Inr (Completed r) \<Rightarrow> at_phase Ready s \<or> at_phase Planned s"
proof -
  obtain o1 s1 where o1: "run_open (logged E) capture (frame_init (w, [])) = (o1, s1)" by fastforce
  note open_wp = wp_Inr [OF wp_open_logged, of E capture w] wp_Inl [OF wp_open_logged, of E capture w]
  show ?thesis
  proof (cases o1)
    case (Inl e)
    with o1 open_wp assms show ?thesis by (auto simp: try_block_def)
  next
    case (Inr opened)
    show ?thesis
    proof (cases opened)
      case (Rejected res)
      with o1 Inr assms open_wp show ?thesis by (auto simp: try_block_def)
    next
      case (Started ctx)
      obtain l s2 where l: "run_loop (logged E) ctx s1 = Some (l, s2)" using run_loop_returns by blast
      have "at_phase Ready s1" using o1 Inr Started open_wp by fastforce
      note loop = run_loop_rule [OF l this wp_body_logged]
      obtain r s3 where r: "run_finish (logged E) s2 = (r, s3)" by fastforce
      show ?thesis
        using o1 Inr Started l r assms loop wp_Inr [OF wp_finish_logged, of s2 E] wp_Inl [OF wp_finish_logged, of s2 E]
        by (cases l; cases r) (auto simp: try_block_def)
    qed
  qed
qed

text \<open>The \<open>except\<close> and \<open>finally\<close> clauses.\<close>

definition closable :: "('e \<times> event list) frame \<Rightarrow> bool" where
  "closable s \<longleftrightarrow> (\<exists>p. traced (fr_world s) = Some p \<and> p \<notin> {Half_closed, Closed})"

lemma at_phase_closable: "at_phase p s \<Longrightarrow> p \<notin> {Half_closed, Closed} \<Longrightarrow> closable s"
  by (auto simp: at_phase_def closable_def)

lemma interrupted_closable: "interrupted e s \<Longrightarrow> closable s"
  by (auto simp: interrupted_def closable_def)

lemma crash_closable:
  assumes "interrupted e s" "crash_result (logged E) capture e' s = (r, s')"
  shows "closable s'"
proof -
  have "closable (suppressed_abort (logged E) code s)" for code
    using assms(1)
    by (auto simp: suppressed_abort_def call_def noting_def closable_def traced_def run_protocol_snoc interrupted_def
        split: prod.split)
  moreover have "fr_world (suppressed_finalize (logged E) t) = fr_world t" for t
    by (auto simp: suppressed_finalize_def run_finalize_def split: prod.split sum.split option.split)
  ultimately show ?thesis using assms(2) by (auto simp: crash_result_def Let_def closable_def)
qed

lemma close_closes:
  assumes "closable s" "close_resources (logged E) s = (codes, s')"
  shows "traced (fr_world s') = Some Closed"
proof -
  obtain p where p: "run_protocol Fresh (snd (fr_world s)) = Some p" "p \<notin> {Half_closed, Closed}"
    using assms(1) by (auto simp: closable_def traced_def)
  have "run_protocol p [Backend_closed, Policy_closed] = Some Closed" using p(2) by (cases p) simp_all
  with p(1) assms(2) show ?thesis
    by (auto simp: close_resources_def call_def noting_def traced_def run_protocol_append simp del: run_protocol.simps
        split: prod.splits)
qed

lemma run_follows:
  assumes "run_trial (logged E) capture (w, []) = Some (out, (w', calls))"
  shows "run_protocol Fresh calls = Some Closed"
proof -
  obtain o1 s where t: "try_block (logged E) capture (frame_init (w, [])) = Some (o1, s)"
    using try_block_returns by blast
  note o1 = try_block_logged [OF t]
  have closed: "run_protocol Fresh calls = Some Closed" if "closable t" "close_resources (logged E) t = (codes, t')" "fr_world t' = (w', calls)"
    for t t' codes
    using close_closes [OF that(1,2)] that(3) by (simp add: traced_def)
  show ?thesis
  proof (cases o1)
    case (Inl e)
    obtain r s1 where r: "(if fr_reset_attempted s then crash_result (logged E) capture e s else (Inl e, s)) = (r, s1)"
      by fastforce
    have "interrupted e s" using o1 Inl by simp
    then have "closable s1" using r crash_closable interrupted_closable by (auto split: if_splits)
    with closed assms t Inl r show ?thesis by (auto simp: run_trial_def split: prod.splits)
  next
    case (Inr res)
    then have "closable s" using o1 by (auto split: outcome.splits intro: at_phase_closable)
    with closed assms t Inr show ?thesis by (auto simp: run_trial_def split: prod.splits outcome.splits)
  qed
qed

section \<open>The budget of control cycles\<close>

text \<open>The executed batches are counted by the control cycles.\<close>

abbreviation executed :: "'e \<times> event list \<Rightarrow> int" where
  "executed w \<equiv> int (count_list (snd w) Executed)"

definition counted :: "'e run_env \<Rightarrow> ('e \<times> event list) frame \<Rightarrow> bool" where
  "counted E s \<longleftrightarrow> executed (fr_world s) = fr_control_cycle_count s \<and>
     fr_control_cycle_count s \<le> max 0 (rs_max_control_cycles (en_spec E))"

definition bounded :: "'e run_env \<Rightarrow> 'e \<times> event list \<Rightarrow> bool" where
  "bounded E w \<longleftrightarrow> executed w \<le> max 0 (rs_max_control_cycles (en_spec E))"

lemma wp_counted:
  assumes "\<And>x v l. count_list l Executed = count_list (snd (fr_world s)) Executed + (if ev = Executed then 1 else 0) \<Longrightarrow>
      Q x (s\<lparr>fr_world := (v, l)\<rparr>)"
    and "\<And>e v l. count_list l Executed = count_list (snd (fr_world s)) Executed + (if ev = Executed then 1 else 0) \<Longrightarrow>
      X (Raised e) (s\<lparr>fr_world := (v, l)\<rparr>)"
  shows "wp (call (noting ev f)) Q X s"
proof -
  obtain r v where f: "f (fst (fr_world s)) = (r, v)" by fastforce
  have noted: "count_list (snd (fr_world s) @ [ev]) Executed =
      count_list (snd (fr_world s)) Executed + (if ev = Executed then 1 else 0)"
    by simp
  from f assms(1) [OF noted] assms(2) [OF noted] show ?thesis
    by (cases r) (simp_all add: wp_def call_def noting_def raised_def)
qed

lemmas counted_defs = counted_def bounded_def

lemma wp_open_counted:
  "wp (run_open (logged E) capture) (\<lambda>_. counted E) (\<lambda>e s. bounded E (fr_world s)) (frame_init (w, []))"
  unfolding run_open_def start_episode_def observe_first_def Let_def
  by (auto simp: wp_simps counted_defs frame_init_def intro!: wp_counted wp_session_only split: sum.split prod.split)

lemma wp_body_counted:
  assumes "counted E s"
  shows "wp (loop_body (logged E) ctx)
    (\<lambda>go s'. if go then counted E s' else counted E s') (\<lambda>e s'. bounded E (fr_world s')) s"
  unfolding loop_body_def infer_plan_def execute_plan_def commit_batch_def timeout_break_def Let_def
  using assms
  by (auto simp: wp_simps counted_defs intro!: wp_counted wp_session_all split: prod.split sum.split option.split)

lemma finish_world: "fr_world (snd (run_finish E s)) = fr_world s"
proof -
  have "wp (run_finish E) (\<lambda>_ s'. fr_world s' = fr_world s) (\<lambda>_ s'. fr_world s' = fr_world s) s"
    unfolding run_finish_def Let_def
    by (auto simp: wp_simps intro!: wp_session_end split: prod.split sum.split option.split)
  then show ?thesis by (auto simp: wp_def split: sum.splits prod.splits)
qed

lemma try_block_counted:
  assumes "try_block (logged E) capture (frame_init (w, [])) = Some (out, s)"
  shows "bounded E (fr_world s)"
proof -
  have counted: "counted E t \<Longrightarrow> bounded E (fr_world t)" for t by (simp add: counted_defs)
  obtain o1 s1 where o1: "run_open (logged E) capture (frame_init (w, [])) = (o1, s1)" by fastforce
  note open_wp = wp_Inr [OF wp_open_counted, of E capture w] wp_Inl [OF wp_open_counted, of E capture w]
  show ?thesis
  proof (cases o1)
    case (Inl e)
    with o1 open_wp assms show ?thesis by (auto simp: try_block_def)
  next
    case (Inr opened)
    with o1 open_wp have s1: "counted E s1" by blast
    show ?thesis
    proof (cases opened)
      case (Rejected res)
      with o1 Inr assms s1 counted show ?thesis by (auto simp: try_block_def)
    next
      case (Started ctx)
      obtain l s2 where l: "run_loop (logged E) ctx s1 = Some (l, s2)" using run_loop_returns by blast
      note loop = run_loop_rule [OF l s1 wp_body_counted]
      obtain r s3 where r: "run_finish (logged E) s2 = (r, s3)" by fastforce
      then have "fr_world s3 = fr_world s2" using finish_world [of "logged E" s2] by simp
      with o1 Inr Started l r assms loop counted [of s2] show ?thesis
        by (cases l; cases r) (auto simp: try_block_def)
    qed
  qed
qed

lemma run_bounded:
  assumes "run_trial (logged E) capture (w, []) = Some (out, (w', calls))"
  shows "int (count_list calls Executed) \<le> max 0 (rs_max_control_cycles (en_spec E))"
proof -
  obtain o1 s where t: "try_block (logged E) capture (frame_init (w, [])) = Some (o1, s)"
    using try_block_returns by blast
  note s = try_block_counted [OF t]
  have crash: "executed (fr_world (snd (crash_result (logged E) capture e s))) = executed (fr_world s)" for e
    by (auto simp: crash_result_def Let_def suppressed_finalize_def run_finalize_def suppressed_abort_def call_def
        noting_def split: prod.split sum.split option.split)
  have close: "executed (fr_world (snd (close_resources (logged E) u))) = executed (fr_world u)" for u
    by (auto simp: close_resources_def call_def noting_def split: prod.split)
  have "executed (w', calls) = executed (fr_world s)"
    using assms t crash close
    by (auto simp: run_trial_def split: prod.splits sum.splits outcome.splits if_splits) (metis snd_conv)+
  with s show ?thesis by (simp add: bounded_def)
qed

section \<open>Erasing the log\<close>

definition erase :: "('e \<times> event list) frame \<Rightarrow> 'e frame" where
  "erase s =
     \<lparr>fr_world = fst (fr_world s), fr_initial_state_sha256 = fr_initial_state_sha256 s,
      fr_finalization = fr_finalization s, fr_action_entries = fr_action_entries s,
      fr_observation_count = fr_observation_count s, fr_control_cycle_count = fr_control_cycle_count s,
      fr_backend_signal = fr_backend_signal s, fr_session = fr_session s,
      fr_reset_attempted = fr_reset_attempted s, fr_policy_reset_entered = fr_policy_reset_entered s,
      fr_previous_native_step_id = fr_previous_native_step_id s, fr_stage = fr_stage s,
      fr_current_observation = fr_current_observation s, fr_started_at = fr_started_at s\<rparr>"

lemma erase_fields [simp]:
  "fr_world (erase s) = fst (fr_world s)" "fr_initial_state_sha256 (erase s) = fr_initial_state_sha256 s"
  "fr_finalization (erase s) = fr_finalization s" "fr_action_entries (erase s) = fr_action_entries s"
  "fr_observation_count (erase s) = fr_observation_count s"
  "fr_control_cycle_count (erase s) = fr_control_cycle_count s"
  "fr_backend_signal (erase s) = fr_backend_signal s" "fr_session (erase s) = fr_session s"
  "fr_reset_attempted (erase s) = fr_reset_attempted s"
  "fr_policy_reset_entered (erase s) = fr_policy_reset_entered s"
  "fr_previous_native_step_id (erase s) = fr_previous_native_step_id s" "fr_stage (erase s) = fr_stage s"
  "fr_current_observation (erase s) = fr_current_observation s" "fr_started_at (erase s) = fr_started_at s"
  by (simp_all add: erase_def)

definition mirrors :: "('e \<times> event list, 'a) run \<Rightarrow> ('e, 'a) run \<Rightarrow> bool" where
  "mirrors m n \<longleftrightarrow> (\<forall>s. n (erase s) = map_prod id erase (m s))"

named_theorems mirror_intros \<open>operations that only see the world through logged calls\<close>

lemma mirrors_sbind:
  "mirrors m n \<Longrightarrow> (\<And>x. mirrors (f x) (g x)) \<Longrightarrow> mirrors (sbind m f) (sbind n g)"
  by (simp add: mirrors_def sbind_def split: prod.split sum.split)

lemma mirrors_get:
  "(\<And>s. mirrors (f s) (g (erase s))) \<Longrightarrow> mirrors (sbind sget f) (sbind sget g)"
  by (simp add: mirrors_def sbind_def sget_def)

lemma mirrors_const [mirror_intros]:
  "mirrors (sret x) (sret x)" "mirrors (lift_checked c) (lift_checked c)" "mirrors (lift_result r) (lift_result r)"
  by (simp_all add: mirrors_def sret_def lift_checked_def lift_result_def)

lemma mirrors_update [mirror_intros]: "(\<And>s. g (erase s) = erase (f s)) \<Longrightarrow> mirrors (update f) (update g)"
  by (simp add: mirrors_def update_def)

lemma mirrors_stage [mirror_intros]: "mirrors (set_stage x) (set_stage x)"
  unfolding set_stage_def by (rule mirrors_update) (simp add: erase_def)

lemma mirrors_call [mirror_intros]: "mirrors (call (noting ev f)) (call f)"
  by (simp add: mirrors_def call_def noting_def erase_def split: prod.split)

lemma mirrors_clock [mirror_intros]: "mirrors (read_clock (logged E)) (read_clock E)"
  by (simp add: mirrors_def read_clock_def erase_def split: prod.split)

lemma mirrors_session [mirror_intros]:
  "mirrors (run_deliver (logged E) r) (run_deliver E r)" "mirrors (run_finalize (logged E)) (run_finalize E)"
  by (simp_all add: mirrors_def run_deliver_def run_finalize_def erase_def split: prod.split option.split)

lemma mirrors_deliveries [mirror_intros]: "mirrors (run_deliveries (logged E) rs) (run_deliveries E rs)"
  by (induction rs) (auto intro!: mirrors_sbind mirror_intros)

lemma mirrors_if [mirror_intros]:
  "(b \<Longrightarrow> mirrors m n) \<Longrightarrow> (\<not> b \<Longrightarrow> mirrors m' n') \<Longrightarrow> mirrors (if b then m else m') (if b then n else n')"
  by simp

lemma preflight_logged [simp]: "preflight (logged E) = preflight E" "open_session (logged E) = open_session E"
  unfolding preflight_def open_session_def logged_fields by (rule refl)+

lemma mirrors_commit: "mirrors (commit_batch (logged E) plan actions batch) (commit_batch E plan actions batch)"
  unfolding commit_batch_def Let_def logged_fields
  by (rule mirrors_get mirrors_sbind mirror_intros | simp add: erase_def)+

lemma mirrors_execute: "mirrors (execute_plan (logged E) ctx plan n) (execute_plan E ctx plan n)"
  unfolding execute_plan_def Let_def logged_fields
  by (rule mirrors_get mirrors_sbind mirrors_commit mirror_intros | simp add: erase_def)+

lemma mirrors_infer: "mirrors (infer_plan (logged E)) (infer_plan E)"
  unfolding infer_plan_def Let_def logged_fields
  by (rule mirrors_get mirrors_sbind mirror_intros | simp add: erase_def)+

lemma mirrors_timeout: "mirrors timeout_break timeout_break"
  unfolding timeout_break_def by (rule mirrors_sbind mirror_intros | simp add: erase_def)+

lemma mirrors_body: "mirrors (loop_body (logged E) ctx) (loop_body E ctx)"
  unfolding loop_body_def logged_fields
  by (rule mirrors_get mirrors_sbind mirrors_timeout mirrors_infer mirrors_execute mirror_intros | simp only: erase_fields)+

lemma mirrors_open: "mirrors (run_open (logged E) capture) (run_open E capture)"
  unfolding run_open_def start_episode_def observe_first_def Let_def logged_fields preflight_logged
  by (rule mirrors_get mirrors_sbind mirror_intros | simp add: erase_def)+

lemma mirrors_finish: "mirrors (run_finish (logged E)) (run_finish E)"
  unfolding run_finish_def Let_def logged_fields prod.case_distrib
  by (rule mirrors_get mirrors_sbind mirror_intros | simp add: erase_def mirrors_const split: prod.split option.split)+

lemma mirror_run: "mirrors m n \<Longrightarrow> n (erase s) = map_prod id erase (m s)"
  by (simp add: mirrors_def)

lemma erase_loop: "run_loop E ctx (erase s) = map_option (map_prod id erase) (run_loop (logged E) ctx s)"
proof (induction "nat (rs_max_control_cycles (en_spec E) - fr_control_cycle_count s)" arbitrary: s rule: less_induct)
  case less
  obtain q t where step: "loop_body (logged E) ctx s = (q, t)" by fastforce
  then have step': "loop_body E ctx (erase s) = (q, erase t)" by (simp add: mirror_run [OF mirrors_body])
  show ?case
  proof (cases q)
    case (Inr go)
    show ?thesis
    proof (cases go)
      case True
      with step Inr wp_Inr [OF wp_loop_count] have "fr_control_cycle_count s < rs_max_control_cycles (en_spec E) \<and>
         fr_control_cycle_count t = fr_control_cycle_count s + 1" by fastforce
      with less [of t] True step step' Inr show ?thesis by (simp add: run_loop_steps [of _ ctx s] run_loop_steps [of _ ctx "erase s"])
    qed (use step step' Inr in \<open>simp add: run_loop_steps [of _ ctx s] run_loop_steps [of _ ctx "erase s"]\<close>)
  qed (use step step' in \<open>simp add: run_loop_steps [of _ ctx s] run_loop_steps [of _ ctx "erase s"]\<close>)
qed

lemma erase_try: "try_block E capture (erase s) = map_option (map_prod id erase) (try_block (logged E) capture s)"
  by (simp add: try_block_def mirror_run [OF mirrors_open] erase_loop mirror_run [OF mirrors_finish]
      split: prod.split sum.split opened.split option.split)

lemma erase_abort: "suppressed_abort E code (erase s) = erase (suppressed_abort (logged E) code s)"
  using mirror_run [OF mirrors_call, of "po_abort (en_policy E) code" s Aborted] by (simp add: suppressed_abort_def)

lemma erase_finalize: "suppressed_finalize E (erase s) = erase (suppressed_finalize (logged E) s)"
  by (simp add: suppressed_finalize_def mirror_run [OF mirrors_session(2)] split: prod.split sum.split)

lemma erase_crash: "crash_result E capture e (erase s) = map_prod id erase (crash_result (logged E) capture e s)"
  by (simp add: crash_result_def Let_def erase_abort erase_finalize)

lemma erase_close: "close_resources E (erase s) = map_prod id erase (close_resources (logged E) s)"
proof -
  note backend = mirror_run [OF mirrors_call, of "be_close (en_backend E)" _ Backend_closed]
    and policy = mirror_run [OF mirrors_call, of "po_close (en_policy E)" _ Policy_closed]
  show ?thesis by (simp add: close_resources_def backend policy split: prod.split)
qed

lemma erase_completed: "close_completed E r codes (erase s) = close_completed (logged E) r codes s"
  by (simp add: close_completed_def)

lemma erase_init: "frame_init (fst w) = erase (frame_init w)"
  by (simp add: frame_init_def erase_def)

lemma erase_run: "run_trial E capture (fst w) = map_option (map_prod id fst) (run_trial (logged E) capture w)"
  by (simp add: run_trial_def erase_init erase_try erase_crash erase_close erase_completed split: option.split sum.split
      prod.split outcome.split if_split)

lemma erase_run_trial:
  "run_closed_loop_trial E (fst w) = map_option (map_prod id fst) (run_closed_loop_trial (logged E) w)"
  by (simp add: run_closed_loop_trial_def erase_run split: option.split sum.split prod.split)

end
