(* ===== verification/Fakes.thy ===== *)
theory Fakes
  imports Runner_Runs Examples
begin

text \<open>
  The deterministic doubles of the closed loop (\<open>closed_loop/fakes.py\<close>): a backend whose clean
  observations depend on the executed actions and a policy that records what it is told.  They
  provide the contract of a simulation backend.

  An action reaches a backend only inside an \<open>ActionPlan\<close>, whose entries are finite, so the fake
  state is a rational; the readings of the monotonic clock are a parameter.
\<close>

section \<open>The backend\<close>

record fake_backend_config =
  fb_records :: "evaluation list"
  fb_terminal_signal :: backend_signal
  fb_append_after_terminal :: bool
  fb_partial_batch :: bool
  fb_reset_receipt_mismatch :: bool
  fb_raise_on_close :: bool
  fb_success_predicate_id :: string

definition fake_backend_init :: "fake_backend_config \<Rightarrow> fake_backend_config result" where
  "fake_backend_init c =
     (if length (fb_records c) < 2
      then Inl (ValueError ''fake backend requires at least two clean records'')
      else if fb_success_predicate_id c = []
      then Inl (ValueError ''success_predicate_id must be non-empty'') else Inr c)"

record fake_backend_state =
  fb_context :: "episode_context option"
  fb_next_index :: nat
  fb_state :: rat
  fb_reset_count :: nat
  fb_observe_count :: nat
  fb_execute_count :: nat
  fb_close_count :: nat
  fb_state_trace :: "rat list"
  fb_observation_trace :: "observation list"

definition fake_backend_start :: fake_backend_state where
  "fake_backend_start =
     \<lparr>fb_context = None, fb_next_index = 0, fb_state = 0, fb_reset_count = 0, fb_observe_count = 0,
      fb_execute_count = 0, fb_close_count = 0, fb_state_trace = [], fb_observation_trace = []\<rparr>"

text \<open>Decimal digits, for \<open>f"fake-reset-{n}"\<close>.\<close>

fun decimal :: "nat \<Rightarrow> string" where
  "decimal n = (if n < 10 then [char_of (48 + n)] else decimal (n div 10) @ [char_of (48 + n mod 10)])"

declare decimal.simps [simp del]

definition fake_reset ::
    "hasher \<Rightarrow> fake_backend_config \<Rightarrow> episode_context \<Rightarrow> fake_backend_state \<Rightarrow>
     reset_receipt result \<times> fake_backend_state" where
  "fake_reset h c ctx s =
     (let s = s\<lparr>fb_reset_count := fb_reset_count s + 1, fb_context := Some ctx, fb_next_index := 0,
                fb_state := 0, fb_state_trace := [0], fb_observation_trace := []\<rparr>
      in (receipt_init
            \<lparr>rc_episode_id = (if fb_reset_receipt_mismatch c then ''mismatched-episode'' else ec_episode_id ctx),
             rc_initial_seed = ec_initial_seed ctx, rc_exogenous_seed = ec_exogenous_seed ctx,
             rc_simulator_state_sha256 = canonical_hash h
               (PDict [(''episode_id'', PStr (ec_episode_id ctx)), (''state'', PFloat 0)]),
             rc_native_reset_id = ''fake-reset-'' @ decimal (fb_reset_count s)\<rparr>, s))"

definition stateful_record ::
    "hasher \<Rightarrow> numpy \<Rightarrow> fake_backend_config \<Rightarrow> fake_backend_state \<Rightarrow> nat \<Rightarrow> evaluation result" where
  "stateful_record h np c s index =
     (case fb_context s of
        None \<Rightarrow> Inl (RuntimeError ''fake backend has not been reset'')
      | Some ctx \<Rightarrow>
          bindr (py_index (fb_records c) (int index)) (\<lambda>template.
          let ob = ev_observation template;
              vision = map (\<lambda>(name, values). (name,
                np_astype np (np_clip np (np_add_s np (np_astype np values ''float32'') (fmul (fb_state s) 8)) 0 255)
                  ''uint8'')) (ob_vision ob) in
          bindr (observation_post_init (ob\<lparr>ob_episode_id := ec_episode_id ctx, ob_task := ec_task ctx,
                   ob_seed := ec_initial_seed ctx, ob_vision := vision,
                   ob_proprio := np_add_s np (ob_proprio ob) (fl32 (fb_state s))\<rparr>)) (\<lambda>ob.
          build_evaluation_record h ob (ev_provenance template) None)))"

definition fake_observe ::
    "hasher \<Rightarrow> numpy \<Rightarrow> fake_backend_config \<Rightarrow> fake_backend_state \<Rightarrow> evaluation result \<times> fake_backend_state" where
  "fake_observe h np c s =
     (if fb_context s = None then (Inl (RuntimeError ''fake backend has not been reset''), s)
      else if fb_observe_count s \<noteq> 0
      then (Inl (RuntimeError ''fake backend permits exactly one initial observe''), s)
      else let s = s\<lparr>fb_observe_count := fb_observe_count s + 1\<rparr> in
           case stateful_record h np c s (fb_next_index s) of
             Inl e \<Rightarrow> (Inl e, s)
           | Inr r \<Rightarrow> (Inr r, s\<lparr>fb_observation_trace := fb_observation_trace s @ [ev_observation r]\<rparr>))"

text \<open>The first entries of the rows of an \<open>[H, 8]\<close> action array.\<close>

definition row_heads :: "ndarray \<Rightarrow> rat list" where
  "row_heads a =
     map (\<lambda>i. case nd_data a ! (8 * i) of None \<Rightarrow> 0 | Some x \<Rightarrow> x) [0..<hd (nd_shape a)]"

fun fake_steps ::
    "hasher \<Rightarrow> numpy \<Rightarrow> fake_backend_config \<Rightarrow> nat \<Rightarrow> rat list \<Rightarrow> backend_transition list \<Rightarrow>
     fake_backend_state \<Rightarrow> backend_transition list result \<times> fake_backend_state" where
  "fake_steps h np c action_index [] done_steps s = (Inr done_steps, s)"
| "fake_steps h np c action_index (x # xs) done_steps s =
     (let s = s\<lparr>fb_next_index := fb_next_index s + 1\<rparr> in
      if length (fb_records c) \<le> fb_next_index s
      then (Inl (RuntimeError ''fake backend exhausted its clean reference records''), s)
      else let s = s\<lparr>fb_state := fadd (fb_state s) x\<rparr>;
               s = s\<lparr>fb_state_trace := fb_state_trace s @ [fb_state s]\<rparr>;
               signal = (if fb_terminal_signal c \<noteq> Running \<and> done_steps = [] then fb_terminal_signal c else Running)
      in case stateful_record h np c s (fb_next_index s) of
           Inl e \<Rightarrow> (Inl e, s)
         | Inr r \<Rightarrow>
             let s = s\<lparr>fb_observation_trace := fb_observation_trace s @ [ev_observation r]\<rparr>
             in case transition_init
                  \<lparr>bt_clean_record = r, bt_signal = signal, bt_native_step_id = int (fb_next_index s),
                   bt_diagnostics = [(''fake_state'', PFloat (fb_state s)), (''action_index'', PInt (int action_index))]\<rparr> of
                  Inl e \<Rightarrow> (Inl e, s)
                | Inr t \<Rightarrow>
                    if signal \<noteq> Running \<and> \<not> fb_append_after_terminal c then (Inr (done_steps @ [t]), s)
                    else fake_steps h np c (action_index + 1) xs (done_steps @ [t]) s)"

definition fake_execute ::
    "hasher \<Rightarrow> numpy \<Rightarrow> fake_backend_config \<Rightarrow> ndarray \<Rightarrow> fake_backend_state \<Rightarrow>
     execution_batch result \<times> fake_backend_state" where
  "fake_execute h np c actions s =
     (if fb_context s = None \<or> fb_observe_count s = 0
      then (Inl (RuntimeError ''fake backend must observe before execute''), s)
      else if length (nd_shape actions) \<noteq> 2 \<or> nd_shape actions ! 1 \<noteq> 8 \<or> hd (nd_shape actions) = 0
      then (Inl (ValueError ''fake backend requires a non-empty [H, 8] action batch''), s)
      else let s = s\<lparr>fb_execute_count := fb_execute_count s + 1\<rparr>;
               rows = (if fb_partial_batch c then take 1 (row_heads actions) else row_heads actions)
      in case fake_steps h np c 0 rows [] s of
           (Inl e, s) \<Rightarrow> (Inl e, s)
         | (Inr ts, s) \<Rightarrow>
             (batch_init \<lparr>eb_transitions = ts, eb_executed_action_count = int (length ts)\<rparr>, s))"

definition fake_close ::
    "fake_backend_config \<Rightarrow> fake_backend_state \<Rightarrow> unit result \<times> fake_backend_state" where
  "fake_close c s =
     (if fb_raise_on_close c then Inl (RuntimeError ''fake backend close failure'') else Inr (),
      s\<lparr>fb_close_count := fb_close_count s + 1\<rparr>)"

section \<open>The policy\<close>

record fake_policy_config =
  fp_identity :: policy_identity
  fp_source_step_offset :: int
  fp_action_horizon :: int
  fp_initial_action_bias :: rat
  fp_fail_on_infer :: bool
  fp_fail_on_commit :: bool
  fp_fail_on_reset :: bool
  fp_raise_on_close :: bool

definition fake_policy_init :: "fake_policy_config \<Rightarrow> fake_policy_config result" where
  "fake_policy_init c =
     (if fp_action_horizon c < 1 then Inl (ValueError ''action_horizon must be positive'') else Inr c)"

text \<open>\<open>for_trial\<close>, with its keyword arguments.\<close>

definition fake_policy_for_trial ::
    "trial_manifest \<Rightarrow> bool option \<Rightarrow> bool \<Rightarrow> int \<Rightarrow> int \<Rightarrow> rat \<Rightarrow> bool \<Rightarrow> bool \<Rightarrow> bool \<Rightarrow> bool \<Rightarrow>
     fake_policy_config result" where
  "fake_policy_for_trial trial consumes_tactile structural offset horizon bias infer_fails commit_fails
      reset_fails close_fails =
     bindr (identity_init
       \<lparr>pi_system_id = tm_executed_system_id trial, pi_checkpoint_sha256 = tm_checkpoint_sha256 trial,
        pi_config_sha256 = tm_config_sha256 trial, pi_action_spec = tm_action_spec trial,
        pi_consumes_tactile = (case consumes_tactile of
          None \<Rightarrow> condition_value (tm_condition trial) \<noteq> ''no_touch'' | Some b \<Rightarrow> b),
        pi_supports_structural_absence = structural\<rparr>) (\<lambda>identity.
     fake_policy_init
       \<lparr>fp_identity = identity, fp_source_step_offset = offset, fp_action_horizon = horizon,
        fp_initial_action_bias = bias, fp_fail_on_infer = infer_fails, fp_fail_on_commit = commit_fails,
        fp_fail_on_reset = reset_fails, fp_raise_on_close = close_fails\<rparr>)"

record fake_policy_state =
  fp_reset_count :: nat
  fp_abort_count :: nat
  fp_close_count :: nat
  fp_inferred :: "observation list"
  fp_committed :: "policy_execution list"
  fp_abort_reasons :: "string list"
  fp_last_context :: "episode_context option"

definition fake_policy_start :: fake_policy_state where
  "fake_policy_start =
     \<lparr>fp_reset_count = 0, fp_abort_count = 0, fp_close_count = 0, fp_inferred = [], fp_committed = [],
      fp_abort_reasons = [], fp_last_context = None\<rparr>"

definition fake_policy_reset ::
    "fake_policy_config \<Rightarrow> episode_context \<Rightarrow> fake_policy_state \<Rightarrow> unit result \<times> fake_policy_state" where
  "fake_policy_reset c ctx s =
     (if fp_fail_on_reset c then Inl (RuntimeError ''fake policy reset failure'') else Inr (),
      s\<lparr>fp_reset_count := fp_reset_count s + 1, fp_last_context := Some ctx\<rparr>)"

text \<open>\<open>infer\<close>: one repeated action row computed from the tactile and proprioceptive means.\<close>

definition action_signal :: "numpy \<Rightarrow> fake_policy_config \<Rightarrow> observation \<Rightarrow> rat result" where
  "action_signal np c ob =
     bindr (ob_sensor ob ''left'') (\<lambda>left.
     let tactile = (case so_payload left of None \<Rightarrow> - 1 | Some p \<Rightarrow> fdiv (np_mean np p) 255);
         signal = fadd tactile (fmul (np_mean np (ob_proprio ob)) (fl64 (1 / 100)))
     in Inr (if ob_step_index ob = 0 then fadd signal (fp_initial_action_bias c) else signal))"

definition fake_infer ::
    "numpy \<Rightarrow> fake_policy_config \<Rightarrow> observation \<Rightarrow> fake_policy_state \<Rightarrow> action_plan result \<times> fake_policy_state" where
  "fake_infer np c ob s =
     (if fp_fail_on_infer c then (Inl (RuntimeError ''fake policy infer failure''), s)
      else (bindr (action_signal np c ob) (\<lambda>signal.
              action_plan_init np
                \<lparr>ap_action_spec = pi_action_spec (fp_identity c),
                 ap_source_step_index = ob_step_index ob + fp_source_step_offset c,
                 ap_actions = \<lparr>nd_dtype = ''float32'', nd_shape = [nat (fp_action_horizon c), 8],
                   nd_data = replicate (nat (fp_action_horizon c) * 8) (Some (fl32 signal))\<rparr>\<rparr>),
            s\<lparr>fp_inferred := fp_inferred s @ [ob]\<rparr>))"

definition fake_commit ::
    "fake_policy_config \<Rightarrow> policy_execution \<Rightarrow> fake_policy_state \<Rightarrow> unit result \<times> fake_policy_state" where
  "fake_commit c execution s =
     (if fp_fail_on_commit c then Inl (RuntimeError ''fake policy commit failure'') else Inr (),
      s\<lparr>fp_committed := fp_committed s @ [execution]\<rparr>)"

definition fake_abort :: "string \<Rightarrow> fake_policy_state \<Rightarrow> unit result \<times> fake_policy_state" where
  "fake_abort reason s =
     (Inr (), s\<lparr>fp_abort_count := fp_abort_count s + 1, fp_abort_reasons := fp_abort_reasons s @ [reason]\<rparr>)"

definition fake_policy_close ::
    "fake_policy_config \<Rightarrow> fake_policy_state \<Rightarrow> unit result \<times> fake_policy_state" where
  "fake_policy_close c s =
     (if fp_raise_on_close c then Inl (RuntimeError ''fake policy close failure'') else Inr (),
      s\<lparr>fp_close_count := fp_close_count s + 1\<rparr>)"

section \<open>A run over the doubles\<close>

record fake_world =
  fw_backend :: fake_backend_state
  fw_policy :: fake_policy_state
  fw_ticks :: nat

definition fake_world_start :: fake_world where
  "fake_world_start = \<lparr>fw_backend = fake_backend_start, fw_policy = fake_policy_start, fw_ticks = 0\<rparr>"

definition on_backend ::
    "(fake_backend_state \<Rightarrow> 'a result \<times> fake_backend_state) \<Rightarrow> fake_world \<Rightarrow> 'a result \<times> fake_world" where
  "on_backend f w = (case f (fw_backend w) of (r, s) \<Rightarrow> (r, w\<lparr>fw_backend := s\<rparr>))"

definition on_policy ::
    "(fake_policy_state \<Rightarrow> 'a result \<times> fake_policy_state) \<Rightarrow> fake_world \<Rightarrow> 'a result \<times> fake_world" where
  "on_policy f w = (case f (fw_policy w) of (r, s) \<Rightarrow> (r, w\<lparr>fw_policy := s\<rparr>))"

definition fake_backend :: "hasher \<Rightarrow> numpy \<Rightarrow> fake_backend_config \<Rightarrow> fake_world backend" where
  "fake_backend h np c =
     \<lparr>be_action_spec = ACTION_SPEC, be_success_predicate_id = fb_success_predicate_id c,
      be_reset = (\<lambda>ctx. on_backend (fake_reset h c ctx)), be_observe = on_backend (fake_observe h np c),
      be_execute = (\<lambda>a. on_backend (fake_execute h np c a)), be_close = on_backend (fake_close c)\<rparr>"

definition fake_policy :: "numpy \<Rightarrow> fake_policy_config \<Rightarrow> fake_world policy" where
  "fake_policy np c =
     \<lparr>po_identity = fp_identity c, po_reset = (\<lambda>ctx. on_policy (fake_policy_reset c ctx)),
      po_infer = (\<lambda>ob. on_policy (fake_infer np c ob)), po_commit = (\<lambda>x. on_policy (fake_commit c x)),
      po_abort = (\<lambda>reason. on_policy (fake_abort reason)), po_close = on_policy (fake_policy_close c)\<rparr>"

definition fake_env ::
    "hasher \<Rightarrow> numpy \<Rightarrow> trial_manifest \<Rightarrow> run_spec \<Rightarrow> fake_backend_config \<Rightarrow> fake_policy_config \<Rightarrow>
     (nat \<Rightarrow> rat) \<Rightarrow> fault_manifest option \<Rightarrow> reference_bundle option \<Rightarrow> fake_world run_env" where
  "fake_env h np trial spec bc pc readings fault rest =
     \<lparr>en_hasher = h, en_numpy = np, en_trial = trial, en_spec = spec, en_backend = fake_backend h np bc,
      en_policy = fake_policy np pc,
      en_clock = (\<lambda>w. (readings (fw_ticks w), w\<lparr>fw_ticks := fw_ticks w + 1\<rparr>)),
      en_fault = fault, en_rest = rest\<rparr>"

section \<open>The doubles keep the backend contract\<close>

lemma receipt_init_id: "receipt_init r = Inr s \<Longrightarrow> s = r"
  by (auto simp: receipt_init_def bindr_eq_Inr)

lemma fake_reset_receipt: "fake_reset h c ctx s = (Inr r, s') \<Longrightarrow> receipt_init r = Inr r"
  by (auto simp: fake_reset_def Let_def dest: receipt_init_id)

locale fake_simulation =
  fixes h :: hasher and np :: numpy and trial :: trial_manifest and spec :: run_spec
    and bc :: fake_backend_config and pc :: fake_policy_config and readings :: "nat \<Rightarrow> rat"
    and fault :: "fault_manifest option" and rest :: "reference_bundle option"
  assumes fake_digests: "sha_digests h" and fake_budget: "run_spec_ok spec"

sublocale fake_simulation \<subseteq> simulation "fake_env h np trial spec bc pc readings fault rest"
  by unfold_locales
     (auto simp: fake_env_def fake_backend_def on_backend_def fake_digests fake_budget
       dest: fake_reset_receipt split: prod.splits)

end
