(* ===== verification/Runner_Evidence.thy ===== *)
theory Runner_Evidence
  imports Runner_Protocol Fakes
begin

text \<open>
  The evidence of a run (\<open>closed_loop/capture.py\<close>): when the policy answers with constructed action
  plans, every admitted run also returns its evidence, bound to the receipt that the run returns
  without evidence.
\<close>

section \<open>Receipts and what they are built from\<close>

definition captured :: "hasher \<Rightarrow> trial_result \<Rightarrow> delivery_finalization option \<Rightarrow> action_entry list \<Rightarrow> bool" where
  "captured h r finalization entries \<longleftrightarrow>
     tr_action_trace_sha256 r = action_trace_sha256 h entries \<and>
     (\<forall>f. finalization = Some f \<longrightarrow> tr_clean_trace_sha256 r = df_clean_trace_sha256 f \<and>
        tr_delivered_trace_sha256 r = df_delivered_trace_sha256 f)"

lemma build_captured:
  assumes "build_trial_result h trial spec initial terminal execution f entries observations cycles stage code
    override = Inr r"
  shows "captured h r f entries"
proof -
  obtain a b v where t: "trace_fields h f = (a, b, v)" by (metis prod_cases3)
  moreover obtain p cs where "(case override of None \<Rightarrow> v | Some v \<Rightarrow> v) = (p, cs)" by fastforce
  moreover obtain e sc where "score terminal = (e, sc)" by fastforce
  ultimately show ?thesis
    using assms by (auto simp: build_trial_result_def Let_def captured_def trace_fields_def dest: result_init_id)
qed

definition entries_valid :: "action_entry list \<Rightarrow> bool" where
  "entries_valid entries \<longleftrightarrow> list_all (\<lambda>e. action_entry_init e = Inr e) entries"

lemma record_evidence_returns:
  assumes "captured h r f entries" "entries_valid entries"
  shows "\<exists>ev. record_evidence h True r f entries = Inr (Some ev)"
proof -
  have "mapr action_entry_init entries = Inr entries"
    using mapr_Inr_map [of entries action_entry_init "\<lambda>e. e"] assms(2) by (simp add: entries_valid_def list_all_iff)
  with assms(1) show ?thesis
    by (auto simp: record_evidence_def evidence_init_def captured_def split: option.split)
qed

section \<open>Plans\<close>

text \<open>What the constructor of an \<open>ActionPlan\<close> guarantees.\<close>

definition plan_valid :: "action_plan \<Rightarrow> bool" where
  "plan_valid p \<longleftrightarrow>
     0 \<le> ap_source_step_index p \<and> nd_dtype (ap_actions p) = ''float32'' \<and>
     (\<exists>rows. nd_shape (ap_actions p) = [rows, 8] \<and> 0 < rows) \<and> all_finite (ap_actions p)"

lemma action_plan_valid:
  assumes "action_plan_init np p = Inr q" "\<And>a. nd_dtype (np_astype np a ''float32'') = ''float32''"
  shows "plan_valid q"
proof -
  obtain a where a: "freeze_action_array np (ap_actions p) = Inr a" "q = p\<lparr>ap_actions := a\<rparr>" "0 \<le> ap_source_step_index p"
    using assms(1) by (auto simp: action_plan_init_def bindr_eq_Inr)
  then have "nd_dtype a = ''float32''" "length (nd_shape a) = 2" "nd_shape a ! 0 \<noteq> 0" "nd_shape a ! 1 = 8" "all_finite a"
    using assms(2) by (auto simp: freeze_action_array_def Let_def split: if_splits)
  moreover from this(2) obtain x y where "nd_shape a = [x, y]"
    by (metis One_nat_def Suc_1 length_0_conv length_Suc_conv)
  ultimately show ?thesis using a by (simp add: plan_valid_def)
qed

lemma prefix_valid:
  assumes "plan_valid p" "is_sha256 sha" "1 \<le> n" "1 \<le> m"
  shows "action_entry_init \<lparr>ae_action_plan_sha256 = sha, ae_source_step_index = ap_source_step_index p,
    ae_executed_actions = action_prefix n (action_prefix m (ap_actions p))\<rparr> =
    Inr \<lparr>ae_action_plan_sha256 = sha, ae_source_step_index = ap_source_step_index p,
    ae_executed_actions = action_prefix n (action_prefix m (ap_actions p))\<rparr>"
proof -
  obtain rows where rows: "nd_shape (ap_actions p) = [rows, 8]" "0 < rows" using assms(1) by (auto simp: plan_valid_def)
  have "all_finite (action_prefix n (action_prefix m (ap_actions p)))"
    using assms(1) by (auto simp: all_finite_def action_prefix_def plan_valid_def list_all_iff dest!: in_set_takeD)
  with assms rows show ?thesis
    by (auto simp: action_entry_init_def Let_def action_prefix_def plan_valid_def)
qed

section \<open>The action trace of a run\<close>

lemma wp_open_entries:
  "wp (run_open E capture) (\<lambda>out s'. fr_action_entries s' = fr_action_entries s)
     (\<lambda>e s'. fr_action_entries s' = fr_action_entries s) s"
  unfolding run_open_def start_episode_def observe_first_def Let_def
  by (auto simp: wp_simps intro!: wp_callI wp_session_only split: sum.split prod.split)

lemma finish_captured:
  assumes "run_finish E s = (out, s')"
  shows "fr_action_entries s' = fr_action_entries s"
    "out = Inr r \<Longrightarrow> captured (en_hasher E) r (fr_finalization s') (fr_action_entries s')"
proof -
  have "wp (run_finish E)
    (\<lambda>r s'. fr_action_entries s' = fr_action_entries s \<and> captured (en_hasher E) r (fr_finalization s') (fr_action_entries s'))
    (\<lambda>e s'. fr_action_entries s' = fr_action_entries s) s"
    unfolding run_finish_def Let_def
    by (auto simp: wp_simps intro!: wp_session_end dest: build_captured split: sum.split prod.split option.split)
  from wp_Inr [OF this] wp_Inl [OF this] assms
  show "fr_action_entries s' = fr_action_entries s"
    "out = Inr r \<Longrightarrow> captured (en_hasher E) r (fr_finalization s') (fr_action_entries s')"
    by (cases out; blast)+
qed

text \<open>The policy protocol: \<open>infer\<close> answers with an action plan.\<close>

locale planning = simulation E for E :: "'e run_env" +
  assumes plans: "po_infer (en_policy E) ob w = (Inr p, w') \<Longrightarrow> plan_valid p"
begin

lemma wp_commit_entries:
  assumes "entries_valid (fr_action_entries s)"
    and "action_entry_init \<lparr>ae_action_plan_sha256 = action_plan_sha256 (en_hasher E) plan,
      ae_source_step_index = ap_source_step_index plan,
      ae_executed_actions = action_prefix (eb_executed_action_count batch) actions\<rparr> =
    Inr \<lparr>ae_action_plan_sha256 = action_plan_sha256 (en_hasher E) plan, ae_source_step_index = ap_source_step_index plan,
      ae_executed_actions = action_prefix (eb_executed_action_count batch) actions\<rparr>"
  shows "wp (commit_batch E plan actions batch) (\<lambda>go s'. entries_valid (fr_action_entries s'))
    (\<lambda>e s'. entries_valid (fr_action_entries s')) s"
  unfolding commit_batch_def Let_def using assms
  by (auto simp: wp_simps entries_valid_def intro!: wp_callI wp_session_all split: sum.split prod.split)

lemma wp_body_entries:
  assumes "entries_valid (fr_action_entries s)"
  shows "wp (loop_body E ctx)
    (\<lambda>go s'. if go then entries_valid (fr_action_entries s') else entries_valid (fr_action_entries s'))
    (\<lambda>e s'. entries_valid (fr_action_entries s')) s"
proof -
  have sha: "is_sha256 (action_plan_sha256 (en_hasher E) plan)" for plan
    using digests by (simp add: action_plan_sha256_def sha_digests_def canonical_hash_def)
  have execute: "wp (execute_plan E ctx plan requested) (\<lambda>go s'. entries_valid (fr_action_entries s'))
      (\<lambda>e s'. entries_valid (fr_action_entries s')) t"
    if t: "entries_valid (fr_action_entries t)" and plan: "plan_valid plan" and "1 \<le> requested" for plan requested t
    unfolding execute_plan_def Let_def using t
    by (auto simp: wp_simps intro!: wp_callI wp_commit_entries prefix_valid plan sha that(3)
        dest: validate_batch_Inr(1,2) [OF _ that(3)] split: sum.split)
      (metis One_nat_def Suc_leI length_greater_0_conv of_nat_1 of_nat_mono that(3) validate_batch_Inr(1,2))
  have infer: "wp (infer_plan E) (\<lambda>plan t. plan_valid plan \<and> entries_valid (fr_action_entries t))
      (\<lambda>e t. entries_valid (fr_action_entries t)) t"
    if "entries_valid (fr_action_entries t)" for t
    unfolding infer_plan_def using that
    by (auto simp: wp_simps intro!: wp_call_resultI dest: plans split: option.split)
  show ?thesis
    unfolding loop_body_def timeout_break_def using assms
    by (auto simp: wp_simps intro!: wp_mono [OF infer] execute split: prod.split sum.split)
qed

lemma loop_entries:
  assumes "run_loop E ctx s = Some (r, s')" "entries_valid (fr_action_entries s)"
  shows "entries_valid (fr_action_entries s')"
  using run_loop_rule [OF assms wp_body_entries] by (auto split: sum.splits)

lemma open_evidence:
  assumes "run_open E False s = (out, s')"
  shows "case out of
      Inr (Rejected (r, ev)) \<Rightarrow> \<exists>e. run_open E True s = (Inr (Rejected (r, Some e)), s')
    | _ \<Rightarrow> run_open E True s = (out, s')"
proof (cases "preflight E")
  case (Inl e)
  with assms show ?thesis by (auto simp: run_open_def Let_def sbind_def lift_result_def lift_checked_def raised_def)
next
  case (Inr u)
  show ?thesis
  proof (cases "case en_fault E of None \<Rightarrow> False
      | Some m \<Rightarrow> fm_operator_id m \<in> set STRUCTURAL_ABSENCE_OPERATOR_IDS \<and>
          \<not> pi_supports_structural_absence (po_identity (en_policy E))")
    case True
    have "\<exists>ev. record_evidence (en_hasher E) True r None [] = Inr (Some ev)"
      if "build_trial_result (en_hasher E) (en_trial E) (en_spec E) None UNSUPPORTED_CONTRACT None None [] 0 0
        (Some ''preflight'') (Some ''structural_absence_unsupported'') None = Inr r" for r
      by (rule record_evidence_returns [OF build_captured [OF that]]) (simp add: entries_valid_def)
    with assms Inr show ?thesis
      unfolding run_open_def Let_def if_P [OF True]
      by (fastforce simp: sbind_def lift_result_def lift_checked_def raised_def sret_def record_evidence_off split: sum.splits)
  next
    case False
    then have "run_open E True = run_open E False" by (simp add: run_open_def Let_def False)
    moreover have "\<nexists>r. out = Inr (Rejected r)"
      using assms unfolding run_open_def Let_def if_not_P [OF False]
      by (auto simp: sbind_def sret_def split: sum.splits prod.splits)
    ultimately show ?thesis using assms by (auto split: sum.split opened.split)
  qed
qed

text \<open>The two \<open>try\<close> statements, and the action trace they leave.\<close>

lemma try_evidence:
  assumes "try_block E False (frame_init w) = Some (out, s)"
  shows "case out of
      Inr (Early (r, ev)) \<Rightarrow> \<exists>e. try_block E True (frame_init w) = Some (Inr (Early (r, Some e)), s)
    | Inr (Completed r) \<Rightarrow> try_block E True (frame_init w) = Some (out, s) \<and>
        entries_valid (fr_action_entries s) \<and> captured (en_hasher E) r (fr_finalization s) (fr_action_entries s)
    | Inl e \<Rightarrow> try_block E True (frame_init w) = Some (out, s) \<and> entries_valid (fr_action_entries s)"
proof -
  obtain o1 s1 where o1: "run_open E False (frame_init w) = (o1, s1)" by fastforce
  note o2 = open_evidence [OF o1]
  have "fr_action_entries s1 = []"
    using wp_Inr [OF wp_open_entries, of E False "frame_init w" _ s1] wp_Inl [OF wp_open_entries, of E False "frame_init w" _ s1] o1
    by (cases o1) (auto simp: frame_init_def)
  then have start: "entries_valid (fr_action_entries s1)" by (simp add: entries_valid_def)
  show ?thesis
  proof (cases o1)
    case (Inl e)
    with o1 o2 assms start show ?thesis by (auto simp: try_block_def)
  next
    case (Inr opened)
    show ?thesis
    proof (cases opened)
      case (Rejected res)
      with o1 o2 Inr assms show ?thesis by (cases res) (auto simp: try_block_def)
    next
      case (Started ctx)
      obtain l s2 where l: "run_loop E ctx s1 = Some (l, s2)" using run_loop_returns by blast
      note entries = loop_entries [OF l start]
      obtain q s3 where q: "run_finish E s2 = (q, s3)" by fastforce
      note fin = finish_captured [OF q]
      from o2 Inr Started have "run_open E True (frame_init w) = (Inr (Started ctx), s1)" by simp
      with o1 Inr Started l q assms entries fin show ?thesis by (cases l; cases q) (auto simp: try_block_def)
    qed
  qed
qed

lemma crash_evidence:
  assumes "crash_result E False e s = (Inr (r, None), s')" "entries_valid (fr_action_entries s)"
  shows "\<exists>ev. crash_result E True e s = (Inr (r, Some ev), s')"
proof -
  define t where "t = suppressed_finalize E (suppressed_abort E (failure_code_of e (fr_stage s)) s)"
  have "fr_action_entries t = fr_action_entries s"
    by (auto simp: t_def suppressed_finalize_def run_finalize_def suppressed_abort_def call_def split: prod.split sum.split option.split)
  with assms(2) have t: "entries_valid (fr_action_entries t)" by simp
  have r: "build_trial_result (en_hasher E) (en_trial E) (en_spec E) (fr_initial_state_sha256 t) CRASH
      (Some CRASH) (fr_finalization t) (fr_action_entries t) (fr_observation_count t) (fr_control_cycle_count t)
      (Some (fr_stage t)) (Some (failure_code_of e (fr_stage s))) None = Inr r" "s' = t"
    using assms(1) by (auto simp: crash_result_def Let_def t_def [symmetric] raised_def bindr_eq_Inr split: sum.splits)
  from record_evidence_returns [OF build_captured [OF r(1)] t] r show ?thesis
    by (auto simp: crash_result_def Let_def t_def [symmetric] raised_def)
qed

lemma run_returns_evidence:
  assumes "preflight E = Inr ()" "\<not> isl (open_session E)" "trial_ok (en_hasher E) (en_trial E)"
  shows "\<exists>r ev w'. run_trial E True w = Some (Inr (r, Some ev), w') \<and> receipt_of_trial E r"
proof -
  obtain out s where t: "try_block E False (frame_init w) = Some (out, s)" using try_block_returns by blast
  note o = try_block_outcomes [OF assms t] and ev = try_evidence [OF t]
  show ?thesis
  proof (cases out)
    case (Inl e)
    with o have e: "started E s" "sound_exn e" by simp_all
    from crash_returns [OF this] obtain r s' where r: "crash_result E False e s = (Inr (r, None), s')"
      "receipt_of_trial E r" by blast
    from crash_evidence [OF r(1)] ev Inl obtain x where x: "crash_result E True e s = (Inr (r, Some x), s')" by auto
    obtain codes w' where "close_resources E s' = (codes, s'\<lparr>fr_world := w'\<rparr>)" using close_world by blast
    with ev Inl x r e(1) show ?thesis by (simp add: run_trial_def started_def)
  next
    case (Inr res)
    show ?thesis
    proof (cases res)
      case (Early out1)
      obtain codes w' where "close_resources E s = (codes, s\<lparr>fr_world := w'\<rparr>)" using close_world by blast
      with ev Inr Early o show ?thesis by (cases out1) (auto simp: run_trial_def)
    next
      case (Completed r)
      obtain codes w' where close: "close_resources E s = (codes, s\<lparr>fr_world := w'\<rparr>)" "[] \<notin> set codes"
        using close_world by blast
      have c: "completed E r s" using o Inr Completed by simp
      from close_completed_returns [OF this close(2), of w'] obtain r' where r':
        "close_completed E r codes (s\<lparr>fr_world := w'\<rparr>) = Inr r'" "receipt_of_trial E r'" by blast
      have "captured (en_hasher E) r' (fr_finalization s) (fr_action_entries s)"
        using r'(1) ev Inr Completed by (auto simp: close_completed_def dest: build_captured split: if_splits)
      then obtain x where "record_evidence (en_hasher E) True r' (fr_finalization s) (fr_action_entries s) = Inr (Some x)"
        using record_evidence_returns ev Inr Completed by fastforce
      with ev Inr Completed close r' show ?thesis by (simp add: run_trial_def raised_def)
    qed
  qed
qed

end

section \<open>The doubles answer with plans\<close>

locale fake_planning = fake_simulation +
  assumes float32_cast: "nd_dtype (np_astype np a ''float32'') = ''float32''"

sublocale fake_planning \<subseteq> planning "fake_env h np trial spec bc pc readings fault rest"
  by unfold_locales
     (auto simp: fake_env_def fake_policy_def on_policy_def fake_infer_def float32_cast bindr_eq_Inr
       dest!: action_plan_valid split: prod.splits if_splits)

end
