(* ===== verification/Paired_Grid.thy ===== *)
theory Paired_Grid
  imports Trials
begin

text \<open>
  The paired grid of \<open>trials.py\<close>: when it can be built and what its four cells share.
\<close>

section \<open>The cells of a grid\<close>

text \<open>What the arguments have to satisfy, given a valid clean trial.\<close>

definition grid_request ::
    "fault_manifest \<Rightarrow> fault_manifest \<Rightarrow> int \<Rightarrow> string \<Rightarrow> string \<Rightarrow> string \<Rightarrow> bool" where
  "grid_request fault restore index sys ckpt cfg \<longleftrightarrow>
     same_instance fault restore \<and>
     py_eq (PDict (static_parameter_view (fm_parameters fault))) (PDict (static_parameter_view (fm_parameters restore))) \<and>
     fm_stop_index restore = index \<and> index < fm_stop_index fault \<and> 0 \<le> index \<and>
     sys \<noteq> [] \<and> is_sha256 ckpt \<and> is_sha256 cfg"

text \<open>What the cells promise: four valid trials of one pair, the fault cells naming their manifest,
  the restored one its restoration, the no-touch one its own system.\<close>

definition paired_cells ::
    "hasher \<Rightarrow> trial_manifest \<Rightarrow> fault_manifest \<Rightarrow> fault_manifest \<Rightarrow> int \<Rightarrow> restoration_mode \<Rightarrow> string \<Rightarrow>
     trial_manifest \<Rightarrow> trial_manifest \<Rightarrow> trial_manifest \<Rightarrow> bool" where
  "paired_cells h clean fault restore index mode sys f n r \<longleftrightarrow>
     list_all (trial_ok h) [clean, f, n, r] \<and>
     map tm_condition [clean, f, n, r] = [CLEAN, FAULTED, NO_TOUCH, RESTORED] \<and>
     list_all (\<lambda>t. pair_key h t = pair_key h clean) [f, n, r] \<and>
     tm_fault_manifest_sha256 f = Some (manifest_sha256 h fault) \<and>
     tm_fault_manifest_sha256 r = Some (manifest_sha256 h restore) \<and> tm_fault_manifest_sha256 n = None \<and>
     tm_restoration_index r = Some index \<and> tm_restoration_mode r = Some mode \<and>
     tm_executed_system_id f = tm_executed_system_id clean \<and> tm_executed_system_id r = tm_executed_system_id clean \<and>
     tm_executed_system_id n = sys"

lemma init_Inr_iff: "trial_init h t = Inr u \<longleftrightarrow> u = t \<and> trial_ok h t"
  using trial_init_id by (auto simp: trial_ok_def)

lemma restored_cell_iff:
  assumes "trial_ok h clean" "tm_condition clean = CLEAN" "is_sha256 sha"
  shows "trial_ok h (clean\<lparr>tm_condition := RESTORED, tm_fault_manifest_sha256 := Some sha,
    tm_restoration_index := Some index, tm_restoration_mode := Some mode\<rparr>) \<longleftrightarrow> 0 \<le> index"
proof
  assume "trial_ok h (clean\<lparr>tm_condition := RESTORED, tm_fault_manifest_sha256 := Some sha,
    tm_restoration_index := Some index, tm_restoration_mode := Some mode\<rparr>)"
  from trial_ok_fields(13) [OF this] show "0 \<le> index" by (simp add: check_restoration_def split: if_splits)
qed (rule restored_cell [OF assms])

lemma grid_cells:
  assumes clean: "trial_ok h clean" "tm_condition clean = CLEAN" and sha: "\<And>m. is_sha256 (manifest_sha256 h m)"
  shows "case build_paired_trial_grid h clean fault restore index mode sys ckpt cfg of
      Inl e \<Rightarrow> \<not> grid_request fault restore index sys ckpt cfg
    | Inr (c, f, n, r) \<Rightarrow> grid_request fault restore index sys ckpt cfg \<and> c = clean \<and>
        paired_cells h clean fault restore index mode sys f n r"
proof -
  let ?f = "clean\<lparr>tm_condition := FAULTED, tm_fault_manifest_sha256 := Some (manifest_sha256 h fault)\<rparr>"
  let ?n = "clean\<lparr>tm_condition := NO_TOUCH, tm_executed_system_id := sys, tm_checkpoint_sha256 := ckpt,
    tm_config_sha256 := cfg, tm_matched_no_touch_system_id := Some sys\<rparr>"
  let ?r = "clean\<lparr>tm_condition := RESTORED, tm_fault_manifest_sha256 := Some (manifest_sha256 h restore),
    tm_restoration_index := Some index, tm_restoration_mode := Some mode\<rparr>"
  have f: "trial_init h ?f = Inr ?f" using faulted_cell [OF clean sha] by (simp add: init_Inr_iff)
  have n: "(\<exists>u. trial_init h ?n = Inr u) \<longleftrightarrow> sys \<noteq> [] \<and> is_sha256 ckpt \<and> is_sha256 cfg"
    using no_touch_cell [OF clean] by (simp add: init_Inr_iff)
  have r: "(\<exists>u. trial_init h ?r = Inr u) \<longleftrightarrow> 0 \<le> index" using restored_cell_iff [OF clean sha] by (simp add: init_Inr_iff)
  have none: "tm_fault_manifest_sha256 clean = None"
    using trial_ok_fields(12) [OF clean(1)] clean(2) by (auto simp: check_faulted_def split: if_splits option.splits)
  have cells: "paired_cells h clean fault restore index mode sys ?f ?n ?r"
    if "trial_ok h ?n" "trial_ok h ?r"
    using that clean faulted_cell [OF clean sha] none by (simp add: paired_cells_def pair_key_def)
  show ?thesis
  proof (cases "build_paired_trial_grid h clean fault restore index mode sys ckpt cfg")
    case (Inl e)
    have "\<not> grid_request fault restore index sys ckpt cfg"
    proof
      assume req: "grid_request fault restore index sys ckpt cfg"
      with n r obtain u v where "trial_init h ?n = Inr u" "trial_init h ?r = Inr v" by (auto simp: grid_request_def)
      with req f clean(2) Inl show False by (auto simp: build_paired_trial_grid_def grid_request_def)
    qed
    with Inl show ?thesis by simp
  next
    case (Inr q)
    then have "trial_init h ?n = Inr ?n" "trial_init h ?r = Inr ?r" "q = (clean, ?f, ?n, ?r)"
      and "same_instance fault restore" "py_eq (PDict (static_parameter_view (fm_parameters fault)))
        (PDict (static_parameter_view (fm_parameters restore)))" "fm_stop_index restore = index" "index < fm_stop_index fault"
      using f by (auto simp: build_paired_trial_grid_def init_Inr_iff bindr_eq_Inr split: if_splits)
    with n r Inr cells show ?thesis by (auto simp: grid_request_def init_Inr_iff)
  qed
qed

end
