(* ===== verification/Runner_Examples.thy ===== *)
theory Runner_Examples
  imports Runner_Evidence Operator_Contracts Paired_Grid
begin

text \<open>Concrete trials and runs over the deterministic doubles.\<close>

section \<open>Trials\<close>

definition demo_trial :: trial_manifest where
  "demo_trial =
     \<lparr>tm_task = ''lift'', tm_initial_seed = 7, tm_exogenous_seed = 11, tm_condition = CLEAN,
      tm_base_system_id = ''act'', tm_executed_system_id = ''act'', tm_dataset_sha256 = demo_sha,
      tm_base_system_manifest_sha256 = demo_sha, tm_checkpoint_sha256 = demo_sha, tm_config_sha256 = demo_sha,
      tm_action_spec = ''qpos8_next_step'', tm_fault_manifest_sha256 = None, tm_matched_no_touch_system_id = None,
      tm_restoration_index = None, tm_restoration_mode = None, tm_semantic_version = ''1.0''\<rparr>"

definition demo_faulted_trial :: trial_manifest where
  "demo_faulted_trial = demo_trial\<lparr>tm_condition := FAULTED, tm_fault_manifest_sha256 := Some demo_sha\<rparr>"

definition demo_spec :: run_spec where
  "demo_spec =
     \<lparr>rs_prompt = ''lift the cube'', rs_success_predicate_id = ''fake-success-v1'', rs_max_control_cycles = 3,
      rs_max_observation_steps = 4, rs_execute_action_steps = 1, rs_wall_timeout_s = 60,
      rs_semantic_version = ''1.0''\<rparr>"

definition demo_backend :: "backend_signal \<Rightarrow> bool \<Rightarrow> fake_backend_config" where
  "demo_backend signal close_fails =
     \<lparr>fb_records = demo_episode, fb_terminal_signal = signal, fb_append_after_terminal = False,
      fb_partial_batch = False, fb_reset_receipt_mismatch = False, fb_raise_on_close = close_fails,
      fb_success_predicate_id = ''fake-success-v1''\<rparr>"

definition demo_policy :: fake_policy_config where
  "demo_policy =
     \<lparr>fp_identity = \<lparr>pi_system_id = ''act'', pi_checkpoint_sha256 = demo_sha, pi_config_sha256 = demo_sha,
        pi_action_spec = ''qpos8_next_step'', pi_consumes_tactile = True, pi_supports_structural_absence = True\<rparr>,
      fp_source_step_offset = 0, fp_action_horizon = 1, fp_initial_action_bias = 0, fp_fail_on_infer = False,
      fp_fail_on_commit = False, fp_fail_on_reset = False, fp_raise_on_close = False\<rparr>"

definition demo_env :: "trial_manifest \<Rightarrow> backend_signal \<Rightarrow> bool \<Rightarrow> fault_manifest option \<Rightarrow> fake_world run_env" where
  "demo_env trial signal close_fails fault =
     fake_env demo_hasher demo_numpy trial demo_spec (demo_backend signal close_fails) demo_policy (\<lambda>n. 0) fault None"

lemma demo_spec_ok: "run_spec_ok demo_spec"
  by (simp add: run_spec_ok_iff demo_spec_def LOOP_SEMANTIC_VERSION_def)

lemma demo_trial_ok: "trial_ok demo_hasher demo_trial"
  unfolding trial_ok_def by code_simp

lemma demo_faulted_ok: "trial_ok demo_hasher demo_faulted_trial"
  unfolding trial_ok_def by code_simp

lemma demo_preflight: "preflight (demo_env demo_trial signal close_fails None) = Inr ()"
  by (simp add: preflight_def demo_env_def fake_env_def fake_backend_def fake_policy_def demo_trial_def demo_spec_def
      demo_backend_def demo_policy_def ACTION_SPEC_def)

lemma demo_faulted_preflight: "preflight (demo_env demo_faulted_trial signal close_fails (Some demo_A1_manifest)) = Inr ()"
  by (simp add: preflight_def demo_env_def fake_env_def fake_backend_def fake_policy_def demo_trial_def demo_spec_def
      demo_backend_def demo_policy_def ACTION_SPEC_def demo_faulted_trial_def manifest_sha256_def)

lemma demo_sessions:
  "\<not> isl (open_session (demo_env demo_trial signal close_fails None))"
  "\<not> isl (open_session (demo_env demo_faulted_trial signal close_fails (Some demo_A1_manifest)))"
proof -
  show "\<not> isl (open_session (demo_env demo_trial signal close_fails None))"
    by (simp add: open_session_def demo_env_def fake_env_def)
  have "\<not> isl (online_init demo_hasher demo_A1_manifest None)" by code_simp
  then obtain s where "online_init demo_hasher demo_A1_manifest None = Inr s" by (metis sum.collapse(2))
  then show "\<not> isl (open_session (demo_env demo_faulted_trial signal close_fails (Some demo_A1_manifest)))"
    unfolding open_session_def demo_env_def fake_env_def by (simp only: run_env.simps option.case bindr_simps) simp
qed

section \<open>The doubles satisfy the contract\<close>

interpretation smoke: fake_planning demo_hasher demo_numpy trial demo_spec "demo_backend signal close_fails"
    demo_policy "\<lambda>n. 0" fault None
  for trial signal close_fails fault
  by unfold_locales (simp_all add: demo_spec_ok sha_digests_def demo_hasher_def demo_numpy_def)

section \<open>Runs\<close>

text \<open>A success, followed through the runner.\<close>

definition live_record :: "nat \<Rightarrow> rat \<Rightarrow> evaluation" where
  "live_record k x =
     \<lparr>ev_observation = (demo_observation k)\<lparr>ob_episode_id := demo_sha,
        ob_proprio := lift1 (\<lambda>y. y + fl32 x) demo_vector\<rparr>,
      ev_provenance = [demo_provenance ''left'' 20 k, demo_provenance ''right'' 90 k],
      ev_clean_record_sha256 = demo_sha, ev_delivered_record_sha256 = demo_sha\<rparr>"

definition demo_context :: episode_context where
  "demo_context =
     \<lparr>ec_episode_id = demo_sha, ec_task = ''lift'', ec_initial_seed = 7, ec_exogenous_seed = 11,
      ec_instruction = ''lift the cube'', ec_action_spec = ''qpos8_next_step''\<rparr>"

lemma demo_live:
  assumes "fb_context s = Some demo_context" "k < 4"
  shows "stateful_record demo_hasher demo_numpy (demo_backend signal close_fails) s k = Inr (live_record k (fb_state s))"
proof -
  have "py_index demo_episode (int k) = Inr (demo_record k)"
    using assms(2) by (simp add: py_index_def demo_episode_def nth_Cons' numeral_eq_Suc less_Suc_eq_0_disj) auto
  moreover have "k < 2 ^ 53" using assms(2) by simp
  ultimately show ?thesis
    using assms(1) demo_time [of k]
    by (simp add: stateful_record_def demo_backend_def demo_record_eq demo_observation_def observation_post_init_def
        Let_def demo_context_def build_evaluation_record_def live_record_def SENSOR_SLOTS_def check_causal_def ob_sensor_def
        demo_provenance_def demo_sensor_def require_minimum_def all_finite_def demo_vector_def lift1_def demo_numpy_def)
qed

lemma demo_context_built:
  "build_episode_context demo_hasher demo_trial (rs_prompt demo_spec) = Inr demo_context"
  by (simp add: build_episode_context_def context_init_def demo_trial_def demo_spec_def demo_context_def
      require_action_spec_def ACTION_SPEC_def require_nonempty_def require_nonnegative_def)

lemma wp_call_eq:
  "wp (call f) Q X s =
     (case f (fr_world s) of (r, w) \<Rightarrow>
        (case r of Inl e \<Rightarrow> X (Raised e) (s\<lparr>fr_world := w\<rparr>) | Inr x \<Rightarrow> Q x (s\<lparr>fr_world := w\<rparr>)))"
  by (simp add: wp_def call_def raised_def split: sum.split prod.split)

lemma demo_env_fields [simp]:
  "en_hasher (demo_env trial signal close_fails fault) = demo_hasher"
  "en_numpy (demo_env trial signal close_fails fault) = demo_numpy"
  "en_trial (demo_env trial signal close_fails fault) = trial"
  "en_spec (demo_env trial signal close_fails fault) = demo_spec"
  "en_fault (demo_env trial signal close_fails fault) = fault"
  "en_backend (demo_env trial signal close_fails fault) =
     fake_backend demo_hasher demo_numpy (demo_backend signal close_fails)"
  "en_policy (demo_env trial signal close_fails fault) = fake_policy demo_numpy demo_policy"
  "en_clock (demo_env trial signal close_fails fault) = (\<lambda>w. (0, w\<lparr>fw_ticks := fw_ticks w + 1\<rparr>))"
  by (simp_all add: demo_env_def fake_env_def)

lemma fake_operations [simp]:
  "be_reset (fake_backend h np c) ctx = on_backend (fake_reset h c ctx)"
  "be_observe (fake_backend h np c) = on_backend (fake_observe h np c)"
  "be_execute (fake_backend h np c) a = on_backend (fake_execute h np c a)"
  "be_close (fake_backend h np c) = on_backend (fake_close c)"
  "po_identity (fake_policy np pc) = fp_identity pc"
  "po_reset (fake_policy np pc) ctx = on_policy (fake_policy_reset pc ctx)"
  "po_infer (fake_policy np pc) ob = on_policy (fake_infer np pc ob)"
  "po_commit (fake_policy np pc) x = on_policy (fake_commit pc x)"
  "po_close (fake_policy np pc) = on_policy (fake_policy_close pc)"
  by (simp_all add: fake_backend_def fake_policy_def)

lemma demo_backend_fields [simp]:
  "fb_reset_receipt_mismatch (demo_backend signal close_fails) = False"
  "fb_terminal_signal (demo_backend signal close_fails) = signal"
  "fb_append_after_terminal (demo_backend signal close_fails) = False"
  "fb_partial_batch (demo_backend signal close_fails) = False"
  "fb_raise_on_close (demo_backend signal close_fails) = close_fails"
  "length (fb_records (demo_backend signal close_fails)) = 4"
  by (simp_all add: demo_backend_def demo_episode_def)

lemma demo_policy_fields [simp]:
  "fp_fail_on_reset demo_policy = False" "fp_fail_on_infer demo_policy = False"
  "fp_fail_on_commit demo_policy = False" "fp_raise_on_close demo_policy = False"
  "fp_source_step_offset demo_policy = 0" "fp_action_horizon demo_policy = 1"
  "pi_action_spec (fp_identity demo_policy) = ''qpos8_next_step''"
  by (simp_all add: demo_policy_def)

lemma live_fields [simp]:
  "ob_episode_id (ev_observation (live_record k x)) = demo_sha"
  "ob_task (ev_observation (live_record k x)) = ''lift''" "ob_seed (ev_observation (live_record k x)) = 7"
  "ob_step_index (ev_observation (live_record k x)) = int k"
  "list_ex (\<lambda>p. pv_active_fault_ids p \<noteq> []) (ev_provenance (live_record k x)) = False"
  "ev_clean_record_sha256 (live_record k x) = demo_sha" "ev_delivered_record_sha256 (live_record k x) = demo_sha"
  "step_of (live_record k x) = int k"
  by (simp_all add: live_record_def demo_observation_def demo_provenance_def)

lemma demo_reset:
  "fake_reset demo_hasher (demo_backend signal close_fails) demo_context s =
     (Inr \<lparr>rc_episode_id = demo_sha, rc_initial_seed = 7, rc_exogenous_seed = 11, rc_simulator_state_sha256 = demo_sha,
        rc_native_reset_id = ''fake-reset-'' @ decimal (fb_reset_count s + 1)\<rparr>,
      s\<lparr>fb_reset_count := fb_reset_count s + 1, fb_context := Some demo_context, fb_next_index := 0, fb_state := 0,
        fb_state_trace := [0], fb_observation_trace := []\<rparr>)"
  by (simp add: fake_reset_def Let_def receipt_init_def demo_context_def require_nonempty_def require_nonnegative_def)

lemma demo_observe:
  assumes "fb_context s = Some demo_context" "fb_observe_count s = 0" "fb_next_index s = 0"
  shows "fake_observe demo_hasher demo_numpy (demo_backend signal close_fails) s =
     (Inr (live_record 0 (fb_state s)),
      s\<lparr>fb_observe_count := 1, fb_observation_trace := fb_observation_trace s @ [ev_observation (live_record 0 (fb_state s))]\<rparr>)"
  using assms demo_live [of "s\<lparr>fb_observe_count := 1\<rparr>" 0 signal close_fails] by (simp add: fake_observe_def Let_def)

lemma demo_context_fields:
  "ec_episode_id demo_context = demo_sha" "ec_task demo_context = ''lift''"
  "ec_initial_seed demo_context = 7" "ec_exogenous_seed demo_context = 11"
  by (simp_all add: demo_context_def)

lemma wp_deliver_eq:
  "fr_session s = Some ses \<Longrightarrow> wp (run_deliver E r) Q X s =
     (case session_deliver (en_hasher E) (en_numpy E) ses r of (ses', d) \<Rightarrow>
        (case d of Inl e \<Rightarrow> X (Raised e) (s\<lparr>fr_session := Some ses'\<rparr>) | Inr x \<Rightarrow> Q x (s\<lparr>fr_session := Some ses'\<rparr>)))"
  by (simp add: wp_def run_deliver_def raised_def split: sum.split prod.split)

lemma demo_open:
  "wp (run_open (demo_env demo_trial signal close_fails None) False)
     (\<lambda>out s. out = Started demo_context \<and> fr_current_observation s = Some (ev_observation (live_record 0 0)) \<and>
        fr_observation_count s = 1 \<and> fr_control_cycle_count s = 0 \<and> fr_previous_native_step_id s = None \<and>
        fr_started_at s = 0 \<and> fr_action_entries s = [] \<and> fr_initial_state_sha256 s = Some demo_sha \<and>
        fb_context (fw_backend (fr_world s)) = Some demo_context \<and> fb_observe_count (fw_backend (fr_world s)) = 1 \<and>
        fb_next_index (fw_backend (fr_world s)) = 0 \<and> fb_state (fw_backend (fr_world s)) = 0 \<and>
        (\<exists>d. fr_session s = Some (Identity_session d) \<and> ds_finalized d = False \<and>
           ds_clean_records d = [live_record 0 0] \<and> ds_delivered_records d = [live_record 0 0] \<and>
           ds_stream_identity d = Some (identity_of (live_record 0 0))))
     (\<lambda>_ _. False) (frame_init fake_world_start)"
proof -
  have deliver: "identity_deliver demo_hasher delivery_session_init (live_record 0 0) =
     (delivery_session_init\<lparr>ds_stream_identity := Some (identity_of (live_record 0 0)),
        ds_clean_records := [live_record 0 0], ds_delivered_records := [live_record 0 0]\<rparr>, Inr (live_record 0 0))"
    by (simp add: identity_deliver_def require_open_def append_clean_def validate_clean_record_def delivery_session_init_def)
  show ?thesis
    unfolding run_open_def start_episode_def observe_first_def
    by (simp add: wp_simps demo_preflight demo_context_built open_session_def wp_call_eq on_backend_def on_policy_def
        demo_reset demo_observe fake_policy_reset_def validate_reset_def check_clean_record_def demo_context_fields
        frame_init_def fake_world_start_def fake_backend_start_def wp_deliver_eq deliver) (simp add: delivery_session_init_def)
qed

text \<open>One control cycle.\<close>

definition demo_signal :: rat where
  "demo_signal = fl32 (projr (action_signal demo_numpy demo_policy (ev_observation (live_record 0 0))))"

definition demo_actions :: ndarray where
  "demo_actions = \<lparr>nd_dtype = ''float32'', nd_shape = [1, 8], nd_data = replicate 8 (Some demo_signal)\<rparr>"

definition demo_plan :: action_plan where
  "demo_plan = \<lparr>ap_action_spec = ''qpos8_next_step'', ap_source_step_index = 0, ap_actions = demo_actions\<rparr>"

lemma demo_freeze: "freeze_action_array demo_numpy demo_actions = Inr demo_actions"
  by (simp add: freeze_action_array_def demo_actions_def demo_numpy_def FLOATING_DTYPES_def all_finite_def list_all_iff)

lemma demo_infer:
  "fake_infer demo_numpy demo_policy (ev_observation (live_record 0 0)) s =
     (Inr demo_plan, s\<lparr>fp_inferred := fp_inferred s @ [ev_observation (live_record 0 0)]\<rparr>)"
proof -
  obtain x where x: "action_signal demo_numpy demo_policy (ev_observation (live_record 0 0)) = Inr x"
    by (simp add: action_signal_def live_record_def demo_observation_def ob_sensor_def demo_sensor_def)
  then have "demo_signal = fl32 x" by (simp add: demo_signal_def)
  with x demo_freeze show ?thesis
    by (simp add: fake_infer_def action_plan_init_def demo_plan_def demo_actions_def
        require_action_spec_def ACTION_SPEC_def require_nonempty_def require_nonnegative_def)
qed

lemma demo_prefix: "action_prefix 1 demo_actions = demo_actions"
  by (simp add: action_prefix_def demo_actions_def)

definition demo_batch :: "backend_signal \<Rightarrow> execution_batch" where
  "demo_batch signal =
     \<lparr>eb_transitions = [\<lparr>bt_clean_record = live_record 1 (fadd 0 demo_signal), bt_signal = signal, bt_native_step_id = 1,
        bt_diagnostics = [(''fake_state'', PFloat (fadd 0 demo_signal)), (''action_index'', PInt 0)]\<rparr>],
      eb_executed_action_count = 1\<rparr>"

lemma demo_execute:
  assumes "fb_context s = Some demo_context" "fb_observe_count s = 1" "fb_next_index s = 0" "fb_state s = 0"
  shows "\<exists>s'. fake_execute demo_hasher demo_numpy (demo_backend signal close_fails) demo_actions s = (Inr (demo_batch signal), s')"
proof -
  have heads: "row_heads demo_actions = [demo_signal]" by (simp add: row_heads_def demo_actions_def)
  show ?thesis
    using assms
    by (simp add: fake_execute_def heads Let_def demo_live transition_init_def batch_init_def demo_batch_def all_adjacent_def
       require_nonnegative_def require_positive_def) (simp add: demo_actions_def)
qed

definition demo_delivered :: "delivery_session \<Rightarrow> bool" where
  "demo_delivered d \<longleftrightarrow>
     \<not> ds_finalized d \<and> ds_clean_records d = [live_record 0 0, live_record 1 (fadd 0 demo_signal)] \<and>
     ds_delivered_records d = ds_clean_records d"

lemma demo_second:
  assumes "ds_finalized d = False" "ds_clean_records d = [live_record 0 0]" "ds_delivered_records d = [live_record 0 0]"
    "ds_stream_identity d = Some (identity_of (live_record 0 0))"
  shows "\<exists>d'. identity_deliver demo_hasher d (live_record 1 (fadd 0 demo_signal)) =
     (d', Inr (live_record 1 (fadd 0 demo_signal))) \<and> demo_delivered d'"
proof -
  have "identity_of (live_record 1 x) = identity_of (live_record 0 0)" for x
    by (simp add: live_record_def identity_of_def demo_observation_def demo_sensor_def demo_provenance_def)
  with assms show ?thesis
    by (simp add: identity_deliver_def require_open_def append_clean_def validate_clean_record_def demo_delivered_def)
qed

lemma demo_body:
  assumes "fr_current_observation s = Some (ev_observation (live_record 0 0))"
    "fr_observation_count s = 1" "fr_control_cycle_count s = 0" "fr_previous_native_step_id s = None"
    "fr_started_at s = 0" "fr_action_entries s = []" "fr_initial_state_sha256 s = Some demo_sha"
    "fb_context (fw_backend (fr_world s)) = Some demo_context" "fb_observe_count (fw_backend (fr_world s)) = 1"
    "fb_next_index (fw_backend (fr_world s)) = 0" "fb_state (fw_backend (fr_world s)) = 0"
    "fr_session s = Some (Identity_session d)" "ds_finalized d = False" "ds_clean_records d = [live_record 0 0]"
    "ds_delivered_records d = [live_record 0 0]" "ds_stream_identity d = Some (identity_of (live_record 0 0))"
  shows "wp (loop_body (demo_env demo_trial Signal_success close_fails None) demo_context)
     (\<lambda>go s. \<not> go \<and> fr_backend_signal s = Signal_success \<and> fr_observation_count s = 2 \<and> fr_control_cycle_count s = 1 \<and>
        fr_initial_state_sha256 s = Some demo_sha \<and> (\<exists>d. fr_session s = Some (Identity_session d) \<and> demo_delivered d))
     (\<lambda>_ _. False) s"
proof -
  obtain d' where d': "identity_deliver demo_hasher d (live_record 1 (fadd 0 demo_signal)) =
     (d', Inr (live_record 1 (fadd 0 demo_signal)))" "demo_delivered d'" using demo_second [OF assms(13-16)] by blast
  obtain b where b: "fake_execute demo_hasher demo_numpy (demo_backend Signal_success close_fails) demo_actions
      (fw_backend (fr_world s)) = (Inr (demo_batch Signal_success), b)"
    using demo_execute [OF assms(8-11)] by blast
  have plan: "ap_action_spec demo_plan = ACTION_SPEC" "ap_source_step_index demo_plan = 0" "ap_actions demo_plan = demo_actions"
    "nd_shape demo_actions = [1, 8]"
    by (simp_all add: demo_plan_def ACTION_SPEC_def demo_actions_def)
  have spec: "rs_wall_timeout_s demo_spec = 60" "rs_max_control_cycles demo_spec = 3" "rs_max_observation_steps demo_spec = 4"
    "rs_execute_action_steps demo_spec = 1"
    by (simp_all add: demo_spec_def)
  have "fl64 0 = 0" by code_simp
  then show ?thesis
    unfolding loop_body_def infer_plan_def execute_plan_def commit_batch_def
    by (simp add: wp_simps wp_call_eq assms spec plan on_policy_def on_backend_def demo_infer requested_count_def py_index_def
        demo_prefix b validate_batch_def raised_def check_clean_record_def demo_context_fields wp_deliver_eq d' [unfolded One_nat_def]
        demo_batch_def execution_init_def demo_freeze fake_commit_def Let_def action_plan_sha256_def)
qed

lemma demo_finalize:
  assumes "demo_delivered d"
  shows "\<exists>d' f. identity_finalize demo_hasher d = (d', Inr f) \<and> df_validation f = None"
  using assms
  by (simp add: identity_finalize_def demo_delivered_def require_open_def require_records_def finalization_init_def
      clean_trace_hash_def validate_record_hashes_def check_pair_hashes_def same_records_def Let_def)

lemma demo_finish:
  assumes "fr_backend_signal s = Signal_success" "fr_initial_state_sha256 s = Some demo_sha"
    "fr_session s = Some (Identity_session d)" "demo_delivered d"
    "0 \<le> fr_observation_count s" "0 \<le> fr_control_cycle_count s"
  shows "wp (run_finish (demo_env demo_trial signal close_fails None)) (\<lambda>r s. tr_terminal_status r = SUCCESS) (\<lambda>_ _. False) s"
proof -
  obtain d' f where f: "identity_finalize demo_hasher d = (d', Inr f)" "df_validation f = None"
    using demo_finalize [OF assms(4)] by blast
  have override: "validation_override demo_trial f = None"
    by (simp add: validation_override_def restoration_validation_def f(2) demo_trial_def)
  have "sound_finalization f"
    using f(1) by (intro session_finalize_sound [of demo_hasher demo_numpy "Identity_session d" "Identity_session d'"]) simp
  then have "\<exists>r. build_trial_result demo_hasher demo_trial demo_spec (Some demo_sha) SUCCESS (Some SUCCESS) (Some f)
      (fr_action_entries s) (fr_observation_count s) (fr_control_cycle_count s) None None None = Inr r \<and>
    tr_terminal_status r = SUCCESS"
    using build_normal [where trial = demo_trial and spec = demo_spec and initial = "Some demo_sha" and f = f
        and entries = "fr_action_entries s" and observations = "fr_observation_count s"
        and cycles = "fr_control_cycle_count s" and status = SUCCESS and terminal = SUCCESS and stage = None
        and code = None and override = None and h = demo_hasher] assms(5,6) override
    by (auto simp: sha_digests_def demo_hasher_def check_opt_sha_def NORMAL_STATUSES_def)
  then obtain r where r: "build_trial_result demo_hasher demo_trial demo_spec (Some demo_sha) SUCCESS (Some SUCCESS) (Some f)
      (fr_action_entries s) (fr_observation_count s) (fr_control_cycle_count s) None None None = Inr r"
    "tr_terminal_status r = SUCCESS" by blast
  have status: "terminal_of ''success'' = Inr SUCCESS" by code_simp
  show ?thesis
    unfolding run_finish_def Let_def wp_simps
    by (simp add: wp_def run_finalize_def assms f override r status raised_def lift_result_def lift_checked_def)
qed

lemma demo_completed:
  "\<exists>r s. try_block (demo_env demo_trial Signal_success close_fails None) False (frame_init fake_world_start) =
     Some (Inr (Completed r), s) \<and> tr_terminal_status r = SUCCESS"
proof -
  let ?E = "demo_env demo_trial Signal_success close_fails None"
  obtain o1 s1 where o1: "run_open ?E False (frame_init fake_world_start) = (o1, s1)" by fastforce
  then obtain out where out: "o1 = Inr out"
    using wp_Inl [OF demo_open [of Signal_success close_fails]] by (cases o1) auto
  note s1 = wp_Inr [OF demo_open o1 [unfolded out]]
  then obtain d where d: "fr_session s1 = Some (Identity_session d)" "ds_finalized d = False"
    "ds_clean_records d = [live_record 0 0]" "ds_delivered_records d = [live_record 0 0]"
    "ds_stream_identity d = Some (identity_of (live_record 0 0))" by blast
  have body: "wp (loop_body ?E demo_context)
     (\<lambda>go s. \<not> go \<and> fr_backend_signal s = Signal_success \<and> fr_observation_count s = 2 \<and> fr_control_cycle_count s = 1 \<and>
        fr_initial_state_sha256 s = Some demo_sha \<and> (\<exists>d. fr_session s = Some (Identity_session d) \<and> demo_delivered d))
     (\<lambda>_ _. False) s1"
    by (rule demo_body) (use s1 d in blast)+
  obtain b s2 where b: "loop_body ?E demo_context s1 = (b, s2)" by fastforce
  then obtain go where go: "b = Inr go" using wp_Inl [OF body] by (cases b) auto
  note s2 = wp_Inr [OF body b [unfolded go]]
  then obtain d2 where d2: "fr_session s2 = Some (Identity_session d2)" "demo_delivered d2" by blast
  have loop: "run_loop ?E demo_context s1 = Some (Inr (), s2)"
    using b go s2 by (simp add: run_loop_steps [of ?E demo_context s1])
  have finish: "wp (run_finish ?E) (\<lambda>r s. tr_terminal_status r = SUCCESS) (\<lambda>_ _. False) s2"
    using s2 d2 by (intro demo_finish) simp_all
  obtain q s3 where q: "run_finish ?E s2 = (q, s3)" by fastforce
  then obtain r where r: "q = Inr r" using wp_Inl [OF finish] by (cases q) auto
  with wp_Inr [OF finish] q o1 out s1 loop show ?thesis by (simp add: try_block_def)
qed

lemma demo_success:
  "\<exists>r w. run_trial (demo_env demo_trial Signal_success False None) False fake_world_start = Some (Inr (r, None), w) \<and>
     tr_terminal_status r = SUCCESS"
proof -
  let ?E = "demo_env demo_trial Signal_success False None"
  obtain r s where r: "try_block ?E False (frame_init fake_world_start) = Some (Inr (Completed r), s)"
    "tr_terminal_status r = SUCCESS" using demo_completed by blast
  have "fst (close_resources ?E s) = []"
    by (simp add: close_resources_def call_def on_backend_def on_policy_def fake_close_def fake_policy_close_def raised_def)
  then obtain s' where "close_resources ?E s = ([], s')" by (metis prod.collapse)
  with r show ?thesis
    by (simp add: run_trial_def close_completed_def record_evidence_off raised_def)
qed

text \<open>The same run with a backend that cannot be closed.\<close>

lemma demo_crash:
  "\<exists>r w. run_closed_loop_trial (demo_env demo_trial Signal_success True None) fake_world_start = Some (Inr r, w) \<and>
     tr_terminal_status r = CRASH"
proof -
  let ?E = "demo_env demo_trial Signal_success True None"
  obtain r s where r: "try_block ?E False (frame_init fake_world_start) = Some (Inr (Completed r), s)"
    using demo_completed by blast
  have "completed ?E r s"
    using smoke.try_block_outcomes [of demo_trial Signal_success True None, folded demo_env_def, OF demo_preflight demo_sessions(1) _ r]
      demo_trial_ok by simp
  have close: "fst (close_resources ?E s) = [''backend_close_failed'']"
    by (simp add: close_resources_def call_def on_backend_def on_policy_def fake_close_def fake_policy_close_def raised_def)
  obtain codes w' where w': "close_resources ?E s = (codes, s\<lparr>fr_world := w'\<rparr>)" using smoke.close_world [of demo_trial Signal_success True None, folded demo_env_def] by blast
  with close have codes: "codes = [''backend_close_failed'']" by simp
  obtain r' where "close_completed ?E r codes (s\<lparr>fr_world := w'\<rparr>) = Inr r'" "tr_terminal_status r' = CRASH"
    using smoke.close_completed_returns [of demo_trial Signal_success True None r s codes w', folded demo_env_def]
      \<open>completed ?E r s\<close> codes by auto
  with r w' show ?thesis
    by (simp add: run_closed_loop_trial_def run_trial_def record_evidence_off raised_def)
qed

text \<open>A grid over an absence that ends after two frames and one that persists.\<close>

definition demo_persistent :: fault_manifest where
  "demo_persistent =
     projr (manifest_init demo_hasher (operator_name A1_stream_absence) 1 3 1 3 [''left'', ''right''] BLIND []
       FAULT_MANIFEST_SEMANTIC_VERSION OPERATOR_IMPLEMENTATION_VERSION SEVERITY_REGISTRY_ID)"

definition demo_restored :: fault_manifest where
  "demo_restored =
     projr (manifest_init demo_hasher (operator_name A1_stream_absence) 1 3 1 2 [''left'', ''right''] BLIND []
       FAULT_MANIFEST_SEMANTIC_VERSION OPERATOR_IMPLEMENTATION_VERSION SEVERITY_REGISTRY_ID)"

lemma demo_grid: "grid_request demo_persistent demo_restored 2 ''no-touch'' demo_sha demo_sha"
  by code_simp

end
