(* ===== verification/Matrix_Examples.thy ===== *)
theory Matrix_Examples
  imports Matrix_Resume Matrix_Inventory Runner_Examples
begin

text \<open>Concrete matrices.\<close>

section \<open>A digest that tells cells apart\<close>

text \<open>
  Cells get a digest of their condition, operator and level, comparison points of their focus; every
  other object has the digest of the other examples.
\<close>

definition hex_digit :: "nat \<Rightarrow> char" where
  "hex_digit n = (let k = n mod 16 in if k < 10 then char_of (48 + k) else char_of (87 + k))"

definition operator_index :: "string \<Rightarrow> nat" where
  "operator_index name = length (takeWhile (\<lambda>op. operator_name op \<noteq> name) CORE_OPERATOR_IDS)"

fun dose_code :: "pyval \<Rightarrow> string" where
  "dose_code (PDict d) =
     (case (dget d ''operator_id'', dget d ''severity_level'') of
        (PStr name, PInt level) \<Rightarrow> [hex_digit (operator_index name), hex_digit (nat level)]
      | _ \<Rightarrow> ''00'')"
| "dose_code v = ''00''"

fun condition_code :: "pyval \<Rightarrow> char" where
  "condition_code (PStr s) =
     (if s = ''faulted'' then CHR ''2'' else if s = ''restored'' then CHR ''3'' else if s = ''no_touch'' then CHR ''1''
      else CHR ''c'')"
| "condition_code v = CHR ''0''"

definition cell_digest :: "pyval \<Rightarrow> pyval \<Rightarrow> string" where
  "cell_digest fault trial =
     (case trial of PDict t \<Rightarrow> condition_code (dget t ''condition'') # dose_code fault @ replicate 61 (CHR ''0'')
      | _ \<Rightarrow> demo_sha)"

definition point_digest :: "pyval \<Rightarrow> string" where
  "point_digest focus =
     (case focus of PStr s \<Rightarrow> if list_all hex_char s then take 64 (s @ demo_sha) else demo_sha | _ \<Rightarrow> demo_sha)"

fun grid_digest :: "pyval \<Rightarrow> string" where
  "grid_digest (PDict d) =
     (if map fst d = [''fault_manifest'', ''semantic_version'', ''trial'']
      then cell_digest (dget d ''fault_manifest'') (dget d ''trial'')
      else if ''focus_id'' \<in> set (map fst d) then point_digest (dget d ''focus_id'') else demo_sha)"
| "grid_digest v = demo_sha"

definition grid_hasher :: hasher where
  "grid_hasher = \<lparr>sha_json = grid_digest, sha_arr = (\<lambda>a. demo_sha)\<rparr>"

lemma hex_digit_hex [simp]: "hex_char (hex_digit n)"
proof -
  have "list_all (\<lambda>k. hex_char (if k < 10 then char_of (48 + k) else char_of (87 + k))) [0 :: nat..<16]" by code_simp
  then have "\<forall>k<16. hex_char (if k < 10 then char_of (48 + k :: nat) else char_of (87 + k))" by (simp add: list_all_iff)
  then show ?thesis by (simp add: hex_digit_def Let_def)
qed

lemma dose_code_hex: "length (dose_code v) = 2 \<and> list_all hex_char (dose_code v)"
proof -
  have zero: "hex_char (CHR ''0'')" by code_simp
  show ?thesis by (cases v) (auto simp: zero split: pyval.splits prod.splits)
qed

lemma condition_code_hex: "hex_char (condition_code v)"
proof -
  have "list_all hex_char ''0123c''" by code_simp
  then show ?thesis by (cases v) simp_all
qed

lemma grid_digest_sha: "is_sha256 (grid_digest v)"
proof -
  have zeros: "list_all hex_char (replicate 61 (CHR ''0''))" by code_simp
  have part: "list_all hex_char xs \<Longrightarrow> list_all hex_char (take n xs)" for n xs
    by (auto simp: list_all_iff dest: in_set_takeD)
  show ?thesis
    by (cases v)
       (auto simp: is_sha256_def condition_code_hex dose_code_hex zeros part cell_digest_def point_digest_def
         split: pyval.splits)
qed

lemma grid_digests: "sha_digests grid_hasher"
  by (simp add: sha_digests_def grid_hasher_def grid_digest_sha)

lemma grid_hash: "canonical_hash grid_hasher v = grid_digest (canon v)"
  by (simp add: canonical_hash_def grid_hasher_def)

text \<open>Reading a key of a canonical dictionary.\<close>

lemma dget_canon:
  assumes "distinct (map fst d)" "k \<in> set (map fst d)"
  shows "dget (sort_key fst (map (map_prod id canon) d)) k = canon (dget d k)"
proof -
  obtain v where v: "map_of d k = Some v" using assms(2) by (metis map_of_eq_None_iff not_None_eq list.set_map)
  then have "(k, canon v) \<in> set (sort_key fst (map (map_prod id canon) d))"
    by (force dest: map_of_SomeD)
  moreover have "distinct (map fst (sort_key fst (map (map_prod id canon) d)))"
  proof -
    have "mset (map fst (sort_key fst (map (map_prod id canon) d))) = mset (map fst d)" by (simp add: multiset.map_comp)
    with assms(1) show ?thesis by (metis mset_eq_imp_distinct_iff)
  qed
  ultimately have "map_of (sort_key fst (map (map_prod id canon) d)) k = Some (canon v)" by (rule map_of_is_SomeI [rotated])
  with v show ?thesis by (simp add: dget_def)
qed

lemma cell_keys: "sort_key fst [(''trial'', a), (''fault_manifest'', b), (''semantic_version'', c)] =
  [(''fault_manifest'', b), (''semantic_version'', c), (''trial'', a :: pyval)]"
proof -
  have "''fault_manifest'' < (''trial'' :: string)" "''fault_manifest'' < (''semantic_version'' :: string)"
    "''semantic_version'' < (''trial'' :: string)" by code_simp+
  then show ?thesis by (simp add: not_le)
qed

definition cell_code :: "matrix_cell \<Rightarrow> string" where
  "cell_code c =
     condition_code (PStr (condition_value (tm_condition (mc_trial c)))) #
       (case mc_fault c of None \<Rightarrow> ''00''
        | Some m \<Rightarrow> [hex_digit (operator_index (operator_name (fm_operator_id m))), hex_digit (nat (fm_severity_level m))])"

lemma cell_address: "cell_sha256 grid_hasher c = cell_code c @ replicate 61 (CHR ''0'')"
proof -
  have trial: "dget (sort_key fst (map (map_prod id canon) (trial_to_dict t))) ''condition'' =
      PStr (condition_value (tm_condition t))" for t
    by (subst dget_canon) (simp_all add: trial_to_dict_def dget_def)
  have fault: "dget (sort_key fst (map (map_prod id canon) (manifest_to_dict m))) ''operator_id'' =
      PStr (operator_name (fm_operator_id m))"
    "dget (sort_key fst (map (map_prod id canon) (manifest_to_dict m))) ''severity_level'' = PInt (fm_severity_level m)" for m
    by (subst dget_canon; simp add: manifest_to_dict_def dget_def)+
  show ?thesis
    by (cases "mc_fault c")
       (simp_all add: cell_sha256_def canonical_hash_def cell_to_dict_def grid_hasher_def cell_keys opt_value_def
          trial fault cell_code_def cell_digest_def dget_def [of "[_, _, _]"])
qed

section \<open>Matrices over pairs of a fault and its restored form\<close>

definition demo_clean :: matrix_cell where
  "demo_clean = \<lparr>mc_trial = demo_trial, mc_fault = None, mc_semantic_version = MATRIX_SEMANTIC_VERSION\<rparr>"

definition demo_no_touch :: matrix_cell where
  "demo_no_touch =
     \<lparr>mc_trial = demo_trial\<lparr>tm_condition := NO_TOUCH, tm_executed_system_id := ''no-touch'',
        tm_matched_no_touch_system_id := Some ''no-touch''\<rparr>,
      mc_fault = None, mc_semantic_version = MATRIX_SEMANTIC_VERSION\<rparr>"

definition demo_faulted :: "fault_manifest \<Rightarrow> matrix_cell" where
  "demo_faulted f =
     \<lparr>mc_trial = demo_trial\<lparr>tm_condition := FAULTED, tm_fault_manifest_sha256 := Some (manifest_sha256 grid_hasher f)\<rparr>,
      mc_fault = Some f, mc_semantic_version = MATRIX_SEMANTIC_VERSION\<rparr>"

definition demo_resumed :: "fault_manifest \<Rightarrow> matrix_cell" where
  "demo_resumed g =
     \<lparr>mc_trial = demo_trial\<lparr>tm_condition := RESTORED, tm_fault_manifest_sha256 := Some (manifest_sha256 grid_hasher g),
        tm_restoration_index := Some 2, tm_restoration_mode := Some VALID_STREAM_RESUME\<rparr>,
      mc_fault = Some g, mc_semantic_version = MATRIX_SEMANTIC_VERSION\<rparr>"

definition fault_code :: "fault_manifest \<Rightarrow> string" where
  "fault_code f = [hex_digit (operator_index (operator_name (fm_operator_id f))), hex_digit (nat (fm_severity_level f))]"

definition demo_cells :: "(fault_manifest \<times> fault_manifest) list \<Rightarrow> matrix_cell list" where
  "demo_cells pairs = demo_clean # demo_no_touch # concat (map (\<lambda>(f, g). [demo_faulted f, demo_resumed g]) pairs)"

definition demo_point :: "fault_manifest \<Rightarrow> string" where
  "demo_point f =
     canonical_hash grid_hasher
       (PDict [(''focus_id'', PStr (fault_code f)), (''fault_manifest_sha256'', PStr (manifest_sha256 grid_hasher f)),
               (''restoration_index'', PInt 2), (''restoration_mode'', PStr (restoration_value VALID_STREAM_RESUME))])"

definition demo_row :: "fault_manifest \<times> fault_manifest \<Rightarrow> matrix_row" where
  "demo_row = (\<lambda>(f, g).
     \<lparr>mr_point_id = demo_point f, mr_focus_id = fault_code f, mr_operator_id = fm_operator_id f,
      mr_severity_level = fm_severity_level f,
      mr_native_dose = projr (severity_value (fm_operator_id f) (fm_severity_level f)), mr_restoration_index = 2,
      mr_clean = cell_sha256 grid_hasher demo_clean, mr_faulted = cell_sha256 grid_hasher (demo_faulted f),
      mr_no_touch = cell_sha256 grid_hasher demo_no_touch, mr_restored = cell_sha256 grid_hasher (demo_resumed g)\<rparr>)"

definition demo_grid_of :: "grid_kind \<Rightarrow> (fault_manifest \<times> fault_manifest) list \<Rightarrow> matrix_manifest" where
  "demo_grid_of kind pairs =
     \<lparr>mm_matrix_id = ''demo'', mm_kind = kind, mm_pair_key = demo_sha, mm_cells = demo_cells pairs,
      mm_comparisons = map demo_row pairs, mm_semantic_version = MATRIX_SEMANTIC_VERSION\<rparr>"

text \<open>Pairs a matrix can be built from.\<close>

definition paired_faults :: "(fault_manifest \<times> fault_manifest) list \<Rightarrow> bool" where
  "paired_faults pairs \<longleftrightarrow>
     pairs \<noteq> [] \<and> distinct (map (\<lambda>(f, g). fault_code f) pairs) \<and>
     list_all (\<lambda>(f, g). same_instance f g \<and>
       py_eq (PDict (static_parameter_view (fm_parameters f))) (PDict (static_parameter_view (fm_parameters g))) \<and>
       fm_stop_index g = 2 \<and> 2 < fm_stop_index f \<and> fm_observability f = BLIND) pairs"

lemma demo_conditions [simp]:
  "tm_condition (mc_trial demo_clean) = CLEAN" "tm_condition (mc_trial demo_no_touch) = NO_TOUCH"
  "tm_condition (mc_trial (demo_faulted f)) = FAULTED" "tm_condition (mc_trial (demo_resumed f)) = RESTORED"
  "mc_fault demo_clean = None" "mc_fault demo_no_touch = None" "mc_fault (demo_faulted f) = Some f"
  "mc_fault (demo_resumed f) = Some f"
  by (simp_all add: demo_clean_def demo_no_touch_def demo_faulted_def demo_resumed_def demo_trial_def)

lemma demo_codes:
  "cell_code demo_clean = ''c00''" "cell_code demo_no_touch = ''100''" "cell_code (demo_faulted f) = CHR ''2'' # fault_code f"
  "cell_code (demo_resumed f) = CHR ''3'' # fault_code f"
  by (simp_all add: cell_code_def fault_code_def)

lemma address_code: "cell_sha256 grid_hasher c = cell_sha256 grid_hasher d \<longleftrightarrow> cell_code c = cell_code d"
  by (simp add: cell_address)

lemma same_code: "same_instance f g \<Longrightarrow> fault_code g = fault_code f"
  by (simp add: same_instance_def fault_code_def)

lemma fault_cells_distinct:
  "distinct (map (\<lambda>(f, g). fault_code f) pairs) \<Longrightarrow> \<forall>(f, g)\<in>set pairs. same_instance f g \<Longrightarrow>
   distinct (map cell_code (concat (map (\<lambda>(f, g). [demo_faulted f, demo_resumed g]) pairs)))"
  by (induction pairs) (force simp: demo_codes same_code)+

lemma demo_cells_distinct:
  assumes "paired_faults pairs"
  shows "distinct (map (cell_sha256 grid_hasher) (demo_cells pairs))"
proof -
  have "distinct (map cell_code (concat (map (\<lambda>(f, g). [demo_faulted f, demo_resumed g]) pairs)))"
    using assms by (intro fault_cells_distinct) (auto simp: paired_faults_def list_all_iff)
  then have "distinct (map cell_code (demo_cells pairs))"
    by (auto simp: demo_cells_def demo_codes)
  then show ?thesis by (auto simp: distinct_map inj_on_def address_code)
qed

text \<open>Other digests.\<close>

lemma plain_digest:
  assumes "length d \<noteq> 3" "''focus_id'' \<notin> fst ` set d"
  shows "canonical_hash grid_hasher (PDict d) = demo_sha"
proof -
  have "map fst (sort_key fst (map (map_prod id canon) d)) \<noteq> [''fault_manifest'', ''semantic_version'', ''trial'']"
  proof
    assume "map fst (sort_key fst (map (map_prod id canon) d)) = [''fault_manifest'', ''semantic_version'', ''trial'']"
    from arg_cong [OF this, of length] assms(1) show False by simp
  qed
  moreover have "''focus_id'' \<notin> set (map fst (sort_key fst (map (map_prod id canon) d)))"
    using assms(2) by (auto simp: image_iff)
  ultimately show ?thesis by (simp add: canonical_hash_def grid_hasher_def)
qed

lemma demo_pair_key: "cell_pair_key grid_hasher c = demo_sha"
  unfolding cell_pair_key_def pair_key_def by (rule plain_digest) simp_all

lemma fault_code_hex: "length (fault_code f) = 2" "list_all hex_char (fault_code f)"
  by (simp_all add: fault_code_def)

lemma demo_point_code: "demo_point f = fault_code f @ replicate 62 (CHR ''0'')"
proof -
  let ?d = "[(''focus_id'', PStr (fault_code f)), (''fault_manifest_sha256'', PStr (manifest_sha256 grid_hasher f)),
    (''restoration_index'', PInt 2), (''restoration_mode'', PStr (restoration_value VALID_STREAM_RESUME))]"
  let ?s = "sort_key fst (map (map_prod id canon) ?d)"
  have focus: "dget ?s ''focus_id'' = PStr (fault_code f)" by (subst dget_canon) (simp_all add: dget_def)
  have length: "length (map fst ?s) = 4" by (simp only: length_map length_sort) simp
  have "map fst ?s \<noteq> [''fault_manifest'', ''semantic_version'', ''trial'']"
  proof
    assume "map fst ?s = [''fault_manifest'', ''semantic_version'', ''trial'']"
    with length show False by (simp only:) simp
  qed
  moreover have "''focus_id'' \<in> set (map fst ?s)" by simp
  ultimately have "canonical_hash grid_hasher (PDict ?d) = point_digest (PStr (fault_code f))"
    unfolding grid_hash canon.simps grid_digest.simps by (simp only: focus if_False if_True)
  also have "\<dots> = fault_code f @ replicate 62 (CHR ''0'')"
    by (simp add: point_digest_def fault_code_hex demo_sha_def)
  finally show ?thesis by (simp add: demo_point_def)
qed

lemma lookup_of:
  assumes "distinct (map (cell_sha256 h) cells)" "c \<in> set cells"
  shows "map_of (zip (map (cell_sha256 h) cells) cells) (cell_sha256 h c) = Some c"
proof -
  have "(cell_sha256 h c, c) \<in> set (zip (map (cell_sha256 h) cells) cells)"
    using assms(2) by (auto simp: in_set_conv_nth in_set_zip)
  moreover have "distinct (map fst (zip (map (cell_sha256 h) cells) cells))" using assms(1) by simp
  ultimately show ?thesis by (rule map_of_is_SomeI [rotated])
qed

lemma demo_row_valid:
  assumes pairs: "paired_faults pairs" and p: "p \<in> set pairs"
  shows "validate_row grid_hasher (map_of (zip (map (cell_sha256 grid_hasher) (demo_cells pairs)) (demo_cells pairs)))
    (demo_row p) = Inr (map snd (row_references (demo_row p)))"
proof -
  obtain f g where fg: "p = (f, g)" by fastforce
  note lookup = lookup_of [OF demo_cells_distinct [OF pairs]]
  have cells: "demo_clean \<in> set (demo_cells pairs)" "demo_no_touch \<in> set (demo_cells pairs)"
    "demo_faulted f \<in> set (demo_cells pairs)" "demo_resumed g \<in> set (demo_cells pairs)"
    using p fg by (auto simp: demo_cells_def)
  have ok: "same_instance f g" "py_eq (PDict (static_parameter_view (fm_parameters f))) (PDict (static_parameter_view (fm_parameters g)))"
    "fm_stop_index g = 2" "2 < fm_stop_index f"
    using pairs p fg by (auto simp: paired_faults_def list_all_iff)
  then have meta: "fm_operator_id g = fm_operator_id f" "fm_severity_level g = fm_severity_level f"
    by (simp_all add: same_instance_def)
  have "validate_operator_instance grid_hasher (demo_row p) (demo_faulted f) (demo_resumed g) = Inr ()"
    using ok by (simp add: validate_operator_instance_def fg demo_row_def demo_point_def demo_resumed_def demo_faulted_def)
  then show ?thesis
    using meta by (simp add: validate_row_def referenced_cell_def lookup [OF cells(1)] lookup [OF cells(2)] lookup [OF cells(3)]
        lookup [OF cells(4)] fg demo_row_def cell_operator_id_def cell_severity_level_def)
qed

lemma row_addresses: "map snd (row_references (demo_row p)) =
    map (cell_sha256 grid_hasher) [demo_clean, demo_faulted (fst p), demo_no_touch, demo_resumed (snd p)]"
  by (simp add: row_references_def demo_row_def case_prod_beta)

lemma demo_cells_set: "set (demo_cells pairs) =
    {demo_clean, demo_no_touch} \<union> (\<Union>p\<in>set pairs. {demo_faulted (fst p), demo_resumed (snd p)})"
  by (auto simp: demo_cells_def case_prod_beta)

lemma demo_inventory:
  assumes pairs: "paired_faults pairs"
    and primary: "kind = PRIMARY \<Longrightarrow> length pairs = 70 \<and>
      set (map (\<lambda>(f, g). (fm_operator_id f, fm_severity_level f)) pairs) = set PRIMARY_GRID"
  shows "matrix_manifest_init grid_hasher (demo_grid_of kind pairs) = Inr (demo_grid_of kind pairs)"
proof -
  let ?cells = "demo_cells pairs"
  let ?rows = "map demo_row pairs"
  let ?refs = "map (\<lambda>row. map snd (row_references row)) ?rows"
  have one: "count_condition CLEAN ?cells = 1" "count_condition NO_TOUCH ?cells = 1"
    by (auto simp: count_condition_def demo_cells_def filter_empty_conv)
  have points: "distinct (map mr_point_id ?rows)"
  proof -
    have "map mr_point_id ?rows = map (\<lambda>s. s @ replicate 62 (CHR ''0'')) (map (\<lambda>(f, g). fault_code f) pairs)"
      by (simp add: demo_row_def demo_point_code case_prod_beta)
    moreover have "distinct (map (\<lambda>s. s @ replicate 62 (CHR ''0'')) (map (\<lambda>(f, g). fault_code f) pairs))"
      using pairs by (subst distinct_map) (simp add: paired_faults_def inj_on_def)
    ultimately show ?thesis by (simp only:)
  qed
  have blind: "\<not> list_ex (\<lambda>cell. case mc_fault cell of None \<Rightarrow> False | Some f \<Rightarrow> fm_observability f \<noteq> BLIND) ?cells"
    using pairs by (auto simp: list_ex_iff demo_cells_def paired_faults_def list_all_iff same_instance_def)
  have rows: "mapr (validate_row grid_hasher (map_of (zip (map (cell_sha256 grid_hasher) ?cells) ?cells))) ?rows = Inr ?refs"
    unfolding mapr_iff_list_all2
    by (simp add: list_all2_map1 list_all2_map2 list.rel_refl_strong demo_row_valid [OF pairs])
  have all: "set (concat ?refs) = set (map (cell_sha256 grid_hasher) ?cells)"
  proof -
    obtain p where p: "p \<in> set pairs" using pairs unfolding paired_faults_def by (metis list.set_intros(1) neq_Nil_conv)
    have "set (concat ?refs) = cell_sha256 grid_hasher ` (\<Union>p\<in>set pairs.
        {demo_clean, demo_faulted (fst p), demo_no_touch, demo_resumed (snd p)})"
      by (simp add: row_addresses image_Un image_UN)
    also have "(\<Union>p\<in>set pairs. {demo_clean, demo_faulted (fst p), demo_no_touch, demo_resumed (snd p)}) = set ?cells"
      unfolding demo_cells_set using p by blast
    finally show ?thesis by simp
  qed
  have keys: "set (map (cell_pair_key grid_hasher) ?cells) = {demo_sha}"
    by (auto simp: demo_pair_key demo_cells_def)
  have grid: "set (map (\<lambda>r. (mr_operator_id r, mr_severity_level r)) ?rows) =
      set (map (\<lambda>(f, g). (fm_operator_id f, fm_severity_level f)) pairs)"
    by (simp add: demo_row_def case_prod_beta image_image)
  have "validate_inventory grid_hasher (demo_grid_of kind pairs) = Inr ()"
    using pairs primary demo_cells_distinct [OF pairs] one points blind rows all keys grid
    unfolding validate_inventory_def demo_grid_of_def matrix_manifest.simps Let_def paired_faults_def
    by (simp add: demo_cells_def)
  then show ?thesis
    by (simp add: matrix_manifest_init_def demo_grid_of_def check_sha_ok bindr_simps blank_def)
qed

section \<open>The two faults\<close>

lemma demo_persistent_init:
  "manifest_init grid_hasher (operator_name A1_stream_absence) 1 3 1 3 [''left'', ''right''] BLIND []
     FAULT_MANIFEST_SEMANTIC_VERSION OPERATOR_IMPLEMENTATION_VERSION SEVERITY_REGISTRY_ID = Inr demo_persistent"
  by code_simp

lemma demo_restored_init:
  "manifest_init grid_hasher (operator_name A1_stream_absence) 1 3 1 2 [''left'', ''right''] BLIND []
     FAULT_MANIFEST_SEMANTIC_VERSION OPERATOR_IMPLEMENTATION_VERSION SEVERITY_REGISTRY_ID = Inr demo_restored"
  by code_simp

lemmas demo_faults_init = demo_persistent_init demo_restored_init

lemmas demo_faults_ok = demo_faults_init [THEN manifest_init_ok]

lemma demo_persistent_fields:
  "fm_operator_id demo_persistent = A1_stream_absence" "fm_severity_level demo_persistent = 1"
  "fm_stop_index demo_persistent = 3" "fm_observability demo_persistent = BLIND"
  using manifest_init_Inr(1,2,5,7) [OF demo_faults_init(1)] by (simp_all only: operator_name_inj)

lemma demo_restored_fields:
  "fm_operator_id demo_restored = A1_stream_absence" "fm_severity_level demo_restored = 1"
  "fm_stop_index demo_restored = 2" "fm_observability demo_restored = BLIND"
  using manifest_init_Inr(1,2,5,7) [OF demo_faults_init(2)] by (simp_all only: operator_name_inj)

section \<open>The primary grid\<close>

definition primary_pair :: "operator_id \<times> int \<Rightarrow> fault_manifest \<times> fault_manifest" where
  "primary_pair = (\<lambda>(op, level).
     (demo_persistent\<lparr>fm_operator_id := op, fm_severity_level := level\<rparr>,
      demo_restored\<lparr>fm_operator_id := op, fm_severity_level := level\<rparr>))"

definition demo_primary :: matrix_manifest where
  "demo_primary = demo_grid_of PRIMARY (map primary_pair PRIMARY_GRID)"

lemma demo_pair_fields:
  "same_instance demo_persistent demo_restored" "fm_stop_index demo_restored = 2" "2 < fm_stop_index demo_persistent"
  "fm_observability demo_persistent = BLIND"
  "py_eq (PDict (static_parameter_view (fm_parameters demo_persistent))) (PDict (static_parameter_view (fm_parameters demo_restored)))"
  using demo_grid demo_persistent_fields demo_restored_fields by (simp_all add: grid_request_def)

lemma primary_codes: "distinct (map (\<lambda>(op, level). [hex_digit (operator_index (operator_name op)), hex_digit (nat level)]) PRIMARY_GRID)"
proof -
  have "map (\<lambda>op. hex_digit (operator_index (operator_name op))) CORE_OPERATOR_IDS = ''0123456789abcd''" by code_simp
  then have "distinct (map (\<lambda>op. hex_digit (operator_index (operator_name op))) CORE_OPERATOR_IDS)" by simp
  moreover have "map (\<lambda>level :: int. hex_digit (nat level)) [1, 2, 3, 4, 5] = ''12345''" by code_simp
  then have "distinct (map (\<lambda>level :: int. hex_digit (nat level)) [1, 2, 3, 4, 5])" by (simp only:) simp
  moreover have "set PRIMARY_GRID \<subseteq> set CORE_OPERATOR_IDS \<times> set [1, 2, 3, 4, 5]" by (auto simp: PRIMARY_GRID_def)
  ultimately show ?thesis
    unfolding distinct_map [of _ PRIMARY_GRID] using primary_grid_distinct(1)
    by (auto simp only: distinct_map inj_on_def case_prod_beta list.inject prod_eq_iff subset_iff mem_Times_iff)
qed

lemma demo_primary_pairs: "paired_faults (map primary_pair PRIMARY_GRID)"
proof -
  have codes: "map (\<lambda>(f, g). fault_code f) (map primary_pair PRIMARY_GRID) =
      map (\<lambda>(op, level). [hex_digit (operator_index (operator_name op)), hex_digit (nat level)]) PRIMARY_GRID"
    by (simp add: primary_pair_def fault_code_def case_prod_beta)
  have "PRIMARY_GRID \<noteq> []" using primary_grid_distinct(2) by auto
  then show ?thesis
    using demo_pair_fields unfolding paired_faults_def codes
    by (auto simp: primary_codes list_all_iff primary_pair_def same_instance_def)
qed

lemma demo_primary_valid: "matrix_manifest_init grid_hasher demo_primary = Inr demo_primary"
  unfolding demo_primary_def
  by (rule demo_inventory [OF demo_primary_pairs])
     (simp add: primary_grid_distinct primary_pair_def case_prod_beta image_image)

section \<open>A focused matrix\<close>

definition demo_matrix :: matrix_manifest where
  "demo_matrix = demo_grid_of FOCUSED_RESTORATION [(demo_persistent, demo_restored)]"

definition demo_outcome :: "matrix_cell \<Rightarrow> cell_execution result" where
  "demo_outcome c =
     (case tm_condition (mc_trial c) of
        CLEAN \<Rightarrow> Inr \<lparr>cx_status = Completed_cell,
          cx_artifact = Some \<lparr>ar_result_sha256 = demo_sha, ar_root_receipt_sha256 = demo_sha, ar_evidence_level = ''full''\<rparr>,
          cx_failure_code = None\<rparr>
      | NO_TOUCH \<Rightarrow> Inr \<lparr>cx_status = Unsupported_cell, cx_artifact = None, cx_failure_code = Some ''unsupported_contract''\<rparr>
      | FAULTED \<Rightarrow> Inl (RuntimeError ''backend failed'')
      | RESTORED \<Rightarrow> Inr \<lparr>cx_status = Crashed_cell, cx_artifact = None, cx_failure_code = Some ''crash''\<rparr>)"

lemma demo_manifest_hash: "manifest_sha256 grid_hasher f = demo_sha"
  unfolding manifest_sha256_def by (rule plain_digest) (simp_all add: manifest_to_dict_def)

lemma demo_trials_ok:
  "trial_ok grid_hasher (mc_trial demo_clean)" "trial_ok grid_hasher (mc_trial demo_no_touch)"
  "trial_ok grid_hasher (mc_trial (demo_faulted f))" "trial_ok grid_hasher (mc_trial (demo_resumed f))"
proof -
  have system: "system_manifest_hash grid_hasher a b c d = demo_sha" for a b c d
    unfolding system_manifest_hash_def by (rule plain_digest) simp_all
  show "trial_ok grid_hasher (mc_trial demo_clean)" "trial_ok grid_hasher (mc_trial demo_no_touch)"
    "trial_ok grid_hasher (mc_trial (demo_faulted f))" "trial_ok grid_hasher (mc_trial (demo_resumed f))"
    by (simp_all add: trial_ok_def trial_init_def demo_clean_def demo_no_touch_def demo_faulted_def demo_resumed_def
        demo_trial_def system demo_manifest_hash check_faulted_def check_restoration_def check_no_touch_def check_sha_ok
        bindr_simps)
qed

lemma demo_cells_ok: "list_all (cell_ok grid_hasher) (demo_cells [(demo_persistent, demo_restored)])"
proof -
  have init: "cell_init grid_hasher demo_clean = Inr demo_clean" "cell_init grid_hasher demo_no_touch = Inr demo_no_touch"
    "cell_init grid_hasher (demo_faulted f) = Inr (demo_faulted f)"
    "cell_init grid_hasher (demo_resumed f) = Inr (demo_resumed f)" for f
    by (simp_all add: cell_init_def) (simp_all add: demo_clean_def demo_no_touch_def demo_faulted_def demo_resumed_def)
  show ?thesis by (simp add: demo_cells_def cell_ok_def demo_trials_ok init demo_faults_ok)
qed

lemma demo_matrix_valid: "matrix_manifest_init grid_hasher demo_matrix = Inr demo_matrix"
  unfolding demo_matrix_def
  by (rule demo_inventory) (use demo_pair_fields in \<open>simp_all add: paired_faults_def\<close>)

lemma demo_matrix_ok: "matrix_manifest_ok grid_hasher demo_matrix"
proof -
  have dose: "severity_value (fm_operator_id demo_persistent) (fm_severity_level demo_persistent) =
      Inr (mr_native_dose (demo_row (demo_persistent, demo_restored)))"
    unfolding demo_row_def demo_persistent_fields prod.case matrix_row.simps by code_simp
  have "\<not> blank (demo_point demo_persistent)" "\<not> blank (fault_code demo_persistent)"
    unfolding demo_point_code fault_code_def demo_persistent_fields by code_simp+
  with dose demo_persistent_fields have "row_ok (demo_row (demo_persistent, demo_restored))"
    using sha_digests_def grid_digests by (simp add: row_ok_def demo_row_def cell_sha256_def canonical_hash_def)
  then show ?thesis
    using demo_matrix_valid demo_cells_ok by (simp add: matrix_manifest_ok_def demo_matrix_def demo_grid_of_def)
qed

lemma demo_runnable: "runnable grid_hasher (\<lambda>v. 100) demo_matrix demo_outcome"
proof -
  have cells: "list_all (\<lambda>c. cell_reloadable c \<and> \<not> blank (tm_task (mc_trial c))) (mm_cells demo_matrix)"
  proof -
    show ?thesis
      by (simp add: demo_matrix_def demo_grid_of_def demo_cells_def cell_reloadable_def demo_persistent_fields demo_restored_fields)
         (simp add: demo_clean_def demo_no_touch_def demo_faulted_def demo_resumed_def demo_trial_def blank_def)
  qed
  have outcomes: "sound_outcomes demo_outcome (mm_cells demo_matrix)"
    by (simp add: sound_outcomes_def demo_matrix_def demo_grid_of_def demo_cells_def demo_outcome_def execution_check_def
        artifact_ok_def artifact_init_def check_sha_ok bindr_simps blank_def)
  show ?thesis
    using demo_matrix_ok cells outcomes
    by (simp add: runnable_def fits_def MAX_MANIFEST_BYTES_def MAX_RECEIPT_BYTES_def MAX_SUMMARY_BYTES_def list_all_iff)
qed

text \<open>The resumption lemmas hold of the model's own runner on this matrix.\<close>

interpretation demo: resumable grid_hasher "\<lambda>v. 100" demo_matrix demo_outcome
  by unfold_locales (rule demo_runnable grid_digests)+

end
