(* ===== verification/Metrics.thy ===== *)
theory Metrics
  imports Operator_Frames
begin

text \<open>
  The registered metrics (\<open>metrics.py\<close>): tactile gain retention and the recovery lag.  The peak
  signal-to-noise ratio goes through numpy's logarithm and is not modelled.
\<close>

section \<open>Tactile gain retention\<close>

definition tactile_gain_retention :: "rat \<Rightarrow> rat \<Rightarrow> rat \<Rightarrow> rat \<Rightarrow> rat result" where
  "tactile_gain_retention clean no_touch fault minimum_gain =
     (if minimum_gain \<le> 0 then Inl (ValueError ''minimum_gain must be positive'')
      else let gain = fsub clean no_touch in
           if gain \<le> minimum_gain then Inl (ValueError ''clean tactile gain is not sufficiently positive'')
           else Inr (fdiv (fsub fault no_touch) gain))"

lemma fl64_zero: "fl64 0 = 0"
  using fl64_of_int [of 0] by simp

lemma fl64_one: "fl64 1 = 1"
  using fl64_of_int [of 1] by simp
text \<open>The retention of a fault that changes nothing is one, of a fault that removes touch zero.\<close>

lemma retention_clean: "tactile_gain_retention clean no_touch clean minimum_gain = Inr r \<Longrightarrow> r = 1"
  by (auto simp: tactile_gain_retention_def Let_def fdiv_def fl64_one split: if_splits)

lemma retention_no_touch: "tactile_gain_retention clean no_touch no_touch minimum_gain = Inr r \<Longrightarrow> r = 0"
  by (auto simp: tactile_gain_retention_def Let_def fdiv_def fsub_def fl64_zero split: if_splits)

section \<open>Recovery lag\<close>

text \<open>A run of samples inside the clean envelope.\<close>

definition inside :: "rat list \<Rightarrow> rat list \<Rightarrow> rat \<Rightarrow> int \<Rightarrow> int \<Rightarrow> bool" where
  "inside quality envelope tolerance consecutive index \<longleftrightarrow>
     list_all (\<lambda>offset. \<bar>fsub (quality ! nat offset) (envelope ! nat offset)\<bar> \<le> tolerance)
       [index..index + consecutive - 1]"

definition recovery_lag :: "rat list \<Rightarrow> rat list \<Rightarrow> int \<Rightarrow> rat \<Rightarrow> int \<Rightarrow> int option result" where
  "recovery_lag quality envelope stop tolerance consecutive =
     (if tolerance < 0 then Inl (ValueError ''tolerance must be non-negative'')
      else if length quality \<noteq> length envelope
      then Inl (ValueError ''quality and clean envelope lengths must match'')
      else if consecutive \<le> 0 then Inl (ValueError ''consecutive_steps must be positive'')
      else if stop < 0 \<or> int (length quality) \<le> stop
      then Inl (ValueError ''fault_stop_index must identify the first restored sample'')
      else Inr (map_option (\<lambda>index. index - stop)
             (find (inside quality envelope tolerance consecutive) [stop..int (length quality) - consecutive])))"

text \<open>The reference definition: the criterion holds from the sample \<open>lag\<close> after the restoration.\<close>

definition recovered_at :: "rat list \<Rightarrow> rat list \<Rightarrow> int \<Rightarrow> rat \<Rightarrow> int \<Rightarrow> int \<Rightarrow> bool" where
  "recovered_at quality envelope stop tolerance consecutive lag \<longleftrightarrow>
     0 \<le> lag \<and> stop + lag + consecutive \<le> int (length quality) \<and>
     (\<forall>i. stop + lag \<le> i \<and> i < stop + lag + consecutive \<longrightarrow>
        \<bar>fsub (quality ! nat i) (envelope ! nat i)\<bar> \<le> tolerance)"

lemma inside_iff: "inside quality envelope tolerance consecutive (stop + lag) \<longleftrightarrow>
    (\<forall>i. stop + lag \<le> i \<and> i < stop + lag + consecutive \<longrightarrow> \<bar>fsub (quality ! nat i) (envelope ! nat i)\<bar> \<le> tolerance)"
  by (auto simp: inside_def list_all_iff)

lemma find_upto_Some: "find P [a..b] = Some i \<longleftrightarrow> a \<le> i \<and> i \<le> b \<and> P i \<and> (\<forall>j. a \<le> j \<and> j < i \<longrightarrow> \<not> P j)"
proof (induction a b rule: upto.induct)
  case (1 a b)
  show ?case
  proof (cases "a \<le> b")
    case True
    have first: "find P [a..b] = (if P a then Some a else find P [a + 1..b])"
      using True by (simp add: upto.simps [of a b])
    show ?thesis
    proof (cases "P a")
      case True
      with first \<open>a \<le> b\<close> show ?thesis by (auto simp: not_less)
    next
      case False
      have "(\<forall>j. a \<le> j \<and> j < i \<longrightarrow> \<not> P j) \<longleftrightarrow> (\<forall>j. a + 1 \<le> j \<and> j < i \<longrightarrow> \<not> P j)"
        using False by (metis add1_zle_eq order_le_less)
      moreover have "P i \<Longrightarrow> a \<le> i \<longleftrightarrow> a + 1 \<le> i" using False by (metis add1_zle_eq order_le_less)
      ultimately show ?thesis using first False 1 [OF \<open>a \<le> b\<close>] by auto
    qed
  qed simp
qed

lemma find_upto_None: "find P [a..b] = None \<longleftrightarrow> (\<forall>j. a \<le> j \<and> j \<le> b \<longrightarrow> \<not> P j)"
  by (auto simp: find_None_iff)

text \<open>The lag is the first at which the criterion holds, and there is none if it never does.\<close>

lemma recovery_lag_first:
  assumes "recovery_lag quality envelope stop tolerance consecutive = Inr lag"
  shows "case lag of
      Some k \<Rightarrow> recovered_at quality envelope stop tolerance consecutive k \<and>
        (\<forall>j<k. \<not> recovered_at quality envelope stop tolerance consecutive j)
    | None \<Rightarrow> \<forall>j. \<not> recovered_at quality envelope stop tolerance consecutive j"
proof -
  have found: "lag = map_option (\<lambda>index. index - stop)
      (find (inside quality envelope tolerance consecutive) [stop..int (length quality) - consecutive])"
    using assms by (auto simp: recovery_lag_def split: if_splits)
  have at: "recovered_at quality envelope stop tolerance consecutive j \<longleftrightarrow>
      stop \<le> stop + j \<and> stop + j \<le> int (length quality) - consecutive \<and>
      inside quality envelope tolerance consecutive (stop + j)" for j
    unfolding recovered_at_def inside_iff by auto
  show ?thesis
  proof (cases "find (inside quality envelope tolerance consecutive) [stop..int (length quality) - consecutive]")
    case None
    with found have "lag = None" by simp
    moreover have "\<not> recovered_at quality envelope stop tolerance consecutive j" for j
      using None unfolding find_upto_None at by blast
    ultimately show ?thesis by simp
  next
    case (Some i)
    then have i: "stop \<le> i" "i \<le> int (length quality) - consecutive" "inside quality envelope tolerance consecutive i"
      "\<And>j. stop \<le> j \<Longrightarrow> j < i \<Longrightarrow> \<not> inside quality envelope tolerance consecutive j"
      unfolding find_upto_Some by blast+
    have "lag = Some (i - stop)" using found Some by simp
    moreover have "recovered_at quality envelope stop tolerance consecutive (i - stop)" unfolding at using i by simp
    moreover have "\<not> recovered_at quality envelope stop tolerance consecutive j" if "j < i - stop" for j
      unfolding at using i(4) [of "stop + j"] that by auto
    ultimately show ?thesis by simp
  qed
qed

lemma recovery_lag_valid:
  assumes "recovery_lag quality envelope stop tolerance consecutive = Inr lag"
  shows "0 \<le> tolerance" "length quality = length envelope" "0 < consecutive" "0 \<le> stop" "stop < int (length quality)"
    "\<And>k. lag = Some k \<Longrightarrow> 0 \<le> k"
proof -
  show "0 \<le> tolerance" "length quality = length envelope" "0 < consecutive" "0 \<le> stop" "stop < int (length quality)"
    using assms by (auto simp: recovery_lag_def split: if_splits)
  show "0 \<le> k" if "lag = Some k" for k
    using recovery_lag_first [OF assms] that by (simp add: recovered_at_def)
qed

end
