(* ===== verification/Report_Contracts.thy ===== *)
theory Report_Contracts
  imports Matrix_Contracts Metrics
begin

text \<open>
  The inputs of the reports (\<open>reporting/contracts.py\<close>) and the evidence of behavioural recovery
  (\<open>reporting/recovery_evidence_contracts.py\<close>).
\<close>

definition REPORTING_SEMANTIC_VERSION :: string where
  "REPORTING_SEMANTIC_VERSION = ''1.0''"

fun report_finite :: "pyval \<Rightarrow> rat result" where
  "report_finite (PInt i) = Inr (fl64 (of_int i))"
| "report_finite (PFloat x) = Inr x"
| "report_finite PNonFinite = Inl (ValueError ''must be finite'')"
| "report_finite v = Inl (TypeError ''must be a real number'')"

definition operator_axis :: "string \<Rightarrow> string result" where
  "operator_axis name =
     (if operator_of_name name = None then Inl (ValueError ''unknown core operator'')
      else Inr (case name of
          c # cs \<Rightarrow> if c = CHR ''A'' then ''availability'' else if c = CHR ''F'' then ''fidelity''
            else if c = CHR ''T'' then ''temporal'' else ''context''
        | [] \<Rightarrow> []))"

section \<open>The reporting specification\<close>

record reporting_spec =
  rp_system_id :: string
  rp_matched_control_qualified :: bool
  rp_minimum_clean_gain :: rat
  rp_primary_operator_ids :: "string list"
  rp_bootstrap_resamples :: int
  rp_bootstrap_seed :: int
  rp_primary_severity_levels :: "int list"
  rp_confidence_level :: rat
  rp_semantic_version :: string

fun report_text :: "pyval \<Rightarrow> string result" where
  "report_text (PStr s) = (if s = [] then Inl (ValueError ''must be a non-empty string'') else Inr s)"
| "report_text v = Inl (ValueError ''must be a non-empty string'')"

fun report_bool :: "pyval \<Rightarrow> bool result" where
  "report_bool (PBool b) = Inr b"
| "report_bool v = Inl (TypeError ''must be bool'')"

text \<open>Membership in a set: numbers are equal by value, lists and dictionaries cannot be hashed.\<close>

fun number_key :: "pyval \<Rightarrow> pyval" where
  "number_key (PBool b) = PFloat (if b then 1 else 0)"
| "number_key (PInt i) = PFloat (of_int i)"
| "number_key v = v"

fun unhashable :: "pyval \<Rightarrow> bool" where
  "unhashable (PList vs) \<longleftrightarrow> True"
| "unhashable (PDict d) \<longleftrightarrow> True"
| "unhashable v \<longleftrightarrow> False"

definition inventory :: "pyval list \<Rightarrow> pyval list result" where
  "inventory vs =
     (if list_ex unhashable vs then Inl (TypeError ''unhashable type'')
      else if vs = [] \<or> \<not> distinct (map number_key vs) then Inl (ValueError ''must be non-empty and unique'')
      else Inr vs)"

fun known_operator :: "pyval \<Rightarrow> string result" where
  "known_operator (PStr s) = (if operator_of_name s = None then Inl (ValueError ''unknown primary operators'') else Inr s)"
| "known_operator v = Inl (ValueError ''unknown primary operators'')"

fun inventory_list :: "pyval \<Rightarrow> pyval list result" where
  "inventory_list (PList vs) = Inr vs"
| "inventory_list v = Inl (TypeError ''primary operator and severity inventories must be lists'')"

text \<open>The constructor, called with keyword arguments.\<close>

definition reporting_spec_init :: "params \<Rightarrow> reporting_spec result" where
  "reporting_spec_init d =
     bindr (report_text (dget d ''system_id'')) (\<lambda>system.
     bindr (report_bool (dget d ''matched_control_qualified'')) (\<lambda>qualified.
     bindr (report_finite (dget d ''minimum_clean_gain'')) (\<lambda>gain.
     if gain \<le> 0 then Inl (ValueError ''minimum_clean_gain must be positive'')
     else bindr (bindr (inventory_list (dget d ''primary_operator_ids'')) inventory) (\<lambda>ids.
          bindr (mapr known_operator ids) (\<lambda>operators.
          bindr (bindr (inventory_list (dget d ''primary_severity_levels'')) inventory) (\<lambda>levels.
          bindr (mapr (json_bounded 1) levels) (\<lambda>severities.
          if list_ex (\<lambda>level. 5 < level) severities
          then Inl (ValueError ''primary severity levels must lie in [1, 5]'')
          else bindr (json_bounded 1 (dget d ''bootstrap_resamples'')) (\<lambda>resamples.
               bindr (json_bounded 0 (dget d ''bootstrap_seed'')) (\<lambda>seed.
               bindr (report_finite (dget d ''confidence_level'')) (\<lambda>confidence.
               if \<not> (0 < confidence \<and> confidence < 1)
               then Inl (ValueError ''confidence_level must lie in (0, 1)'')
               else if dget d ''semantic_version'' \<noteq> PStr REPORTING_SEMANTIC_VERSION
               then Inl (ValueError ''unsupported reporting semantic version'')
               else Inr \<lparr>rp_system_id = system, rp_matched_control_qualified = qualified, rp_minimum_clean_gain = gain,
                    rp_primary_operator_ids = sort operators, rp_bootstrap_resamples = resamples,
                    rp_bootstrap_seed = seed, rp_primary_severity_levels = sort severities,
                    rp_confidence_level = confidence, rp_semantic_version = REPORTING_SEMANTIC_VERSION\<rparr>))))))))))"

definition reporting_spec_to_dict :: "reporting_spec \<Rightarrow> params" where
  "reporting_spec_to_dict s =
     [(''system_id'', PStr (rp_system_id s)), (''matched_control_qualified'', PBool (rp_matched_control_qualified s)),
      (''minimum_clean_gain'', PFloat (rp_minimum_clean_gain s)),
      (''primary_operator_ids'', PList (map PStr (rp_primary_operator_ids s))),
      (''primary_severity_levels'', PList (map PInt (rp_primary_severity_levels s))),
      (''bootstrap_resamples'', PInt (rp_bootstrap_resamples s)), (''bootstrap_seed'', PInt (rp_bootstrap_seed s)),
      (''confidence_level'', PFloat (rp_confidence_level s)), (''semantic_version'', PStr (rp_semantic_version s))]"

definition REPORTING_SPEC_FIELDS :: "string list" where
  "REPORTING_SPEC_FIELDS =
     [''system_id'', ''matched_control_qualified'', ''minimum_clean_gain'', ''primary_operator_ids'',
      ''bootstrap_resamples'', ''bootstrap_seed'', ''primary_severity_levels'', ''confidence_level'', ''semantic_version'']"

definition reporting_spec_from_dict :: "pyval \<Rightarrow> reporting_spec result" where
  "reporting_spec_from_dict v =
     bindr (mapping_fields REPORTING_SPEC_FIELDS v) (\<lambda>d.
     bindr (inventory_list (dget d ''primary_operator_ids'')) (\<lambda>_.
     bindr (inventory_list (dget d ''primary_severity_levels'')) (\<lambda>_. reporting_spec_init d)))"

definition reporting_spec_ok :: "reporting_spec \<Rightarrow> bool" where
  "reporting_spec_ok s \<longleftrightarrow>
     rp_system_id s \<noteq> [] \<and> 0 < rp_minimum_clean_gain s \<and>
     rp_primary_operator_ids s \<noteq> [] \<and> distinct (rp_primary_operator_ids s) \<and> sorted (rp_primary_operator_ids s) \<and>
     list_all (\<lambda>name. operator_of_name name \<noteq> None) (rp_primary_operator_ids s) \<and>
     rp_primary_severity_levels s \<noteq> [] \<and> distinct (rp_primary_severity_levels s) \<and>
     sorted (rp_primary_severity_levels s) \<and> list_all (\<lambda>l. 1 \<le> l \<and> l \<le> 5) (rp_primary_severity_levels s) \<and>
     1 \<le> rp_bootstrap_resamples s \<and> 0 \<le> rp_bootstrap_seed s \<and>
     0 < rp_confidence_level s \<and> rp_confidence_level s < 1 \<and> rp_semantic_version s = REPORTING_SEMANTIC_VERSION"

lemma known_operator_PStr:
  "list_all (\<lambda>name. operator_of_name name \<noteq> None) ss \<Longrightarrow> mapr known_operator (map PStr ss) = Inr ss"
  by (auto simp: mapr_iff_list_all2 list_all2_map1 list_all_iff intro!: list.rel_refl_strong)

lemma inventory_PStr: "distinct ss \<Longrightarrow> ss \<noteq> [] \<Longrightarrow> inventory (map PStr ss) = Inr (map PStr ss)"
  by (auto simp: inventory_def list_ex_iff distinct_map inj_on_def)

lemma inventory_PInt: "distinct is \<Longrightarrow> is \<noteq> [] \<Longrightarrow> inventory (map PInt is) = Inr (map PInt is)"
  by (auto simp: inventory_def list_ex_iff distinct_map inj_on_def)

lemma json_bounded_ints: "list_all (\<lambda>i. n \<le> i) is \<Longrightarrow> mapr (json_bounded n) (map PInt is) = Inr is"
  by (auto simp: mapr_iff_list_all2 list_all2_map1 list_all_iff intro!: list.rel_refl_strong)

lemma reporting_spec_reload:
  assumes "reporting_spec_ok s"
  shows "reporting_spec_from_dict (PDict (reporting_spec_to_dict s)) = Inr s"
proof -
  have levels: "mapr (json_bounded 1) (map PInt (rp_primary_severity_levels s)) = Inr (rp_primary_severity_levels s)"
    by (rule json_bounded_ints) (use assms in \<open>auto simp: reporting_spec_ok_def list_all_iff\<close>)
  have "mapping_fields REPORTING_SPEC_FIELDS (PDict (reporting_spec_to_dict s)) = Inr (reporting_spec_to_dict s)"
    by (auto simp: mapping_fields_def REPORTING_SPEC_FIELDS_def reporting_spec_to_dict_def)
  then show ?thesis
    using assms levels known_operator_PStr [of "rp_primary_operator_ids s"] inventory_PStr [of "rp_primary_operator_ids s"]
      inventory_PInt [of "rp_primary_severity_levels s"]
    by (cases s) (auto simp: reporting_spec_from_dict_def reporting_spec_to_dict_def reporting_spec_init_def dget_def
        reporting_spec_ok_def list_ex_iff list_all_iff sorted_sort_id)
qed

section \<open>Outcomes\<close>

record outcome_record =
  oc_system_id :: string
  oc_task :: string
  oc_pair_key :: string
  oc_condition :: condition
  oc_terminal_status :: terminal_status
  oc_score_eligible :: bool
  oc_score_success :: "bool option"
  oc_source_root_sha256 :: string
  oc_operator_id :: "string option"
  oc_severity_level :: "int option"
  oc_recovery_eligible :: bool
  oc_recovery_lag_steps :: "int option"
  oc_semantic_version :: string

definition SCORE_INELIGIBLE :: "terminal_status list" where
  "SCORE_INELIGIBLE = [UNSUPPORTED_CONTRACT, VALIDATOR_REJECTED]"

definition check_score :: "outcome_record \<Rightarrow> unit result" where
  "check_score r =
     (if oc_score_eligible r
      then (if oc_score_success r = None then Inl (TypeError ''eligible outcomes require an exact bool score'')
            else if oc_terminal_status r \<in> set SCORE_INELIGIBLE
            then Inl (ValueError ''ineligible terminal status cannot be scored'') else Inr ())
      else if oc_score_success r \<noteq> None then Inl (ValueError ''ineligible outcomes cannot contain a success score'')
      else if oc_terminal_status r \<notin> set SCORE_INELIGIBLE
      then Inl (ValueError ''unscored outcome must preserve an ineligible status'') else Inr ())"

definition check_fault :: "outcome_record \<Rightarrow> unit result" where
  "check_fault r =
     (if oc_condition r \<in> {FAULTED, RESTORED}
      then (if (case oc_operator_id r of None \<Rightarrow> True | Some name \<Rightarrow> operator_of_name name = None)
            then Inl (ValueError ''faulted/restored outcome requires a core operator'')
            else case oc_severity_level r of
                None \<Rightarrow> Inl (TypeError ''must be an integer'')
              | Some level \<Rightarrow>
                  if level < 1 then Inl (ValueError ''must be at least'')
                  else if 5 < level then Inl (ValueError ''severity_level must be in [1, 5]'') else Inr ())
      else if oc_operator_id r \<noteq> None \<or> oc_severity_level r \<noteq> None
      then Inl (ValueError ''baseline outcomes cannot include fault metadata'') else Inr ())"

definition check_recovery :: "outcome_record \<Rightarrow> unit result" where
  "check_recovery r =
     (if oc_recovery_eligible r \<and> oc_condition r \<noteq> RESTORED
      then Inl (ValueError ''recovery is only defined for restored outcomes'')
      else case oc_recovery_lag_steps r of
          None \<Rightarrow> Inr ()
        | Some lag \<Rightarrow>
            if \<not> oc_recovery_eligible r then Inl (ValueError ''recovery lag requires an eligible recovery outcome'')
            else if lag < 0 then Inl (ValueError ''must be at least'') else Inr ())"

definition outcome_init :: "outcome_record \<Rightarrow> outcome_record result" where
  "outcome_init r =
     (if oc_system_id r = [] \<or> oc_task r = [] then Inl (ValueError ''must be a non-empty string'')
      else bindr (check_sha (oc_pair_key r)) (\<lambda>_.
           bindr (check_sha (oc_source_root_sha256 r)) (\<lambda>_.
           bindr (check_score r) (\<lambda>_.
           bindr (check_fault r) (\<lambda>_.
           bindr (check_recovery r) (\<lambda>_.
           if oc_semantic_version r \<noteq> REPORTING_SEMANTIC_VERSION
           then Inl (ValueError ''unsupported outcome semantic version'') else Inr r))))))"

definition outcome_axis :: "outcome_record \<Rightarrow> string option result" where
  "outcome_axis r =
     (case oc_operator_id r of None \<Rightarrow> Inr None
      | Some name \<Rightarrow> bindr (operator_axis name) (\<lambda>axis. Inr (Some axis)))"

type_synonym cell_identity = "string \<times> string \<times> string \<times> condition \<times> string option \<times> int option"

definition outcome_cell_key :: "outcome_record \<Rightarrow> cell_identity" where
  "outcome_cell_key r =
     (oc_system_id r, oc_task r, oc_pair_key r, oc_condition r, oc_operator_id r, oc_severity_level r)"

definition outcome_ok :: "outcome_record \<Rightarrow> bool" where
  "outcome_ok r \<longleftrightarrow> outcome_init r = Inr r"

lemma outcome_fields:
  assumes "outcome_ok r"
  shows "oc_score_eligible r \<longleftrightarrow> oc_score_success r \<noteq> None"
    "oc_condition r \<in> {FAULTED, RESTORED} \<Longrightarrow> \<exists>op level. oc_operator_id r = Some (operator_name op) \<and>
       oc_severity_level r = Some level \<and> 1 \<le> level \<and> level \<le> 5"
    "oc_recovery_lag_steps r = Some lag \<Longrightarrow> oc_recovery_eligible r \<and> 0 \<le> lag"
proof -
  have checks: "check_score r = Inr ()" "check_fault r = Inr ()" "check_recovery r = Inr ()"
    using assms by (auto simp: outcome_ok_def outcome_init_def bindr_eq_Inr split: if_splits)
  show "oc_score_eligible r \<longleftrightarrow> oc_score_success r \<noteq> None"
    using checks(1) by (auto simp: check_score_def split: if_splits)
  show "\<exists>op level. oc_operator_id r = Some (operator_name op) \<and>
       oc_severity_level r = Some level \<and> 1 \<le> level \<and> level \<le> 5" if "oc_condition r \<in> {FAULTED, RESTORED}"
    using checks(2) that operator_of_name_Some
    by (auto simp: check_fault_def split: if_splits option.splits)
  show "oc_recovery_eligible r \<and> 0 \<le> lag" if "oc_recovery_lag_steps r = Some lag"
    using checks(3) that by (auto simp: check_recovery_def split: if_splits)
qed

section \<open>Recovery evidence\<close>

definition RECOVERY_EVIDENCE_LEVEL :: string where
  "RECOVERY_EVIDENCE_LEVEL = ''unqualified_evaluator_recovery_signal_v1''"

definition RECOVERY_EVIDENCE_SEMANTIC_VERSION :: string where
  "RECOVERY_EVIDENCE_SEMANTIC_VERSION = ''1.0''"

definition CLEAN_ENVELOPE_ALIGNMENT :: string where
  "CLEAN_ENVELOPE_ALIGNMENT = ''task_and_phase_matched''"

definition POLICY_TASK_PROGRESS_SIGNAL_ID :: string where
  "POLICY_TASK_PROGRESS_SIGNAL_ID = ''robotactile.policy.evaluator_task_progress.v1''"

text \<open>\<open>not value or value.strip() != value\<close>.\<close>

definition canonical_text :: "string \<Rightarrow> bool" where
  "canonical_text s \<longleftrightarrow> s \<noteq> [] \<and> \<not> blank [hd s] \<and> \<not> blank [last s]"

fun evidence_text :: "pyval \<Rightarrow> string result" where
  "evidence_text (PStr s) = (if canonical_text s then Inr s else Inl (ValueError ''must be a non-empty canonical string''))"
| "evidence_text v = Inl (ValueError ''must be a non-empty canonical string'')"

record recovery_binding =
  rb_clean_root :: string
  rb_restored_root :: string
  rb_task :: string
  rb_pair_key :: string
  rb_operator_id :: string
  rb_severity_level :: int
  rb_restoration_index :: int

definition binding_init :: "recovery_binding \<Rightarrow> recovery_binding result" where
  "binding_init b =
     bindr (check_sha (rb_clean_root b)) (\<lambda>_.
     bindr (check_sha (rb_restored_root b)) (\<lambda>_.
     if rb_clean_root b = rb_restored_root b
     then Inl (ValueError ''clean and restored artifact roots must differ'')
     else bindr (evidence_text (PStr (rb_task b))) (\<lambda>_.
          bindr (check_sha (rb_pair_key b)) (\<lambda>_.
          bindr (evidence_text (PStr (rb_operator_id b))) (\<lambda>_.
          if operator_of_name (rb_operator_id b) = None
          then Inl (ValueError ''recovery operator_id must be a registered core operator'')
          else bindr (json_bounded 1 (PInt (rb_severity_level b))) (\<lambda>severity.
               if 5 < severity then Inl (ValueError ''severity_level must lie in [1, 5]'')
               else bindr (json_bounded 0 (PInt (rb_restoration_index b))) (\<lambda>_. Inr b)))))))"

definition binding_to_dict :: "recovery_binding \<Rightarrow> params" where
  "binding_to_dict b =
     [(''clean_live_artifact_root_sha256'', PStr (rb_clean_root b)),
      (''restored_live_artifact_root_sha256'', PStr (rb_restored_root b)), (''task'', PStr (rb_task b)),
      (''pair_key'', PStr (rb_pair_key b)), (''operator_id'', PStr (rb_operator_id b)),
      (''severity_level'', PInt (rb_severity_level b)), (''restoration_index'', PInt (rb_restoration_index b))]"

definition BINDING_FIELDS :: "string list" where
  "BINDING_FIELDS =
     [''clean_live_artifact_root_sha256'', ''restored_live_artifact_root_sha256'', ''task'', ''pair_key'', ''operator_id'',
      ''severity_level'', ''restoration_index'']"

definition binding_from_dict :: "pyval \<Rightarrow> recovery_binding result" where
  "binding_from_dict v =
     bindr (mapping_fields BINDING_FIELDS v) (\<lambda>d.
     bindr (json_sha256 (dget d ''clean_live_artifact_root_sha256'')) (\<lambda>clean.
     bindr (json_sha256 (dget d ''restored_live_artifact_root_sha256'')) (\<lambda>restored.
     bindr (evidence_text (dget d ''task'')) (\<lambda>task.
     bindr (json_sha256 (dget d ''pair_key'')) (\<lambda>pair.
     bindr (evidence_text (dget d ''operator_id'')) (\<lambda>operator.
     bindr (json_bounded 1 (dget d ''severity_level'')) (\<lambda>severity.
     bindr (json_bounded 0 (dget d ''restoration_index'')) (\<lambda>index.
     binding_init
       \<lparr>rb_clean_root = clean, rb_restored_root = restored, rb_task = task, rb_pair_key = pair,
        rb_operator_id = operator, rb_severity_level = severity, rb_restoration_index = index\<rparr>))))))))"

record recovery_evidence =
  re_binding :: recovery_binding
  re_signal_id :: string
  re_clean_envelope :: "rat list"
  re_restored_quality :: "rat list"
  re_tolerance :: rat
  re_consecutive_steps :: int
  re_recovery_lag_steps :: "int option"
  re_alignment :: string
  re_level :: string
  re_semantic_version :: string

definition recovery_evidence_init :: "recovery_evidence \<Rightarrow> recovery_evidence result" where
  "recovery_evidence_init e =
     bindr (evidence_text (PStr (re_signal_id e))) (\<lambda>_.
     if re_signal_id e \<noteq> POLICY_TASK_PROGRESS_SIGNAL_ID
     then Inl (ValueError ''signal_id is not a registered recovery signal'')
     else if re_clean_envelope e = [] \<or> length (re_clean_envelope e) \<noteq> length (re_restored_quality e)
     then Inl (ValueError ''clean envelope and restored quality must match'')
     else if re_tolerance e < 0 then Inl (ValueError ''tolerance must be non-negative'')
     else bindr (json_bounded 1 (PInt (re_consecutive_steps e))) (\<lambda>consecutive.
          let remaining = int (length (re_clean_envelope e)) - rb_restoration_index (re_binding e) in
          if remaining \<le> 0 \<or> remaining < consecutive
          then Inl (ValueError ''criterion requires an evaluable post-restoration window'')
          else if (case re_recovery_lag_steps e of None \<Rightarrow> False | Some lag \<Rightarrow> lag < 0)
          then Inl (ValueError ''must be at least'')
          else bindr (recovery_lag (re_restored_quality e) (re_clean_envelope e) (rb_restoration_index (re_binding e))
                 (re_tolerance e) consecutive) (\<lambda>recalculated.
               if re_recovery_lag_steps e \<noteq> recalculated
               then Inl (ValueError ''cached recovery lag is stale or inconsistent'')
               else if re_alignment e \<noteq> CLEAN_ENVELOPE_ALIGNMENT
               then Inl (ValueError ''clean envelope must be task- and phase-matched'')
               else if re_level e \<noteq> RECOVERY_EVIDENCE_LEVEL then Inl (ValueError ''unsupported recovery evidence level'')
               else if re_semantic_version e \<noteq> RECOVERY_EVIDENCE_SEMANTIC_VERSION
               then Inl (ValueError ''unsupported recovery evidence semantic version'') else Inr e)))"

definition recovery_evaluate ::
    "recovery_binding \<Rightarrow> string \<Rightarrow> rat list \<Rightarrow> rat list \<Rightarrow> rat \<Rightarrow> int \<Rightarrow> recovery_evidence result" where
  "recovery_evaluate b signal envelope quality tolerance consecutive =
     bindr (recovery_lag quality envelope (rb_restoration_index b) tolerance consecutive) (\<lambda>lag.
     recovery_evidence_init
       \<lparr>re_binding = b, re_signal_id = signal, re_clean_envelope = envelope, re_restored_quality = quality,
        re_tolerance = tolerance, re_consecutive_steps = consecutive, re_recovery_lag_steps = lag,
        re_alignment = CLEAN_ENVELOPE_ALIGNMENT, re_level = RECOVERY_EVIDENCE_LEVEL,
        re_semantic_version = RECOVERY_EVIDENCE_SEMANTIC_VERSION\<rparr>)"

definition recovery_evidence_to_dict :: "recovery_evidence \<Rightarrow> params" where
  "recovery_evidence_to_dict e =
     [(''binding'', PDict (binding_to_dict (re_binding e))), (''signal_id'', PStr (re_signal_id e)),
      (''clean_envelope'', PList (map PFloat (re_clean_envelope e))),
      (''restored_quality'', PList (map PFloat (re_restored_quality e))), (''tolerance'', PFloat (re_tolerance e)),
      (''consecutive_steps'', PInt (re_consecutive_steps e)),
      (''recovery_lag_steps'', opt_value PInt (re_recovery_lag_steps e)),
      (''clean_envelope_alignment'', PStr (re_alignment e)), (''evidence_level'', PStr (re_level e)),
      (''semantic_version'', PStr (re_semantic_version e))]"

definition RECOVERY_EVIDENCE_FIELDS :: "string list" where
  "RECOVERY_EVIDENCE_FIELDS =
     [''binding'', ''signal_id'', ''clean_envelope'', ''restored_quality'', ''tolerance'', ''consecutive_steps'',
      ''recovery_lag_steps'', ''clean_envelope_alignment'', ''evidence_level'', ''semantic_version'']"

fun json_sequence :: "pyval \<Rightarrow> pyval list result" where
  "json_sequence (PList vs) = Inr vs"
| "json_sequence v = Inl (TypeError ''must be a list or tuple'')"

fun optional_lag :: "pyval \<Rightarrow> int option result" where
  "optional_lag PNone = Inr None"
| "optional_lag v = bindr (json_bounded 0 v) (\<lambda>i. Inr (Some i))"

definition recovery_evidence_from_dict :: "pyval \<Rightarrow> recovery_evidence result" where
  "recovery_evidence_from_dict v =
     bindr (mapping_fields RECOVERY_EVIDENCE_FIELDS v) (\<lambda>d.
     bindr (json_sequence (dget d ''clean_envelope'')) (\<lambda>clean_values.
     bindr (json_sequence (dget d ''restored_quality'')) (\<lambda>restored_values.
     bindr (binding_from_dict (dget d ''binding'')) (\<lambda>b.
     bindr (evidence_text (dget d ''signal_id'')) (\<lambda>signal.
     bindr (mapr report_finite clean_values) (\<lambda>clean.
     bindr (mapr report_finite restored_values) (\<lambda>restored.
     bindr (report_finite (dget d ''tolerance'')) (\<lambda>tolerance.
     bindr (json_bounded 1 (dget d ''consecutive_steps'')) (\<lambda>consecutive.
     bindr (optional_lag (dget d ''recovery_lag_steps'')) (\<lambda>lag.
     bindr (evidence_text (dget d ''clean_envelope_alignment'')) (\<lambda>alignment.
     bindr (evidence_text (dget d ''evidence_level'')) (\<lambda>level.
     bindr (evidence_text (dget d ''semantic_version'')) (\<lambda>semver.
     recovery_evidence_init
       \<lparr>re_binding = b, re_signal_id = signal, re_clean_envelope = clean, re_restored_quality = restored,
        re_tolerance = tolerance, re_consecutive_steps = consecutive, re_recovery_lag_steps = lag,
        re_alignment = alignment, re_level = level, re_semantic_version = semver\<rparr>)))))))))))))"

lemma binding_init_id: "binding_init b = Inr c \<Longrightarrow> c = b"
  by (auto simp: binding_init_def bindr_eq_Inr split: if_splits)

lemma recovery_evidence_init_id: "recovery_evidence_init e = Inr f \<Longrightarrow> f = e"
  by (auto simp: recovery_evidence_init_def bindr_eq_Inr Let_def split: if_splits)

text \<open>Evidence can be read back, and evidence whose lag is not the recomputed one cannot be built.\<close>

lemma binding_reload: "binding_init b = Inr b \<Longrightarrow> binding_from_dict (PDict (binding_to_dict b)) = Inr b"
  by (cases b)
     (auto simp: binding_from_dict_def binding_to_dict_def mapping_fields_def BINDING_FIELDS_def dget_def binding_init_def
        bindr_eq_Inr split: if_splits)

lemma finite_floats [simp]: "mapr report_finite (map PFloat xs) = Inr xs"
  by (simp add: mapr_iff_list_all2 list_all2_map1 list.rel_refl)

lemma recovery_evidence_valid:
  assumes "recovery_evidence_init e = Inr f"
  shows "recovery_lag (re_restored_quality e) (re_clean_envelope e) (rb_restoration_index (re_binding e)) (re_tolerance e)
      (re_consecutive_steps e) = Inr (re_recovery_lag_steps e)"
    "canonical_text (re_signal_id e)" "1 \<le> re_consecutive_steps e" "\<And>k. re_recovery_lag_steps e = Some k \<Longrightarrow> 0 \<le> k"
    "re_alignment e = CLEAN_ENVELOPE_ALIGNMENT" "re_level e = RECOVERY_EVIDENCE_LEVEL"
    "re_semantic_version e = RECOVERY_EVIDENCE_SEMANTIC_VERSION"
  using assms by (auto simp: recovery_evidence_init_def bindr_eq_Inr Let_def split: if_splits)

lemma recovery_evidence_reload:
  assumes "binding_init (re_binding e) = Inr (re_binding e)" "recovery_evidence_init e = Inr e"
  shows "recovery_evidence_from_dict (PDict (recovery_evidence_to_dict e)) = Inr e"
proof -
  note v = recovery_evidence_valid [OF assms(2)]
  have texts: "canonical_text CLEAN_ENVELOPE_ALIGNMENT" "canonical_text RECOVERY_EVIDENCE_LEVEL"
    "canonical_text RECOVERY_EVIDENCE_SEMANTIC_VERSION"
    by (simp_all add: canonical_text_def blank_def CLEAN_ENVELOPE_ALIGNMENT_def RECOVERY_EVIDENCE_LEVEL_def
        RECOVERY_EVIDENCE_SEMANTIC_VERSION_def)
  have lag: "optional_lag (opt_value PInt (re_recovery_lag_steps e)) = Inr (re_recovery_lag_steps e)"
    using v(4) by (cases "re_recovery_lag_steps e") (simp_all add: opt_value_def)
  have fields: "mapping_fields RECOVERY_EVIDENCE_FIELDS (PDict (recovery_evidence_to_dict e)) = Inr (recovery_evidence_to_dict e)"
    by (simp add: mapping_fields_def RECOVERY_EVIDENCE_FIELDS_def recovery_evidence_to_dict_def)
  show ?thesis
    using binding_reload [OF assms(1)] v lag texts assms(2) fields
    by (cases e) (simp add: recovery_evidence_from_dict_def recovery_evidence_to_dict_def dget_def)
qed

end
