(* ===== verification/Statistics.thy ===== *)
theory Statistics
  imports PyFloat "HOL-Library.Product_Lexorder"
begin

text \<open>
  The paired statistics of the reports (\<open>reporting/statistics.py\<close>): the exact McNemar test, the Holm
  adjustment and the task-stratified bootstrap.  numpy's bit generator, mean and quantile are parameters.
  Kendall's tau, which no other module calls, is not modelled.
\<close>

section \<open>McNemar\<close>

record mcnemar_result =
  mn_reference_only :: int
  mn_comparison_only :: int
  mn_p_value :: rat
  mn_delta :: rat
  mn_pair_count :: int

definition count_where :: "('a \<Rightarrow> bool) \<Rightarrow> 'a list \<Rightarrow> nat" where
  "count_where P xs = length (filter P xs)"

text \<open>Quotients of integers are correctly rounded.\<close>

definition exact_mcnemar :: "bool list \<Rightarrow> bool list \<Rightarrow> mcnemar_result result" where
  "exact_mcnemar reference comparison =
     (if length reference \<noteq> length comparison then Inl (ValueError ''paired outcomes must have the same length'')
      else if reference = [] then Inl (ValueError ''paired outcomes must be non-empty'')
      else let a = count_where (\<lambda>(x, y). x \<and> \<not> y) (zip reference comparison);
               b = count_where (\<lambda>(x, y). \<not> x \<and> y) (zip reference comparison);
               discordant = a + b;
               p = (if discordant = 0 then 1
                    else min 1 (fmul 2 (fl64 (of_nat (\<Sum>i\<leftarrow>[0..<Suc (min a b)]. discordant choose i) / 2 ^ discordant))))
           in Inr \<lparr>mn_reference_only = int a, mn_comparison_only = int b, mn_p_value = p,
                mn_delta = fl64 ((of_nat (count_where id comparison) - of_nat (count_where id reference)) /
                                 of_nat (length reference)),
                mn_pair_count = int (length reference)\<rparr>)"

lemma count_swap:
  "count_where (\<lambda>(x, y). x \<and> \<not> y) (zip xs ys) = count_where (\<lambda>(x, y). \<not> x \<and> y) (zip ys xs)"
  by (subst zip_commute) (simp add: count_where_def filter_map comp_def case_prod_unfold conj_commute)

text \<open>The test does not depend on which of the two series is the reference.\<close>

lemma mcnemar_symmetric:
  assumes "exact_mcnemar xs ys = Inr r"
  shows "\<exists>s. exact_mcnemar ys xs = Inr s \<and> mn_p_value s = mn_p_value r \<and>
    mn_reference_only s = mn_comparison_only r \<and> mn_comparison_only s = mn_reference_only r"
  using assms count_swap [of xs ys] count_swap [of ys xs]
  by (auto simp: exact_mcnemar_def Let_def add.commute min.commute split: if_splits)

section \<open>Holm\<close>

text \<open>\<open>(count - rank) * value\<close>: the integer is converted to a float first.\<close>

definition scaled :: "nat \<Rightarrow> rat \<Rightarrow> rat" where
  "scaled n p = min 1 (fmul (fl64 (of_nat n)) p)"

fun holm_steps :: "rat \<Rightarrow> (string \<times> rat) list \<Rightarrow> (string \<times> rat) list" where
  "holm_steps running [] = []"
| "holm_steps running ((name, p) # rest) =
     (let running = max running (scaled (Suc (length rest)) p) in (name, running) # holm_steps running rest)"

definition holm_order :: "(string \<times> rat) list \<Rightarrow> (string \<times> rat) list" where
  "holm_order ps = sort_key (\<lambda>(name, p). (p, name)) ps"

definition holm_bonferroni :: "(string \<times> rat) list \<Rightarrow> (string \<times> rat) list result" where
  "holm_bonferroni ps =
     (if ps = [] then Inl (ValueError ''p_values must be non-empty'')
      else if list_ex (\<lambda>(name, p). name = []) ps
      then Inl (ValueError ''hypothesis names must be non-empty strings'')
      else if list_ex (\<lambda>(name, p). \<not> (0 \<le> p \<and> p \<le> 1)) ps then Inl (ValueError ''p-values must lie in [0, 1]'')
      else Inr (sort_key fst (holm_steps 0 (holm_order ps))))"

text \<open>
  Holm's step-down test at level \<open>\<alpha>\<close>, as the reference: in the order of the p-values the hypotheses are
  rejected as long as the p-value, multiplied by the number of hypotheses not yet rejected, is within
  the level.
\<close>

fun step_down :: "rat \<Rightarrow> (string \<times> rat) list \<Rightarrow> string list" where
  "step_down alpha [] = []"
| "step_down alpha ((name, p) # rest) =
     (if scaled (Suc (length rest)) p \<le> alpha then name # step_down alpha rest else [])"

lemma holm_steps_names: "map fst (holm_steps r ps) = map fst ps"
  by (induction r ps rule: holm_steps.induct) (simp_all add: Let_def)

lemma holm_steps_ge: "(name, q) \<in> set (holm_steps r ps) \<Longrightarrow> r \<le> q"
  by (induction r ps rule: holm_steps.induct) (auto simp: Let_def)

lemma holm_steps_le: "r \<le> 1 \<Longrightarrow> (name, q) \<in> set (holm_steps r ps) \<Longrightarrow> q \<le> 1"
  by (induction r ps rule: holm_steps.induct) (auto simp: Let_def scaled_def)

lemma holm_steps_sorted: "sorted (map snd (holm_steps r ps))"
proof (induction r ps rule: holm_steps.induct)
  case (2 running name p rest)
  then show ?case by (auto simp: Let_def dest: holm_steps_ge)
qed simp

text \<open>An adjusted p-value is within the level exactly if the step-down test rejects the hypothesis.\<close>

lemma holm_steps_reject:
  assumes "r \<le> alpha"
  shows "map fst (filter (\<lambda>(name, q). q \<le> alpha) (holm_steps r ps)) = step_down alpha ps"
  using assms
proof (induction r ps rule: holm_steps.induct)
  case (2 running name p rest)
  let ?r = "max running (scaled (Suc (length rest)) p)"
  show ?case
  proof (cases "scaled (Suc (length rest)) p \<le> alpha")
    case True
    with 2 show ?thesis by (simp add: Let_def)
  next
    case False
    then have "\<not> ?r \<le> alpha" by simp
    then have "filter (\<lambda>(name, q). q \<le> alpha) (holm_steps ?r rest) = []"
      by (auto simp: filter_empty_conv dest: holm_steps_ge)
    with False show ?thesis by (simp add: Let_def)
  qed
qed simp

lemma holm_Inr:
  assumes "holm_bonferroni ps = Inr adjusted"
  shows "adjusted = sort_key fst (holm_steps 0 (holm_order ps))" "set (map fst adjusted) = set (map fst ps)"
    "length adjusted = length ps"
proof -
  show a: "adjusted = sort_key fst (holm_steps 0 (holm_order ps))"
    using assms by (auto simp: holm_bonferroni_def split: if_splits)
  have names: "map fst (holm_steps 0 (holm_order ps)) = map fst (holm_order ps)" by (rule holm_steps_names)
  show "set (map fst adjusted) = set (map fst ps)"
    using arg_cong [OF names, of set] by (simp add: a holm_order_def)
  show "length adjusted = length ps"
    using arg_cong [OF names, of length] by (simp add: a holm_order_def)
qed

lemma holm_rejects:
  assumes "holm_bonferroni ps = Inr adjusted" "0 \<le> alpha"
  shows "{name. \<exists>q\<le>alpha. (name, q) \<in> set adjusted} = set (step_down alpha (holm_order ps))"
proof -
  have "set (step_down alpha (holm_order ps)) = fst ` {x \<in> set adjusted. snd x \<le> alpha}"
    unfolding holm_steps_reject [OF assms(2), symmetric] holm_Inr(1) [OF assms(1)]
    by (auto simp: image_iff case_prod_beta)
  then show ?thesis by force
qed

section \<open>The bootstrap\<close>

text \<open>numpy: a generator seeded by an integer, \<open>integers(0, n, size=n)\<close>, the mean of an array and its
  linear quantile.\<close>

record 'g sampler =
  sm_seed :: "int \<Rightarrow> 'g"
  sm_integers :: "nat \<Rightarrow> 'g \<Rightarrow> nat list \<times> 'g"
  sm_mean :: "rat list \<Rightarrow> rat"
  sm_quantile :: "rat list \<Rightarrow> rat \<Rightarrow> rat"

record interval_estimate =
  ie_estimate :: rat
  ie_lower :: rat
  ie_upper :: rat
  ie_confidence_level :: rat
  ie_valid_resamples :: int
  ie_task_count :: int
  ie_pair_count :: int

fun resample_tasks :: "'g sampler \<Rightarrow> rat list list \<Rightarrow> 'g \<Rightarrow> rat list \<times> 'g" where
  "resample_tasks S [] g = ([], g)"
| "resample_tasks S (values # rest) g =
     (case sm_integers S (length values) g of (selected, g) \<Rightarrow>
      case resample_tasks S rest g of (means, g) \<Rightarrow>
        (sm_mean S (map (\<lambda>i. values ! i) selected) # means, g))"

fun resamples :: "'g sampler \<Rightarrow> nat \<Rightarrow> rat list list \<Rightarrow> 'g \<Rightarrow> rat list" where
  "resamples S 0 strata g = []"
| "resamples S (Suc n) strata g =
     (case resample_tasks S strata g of (means, g) \<Rightarrow> sm_mean S means # resamples S n strata g)"

definition task_stratified_paired_bootstrap ::
    "'g sampler \<Rightarrow> (string \<times> rat list) list \<Rightarrow> int \<Rightarrow> rat \<Rightarrow> int \<Rightarrow> interval_estimate result" where
  "task_stratified_paired_bootstrap S differences n_resamples confidence seed =
     (if n_resamples \<le> 0 then Inl (ValueError ''must be positive'')
      else if \<not> (0 < confidence \<and> confidence < 1) then Inl (ValueError ''confidence_level must lie in (0, 1)'')
      else if seed < 0 then Inl (ValueError ''seed must be non-negative'')
      else if differences = [] then Inl (ValueError ''differences_by_task must be non-empty'')
      else if list_ex (\<lambda>(task, values). task = []) differences
      then Inl (ValueError ''task names must be non-empty strings'')
      else if list_ex (\<lambda>(task, values). values = []) differences
      then Inl (ValueError ''each task stratum must contain at least one pair'')
      else let strata = map snd (sort_key fst differences);
               samples = resamples S (nat n_resamples) strata (sm_seed S seed);
               alpha = fdiv (fsub 1 confidence) 2
           in Inr \<lparr>ie_estimate = sm_mean S (map (sm_mean S) strata), ie_lower = sm_quantile S samples alpha,
                ie_upper = sm_quantile S samples (fsub 1 alpha), ie_confidence_level = confidence,
                ie_valid_resamples = n_resamples, ie_task_count = int (length strata),
                ie_pair_count = int (sum_list (map length strata))\<rparr>)"

end
