(* ===== verification/Report_Summary.thy ===== *)
theory Report_Summary
  imports Report_Contracts Statistics
begin

text \<open>The aggregate contracts shared by the exports (\<open>reporting/summary_contracts.py\<close>).\<close>

definition rate_field :: "rat \<Rightarrow> unit result" where
  "rate_field x = (if 0 \<le> x \<and> x \<le> 1 then Inr () else Inl (ValueError ''must lie in [0, 1]''))"

definition optional_rate :: "rat option \<Rightarrow> unit result" where
  "optional_rate x = (case x of None \<Rightarrow> Inr () | Some x \<Rightarrow> rate_field x)"

abbreviation opt_float :: "rat option \<Rightarrow> pyval" where
  "opt_float \<equiv> opt_value PFloat"

section \<open>Coverage\<close>

record coverage_summary =
  co_requested :: int
  co_eligible :: int
  co_ineligible :: int
  co_expected_primary :: int
  co_observed_primary :: int
  co_scored_primary :: int
  co_grid_complete :: bool
  co_score_complete :: bool
  co_terminal_counts :: "(string \<times> int) list"

definition coverage_init :: "coverage_summary \<Rightarrow> coverage_summary result" where
  "coverage_init c =
     (if min (min (co_requested c) (co_eligible c)) (co_ineligible c) < 0
      then Inl (ValueError ''coverage counts must be non-negative'')
      else if co_eligible c + co_ineligible c \<noteq> co_requested c
      then Inl (ValueError ''coverage counts do not sum to requested_count'')
      else if \<not> (0 \<le> co_scored_primary c \<and> co_scored_primary c \<le> co_observed_primary c \<and>
                 co_observed_primary c \<le> co_expected_primary c)
      then Inl (ValueError ''primary coverage counts are inconsistent'')
      else if co_grid_complete c \<noteq> (co_observed_primary c = co_expected_primary c)
      then Inl (ValueError ''primary_grid_complete disagrees with coverage counts'')
      else if co_score_complete c \<noteq> (co_scored_primary c = co_expected_primary c)
      then Inl (ValueError ''primary_score_complete disagrees with coverage counts'')
      else if \<not> sorted (co_terminal_counts c) \<or> \<not> distinct (map fst (co_terminal_counts c))
      then Inl (ValueError ''terminal counts must be unique and sorted'')
      else if list_ex (\<lambda>(key, n). key = [] \<or> n < 0) (co_terminal_counts c)
      then Inl (ValueError ''terminal count entries are invalid'')
      else if sum_list (map snd (co_terminal_counts c)) \<noteq> co_requested c
      then Inl (ValueError ''terminal counts do not cover all requested outcomes'') else Inr c)"

definition coverage_to_dict :: "coverage_summary \<Rightarrow> params" where
  "coverage_to_dict c =
     [(''requested_count'', PInt (co_requested c)), (''eligible_count'', PInt (co_eligible c)),
      (''ineligible_count'', PInt (co_ineligible c)), (''expected_primary_cell_count'', PInt (co_expected_primary c)),
      (''observed_primary_cell_count'', PInt (co_observed_primary c)),
      (''scored_primary_cell_count'', PInt (co_scored_primary c)),
      (''primary_grid_complete'', PBool (co_grid_complete c)), (''primary_score_complete'', PBool (co_score_complete c)),
      (''terminal_counts'', PList (map (\<lambda>(key, n). PList [PStr key, PInt n]) (co_terminal_counts c)))]"

section \<open>Tasks\<close>

record task_summary =
  ts_task :: string
  ts_pair_count :: int
  ts_clean_sr :: rat
  ts_no_touch_sr :: "rat option"
  ts_clean_gain :: "rat option"
  ts_fault_sr :: rat
  ts_paired_delta_sr :: rat
  ts_no_touch_relative_fault_delta :: "rat option"
  ts_tgr :: "rat option"
  ts_tgr_reason :: "string option"
  ts_axis_fault_sr :: "(string \<times> rat) list"

definition task_summary_init :: "task_summary \<Rightarrow> task_summary result" where
  "task_summary_init t =
     (if ts_task t = [] \<or> ts_pair_count t \<le> 0
      then Inl (ValueError ''task summary requires a task and matched pairs'')
      else bindr (rate_field (ts_clean_sr t)) (\<lambda>_.
           bindr (rate_field (ts_fault_sr t)) (\<lambda>_.
           bindr (optional_rate (ts_no_touch_sr t)) (\<lambda>_.
           if (ts_tgr t = None) = (ts_tgr_reason t = None)
           then Inl (ValueError ''TGR value and ineligibility reason must be exclusive'')
           else if \<not> sorted (ts_axis_fault_sr t) \<or> \<not> distinct (map fst (ts_axis_fault_sr t))
           then Inl (ValueError ''axis summaries must be unique and sorted'')
           else bindr (mapr (\<lambda>(axis, x). rate_field x) (ts_axis_fault_sr t)) (\<lambda>_. Inr t)))))"

definition task_summary_to_dict :: "task_summary \<Rightarrow> params" where
  "task_summary_to_dict t =
     [(''task'', PStr (ts_task t)), (''pair_count'', PInt (ts_pair_count t)), (''clean_sr'', PFloat (ts_clean_sr t)),
      (''no_touch_sr'', opt_float (ts_no_touch_sr t)), (''clean_gain'', opt_float (ts_clean_gain t)),
      (''fault_sr'', PFloat (ts_fault_sr t)), (''paired_delta_sr'', PFloat (ts_paired_delta_sr t)),
      (''no_touch_relative_fault_delta'', opt_float (ts_no_touch_relative_fault_delta t)),
      (''tgr'', opt_float (ts_tgr t)), (''tgr_ineligibility_reason'', opt_str (ts_tgr_reason t)),
      (''axis_fault_sr'', PList (map (\<lambda>(axis, x). PList [PStr axis, PFloat x]) (ts_axis_fault_sr t)))]"

section \<open>Operator cells\<close>

record operator_cell =
  op_operator_id :: string
  op_severity_level :: int
  op_native_dose :: rat
  op_native_unit :: string
  op_requested :: int
  op_eligible :: int
  op_success_rate :: "rat option"
  op_paired_delta :: "rat option"
  op_no_touch_delta :: "rat option"
  op_delta_lower :: "rat option"
  op_delta_upper :: "rat option"
  op_mcnemar_p :: "rat option"
  op_holm_p :: "rat option"

definition operator_cell_init :: "operator_cell \<Rightarrow> operator_cell result" where
  "operator_cell_init c =
     bindr (operator_axis (op_operator_id c)) (\<lambda>_.
     if \<not> (1 \<le> op_severity_level c \<and> op_severity_level c \<le> 5)
     then Inl (ValueError ''severity_level must be in [1, 5]'')
     else if op_native_unit c = [] then Inl (ValueError ''native_unit must be non-empty'')
     else if op_requested c \<le> 0 \<or> \<not> (0 \<le> op_eligible c \<and> op_eligible c \<le> op_requested c)
     then Inl (ValueError ''operator cell coverage is invalid'')
     else bindr (optional_rate (op_success_rate c)) (\<lambda>_.
          bindr (optional_rate (op_mcnemar_p c)) (\<lambda>_.
          bindr (optional_rate (op_holm_p c)) (\<lambda>_.
          if (op_success_rate c \<noteq> None) \<noteq>
             (op_paired_delta c \<noteq> None \<and> op_delta_lower c \<noteq> None \<and> op_delta_upper c \<noteq> None \<and>
              op_mcnemar_p c \<noteq> None \<and> op_holm_p c \<noteq> None)
          then Inl (ValueError ''operator statistics must be all populated or all unavailable'')
          else if op_success_rate c = None \<and> op_no_touch_delta c \<noteq> None
          then Inl (ValueError ''unscored operator cell cannot contain no-touch delta'') else Inr c))))"

definition operator_cell_to_dict :: "operator_cell \<Rightarrow> params result" where
  "operator_cell_to_dict c =
     bindr (operator_axis (op_operator_id c)) (\<lambda>axis.
     Inr [(''operator_id'', PStr (op_operator_id c)), (''axis'', PStr axis), (''severity_level'', PInt (op_severity_level c)),
          (''native_dose'', PFloat (op_native_dose c)), (''native_unit'', PStr (op_native_unit c)),
          (''requested_count'', PInt (op_requested c)), (''eligible_count'', PInt (op_eligible c)),
          (''success_rate'', opt_float (op_success_rate c)), (''paired_delta_sr'', opt_float (op_paired_delta c)),
          (''no_touch_relative_delta'', opt_float (op_no_touch_delta c)),
          (''paired_delta_lower'', opt_float (op_delta_lower c)), (''paired_delta_upper'', opt_float (op_delta_upper c)),
          (''mcnemar_p_value'', opt_float (op_mcnemar_p c)), (''holm_adjusted_p_value'', opt_float (op_holm_p c))])"

section \<open>Recovery\<close>

record recovery_summary =
  rs_eligible :: int
  rs_recovered :: int
  rs_unrecovered_fraction :: "rat option"
  rs_median_lag :: "rat option"
  rs_mean_lag :: "rat option"

definition check_lag_field :: "rat option \<Rightarrow> unit result" where
  "check_lag_field x =
     (case x of None \<Rightarrow> Inr ()
      | Some x \<Rightarrow> if x < 0 then Inl (ValueError ''recovery lag must be non-negative'') else Inr ())"

definition recovery_summary_init :: "recovery_summary \<Rightarrow> recovery_summary result" where
  "recovery_summary_init r =
     (if rs_eligible r < 0 \<or> \<not> (0 \<le> rs_recovered r \<and> rs_recovered r \<le> rs_eligible r)
      then Inl (ValueError ''recovery counts are invalid'')
      else bindr (optional_rate (rs_unrecovered_fraction r)) (\<lambda>_.
           bindr (check_lag_field (rs_median_lag r)) (\<lambda>_.
           bindr (check_lag_field (rs_mean_lag r)) (\<lambda>_.
           if rs_eligible r = 0 \<and>
              (rs_unrecovered_fraction r \<noteq> None \<or> rs_median_lag r \<noteq> None \<or> rs_mean_lag r \<noteq> None)
           then Inl (ValueError ''ineligible recovery summary cannot contain estimates'') else Inr r))))"

definition recovery_summary_to_dict :: "recovery_summary \<Rightarrow> params" where
  "recovery_summary_to_dict r =
     [(''eligible_count'', PInt (rs_eligible r)), (''recovered_count'', PInt (rs_recovered r)),
      (''unrecovered_fraction'', opt_float (rs_unrecovered_fraction r)),
      (''median_lag_steps'', opt_float (rs_median_lag r)), (''mean_lag_steps'', opt_float (rs_mean_lag r))]"

section \<open>The benchmark summary\<close>

record benchmark_summary =
  bs_spec :: reporting_spec
  bs_source_roots :: "string list"
  bs_tasks :: "task_summary list"
  bs_cells :: "operator_cell list"
  bs_worst :: operator_cell
  bs_recovery :: recovery_summary
  bs_coverage :: coverage_summary
  bs_macro_clean_sr :: rat
  bs_macro_no_touch_sr :: "rat option"
  bs_macro_fault_sr :: rat
  bs_macro_paired_delta_sr :: rat
  bs_macro_tgr :: "rat option"
  bs_interval :: interval_estimate
  bs_semantic_version :: string

definition benchmark_summary_init :: "benchmark_summary \<Rightarrow> benchmark_summary result" where
  "benchmark_summary_init b =
     (if bs_source_roots b = [] \<or> \<not> (sorted (bs_source_roots b) \<and> distinct (bs_source_roots b))
      then Inl (ValueError ''source roots must be non-empty, unique, and sorted'')
      else bindr (mapr check_sha (bs_source_roots b)) (\<lambda>_.
        if bs_tasks b = [] \<or> bs_cells b = []
        then Inl (ValueError ''benchmark summary requires task and operator results'')
        else if \<not> sorted (map ts_task (bs_tasks b)) then Inl (ValueError ''task summaries must be sorted'')
        else if \<not> sorted (map (\<lambda>c. (op_operator_id c, op_severity_level c)) (bs_cells b))
        then Inl (ValueError ''operator cells must be sorted'')
        else if bs_worst b \<notin> set (bs_cells b) \<or> op_success_rate (bs_worst b) = None
        then Inl (ValueError ''worst cell must identify a scored operator cell'')
        else bindr (rate_field (bs_macro_clean_sr b)) (\<lambda>_.
             bindr (rate_field (bs_macro_fault_sr b)) (\<lambda>_.
             bindr (optional_rate (bs_macro_no_touch_sr b)) (\<lambda>_.
             if bs_semantic_version b \<noteq> REPORTING_SEMANTIC_VERSION
             then Inl (ValueError ''unsupported benchmark summary version'') else Inr b)))))"

definition interval_to_dict :: "interval_estimate \<Rightarrow> params" where
  "interval_to_dict i =
     [(''estimate'', PFloat (ie_estimate i)), (''lower'', PFloat (ie_lower i)), (''upper'', PFloat (ie_upper i)),
      (''confidence_level'', PFloat (ie_confidence_level i)), (''valid_resamples'', PInt (ie_valid_resamples i)),
      (''task_count'', PInt (ie_task_count i)), (''pair_count'', PInt (ie_pair_count i))]"

definition benchmark_summary_to_dict :: "benchmark_summary \<Rightarrow> params result" where
  "benchmark_summary_to_dict b =
     bindr (mapr operator_cell_to_dict (bs_cells b)) (\<lambda>cells.
     Inr [(''spec'', PDict (reporting_spec_to_dict (bs_spec b))),
          (''source_root_sha256'', PList (map PStr (bs_source_roots b))),
          (''tasks'', PList (map (\<lambda>t. PDict (task_summary_to_dict t)) (bs_tasks b))),
          (''operator_cells'', PList (map PDict cells)),
          (''worst_cell'', PDict [(''operator_id'', PStr (op_operator_id (bs_worst b))),
                                (''severity_level'', PInt (op_severity_level (bs_worst b)))]),
          (''recovery'', PDict (recovery_summary_to_dict (bs_recovery b))),
          (''coverage'', PDict (coverage_to_dict (bs_coverage b))),
          (''macro_clean_sr'', PFloat (bs_macro_clean_sr b)), (''macro_no_touch_sr'', opt_float (bs_macro_no_touch_sr b)),
          (''macro_fault_sr'', PFloat (bs_macro_fault_sr b)),
          (''macro_paired_delta_sr'', PFloat (bs_macro_paired_delta_sr b)), (''macro_tgr'', opt_float (bs_macro_tgr b)),
          (''paired_delta_interval'', PDict (interval_to_dict (bs_interval b))),
          (''semantic_version'', PStr (bs_semantic_version b))])"

definition benchmark_summary_sha256 :: "hasher \<Rightarrow> benchmark_summary \<Rightarrow> string result" where
  "benchmark_summary_sha256 h b = bindr (benchmark_summary_to_dict b) (\<lambda>d. Inr (canonical_hash h (PDict d)))"

lemma operator_cell_init_id: "operator_cell_init c = Inr d \<Longrightarrow> d = c"
  by (auto simp: operator_cell_init_def bindr_eq_Inr split: if_splits)

lemma benchmark_summary_init_id: "benchmark_summary_init b = Inr c \<Longrightarrow> c = b"
  by (auto simp: benchmark_summary_init_def bindr_eq_Inr split: if_splits)

end
