(* ===== verification/Report_Aggregation.thy ===== *)
theory Report_Aggregation
  imports Report_Summary
begin

text \<open>
  Paired aggregation of a four-condition matrix (\<open>reporting/aggregation.py\<close>), the operator cells
  (\<open>reporting/cells.py\<close>) and the coverage accounting (\<open>reporting/coverage.py\<close>).  \<open>statistics.mean\<close>
  is the exact mean, rounded once; dictionaries are association lists in insertion order.
\<close>

section \<open>Helpers\<close>

type_synonym baseline_key = "string \<times> string"
type_synonym fault_key = "string \<times> int"
type_synonym baselines = "(baseline_key \<times> outcome_record) list"
type_synonym fault_groups = "(fault_key \<times> outcome_record list) list"

definition py_mean :: "rat list \<Rightarrow> rat result" where
  "py_mean xs =
     (if xs = [] then Inl (ValueError ''mean requires at least one data point'')
      else Inr (fl64 (sum_list xs / of_nat (length xs))))"

definition py_median :: "int list \<Rightarrow> rat" where
  "py_median xs =
     (let ys = sort xs; n = length ys in
      if odd n then fl64 (of_int (ys ! (n div 2)))
      else fl64 (of_int (ys ! (n div 2 - 1) + ys ! (n div 2)) / 2))"

fun optional_mean :: "rat option list \<Rightarrow> rat option result" where
  "optional_mean xs =
     (if None \<in> set xs then Inr None else bindr (py_mean (map the xs)) (\<lambda>x. Inr (Some x)))"

text \<open>\<open>defaultdict(list)\<close>: \<open>d[key].append(value)\<close>.\<close>

fun append_at :: "'k \<Rightarrow> 'v \<Rightarrow> ('k \<times> 'v list) list \<Rightarrow> ('k \<times> 'v list) list" where
  "append_at k v [] = [(k, [v])]"
| "append_at k v ((k', vs) # d) = (if k' = k then (k', vs @ [v]) # d else (k', vs) # append_at k v d)"

fun set_at :: "'k \<Rightarrow> 'v \<Rightarrow> ('k \<times> 'v) list \<Rightarrow> ('k \<times> 'v) list" where
  "set_at k v [] = [(k, v)]"
| "set_at k v ((k', v') # d) = (if k' = k then (k', v) # d else (k', v') # set_at k v d)"

definition item_at :: "('k \<times> 'v) list \<Rightarrow> 'k \<Rightarrow> 'v result" where
  "item_at d k = (case map_of d k of None \<Rightarrow> Inl (KeyError ''missing key'') | Some v \<Rightarrow> Inr v)"

text \<open>An \<open>assert x is not None\<close>.\<close>

definition asserted :: "'a option \<Rightarrow> 'a result" where
  "asserted x = (case x of None \<Rightarrow> Inl (RuntimeError ''assertion failed'') | Some x \<Rightarrow> Inr x)"

definition baseline_of :: "outcome_record \<Rightarrow> baseline_key" where
  "baseline_of r = (oc_task r, oc_pair_key r)"

definition success_of :: "outcome_record \<Rightarrow> rat option" where
  "success_of r =
     (if \<not> oc_score_eligible r then None else Some (if oc_score_success r = Some True then 1 else 0))"

definition required_success :: "outcome_record \<Rightarrow> rat result" where
  "required_success r =
     (case success_of r of None \<Rightarrow> Inl (ValueError ''reporting outcome is not score eligible'') | Some x \<Rightarrow> Inr x)"

section \<open>Indexing\<close>

fun index_loop ::
    "reporting_spec \<Rightarrow> outcome_record list \<Rightarrow> cell_identity list \<Rightarrow> baselines \<Rightarrow> baselines \<Rightarrow> fault_groups \<Rightarrow>
     (baselines \<times> baselines \<times> fault_groups) result" where
  "index_loop spec [] seen clean no_touch faults = Inr (clean, no_touch, faults)"
| "index_loop spec (r # rs) seen clean no_touch faults =
     (if oc_system_id r \<noteq> rp_system_id spec then Inl (ValueError ''outcome system does not match reporting spec'')
      else if outcome_cell_key r \<in> set seen then Inl (ValueError ''duplicate reporting cell'')
      else let seen = outcome_cell_key r # seen in
        case oc_condition r of
          CLEAN \<Rightarrow> index_loop spec rs seen (set_at (baseline_of r) r clean) no_touch faults
        | NO_TOUCH \<Rightarrow> index_loop spec rs seen clean (set_at (baseline_of r) r no_touch) faults
        | FAULTED \<Rightarrow>
            bindr (asserted (oc_operator_id r)) (\<lambda>operator.
            bindr (asserted (oc_severity_level r)) (\<lambda>severity.
            index_loop spec rs seen clean no_touch (append_at (operator, severity) r faults)))
        | RESTORED \<Rightarrow> index_loop spec rs seen clean no_touch faults)"

definition index_records ::
    "reporting_spec \<Rightarrow> outcome_record list \<Rightarrow> (baselines \<times> baselines \<times> fault_groups) result" where
  "index_records spec records =
     bindr (index_loop spec records [] [] [] []) (\<lambda>(clean, no_touch, faults).
     if set (map fst clean) \<noteq> set (map fst no_touch)
     then Inl (ValueError ''every pair requires matched clean and no-touch baselines'')
     else if list_ex (\<lambda>(key, members). list_ex (\<lambda>r. baseline_of r \<notin> set (map fst clean)) members) faults
     then Inl (ValueError ''fault outcome lacks matched clean and no-touch baselines'')
     else if \<not> set (rp_primary_operator_ids spec) \<subseteq> set (map (\<lambda>((operator, level), members). operator) faults)
     then Inl (ValueError ''primary operator outcomes are missing'')
     else Inr (clean, no_touch, faults))"

section \<open>Coverage\<close>

definition primary_records :: "fault_groups \<Rightarrow> reporting_spec \<Rightarrow> outcome_record list" where
  "primary_records faults spec =
     concat (map snd (filter (\<lambda>((operator, severity), members).
       operator \<in> set (rp_primary_operator_ids spec) \<and> severity \<in> set (rp_primary_severity_levels spec)) faults))"

definition scored :: "baselines \<Rightarrow> outcome_record \<Rightarrow> bool result" where
  "scored clean r =
     (if oc_score_eligible r then bindr (item_at clean (baseline_of r)) (\<lambda>c. Inr (oc_score_eligible c)) else Inr False)"

definition primary_task_score_complete ::
    "string \<Rightarrow> baselines \<Rightarrow> fault_groups \<Rightarrow> reporting_spec \<Rightarrow> bool result" where
  "primary_task_score_complete task clean faults spec =
     (let expected = [(pair, Some operator, Some severity). (t, pair) \<leftarrow> map fst clean, t = task,
            operator \<leftarrow> rp_primary_operator_ids spec, severity \<leftarrow> rp_primary_severity_levels spec];
          candidates = filter (\<lambda>r. oc_task r = task) (primary_records faults spec)
      in bindr (mapr (scored clean) candidates) (\<lambda>flags.
         Inr (set (map (\<lambda>(r, s). (oc_pair_key r, oc_operator_id r, oc_severity_level r)) (filter snd (zip candidates flags))) =
              set expected)))"

definition terminal_counts :: "outcome_record list \<Rightarrow> (string \<times> int) list" where
  "terminal_counts records =
     sort (map (\<lambda>s. (terminal_value s, int (count_where (\<lambda>r. oc_terminal_status r = s) records)))
       (filter (\<lambda>s. s \<in> set (map oc_terminal_status records)) TERMINAL_STATUSES))"

definition build_coverage_summary ::
    "outcome_record list \<Rightarrow> baselines \<Rightarrow> fault_groups \<Rightarrow> reporting_spec \<Rightarrow> coverage_summary result" where
  "build_coverage_summary records clean faults spec =
     (let expected = int (length clean * length (rp_primary_operator_ids spec) * length (rp_primary_severity_levels spec));
          primary = primary_records faults spec
      in bindr (mapr (scored clean) primary) (\<lambda>flags.
         let observed = int (length primary); scored = int (count_where id flags) in
         coverage_init
           \<lparr>co_requested = int (length records), co_eligible = int (count_where oc_score_eligible records),
            co_ineligible = int (count_where (\<lambda>r. \<not> oc_score_eligible r) records), co_expected_primary = expected,
            co_observed_primary = observed, co_scored_primary = scored, co_grid_complete = (observed = expected),
            co_score_complete = (scored = expected), co_terminal_counts = terminal_counts records\<rparr>))"

definition build_recovery_summary :: "outcome_record list \<Rightarrow> recovery_summary result" where
  "build_recovery_summary records =
     (let eligible = filter oc_recovery_eligible records;
          lags = map the (filter (\<lambda>lag. lag \<noteq> None) (map oc_recovery_lag_steps eligible))
      in if eligible = []
         then recovery_summary_init \<lparr>rs_eligible = 0, rs_recovered = 0, rs_unrecovered_fraction = None,
                rs_median_lag = None, rs_mean_lag = None\<rparr>
         else recovery_summary_init
                \<lparr>rs_eligible = int (length eligible), rs_recovered = int (length lags),
                 rs_unrecovered_fraction =
                   Some (fl64 (of_int (int (length eligible) - int (length lags)) / of_nat (length eligible))),
                 rs_median_lag = (if lags = [] then None else Some (py_median lags)),
                 rs_mean_lag = (if lags = [] then None else Some (fl64 (of_int (sum_list lags) / of_nat (length lags))))\<rparr>)"

section \<open>Operator cells\<close>

type_synonym paired_value = "outcome_record \<times> bool \<times> bool option \<times> bool"

definition pair_value :: "baselines \<Rightarrow> baselines \<Rightarrow> outcome_record \<Rightarrow> paired_value list result" where
  "pair_value clean no_touch r =
     bindr (item_at clean (baseline_of r)) (\<lambda>c.
     bindr (item_at no_touch (baseline_of r)) (\<lambda>n.
     if \<not> (oc_score_eligible r \<and> oc_score_eligible c) then Inr []
     else bindr (asserted (oc_score_success r)) (\<lambda>fault_value.
          bindr (asserted (oc_score_success c)) (\<lambda>clean_value.
          Inr [(r, clean_value, if oc_score_eligible n then oc_score_success n else None, fault_value)]))))"

definition paired_values :: "outcome_record list \<Rightarrow> baselines \<Rightarrow> baselines \<Rightarrow> paired_value list result" where
  "paired_values members clean no_touch = bindr (mapr (pair_value clean no_touch) members) (\<lambda>vs. Inr (concat vs))"

definition bool_float :: "bool \<Rightarrow> rat" where
  "bool_float b = (if b then 1 else 0)"

text \<open>The units of \<open>configs/severity/provisional_v2.json\<close>.\<close>

fun native_unit :: "operator_id \<Rightarrow> string" where
  "native_unit A1_stream_absence = ''affected_window_fraction''"
| "native_unit A2_frame_erasure = ''erased_frame_fraction''"
| "native_unit F1_global_response_drift = ''retained_global_gain''"
| "native_unit F2_spatial_sensitivity_loss = ''retained_regional_gain''"
| "native_unit F3_persistent_surface_artifact = ''scar_dose''"
| "native_unit F4_local_nonresponsive_patch = ''failed_area_dose''"
| "native_unit F5_contact_shape_distortion = ''peak_warp_displacement_pixels''"
| "native_unit F6_history_residual_imprint = ''history_mix''"
| "native_unit F7_high_load_saturation = ''response_knee_dose''"
| "native_unit T1_fixed_source_delay = ''lag_frames''"
| "native_unit T2_held_last_freeze = ''held_duration_frames''"
| "native_unit T3_inter_sensor_skew = ''source_index_gap''"
| "native_unit C1_sensor_identity_misrouting = ''misrouted_window_fraction''"
| "native_unit C2_frame_misregistration = ''reprojection_displacement_pixels''"

definition hypothesis_name :: "string \<Rightarrow> int \<Rightarrow> string" where
  "hypothesis_name operator severity = operator @ '':S'' @ [char_of (48 + nat severity)]"

definition float_of_dose :: "operator_id \<Rightarrow> int \<Rightarrow> rat result" where
  "float_of_dose operator severity = bindr (severity_value operator severity) py_float"

definition paired_differences :: "paired_value list \<Rightarrow> (string \<times> rat list) list" where
  "paired_differences paired =
     foldl (\<lambda>d (r, clean_value, n, fault_value).
       append_at (oc_task r) (fsub (bool_float fault_value) (bool_float clean_value)) d) [] paired"

definition preliminary_cell ::
    "'g sampler \<Rightarrow> reporting_spec \<Rightarrow> baselines \<Rightarrow> baselines \<Rightarrow> fault_key \<times> outcome_record list \<Rightarrow> operator_cell result" where
  "preliminary_cell S spec clean no_touch = (\<lambda>((operator, severity), members).
     bindr (paired_values members clean no_touch) (\<lambda>paired.
     bindr (asserted (operator_of_name operator)) (\<lambda>op.
     bindr (float_of_dose op severity) (\<lambda>dose.
     if paired = []
     then operator_cell_init
            \<lparr>op_operator_id = operator, op_severity_level = severity, op_native_dose = dose, op_native_unit = native_unit op,
             op_requested = int (length members), op_eligible = 0, op_success_rate = None, op_paired_delta = None,
             op_no_touch_delta = None, op_delta_lower = None, op_delta_upper = None, op_mcnemar_p = None, op_holm_p = None\<rparr>
     else bindr (task_stratified_paired_bootstrap S (paired_differences paired) (rp_bootstrap_resamples spec)
                   (rp_confidence_level spec) (rp_bootstrap_seed spec + severity)) (\<lambda>interval.
          bindr (exact_mcnemar (map (\<lambda>(r, c, n, f). c) paired) (map (\<lambda>(r, c, n, f). f) paired)) (\<lambda>mcnemar.
          let controls = concat (map (\<lambda>(r, c, n, f).
                case n of None \<Rightarrow> [] | Some n \<Rightarrow> [fsub (bool_float f) (bool_float n)]) paired) in
          bindr (if length controls = length paired then bindr (py_mean controls) (\<lambda>x. Inr (Some x)) else Inr None)
            (\<lambda>control.
          bindr (py_mean (map (\<lambda>(r, c, n, f). bool_float f) paired)) (\<lambda>rate.
          bindr (py_mean (map (\<lambda>(r, c, n, f). fsub (bool_float f) (bool_float c)) paired)) (\<lambda>delta.
          operator_cell_init
            \<lparr>op_operator_id = operator, op_severity_level = severity, op_native_dose = dose, op_native_unit = native_unit op,
             op_requested = int (length members), op_eligible = int (length paired), op_success_rate = Some rate,
             op_paired_delta = Some delta, op_no_touch_delta = control, op_delta_lower = Some (ie_lower interval),
             op_delta_upper = Some (ie_upper interval), op_mcnemar_p = Some (mn_p_value mcnemar),
             op_holm_p = Some (mn_p_value mcnemar)\<rparr>)))))))))"

definition raw_p_values :: "operator_cell list \<Rightarrow> (string \<times> rat) list" where
  "raw_p_values cells =
     concat (map (\<lambda>c. case op_mcnemar_p c of None \<Rightarrow> []
       | Some p \<Rightarrow> [(hypothesis_name (op_operator_id c) (op_severity_level c), p)]) cells)"

definition build_operator_cells ::
    "'g sampler \<Rightarrow> fault_groups \<Rightarrow> baselines \<Rightarrow> baselines \<Rightarrow> reporting_spec \<Rightarrow> operator_cell list result" where
  "build_operator_cells S faults clean no_touch spec =
     bindr (mapr (preliminary_cell S spec clean no_touch) (sort_key fst faults)) (\<lambda>preliminary.
     bindr (if raw_p_values preliminary = [] then Inr [] else holm_bonferroni (raw_p_values preliminary)) (\<lambda>adjusted.
     mapr (\<lambda>c. if op_success_rate c = None then Inr c
            else bindr (item_at adjusted (hypothesis_name (op_operator_id c) (op_severity_level c))) (\<lambda>p.
                 operator_cell_init (c\<lparr>op_holm_p := Some p\<rparr>))) preliminary))"

end
