(* ===== verification/Report_Tasks.thy ===== *)
theory Report_Tasks
  imports Report_Aggregation
begin

text \<open>
  The task summaries and the benchmark summary (\<open>reporting/aggregation.py\<close>): fault scores are averaged
  over severities, then over the operators of an axis, then over the axes of a pair, so that no axis weighs
  more for having more operators.
\<close>

section \<open>Fault scores of a pair\<close>

definition is_primary :: "reporting_spec \<Rightarrow> fault_key \<Rightarrow> bool" where
  "is_primary spec = (\<lambda>(operator, severity).
     operator \<in> set (rp_primary_operator_ids spec) \<and> severity \<in> set (rp_primary_severity_levels spec))"

text \<open>\<open>next(record.axis for group in faults.values() for record in group if record.operator_id == operator)\<close>.\<close>

definition axis_of_operator :: "fault_groups \<Rightarrow> string \<Rightarrow> string result" where
  "axis_of_operator faults operator =
     bindr (asserted (find (\<lambda>r. oc_operator_id r = Some operator) (concat (map snd faults)))) (\<lambda>r.
     bindr (outcome_axis r) asserted)"

definition by_pair_operator ::
    "fault_groups \<Rightarrow> reporting_spec \<Rightarrow> ((baseline_key \<times> string) \<times> rat list) list" where
  "by_pair_operator faults spec =
     foldl (\<lambda>d ((operator, severity), members).
       foldl (\<lambda>d r. case success_of r of None \<Rightarrow> d | Some x \<Rightarrow> append_at (baseline_of r, operator) x d) d members)
       [] (filter (\<lambda>(key, members). is_primary spec key) faults)"

fun by_pair_axis ::
    "fault_groups \<Rightarrow> ((baseline_key \<times> string) \<times> rat list) list \<Rightarrow> ((baseline_key \<times> string) \<times> rat list) list \<Rightarrow>
     ((baseline_key \<times> string) \<times> rat list) list result" where
  "by_pair_axis faults [] d = Inr d"
| "by_pair_axis faults (((pair, operator), values) # rest) d =
     bindr (axis_of_operator faults operator) (\<lambda>axis.
     bindr (py_mean values) (\<lambda>x. by_pair_axis faults rest (append_at (pair, axis) x d)))"

fun by_pair :: "((baseline_key \<times> string) \<times> rat list) list \<Rightarrow> (baseline_key \<times> rat list) list \<Rightarrow>
    (baseline_key \<times> rat list) list result" where
  "by_pair [] d = Inr d"
| "by_pair (((pair, axis), values) # rest) d =
     bindr (py_mean values) (\<lambda>x. by_pair rest (append_at pair x d))"

definition pair_fault_scores :: "fault_groups \<Rightarrow> reporting_spec \<Rightarrow> (baseline_key \<times> rat) list result" where
  "pair_fault_scores faults spec =
     bindr (by_pair_axis faults (by_pair_operator faults spec) []) (\<lambda>axes.
     bindr (by_pair axes []) (\<lambda>pairs.
     mapr (\<lambda>(pair, values). bindr (py_mean values) (\<lambda>x. Inr (pair, x))) pairs))"

section \<open>Task summaries\<close>

definition task_names :: "baselines \<Rightarrow> string list" where
  "task_names clean = sort (remdups (map (\<lambda>((task, pair), r). task) clean))"

definition task_pairs :: "string \<Rightarrow> baselines \<Rightarrow> baseline_key list" where
  "task_pairs task clean = sort (filter (\<lambda>pair. fst pair = task) (map fst clean))"

definition scoreable_pairs :: "string \<Rightarrow> baselines \<Rightarrow> (baseline_key \<times> rat) list \<Rightarrow> baseline_key list" where
  "scoreable_pairs task clean scores =
     filter (\<lambda>pair. (case map_of clean pair of None \<Rightarrow> False | Some c \<Rightarrow> success_of c \<noteq> None) \<and>
       pair \<in> set (map fst scores)) (task_pairs task clean)"

definition task_tgr ::
    "reporting_spec \<Rightarrow> string \<Rightarrow> baselines \<Rightarrow> fault_groups \<Rightarrow> rat \<Rightarrow> rat option \<Rightarrow> rat option \<Rightarrow> rat \<Rightarrow>
     (rat option \<times> string option) result" where
  "task_tgr spec task clean faults clean_sr no_touch_sr clean_gain fault_sr =
     (if \<not> rp_matched_control_qualified spec then Inr (None, Some ''matched_control_not_qualified'')
      else case (no_touch_sr, clean_gain) of
        (Some no_touch, Some gain) \<Rightarrow>
          bindr (primary_task_score_complete task clean faults spec) (\<lambda>complete.
          if \<not> complete then Inr (None, Some ''incomplete_or_ineligible_primary_grid'')
          else if gain \<le> rp_minimum_clean_gain spec then Inr (None, Some ''small_or_nonpositive_clean_gain'')
          else bindr (tactile_gain_retention clean_sr no_touch fault_sr (rp_minimum_clean_gain spec)) (\<lambda>x.
               Inr (Some x, None)))
      | _ \<Rightarrow> Inr (None, Some ''matched_control_outcomes_ineligible''))"

fun operator_means ::
    "string \<Rightarrow> baselines \<Rightarrow> baselines \<Rightarrow> reporting_spec \<Rightarrow> fault_groups \<Rightarrow> (string \<times> rat list) list \<Rightarrow>
     (string \<times> rat list) list result" where
  "operator_means task clean no_touch spec [] d = Inr d"
| "operator_means task clean no_touch spec (((operator, severity), members) # rest) d =
     (if \<not> is_primary spec (operator, severity) then operator_means task clean no_touch spec rest d
      else bindr (paired_values members clean no_touch) (\<lambda>paired.
           let values = map (\<lambda>(r, c, n, f). bool_float f) (filter (\<lambda>(r, c, n, f). oc_task r = task) paired) in
           if values = [] then operator_means task clean no_touch spec rest d
           else bindr (py_mean values) (\<lambda>x. operator_means task clean no_touch spec rest (append_at operator x d))))"

fun axis_means :: "fault_groups \<Rightarrow> (string \<times> rat list) list \<Rightarrow> (string \<times> rat list) list \<Rightarrow> (string \<times> rat list) list result" where
  "axis_means faults [] d = Inr d"
| "axis_means faults ((operator, values) # rest) d =
     bindr (axis_of_operator faults operator) (\<lambda>axis.
     bindr (py_mean values) (\<lambda>x. axis_means faults rest (append_at axis x d)))"

definition axis_summary ::
    "string \<Rightarrow> baselines \<Rightarrow> baselines \<Rightarrow> fault_groups \<Rightarrow> reporting_spec \<Rightarrow> (string \<times> rat) list result" where
  "axis_summary task clean no_touch faults spec =
     bindr (operator_means task clean no_touch spec faults []) (\<lambda>operators.
     bindr (axis_means faults operators []) (\<lambda>axes.
     bindr (mapr (\<lambda>(axis, values). bindr (py_mean values) (\<lambda>x. Inr (axis, x))) axes) (\<lambda>means. Inr (sort means))))"

definition baseline_success :: "baselines \<Rightarrow> baseline_key \<Rightarrow> rat result" where
  "baseline_success baselines pair = bindr (item_at baselines pair) required_success"

definition fault_delta :: "(baseline_key \<times> rat) list \<Rightarrow> baselines \<Rightarrow> baseline_key \<Rightarrow> rat result" where
  "fault_delta scores baselines pair =
     bindr (item_at scores pair) (\<lambda>x. bindr (baseline_success baselines pair) (\<lambda>y. Inr (fsub x y)))"

definition task_summary_of ::
    "baselines \<Rightarrow> baselines \<Rightarrow> (baseline_key \<times> rat) list \<Rightarrow> fault_groups \<Rightarrow> reporting_spec \<Rightarrow> string \<Rightarrow>
     task_summary result" where
  "task_summary_of clean no_touch scores faults spec task =
     (let scoreable = scoreable_pairs task clean scores in
      if scoreable = [] then Inl (ValueError ''task has no fully paired scoreable outcomes'')
      else bindr (bindr (mapr (baseline_success clean) scoreable) py_mean) (\<lambda>clean_sr.
        bindr (mapr (\<lambda>pair. bindr (item_at no_touch pair) (\<lambda>n. Inr (success_of n))) scoreable) (\<lambda>controls.
        bindr (optional_mean controls) (\<lambda>no_touch_sr.
        bindr (bindr (mapr (item_at scores) scoreable) py_mean) (\<lambda>fault_sr.
        let clean_gain = map_option (fsub clean_sr) no_touch_sr in
        bindr (task_tgr spec task clean faults clean_sr no_touch_sr clean_gain fault_sr) (\<lambda>(tgr, reason).
        bindr (axis_summary task clean no_touch faults spec) (\<lambda>axes.
        bindr (bindr (mapr (fault_delta scores clean) scoreable) py_mean) (\<lambda>delta.
        bindr (if no_touch_sr = None then Inr None
               else bindr (bindr (mapr (fault_delta scores no_touch) scoreable) py_mean) (\<lambda>x. Inr (Some x))) (\<lambda>relative.
        task_summary_init
          \<lparr>ts_task = task, ts_pair_count = int (length scoreable), ts_clean_sr = clean_sr, ts_no_touch_sr = no_touch_sr,
           ts_clean_gain = clean_gain, ts_fault_sr = fault_sr, ts_paired_delta_sr = delta,
           ts_no_touch_relative_fault_delta = relative, ts_tgr = tgr, ts_tgr_reason = reason,
           ts_axis_fault_sr = axes\<rparr>)))))))))"

definition task_summaries ::
    "baselines \<Rightarrow> baselines \<Rightarrow> (baseline_key \<times> rat) list \<Rightarrow> fault_groups \<Rightarrow> reporting_spec \<Rightarrow> task_summary list result" where
  "task_summaries clean no_touch scores faults spec =
     mapr (task_summary_of clean no_touch scores faults spec) (task_names clean)"

section \<open>The benchmark summary\<close>

definition scored_cells :: "reporting_spec \<Rightarrow> operator_cell list \<Rightarrow> operator_cell list" where
  "scored_cells spec cells =
     filter (\<lambda>c. op_success_rate c \<noteq> None \<and> is_primary spec (op_operator_id c, op_severity_level c)) cells"

text \<open>\<open>min(scored_cells, key=...)\<close>: the first of the least cells.\<close>

definition cell_rank :: "operator_cell \<Rightarrow> rat \<times> string \<times> int" where
  "cell_rank c =
     (case op_success_rate c of None \<Rightarrow> 1 | Some x \<Rightarrow> x, op_operator_id c, op_severity_level c)"

definition worst_cell :: "operator_cell list \<Rightarrow> operator_cell" where
  "worst_cell cells = hd (sort_key cell_rank cells)"

definition task_differences ::
    "baselines \<Rightarrow> (baseline_key \<times> rat) list \<Rightarrow> task_summary list \<Rightarrow> (string \<times> rat list) list result" where
  "task_differences clean scores tasks =
     mapr (\<lambda>t. bindr (mapr (fault_delta scores clean) (scoreable_pairs (ts_task t) clean scores)) (\<lambda>xs.
       Inr (ts_task t, xs))) tasks"

definition aggregate_benchmark :: "'g sampler \<Rightarrow> outcome_record list \<Rightarrow> reporting_spec \<Rightarrow> benchmark_summary result" where
  "aggregate_benchmark S records spec =
     (if records = [] then Inl (ValueError ''reporting outcomes must be non-empty'')
      else bindr (index_records spec records) (\<lambda>(clean, no_touch, faults).
        bindr (build_operator_cells S faults clean no_touch spec) (\<lambda>cells.
        if scored_cells spec cells = []
        then Inl (ValueError ''no operator cell has fully paired eligible outcomes'')
        else bindr (pair_fault_scores faults spec) (\<lambda>scores.
          bindr (task_summaries clean no_touch scores faults spec) (\<lambda>tasks.
          bindr (task_differences clean scores tasks) (\<lambda>differences.
          bindr (task_stratified_paired_bootstrap S differences (rp_bootstrap_resamples spec)
                   (rp_confidence_level spec) (rp_bootstrap_seed spec)) (\<lambda>interval.
          bindr (build_coverage_summary records clean faults spec) (\<lambda>coverage.
          bindr (optional_mean (map ts_tgr tasks)) (\<lambda>tgr.
          bindr (build_recovery_summary records) (\<lambda>recovery.
          bindr (py_mean (map ts_clean_sr tasks)) (\<lambda>clean_sr.
          bindr (optional_mean (map ts_no_touch_sr tasks)) (\<lambda>no_touch_sr.
          bindr (py_mean (map ts_fault_sr tasks)) (\<lambda>fault_sr.
          bindr (py_mean (map ts_paired_delta_sr tasks)) (\<lambda>delta.
          benchmark_summary_init
            \<lparr>bs_spec = spec, bs_source_roots = sort (remdups (map oc_source_root_sha256 records)), bs_tasks = tasks,
             bs_cells = cells, bs_worst = worst_cell (scored_cells spec cells), bs_recovery = recovery,
             bs_coverage = coverage, bs_macro_clean_sr = clean_sr, bs_macro_no_touch_sr = no_touch_sr,
             bs_macro_fault_sr = fault_sr, bs_macro_paired_delta_sr = delta, bs_macro_tgr = tgr,
             bs_interval = interval, bs_semantic_version = REPORTING_SEMANTIC_VERSION\<rparr>))))))))))))))"

end
