(* ===== verification/Report_Accounting.thy ===== *)
theory Report_Accounting
  imports Report_Tasks
begin

text \<open>
  What the reports account for: the index holds every fault outcome exactly once, the coverage counts are
  those of the outcomes, the operator cells are those of the faults, and the adjusted p-values decide as
  Holm's step-down test does.
\<close>

section \<open>Grouping dictionaries\<close>

definition members_at :: "('k \<times> 'v list) list \<Rightarrow> 'k \<Rightarrow> 'v list" where
  "members_at d k = (case map_of d k of None \<Rightarrow> [] | Some vs \<Rightarrow> vs)"

lemma members_append_at: "members_at (append_at k v d) k' = members_at d k' @ (if k = k' then [v] else [])"
  by (induction k v d rule: append_at.induct) (auto simp: members_at_def)

lemma keys_append_at [simp]: "set (map fst (append_at k v d)) = insert k (set (map fst d))"
  by (induction k v d rule: append_at.induct) auto

lemma keys_set_at [simp]: "set (map fst (set_at k v d)) = insert k (set (map fst d))"
  by (induction k v d rule: set_at.induct) auto

lemma distinct_append_at: "distinct (map fst d) \<Longrightarrow> distinct (map fst (append_at k v d))"
proof (induction k v d rule: append_at.induct)
  case (2 k v k' vs d)
  then show ?case using keys_append_at [of k v d] by auto
qed simp

lemma distinct_set_at: "distinct (map fst d) \<Longrightarrow> distinct (map fst (set_at k v d))"
proof (induction k v d rule: set_at.induct)
  case (2 k v k' v' d)
  then show ?case using keys_set_at [of k v d] by auto
qed simp

lemma item_at_key: "k \<in> set (map fst d) \<Longrightarrow> \<exists>v. item_at d k = Inr v \<and> map_of d k = Some v"
  by (cases "map_of d k") (auto simp: item_at_def map_of_eq_None_iff)

text \<open>The members of disjoint groups of a list without repeated keys have no repeated keys.\<close>

lemma distinct_groups:
  assumes "distinct (map fst d)" "\<forall>(k, ms) \<in> set d. ms = filter (Q k) rs" "distinct (map key rs)"
    and "\<forall>k k' r. Q k r \<longrightarrow> Q k' r \<longrightarrow> k = k'"
  shows "distinct (map key (concat (map snd d)))"
  using assms(1,2)
proof (induction d)
  case (Cons a d)
  obtain k ms where a: "a = (k, ms)" by force
  have ms: "ms = filter (Q k) rs" using Cons.prems(2) a by simp
  have "key ` set ms \<inter> key ` set (concat (map snd d)) = {}"
  proof (rule ccontr)
    assume "\<not> ?thesis"
    then obtain r r' where r: "r \<in> set ms" "r' \<in> set (concat (map snd d))" "key r = key r'" by blast
    then obtain k' ms' where g: "(k', ms') \<in> set d" "r' \<in> set ms'" by auto
    with Cons.prems(2) have g': "r' \<in> set rs" "Q k' r'" by auto
    have "r \<in> set rs" "Q k r" using r(1) ms by auto
    with g'(1) r(3) assms(3) have "r = r'" by (auto simp: distinct_map dest: inj_onD)
    with assms(4) g'(2) \<open>Q k r\<close> have "k = k'" by blast
    with Cons.prems(1) a g(1) show False by (force simp: image_iff)
  qed
  moreover have "distinct (map key ms)" using assms(3) ms by (simp add: distinct_map_filter)
  ultimately show ?case using Cons a by (simp add: image_Un)
qed simp

section \<open>The index\<close>

definition faulted_under :: "fault_key \<Rightarrow> outcome_record \<Rightarrow> bool" where
  "faulted_under = (\<lambda>(operator, severity) r.
     oc_condition r = FAULTED \<and> oc_operator_id r = Some operator \<and> oc_severity_level r = Some severity)"

lemma index_loop_cells:
  assumes "index_loop spec rs seen clean no_touch faults = Inr ix"
  shows "distinct (map outcome_cell_key rs)" "outcome_cell_key ` set rs \<inter> set seen = {}"
    "\<forall>r\<in>set rs. oc_system_id r = rp_system_id spec"
proof -
  have "distinct (map outcome_cell_key rs) \<and> outcome_cell_key ` set rs \<inter> set seen = {} \<and>
    (\<forall>r\<in>set rs. oc_system_id r = rp_system_id spec)"
    using assms
  proof (induction rs arbitrary: seen clean no_touch faults)
    case (Cons r rs)
    then obtain clean' no_touch' faults' where
      "index_loop spec rs (outcome_cell_key r # seen) clean' no_touch' faults' = Inr ix"
      by (auto simp: Let_def bindr_eq_Inr split: if_splits condition.splits)
    with Cons.IH [OF this] Cons.prems show ?case by (auto split: if_splits)
  qed simp
  then show "distinct (map outcome_cell_key rs)" "outcome_cell_key ` set rs \<inter> set seen = {}"
    "\<forall>r\<in>set rs. oc_system_id r = rp_system_id spec" by blast+
qed

lemma index_loop_groups:
  assumes "index_loop spec rs seen clean no_touch faults = Inr (clean', no_touch', faults')"
    and "distinct (map fst clean)" "distinct (map fst no_touch)" "distinct (map fst faults)"
  shows "distinct (map fst clean') \<and> distinct (map fst no_touch') \<and> distinct (map fst faults') \<and>
    set (map fst clean') = set (map fst clean) \<union> baseline_of ` {r \<in> set rs. oc_condition r = CLEAN} \<and>
    set (map fst no_touch') = set (map fst no_touch) \<union> baseline_of ` {r \<in> set rs. oc_condition r = NO_TOUCH} \<and>
    set (map fst faults') = set (map fst faults) \<union> {k. \<exists>r\<in>set rs. faulted_under k r} \<and>
    (\<forall>k. members_at faults' k = members_at faults k @ filter (faulted_under k) rs)"
  using assms
proof (induction rs arbitrary: seen clean no_touch faults)
  case (Cons r rs)
  show ?case
  proof (cases "oc_condition r")
    case CLEAN
    with Cons.prems(1) have run: "index_loop spec rs (outcome_cell_key r # seen) (set_at (baseline_of r) r clean) no_touch
        faults = Inr (clean', no_touch', faults')" by (simp add: Let_def split: if_splits)
    from CLEAN Cons.IH [OF run distinct_set_at [OF Cons.prems(2)] Cons.prems(3,4)] show ?thesis
      by (auto simp: faulted_under_def image_iff simp del: set_map)
  next
    case NO_TOUCH
    with Cons.prems(1) have run: "index_loop spec rs (outcome_cell_key r # seen) clean (set_at (baseline_of r) r no_touch)
        faults = Inr (clean', no_touch', faults')" by (simp add: Let_def split: if_splits)
    from NO_TOUCH Cons.IH [OF run Cons.prems(2) distinct_set_at [OF Cons.prems(3)] Cons.prems(4)] show ?thesis
      by (auto simp: faulted_under_def image_iff simp del: set_map)
  next
    case FAULTED
    with Cons.prems(1) obtain op level where k: "oc_operator_id r = Some op" "oc_severity_level r = Some level"
      and run: "index_loop spec rs (outcome_cell_key r # seen) clean no_touch (append_at (op, level) r faults) =
        Inr (clean', no_touch', faults')"
      by (auto simp: Let_def asserted_def split: if_splits option.splits)
    have under: "faulted_under k r \<longleftrightarrow> k = (op, level)" for k
      using FAULTED k by (cases k) (auto simp: faulted_under_def)
    from FAULTED Cons.IH [OF run Cons.prems(2,3) distinct_append_at [OF Cons.prems(4)]] show ?thesis
      by (simp add: under members_append_at del: set_map) (auto simp: image_iff)
  next
    case RESTORED
    with Cons.prems(1) have run: "index_loop spec rs (outcome_cell_key r # seen) clean no_touch faults =
        Inr (clean', no_touch', faults')" by (simp add: Let_def split: if_splits)
    from RESTORED Cons.IH [OF run Cons.prems(2,3,4)] show ?thesis
      by (auto simp: faulted_under_def image_iff simp del: set_map)
  qed
qed simp

text \<open>What the index of a run holds.\<close>

definition indexes :: "reporting_spec \<Rightarrow> outcome_record list \<Rightarrow> baselines \<Rightarrow> baselines \<Rightarrow> fault_groups \<Rightarrow> bool" where
  "indexes spec records clean no_touch faults \<longleftrightarrow>
     distinct (map outcome_cell_key records) \<and> (\<forall>r\<in>set records. oc_system_id r = rp_system_id spec) \<and>
     distinct (map fst clean) \<and> distinct (map fst faults) \<and>
     set (map fst clean) = baseline_of ` {r \<in> set records. oc_condition r = CLEAN} \<and>
     set (map fst no_touch) = set (map fst clean) \<and>
     set (map fst faults) = {k. \<exists>r\<in>set records. faulted_under k r} \<and>
     (\<forall>(k, ms)\<in>set faults. ms = filter (faulted_under k) records \<and> ms \<noteq> [] \<and>
        (\<forall>r\<in>set ms. baseline_of r \<in> set (map fst clean)))"

lemma index_records_indexes:
  assumes "index_records spec records = Inr (clean, no_touch, faults)"
  shows "indexes spec records clean no_touch faults"
proof -
  have loop: "index_loop spec records [] [] [] [] = Inr (clean, no_touch, faults)"
    and baselines: "set (map fst clean) = set (map fst no_touch)"
    and paired: "\<forall>(k, ms)\<in>set faults. \<forall>r\<in>set ms. baseline_of r \<in> set (map fst clean)"
    using assms by (auto simp: index_records_def bindr_eq_Inr list_ex_iff split: if_splits)
  note cells = index_loop_cells [OF loop]
  note all = index_loop_groups [OF loop, simplified]
  have "ms = filter (faulted_under k) records \<and> ms \<noteq> []" if "(k, ms) \<in> set faults" for k ms
  proof -
    have "map_of faults k = Some ms" using all that by simp
    moreover have "members_at faults k = filter (faulted_under k) records" using all by (cases k) (simp add: members_at_def)
    moreover have "k \<in> fst ` set faults" using that by force
    then have "\<exists>r\<in>set records. faulted_under k r" using all by simp
    ultimately show ?thesis by (auto simp: members_at_def filter_empty_conv)
  qed
  then show ?thesis unfolding indexes_def using cells all baselines paired by (auto simp: split_beta)
qed


section \<open>Coverage\<close>

text \<open>The fault outcomes of the primary grid, by their coordinates in it.\<close>

definition primary_point :: "outcome_record \<Rightarrow> baseline_key \<times> string option \<times> int option" where
  "primary_point r = (baseline_of r, oc_operator_id r, oc_severity_level r)"

definition primary_grid :: "reporting_spec \<Rightarrow> baselines \<Rightarrow> (baseline_key \<times> string option \<times> int option) set" where
  "primary_grid spec clean =
     set (map fst clean) \<times> Some ` set (rp_primary_operator_ids spec) \<times> Some ` set (rp_primary_severity_levels spec)"

definition primary_fault :: "reporting_spec \<Rightarrow> outcome_record \<Rightarrow> bool" where
  "primary_fault spec r \<longleftrightarrow> (\<exists>k. faulted_under k r \<and> is_primary spec k)"

lemma primary_records_set:
  assumes "indexes spec records clean no_touch faults"
  shows "set (primary_records faults spec) = {r \<in> set records. primary_fault spec r}"
proof -
  have keys: "set (map fst faults) = {k. \<exists>r\<in>set records. faulted_under k r}"
    and groups: "\<And>k ms. (k, ms) \<in> set faults \<Longrightarrow> ms = filter (faulted_under k) records"
    using assms by (auto simp: indexes_def)
  have "r \<in> set (primary_records faults spec) \<longleftrightarrow> (\<exists>k ms. (k, ms) \<in> set faults \<and> is_primary spec k \<and> r \<in> set ms)" for r
    by (force simp: primary_records_def is_primary_def)
  moreover have "(\<exists>k ms. (k, ms) \<in> set faults \<and> is_primary spec k \<and> r \<in> set ms) \<longleftrightarrow>
      r \<in> set records \<and> primary_fault spec r" for r
  proof
    assume "\<exists>k ms. (k, ms) \<in> set faults \<and> is_primary spec k \<and> r \<in> set ms"
    then show "r \<in> set records \<and> primary_fault spec r" using groups by (fastforce simp: primary_fault_def)
  next
    assume r: "r \<in> set records \<and> primary_fault spec r"
    then obtain k where k: "faulted_under k r" "is_primary spec k" by (auto simp: primary_fault_def)
    with r keys have "k \<in> set (map fst faults)" by blast
    then obtain ms where "(k, ms) \<in> set faults" by auto
    moreover have "r \<in> set ms" unfolding groups [OF \<open>(k, ms) \<in> set faults\<close>] using k r by simp
    ultimately show "\<exists>k ms. (k, ms) \<in> set faults \<and> is_primary spec k \<and> r \<in> set ms" using k(2) by blast
  qed
  ultimately show ?thesis by blast
qed

lemma primary_records_distinct:
  assumes "indexes spec records clean no_touch faults"
  shows "distinct (map primary_point (primary_records faults spec))"
proof -
  let ?primary = "filter (\<lambda>((operator, severity), members). operator \<in> set (rp_primary_operator_ids spec) \<and>
     severity \<in> set (rp_primary_severity_levels spec)) faults"
  have "distinct (map outcome_cell_key (concat (map snd ?primary)))"
  proof (rule distinct_groups)
    show "distinct (map fst ?primary)" using assms by (simp add: indexes_def distinct_map_filter)
    show "\<forall>(k, ms) \<in> set ?primary. ms = filter (faulted_under k) records"
      using assms by (auto simp: indexes_def)
    show "distinct (map outcome_cell_key records)" using assms by (simp add: indexes_def)
    show "\<forall>k k' r. faulted_under k r \<longrightarrow> faulted_under k' r \<longrightarrow> k = k'" by (auto simp: faulted_under_def)
  qed
  then have d: "distinct (map outcome_cell_key (primary_records faults spec))" by (simp add: primary_records_def)
  have "\<forall>r\<in>set (primary_records faults spec). oc_condition r = FAULTED \<and> oc_system_id r = rp_system_id spec"
    using primary_records_set [OF assms] assms by (auto simp: primary_fault_def faulted_under_def indexes_def)
  with d show ?thesis
    by (auto simp: distinct_map inj_on_def primary_point_def outcome_cell_key_def baseline_of_def)
qed

lemma primary_records_in_grid:
  assumes "indexes spec records clean no_touch faults"
  shows "primary_point ` set (primary_records faults spec) \<subseteq> primary_grid spec clean"
proof -
  have "primary_point r \<in> primary_grid spec clean" if r: "r \<in> set (primary_records faults spec)" for r
  proof -
    obtain k where k: "faulted_under k r" "is_primary spec k"
      using r primary_records_set [OF assms] by (auto simp: primary_fault_def)
    obtain k' ms where "(k', ms) \<in> set faults" "r \<in> set ms" using r by (auto simp: primary_records_def)
    with assms have "baseline_of r \<in> set (map fst clean)" by (auto simp: indexes_def)
    with k show ?thesis
      by (auto simp: primary_point_def primary_grid_def faulted_under_def is_primary_def simp del: set_map)
  qed
  then show ?thesis by blast
qed

text \<open>Counting the primary outcomes with a property, against the size of the grid.\<close>

lemma grid_count:
  assumes "indexes spec records clean no_touch faults" "reporting_spec_ok spec"
  defines "size_of_grid \<equiv> length clean * length (rp_primary_operator_ids spec) * length (rp_primary_severity_levels spec)"
  shows "count_where P (primary_records faults spec) \<le> size_of_grid"
    and "count_where P (primary_records faults spec) = size_of_grid \<longleftrightarrow>
      primary_grid spec clean \<subseteq> primary_point ` {r \<in> set records. primary_fault spec r \<and> P r}"
proof -
  let ?rs = "filter P (primary_records faults spec)"
  have fin: "finite (primary_grid spec clean)" by (simp add: primary_grid_def)
  have sizes: "card (set (map fst clean)) = length clean"
    "card (Some ` set (rp_primary_operator_ids spec)) = length (rp_primary_operator_ids spec)"
    "card (Some ` set (rp_primary_severity_levels spec)) = length (rp_primary_severity_levels spec)"
    using assms(1,2) distinct_card [of "map fst clean"]
    by (simp_all add: indexes_def reporting_spec_ok_def card_image distinct_card)
  have "card (primary_grid spec clean) =
      length clean * (length (rp_primary_operator_ids spec) * length (rp_primary_severity_levels spec))"
    unfolding primary_grid_def card_cartesian_product sizes ..
  then have card: "card (primary_grid spec clean) = size_of_grid" by (simp add: size_of_grid_def)
  have "distinct (map primary_point ?rs)" using primary_records_distinct [OF assms(1)] by (simp add: distinct_map_filter)
  then have count: "count_where P (primary_records faults spec) = card (primary_point ` set ?rs)"
    unfolding count_where_def using distinct_card [of "map primary_point ?rs"] by simp
  have sub: "primary_point ` set ?rs \<subseteq> primary_grid spec clean" using primary_records_in_grid [OF assms(1)] by auto
  have set: "set ?rs = {r \<in> set records. primary_fault spec r \<and> P r}" using primary_records_set [OF assms(1)] by auto
  show "count_where P (primary_records faults spec) \<le> size_of_grid"
    unfolding count card [symmetric] by (rule card_mono [OF fin sub])
  show "count_where P (primary_records faults spec) = size_of_grid \<longleftrightarrow>
      primary_grid spec clean \<subseteq> primary_point ` {r \<in> set records. primary_fault spec r \<and> P r}"
    unfolding count card [symmetric] set [symmetric]
  proof
    assume "card (primary_point ` set ?rs) = card (primary_grid spec clean)"
    from card_subset_eq [OF fin sub this] show "primary_grid spec clean \<subseteq> primary_point ` set ?rs" by (rule equalityD2)
  next
    assume "primary_grid spec clean \<subseteq> primary_point ` set ?rs"
    from subset_antisym [OF sub this] show "card (primary_point ` set ?rs) = card (primary_grid spec clean)" by (rule arg_cong)
  qed
qed

definition fully_scored :: "baselines \<Rightarrow> outcome_record \<Rightarrow> bool" where
  "fully_scored clean r \<longleftrightarrow>
     oc_score_eligible r \<and> (\<exists>c. map_of clean (baseline_of r) = Some c \<and> oc_score_eligible c)"

lemma scored_flags:
  assumes "indexes spec records clean no_touch faults"
  shows "mapr (scored clean) (primary_records faults spec) = Inr (map (fully_scored clean) (primary_records faults spec))"
proof (rule mapr_Inr_map)
  fix r assume "r \<in> set (primary_records faults spec)"
  then have "baseline_of r \<in> set (map fst clean)"
    using primary_records_in_grid [OF assms] by (auto simp: primary_grid_def primary_point_def)
  then show "scored clean r = Inr (fully_scored clean r)"
    using item_at_key [of "baseline_of r" clean] by (auto simp: scored_def fully_scored_def)
qed

lemma count_statuses: "(\<Sum>s\<leftarrow>TERMINAL_STATUSES. count_where (\<lambda>r. oc_terminal_status r = s) rs) = length rs"
proof (induction rs)
  case (Cons r rs)
  then show ?case by (cases "oc_terminal_status r") (simp_all add: TERMINAL_STATUSES_def count_where_def)
qed (simp add: TERMINAL_STATUSES_def count_where_def)

lemma sum_list_insort: "sum_list (map f (insort_key g x xs)) = f x + sum_list (map f xs)" for f :: "'a \<Rightarrow> int"
  by (induction xs) auto

lemma sum_list_sort: "sum_list (map f (sort_key g xs)) = sum_list (map f xs)" for f :: "'a \<Rightarrow> int"
  by (induction xs) (simp_all add: sum_list_insort)

lemma terminal_counts_sum: "sum_list (map snd (terminal_counts rs)) = int (length rs)"
proof -
  let ?n = "\<lambda>s. int (count_where (\<lambda>r. oc_terminal_status r = s) rs)"
  let ?present = "filter (\<lambda>s. s \<in> set (map oc_terminal_status rs)) TERMINAL_STATUSES"
  have absent: "?n s = 0" if "s \<notin> set (map oc_terminal_status rs)" for s
    using that by (auto simp: count_where_def filter_empty_conv)
  have "sum_list (map snd (terminal_counts rs)) = sum_list (map snd (map (\<lambda>s. (terminal_value s, ?n s)) ?present))"
    by (simp only: terminal_counts_def sum_list_sort)
  also have "\<dots> = (\<Sum>s\<leftarrow>?present. ?n s)" by (simp add: comp_def)
  also have "\<dots> = (\<Sum>s\<leftarrow>TERMINAL_STATUSES. ?n s)"
    by (rule sum_list_map_filter) (use absent in blast)
  also have "\<dots> = int (\<Sum>s\<leftarrow>TERMINAL_STATUSES. count_where (\<lambda>r. oc_terminal_status r = s) rs)"
    by (simp add: TERMINAL_STATUSES_def)
  finally show ?thesis by (simp add: count_statuses)
qed

lemma terminal_counts_wf:
  "sorted (terminal_counts rs)" "distinct (map fst (terminal_counts rs))" "list_all (\<lambda>(key, n). key \<noteq> [] \<and> 0 \<le> n) (terminal_counts rs)"
proof -
  show "sorted (terminal_counts rs)" by (simp add: terminal_counts_def)
  have "distinct TERMINAL_STATUSES" by (simp add: TERMINAL_STATUSES_def)
  then have "distinct (map fst (map (\<lambda>s. (terminal_value s, int (count_where (\<lambda>r. oc_terminal_status r = s) rs)))
      (filter (\<lambda>s. s \<in> set (map oc_terminal_status rs)) TERMINAL_STATUSES)))"
    by (simp add: comp_def distinct_map inj_on_def)
  then show "distinct (map fst (terminal_counts rs))"
    by (simp only: terminal_counts_def distinct_map [of fst] set_sort distinct_sort)
  show "list_all (\<lambda>(key, n). key \<noteq> [] \<and> 0 \<le> n) (terminal_counts rs)"
    by (auto simp: terminal_counts_def list_all_iff)
qed


text \<open>
  The coverage of indexed outcomes can always be stated, with the counts of the outcomes; the primary grid is
  complete exactly if every point of it was observed, its scores exactly if every point was scored.
\<close>

lemma coverage_total:
  assumes "indexes spec records clean no_touch faults" "reporting_spec_ok spec"
  obtains c where "build_coverage_summary records clean faults spec = Inr c"
    "co_requested c = int (length records)" "co_eligible c = int (count_where oc_score_eligible records)"
    "co_terminal_counts c = terminal_counts records"
    "co_grid_complete c \<longleftrightarrow> primary_grid spec clean \<subseteq> primary_point ` {r \<in> set records. primary_fault spec r}"
    "co_score_complete c \<longleftrightarrow>
       primary_grid spec clean \<subseteq> primary_point ` {r \<in> set records. primary_fault spec r \<and> fully_scored clean r}"
proof -
  let ?primary = "primary_records faults spec"
  let ?size = "length clean * length (rp_primary_operator_ids spec) * length (rp_primary_severity_levels spec)"
  let ?c = "\<lparr>co_requested = int (length records), co_eligible = int (count_where oc_score_eligible records),
    co_ineligible = int (count_where (\<lambda>r. \<not> oc_score_eligible r) records), co_expected_primary = int ?size,
    co_observed_primary = int (length ?primary), co_scored_primary = int (count_where (fully_scored clean) ?primary),
    co_grid_complete = (int (length ?primary) = int ?size),
    co_score_complete = (int (count_where (fully_scored clean) ?primary) = int ?size),
    co_terminal_counts = terminal_counts records\<rparr>"
  have all: "count_where (\<lambda>_. True) ?primary = length ?primary" by (simp add: count_where_def)
  have flags: "count_where id (map (fully_scored clean) ?primary) = count_where (fully_scored clean) ?primary"
    by (simp add: count_where_def filter_map)
  have le: "count_where (fully_scored clean) ?primary \<le> length ?primary" "length ?primary \<le> ?size"
    using grid_count(1) [OF assms, of "\<lambda>_. True"] all by (simp_all add: count_where_def)
  have halves: "count_where oc_score_eligible records + count_where (\<lambda>r. \<not> oc_score_eligible r) records = length records"
    unfolding count_where_def by (rule sum_length_filter_compl)
  have no_bad: "\<not> list_ex (\<lambda>(key, n). key = [] \<or> n < 0) (terminal_counts records)"
    using terminal_counts_wf(3) [of records] by (fastforce simp: list_all_iff list_ex_iff)
  have "coverage_init ?c = Inr ?c"
    unfolding coverage_init_def using le halves no_bad terminal_counts_wf(1,2) [of records] terminal_counts_sum [of records]
    by (simp del: of_nat_mult)
  then have "build_coverage_summary records clean faults spec = Inr ?c"
    by (simp add: build_coverage_summary_def scored_flags [OF assms(1)] flags Let_def)
  moreover have "co_grid_complete ?c \<longleftrightarrow> primary_grid spec clean \<subseteq> primary_point ` {r \<in> set records. primary_fault spec r}"
    using grid_count(2) [OF assms, of "\<lambda>_. True"] all by (simp del: of_nat_mult)
  moreover have "co_score_complete ?c \<longleftrightarrow>
       primary_grid spec clean \<subseteq> primary_point ` {r \<in> set records. primary_fault spec r \<and> fully_scored clean r}"
    using grid_count(2) [OF assms, of "fully_scored clean"] by (simp del: of_nat_mult)
  ultimately show ?thesis using that [of ?c] by simp
qed

section \<open>Operator cells\<close>

lemma preliminary_cell_fields:
  assumes "preliminary_cell S spec clean no_touch (k, ms) = Inr c"
  shows "op_operator_id c = fst k" "op_severity_level c = snd k" "op_requested c = int (length ms)"
    "op_holm_p c = op_mcnemar_p c" "op_success_rate c = None \<longleftrightarrow> op_mcnemar_p c = None"
    "1 \<le> op_severity_level c" "op_severity_level c \<le> 5"
proof -
  obtain d where d: "operator_cell_init d = Inr c" "op_operator_id d = fst k" "op_severity_level d = snd k"
    "op_requested d = int (length ms)" "op_holm_p d = op_mcnemar_p d" "op_success_rate d = None \<longleftrightarrow> op_mcnemar_p d = None"
    using assms by (cases k) (auto simp: preliminary_cell_def bindr_eq_Inr Let_def split: if_splits)
  have c: "c = d" using operator_cell_init_id [OF d(1)] .
  show "op_operator_id c = fst k" "op_severity_level c = snd k" "op_requested c = int (length ms)"
    "op_holm_p c = op_mcnemar_p c" "op_success_rate c = None \<longleftrightarrow> op_mcnemar_p c = None" using d c by simp_all
  show "1 \<le> op_severity_level c" "op_severity_level c \<le> 5"
    using d(1) c by (auto simp: operator_cell_init_def bindr_eq_Inr split: if_splits)
qed


abbreviation cell_point :: "operator_cell \<Rightarrow> fault_key" where
  "cell_point c \<equiv> (op_operator_id c, op_severity_level c)"

abbreviation cell_name :: "operator_cell \<Rightarrow> string" where
  "cell_name c \<equiv> hypothesis_name (op_operator_id c) (op_severity_level c)"

lemma hypothesis_name_inj:
  assumes "hypothesis_name op l = hypothesis_name op' l'" "1 \<le> l" "l \<le> 5" "1 \<le> l'" "l' \<le> 5"
  shows "op = op'" "l = l'"
proof -
  show "op = op'" using assms(1) by (simp add: hypothesis_name_def)
  have "l \<in> {1, 2, 3, 4, 5}" "l' \<in> {1, 2, 3, 4, 5}" using assms by auto
  with assms(1) show "l = l'" by (auto simp: hypothesis_name_def)
qed

lemma raw_p_values_mem:
  "(name, p) \<in> set (raw_p_values cells) \<longleftrightarrow> (\<exists>c\<in>set cells. op_mcnemar_p c = Some p \<and> cell_name c = name)"
  by (induction cells) (auto simp: raw_p_values_def split: option.split)

lemma raw_p_values_names:
  assumes "distinct (map cell_point cells)" "\<forall>c\<in>set cells. 1 \<le> op_severity_level c \<and> op_severity_level c \<le> 5"
  shows "distinct (map fst (raw_p_values cells))"
  using assms
proof (induction cells)
  case (Cons c cells)
  have "cell_name c \<notin> fst ` set (raw_p_values cells)"
  proof
    assume "cell_name c \<in> fst ` set (raw_p_values cells)"
    then obtain c' where c': "c' \<in> set cells" "cell_name c = cell_name c'"
      by (auto simp: raw_p_values_def split: option.splits)
    with hypothesis_name_inj [OF c'(2)] Cons.prems have "cell_point c = cell_point c'" by auto
    with c'(1) Cons.prems(1) show False by (auto simp: image_iff)
  qed
  with Cons show ?case by (auto simp: raw_p_values_def split: option.splits)
qed (simp add: raw_p_values_def)

text \<open>The second pass replaces the provisional p-value of every scored cell by the adjusted one.\<close>

definition adjusts :: "(string \<times> rat) list \<Rightarrow> operator_cell \<Rightarrow> operator_cell \<Rightarrow> bool" where
  "adjusts adjusted c d \<longleftrightarrow>
     (if op_success_rate c = None then d = c
      else \<exists>p. item_at adjusted (cell_name c) = Inr p \<and> d = c\<lparr>op_holm_p := Some p\<rparr>)"

lemma adjusts_fields:
  "adjusts adjusted c d \<Longrightarrow> op_operator_id d = op_operator_id c \<and> op_severity_level d = op_severity_level c \<and>
     op_requested d = op_requested c \<and> op_mcnemar_p d = op_mcnemar_p c"
  by (auto simp: adjusts_def split: if_splits)

lemma adjusts_raw:
  assumes "list_all2 (adjusts adjusted) cs ds"
  shows "raw_p_values ds = raw_p_values cs"
proof -
  let ?raw = "\<lambda>c. case op_mcnemar_p c of None \<Rightarrow> [] | Some p \<Rightarrow> [(cell_name c, p)]"
  have "list_all2 (\<lambda>c d. ?raw d = ?raw c) cs ds"
    using assms by (rule list.rel_mono_strong) (drule adjusts_fields, simp split: option.split)
  then have "map ?raw ds = map ?raw cs" by (auto simp: list_all2_conv_all_nth intro: nth_equalityI)
  then show ?thesis by (simp add: raw_p_values_def)
qed

lemma list_all2_left: "list_all2 P xs ys \<Longrightarrow> x \<in> set xs \<Longrightarrow> \<exists>y\<in>set ys. P x y"
  by (metis in_set_conv_nth list_all2_conv_all_nth)

lemma list_all2_right: "list_all2 P xs ys \<Longrightarrow> y \<in> set ys \<Longrightarrow> \<exists>x\<in>set xs. P x y"
  by (metis in_set_conv_nth list_all2_conv_all_nth)

lemma operator_cells_parts:
  assumes "build_operator_cells S faults clean no_touch spec = Inr cells"
  obtains preliminary adjusted where
    "list_all2 (\<lambda>g c. preliminary_cell S spec clean no_touch g = Inr c) (sort_key fst faults) preliminary"
    "list_all2 (adjusts adjusted) preliminary cells" "raw_p_values cells = raw_p_values preliminary"
    "if raw_p_values preliminary = [] then adjusted = [] else holm_bonferroni (raw_p_values preliminary) = Inr adjusted"
proof -
  obtain preliminary adjusted where p: "mapr (preliminary_cell S spec clean no_touch) (sort_key fst faults) = Inr preliminary"
    and a: "(if raw_p_values preliminary = [] then Inr [] else holm_bonferroni (raw_p_values preliminary)) = Inr adjusted"
    and m: "mapr (\<lambda>c. if op_success_rate c = None then Inr c
            else bindr (item_at adjusted (cell_name c)) (\<lambda>p. operator_cell_init (c\<lparr>op_holm_p := Some p\<rparr>))) preliminary = Inr cells"
    using assms by (auto simp: build_operator_cells_def bindr_eq_Inr)
  have adj: "list_all2 (adjusts adjusted) preliminary cells"
    using m unfolding mapr_iff_list_all2
    by (rule list.rel_mono_strong) (auto simp: adjusts_def bindr_eq_Inr dest: operator_cell_init_id split: if_splits)
  show thesis
    by (rule that [OF p [unfolded mapr_iff_list_all2] adj adjusts_raw [OF adj]]) (use a in \<open>auto split: if_splits\<close>)
qed

text \<open>There is one cell per fault, in order, with the number of its outcomes.\<close>

lemma operator_cells_points:
  assumes "build_operator_cells S faults clean no_touch spec = Inr cells"
  shows "list_all2 (\<lambda>(k, ms) c. cell_point c = k \<and> op_requested c = int (length ms) \<and>
      1 \<le> op_severity_level c \<and> op_severity_level c \<le> 5) (sort_key fst faults) cells"
proof -
  obtain preliminary adjusted where
    p: "list_all2 (\<lambda>g c. preliminary_cell S spec clean no_touch g = Inr c) (sort_key fst faults) preliminary"
    and a: "list_all2 (adjusts adjusted) preliminary cells"
    using assms by (rule operator_cells_parts)
  show ?thesis
  proof (rule list_all2_trans [OF _ p a])
    fix g c d assume c: "preliminary_cell S spec clean no_touch g = Inr c" and d: "adjusts adjusted c d"
    obtain k ms where g: "g = (k, ms)" by (rule prod.exhaust)
    from c g have "preliminary_cell S spec clean no_touch (k, ms) = Inr c" by simp
    note f = preliminary_cell_fields [OF this] adjusts_fields [OF d]
    show "(case g of (k, ms) \<Rightarrow> \<lambda>c. cell_point c = k \<and> op_requested c = int (length ms) \<and>
      1 \<le> op_severity_level c \<and> op_severity_level c \<le> 5) d"
      using f g by simp
  qed
qed


lemma operator_cells_map:
  assumes "build_operator_cells S faults clean no_touch spec = Inr cells"
  shows "map cell_point cells = map fst (sort_key fst faults)"
    "\<forall>c\<in>set cells. 1 \<le> op_severity_level c \<and> op_severity_level c \<le> 5"
    "\<forall>c\<in>set cells. \<exists>ms. (cell_point c, ms) \<in> set faults \<and> op_requested c = int (length ms)"
proof -
  let ?gs = "sort_key fst faults"
  note all = operator_cells_points [OF assms]
  have len: "length ?gs = length cells" using all by (rule list_all2_lengthD)
  have at: "cell_point (cells ! i) = fst (?gs ! i) \<and> op_requested (cells ! i) = int (length (snd (?gs ! i))) \<and>
      1 \<le> op_severity_level (cells ! i) \<and> op_severity_level (cells ! i) \<le> 5" if "i < length cells" for i
    using list_all2_nthD2 [OF all that] by (simp add: split_beta)
  show "map cell_point cells = map fst ?gs" by (rule nth_equalityI) (use at len in auto)
  show "\<forall>c\<in>set cells. 1 \<le> op_severity_level c \<and> op_severity_level c \<le> 5" using at by (auto simp: in_set_conv_nth)
  show "\<forall>c\<in>set cells. \<exists>ms. (cell_point c, ms) \<in> set faults \<and> op_requested c = int (length ms)"
  proof
    fix c assume "c \<in> set cells"
    then obtain i where i: "i < length cells" "c = cells ! i" by (auto simp: in_set_conv_nth)
    then have "?gs ! i \<in> set faults" using len by (metis nth_mem set_sort)
    with at [OF i(1)] i(2) show "\<exists>ms. (cell_point c, ms) \<in> set faults \<and> op_requested c = int (length ms)"
      by (metis prod.collapse)
  qed
qed

text \<open>At every level the cells whose adjusted p-value is within it are those the step-down test rejects.\<close>

definition rejected_cells :: "rat \<Rightarrow> operator_cell list \<Rightarrow> string set" where
  "rejected_cells alpha cells = {cell_name c |c. c \<in> set cells \<and> (\<exists>p. op_holm_p c = Some p \<and> p \<le> alpha)}"

lemma holm_distinct: "holm_bonferroni ps = Inr adjusted \<Longrightarrow> distinct (map fst ps) \<Longrightarrow> distinct (map fst adjusted)"
proof -
  assume h: "holm_bonferroni ps = Inr adjusted" and d: "distinct (map fst ps)"
  have "distinct (map fst (holm_order ps))" using d by (simp add: holm_order_def distinct_map)
  then have "distinct (map fst (holm_steps 0 (holm_order ps)))" by (simp add: holm_steps_names)
  then show "distinct (map fst adjusted)" unfolding holm_Inr(1) [OF h] by (simp add: distinct_map)
qed

lemma operator_cells_rejected:
  assumes build: "build_operator_cells S faults clean no_touch spec = Inr cells" and "distinct (map fst faults)" "0 \<le> alpha"
  shows "rejected_cells alpha cells = set (step_down alpha (holm_order (raw_p_values cells)))"
proof -
  obtain preliminary adjusted where
    p: "list_all2 (\<lambda>g c. preliminary_cell S spec clean no_touch g = Inr c) (sort_key fst faults) preliminary"
    and a: "list_all2 (adjusts adjusted) preliminary cells" and raw: "raw_p_values cells = raw_p_values preliminary"
    and h: "if raw_p_values preliminary = [] then adjusted = [] else holm_bonferroni (raw_p_values preliminary) = Inr adjusted"
    using build by (rule operator_cells_parts)
  have "distinct (map cell_point cells)"
    unfolding operator_cells_map(1) [OF build] using assms(2) by (simp add: distinct_map)
  then have names: "distinct (map fst (raw_p_values preliminary))"
    using raw_p_values_names operator_cells_map(2) [OF build] raw by metis
  have adjusted: "distinct (map fst adjusted)" "set (map fst adjusted) = set (map fst (raw_p_values preliminary))"
    "{name. \<exists>q\<le>alpha. (name, q) \<in> set adjusted} = set (step_down alpha (holm_order (raw_p_values preliminary)))"
    using h holm_distinct [OF _ names] holm_Inr(2) holm_rejects [OF _ assms(3)]
    by (auto simp: holm_order_def split: if_splits simp del: set_map)
  have scored: "op_success_rate c = None \<longleftrightarrow> op_mcnemar_p c = None" "op_holm_p c = op_mcnemar_p c" if "c \<in> set preliminary" for c
  proof -
    obtain g where g: "preliminary_cell S spec clean no_touch g = Inr c"
      using list_all2_right [OF p \<open>c \<in> set preliminary\<close>] by blast
    obtain k ms where "g = (k, ms)" by (rule prod.exhaust)
    with g have "preliminary_cell S spec clean no_touch (k, ms) = Inr c" by simp
    then show "op_success_rate c = None \<longleftrightarrow> op_mcnemar_p c = None" "op_holm_p c = op_mcnemar_p c"
      by (blast dest: preliminary_cell_fields)+
  qed
  have iff: "(\<exists>d\<in>set cells. cell_name d = name \<and> op_holm_p d = Some q) \<longleftrightarrow> (name, q) \<in> set adjusted" for name q
  proof
    assume "\<exists>d\<in>set cells. cell_name d = name \<and> op_holm_p d = Some q"
    then obtain c d where cd: "c \<in> set preliminary" "adjusts adjusted c d" "cell_name d = name" "op_holm_p d = Some q"
      using list_all2_right [OF a] by blast
    then have "op_success_rate c \<noteq> None" using scored [OF cd(1)] by (auto simp: adjusts_def)
    with cd show "(name, q) \<in> set adjusted"
      by (auto simp: adjusts_def item_at_def split: option.splits dest: map_of_SomeD)
  next
    assume nq: "(name, q) \<in> set adjusted"
    then have "name \<in> set (map fst (raw_p_values preliminary))" using adjusted(2) by force
    then obtain p where "(name, p) \<in> set (raw_p_values preliminary)" by auto
    then obtain c where c: "c \<in> set preliminary" "op_mcnemar_p c \<noteq> None" "cell_name c = name"
      unfolding raw_p_values_mem by blast
    then obtain d where d: "d \<in> set cells" "adjusts adjusted c d"
      using list_all2_left [OF a] by blast
    have "map_of adjusted name = Some q" using nq adjusted(1) by simp
    with c d scored [OF c(1)] show "\<exists>d\<in>set cells. cell_name d = name \<and> op_holm_p d = Some q"
      by (intro bexI [OF _ d(1)]) (auto simp: adjusts_def item_at_def)
  qed
  have "rejected_cells alpha cells = {name. \<exists>q\<le>alpha. (name, q) \<in> set adjusted}"
    unfolding rejected_cells_def iff [symmetric] by blast
  then show ?thesis using adjusted(3) raw by simp
qed

section \<open>The benchmark summary\<close>

lemma worst_cell_least:
  assumes "cells \<noteq> []"
  shows "worst_cell cells \<in> set cells" "\<forall>c\<in>set cells. cell_rank (worst_cell cells) \<le> cell_rank c"
proof -
  let ?s = "sort_key cell_rank cells"
  have ne: "?s \<noteq> []" using assms by (metis set_empty set_sort)
  then show "worst_cell cells \<in> set cells" by (metis hd_in_set set_sort worst_cell_def)
  have "sorted (map cell_rank ?s)" by simp
  then have "\<forall>c\<in>set ?s. cell_rank (hd ?s) \<le> cell_rank c" using ne by (cases ?s) auto
  then show "\<forall>c\<in>set cells. cell_rank (worst_cell cells) \<le> cell_rank c" by (simp add: worst_cell_def)
qed

lemma task_summary_task: "task_summary_of clean no_touch scores faults spec task = Inr t \<Longrightarrow> ts_task t = task"
  by (auto simp: task_summary_of_def task_summary_init_def bindr_eq_Inr Let_def split: if_splits)

lemma task_summaries_tasks: "task_summaries clean no_touch scores faults spec = Inr ts \<Longrightarrow> map ts_task ts = task_names clean"
  unfolding task_summaries_def mapr_iff_list_all2
  by (auto simp: list_all2_conv_all_nth task_summary_task intro!: nth_equalityI)

lemma aggregate_parts:
  assumes "aggregate_benchmark S records spec = Inr b"
  obtains clean no_touch faults where
    "index_records spec records = Inr (clean, no_touch, faults)"
    "build_operator_cells S faults clean no_touch spec = Inr (bs_cells b)"
    "build_coverage_summary records clean faults spec = Inr (bs_coverage b)"
    "scored_cells spec (bs_cells b) \<noteq> []" "bs_worst b = worst_cell (scored_cells spec (bs_cells b))"
    "map ts_task (bs_tasks b) = task_names clean"
proof -
  obtain clean no_touch faults scores where
    "index_records spec records = Inr (clean, no_touch, faults)"
    "build_operator_cells S faults clean no_touch spec = Inr (bs_cells b)"
    "build_coverage_summary records clean faults spec = Inr (bs_coverage b)"
    "scored_cells spec (bs_cells b) \<noteq> []" "bs_worst b = worst_cell (scored_cells spec (bs_cells b))"
    "task_summaries clean no_touch scores faults spec = Inr (bs_tasks b)"
    using assms
    by (auto simp: aggregate_benchmark_def bindr_eq_Inr split: if_splits prod.splits dest!: benchmark_summary_init_id)
  with that task_summaries_tasks show thesis by blast
qed

lemma report_parts:
  assumes "aggregate_benchmark S records spec = Inr b"
  shows "distinct (map outcome_cell_key records) \<and>
    sorted (map cell_point (bs_cells b)) \<and> distinct (map cell_point (bs_cells b)) \<and>
    cell_point ` set (bs_cells b) = {k. \<exists>r\<in>set records. faulted_under k r} \<and>
    (\<forall>c\<in>set (bs_cells b). op_requested c = int (count_where (faulted_under (cell_point c)) records)) \<and>
    bs_worst b \<in> set (scored_cells spec (bs_cells b)) \<and>
    (\<forall>c\<in>set (scored_cells spec (bs_cells b)). cell_rank (bs_worst b) \<le> cell_rank c) \<and>
    (\<forall>alpha\<ge>0. rejected_cells alpha (bs_cells b) = set (step_down alpha (holm_order (raw_p_values (bs_cells b)))))"
proof -
  obtain clean no_touch faults where
    ix: "index_records spec records = Inr (clean, no_touch, faults)"
    and cells: "build_operator_cells S faults clean no_touch spec = Inr (bs_cells b)"
    and scored: "scored_cells spec (bs_cells b) \<noteq> []" "bs_worst b = worst_cell (scored_cells spec (bs_cells b))"
    using assms by (rule aggregate_parts)
  note index = index_records_indexes [OF ix, unfolded indexes_def]
  have d: "distinct (map fst faults)" and keys: "set (map fst faults) = {k. \<exists>r\<in>set records. faulted_under k r}"
    and members: "\<And>k ms. (k, ms) \<in> set faults \<Longrightarrow> ms = filter (faulted_under k) records"
    using index by blast+
  note points = operator_cells_map [OF cells]
  have once: "distinct (map outcome_cell_key records)" using index by blast
  have set: "cell_point ` set (bs_cells b) = {k. \<exists>r\<in>set records. faulted_under k r}"
    using arg_cong [OF points(1), of set] keys by simp
  have order: "sorted (map cell_point (bs_cells b))" "distinct (map cell_point (bs_cells b))"
    unfolding points(1) using d by (simp_all add: distinct_map)
  have counts: "\<forall>c\<in>set (bs_cells b). op_requested c = int (count_where (faulted_under (cell_point c)) records)"
    using points(3) members by (metis count_where_def)
  note worst = worst_cell_least [OF scored(1), folded scored(2)]
  have rejects: "\<forall>alpha\<ge>0. rejected_cells alpha (bs_cells b) = set (step_down alpha (holm_order (raw_p_values (bs_cells b))))"
    using operator_cells_rejected [OF cells d] by simp
  show ?thesis by (intro conjI once order set counts worst rejects)
qed

end
