(* ===== verification/Report_Examples.thy ===== *)
theory Report_Examples
  imports Report_Accounting
begin

text \<open>
  A small report: two pairs of one task, with every condition, under A2 at level 3.  The sampler of the
  bootstrap returns every stratum as it is.
\<close>

definition demo_pair :: "char \<Rightarrow> string" where
  "demo_pair c = replicate 64 c"

definition demo_outcome_record :: "char \<Rightarrow> condition \<Rightarrow> bool \<Rightarrow> int option \<Rightarrow> outcome_record" where
  "demo_outcome_record pair condition success lag =
     \<lparr>oc_system_id = ''policy'', oc_task = ''insert'', oc_pair_key = demo_pair pair, oc_condition = condition,
      oc_terminal_status = (if success then SUCCESS else TASK_FAILURE), oc_score_eligible = True,
      oc_score_success = Some success, oc_source_root_sha256 = demo_pair CHR ''0'',
      oc_operator_id = (if condition \<in> {FAULTED, RESTORED} then Some ''A2_frame_erasure'' else None),
      oc_severity_level = (if condition \<in> {FAULTED, RESTORED} then Some 3 else None),
      oc_recovery_eligible = (lag \<noteq> None), oc_recovery_lag_steps = lag,
      oc_semantic_version = REPORTING_SEMANTIC_VERSION\<rparr>"

definition demo_outcomes :: "outcome_record list" where
  "demo_outcomes =
     [demo_outcome_record CHR ''a'' CLEAN True None, demo_outcome_record CHR ''a'' NO_TOUCH False None,
      demo_outcome_record CHR ''a'' FAULTED False None, demo_outcome_record CHR ''a'' RESTORED True (Some 4),
      demo_outcome_record CHR ''b'' CLEAN True None, demo_outcome_record CHR ''b'' NO_TOUCH False None,
      demo_outcome_record CHR ''b'' FAULTED True None]"

definition demo_report_spec :: reporting_spec where
  "demo_report_spec =
     \<lparr>rp_system_id = ''policy'', rp_matched_control_qualified = True, rp_minimum_clean_gain = 1 / 8,
      rp_primary_operator_ids = [''A2_frame_erasure''], rp_bootstrap_resamples = 2, rp_bootstrap_seed = 7,
      rp_primary_severity_levels = [3], rp_confidence_level = 3 / 4,
      rp_semantic_version = REPORTING_SEMANTIC_VERSION\<rparr>"

definition demo_sampler :: "unit sampler" where
  "demo_sampler =
     \<lparr>sm_seed = (\<lambda>_. ()), sm_integers = (\<lambda>n g. ([0..<n], g)),
      sm_mean = (\<lambda>xs. sum_list xs / of_nat (length xs)), sm_quantile = (\<lambda>xs q. hd xs)\<rparr>"

lemma demo_outcomes_ok: "list_all (\<lambda>r. outcome_init r = Inr r) demo_outcomes"
  by code_simp

lemma demo_report_spec_ok: "reporting_spec_ok demo_report_spec"
  by code_simp

lemma demo_report_built: "\<not> isl (aggregate_benchmark demo_sampler demo_outcomes demo_report_spec)"
  by code_simp

lemma demo_report: "\<exists>b. aggregate_benchmark demo_sampler demo_outcomes demo_report_spec = Inr b"
  using demo_report_built by (cases "aggregate_benchmark demo_sampler demo_outcomes demo_report_spec") simp_all

lemma demo_index: "\<exists>ix. index_records demo_report_spec demo_outcomes = Inr ix"
  using demo_report by (elim exE aggregate_parts) blast

text \<open>A trial that is back inside the clean envelope from the third sample after the restoration at index 1.\<close>

definition demo_binding :: recovery_binding where
  "demo_binding =
     \<lparr>rb_clean_root = demo_pair CHR ''0'', rb_restored_root = demo_pair CHR ''1'', rb_task = ''insert'',
      rb_pair_key = demo_pair CHR ''a'', rb_operator_id = ''A2_frame_erasure'', rb_severity_level = 3,
      rb_restoration_index = 1\<rparr>"

definition demo_evidence :: recovery_evidence where
  "demo_evidence =
     \<lparr>re_binding = demo_binding, re_signal_id = POLICY_TASK_PROGRESS_SIGNAL_ID, re_clean_envelope = [0, 1, 2, 3, 4, 5],
      re_restored_quality = [0, 0, 2, 0, 4, 5], re_tolerance = 1 / 2, re_consecutive_steps = 2,
      re_recovery_lag_steps = Some 3, re_alignment = CLEAN_ENVELOPE_ALIGNMENT, re_level = RECOVERY_EVIDENCE_LEVEL,
      re_semantic_version = RECOVERY_EVIDENCE_SEMANTIC_VERSION\<rparr>"

lemma demo_evidence_ok: "recovery_evidence_init demo_evidence = Inr demo_evidence"
  by code_simp

end
