(* ===== verification/Spec2Isabelle.thy ===== *)
theory Spec2Isabelle
  imports Delivery_Acceptance Pixel_Acceptance Delivery_Examples Result_Json Matrix_Examples Report_Examples
begin

text \<open>
  RoboTactile is a robustness benchmark for robot policies that feel: it takes the records of a clean
  episode, injects one registered tactile fault, runs the policy in closed loop, and reports how much of the
  clean performance survives.  This development models the core of the package
  \<open>src/robotactile_benchmark\<close> and proves what makes it trustworthy.  Names follow the code; the
  paths below are relative to that package.

  \<^bold>\<open>The parts and how they interact.\<close>  A fault manifest names an operator, a severity, a window, the sensor
  slots and a seed, and materializes the parameters of the fault.  A batch operator turns an episode into the
  delivered episode; a streaming session does the same record by record with a bounded cache.  Validation
  compares the delivery with the clean episode.  The closed-loop runner drives a simulation backend and a policy
  through a delivery session and always writes a terminal receipt.  A matrix runner executes many such trials
  into a directory and resumes after an interruption.  The reports index the outcomes of a matrix and state
  coverage, effects and tests.

  \<^bold>\<open>Foundations.\<close>  \<open>Prelude\<close> has Python exceptions as values (\<open>'a result\<close>, \<open>Inl\<close> the exception, with the class and
  the fixed words of the message), the error monad and its loops.  \<open>PyFloat\<close> has binary64 and binary32 numbers
  as exact rationals with rounding.  \<open>PyValue\<close> has dynamic values, arrays as data, and the canonical form under
  every content address (\<open>contracts.py\<close>).  \<open>Numpy\<close> has the array code, over the numpy kernels as parameters.

  \<^bold>\<open>Faults.\<close>  \<open>Contracts\<close> (\<open>contracts.py\<close>), \<open>Registry\<close> (\<open>constants.py\<close>, \<open>severity.py\<close>, \<open>operators/registry.py\<close>),
  \<open>Parameters\<close> (\<open>operator_parameters.py\<close>), \<open>Manifests\<close> (\<open>manifests.py\<close>), \<open>References\<close> (\<open>rest_references.py\<close>),
  \<open>Operators\<close> and \<open>Fidelity\<close> (\<open>operators/\<close>), \<open>Streaming\<close> (\<open>streaming/\<close>).  \<open>Slot_Frames\<close>, \<open>Operator_Frames\<close> and
  \<open>Operator_Effects\<close> show what an operator writes, over the locale \<open>slot_writer\<close>; \<open>Schedules\<close> and
  \<open>Operator_Contracts\<close> that it returns and what it delivers; \<open>Replay\<close> and \<open>Replay_Fidelity\<close> that streaming and batch
  agree; \<open>Session_Life\<close> the life of a session; \<open>Manifest_Roundtrip\<close> that a manifest can be reloaded.

  \<^bold>\<open>Validation.\<close>  \<open>Reference_Signatures\<close>, \<open>Signature_Validators\<close> and \<open>Validators\<close> model \<open>reference_signatures.py\<close>,
  \<open>signature_validators.py\<close>, \<open>operator_validators.py\<close> and \<open>validators.py\<close>.  \<open>Validation_Gate\<close> and \<open>Semantic_Gate\<close> show that
  a report is exactly the gate, over the locales \<open>checker\<close> and \<open>total_checker\<close>; \<open>Delivery_Acceptance\<close>,
  \<open>Reference_Match\<close> and \<open>Pixel_Acceptance\<close> that what the operators deliver is accepted.

  \<^bold>\<open>Delivery and the closed loop.\<close>  \<open>Runtime\<close> (\<open>runtime.py\<close>), \<open>Delivery\<close> (\<open>closed_loop/delivery.py\<close>), \<open>Trials\<close> (\<open>trials.py\<close>),
  \<open>Loop_Contracts\<close>, \<open>Trial_Results\<close>, \<open>Result_Json\<close> (\<open>closed_loop/contracts.py\<close>, \<open>results.py\<close>, \<open>result_hashes.py\<close>,
  \<open>artifact_values.py\<close>), \<open>Runner\<close> (\<open>closed_loop/runner.py\<close>, \<open>runner_checks.py\<close>, \<open>capture.py\<close>) and \<open>Fakes\<close>
  (\<open>closed_loop/fakes.py\<close>).  The backend and the policy are records of functions over a world; a run threads the
  world and the local state, and an exception keeps the state it was raised in.  \<open>Delivery_Life\<close> and
  \<open>Delivery_Faults\<close> treat online sessions; \<open>Runner_Life\<close>, \<open>Runner_Results\<close>, \<open>Runner_Runs\<close>, \<open>Runner_Traces\<close>,
  \<open>Runner_Protocol\<close>, \<open>Runner_Evidence\<close> and \<open>Paired_Grid\<close> whole runs, over the locales \<open>simulation\<close> and
  \<open>planning\<close>, which the doubles of \<open>Fakes\<close> interpret.

  \<^bold>\<open>Matrices.\<close>  \<open>Matrix_Contracts\<close>, \<open>Matrix_Results\<close>, \<open>Matrix_States\<close>, \<open>Matrix_Manifests\<close>, \<open>Matrix_Builders\<close> and
  \<open>Matrix_Store\<close> model \<open>matrix/\<close>; the output directory is a record of its members.  \<open>Matrix_Runs\<close>,
  \<open>Matrix_Inventory\<close> and \<open>Matrix_Resume\<close> (locale \<open>resumable\<close>) hold the accounting, the inventory of the primary
  matrix and the equivalence of resumed and uninterrupted runs.

  \<^bold>\<open>Reports.\<close>  \<open>Metrics\<close> (\<open>metrics.py\<close>), \<open>Statistics\<close>, \<open>Report_Contracts\<close>, \<open>Report_Summary\<close>, \<open>Report_Aggregation\<close> and
  \<open>Report_Tasks\<close> (\<open>reporting/statistics.py\<close>, \<open>contracts.py\<close>, \<open>recovery_evidence_contracts.py\<close>, \<open>summary_contracts.py\<close>,
  \<open>cells.py\<close>, \<open>coverage.py\<close>, \<open>aggregation.py\<close>).  \<open>Report_Accounting\<close> shows that nothing is dropped.

  \<^bold>\<open>Bounds and termination.\<close>  All loops of the code but one run over a list and are structural recursions.  The
  control loop of the runner is a \<open>partial_function\<close> whose value \<open>None\<close> is not returning; C24 shows that it always
  returns, by the control cycles left.  There is no fuel.  The theories named \<open>Examples\<close> hold the concrete runs on
  which the properties with hypotheses are applied.

  \<^bold>\<open>Parameters.\<close>  SHA-256 is a \<open>hasher\<close>, of which a theorem states what it needs (digests are 64 hexadecimal
  digits).  The numpy kernels (rounding of arrays, interpolation, means), the random generator of the bootstrap,
  the size of JSON text, the clock, the simulator and the policies are arguments.

  \<^bold>\<open>Not modelled.\<close>  File formats and file-system effects around the modelled records (artifact and report bundles,
  rendering, command lines, deployment, live execution, calibration files); bindings to Isaac Sim, UniVTac and
  torch policies, which are dictionary and tensor plumbing over third-party code; concurrent writers of a matrix
  directory; the identity and mutability of Python objects beyond what the code checks (frozen arrays are
  values); the interpolated words of messages; \<open>BaseException\<close>s such as an interrupt from the keyboard.
\<close>

section \<open>Streaming and batch delivery agree\<close>



section \<open>What a fault may touch\<close>

text \<open>C2: a batch operator that returns delivers one record per clean record; outside the fault
  window the record is the clean one, inside it every slot that is not a target keeps its
  delivery and provenance, the identity, vision, proprioception and clean hash of the record are
  kept, and a record that was causal with a true delivered hash stays so.\<close>

theorem operators_confined_to_window:
  assumes "apply_operator h np (fm_operator_id m) clean m rest = Inr out" "manifest_ok h m"
    and "fm_stop_index m - fm_start_index m \<le> 2 ^ 53"
  shows "all_confined h m clean out"
  using apply_operator_confined [OF assms(1,2)] assms(3) by blast

lemma operators_confined_to_window_T1:
  "\<exists>out. apply_operator demo_hasher demo_numpy T1_fixed_source_delay demo_episode demo_T1_manifest None =
     Inr out \<and> all_confined demo_hasher demo_T1_manifest demo_episode out"
proof -
  obtain out where "apply_operator demo_hasher demo_numpy (fm_operator_id demo_T1_manifest) demo_episode
      demo_T1_manifest None = Inr out"
    using temporal_total [OF demo_ok(3) demo_episode_valid demo_timed, of demo_numpy None] by (auto simp: demo_fields)
  from this operators_confined_to_window [OF this demo_ok(3)] show ?thesis by (simp add: demo_fields)
qed

section \<open>What each fault delivers\<close>



text \<open>C4: T1, T2 and T3 return on every well-formed episode with non-decreasing delivery times and
  keep it well formed.  Every active record delivers, at every target slot, the clean record the
  dose says: T1 the record \<open>d\<close> steps before, T2 the record before the window for the first \<open>d\<close>
  steps and then the current one, T3 the record \<open>d\<close> steps before at the last target slot and the
  current one at the others; payload, hash and source come from there, index, time, slot and
  declared validity from the current delivery.\<close>

theorem temporal_operators_read_registered_sources:
  assumes "manifest_ok h m" "list_all (valid_record h) clean" "timed_episode clean"
    and "fm_operator_id m \<in> {T1_fixed_source_delay, T2_held_last_freeze, T3_inter_sensor_skew}"
  shows "\<exists>d out. severity_value (fm_operator_id m) (fm_severity_level m) = Inr (PInt d) \<and> 1 \<le> d \<and>
    apply_operator h np (fm_operator_id m) clean m rest = Inr out \<and>
    list_all (valid_record h) out \<and>
    (\<forall>i < length clean. manifest_active m (int i) \<longrightarrow> (\<forall>slot \<in> set (fm_sensor_slots m).
       if fm_operator_id m = T2_held_last_freeze \<and> source_of m d slot i = i
       then out ! i = clean ! i else reads_source m clean out d i slot))"
proof -
  obtain d where d: "1 \<le> d" "severity_value (fm_operator_id m) (fm_severity_level m) = Inr (PInt d)"
    by (rule temporal_dose [OF assms(1,4)])
  obtain out where out: "apply_operator h np (fm_operator_id m) clean m rest = Inr out"
    "list_all (valid_record h) out"
    using temporal_total [OF assms] by blast
  show ?thesis
    using d out temporal_reads [OF assms(1,2) out(1) assms(4) d(2)] by blast
qed

lemma temporal_operators_read_registered_sources_T1:
  "\<exists>out. apply_operator demo_hasher demo_numpy T1_fixed_source_delay demo_episode demo_T1_manifest None =
     Inr out \<and> reads_source demo_T1_manifest demo_episode out 1 2 ''right'' \<and>
     source_of demo_T1_manifest 1 ''right'' 2 = 1"
proof -
  have "severity_value T1_fixed_source_delay 1 = Inr (PInt 1)" by code_simp
  with temporal_operators_read_registered_sources
    [OF demo_ok(3) demo_episode_valid demo_timed, of demo_numpy None]
  obtain out where "apply_operator demo_hasher demo_numpy T1_fixed_source_delay demo_episode demo_T1_manifest None =
      Inr out" "\<forall>i < length demo_episode. manifest_active demo_T1_manifest (int i) \<longrightarrow>
        (\<forall>slot \<in> set [''left'', ''right'']. reads_source demo_T1_manifest demo_episode out 1 i slot)"
    by (auto simp: demo_fields)
  then show ?thesis by (auto simp: manifest_active_def demo_fields source_of_def)
qed

text \<open>C5: C1 returns on every well-formed episode whose two sensors share their clock and keeps it
  well formed; at the first \<open>n\<close> indices of the window each slot is delivered the clean payload
  and source of the other sensor under its own slot, time, frame and calibration names, and
  every other record is unchanged.\<close>

theorem misrouting_swaps_sensors:
  assumes "manifest_ok h m" "fm_operator_id m = C1_sensor_identity_misrouting"
    and "list_all (valid_record h) clean" "list_all synchronous clean"
  shows "\<exists>n out. 1 \<le> n \<and> n \<le> fm_stop_index m - fm_start_index m \<and>
    C1_apply h clean m = Inr out \<and> list_all (valid_record h) out \<and>
    (\<forall>i < length clean.
       if int i - fm_start_index m \<in> {0..<n}
       then \<forall>slot \<in> set SENSOR_SLOTS. \<exists>target s p.
         ob_sensor (ev_observation (clean ! i)) slot = Inr target \<and>
         slot_view (clean ! i) (other_slot slot) = (Inr s, Inr p) \<and>
         slot_view (out ! i) slot =
           (Inr (misrouted_sensor m target s), Inr (misrouted_provenance h m slot s p))
       else out ! i = clean ! i)"
proof -
  obtain n where n: "param_ints m ''affected_offsets'' = Inr (py_range 0 n)" "1 \<le> n"
    "n \<le> fm_stop_index m - fm_start_index m"
    using C1_offsets [OF assms(1,2)] by blast
  obtain out where out: "C1_apply h clean m = Inr out" "list_all (valid_record h) out"
    using C1_total [OF assms] by blast
  have "int i - fm_start_index m \<in> set (py_range 0 n)" if "int i - fm_start_index m \<in> {0..<n}" for i
    using that by (auto simp: py_range_def intro!: image_eqI [of _ _ "nat (int i - fm_start_index m)"])
  with n out C1_delivers [OF assms(1-3) out(1) n(1)] C1_unscheduled [OF assms(1,2) out(1) _ n(1)]
  show ?thesis by (intro exI [of _ n] exI [of _ out]) auto
qed

lemma misrouting_swaps_sensors_demo:
  "\<exists>out target s p. C1_apply demo_hasher demo_episode demo_C1_manifest = Inr out \<and>
     slot_view (demo_episode ! 1) ''right'' = (Inr s, Inr p) \<and>
     slot_view (out ! 1) ''left'' = (Inr (misrouted_sensor demo_C1_manifest target s),
       Inr (misrouted_provenance demo_hasher demo_C1_manifest ''left'' s p))"
proof -
  obtain n out where n: "1 \<le> n" and out: "C1_apply demo_hasher demo_episode demo_C1_manifest = Inr out"
    and at: "\<forall>i < length demo_episode. if int i - 1 \<in> {0..<n} then \<forall>slot \<in> set SENSOR_SLOTS. \<exists>target s p.
         ob_sensor (ev_observation (demo_episode ! i)) slot = Inr target \<and>
         slot_view (demo_episode ! i) (other_slot slot) = (Inr s, Inr p) \<and>
         slot_view (out ! i) slot = (Inr (misrouted_sensor demo_C1_manifest target s),
           Inr (misrouted_provenance demo_hasher demo_C1_manifest slot s p))
       else out ! i = demo_episode ! i"
    using misrouting_swaps_sensors [OF demo_ok(6) _ demo_episode_valid demo_synchronous]
    unfolding demo_fields by blast
  from at [rule_format, of 1] n out show ?thesis
    by (auto simp: SENSOR_SLOTS_def other_slot_def)
qed

text \<open>C6: inside the frame, the C2 kernel moves the payload right by \<open>sx\<close> and down by \<open>sy\<close> pixels and
  fills the pixels it uncovers from the rest baseline.\<close>

theorem misregistration_shifts_pixels:
  assumes "nd_shape payload = [hh, ww, 3]" "nd_shape baseline = [hh, ww, 3]"
    and "0 \<le> sx" "0 \<le> sy" "sx < int ww" "sy < int hh" "y < hh" "x < ww" "c < 3"
  shows "\<exists>out. baseline_fill_shift payload baseline sx sy = Inr out \<and>
    nd_dtype out = nd_dtype baseline \<and> nd_shape out = [hh, ww, 3] \<and>
    at3 out y x c = (if sy \<le> int y \<and> sx \<le> int x
                     then at3 payload (y - nat sy) (x - nat sx) c else at3 baseline y x c)"
  by (rule baseline_fill_shift_pixel [OF assms])

lemma misregistration_shifts_pixels_demo:
  "\<exists>out. baseline_fill_shift (demo_frame 20 1) (demo_frame 5 0) 1 0 = Inr out \<and>
     at3 out 1 1 2 = at3 (demo_frame 20 1) 1 0 2"
  using misregistration_shifts_pixels [of "demo_frame 20 1" 2 2 "demo_frame 5 0" 1 0 1 1 2]
  by (auto simp: demo_frame_def)

section \<open>The streaming session\<close>



text \<open>C8: whatever records a session is fed, accepted or refused, its source cache never holds more
  than its registered maximum age plus two records, and the count never exceeds the inputs.\<close>

theorem session_cache_stays_bounded:
  assumes "session_init h m rest = Inr s"
  shows "int (length (ss_source_records (session_after h np s inputs))) \<le> ss_maximum_source_age s + 2"
  using cache_bounded_length [of "session_after h np s inputs"]
    session_after_live [OF session_init_live [OF assms], of h np inputs]
  by (simp add: session_live_def session_after_age)

lemma session_cache_stays_bounded_T1:
  "int (length (ss_source_records (session_after demo_hasher demo_numpy (demo_session demo_T1_manifest None)
     (demo_episode @ demo_episode)))) \<le> 3"
proof -
  have "ss_maximum_source_age (demo_session demo_T1_manifest None) = 1" by code_simp
  with session_cache_stays_bounded [OF demo_session_run [OF demo_session_T1], of demo_numpy
    "demo_episode @ demo_episode"]
  show ?thesis by simp
qed

text \<open>C9: a delivery advances the session by exactly one record when it returns and not at all when
  it raises; a record that is not the next dense one is refused and leaves the session as it was.\<close>

theorem session_advances_densely:
  "ss_processed_count (fst (deliver_one h np s c)) =
     ss_processed_count s + (if isl (snd (deliver_one h np s c)) then 0 else 1) \<and>
   (step_of c \<noteq> ss_processed_count s \<longrightarrow>
     fst (deliver_one h np s c) = s \<and> isl (snd (deliver_one h np s c)))"
  by (intro conjI impI deliver_one_count deliver_one_dense)

lemma session_advances_densely_demo:
  "isl (snd (deliver_one demo_hasher demo_numpy (demo_session demo_T1_manifest None) (demo_record 1)))"
proof -
  have "ss_processed_count (demo_session demo_T1_manifest None) = 0" by code_simp
  with session_advances_densely [of demo_hasher demo_numpy "demo_session demo_T1_manifest None" "demo_record 1"]
  show ?thesis by (simp add: demo_step)
qed

section \<open>Manifests and parameters\<close>

text \<open>C10: reading back the JSON form of a manifest gives the manifest, for windows of up to
  \<open>2 ^ 26\<close> steps under A2.\<close>

theorem manifest_json_roundtrip:
  assumes "manifest_ok h m" "fm_stop_index m - fm_start_index m \<le> 2 ^ 26"
  shows "manifest_from_dict h (manifest_to_dict m) = Inr m"
  using manifest_reload [OF assms(1)] assms(2) by blast

lemma manifest_json_roundtrip_A2:
  "manifest_from_dict demo_hasher (manifest_to_dict demo_A2_manifest) = Inr demo_A2_manifest"
  by (rule manifest_json_roundtrip [OF demo_ok(2)]) (simp add: demo_fields)

text \<open>C11: the frames A2 erases are a non-empty, strictly increasing sequence of offsets inside the
  fault window.\<close>

theorem erasure_schedule_in_window:
  assumes "manifest_ok h m" "fm_operator_id m = A2_frame_erasure"
    and "fm_stop_index m - fm_start_index m \<le> 2 ^ 26"
  shows "\<exists>offs. param_ints m ''erased_offsets'' = Inr offs \<and> offs \<noteq> [] \<and> sorted_wrt (<) offs \<and>
    set offs \<subseteq> {0..<fm_stop_index m - fm_start_index m}"
proof -
  obtain offs where offs: "param_ints m ''erased_offsets'' = Inr offs" "sorted offs" "distinct offs"
    "\<And>i. i \<in> set offs \<Longrightarrow> 0 \<le> i \<and> i < fm_stop_index m - fm_start_index m" "offs \<noteq> []"
    using A2_offsets_schedule [OF assms] by metis
  then show ?thesis by (auto simp: strict_sorted_iff)
qed

lemma erasure_schedule_in_window_demo:
  "\<exists>offs. param_ints demo_A2_manifest ''erased_offsets'' = Inr offs \<and> offs \<noteq> [] \<and>
     sorted_wrt (<) offs \<and> set offs \<subseteq> {0..<2}"
  using erasure_schedule_in_window [OF demo_ok(2)] by (simp add: demo_fields)

text \<open>C12: the deterministic template offset of an operator, a seed and an axis never leaves
  \<open>[-0.03, 0.03]\<close> (in binary64).\<close>

theorem seed_offsets_stay_in_template:
  assumes "seed_offset h op seed axis = Inr d"
  shows "- fl64 (3/100) \<le> d \<and> d \<le> fl64 (3/100)"
  by (rule seed_offset_range [OF assms])

lemma seed_offsets_stay_in_template_F2:
  "\<exists>d. seed_offset demo_hasher F2_spatial_sensitivity_loss 3 ''x'' = Inr d \<and>
     - fl64 (3/100) \<le> d \<and> d \<le> fl64 (3/100)"
proof -
  have "hex_int (take 8 demo_sha) = Inr 0" by code_simp
  then obtain d where "seed_offset demo_hasher F2_spatial_sensitivity_loss 3 ''x'' = Inr d"
    by (simp add: seed_offset_def Let_def)
  from this seed_offsets_stay_in_template [OF this] show ?thesis by blast
qed


text \<open>C14: importing the package registers every core operator once under its own specification, and
  nothing else; a second registration of a name is refused.\<close>

theorem registry_holds_core_operators:
  "\<exists>reg. load_registry = Inr reg \<and> set (names reg) = operator_name ` set CORE_OPERATOR_IDS \<and>
     (\<forall>op. create reg (operator_name op) = Inr (spec_of op) \<and> spec_operator_id (spec_of op) = op \<and>
           isl (register reg (operator_name op) cls)) \<and>
     (\<forall>name. operator_of_name name = None \<longrightarrow> isl (create reg name))"
proof -
  let ?reg = "map (\<lambda>op. (operator_name op, spec_of op)) import_order"
  have all: "set import_order = UNIV"
    using core_operators_all by (auto simp: import_order_def CORE_OPERATOR_IDS_def)
  have "spec_operator_id (spec_of op) = op" for op by (cases op) simp_all
  moreover have "isl (create ?reg name)" if "operator_of_name name = None" for name
  proof -
    have "name \<notin> fst ` set ?reg" using that by (auto simp: image_iff)
    then have "map_of ?reg name = None" by (simp only: map_of_eq_None_iff not_False_eq_True)
    then show ?thesis by (simp only: create_def option.case sum.disc)
  qed
  moreover have "set (names ?reg) = operator_name ` set CORE_OPERATOR_IDS"
    using all core_operators_all by (auto simp: names_def image_iff)
  moreover have "isl (register ?reg (operator_name op) cls)" for op
    using all by (auto simp: register_def image_iff)
  ultimately show ?thesis using registry_loaded registry_create by blast
qed

lemma registry_holds_core_operators_unknown:
  "\<exists>reg. load_registry = Inr reg \<and> isl (create reg ''X1_unknown'')"
proof -
  have "operator_of_name ''X1_unknown'' = None" by code_simp
  with registry_holds_core_operators [of undefined] show ?thesis by blast
qed

section \<open>Records, hashes and references\<close>

text \<open>C15: a record that \<open>build_evaluation_record\<close> returns has one provenance per sensor slot, no
  source index or time from the future of its delivery, the content that was given, and the
  hash of that content.\<close>

theorem built_records_are_causal:
  assumes "build_evaluation_record h ob pvs clean = Inr r"
  shows "evaluation_ok h r \<and> ev_observation r = ob \<and> ev_provenance r = pvs \<and>
    (clean = None \<longrightarrow> ev_clean_record_sha256 r = ev_delivered_record_sha256 r)"
  using build_evaluation_record_Inr [OF assms] by blast

lemma built_records_are_causal_demo:
  "evaluation_ok demo_hasher (demo_record 2)"
proof -
  have "build_evaluation_record demo_hasher (demo_observation 2)
      [demo_provenance ''left'' 20 2, demo_provenance ''right'' 90 2] None = Inr (demo_record 2)"
    using demo_build [of 2] by simp
  from built_records_are_causal [OF this] show ?thesis by blast
qed

text \<open>The canonical hash of a dictionary does not depend on the order of its keys.\<close>

theorem canonical_hash_ignores_key_order:
  assumes "set d = set d'" "distinct (map fst d)" "distinct (map fst d')"
  shows "canonical_hash h (PDict d) = canonical_hash h (PDict d')"
  unfolding canonical_hash_def by (simp only: canon_dict_perm [OF assms])

lemma canonical_hash_ignores_key_order_demo:
  "\<forall>h. canonical_hash h (PDict [(''a'', PInt 1), (''b'', PNone)]) =
       canonical_hash h (PDict [(''b'', PNone), (''a'', PInt 1)])"
  by (intro allI canonical_hash_ignores_key_order) auto

text \<open>C16: freezing a uint8 RGB rest frame to its hexadecimal form and thawing it gives the frame.\<close>

theorem frozen_payload_roundtrip:
  assumes "uint8_array a" "length (nd_shape a) = 3" "last (nd_shape a) = 3"
  shows "\<exists>p. frozen_from_array a = Inr p \<and> frozen_to_array p = a"
  by (rule frozen_roundtrip [OF assms])

lemma frozen_payload_roundtrip_demo:
  "\<exists>p. frozen_from_array (demo_frame 250 1) = Inr p \<and> frozen_to_array p = demo_frame 250 1"
  by (rule frozen_payload_roundtrip) (simp_all add: demo_frame_def uint8_array_def upt_rec)

section \<open>Array geometry\<close>

text \<open>The box anchor of F7 reads only pixels of the frame: its radius leaves the window inside the
  shorter side, every reflected index is in range, and reflection is the mirror at the borders.\<close>

theorem reflected_anchor_stays_in_frame:
  assumes "2 \<le> len"
  shows "(\<forall>idx \<in> set (reflected_indices len radius). length idx = len \<and> (\<forall>i\<in>set idx. 0 \<le> i \<and> i < int len)) \<and>
    (\<forall>i. - int len < i \<and> i < 2 * int len - 1 \<longrightarrow>
      reflect_index len i = (if i < 0 then - i else if i < int len then i else 2 * (int len - 1) - i))"
  using reflected_indices_range [OF assms] reflect_index_mirror [OF assms] by blast


lemma reflected_anchor_stays_in_frame_demo: "reflect_index 2 (-1) = 1"
  using reflected_anchor_stays_in_frame [of 2 1] by simp

section \<open>The delivery gate\<close>

text \<open>C17: the validation report of a delivery is exactly the gate.  It passes if and only if the
  episodes have equal length, every delivered record references its clean record and carries the
  hash of its content, nothing changed outside the window, the write set and the declared
  validity are respected, no source lies in the future, absence is structural, some active record
  changed, and the predicate of the operator holds.  Failure codes are distinct, one message
  each, and a report passes exactly when it has none.\<close>

theorem report_is_the_gate:
  assumes "validate_delivery h np clean delivered m rest = Inr r"
  shows "(vr_passed r \<longleftrightarrow> delivery_gate h np clean delivered m rest) \<and>
    (vr_passed r \<longleftrightarrow> vr_failure_codes r = []) \<and> distinct (vr_failure_codes r) \<and>
    length (vr_failures r) = length (vr_failure_codes r)"
  using validate_delivery_gate [OF assms] by blast

lemma report_is_the_gate_A1:
  "\<exists>r. validate_delivery demo_hasher demo_numpy demo_episode demo_episode demo_A1_manifest None = Inr r \<and>
     (vr_passed r \<longleftrightarrow> delivery_gate demo_hasher demo_numpy demo_episode demo_episode demo_A1_manifest None)"
proof -
  obtain r where "validate_delivery demo_hasher demo_numpy demo_episode demo_episode demo_A1_manifest None = Inr r"
    using unchanged_report [OF demo_ok(1)] demo_episode_valid demo_fields by blast
  with report_is_the_gate [OF this] show ?thesis by blast
qed



text \<open>C19: T3 with a single sensor slot, which the manifest accepts, never passes: its gate asks
  for a skew between two slots.\<close>

theorem single_slot_skew_never_passes:
  assumes "fm_operator_id m = T3_inter_sensor_skew" "length (fm_sensor_slots m) = 1"
    and "validate_delivery h np clean delivered m rest = Inr r"
  shows "\<not> vr_passed r"
  using single_slot_refused [OF assms] .

lemma single_slot_skew_never_passes_demo:
  "\<exists>r. validate_delivery demo_hasher demo_numpy [] [] single_slot_manifest None = Inr r \<and> \<not> vr_passed r"
proof -
  obtain r where r: "validate_delivery demo_hasher demo_numpy [] [] single_slot_manifest None = Inr r"
    using single_slot_report by blast
  with single_slot_skew_never_passes [OF single_slot_fields r] show ?thesis by blast
qed

section \<open>Pixel operators and the independent reference\<close>

text \<open>C20: the payloads a pixel operator delivers are those of the independent reference
  realization: whenever the operator returns and the reference is defined, the comparison of the
  signature validator returns and finds every payload equal.\<close>

theorem pixel_operators_match_reference:
  assumes "manifest_ok h m" "fm_operator_id m \<in> set pixel_operators" "numpy_laws np"
    and "list_all (valid_record h) clean" "uint8_episode clean"
    and "fm_stop_index m - fm_start_index m \<le> 2 ^ 53"
    and "apply_operator h np (fm_operator_id m) clean m rest = Inr out"
    and "expected_pixel_payloads h np clean m rest = Inr expected"
  shows "all_matched out expected = Inr True"
  using reference_matches [OF assms] .

lemma pixel_operators_match_reference_F1:
  "\<exists>out expected. apply_operator demo_hasher demo_numpy F1_global_response_drift demo_episode
      demo_F1_manifest (Some demo_bundle) = Inr out \<and>
     expected_pixel_payloads demo_hasher demo_numpy demo_episode demo_F1_manifest (Some demo_bundle) = Inr expected \<and>
     all_matched out expected = Inr True"
proof -
  obtain out where out: "apply_operator demo_hasher demo_numpy F1_global_response_drift demo_episode
      demo_F1_manifest (Some demo_bundle) = Inr out"
    by (rule demo_F1_run)
  obtain expected where e: "expected_pixel_payloads demo_hasher demo_numpy demo_episode demo_F1_manifest
      (Some demo_bundle) = Inr expected"
    by (rule demo_F1_expected)
  with out pixel_operators_match_reference [OF demo_F1_facts(1) _ demo_numpy_laws demo_episode_valid demo_uint8,
      of "Some demo_bundle" out expected] demo_F1_facts
  show ?thesis by (simp add: pixel_operators_def stateless_fidelity_def)
qed

text \<open>C21: the stateless fidelity operators return whenever every transform they need returns a
  canonical payload, keep the episode well formed, and deliver at every active slot in phase
  exactly that payload under the same source, with its digest and the operator recorded; a slot
  out of phase keeps its delivery.\<close>

theorem fidelity_operators_deliver_transforms:
  assumes "manifest_ok h m" "fm_operator_id m \<in> set stateless_fidelity" "list_all (valid_record h) clean"
    and "\<And>i slot. i < length clean \<Longrightarrow> manifest_active m (int i) \<Longrightarrow> slot \<in> set (fm_sensor_slots m) \<Longrightarrow>
      in_phase m (clean ! i) slot \<Longrightarrow> transforms h np m rest (int i) (clean ! i) slot (f i slot)"
  shows "\<exists>out. apply_operator h np (fm_operator_id m) clean m rest = Inr out \<and> list_all (valid_record h) out \<and>
    (\<forall>i < length clean. \<forall>slot \<in> set (fm_sensor_slots m). manifest_active m (int i) \<longrightarrow>
      (\<exists>s p. slot_view (clean ! i) slot = (Inr s, Inr p) \<and>
         slot_view (out ! i) slot =
           (if in_phase m (clean ! i) slot
            then (Inr (fidelity_sensor m s (f i slot)), Inr (fidelity_provenance h m p (f i slot)))
            else (Inr s, Inr p))))"
proof -
  obtain out where out: "apply_operator h np (fm_operator_id m) clean m rest = Inr out" "list_all (valid_record h) out"
    using stateless_total [OF assms(1-3)] assms(4) by blast
  have "\<exists>s p. slot_view (clean ! i) slot = (Inr s, Inr p) \<and>
      slot_view (out ! i) slot =
        (if in_phase m (clean ! i) slot
         then (Inr (fidelity_sensor m s (f i slot)), Inr (fidelity_provenance h m p (f i slot)))
         else (Inr s, Inr p))"
    if "i < length clean" "slot \<in> set (fm_sensor_slots m)" "manifest_active m (int i)" for i slot
    using stateless_delivers [OF assms(1-3) out(1) that(1,3,2) assms(4) [OF that(1,3,2)]]
      episode_slots [OF assms(1,3) that(1,2)] by fastforce
  with out show ?thesis by blast
qed

lemma fidelity_operators_deliver_transforms_F1:
  "\<exists>out s p x. apply_operator demo_hasher demo_numpy F1_global_response_drift demo_episode demo_F1_manifest
      (Some demo_bundle) = Inr out \<and> slot_view (demo_episode ! 1) ''left'' = (Inr s, Inr p) \<and>
     slot_view (out ! 1) ''left'' =
       (Inr (fidelity_sensor demo_F1_manifest s x), Inr (fidelity_provenance demo_hasher demo_F1_manifest p x))"
proof -
  define f where "f i slot =
    (SOME x. transforms demo_hasher demo_numpy demo_F1_manifest (Some demo_bundle) (int i) (demo_record i) slot x)" for i slot
  have f: "transforms demo_hasher demo_numpy demo_F1_manifest (Some demo_bundle) (int i) (demo_record i) slot (f i slot)"
    if "i < 4" "slot \<in> set SENSOR_SLOTS" for i slot
    unfolding f_def by (rule someI_ex) (rule demo_F1_transforms [OF that])
  have active: "manifest_active demo_F1_manifest 1" by (simp add: manifest_active_def demo_F1_facts)
  have phase: "in_phase demo_F1_manifest r slot" for r slot by (simp add: in_phase_def demo_F1_facts)
  have op: "fm_operator_id demo_F1_manifest \<in> set stateless_fidelity"
    by (simp add: demo_F1_facts stateless_fidelity_def)
  have tr: "transforms demo_hasher demo_numpy demo_F1_manifest (Some demo_bundle) (int i) (demo_episode ! i) slot (f i slot)"
    if "i < length demo_episode" "slot \<in> set (fm_sensor_slots demo_F1_manifest)" for i slot
    using f [of i slot] that manifest_ok_window(7) [OF demo_F1_facts(1)] by (auto simp: demo_nth)
  obtain out where out: "apply_operator demo_hasher demo_numpy F1_global_response_drift demo_episode demo_F1_manifest
      (Some demo_bundle) = Inr out"
    and at: "\<exists>s p. slot_view (demo_episode ! 1) ''left'' = (Inr s, Inr p) \<and> slot_view (out ! 1) ''left'' =
      (Inr (fidelity_sensor demo_F1_manifest s (f 1 ''left'')),
       Inr (fidelity_provenance demo_hasher demo_F1_manifest p (f 1 ''left'')))"
    using fidelity_operators_deliver_transforms [OF demo_F1_facts(1) op demo_episode_valid, of demo_numpy "Some demo_bundle" f,
        OF tr] active phase
    unfolding demo_F1_facts(2) demo_F1_facts(5) by (auto dest!: spec [of _ 1])
  then show ?thesis by blast
qed

section \<open>Online delivery\<close>

text \<open>C22: when the offline runtime returns a result for a clean stream, an online session on the
  same manifest and references takes the stream record by record without an exception, and is
  finalized to the records, the validation report and the trace hash of the offline result.\<close>

theorem online_session_refines_runtime:
  assumes "manifest_ok h m" "fm_stop_index m - fm_start_index m \<le> 2 ^ 53"
    and "\<forall>b. rest = Some b \<longrightarrow> bundle_ok b" "sha_digests h"
    and "clean_stream h clean" "list_all (evaluation_ok h) clean"
    and "online_init h m rest = Inr s" "apply_fault h np clean m rest = Inr r"
  shows "\<exists>s1 s2 f. online_all h np s clean = Inr s1 \<and> online_finalize h np s1 = (s2, Inr f) \<and>
    df_clean_records f = clean \<and> df_delivered_records f = rr_records r \<and>
    df_validation f = Some (rr_validation r) \<and> df_delivered_trace_sha256 f = rr_trace_sha256 r \<and>
    df_manifest_sha256 f = Some (manifest_sha256 h m)"
  using assms by (rule online_matches_runtime)

lemma online_session_refines_runtime_A1:
  "\<exists>s r s1 s2 f. online_init (marking_hasher A1_stream_absence) (marked_manifest A1_stream_absence) None = Inr s \<and>
     apply_fault (marking_hasher A1_stream_absence) demo_numpy demo_episode (marked_manifest A1_stream_absence) None = Inr r \<and>
     online_all (marking_hasher A1_stream_absence) demo_numpy s demo_episode = Inr s1 \<and>
     online_finalize (marking_hasher A1_stream_absence) demo_numpy s1 = (s2, Inr f) \<and>
     df_delivered_trace_sha256 f = rr_trace_sha256 r"
proof -
  let ?h = "marking_hasher A1_stream_absence" and ?m = "marked_manifest A1_stream_absence"
  obtain s where s: "online_init ?h ?m None = Inr s" using marked_online by blast
  obtain r where r: "apply_fault ?h demo_numpy demo_episode ?m None = Inr r" using marked_runtime by blast
  have "list_all (evaluation_ok ?h) demo_episode"
    using marked_clean by (simp add: clean_episode_def valid_record_def list_all_iff)
  with online_session_refines_runtime [OF marked_manifest_A1(1) _ _ demo_digests(2) marked_clean_stream _ s r]
    marked_manifest_A1 s r
  show ?thesis by auto
qed

text \<open>C23: once a delivery raises after its record was accepted, which is what an exception of the
  streaming engine does, the session never recovers: whatever is called next, every delivery and
  every finalization raises.\<close>

theorem failed_delivery_wedges_session:
  assumes "online_init h m rest = Inr s0" "online_reaches h np s0 s"
    and "isl (snd (online_deliver h np s r))"
    and "length (ds_clean_records (os_base (fst (online_deliver h np s r)))) \<noteq> length (ds_clean_records (os_base s))"
    and "online_reaches h np (fst (online_deliver h np s r)) t"
  shows "isl (snd (online_deliver h np t x)) \<and> isl (snd (online_finalize h np t))"
proof -
  have "accounted h s" by (rule online_reaches_accounted [OF assms(2) online_init_accounted [OF assms(1)]])
  from raised_stuck [OF this assms(3)] assms(4) have "stuck (fst (online_deliver h np s r))" by metis
  with stuck_reaches [OF assms(5)] stuck_deliver(2) stuck_finalize(2) show ?thesis by blast
qed

lemma failed_delivery_wedges_session_F1:
  "isl (snd (online_finalize demo_hasher demo_numpy
     (fst (online_deliver demo_hasher demo_numpy (dark_session 1) (dark_record 1)))))"
proof -
  have "online_init demo_hasher (demo_manifest F1_global_response_drift 1 BLIND rest_args) (Some demo_bundle) =
      Inr (dark_session 0)"
    using dark_init by (simp add: dark_session_def Let_def)
  moreover have "online_reaches demo_hasher demo_numpy (dark_session 0) (dark_session 1)"
    by (auto simp: dark_session_def Let_def)
  ultimately show ?thesis
    using failed_delivery_wedges_session dark_run reaches_refl by (metis numeral_eq_one_iff semiring_norm(85))
qed

text \<open>C24: whatever calls a session has seen, refused ones included, the records it accepted are
  numbered densely from zero, carry true hashes, no fault and one stream identity, and the engine
  has handled exactly the delivered ones.\<close>

theorem session_accepts_clean_streams:
  assumes "online_init h m rest = Inr s0" "online_reaches h np s0 s"
  shows "clean_stream h (ds_clean_records (os_base s)) \<and>
    int (length (ds_delivered_records (os_base s))) = ss_processed_count (os_streaming s) \<and>
    length (ds_delivered_records (os_base s)) \<le> length (ds_clean_records (os_base s))"
  using online_reaches_accounted [OF assms(2) online_init_accounted [OF assms(1)]]
  by (simp add: accounted_def)

lemma session_accepts_clean_streams_F1: "clean_stream demo_hasher (ds_clean_records (os_base (dark_session 1)))"
proof -
  have "online_init demo_hasher (demo_manifest F1_global_response_drift 1 BLIND rest_args) (Some demo_bundle) =
      Inr (dark_session 0)"
    using dark_init by (simp add: dark_session_def Let_def)
  moreover have "online_reaches demo_hasher demo_numpy (dark_session 0) (dark_session 1)"
    by (auto simp: dark_session_def Let_def)
  ultimately show ?thesis using session_accepts_clean_streams by blast
qed



section \<open>Closed-loop trials\<close>

text \<open>C26: \<open>run_closed_loop_trial\<close> returns for every backend, policy, clock, trial and budget: the
  control loop ends because every cycle that goes on has used one of the finitely many control
  cycles, whatever the simulator, the policy and the clock answer.\<close>

theorem closed_loop_run_terminates:
  "\<exists>out w'. run_closed_loop_trial E w = Some (out, w')"
  using run_trial_returns [of E False w]
  by (auto simp: run_closed_loop_trial_def split: sum.split)

text \<open>C27: when the trial and the budget are valid, the policy and the backend match them, the
  session opens, and the backend and the policy answer with constructed receipts and plans (they
  may raise at any call), the run returns a valid receipt of the trial within its budgets, never an
  exception; so does the run with evidence, and its evidence carries the same receipt.\<close>

theorem admitted_trial_returns_receipt:
  assumes "sha_digests (en_hasher E)" "run_spec_ok (en_spec E)" "trial_ok (en_hasher E) (en_trial E)"
    and "\<And>ctx v r v'. be_reset (en_backend E) ctx v = (Inr r, v') \<Longrightarrow> receipt_init r = Inr r"
    and "\<And>ob v p v'. po_infer (en_policy E) ob v = (Inr p, v') \<Longrightarrow> plan_valid p"
    and "preflight E = Inr ()" "\<not> isl (open_session E)"
  shows "\<exists>ev w'. run_closed_loop_trial_with_evidence E w = Some (Inr ev, w') \<and>
    run_closed_loop_trial E w = Some (Inr (ce_result ev), w') \<and> receipt_of_trial E (ce_result ev)"
proof -
  have "simulation E" using assms(1,2,4) by unfold_locales
  moreover have "planning_axioms E" using assms(5) by unfold_locales
  ultimately have "planning E" by (rule planning.intro)
  from planning.run_returns_evidence [OF this assms(6,7,3)] obtain r ev w' where
    r: "run_trial E True w = Some (Inr (r, Some ev), w')" "receipt_of_trial E r" by blast
  from evidence_run [OF r(1)] r show ?thesis
    by (auto simp: run_closed_loop_trial_def run_closed_loop_trial_with_evidence_def)
qed

lemma admitted_trial_returns_receipt_A1:
  "\<exists>ev w'. run_closed_loop_trial_with_evidence (demo_env demo_faulted_trial Signal_success True (Some demo_A1_manifest))
     fake_world_start = Some (Inr ev, w')"
proof -
  let ?E = "demo_env demo_faulted_trial Signal_success True (Some demo_A1_manifest)"
  have reset: "receipt_init r = Inr r" if "be_reset (en_backend ?E) ctx v = (Inr r, v')" for ctx v r v'
    using smoke.receipts [of demo_faulted_trial Signal_success True "Some demo_A1_manifest", folded demo_env_def, OF that] .
  have infer: "plan_valid p" if "po_infer (en_policy ?E) ob v = (Inr p, v')" for ob v p v'
    using smoke.plans [of demo_faulted_trial Signal_success True "Some demo_A1_manifest", folded demo_env_def, OF that] .
  have valid: "sha_digests (en_hasher ?E)" "run_spec_ok (en_spec ?E)" "trial_ok (en_hasher ?E) (en_trial ?E)"
    using demo_digests demo_spec_ok demo_faulted_ok by simp_all
  have "\<exists>ev w'. run_closed_loop_trial_with_evidence ?E fake_world_start = Some (Inr ev, w') \<and>
      run_closed_loop_trial ?E fake_world_start = Some (Inr (ce_result ev), w') \<and> receipt_of_trial ?E (ce_result ev)"
    by (rule admitted_trial_returns_receipt) (fact valid reset infer demo_faulted_preflight demo_sessions(2))+
  then show ?thesis by blast
qed

text \<open>C28: a receipt says success only for a run that completed: the backend signalled success, both
  resources closed without an exception, the session was finalized, its validation report (if it
  has one) passed, and a restored trial delivered a record at its restoration index.\<close>

theorem success_is_earned:
  assumes "run_closed_loop_trial E w = Some (Inr r, w')" "tr_terminal_status r = SUCCESS"
  shows "\<exists>s. try_block E False (frame_init w) = Some (Inr (Completed r), s) \<and> earned E s"
proof -
  obtain ev where "run_trial E False w = Some (Inr (r, ev), w')"
    using assms(1) by (auto simp: run_closed_loop_trial_def split: option.splits sum.splits)
  from run_success [OF this assms(2)] show ?thesis .
qed

lemma success_is_earned_demo:
  "\<exists>s. fr_backend_signal s = Signal_success \<and> earned (demo_env demo_trial Signal_success False None) s"
proof -
  obtain r w where "run_closed_loop_trial (demo_env demo_trial Signal_success False None) fake_world_start = Some (Inr r, w)"
    "tr_terminal_status r = SUCCESS"
    using demo_success by (auto simp: run_closed_loop_trial_def)
  from success_is_earned [OF this] show ?thesis by (auto simp: earned_def)
qed

text \<open>C29: the runner calls its backend and its policy in the order of their protocol.  Run over a world
  that notes every call, a trial gives the same result as without the notes, and the noted calls are
  accepted by the protocol automaton: the backend is reset first and observed once, every executed
  batch was inferred, every commit follows an execution, the policy is aborted at most once and only
  after its reset, the backend and then the policy are closed exactly once whatever was raised; and
  no more batches are executed than the budget has control cycles.\<close>

theorem runner_follows_protocol:
  "\<exists>out w' calls. run_closed_loop_trial (logged E) (w, []) = Some (out, (w', calls)) \<and>
     run_closed_loop_trial E w = Some (out, w') \<and> run_protocol Fresh calls = Some Closed \<and>
     count_list calls Backend_closed = 1 \<and> count_list calls Policy_closed = 1 \<and> count_list calls Aborted \<le> 1 \<and>
     int (count_list calls Executed) \<le> max 0 (rs_max_control_cycles (en_spec E))"
proof -
  obtain out w' calls where run: "run_trial (logged E) False (w, []) = Some (out, (w', calls))"
    using run_trial_returns [of "logged E" False "(w, [])"] by auto
  note protocol = run_follows [OF run]
  obtain q where "run_closed_loop_trial (logged E) (w, []) = Some (q, (w', calls))"
    using run by (cases out) (auto simp: run_closed_loop_trial_def)
  with erase_run_trial [of E "(w, [])"] protocol run_bounded [OF run] protocol_counts [OF protocol]
  show ?thesis by (auto simp: owed_def)
qed

text \<open>C30: evidence is bound to the run.  When the run with evidence returns, the run without evidence
  returns the receipt of that evidence in the same world, and the evidence passes its own checks, so
  its actions and traces are those the receipt names.\<close>

theorem evidence_is_of_the_run:
  assumes "run_closed_loop_trial_with_evidence E w = Some (Inr ev, w')"
  shows "run_closed_loop_trial E w = Some (Inr (ce_result ev), w') \<and>
    action_trace_sha256 (en_hasher E) (ce_action_entries ev) = tr_action_trace_sha256 (ce_result ev) \<and>
    (\<forall>f. ce_finalization ev = Some f \<longrightarrow>
       df_clean_trace_sha256 f = tr_clean_trace_sha256 (ce_result ev) \<and>
       df_delivered_trace_sha256 f = tr_delivered_trace_sha256 (ce_result ev))"
proof -
  obtain r where r: "run_trial E True w = Some (Inr (r, Some ev), w')"
    using assms by (auto simp: run_closed_loop_trial_with_evidence_def split: option.splits sum.splits)
  from evidence_run [OF r] show ?thesis
    by (auto simp: run_closed_loop_trial_def evidence_init_def split: if_splits option.splits)
qed

lemma evidence_is_of_the_run_demo:
  "\<exists>ev w'. run_closed_loop_trial_with_evidence (demo_env demo_trial Signal_success False None) fake_world_start =
     Some (Inr ev, w') \<and>
     run_closed_loop_trial (demo_env demo_trial Signal_success False None) fake_world_start =
       Some (Inr (ce_result ev), w')"
proof -
  let ?E = "demo_env demo_trial Signal_success False None"
  obtain r ev w' where r: "run_trial ?E True fake_world_start = Some (Inr (r, Some ev), w')"
    using smoke.run_returns_evidence [of demo_trial Signal_success False None fake_world_start, folded demo_env_def,
        OF demo_preflight demo_sessions(1)] demo_trial_ok by auto
  then have "run_closed_loop_trial_with_evidence ?E fake_world_start = Some (Inr ev, w')"
    by (simp add: run_closed_loop_trial_with_evidence_def)
  with evidence_is_of_the_run [OF this] show ?thesis by blast
qed

text \<open>C31: a crash receipt names its cause: either an exception ended the run after its reset was
  attempted, and the receipt has the stage the run was in and the code of the exception (the code
  of a runner violation, the stage followed by \<open>_failed\<close> otherwise), or the run completed and a
  resource could not be closed, and the receipt names the stage \<open>close\<close> and keeps the execution
  status.\<close>

theorem crash_names_its_cause:
  assumes "run_closed_loop_trial E w = Some (Inr r, w')" "tr_terminal_status r = CRASH"
  shows "\<exists>out s. try_block E False (frame_init w) = Some (out, s) \<and>
    (case out of
       Inl e \<Rightarrow> fr_reset_attempted s \<and> tr_failure_stage r = Some (fr_stage s) \<and>
         tr_failure_code r = Some (failure_code_of e (fr_stage s))
     | Inr (Early res) \<Rightarrow> False
     | Inr (Completed r0) \<Rightarrow> fst (close_resources E s) \<noteq> [] \<and> tr_failure_stage r = Some ''close'' \<and>
         tr_execution_status r = tr_execution_status r0)"
proof -
  obtain ev where "run_trial E False w = Some (Inr (r, ev), w')"
    using assms(1) by (auto simp: run_closed_loop_trial_def split: option.splits sum.splits)
  from run_crash [OF this assms(2)] show ?thesis .
qed

lemma crash_names_its_cause_demo:
  "\<exists>r w. run_closed_loop_trial (demo_env demo_trial Signal_success True None) fake_world_start = Some (Inr r, w) \<and>
     tr_failure_stage r = Some ''close''"
proof -
  let ?E = "demo_env demo_trial Signal_success True None"
  obtain r w where r: "run_closed_loop_trial ?E fake_world_start = Some (Inr r, w)" "tr_terminal_status r = CRASH"
    using demo_crash by blast
  obtain r0 s where t: "try_block ?E False (frame_init fake_world_start) = Some (Inr (Completed r0), s)"
    using demo_completed by blast
  from crash_names_its_cause [OF r] t r(1) show ?thesis by auto
qed

section \<open>Trials and receipts as data\<close>

text \<open>C32: from a valid clean trial the paired grid is built exactly when the two fault manifests are
  one operator instance that differs in its stop, the restored one stops at the restoration index,
  the other persists beyond it, and the no-touch system is named with its digests.  Its cells are
  four valid trials with one pair key, in the order clean, faulted, no-touch, restored; the fault
  cells name their manifests and execute the base system, and only the no-touch cell changes it.\<close>

theorem paired_grid_shares_one_pair:
  assumes "trial_ok h clean" "tm_condition clean = CLEAN" "sha_digests h"
  shows "case build_paired_trial_grid h clean fault restore index mode sys ckpt cfg of
      Inl e \<Rightarrow> \<not> grid_request fault restore index sys ckpt cfg
    | Inr (c, f, n, r) \<Rightarrow> grid_request fault restore index sys ckpt cfg \<and> c = clean \<and>
        paired_cells h clean fault restore index mode sys f n r"
  by (rule grid_cells [OF assms(1,2)]) (use assms(3) in \<open>simp add: manifest_sha256_def canonical_hash_def sha_digests_def\<close>)

lemma paired_grid_shares_one_pair_A1:
  "\<exists>f n r. build_paired_trial_grid demo_hasher demo_trial demo_persistent demo_restored 2 VALID_STREAM_RESUME
     ''no-touch'' demo_sha demo_sha = Inr (demo_trial, f, n, r) \<and> pair_key demo_hasher r = pair_key demo_hasher demo_trial"
proof -
  have "tm_condition demo_trial = CLEAN" by (simp add: demo_trial_def)
  from paired_grid_shares_one_pair [where fault = demo_persistent and restore = demo_restored and index = 2
      and mode = VALID_STREAM_RESUME and sys = "''no-touch''" and ckpt = demo_sha and cfg = demo_sha,
      OF demo_trial_ok this demo_digests(1)]
  show ?thesis using demo_grid by (auto simp: paired_cells_def split: sum.splits)
qed

text \<open>C33: the strict JSON views lose nothing: reading back the JSON form of a valid trial manifest, run
  budget or terminal receipt gives it back.\<close>

theorem receipts_json_roundtrip:
  assumes "trial_ok h t" "run_spec_ok s" "result_ok h r"
  shows "trial_from_dict h (trial_to_dict t) = Inr t \<and> run_spec_from_dict (PDict (run_spec_to_dict s)) = Inr s \<and>
    result_from_dict h (PDict (result_to_dict r)) = Inr r"
  using assms trial_reload run_spec_reload result_reload by (simp add: trial_ok_def)

lemma receipts_json_roundtrip_demo:
  "\<exists>r w. run_closed_loop_trial (demo_env demo_trial Signal_success False None) fake_world_start = Some (Inr r, w) \<and>
     result_from_dict demo_hasher (PDict (result_to_dict r)) = Inr r"
proof -
  obtain r w where r: "run_closed_loop_trial (demo_env demo_trial Signal_success False None) fake_world_start = Some (Inr r, w)"
    "receipt_of_trial (demo_env demo_trial Signal_success False None) r"
    using smoke.run_returns_receipt [of demo_trial Signal_success False None fake_world_start, folded demo_env_def,
        OF demo_preflight demo_sessions(1)] demo_trial_ok by auto
  with receipts_json_roundtrip [OF demo_trial_ok demo_spec_ok, of r] show ?thesis by (auto simp: receipt_of_trial_def)
qed

section \<open>Benchmark matrices\<close>

text \<open>C34: a matrix run can be resumed.  For a valid matrix whose documents are within the size limits,
  after any series of runs with budgets of new cells from an untouched directory, an unbounded run
  returns the states and the summary, leaves the directory, and has made the executor calls of one
  uninterrupted run: every cell of the manifest once, in order.\<close>

theorem matrix_resumes_exactly:
  assumes "runnable h sz m f" "sha_digests h" "run_sessions h sz m (logging f) budgets empty_store [] = (st, calls)"
  shows "\<exists>S r r'. run_matrix h sz st m (logging f) None calls = (S, mm_cells m, Inr r) \<and>
    run_matrix h sz empty_store m (logging f) None [] = (S, mm_cells m, Inr r') \<and>
    rr_states r = rr_states r' \<and> rr_summary r = rr_summary r' \<and> rr_summary r \<noteq> None"
  by (rule resumable.resume_agrees [OF resumable.intro]) (fact assms)+

lemma matrix_resumes_exactly_demo:
  "\<exists>S r. run_matrix grid_hasher (\<lambda>v. 100) (fst (run_sessions grid_hasher (\<lambda>v. 100) demo_matrix (logging demo_outcome) [1, 0, 2]
     empty_store [])) demo_matrix (logging demo_outcome) None (snd (run_sessions grid_hasher (\<lambda>v. 100) demo_matrix
     (logging demo_outcome) [1, 0, 2] empty_store [])) = (S, mm_cells demo_matrix, Inr r) \<and> rr_summary r \<noteq> None"
  using matrix_resumes_exactly [OF demo_runnable grid_digests surjective_pairing] by blast

text \<open>C35: a matrix run never replaces or removes a member of its output directory, whatever the executor
  does, whatever is in the directory and whether the run returns or raises: the manifest, the summary
  and every receipt that exist stay as they are, the new receipts have new names, and these are names
  of cells of the manifest.\<close>

theorem matrix_run_keeps_evidence:
  "kept st (fst (run_matrix h sz st m exec budget w)) \<and>
   adds h (set (mm_cells m)) st (fst (run_matrix h sz st m exec budget w))"
  using kept_run_matrix adds_run_matrix by (metis prod.exhaust_sel)

text \<open>C36: a run that returns accounts for every cell of the manifest in order: one state per cell, with
  its address, trial, condition and operator, pending exactly if no receipt of the cell is in the
  directory; executed, reused and pending cells add up to the manifest, no more cells are executed
  than the budget allows, and there is a summary, of exactly these states, exactly if no cell is
  pending.\<close>

theorem matrix_run_accounts_for_every_cell:
  assumes "run_matrix h sz st m exec budget w = (st', w', Inr r)"
  shows "list_all2 (covers h st') (mm_cells m) (rr_states r) \<and>
    rr_executed r + rr_reused r + rr_pending r = int (length (mm_cells m)) \<and>
    (\<forall>n. budget = Some n \<longrightarrow> rr_executed r \<le> n) \<and>
    (st_summary st' \<noteq> None \<longleftrightarrow> rr_pending r = 0) \<and> (rr_summary r = None \<longleftrightarrow> 0 < rr_pending r) \<and>
    (\<forall>t. rr_summary r = Some t \<longrightarrow> ms_cells t = rr_states r)"
  using run_matrix_accounts [OF assms] by blast

lemma matrix_run_accounts_for_every_cell_demo:
  "\<exists>st w r. run_matrix grid_hasher (\<lambda>v. 100) empty_store demo_matrix (logging demo_outcome) None [] = (st, w, Inr r) \<and>
     rr_executed r + rr_reused r + rr_pending r = int (length (mm_cells demo_matrix))"
proof -
  have start: "on_the_way grid_hasher demo_outcome demo_matrix empty_store []" by (simp add: on_the_way_def)
  from demo.last_run [OF this] obtain st w r
    where run: "run_matrix grid_hasher (\<lambda>v. 100) empty_store demo_matrix (logging demo_outcome) None [] = (st, w, Inr r)"
    by blast
  with matrix_run_accounts_for_every_cell [OF run] show ?thesis by blast
qed

text \<open>C37: a manifest of the primary matrix has 142 cells, one clean, one no-touch, 70 faulted and 70
  restored, and for every operator and level exactly one faulted and exactly one restored cell.\<close>

theorem primary_matrix_is_complete:
  assumes "matrix_manifest_init h m = Inr n" "mm_kind m = PRIMARY"
  shows "map (\<lambda>k. count_condition k (mm_cells m)) [CLEAN, NO_TOUCH, FAULTED, RESTORED] = [1, 1, 70, 70] \<and>
    length (mm_cells m) = 142 \<and>
    (\<forall>k\<in>{FAULTED, RESTORED}. \<forall>(op, level)\<in>set PRIMARY_GRID. \<exists>!c. c \<in> set (mm_cells m) \<and> at_dose k op level c)"
proof -
  note inventory = manifest_init_fields(4) [OF assms(1)]
  note covers = rows_cover [OF inventory]
  have once: "\<exists>!c. c \<in> set (mm_cells m) \<and> at_dose k op level c"
    if "k \<in> {FAULTED, RESTORED}" "(op, level) \<in> set PRIMARY_GRID" for k op level
    using that(1) covered_once [OF inventory assms(2) covers(1) that(2)] covered_once [OF inventory assms(2) covers(2) that(2)]
    by (elim insertE emptyE) simp_all
  have counts: "map (\<lambda>k. count_condition k (mm_cells m)) [CLEAN, NO_TOUCH, FAULTED, RESTORED] = [1, 1, 70, 70]"
    using primary_inventory [OF inventory assms(2)] inventory_fields(5,6) [OF inventory] by simp
  show ?thesis
  proof (intro conjI ballI)
    fix k p assume "k \<in> {FAULTED, RESTORED}" "p \<in> set PRIMARY_GRID"
    then show "case p of (op, level) \<Rightarrow> \<exists>!c. c \<in> set (mm_cells m) \<and> at_dose k op level c"
      by (cases p) (simp only: prod.case once)
  qed (rule counts, rule primary_inventory(1) [OF inventory assms(2)])
qed

lemma primary_matrix_is_complete_demo: "length (mm_cells demo_primary) = 142"
proof -
  have "mm_kind demo_primary = PRIMARY" by (simp add: demo_primary_def demo_grid_of_def)
  with primary_matrix_is_complete [OF demo_primary_valid] show ?thesis by blast
qed

section \<open>Reports\<close>

text \<open>C38: recovery evidence holds the recovery of the trial.  Evidence that can be built carries the first
  lag after the restoration from which the quality stays within the tolerance of the clean envelope for
  the required number of samples, and no lag exactly if there is none.\<close>

theorem evidence_holds_first_recovery:
  assumes "recovery_evidence_init e = Inr f"
  shows "f = e \<and>
    (let recovered = recovered_at (re_restored_quality e) (re_clean_envelope e) (rb_restoration_index (re_binding e))
       (re_tolerance e) (re_consecutive_steps e) in
     case re_recovery_lag_steps e of
       Some lag \<Rightarrow> recovered lag \<and> (\<forall>j<lag. \<not> recovered j)
     | None \<Rightarrow> \<forall>lag. \<not> recovered lag)"
  using recovery_evidence_init_id [OF assms] recovery_lag_first [OF recovery_evidence_valid(1) [OF assms]]
  by (simp add: Let_def)

lemma evidence_holds_first_recovery_demo:
  "recovered_at [0, 0, 2, 0, 4, 5] [0, 1, 2, 3, 4, 5] 1 (1 / 2) 2 3 \<and>
   \<not> recovered_at [0, 0, 2, 0, 4, 5] [0, 1, 2, 3, 4, 5] 1 (1 / 2) 2 1"
  using evidence_holds_first_recovery [OF demo_evidence_ok]
  by (simp add: demo_evidence_def demo_binding_def Let_def)

text \<open>C39: the coverage of a report can always be stated, and it is the coverage of the outcomes.  Whenever
  the outcomes can be indexed under a valid specification, the coverage summary is built: none of its own
  checks fails, it counts every outcome and every terminal status, the primary grid is complete exactly if
  every pair, primary operator and primary level was observed, and its scores exactly if at every such
  point the faulted outcome and its clean baseline were scored.\<close>

theorem coverage_accounts_for_outcomes:
  assumes "index_records spec records = Inr (clean, no_touch, faults)" "reporting_spec_ok spec"
  shows "\<exists>c. build_coverage_summary records clean faults spec = Inr c \<and>
    co_requested c = int (length records) \<and> co_eligible c = int (count_where oc_score_eligible records) \<and>
    co_terminal_counts c = terminal_counts records \<and> sum_list (map snd (terminal_counts records)) = int (length records) \<and>
    (co_grid_complete c \<longleftrightarrow> primary_grid spec clean \<subseteq> primary_point ` {r \<in> set records. primary_fault spec r}) \<and>
    (co_score_complete c \<longleftrightarrow>
       primary_grid spec clean \<subseteq> primary_point ` {r \<in> set records. primary_fault spec r \<and> fully_scored clean r})"
  by (rule coverage_total [OF index_records_indexes [OF assms(1)] assms(2)]) (use terminal_counts_sum in blast)

lemma coverage_accounts_for_outcomes_demo:
  "\<exists>clean faults c. build_coverage_summary demo_outcomes clean faults demo_report_spec = Inr c \<and> co_requested c = 7"
proof -
  obtain clean no_touch faults where "index_records demo_report_spec demo_outcomes = Inr (clean, no_touch, faults)"
    using demo_index by (metis prod_cases3)
  from coverage_accounts_for_outcomes [OF this demo_report_spec_ok] show ?thesis by (auto simp: demo_outcomes_def)
qed

text \<open>C40: a report holds every fault.  When the aggregation returns, no cell was reported twice, the operator
  cells are those of the faulted outcomes in order, each with the number of its outcomes, the worst cell is
  the least successful of the scored primary cells, and at every level the cells whose adjusted p-value is
  within it are those Holm's step-down test rejects.\<close>

theorem report_holds_every_fault:
  assumes "aggregate_benchmark S records spec = Inr b"
  shows "distinct (map outcome_cell_key records) \<and>
    sorted (map cell_point (bs_cells b)) \<and> distinct (map cell_point (bs_cells b)) \<and>
    cell_point ` set (bs_cells b) = {k. \<exists>r\<in>set records. faulted_under k r} \<and>
    (\<forall>c\<in>set (bs_cells b). op_requested c = int (count_where (faulted_under (cell_point c)) records)) \<and>
    bs_worst b \<in> set (scored_cells spec (bs_cells b)) \<and>
    (\<forall>c\<in>set (scored_cells spec (bs_cells b)). cell_rank (bs_worst b) \<le> cell_rank c) \<and>
    (\<forall>alpha\<ge>0. rejected_cells alpha (bs_cells b) = set (step_down alpha (holm_order (raw_p_values (bs_cells b)))))"
  using assms by (rule report_parts)

lemma report_holds_every_fault_demo:
  "\<exists>b. aggregate_benchmark demo_sampler demo_outcomes demo_report_spec = Inr b \<and>
     cell_point ` set (bs_cells b) = {k. \<exists>r\<in>set demo_outcomes. faulted_under k r}"
proof -
  obtain b where b: "aggregate_benchmark demo_sampler demo_outcomes demo_report_spec = Inr b"
    using demo_report by blast
  with report_holds_every_fault [OF b] show ?thesis by blast
qed

end
